(* ===== verification/Prelude.thy ===== *)
theory Prelude
  imports Main "HOL-Library.AList" "HOL-Library.Word"
begin

text \<open>
  Shared foundations of the development.

  \<^item> \<open>exn\<close> is the failure side of an operation: a Rust error value, or a panic.
  \<^item> \<open>act\<close> is an operation with state, result and failure: Rust's \<open>async fn\<close> returning
    \<open>Result\<close>, run to completion. \<open>ok\<close>, \<open>raise\<close>, \<open>and_then\<close>, \<open>map_err\<close> are the
    pieces the sources are built from: \<open>?\<close> is \<open>and_then\<close>, \<open>.map_err\<close> is
    \<open>map_err\<close>.
  \<^item> \<open>wp\<close> is the weakest precondition of an operation for a postcondition on success
    and one on failure. Its equations are collected in \<open>wp_simps\<close>, so the
    component proofs reduce to simplification.
  \<^item> The last part holds the arithmetic of Rust's fixed-width integers on \<open>int\<close>.
\<close>

named_theorems wp_simps "weakest-precondition equations of the operations"
named_theorems frame_simps "what an operation leaves unchanged"

section \<open>Operations with state and failure\<close>

datatype 'e exn = Error 'e | Panic

type_synonym ('s, 'e, 'a) act = "'s \<Rightarrow> ('e exn + 'a) \<times> 's"

definition ok :: "'a \<Rightarrow> ('s, 'e, 'a) act" where
  "ok a s = (Inr a, s)"

definition raise :: "'e \<Rightarrow> ('s, 'e, 'a) act" where
  "raise e s = (Inl (Error e), s)"

definition panic :: "('s, 'e, 'a) act" where
  "panic s = (Inl Panic, s)"

definition and_then :: "('s, 'e, 'a) act \<Rightarrow> ('a \<Rightarrow> ('s, 'e, 'b) act) \<Rightarrow> ('s, 'e, 'b) act" where
  "and_then m f s =
     (case m s of
        (Inl x, s') \<Rightarrow> (Inl x, s')
      | (Inr a, s') \<Rightarrow> f a s')"

text \<open>\<open>map_exn\<close>, the map function of the datatype, is \<open>.map_err(g)\<close> on the failure side.\<close>

definition map_err :: "('e \<Rightarrow> 'f) \<Rightarrow> ('s, 'e, 'a) act \<Rightarrow> ('s, 'f, 'a) act" where
  "map_err g m s =
     (case m s of
        (Inl x, s') \<Rightarrow> (Inl (map_exn g x), s')
      | (Inr a, s') \<Rightarrow> (Inr a, s'))"

text \<open>\<open>let _ = m.await\<close>: the error is dropped, a panic is not.\<close>

definition ignore_err :: "('s, 'e, 'a) act \<Rightarrow> ('s, 'f, unit) act" where
  "ignore_err m s =
     (case m s of
        (Inl (Error e), s') \<Rightarrow> (Inr (), s')
      | (Inl Panic, s') \<Rightarrow> (Inl Panic, s')
      | (Inr a, s') \<Rightarrow> (Inr (), s'))"

text \<open>\<open>match m.await { Ok(..) => .., Err(..) => .. }\<close>: the error becomes a value.\<close>

definition try_err :: "('s, 'e, 'a) act \<Rightarrow> ('s, 'f, 'e + 'a) act" where
  "try_err m s =
     (case m s of
        (Inl (Error e), s') \<Rightarrow> (Inr (Inl e), s')
      | (Inl Panic, s') \<Rightarrow> (Inl Panic, s')
      | (Inr a, s') \<Rightarrow> (Inr (Inr a), s'))"

definition gets :: "('s \<Rightarrow> 'a) \<Rightarrow> ('s, 'e, 'a) act" where
  "gets f s = (Inr (f s), s)"

definition modify :: "('s \<Rightarrow> 's) \<Rightarrow> ('s, 'e, unit) act" where
  "modify f s = (Inr (), f s)"

text \<open>\<open>opt.ok_or_else(|| e)?\<close> and the panicking \<open>unwrap\<close> of a computation that may panic.\<close>

definition ok_or :: "'e \<Rightarrow> 'a option \<Rightarrow> ('s, 'e, 'a) act" where
  "ok_or e x = (case x of None \<Rightarrow> raise e | Some a \<Rightarrow> ok a)"

definition or_panic :: "'a option \<Rightarrow> ('s, 'e, 'a) act" where
  "or_panic x = (case x of None \<Rightarrow> panic | Some a \<Rightarrow> ok a)"

text \<open>An operation on a part of the state.\<close>

definition zoom :: "('s \<Rightarrow> 't) \<Rightarrow> ('t \<Rightarrow> 's \<Rightarrow> 's) \<Rightarrow> ('t, 'e, 'a) act \<Rightarrow> ('s, 'e, 'a) act" where
  "zoom get put m s = (case m (get s) of (r, t) \<Rightarrow> (r, put t s))"

subsection \<open>Weakest preconditions\<close>

definition wp ::
  "('s, 'e, 'a) act \<Rightarrow> ('a \<Rightarrow> 's \<Rightarrow> bool) \<Rightarrow> ('e exn \<Rightarrow> 's \<Rightarrow> bool) \<Rightarrow> 's \<Rightarrow> bool" where
  "wp m Q R s = (case m s of (Inl x, s') \<Rightarrow> R x s' | (Inr a, s') \<Rightarrow> Q a s')"

lemma wp_ok [wp_simps]: "wp (ok a) Q R s = Q a s"
  by (simp add: wp_def ok_def)

lemma wp_raise [wp_simps]: "wp (raise e) Q R s = R (Error e) s"
  by (simp add: wp_def raise_def)

lemma wp_panic [wp_simps]: "wp panic Q R s = R Panic s"
  by (simp add: wp_def panic_def)

lemma wp_and_then [wp_simps]:
  "wp (and_then m f) Q R s = wp m (\<lambda>a. wp (f a) Q R) R s"
  by (auto simp: wp_def and_then_def split: prod.splits sum.splits)

lemma wp_map_err [wp_simps]:
  "wp (map_err g m) Q R s = wp m Q (\<lambda>x. R (map_exn g x)) s"
  by (auto simp: wp_def map_err_def split: prod.splits sum.splits)

lemma wp_ignore_err [wp_simps]:
  "wp (ignore_err m) Q R s =
     wp m (\<lambda>_. Q ()) (\<lambda>x. case x of Error e \<Rightarrow> Q () | Panic \<Rightarrow> R Panic) s"
  by (auto simp: wp_def ignore_err_def split: prod.splits sum.splits exn.splits)

lemma wp_try_err [wp_simps]:
  "wp (try_err m) Q R s =
     wp m (\<lambda>a. Q (Inr a)) (\<lambda>x. case x of Error e \<Rightarrow> Q (Inl e) | Panic \<Rightarrow> R Panic) s"
  by (auto simp: wp_def try_err_def split: prod.splits sum.splits exn.splits)

lemma wp_gets [wp_simps]: "wp (gets f) Q R s = Q (f s) s"
  by (simp add: wp_def gets_def)

lemma wp_modify [wp_simps]: "wp (modify f) Q R s = Q () (f s)"
  by (simp add: wp_def modify_def)

lemma wp_ok_or [wp_simps]:
  "wp (ok_or e x) Q R s = (case x of None \<Rightarrow> R (Error e) s | Some a \<Rightarrow> Q a s)"
  by (auto simp: ok_or_def wp_simps split: option.splits)

lemma wp_or_panic [wp_simps]:
  "wp (or_panic x) Q R s = (case x of None \<Rightarrow> R Panic s | Some a \<Rightarrow> Q a s)"
  by (auto simp: or_panic_def wp_simps split: option.splits)

lemma wp_zoom [wp_simps]:
  "wp (zoom get put m) Q R s = wp m (\<lambda>a t. Q a (put t s)) (\<lambda>x t. R x (put t s)) (get s)"
  by (auto simp: wp_def zoom_def split: prod.splits sum.splits)

lemma wp_if [wp_simps]: "wp (if b then m else m') Q R s = (if b then wp m Q R s else wp m' Q R s)"
  by simp

lemma wp_case_option [wp_simps]:
  "wp (case x of None \<Rightarrow> m | Some a \<Rightarrow> f a) Q R s =
     (case x of None \<Rightarrow> wp m Q R s | Some a \<Rightarrow> wp (f a) Q R s)"
  by (simp split: option.splits)

text \<open>The rule of consequence, and the way back from a precondition to a run.\<close>

lemma wp_mono:
  assumes "wp m Q R s" and "\<And>a s'. Q a s' \<Longrightarrow> Q' a s'" and "\<And>x s'. R x s' \<Longrightarrow> R' x s'"
  shows "wp m Q' R' s"
  using assms by (auto simp: wp_def split: prod.splits sum.splits)

lemma wp_any: "(\<And>a t. Q a t) \<Longrightarrow> (\<And>x t. R x t) \<Longrightarrow> wp m Q R s"
  by (auto simp: wp_def split: prod.splits sum.splits)

lemma wp_conj:
  "wp m (\<lambda>a s'. Q a s' \<and> Q' a s') (\<lambda>x s'. R x s' \<and> R' x s') s = (wp m Q R s \<and> wp m Q' R' s)"
  by (auto simp: wp_def split: prod.splits sum.splits)

lemma wpD_ok: "wp m Q R s \<Longrightarrow> m s = (Inr a, s') \<Longrightarrow> Q a s'"
  by (simp add: wp_def)

lemma wpD_err: "wp m Q R s \<Longrightarrow> m s = (Inl x, s') \<Longrightarrow> R x s'"
  by (simp add: wp_def)

lemma wpI: "(\<And>a s'. m s = (Inr a, s') \<Longrightarrow> Q a s') \<Longrightarrow>
    (\<And>x s'. m s = (Inl x, s') \<Longrightarrow> R x s') \<Longrightarrow> wp m Q R s"
  by (auto simp: wp_def split: prod.splits sum.splits)

subsection \<open>Monad laws\<close>

lemma and_then_ok [simp]: "and_then (ok a) f = f a"
  by (auto simp: and_then_def ok_def fun_eq_iff)

lemma and_then_raise [simp]: "and_then (raise e) f = raise e"
  by (auto simp: and_then_def raise_def fun_eq_iff)

lemma and_then_assoc: "and_then (and_then m f) g = and_then m (\<lambda>a. and_then (f a) g)"
  by (auto simp: and_then_def fun_eq_iff split: prod.splits sum.splits)

section \<open>Fixed-width integers on \<open>int\<close>\<close>

text \<open>
  \<open>i64\<close>, \<open>i32\<close> and \<open>u64\<close> values are integers in range; an operation that overflows wraps, as
  Rust does in a release build.
\<close>

definition wrap_i64 :: "int \<Rightarrow> int" where
  "wrap_i64 x = (x + 2 ^ 63) mod 2 ^ 64 - 2 ^ 63"

definition wrap_i32 :: "int \<Rightarrow> int" where
  "wrap_i32 x = (x + 2 ^ 31) mod 2 ^ 32 - 2 ^ 31"

definition is_i64 :: "int \<Rightarrow> bool" where
  "is_i64 x \<longleftrightarrow> - (2 ^ 63) \<le> x \<and> x < 2 ^ 63"

lemma wrap_i64_id [simp]: "is_i64 x \<Longrightarrow> wrap_i64 x = x"
  by (simp add: wrap_i64_def is_i64_def)

lemma wrap_i64_range: "is_i64 (wrap_i64 x)"
  by (simp add: wrap_i64_def is_i64_def)

section \<open>Lists\<close>

text \<open>The last \<open>n\<close> elements of a list, in order: what \<open>split_off(len - n)\<close> returns.\<close>

definition last_n :: "nat \<Rightarrow> 'a list \<Rightarrow> 'a list" where
  "last_n n xs = drop (length xs - n) xs"

lemma length_last_n [simp]: "length (last_n n xs) = min n (length xs)"
  by (auto simp: last_n_def)

lemma last_n_id [simp]: "length xs \<le> n \<Longrightarrow> last_n n xs = xs"
  by (simp add: last_n_def)

lemma set_last_n: "set (last_n n xs) \<subseteq> set xs"
  by (simp add: last_n_def set_drop_subset)

lemma last_last_n: "0 < n \<Longrightarrow> xs \<noteq> [] \<Longrightarrow> last (last_n n xs) = last xs"
  by (auto simp: last_n_def)

end
