(* ===== verification/Rust_Std.thy ===== *)
theory Rust_Std
  imports Prelude "HOL-Library.Sublist"
begin

text \<open>
  The parts of Rust's standard library the sources use on strings and integers.

  A Rust \<open>str\<close> is its UTF-8 byte sequence, a \<open>string\<close> of HOL (whose characters are
  bytes): \<open>len\<close> counts bytes, \<open>chars\<close> splits the bytes into code points, and slicing by a
  byte index that is not on a code point boundary panics (\<open>None\<close>). White space is the
  Unicode property \<open>White_Space\<close>, in full. Lower-casing is exact on ASCII text; for other
  text the Unicode tables are a parameter \<open>ul\<close> of every definition that lower-cases.
\<close>

section \<open>UTF-8 strings\<close>

definition unwrap_or :: "'a \<Rightarrow> 'a option \<Rightarrow> 'a" where
  "unwrap_or d x = (case x of Some a \<Rightarrow> a | None \<Rightarrow> d)"

definition byte :: "char \<Rightarrow> nat" where
  "byte c = of_char c"

definition is_cont :: "char \<Rightarrow> bool" where
  "is_cont c \<longleftrightarrow> 128 \<le> byte c \<and> byte c < 192"

function chars :: "string \<Rightarrow> string list" where
  "chars [] = []"
| "chars (c # cs) = (c # takeWhile is_cont cs) # chars (dropWhile is_cont cs)"
  by pat_completeness auto
termination
  by (relation "measure length") (auto simp: length_dropWhile_le less_Suc_eq_le)

lemma concat_chars [simp]: "concat (chars s) = s"
  by (induction s rule: chars.induct) simp_all

lemma chars_nonempty: "u \<in> set (chars s) \<Longrightarrow> u \<noteq> []"
  by (induction s rule: chars.induct) auto

text \<open>\<open>char::is_whitespace\<close>, on the bytes of one code point.\<close>

definition whitespace_codes :: "nat list list" where
  "whitespace_codes =
     [[9], [10], [11], [12], [13], [32], [194, 133], [194, 160], [225, 154, 128]] @
     map (\<lambda>n. [226, 128, n]) ([128..<139] @ [168, 169, 175]) @
     [[226, 129, 159], [227, 128, 128]]"

definition is_whitespace :: "string \<Rightarrow> bool" where
  "is_whitespace u \<longleftrightarrow> map byte u \<in> set whitespace_codes"

definition trim_chars :: "string list \<Rightarrow> string list" where
  "trim_chars us = rev (dropWhile is_whitespace (rev (dropWhile is_whitespace us)))"

definition trim :: "string \<Rightarrow> string" where
  "trim s = concat (trim_chars (chars s))"

definition is_char_boundary :: "string \<Rightarrow> nat \<Rightarrow> bool" where
  "is_char_boundary s n \<longleftrightarrow>
     n = 0 \<or> n = length s \<or> (n < length s \<and> \<not> is_cont (s ! n))"

text \<open>\<open>&s[..n]\<close>: a panic unless \<open>n\<close> is a code point boundary of \<open>s\<close>.\<close>

definition slice_to :: "string \<Rightarrow> nat \<Rightarrow> string option" where
  "slice_to s n = (if is_char_boundary s n then Some (take n s) else None)"

definition is_ascii :: "string \<Rightarrow> bool" where
  "is_ascii s \<longleftrightarrow> list_all (\<lambda>c. byte c < 128) s"

definition ascii_lower :: "char \<Rightarrow> char" where
  "ascii_lower c = (if 65 \<le> byte c \<and> byte c \<le> 90 then char_of (byte c + 32) else c)"

definition to_lowercase :: "(string \<Rightarrow> string) \<Rightarrow> string \<Rightarrow> string" where
  "to_lowercase ul s = (if is_ascii s then map ascii_lower s else ul s)"

fun contains :: "string \<Rightarrow> string \<Rightarrow> bool" where
  "contains [] needle = (needle = [])"
| "contains (c # cs) needle = (take (length needle) (c # cs) = needle \<or> contains cs needle)"

lemma contains_sublist: "contains hay needle = sublist needle hay"
proof (induction hay)
  case Nil
  then show ?case by simp
next
  case (Cons c cs)
  have "take (length needle) (c # cs) = needle \<longleftrightarrow> prefix needle (c # cs)"
    by (metis append_eq_conv_conj prefix_def take_is_prefix)
  with Cons show ?case by (simp add: sublist_Cons_right)
qed

lemma is_ascii_not_cont: "is_ascii s \<Longrightarrow> c \<in> set s \<Longrightarrow> \<not> is_cont c"
  by (auto simp: is_ascii_def is_cont_def list_all_iff)

lemma is_ascii_append [simp]: "is_ascii (s @ t) \<longleftrightarrow> is_ascii s \<and> is_ascii t"
  by (simp add: is_ascii_def)

lemma slice_to_ascii: "is_ascii s \<Longrightarrow> n \<le> length s \<Longrightarrow> slice_to s n = Some (take n s)"
  by (auto simp: slice_to_def is_char_boundary_def is_ascii_not_cont nth_mem)

lemma slice_to_length: "slice_to s n = Some t \<Longrightarrow> length t \<le> n \<and> prefix t s"
  by (auto simp: slice_to_def take_is_prefix split: if_splits)

lemma chars_append_clean:
  "t = [] \<or> \<not> is_cont (hd t) \<Longrightarrow> chars (s @ t) = chars s @ chars t"
proof (induction s rule: chars.induct)
  case 1
  then show ?case by simp
next
  case (2 c cs)
  show ?case
  proof (cases "\<exists>x\<in>set cs. \<not> is_cont x")
    case True
    then have "dropWhile is_cont (cs @ t) = dropWhile is_cont cs @ t"
      and "takeWhile is_cont (cs @ t) = takeWhile is_cont cs"
      by (auto simp: dropWhile_append1 takeWhile_append1)
    with 2 show ?thesis by simp
  next
    case False
    then have all: "\<And>x. x \<in> set cs \<Longrightarrow> is_cont x" by auto
    then have 1: "dropWhile is_cont (cs @ t) = t" and 2: "takeWhile is_cont (cs @ t) = cs"
      using "2.prems" by (cases t; simp add: dropWhile_append2 takeWhile_append2)+
    from all have 3: "dropWhile is_cont cs = []" and 4: "takeWhile is_cont cs = cs"
      by (auto simp: takeWhile_eq_all_conv)
    have "chars ((c # cs) @ t) = (c # cs) # chars t"
      by (simp only: append_Cons chars.simps 1 2)
    moreover have "chars (c # cs) = [c # cs]"
      by (simp only: chars.simps 3 4)
    ultimately show ?thesis by (simp only: append.simps)
  qed
qed

lemma chars_ascii: "is_ascii s \<Longrightarrow> chars s = map (\<lambda>c. [c]) s"
proof (induction s rule: chars.induct)
  case (2 c cs)
  then have "is_ascii cs" by (simp add: is_ascii_def)
  then have "takeWhile is_cont cs = []" "dropWhile is_cont cs = cs"
    using is_ascii_not_cont [of cs] by (cases cs; simp)+
  with 2 \<open>is_ascii cs\<close> show ?case by simp
qed simp

lemma concat_take_ascii: "is_ascii s \<Longrightarrow> concat (take n (chars s)) = take n s"
  by (simp add: chars_ascii take_map)

lemma is_ascii_concat: "is_ascii (concat us) \<longleftrightarrow> list_all is_ascii us"
  by (induction us) (auto simp: is_ascii_def)

lemma is_ascii_subset: "set t \<subseteq> set s \<Longrightarrow> is_ascii s \<Longrightarrow> is_ascii t"
  by (auto simp: is_ascii_def list_all_iff)

lemma is_ascii_chars: "is_ascii s \<longleftrightarrow> list_all is_ascii (chars s)"
  by (subst is_ascii_concat [symmetric]) simp

lemma is_ascii_trim: "is_ascii s \<Longrightarrow> is_ascii (trim s)"
  unfolding trim_def is_ascii_concat is_ascii_chars [of s] trim_chars_def
  by (auto simp: list_all_iff dest!: set_dropWhileD)

lemma is_ascii_take: "is_ascii s \<Longrightarrow> is_ascii (take n s)"
  by (auto simp: is_ascii_def list_all_iff dest: in_set_takeD)

lemma length_trim_le: "length (trim s) \<le> length s"
proof -
  have "length (concat (dropWhile P us)) \<le> length (concat us)" for P and us :: "string list"
    by (induction us) auto
  moreover have "length (concat (rev us)) = length (concat us)" for us :: "string list"
    by (induction us) auto
  ultimately have "length (concat (trim_chars us)) \<le> length (concat us)" for us
    unfolding trim_chars_def by (metis le_trans)
  from this [of "chars s"] show ?thesis by (simp add: trim_def)
qed

section \<open>Decimal numbers\<close>

definition digit :: "nat \<Rightarrow> char" where
  "digit n = char_of (48 + n)"

fun show_nat :: "nat \<Rightarrow> string" where
  "show_nat n = (if n < 10 then [digit n] else show_nat (n div 10) @ [digit (n mod 10)])"

declare show_nat.simps [simp del]

definition show_int :: "int \<Rightarrow> string" where
  "show_int i = (if i < 0 then CHR ''-'' # show_nat (nat (- i)) else show_nat (nat i))"

definition is_digit :: "char \<Rightarrow> bool" where
  "is_digit c \<longleftrightarrow> 48 \<le> byte c \<and> byte c \<le> 57"

definition digits_val :: "string \<Rightarrow> nat" where
  "digits_val = foldl (\<lambda>acc c. 10 * acc + (byte c - 48)) 0"

text \<open>\<open>str::parse::<i64>\<close>: an optional sign, then one or more digits, the value in range.\<close>

definition parse_i64 :: "string \<Rightarrow> int option" where
  "parse_i64 s =
     (let (neg, ds) =
        (case s of
           [] \<Rightarrow> (False, [])
         | c # cs \<Rightarrow> if c = CHR ''-'' then (True, cs) else if c = CHR ''+'' then (False, cs) else (False, s));
        v = (if neg then - int (digits_val ds) else int (digits_val ds))
      in if ds \<noteq> [] \<and> list_all is_digit ds \<and> is_i64 v then Some v else None)"

lemma byte_digit [simp]: "n < 10 \<Longrightarrow> byte (digit n) = 48 + n"
  by (simp add: byte_def digit_def)

lemma is_digit_digit [simp]: "n < 10 \<Longrightarrow> is_digit (digit n)"
  by (simp add: is_digit_def)

lemma show_nat_digits: "list_all is_digit (show_nat n) \<and> show_nat n \<noteq> []"
proof (induction n rule: show_nat.induct)
  case (1 n)
  then show ?case by (subst (1 2) show_nat.simps) auto
qed

lemma digits_val_show_nat [simp]: "digits_val (show_nat n) = n"
proof (induction n rule: show_nat.induct)
  case (1 n)
  show ?case
  proof (cases "n < 10")
    case True
    then show ?thesis by (subst show_nat.simps) (simp add: digits_val_def)
  next
    case False
    with 1 have "digits_val (show_nat (n div 10)) = n div 10" by simp
    with False show ?thesis
      by (subst show_nat.simps) (simp add: digits_val_def mult.commute)
  qed
qed

lemma show_nat_hd: "c \<in> set (show_nat n) \<Longrightarrow> is_digit c"
  using show_nat_digits by (auto simp: list_all_iff)

lemma sign_not_digit: "\<not> is_digit (CHR ''-'')" "\<not> is_digit (CHR ''+'')" "\<not> is_digit (CHR ''|'')"
  by (auto simp: is_digit_def byte_def)

lemma parse_show_i64: "is_i64 i \<Longrightarrow> parse_i64 (show_int i) = Some i"
proof -
  assume i: "is_i64 i"
  show ?thesis
  proof (cases "i < 0")
    case True
    with i show_nat_digits [of "nat (- i)"] show ?thesis
      by (simp add: parse_i64_def show_int_def)
  next
    case False
    obtain c cs where c: "show_nat (nat i) = c # cs"
      using show_nat_digits [of "nat i"] by (cases "show_nat (nat i)") auto
    then have "is_digit c" using show_nat_hd [of c "nat i"] by simp
    with sign_not_digit have "c \<noteq> CHR ''-''" "c \<noteq> CHR ''+''" by auto
    with False i c show_nat_digits [of "nat i"] digits_val_show_nat [of "nat i"] show ?thesis
      by (simp add: parse_i64_def show_int_def)
  qed
qed

lemma show_int_inj: "show_int i = show_int j \<Longrightarrow> i = j"
proof -
  assume eq: "show_int i = show_int j"
  have neq: "CHR ''-'' # s \<noteq> show_nat n" for s n
    using show_nat_hd [of "CHR ''-''" n] sign_not_digit by (metis list.set_intros(1))
  show ?thesis
    using eq neq neq [symmetric]
    by (auto simp: show_int_def split: if_splits dest: arg_cong [where f = digits_val])
qed

lemma show_int_no_bar: "CHR ''|'' \<notin> set (show_int i)"
  using sign_not_digit show_nat_hd by (auto simp: show_int_def)

section \<open>Machine integers of the sources\<close>

type_synonym u64 = "64 word"

text \<open>\<open>u64::saturating_mul\<close>, \<open>1u64 << k\<close> (the shift count taken modulo 64, as a release
  build does) and \<open>x as u32\<close> of an \<open>i64\<close>.\<close>

definition saturating_mul_u64 :: "u64 \<Rightarrow> u64 \<Rightarrow> u64" where
  "saturating_mul_u64 a b =
     (if unat a * unat b < 2 ^ 64 then a * b else word_of_nat (2 ^ 64 - 1))"

definition shl_u64 :: "u64 \<Rightarrow> nat \<Rightarrow> u64" where
  "shl_u64 a k = push_bit (k mod 64) a"

definition i64_as_u32 :: "int \<Rightarrow> nat" where
  "i64_as_u32 i = nat (i mod 2 ^ 32)"

lemma unat_saturating_mul:
  "unat (saturating_mul_u64 a b) = min (unat a * unat b) (2 ^ 64 - 1)"
proof (cases "unat a * unat b < 2 ^ 64")
  case True
  then show ?thesis
    by (simp add: saturating_mul_u64_def unat_word_ariths(2))
next
  case False
  then show ?thesis
    by (simp add: saturating_mul_u64_def unat_of_nat)
qed

lemma unat_shl_one: "k < 64 \<Longrightarrow> unat (shl_u64 1 k) = 2 ^ k"
proof -
  assume "k < 64"
  then have "(2 :: nat) ^ k < 2 ^ 64" by (rule power_strict_increasing) simp
  then have "unat (of_nat (2 ^ k) :: u64) = 2 ^ k" by (simp only: unat_of_nat) simp
  then have "unat ((2 :: u64) ^ k) = 2 ^ k" by simp
  with \<open>k < 64\<close> show ?thesis by (simp add: shl_u64_def push_bit_eq_mult)
qed

end
