(* ===== verification/Breaker.thy ===== *)
theory Breaker
  imports Prelude "HOL-Library.Sublist"
begin

text \<open>
  The contract of a circuit breaker that counts consecutive failures: it is what the job worker and
  the provider router implement and what their clients rely on. \<open>count\<close> is the number of failures
  since the last success, and \<open>is_open\<close> says that new work is refused. A failure carries the time at
  which it is recorded.
\<close>

locale counting_breaker =
  fixes count :: "'s \<Rightarrow> nat"
    and is_open :: "'s \<Rightarrow> bool"
    and failure :: "'t \<Rightarrow> 's \<Rightarrow> 's"
    and success :: "'s \<Rightarrow> 's"
    and threshold :: nat
  assumes threshold_pos: "0 < threshold"
    and count_success: "count (success s) = 0"
    and closed_success: "\<not> is_open (success s)"
    and count_failure: "count s < threshold \<Longrightarrow> count (failure t s) = Suc (count s)"
    and closed_failure: "\<not> is_open s \<Longrightarrow> Suc (count s) < threshold \<Longrightarrow> \<not> is_open (failure t s)"
    and open_failure: "Suc (count s) = threshold \<Longrightarrow> is_open (failure t s)"
begin

text \<open>An outcome is the time of a failure, or \<open>None\<close> for a success.\<close>

definition outcome :: "'t option \<Rightarrow> 's \<Rightarrow> 's" where
  "outcome r s = (case r of None \<Rightarrow> success s | Some t \<Rightarrow> failure t s)"

definition outcomes :: "'t option list \<Rightarrow> 's \<Rightarrow> 's" where
  "outcomes os s = fold outcome os s"

lemma outcomes_simps [simp]:
  "outcomes [] s = s" "outcomes (os @ [None]) s = success (outcomes os s)"
  "outcomes (os @ [Some t]) s = failure t (outcomes os s)"
  by (simp_all add: outcomes_def outcome_def)

text \<open>The number of failures at the end of a list of outcomes.\<close>

definition trailing :: "'t option list \<Rightarrow> nat" where
  "trailing os = foldl (\<lambda>k r. if r = None then 0 else Suc k) 0 os"

lemma trailing_simps [simp]:
  "trailing [] = 0" "trailing (os @ [None]) = 0" "trailing (os @ [Some t]) = Suc (trailing os)"
  by (simp_all add: trailing_def)

lemma trailing_suffix: "\<exists>us. map (\<lambda>r. r \<noteq> None) os = us @ replicate (trailing os) True"
proof (induction os rule: rev_induct)
  case (snoc r os)
  then show ?case
    by (cases r) (auto simp flip: replicate_append_same)
qed simp

lemma trailing_less:
  assumes "\<not> sublist (replicate threshold True) (map (\<lambda>r. r \<noteq> None) os)"
  shows "trailing os < threshold"
proof (rule ccontr)
  assume "\<not> trailing os < threshold"
  then obtain k where "trailing os = k + threshold" by (metis add.commute le_Suc_ex not_less)
  moreover obtain us where "map (\<lambda>r. r \<noteq> None) os = us @ replicate (trailing os) True"
    using trailing_suffix by blast
  ultimately have "map (\<lambda>r. r \<noteq> None) os = (us @ replicate k True) @ replicate threshold True @ []"
    by (simp add: replicate_add)
  with assms show False by (metis sublist_appendI)
qed

lemma closed_outcomes:
  assumes "\<not> is_open s" and "count s = 0"
    and "\<not> sublist (replicate threshold True) (map (\<lambda>r. r \<noteq> None) os)"
  shows "\<not> is_open (outcomes os s) \<and> count (outcomes os s) = trailing os"
  using assms(3)
proof (induction os rule: rev_induct)
  case Nil
  then show ?case using assms(1,2) by simp
next
  case (snoc r os)
  have "\<not> sublist (replicate threshold True) (map (\<lambda>r. r \<noteq> None) os)"
    using snoc.prems by (auto simp: sublist_def) (metis append.assoc)
  with snoc.IH have IH: "\<not> is_open (outcomes os s)" "count (outcomes os s) = trailing os" by auto
  show ?case
  proof (cases r)
    case None
    then show ?thesis by (simp add: count_success closed_success)
  next
    case (Some t)
    have "Suc (trailing os) < threshold" using trailing_less [OF snoc.prems] Some by simp
    then show ?thesis
      using Some IH count_failure [of "outcomes os s"] closed_failure [of "outcomes os s"] by simp
  qed
qed

lemma trailing_ge: "suffix (replicate n True) (map (\<lambda>r. r \<noteq> None) os) \<Longrightarrow> n \<le> trailing os"
proof (induction os arbitrary: n rule: rev_induct)
  case (snoc r os)
  then show ?case by (cases n; cases r) (auto simp flip: replicate_append_same)
qed simp

text \<open>From the closed state, the breaker opens with the failure that completes the run, and no other.\<close>

lemma open_iff:
  assumes "\<not> is_open s" and "count s = 0"
    and "\<not> sublist (replicate threshold True) (map (\<lambda>r. r \<noteq> None) os)"
  shows "is_open (outcomes (os @ [r]) s) \<longleftrightarrow>
           sublist (replicate threshold True) (map (\<lambda>r. r \<noteq> None) (os @ [r]))"
proof
  show "sublist (replicate threshold True) (map (\<lambda>r. r \<noteq> None) (os @ [r]))" if "is_open (outcomes (os @ [r]) s)"
    using that closed_outcomes [OF assms(1,2), of "os @ [r]"] by blast
next
  obtain m where m: "threshold = Suc m" using threshold_pos by (cases threshold) auto
  assume "sublist (replicate threshold True) (map (\<lambda>r. r \<noteq> None) (os @ [r]))"
  then obtain us vs where eq: "map (\<lambda>r. r \<noteq> None) os @ [r \<noteq> None] = us @ replicate threshold True @ vs"
    by (auto simp: sublist_def)
  then have "vs = []"
    using assms(3) by (cases vs rule: rev_cases) (auto simp: sublist_def simp flip: append_assoc)
  with eq m have "map (\<lambda>r. r \<noteq> None) os = us @ replicate m True" and r: "r \<noteq> None"
    by (auto simp flip: replicate_append_same append_assoc)
  then have "m \<le> trailing os" using trailing_ge by (auto simp: suffix_def)
  then have "Suc (count (outcomes os s)) = threshold"
    using trailing_less [OF assms(3)] closed_outcomes [OF assms] m by simp
  then show "is_open (outcomes (os @ [r]) s)" using r open_failure by auto
qed

lemma count_failures:
  assumes "count s = 0"
  shows "length ts \<le> threshold \<Longrightarrow> count (outcomes (map Some ts) s) = length ts"
  by (induction ts rule: rev_induct) (simp_all add: assms count_failure)

lemma opens_at_threshold:
  assumes "count s = 0" and "length ts = threshold"
  shows "is_open (outcomes (map Some ts) s)"
proof -
  obtain us t where ts: "ts = us @ [t]" using assms(2) threshold_pos by (cases ts rule: rev_cases) auto
  then have "count (outcomes (map Some us) s) = length us"
    using assms count_failures [of s us] by simp
  then show ?thesis using ts assms(2) open_failure [of "outcomes (map Some us) s"] by simp
qed

end

end
