(* ===== verification/Router.thy ===== *)
theory Router
  imports Rust_Std Breaker
begin

text \<open>
  The provider router, \<open>src/src/providers/router.rs\<close>: a primary provider tried with retries and
  backoff, an optional fallback provider tried the same way, and a counter of consecutive failures
  that stops all calls at a threshold. A provider is external; it is modelled by the reply it gives
  to its n-th call. An operation returns the number of calls each provider has seen and the delays
  it slept. An HTTP error is its display text.
\<close>

type_synonym u32 = "32 word"

datatype ProviderError =
    Http string
  | Api nat string
  | Deserialization string
  | AllExhausted u32 string
  | Config string

definition show_u32 :: "u32 \<Rightarrow> string" where
  "show_u32 n = show_nat (unat n)"

fun show_provider_error :: "ProviderError \<Rightarrow> string" where
  "show_provider_error (Http e) = ''HTTP transport error: '' @ e"
| "show_provider_error (Api status body) = ''API error (status='' @ show_nat status @ ''): '' @ body"
| "show_provider_error (Deserialization e) = ''Deserialization error: '' @ e"
| "show_provider_error (AllExhausted n reason) =
     ''All providers exhausted after '' @ show_u32 n @ '' attempt(s): '' @ reason"
| "show_provider_error (Config e) = ''Provider configuration error: '' @ e"

type_synonym 'r provider = "nat \<Rightarrow> ProviderError + 'r"

record RetryConfig =
  max_attempts :: u32
  base_backoff_ms :: u64

definition default_retry_config :: RetryConfig where
  "default_retry_config = \<lparr>max_attempts = 3, base_backoff_ms = 500\<rparr>"

record 'r ProviderRouter =
  rt_primary :: "'r provider"
  rt_fallback :: "'r provider option"
  rt_retry_config :: RetryConfig
  rt_consecutive_failures :: u32
  rt_threshold :: u32

definition new_router :: "'r provider \<Rightarrow> 'r ProviderRouter" where
  "new_router p =
     \<lparr>rt_primary = p, rt_fallback = None, rt_retry_config = default_retry_config,
      rt_consecutive_failures = 0, rt_threshold = 5\<rparr>"

definition with_fallback :: "'r provider \<Rightarrow> 'r ProviderRouter \<Rightarrow> 'r ProviderRouter" where
  "with_fallback f r = r\<lparr>rt_fallback := Some f\<rparr>"

definition with_retry_config :: "RetryConfig \<Rightarrow> 'r ProviderRouter \<Rightarrow> 'r ProviderRouter" where
  "with_retry_config c r = r\<lparr>rt_retry_config := c\<rparr>"

definition with_circuit_breaker_threshold :: "u32 \<Rightarrow> 'r ProviderRouter \<Rightarrow> 'r ProviderRouter" where
  "with_circuit_breaker_threshold n r = r\<lparr>rt_threshold := n\<rparr>"

definition is_circuit_open :: "'r ProviderRouter \<Rightarrow> bool" where
  "is_circuit_open r \<longleftrightarrow> rt_threshold r \<le> rt_consecutive_failures r"

fun is_config_error :: "ProviderError \<Rightarrow> bool" where
  "is_config_error (Config _) = True"
| "is_config_error _ = False"

definition retry_delay :: "RetryConfig \<Rightarrow> nat \<Rightarrow> u64" where
  "retry_delay c attempt = base_backoff_ms c * shl_u64 1 (attempt - 1)"

text \<open>
  The loop of \<open>try_provider_with_retry\<close> from one attempt on; \<open>k\<close> is the number of calls the provider
  has seen. The result, the calls seen after it, and the delays.
\<close>

function try_attempts ::
  "RetryConfig \<Rightarrow> 'r provider \<Rightarrow> nat \<Rightarrow> nat \<Rightarrow> ProviderError option \<Rightarrow>
     (ProviderError + 'r) \<times> nat \<times> u64 list" where
  "try_attempts c p k attempt last_error =
     (if unat (max_attempts c) < attempt
      then (Inl (case last_error of Some e \<Rightarrow> e | None \<Rightarrow> AllExhausted (max_attempts c) ''unknown error''), k, [])
      else case p k of
             Inr response \<Rightarrow> (Inr response, k + 1, [])
           | Inl e \<Rightarrow>
               if is_config_error e then (Inl e, k + 1, [])
               else case try_attempts c p (k + 1) (attempt + 1) (Some e) of
                      (result, k', delays) \<Rightarrow>
                        (result, k',
                         (if attempt < unat (max_attempts c) then [retry_delay c attempt] else []) @ delays))"
  by pat_completeness auto
termination
  by (relation "measure (\<lambda>(c, p, k, attempt, e). unat (max_attempts c) + 1 - attempt)") auto

declare try_attempts.simps [simp del]

definition try_provider_with_retry ::
  "RetryConfig \<Rightarrow> 'r provider \<Rightarrow> nat \<Rightarrow> (ProviderError + 'r) \<times> nat \<times> u64 list" where
  "try_provider_with_retry c p k = try_attempts c p k 1 None"

record provider_calls =
  primary_calls :: nat
  fallback_calls :: nat

definition CIRCUIT_OPEN_REASON :: string where
  "CIRCUIT_OPEN_REASON =
     ''circuit breaker is open '' @ map char_of [226 :: nat, 128, 148] @ '' too many consecutive failures''"

definition complete ::
  "'r ProviderRouter \<Rightarrow> provider_calls \<Rightarrow> (ProviderError + 'r) \<times> 'r ProviderRouter \<times> provider_calls \<times> u64 list" where
  "complete r w =
     (if is_circuit_open r then (Inl (AllExhausted 0 CIRCUIT_OPEN_REASON), r, w, [])
      else case try_provider_with_retry (rt_retry_config r) (rt_primary r) (primary_calls w) of
        (Inr response, k, delays) \<Rightarrow>
          (Inr response, r\<lparr>rt_consecutive_failures := 0\<rparr>, w\<lparr>primary_calls := k\<rparr>, delays)
      | (Inl primary_err, k, delays) \<Rightarrow>
          let r' = r\<lparr>rt_consecutive_failures := rt_consecutive_failures r + 1\<rparr>;
              w' = w\<lparr>primary_calls := k\<rparr>;
              attempts = max_attempts (rt_retry_config r)
          in case rt_fallback r of
               Some f \<Rightarrow>
                 (case try_provider_with_retry (rt_retry_config r) f (fallback_calls w') of
                    (Inr response, k', delays') \<Rightarrow>
                      (Inr response, r'\<lparr>rt_consecutive_failures := 0\<rparr>, w'\<lparr>fallback_calls := k'\<rparr>, delays @ delays')
                  | (Inl fallback_err, k', delays') \<Rightarrow>
                      (Inl (AllExhausted (attempts * 2)
                         (''primary: '' @ show_provider_error primary_err @ '', fallback: '' @ show_provider_error fallback_err)),
                       r', w'\<lparr>fallback_calls := k'\<rparr>, delays @ delays'))
             | None \<Rightarrow> (Inl (AllExhausted attempts (show_provider_error primary_err)), r', w', delays))"

text \<open>A sequence of requests.\<close>

fun completes ::
  "nat \<Rightarrow> 'r ProviderRouter \<Rightarrow> provider_calls \<Rightarrow> (ProviderError + 'r) list \<times> 'r ProviderRouter \<times> provider_calls" where
  "completes 0 r w = ([], r, w)"
| "completes (Suc n) r w =
     (case completes n r w of
        (rs, r', w') \<Rightarrow> (case complete r' w' of (res, r'', w'', _) \<Rightarrow> (rs @ [res], r'', w'')))"

section \<open>Retries\<close>

text \<open>The three ways the loop ends, after \<open>n\<close> failed calls that may be retried.\<close>

definition retryable_errors :: "'r provider \<Rightarrow> nat \<Rightarrow> nat \<Rightarrow> bool" where
  "retryable_errors p k n \<longleftrightarrow> (\<forall>i<n. \<exists>e. p (k + i) = Inl e \<and> \<not> is_config_error e)"

lemma retryable_errors_Suc:
  "retryable_errors p k (Suc n) \<longleftrightarrow>
     (\<exists>e. p k = Inl e \<and> \<not> is_config_error e) \<and> retryable_errors p (Suc k) n"
proof -
  have "(\<forall>i<Suc n. Q i) \<longleftrightarrow> Q 0 \<and> (\<forall>i<n. Q (Suc i))" for Q by (auto simp: less_Suc_eq_0_disj)
  then show ?thesis by (simp add: retryable_errors_def)
qed

definition stops :: "ProviderError + 'r \<Rightarrow> bool" where
  "stops reply = (case reply of Inr _ \<Rightarrow> True | Inl e \<Rightarrow> is_config_error e)"

lemma try_attempts_ends:
  assumes "retryable_errors p k n" and "attempt + n \<le> unat (max_attempts c)" and "stops (p (k + n))"
  shows "try_attempts c p k attempt last_error =
           (p (k + n), k + n + 1, map (\<lambda>i. retry_delay c (attempt + i)) [0..<n])"
  using assms
proof (induction n arbitrary: k attempt last_error)
  case 0
  then show ?case by (simp add: stops_def try_attempts.simps [of c p k] split: sum.splits)
next
  case (Suc n)
  obtain e' where e': "p k = Inl e'" "\<not> is_config_error e'" "retryable_errors p (Suc k) n"
    using Suc.prems(1) by (auto simp: retryable_errors_Suc)
  have "try_attempts c p (k + 1) (attempt + 1) (Some e') =
      (p (k + 1 + n), k + 1 + n + 1, map (\<lambda>i. retry_delay c (attempt + 1 + i)) [0..<n])"
    by (rule Suc.IH) (use Suc.prems e'(3) in auto)
  moreover have "map (\<lambda>i. retry_delay c (attempt + i)) [0..<Suc n] =
      retry_delay c attempt # map (\<lambda>i. retry_delay c (attempt + 1 + i)) [0..<n]"
    by (simp add: upt_conv_Cons map_Suc_upt [symmetric] del: upt_Suc)
  ultimately show ?case
    using e' Suc.prems(2) by (subst try_attempts.simps) simp
qed

lemma try_attempts_exhausts:
  assumes "retryable_errors p k (Suc n)" and "attempt + n = unat (max_attempts c)"
  shows "try_attempts c p k attempt last_error =
           (p (k + n), k + n + 1, map (\<lambda>i. retry_delay c (attempt + i)) [0..<n])"
  using assms
proof (induction n arbitrary: k attempt last_error)
  case 0
  then obtain e where "p k = Inl e" "\<not> is_config_error e" by (auto simp: retryable_errors_Suc)
  then show ?case using 0 by (simp add: try_attempts.simps [of c p k] try_attempts.simps [of c p "Suc k"])
next
  case (Suc n)
  obtain e' where e': "p k = Inl e'" "\<not> is_config_error e'" "retryable_errors p (Suc k) (Suc n)"
    using Suc.prems(1) retryable_errors_Suc [of p k "Suc n"] by auto
  have "try_attempts c p (k + 1) (attempt + 1) (Some e') =
      (p (k + 1 + n), k + 1 + n + 1, map (\<lambda>i. retry_delay c (attempt + 1 + i)) [0..<n])"
    by (rule Suc.IH) (use Suc.prems e'(3) in auto)
  moreover have "map (\<lambda>i. retry_delay c (attempt + i)) [0..<Suc n] =
      retry_delay c attempt # map (\<lambda>i. retry_delay c (attempt + 1 + i)) [0..<n]"
    by (simp add: upt_conv_Cons map_Suc_upt [symmetric] del: upt_Suc)
  ultimately show ?case
    using e' Suc.prems(2) by (subst try_attempts.simps) simp
qed

lemma try_ends:
  assumes "retryable_errors p k n" and "n < unat (max_attempts c)" and "stops (p (k + n))"
  shows "try_provider_with_retry c p k =
           (p (k + n), k + n + 1, map (\<lambda>i. retry_delay c (i + 1)) [0..<n])"
  using assms try_attempts_ends [of p k n 1 c None] by (simp add: try_provider_with_retry_def)

lemma try_exhausts:
  assumes "retryable_errors p k (Suc n)" and "unat (max_attempts c) = Suc n"
  shows "try_provider_with_retry c p k =
           (p (k + n), k + n + 1, map (\<lambda>i. retry_delay c (i + 1)) [0..<n])"
  using assms try_attempts_exhausts [of p k n 1 c None] by (simp add: try_provider_with_retry_def)

text \<open>Every provider falls into one of the cases.\<close>

lemma retry_cases:
  obtains (ends) n where "n < m" "retryable_errors p k n" "stops (p (k + n))"
    | (exhausts) "retryable_errors p k m"
proof (cases "retryable_errors p k m")
  case False
  have run: "(\<exists>e. p j = Inl e \<and> \<not> is_config_error e) \<longleftrightarrow> \<not> stops (p j)" for j
    by (cases "p j") (auto simp: stops_def)
  obtain j where j: "j < m" "stops (p (k + j))" using False by (auto simp: retryable_errors_def run)
  define n where "n = (LEAST i. stops (p (k + i)))"
  have "stops (p (k + n))" "n \<le> j" unfolding n_def using j(2) by (auto intro: LeastI Least_le)
  moreover have "retryable_errors p k n"
    using not_less_Least [of _ "\<lambda>i. stops (p (k + i))"] by (auto simp: retryable_errors_def run n_def)
  ultimately show ?thesis using j(1) ends by (meson le_less_trans)
qed (rule exhausts)

lemma try_calls_bounded:
  assumes "try_provider_with_retry c p k = (res, k', delays)"
  shows "k \<le> k' \<and> k' \<le> k + unat (max_attempts c)"
proof (cases "unat (max_attempts c)")
  case 0
  then show ?thesis using assms by (simp add: try_provider_with_retry_def try_attempts.simps)
next
  case (Suc m)
  show ?thesis
  proof (cases rule: retry_cases [of "Suc m" p k])
    case (ends n)
    then show ?thesis using assms Suc try_ends [of p k n c] by simp
  next
    case exhausts
    then show ?thesis using assms Suc try_exhausts [of p k m c] by simp
  qed
qed

section \<open>The breaker\<close>

interpretation router_breaker: counting_breaker "unat :: u32 \<Rightarrow> nat" "\<lambda>n. 5 \<le> n"
    "\<lambda>_ :: unit. \<lambda>n. n + 1" "\<lambda>_. 0" 5
proof unfold_locales
  fix n :: u32
  assume "unat n < 5"
  then have "unat n + 1 < 2 ^ 32" by simp
  then show "unat (n + 1) = Suc (unat n)" by (simp add: unat_word_ariths(1))
next
  fix n :: u32
  assume "\<not> 5 \<le> n" "Suc (unat n) < 5"
  then show "\<not> 5 \<le> n + 1"
    by (simp add: word_le_nat_alt unat_word_ariths(1))
next
  fix n :: u32
  assume "Suc (unat n) = 5"
  then show "5 \<le> n + 1" by (simp add: word_le_nat_alt unat_word_ariths(1))
qed (simp_all add: word_le_nat_alt)

lemma complete_open:
  "is_circuit_open r \<Longrightarrow> complete r w = (Inl (AllExhausted 0 CIRCUIT_OPEN_REASON), r, w, [])"
  by (simp add: complete_def)

lemma complete_closed:
  assumes "\<not> is_circuit_open r" and "complete r w = (res, r', w', delays)"
  shows "r' = r\<lparr>rt_consecutive_failures := if isl res then rt_consecutive_failures r + 1 else 0\<rparr>"
  using assms by (auto simp: complete_def Let_def split: prod.splits sum.splits option.splits)

definition outcome_of :: "ProviderError + 'r \<Rightarrow> unit option" where
  "outcome_of res = (if isl res then Some () else None)"

lemma completes_breaker:
  assumes "rt_threshold r = 5" and "rt_consecutive_failures r = 0" and "completes n r w = (rs, r', w')"
  shows "rt_threshold r' = 5 \<and>
    (is_circuit_open r' \<longleftrightarrow> sublist (replicate 5 True) (map isl rs)) \<and>
    (\<not> is_circuit_open r' \<longrightarrow> rt_consecutive_failures r' = router_breaker.outcomes (map outcome_of rs) 0)"
  using assms(3)
proof (induction n arbitrary: rs r' w')
  case 0
  then show ?case using assms by (auto simp: is_circuit_open_def)
next
  case (Suc n)
  obtain qs q v where q: "completes n r w = (qs, q, v)" by (cases "completes n r w") auto
  obtain res u t d where c: "complete q v = (res, u, t, d)" by (cases "complete q v") auto
  have eqs: "rs = qs @ [res]" "r' = u" using Suc.prems q c by auto
  have isl: "map (\<lambda>r. r \<noteq> None) (map outcome_of xs) = map isl xs" for xs :: "(ProviderError + 'a) list"
    by (simp add: outcome_of_def)
  note IH = Suc.IH [OF q]
  show ?case
  proof (cases "is_circuit_open q")
    case True
    then have "u = q" using c complete_open [of q v] by simp
    moreover have "sublist (replicate 5 True) (map isl qs @ [isl res])"
      using True IH by (simp add: sublist_append)
    ultimately show ?thesis using True IH eqs by simp
  next
    case False
    have u: "rt_consecutive_failures u = router_breaker.outcomes (map outcome_of (qs @ [res])) 0"
        "rt_threshold u = 5"
      using complete_closed [OF False c] IH False by (cases "isl res"; simp add: outcome_of_def [of res])+
    have closed: "\<not> sublist (replicate 5 True) (map isl qs)" using IH False by simp
    have isl1: "(outcome_of res \<noteq> None) = isl res" by (simp add: outcome_of_def)
    have "is_circuit_open u \<longleftrightarrow> sublist (replicate 5 True) (map isl (qs @ [res]))"
      using router_breaker.open_iff [of 0 "map outcome_of qs" "outcome_of res"] closed u
      by (simp add: is_circuit_open_def isl isl1 del: map_map not_None_eq)
    then show ?thesis using u eqs by simp
  qed
qed

section \<open>Properties\<close>

text \<open>
  The retry loop returns the first reply that is a response or a configuration error, if one comes
  within the attempts, and the last error otherwise; it makes no call after it, and between two calls
  it sleeps the base backoff shifted by the number of failures so far.
\<close>

theorem retry_returns_first_decisive_reply:
  assumes "unat (max_attempts c) = Suc m"
  shows "(\<exists>n\<le>m. retryable_errors p k n \<and> (stops (p (k + n)) \<or> n = m) \<and>
           try_provider_with_retry c p k =
             (p (k + n), k + n + 1, map (\<lambda>i. base_backoff_ms c * shl_u64 1 i) [0..<n]))"
proof (cases rule: retry_cases [of "Suc m" p k])
  case (ends n)
  then show ?thesis
    using assms try_ends [of p k n c] by (intro exI [of _ n]) (auto simp: retry_delay_def)
next
  case exhausts
  then have "retryable_errors p k m" by (simp add: retryable_errors_def)
  then show ?thesis
    using assms try_exhausts [OF exhausts] by (intro exI [of _ m]) (auto simp: retry_delay_def)
qed

theorem retry_returns_first_decisive_reply_witness:
  "try_provider_with_retry default_retry_config (\<lambda>i. if i = 0 then Inl (Http ''timeout'') else Inr True) 0 =
      (Inr True, 2, [500])"
proof -
  let ?p = "\<lambda>i. if i = (0 :: nat) then Inl (Http ''timeout'') else Inr True"
  obtain n where n: "n \<le> 2" "retryable_errors ?p 0 n" "stops (?p (0 + n)) \<or> n = 2"
      "try_provider_with_retry default_retry_config ?p 0 =
         (?p (0 + n), 0 + n + 1, map (\<lambda>i. base_backoff_ms default_retry_config * shl_u64 1 i) [0..<n])"
    using retry_returns_first_decisive_reply [of default_retry_config 2 ?p 0]
    by (auto simp: default_retry_config_def)
  have "n \<noteq> 2"
  proof
    assume "n = 2"
    then have "\<exists>e. ?p (0 + 1) = Inl e" using n(2) unfolding retryable_errors_def by (meson one_less_numeral_iff semiring_norm(76))
    then show False by simp
  qed
  moreover have "n \<noteq> 0" using n(3) by (cases n) (simp_all add: stops_def)
  ultimately have "n = 1" using n(1) by simp
  then show ?thesis using n(4) by (simp add: default_retry_config_def shl_u64_def)
qed

text \<open>
  A request makes a bounded number of calls: none when the circuit is open, and otherwise at most the
  configured attempts to each provider, and none to the fallback when the primary answered.
\<close>

theorem router_calls_bounded:
  assumes "complete r w = (res, r', w', delays)"
  shows "primary_calls w' \<le> primary_calls w + unat (max_attempts (rt_retry_config r)) \<and>
         fallback_calls w' \<le> fallback_calls w + unat (max_attempts (rt_retry_config r)) \<and>
         (is_circuit_open r \<longrightarrow> w' = w) \<and>
         (\<not> isl (fst (try_provider_with_retry (rt_retry_config r) (rt_primary r) (primary_calls w))) \<longrightarrow>
            fallback_calls w' = fallback_calls w)"
  using assms
  by (auto simp: complete_def Let_def dest!: try_calls_bounded split: if_splits prod.splits sum.splits option.splits)

theorem router_calls_bounded_witness:
  "let r = new_router (\<lambda>n. Inl (Http ''timeout'') :: ProviderError + bool);
       w = \<lparr>primary_calls = 0, fallback_calls = 0\<rparr>
   in primary_calls (fst (snd (snd (complete r w)))) \<le> 3"
proof -
  let ?r = "new_router (\<lambda>n. Inl (Http ''timeout'') :: ProviderError + bool)"
  let ?w = "\<lparr>primary_calls = 0, fallback_calls = 0\<rparr>"
  show ?thesis
    using router_calls_bounded [of ?r ?w "fst (complete ?r ?w)" "fst (snd (complete ?r ?w))"
        "fst (snd (snd (complete ?r ?w)))" "snd (snd (snd (complete ?r ?w)))"]
    by (simp add: new_router_def default_retry_config_def)
qed

text \<open>
  A request on a closed circuit fails exactly if the primary provider fails and there is no fallback
  or that fails too; the failure counter is reset by a success, the fallback's included, and goes up
  by one with a failure.
\<close>

theorem router_fails_iff_all_fail:
  assumes "\<not> is_circuit_open r" and "complete r w = (res, r', w', delays)"
  shows "(isl res \<longleftrightarrow>
            isl (fst (try_provider_with_retry (rt_retry_config r) (rt_primary r) (primary_calls w))) \<and>
            (case rt_fallback r of None \<Rightarrow> True
             | Some f \<Rightarrow> isl (fst (try_provider_with_retry (rt_retry_config r) f (fallback_calls w))))) \<and>
         r' = r\<lparr>rt_consecutive_failures := if isl res then rt_consecutive_failures r + 1 else 0\<rparr>"
  using assms
  by (intro conjI complete_closed [OF assms])
    (auto simp: complete_def Let_def split: prod.splits sum.splits option.splits)

theorem router_fails_iff_all_fail_witness:
  "let r = with_fallback (\<lambda>n. Inr True) (new_router (\<lambda>n. Inl (Config ''no key''))) ;
       w = \<lparr>primary_calls = 0, fallback_calls = 0\<rparr>
   in \<not> isl (fst (complete r w))"
proof -
  let ?r = "with_fallback (\<lambda>n. Inr True) (new_router (\<lambda>n. Inl (Config ''no key'')))"
  let ?w = "\<lparr>primary_calls = 0, fallback_calls = 0\<rparr>"
  have closed: "\<not> is_circuit_open ?r" by (simp add: is_circuit_open_def with_fallback_def new_router_def)
  have "try_provider_with_retry (rt_retry_config ?r) (\<lambda>n. Inr True) 0 = (Inr True, 1, [])"
    using try_ends [of "\<lambda>n. Inr True" 0 0 "rt_retry_config ?r"]
    by (simp add: retryable_errors_def stops_def with_fallback_def new_router_def default_retry_config_def)
  moreover have "rt_fallback ?r = Some (\<lambda>n. Inr True)" by (simp add: with_fallback_def)
  ultimately have fallback: "(case rt_fallback ?r of None \<Rightarrow> True
     | Some f \<Rightarrow> isl (fst (try_provider_with_retry (rt_retry_config ?r) f (fallback_calls ?w)))) = False"
    by simp
  obtain res r' w' d where c: "complete ?r ?w = (res, r', w', d)" by (rule prod_cases4)
  have "\<not> isl res" using router_fails_iff_all_fail [OF closed c] fallback by (simp only: simp_thms)
  then show ?thesis by (simp only: Let_def c fst_conv not_False_eq_True)
qed

text \<open>
  C39. The router's breaker: with the default threshold, after any number of requests the circuit is open
  exactly if five requests in a row have failed at some point.
\<close>

theorem router_opens_iff_five_failures:
  assumes "rt_threshold r = 5" and "rt_consecutive_failures r = 0" and "completes n r w = (rs, r', w')"
  shows "is_circuit_open r' \<longleftrightarrow> sublist (replicate 5 True) (map isl rs)"
  using completes_breaker [OF assms] by simp

theorem router_opens_iff_five_failures_witness:
  "\<not> is_circuit_open (fst (snd (completes 1 (new_router (\<lambda>n. Inl (Config ''no key'') :: ProviderError + bool))
       \<lparr>primary_calls = 0, fallback_calls = 0\<rparr>)))"
proof -
  let ?r = "new_router (\<lambda>n. Inl (Config ''no key'') :: ProviderError + bool)"
  let ?x = "completes 1 ?r \<lparr>primary_calls = 0, fallback_calls = 0\<rparr>"
  have "length (fst ?x) = 1" by (simp split: prod.splits)
  then have "\<not> sublist (replicate 5 True) (map isl (fst ?x))" using sublist_length_le by fastforce
  then show ?thesis
    using router_opens_iff_five_failures [of ?r 1 "\<lparr>primary_calls = 0, fallback_calls = 0\<rparr>" "fst ?x" "fst (snd ?x)" "snd (snd ?x)"]
    by (simp add: new_router_def)
qed

text \<open>
  An open circuit never closes: every later request fails at once, without a call or a delay, and
  leaves the router as it is, so the provider is not tried again in the life of the router.
\<close>

theorem open_circuit_is_final:
  assumes "is_circuit_open r"
  shows "completes n r w = (replicate n (Inl (AllExhausted 0 CIRCUIT_OPEN_REASON)), r, w)"
  using complete_open [OF assms]
  by (induction n) (simp_all add: replicate_append_same)

theorem open_circuit_is_final_witness:
  "completes 3 (with_circuit_breaker_threshold 0 (new_router (\<lambda>n. Inr True)))
       \<lparr>primary_calls = 0, fallback_calls = 0\<rparr> =
     (replicate 3 (Inl (AllExhausted 0 CIRCUIT_OPEN_REASON)),
      with_circuit_breaker_threshold 0 (new_router (\<lambda>n. Inr True)),
      \<lparr>primary_calls = 0, fallback_calls = 0\<rparr>)"
  by (rule open_circuit_is_final) (simp add: is_circuit_open_def with_circuit_breaker_threshold_def)

end
