(* ===== verification/Json.thy ===== *)
theory Json
  imports Rust_Std
begin

text \<open>
  \<open>serde_json::Value\<close> and the operations of it the sources use. An object is an association
  list in insertion order (the crate is built with \<open>preserve_order\<close>); a key occurs once.
  A float keeps its 64 bits: the sources modelled here never compute with one.
  \<open>index_upd\<close> is Rust's \<open>v[k] = ...\<close>, which turns \<open>null\<close> into an object and panics on a
  value that is neither (\<open>None\<close>).
\<close>

datatype json =
    JNull
  | JBool bool
  | JInt int
  | JFloat "64 word"
  | JStr string
  | JArr "json list"
  | JObj "(string \<times> json) list"

subsection \<open>Reading\<close>

definition jget :: "string \<Rightarrow> json \<Rightarrow> json option" where
  "jget k v = (case v of JObj m \<Rightarrow> map_of m k | _ \<Rightarrow> None)"

definition as_str :: "json \<Rightarrow> string option" where
  "as_str v = (case v of JStr s \<Rightarrow> Some s | _ \<Rightarrow> None)"

definition as_i64 :: "json \<Rightarrow> int option" where
  "as_i64 v = (case v of JInt n \<Rightarrow> if is_i64 n then Some n else None | _ \<Rightarrow> None)"

definition as_array :: "json \<Rightarrow> json list option" where
  "as_array v = (case v of JArr xs \<Rightarrow> Some xs | _ \<Rightarrow> None)"

definition as_object :: "json \<Rightarrow> (string \<times> json) list option" where
  "as_object v = (case v of JObj m \<Rightarrow> Some m | _ \<Rightarrow> None)"

definition is_scalar :: "json \<Rightarrow> bool" where
  "is_scalar v = (case v of JInt _ \<Rightarrow> True | JFloat _ \<Rightarrow> True | JBool _ \<Rightarrow> True | JStr _ \<Rightarrow> True | _ \<Rightarrow> False)"

text \<open>\<open>Value::pointer\<close> on a path of object keys.\<close>

fun pointer :: "string list \<Rightarrow> json \<Rightarrow> json option" where
  "pointer [] v = Some v"
| "pointer (k # ks) v = (case jget k v of None \<Rightarrow> None | Some w \<Rightarrow> pointer ks w)"

definition jstr_opt :: "string option \<Rightarrow> json" where
  "jstr_opt x = (case x of None \<Rightarrow> JNull | Some s \<Rightarrow> JStr s)"

definition jint_opt :: "int option \<Rightarrow> json" where
  "jint_opt x = (case x of None \<Rightarrow> JNull | Some n \<Rightarrow> JInt n)"

definition jopt :: "json option \<Rightarrow> json" where
  "jopt x = (case x of None \<Rightarrow> JNull | Some v \<Rightarrow> v)"

subsection \<open>Writing\<close>

definition index_upd :: "string \<Rightarrow> (json \<Rightarrow> json option) \<Rightarrow> json \<Rightarrow> json option" where
  "index_upd k f v =
     (case v of
        JNull \<Rightarrow> map_option (\<lambda>w. JObj [(k, w)]) (f JNull)
      | JObj m \<Rightarrow> map_option (\<lambda>w. JObj (AList.update k w m)) (f (jopt (map_of m k)))
      | _ \<Rightarrow> None)"

definition index_put :: "string \<Rightarrow> json \<Rightarrow> json \<Rightarrow> json option" where
  "index_put k w = index_upd k (\<lambda>_. Some w)"

text \<open>\<open>if let Some(x) = v.get_mut(k) { ... }\<close>.\<close>

definition get_mut_upd :: "string \<Rightarrow> (json \<Rightarrow> json option) \<Rightarrow> json \<Rightarrow> json option" where
  "get_mut_upd k f v =
     (case v of
        JObj m \<Rightarrow>
          (case map_of m k of
             None \<Rightarrow> Some v
           | Some x \<Rightarrow> map_option (\<lambda>w. JObj (AList.update k w m)) (f x))
      | _ \<Rightarrow> Some v)"

definition obj_insert :: "string \<Rightarrow> json \<Rightarrow> json \<Rightarrow> json" where
  "obj_insert k w v = (case v of JObj m \<Rightarrow> JObj (AList.update k w m) | _ \<Rightarrow> v)"

subsection \<open>Laws\<close>

lemma jget_JObj [simp]: "jget k (JObj m) = map_of m k"
  by (simp add: jget_def)

lemma jget_other [simp]:
  "jget k JNull = None" "jget k (JStr s) = None" "jget k (JArr xs) = None"
  "jget k (JBool b) = None" "jget k (JInt n) = None" "jget k (JFloat w) = None"
  by (simp_all add: jget_def)

lemma as_simps [simp]:
  "as_str (JStr s) = Some s" "as_str JNull = None" "as_array (JArr xs) = Some xs"
  "as_object (JObj m) = Some m" "as_i64 JNull = None"
  by (simp_all add: as_str_def as_array_def as_object_def as_i64_def)

lemma jget_index_upd:
  assumes "index_upd k f v = Some v'"
  shows "jget j v' = (if j = k then f (jopt (jget k v)) else jget j v)"
  using assms
  by (auto simp: index_upd_def jget_def jopt_def update_conv split: json.splits option.splits)

lemma jget_index_put:
  "index_put k w v = Some v' \<Longrightarrow> jget j v' = (if j = k then Some w else jget j v)"
  by (simp add: index_put_def jget_index_upd)

lemma jget_get_mut_upd:
  assumes "get_mut_upd k f v = Some v'"
  shows "jget j v' = (if j = k then (case jget k v of None \<Rightarrow> None | Some x \<Rightarrow> f x) else jget j v)"
  using assms
  by (auto simp: get_mut_upd_def jget_def update_conv split: json.splits option.splits)

lemma index_put_obj [simp]: "index_put k w (JObj m) = Some (JObj (AList.update k w m))"
  by (simp add: index_put_def index_upd_def)

lemma index_upd_obj [simp]:
  "index_upd k f (JObj m) = map_option (\<lambda>w. JObj (AList.update k w m)) (f (jopt (map_of m k)))"
  by (simp add: index_upd_def)

text \<open>Indexing a value keeps it an object, and an object only ever fails on a nested value.\<close>

definition is_obj :: "json \<Rightarrow> bool" where
  "is_obj v = (case v of JObj _ \<Rightarrow> True | _ \<Rightarrow> False)"

lemma is_obj_simps [simp]:
  "is_obj (JObj m)" "\<not> is_obj JNull" "\<not> is_obj (JStr s)" "\<not> is_obj (JArr xs)"
  "\<not> is_obj (JBool b)" "\<not> is_obj (JInt n)" "\<not> is_obj (JFloat w)"
  by (simp_all add: is_obj_def)

lemma index_put_is_obj: "index_put k w v = Some v' \<Longrightarrow> is_obj v'"
  by (auto simp: index_put_def index_upd_def split: json.splits)

lemma index_put_total: "is_obj v \<or> v = JNull \<Longrightarrow> \<exists>v'. index_put k w v = Some v' \<and> is_obj v'"
  by (cases v) (auto simp: index_put_def index_upd_def)

lemma get_mut_upd_is_obj: "get_mut_upd k f v = Some v' \<Longrightarrow> is_obj v' = is_obj v"
  by (auto simp: get_mut_upd_def split: json.splits option.splits)

lemma get_mut_upd_total: "(\<And>x. jget k v = Some x \<Longrightarrow> f x \<noteq> None) \<Longrightarrow> \<exists>v'. get_mut_upd k f v = Some v'"
  by (auto simp: get_mut_upd_def split: json.splits option.splits)

end
