(* ===== verification/Generations.thy ===== *)
theory Generations
  imports Json
begin

text \<open>
  The table \<open>media_generations\<close> and its repository,
  \<open>src/src/db/repositories/media_generations.rs\<close>.

  \<^item> \<open>generation\<close> is a row, field by field; the table is an association list from ids to rows.
  \<^item> \<open>db\<close> is what an operation sees of PostgreSQL: the table, the server clock (\<open>NOW()\<close>) and a
    schedule of faults. Each statement consumes one entry of the schedule and fails with the
    error it holds, if any; an empty schedule never fails. A fault stands for a lost connection,
    a timeout, or a constraint the model does not have (column lengths, foreign keys into other
    tables). Properties that quantify over states hold for every pattern of such failures.
  \<^item> \<open>transaction\<close> is \<open>begin .. commit\<close>: a body that fails, or a commit that fails, leaves the
    table as it was.
  \<^item> \<open>externals\<close> holds the functions of third-party crates the sources call (UUID and RFC 3339
    parsing and printing, SHA-256, the Unicode case tables, PostgreSQL's text form of a
    JSON value, JSON printing, lossy UTF-8 decoding); they are parameters of the definitions that use them.
\<close>

section \<open>Rows\<close>

type_synonym uuid = "128 word"
type_synonym datetime = int \<comment> \<open>nanoseconds since the epoch\<close>

definition timestamp_millis :: "datetime \<Rightarrow> int" where
  "timestamp_millis t = t div 1000000"

record externals =
  x_parse_uuid :: "string \<Rightarrow> uuid option"
  x_uuid_str :: "uuid \<Rightarrow> string"
  x_uuid_error :: "string \<Rightarrow> string"
  x_to_rfc3339 :: "datetime \<Rightarrow> string"
  x_parse_rfc3339 :: "string \<Rightarrow> datetime option"
  x_sha256_hex :: "string \<Rightarrow> string"
  x_lower :: "string \<Rightarrow> string"
  x_char_lower :: "string \<Rightarrow> string"
  x_jsonb_text :: "json \<Rightarrow> string"
  x_json_to_string :: "json \<Rightarrow> string"
  x_utf8_lossy :: "string \<Rightarrow> string"

record generation =
  mg_generated_from_id :: "uuid option"
  mg_is_regeneration :: bool
  mg_teacher_id :: int
  mg_subject_id :: "int option"
  mg_sub_subject_id :: "int option"
  mg_topic_id :: "uuid option"
  mg_content_id :: "uuid option"
  mg_recommended_project_id :: "int option"
  mg_raw_prompt :: string
  mg_request_fingerprint :: string
  mg_active_duplicate_key :: "string option"
  mg_preferred_output_type :: string
  mg_resolved_output_type :: "string option"
  mg_status :: string
  mg_llm_provider :: "string option"
  mg_llm_model :: "string option"
  mg_generator_provider :: "string option"
  mg_generator_model :: "string option"
  mg_interpretation_payload :: "json option"
  mg_interpretation_audit_payload :: "json option"
  mg_generation_spec_payload :: "json option"
  mg_decision_payload :: "json option"
  mg_orchestration_audit_payload :: "json option"
  mg_delivery_payload :: "json option"
  mg_generator_service_response :: "json option"
  mg_storage_path :: "string option"
  mg_file_url :: "string option"
  mg_thumbnail_url :: "string option"
  mg_mime_type :: "string option"
  mg_error_code :: "string option"
  mg_error_message :: "string option"
  mg_generation_job_id :: "uuid option"
  mg_generation_status :: "string option"
  mg_s3_object_key :: "string option"
  mg_presigned_download_url :: "string option"
  mg_presigned_url_expires_at :: "datetime option"
  mg_generation_error_code :: "string option"
  mg_generation_error_message :: "string option"
  mg_clarification_state :: "json option"
  mg_clarified_at :: "datetime option"
  mg_clarification_skipped :: bool
  mg_created_at :: datetime
  mg_updated_at :: datetime

type_synonym gen_table = "(uuid \<times> generation) list"

section \<open>The database as an operation sees it\<close>

datatype sqlx_error =
    Io | RowNotFound | UnexpectedNull | UniqueViolation | ForeignKeyViolation | CheckViolation
  | Database_error string

text \<open>
  A column \<open>VARCHAR(n)\<close> takes \<open>n\<close> characters, of longer texts only those that go on with blanks.
\<close>

definition fits :: "nat \<Rightarrow> string \<Rightarrow> bool" where
  "fits n s \<longleftrightarrow> list_all (\<lambda>u. u = '' '') (drop n (chars s))"

definition clip :: "nat \<Rightarrow> string \<Rightarrow> string" where
  "clip n s = concat (take n (chars s))"

record db =
  gens :: gen_table
  db_now :: datetime
  faults :: "sqlx_error option list"

definition db_call ::
  "('z db_scheme \<Rightarrow> (sqlx_error + 'a) \<times> gen_table) \<Rightarrow> ('z db_scheme, sqlx_error, 'a) act" where
  "db_call f s =
     (let s' = s\<lparr>faults := tl (faults s)\<rparr>
      in case faults s of
           Some e # _ \<Rightarrow> (Inl (Error e), s')
         | _ \<Rightarrow>
             (case f s' of
                (Inl e, t) \<Rightarrow> (Inl (Error e), s'\<lparr>gens := t\<rparr>)
              | (Inr a, t) \<Rightarrow> (Inr a, s'\<lparr>gens := t\<rparr>)))"

definition db_select :: "(gen_table \<Rightarrow> sqlx_error + 'a) \<Rightarrow> ('z db_scheme, sqlx_error, 'a) act" where
  "db_select f = db_call (\<lambda>s. (f (gens s), gens s))"

definition update_gen :: "uuid \<Rightarrow> (generation \<Rightarrow> generation) \<Rightarrow> gen_table \<Rightarrow> gen_table" where
  "update_gen i f t = map (\<lambda>(k, g). if k = i then (k, f g) else (k, g)) t"

text \<open>\<open>UPDATE ... WHERE id = i\<close>, and the same with \<open>RETURNING\<close>; \<open>f\<close> is given \<open>NOW()\<close>.\<close>

definition db_update ::
  "uuid \<Rightarrow> (datetime \<Rightarrow> generation \<Rightarrow> generation) \<Rightarrow> ('z db_scheme, sqlx_error, unit) act" where
  "db_update i f = db_call (\<lambda>s. (Inr (), update_gen i (f (db_now s)) (gens s)))"

definition db_update_returning ::
  "uuid \<Rightarrow> (datetime \<Rightarrow> generation \<Rightarrow> generation) \<Rightarrow> ('z db_scheme, sqlx_error, generation option) act" where
  "db_update_returning i f =
     db_call (\<lambda>s. let t = update_gen i (f (db_now s)) (gens s) in (Inr (map_of t i), t))"

definition transaction ::
  "(sqlx_error \<Rightarrow> 'e) \<Rightarrow> ('z db_scheme, 'e, 'a) act \<Rightarrow> ('z db_scheme, 'e, 'a) act" where
  "transaction dberr body s =
     (case db_call (\<lambda>u. (Inr (), gens u)) s of
        (Inl x, s1) \<Rightarrow> (Inl (map_exn dberr x), s1)
      | (Inr _, s1) \<Rightarrow>
          (case body s1 of
             (Inl x, s2) \<Rightarrow> (Inl x, s2\<lparr>gens := gens s\<rparr>)
           | (Inr a, s2) \<Rightarrow>
               (case db_call (\<lambda>u. (Inr (), gens u)) s2 of
                  (Inl x, s3) \<Rightarrow> (Inl (map_exn dberr x), s3\<lparr>gens := gens s\<rparr>)
                | (Inr _, s3) \<Rightarrow> (Inr a, s3))))"

subsection \<open>Laws of the table\<close>

lemma map_of_update_gen [simp]:
  "map_of (update_gen i f t) j = (if j = i then map_option f (map_of t i) else map_of t j)"
  by (induction t) (auto simp: update_gen_def)

lemma map_fst_update_gen [simp]: "map fst (update_gen i f t) = map fst t"
  by (induction t) (auto simp: update_gen_def)

lemma update_gen_id:
  "(\<And>k g. (k, g) \<in> set t \<Longrightarrow> k = i \<Longrightarrow> f g = g) \<Longrightarrow> update_gen i f t = t"
  unfolding update_gen_def by (rule map_idI) (auto split: if_splits)

lemma map_of_set: "distinct (map fst t) \<Longrightarrow> (k, g) \<in> set t \<Longrightarrow> map_of t k = Some g"
  by simp

text \<open>
  The constraints of the table: the primary key, the partial unique index on
  \<open>active_duplicate_key\<close>, and the foreign key of \<open>generated_from_id\<close>. They are a function of
  \<open>table_keys\<close>, so an update that keeps the key columns of a row keeps them.
\<close>

definition row_keys :: "generation \<Rightarrow> string option \<times> uuid option" where
  "row_keys g = (mg_active_duplicate_key g, mg_generated_from_id g)"

definition table_keys :: "gen_table \<Rightarrow> (uuid \<times> string option \<times> uuid option) list" where
  "table_keys t = map (\<lambda>(k, g). (k, row_keys g)) t"

definition keys_ok :: "(uuid \<times> string option \<times> uuid option) list \<Rightarrow> bool" where
  "keys_ok ks \<longleftrightarrow>
     distinct (map fst ks) \<and>
     distinct (filter (\<lambda>x. x \<noteq> None) (map (fst \<circ> snd) ks)) \<and>
     list_all (\<lambda>(_, _, p). case p of None \<Rightarrow> True | Some i \<Rightarrow> i \<in> fst ` set ks) ks"

definition table_ok :: "gen_table \<Rightarrow> bool" where
  "table_ok t \<longleftrightarrow> keys_ok (table_keys t)"

lemma table_keys_update_gen:
  "(\<And>g. row_keys (f g) = row_keys g) \<Longrightarrow> table_keys (update_gen i f t) = table_keys t"
  by (induction t) (auto simp: table_keys_def update_gen_def)

lemma table_ok_update_gen:
  "table_ok t \<Longrightarrow> (\<And>g. row_keys (f g) = row_keys g) \<Longrightarrow> table_ok (update_gen i f t)"
  by (simp add: table_ok_def table_keys_update_gen)

lemma map_fst_table_keys [simp]: "map fst (table_keys t) = map fst t"
  by (induction t) (auto simp: table_keys_def)

lemma table_ok_distinct: "table_ok t \<Longrightarrow> distinct (map fst t)"
  by (simp add: table_ok_def keys_ok_def)

subsection \<open>Weakest preconditions of statements and transactions\<close>

named_theorems wp_intros "introduction rules for weakest preconditions, under any database faults"

lemma wp_db_call_I:
  "(\<And>e fs. R (Error e) (s\<lparr>faults := fs\<rparr>)) \<Longrightarrow>
   (\<And>fs. case f (s\<lparr>faults := fs\<rparr>) of
            (Inl e, t) \<Rightarrow> R (Error e) (s\<lparr>faults := fs, gens := t\<rparr>)
          | (Inr a, t) \<Rightarrow> Q a (s\<lparr>faults := fs, gens := t\<rparr>)) \<Longrightarrow>
   wp (db_call f) Q R s"
proof -
  assume io: "\<And>e fs. R (Error e) (s\<lparr>faults := fs\<rparr>)"
    and run: "\<And>fs. case f (s\<lparr>faults := fs\<rparr>) of
            (Inl e, t) \<Rightarrow> R (Error e) (s\<lparr>faults := fs, gens := t\<rparr>)
          | (Inr a, t) \<Rightarrow> Q a (s\<lparr>faults := fs, gens := t\<rparr>)"
  show ?thesis
    using io [of _ "tl (faults s)"] run [of "tl (faults s)"]
    by (auto simp: wp_def db_call_def Let_def split: prod.splits sum.splits list.splits option.splits)
qed

lemma wp_db_select_I [wp_intros]:
  assumes "\<And>e fs. R (Error e) (s\<lparr>faults := fs\<rparr>)"
    and "\<And>fs e. f (gens s) = Inl e \<Longrightarrow> R (Error e) (s\<lparr>faults := fs\<rparr>)"
    and "\<And>fs a. f (gens s) = Inr a \<Longrightarrow> Q a (s\<lparr>faults := fs\<rparr>)"
  shows "wp (db_select f) Q R s"
  unfolding db_select_def using assms
  by (intro wp_db_call_I) (auto split: sum.splits)

lemma wp_db_update_I [wp_intros]:
  assumes "\<And>e fs. R (Error e) (s\<lparr>faults := fs\<rparr>)"
    and "\<And>fs. Q () (s\<lparr>faults := fs, gens := update_gen i (f (db_now s)) (gens s)\<rparr>)"
  shows "wp (db_update i f) Q R s"
  unfolding db_update_def using assms by (intro wp_db_call_I) auto

lemma wp_db_update_returning_I [wp_intros]:
  assumes "\<And>e fs. R (Error e) (s\<lparr>faults := fs\<rparr>)"
    and "\<And>fs. Q (map_option (f (db_now s)) (map_of (gens s) i))
                 (s\<lparr>faults := fs, gens := update_gen i (f (db_now s)) (gens s)\<rparr>)"
  shows "wp (db_update_returning i f) Q R s"
  unfolding db_update_returning_def using assms by (intro wp_db_call_I) (auto simp: Let_def)

lemma wp_transaction_I [wp_intros]:
  fixes s :: "'z db_scheme"
  assumes begin_err: "\<And>e fs. R (Error (dberr e)) (s\<lparr>faults := fs\<rparr>)"
    and body: "\<And>fs. wp body
            (\<lambda>a t. (\<forall>fs'. Q a (t\<lparr>faults := fs'\<rparr>)) \<and>
                   (\<forall>e fs'. R (Error (dberr e)) (t\<lparr>faults := fs', gens := gens s\<rparr>)))
            (\<lambda>x t. R x (t\<lparr>gens := gens s\<rparr>)) (s\<lparr>faults := fs\<rparr>)"
  shows "wp (transaction dberr body) Q R s"
proof -
  have call: "wp (db_call (\<lambda>u. (Inr (), gens u))) Q' R' t"
    if "\<And>e fs. R' (Error e) (t\<lparr>faults := fs\<rparr>)" and "\<And>fs. Q' () (t\<lparr>faults := fs\<rparr>)"
    for Q' R' and t :: "'z db_scheme"
    using that by (intro wp_db_call_I) auto
  show ?thesis
  proof (cases "db_call (\<lambda>u. (Inr (), gens u)) s :: (sqlx_error exn + unit) \<times> _")
    case (Pair r s1)
    have 1: "(\<forall>x. r = Inl x \<longrightarrow> R (map_exn dberr x) s1) \<and> (\<forall>u. r = Inr u \<longrightarrow> (\<exists>fs. s1 = s\<lparr>faults := fs\<rparr>))"
    proof -
      have "wp (db_call (\<lambda>u. (Inr (), gens u))) (\<lambda>u t. \<exists>fs. t = s\<lparr>faults := fs\<rparr>)
              (\<lambda>x t. R (map_exn dberr x) t) s"
        by (rule call) (use begin_err in auto)
      with Pair show ?thesis by (auto simp: wp_def split: sum.splits)
    qed
    show ?thesis
    proof (cases r)
      case (Inl x)
      with 1 Pair show ?thesis by (simp add: wp_def transaction_def)
    next
      case (Inr u)
      with 1 obtain fs where s1: "s1 = s\<lparr>faults := fs\<rparr>" by blast
      have "wp body (\<lambda>a t. wp (db_call (\<lambda>u. (Inr (), gens u))) (\<lambda>_ t'. Q a t')
               (\<lambda>x t'. R (map_exn dberr x) (t'\<lparr>gens := gens s\<rparr>)) t) (\<lambda>x t. R x (t\<lparr>gens := gens s\<rparr>)) s1"
        unfolding s1 by (rule wp_mono [OF body]) (auto intro!: call)
      with Pair Inr show ?thesis
        by (auto simp: wp_def transaction_def split: prod.splits sum.splits)
    qed
  qed
qed

lemma wp_and_then_I [wp_intros]: "wp m (\<lambda>a. wp (f a) Q R) R s \<Longrightarrow> wp (and_then m f) Q R s"
  by (simp add: wp_simps)

lemma wp_map_err_I [wp_intros]: "wp m Q (\<lambda>x. R (map_exn g x)) s \<Longrightarrow> wp (map_err g m) Q R s"
  by (simp add: wp_simps)

lemma wp_ignore_err_I [wp_intros]:
  "wp m (\<lambda>_. Q ()) (\<lambda>x. case x of Error e \<Rightarrow> Q () | Panic \<Rightarrow> R Panic) s \<Longrightarrow> wp (ignore_err m) Q R s"
  by (simp add: wp_simps)

lemma wp_try_err_I [wp_intros]:
  "wp m (\<lambda>a. Q (Inr a)) (\<lambda>x. case x of Error e \<Rightarrow> Q (Inl e) | Panic \<Rightarrow> R Panic) s \<Longrightarrow> wp (try_err m) Q R s"
  by (simp add: wp_simps)

lemma wp_if_I [wp_intros]:
  "(b \<Longrightarrow> wp m Q R s) \<Longrightarrow> (\<not> b \<Longrightarrow> wp m' Q R s) \<Longrightarrow> wp (if b then m else m') Q R s"
  by simp

lemma wp_case_option_I [wp_intros]:
  "(x = None \<Longrightarrow> wp m Q R s) \<Longrightarrow> (\<And>a. x = Some a \<Longrightarrow> wp (f a) Q R s) \<Longrightarrow>
   wp (case x of None \<Rightarrow> m | Some a \<Rightarrow> f a) Q R s"
  by (cases x) auto

lemma wp_case_sum_I [wp_intros]:
  "(\<And>a. x = Inl a \<Longrightarrow> wp (f a) Q R s) \<Longrightarrow> (\<And>b. x = Inr b \<Longrightarrow> wp (g b) Q R s) \<Longrightarrow>
   wp (case x of Inl a \<Rightarrow> f a | Inr b \<Rightarrow> g b) Q R s"
  by (cases x) auto

lemma wp_ok_or_I [wp_intros]:
  "(x = None \<Longrightarrow> R (Error e) s) \<Longrightarrow> (\<And>a. x = Some a \<Longrightarrow> Q a s) \<Longrightarrow> wp (ok_or e x) Q R s"
  by (cases x) (auto simp: wp_simps)

lemma wp_or_panic_I [wp_intros]:
  "(x = None \<Longrightarrow> R Panic s) \<Longrightarrow> (\<And>a. x = Some a \<Longrightarrow> Q a s) \<Longrightarrow> wp (or_panic x) Q R s"
  by (cases x) (auto simp: wp_simps)

lemma wp_ok_I [wp_intros]: "Q a s \<Longrightarrow> wp (ok a) Q R s"
  and wp_raise_I [wp_intros]: "R (Error e) s \<Longrightarrow> wp (raise e) Q R s"
  and wp_panic_I [wp_intros]: "R Panic s \<Longrightarrow> wp panic Q R s"
  and wp_gets_I [wp_intros]: "Q (f' s) s \<Longrightarrow> wp (gets f') Q R s"
  and wp_modify_I [wp_intros]: "Q' () (g s) \<Longrightarrow> wp (modify g) Q' R s"
  by (simp_all add: wp_simps)

text \<open>Without faults the statements are exact.\<close>

lemma no_fault_upd [simp]: "faults s = [] \<Longrightarrow> s\<lparr>faults := []\<rparr> = s"
  by (cases s) simp

lemma wp_db_select_exact [wp_simps]:
  "faults s = [] \<Longrightarrow> wp (db_select f) Q R s =
     (case f (gens s) of Inl e \<Rightarrow> R (Error e) s | Inr a \<Rightarrow> Q a s)"
  by (auto simp: wp_def db_select_def db_call_def Let_def split: sum.splits)

lemma wp_db_update_exact [wp_simps]:
  "faults s = [] \<Longrightarrow> wp (db_update i f) Q R s =
     Q () (s\<lparr>gens := update_gen i (f (db_now s)) (gens s)\<rparr>)"
  by (auto simp: wp_def db_update_def db_call_def Let_def)

lemma wp_db_update_returning_exact [wp_simps]:
  "faults s = [] \<Longrightarrow> wp (db_update_returning i f) Q R s =
     Q (map_option (f (db_now s)) (map_of (gens s) i))
       (s\<lparr>gens := update_gen i (f (db_now s)) (gens s)\<rparr>)"
  by (auto simp: wp_def db_update_returning_def db_call_def Let_def)

lemma wp_transaction_exact:
  assumes "faults s = []" and "\<And>r t. body s = (r, t) \<Longrightarrow> faults t = []"
  shows "wp (transaction dberr body) Q R s = wp body Q (\<lambda>x t. R x (t\<lparr>gens := gens s\<rparr>)) s"
  using assms
  by (auto simp: wp_def transaction_def db_call_def Let_def split: prod.splits sum.splits)

lemma wp_transaction_exact_I:
  assumes "faults s = []"
    and "wp body (\<lambda>a t. faults t = [] \<and> Q a t) (\<lambda>x t. R x (t\<lparr>gens := gens s\<rparr>)) s"
  shows "wp (transaction dberr body) Q R s"
  using assms
  by (auto simp: wp_def transaction_def db_call_def Let_def split: prod.splits sum.splits)

end
