(* ===== verification/Rate_Limit.thy ===== *)
theory Rate_Limit
  imports Generations "HOL-Library.Product_Lexorder"
begin

text \<open>
  Rate limits for model calls, \<open>src/src/governance/rate_limit.rs\<close>: policies, fixed-window buckets that
  count what a policy has seen, and the check before a call. The two tables are the state
  \<open>gov_db\<close>; as in \<open>Generations\<close>, each statement may fail as a schedule of faults says. A
  decimal is an integer number of units of \<open>10 ^ -28\<close>, the finest scale of \<open>rust_decimal\<close>; a
  \<open>NUMERIC(20, 8)\<close> column rounds it.
\<close>

section \<open>Types\<close>

datatype RateLimitRoute = All_routes | Interpret_route | Respond_route

fun route_str :: "RateLimitRoute \<Rightarrow> string" where
  "route_str All_routes = ''all''"
| "route_str Interpret_route = ''interpret''"
| "route_str Respond_route = ''respond''"

definition route_from :: "string \<Rightarrow> RateLimitRoute" where
  "route_from s =
     (if s = ''interpret'' then Interpret_route
      else if s = ''respond'' then Respond_route else All_routes)"

datatype WindowUnit = Minute | Hour | Day

definition window_unit_from :: "string \<Rightarrow> WindowUnit" where
  "window_unit_from s = (if s = ''minute'' then Minute else if s = ''hour'' then Hour else Day)"

type_synonym decimal = int

text \<open>Rounding to eight decimal places, half away from zero.\<close>

definition numeric8 :: "decimal \<Rightarrow> decimal" where
  "numeric8 d = sgn d * ((\<bar>d\<bar> + 5 * 10 ^ 19) div 10 ^ 20) * 10 ^ 20"

record RateLimitPolicy =
  rp_id :: int
  rp_scope_type :: string
  rp_strategy :: string
  rp_route :: string
  rp_provider :: string
  rp_model :: string
  rp_window_unit :: string
  rp_max_requests :: "int option"
  rp_max_input_tokens :: "int option"
  rp_max_output_tokens :: "int option"
  rp_max_total_tokens :: "int option"
  rp_max_estimated_cost_usd :: "decimal option"
  rp_enabled :: bool
  rp_created_at :: datetime
  rp_updated_at :: datetime

record RateLimitBucket =
  rb_id :: int
  rb_scope_type :: string
  rb_strategy :: string
  rb_route :: string
  rb_provider :: string
  rb_model :: string
  rb_window_unit :: string
  rb_window_ends_at :: datetime
  rb_request_count :: int
  rb_input_tokens :: int
  rb_output_tokens :: int
  rb_total_tokens :: int
  rb_estimated_cost_usd :: decimal
  rb_deny_count :: int
  rb_last_request_id :: "string option"
  rb_last_generation_id :: "string option"
  rb_last_seen_at :: datetime
  rb_created_at :: datetime
  rb_updated_at :: datetime

datatype ExhaustionAction = Allow | Deny | Degrade

record PreflightDecision =
  pd_allowed :: bool
  pd_action :: ExhaustionAction

record BucketMutation =
  bm_route :: string
  bm_provider :: string
  bm_model :: string
  bm_window_unit :: string
  bm_request_count :: int
  bm_input_tokens :: int
  bm_output_tokens :: int
  bm_total_tokens :: int
  bm_estimated_cost_usd :: decimal
  bm_deny_count :: int
  bm_last_request_id :: "string option"
  bm_last_generation_id :: "string option"

section \<open>Windows\<close>

definition unit_nanos :: "WindowUnit \<Rightarrow> int" where
  "unit_nanos u = (case u of Minute \<Rightarrow> 60 | Hour \<Rightarrow> 3600 | Day \<Rightarrow> 86400) * 10 ^ 9"

definition window_start :: "datetime \<Rightarrow> WindowUnit \<Rightarrow> datetime" where
  "window_start at u = at - at mod unit_nanos u"

definition window_end :: "datetime \<Rightarrow> WindowUnit \<Rightarrow> datetime" where
  "window_end start u = start + unit_nanos u"

section \<open>The tables\<close>

text \<open>A bucket is keyed by its policy and the start of its window, its unique index.\<close>

type_synonym bucket_key = "int \<times> datetime"

record gov_db =
  gv_policies :: "RateLimitPolicy list"
  gv_buckets :: "(bucket_key \<times> RateLimitBucket) list"
  gv_next_id :: int
  gv_now :: datetime
  gv_faults :: "sqlx_error option list"

definition statement :: "(gov_db \<Rightarrow> (sqlx_error + 'a) \<times> gov_db) \<Rightarrow> (gov_db, sqlx_error, 'a) act" where
  "statement f s =
     (let s' = s\<lparr>gv_faults := tl (gv_faults s)\<rparr>
      in case gv_faults s of
           Some e # _ \<Rightarrow> (Inl (Error e), s')
         | _ \<Rightarrow> (case f s' of (Inl e, _) \<Rightarrow> (Inl (Error e), s') | (Inr a, t) \<Rightarrow> (Inr a, t)))"

text \<open>The \<open>CHECK\<close> constraints of the two tables, with the range of \<open>BIGINT\<close>.\<close>

definition limit_ok :: "int option \<Rightarrow> bool" where
  "limit_ok l = (case l of None \<Rightarrow> True | Some n \<Rightarrow> 0 \<le> n)"

definition policy_ok :: "RateLimitPolicy \<Rightarrow> bool" where
  "policy_ok p \<longleftrightarrow>
     rp_scope_type p \<in> {''global'', ''provider'', ''model'', ''route''} \<and>
     rp_strategy p = ''fixed_window'' \<and>
     rp_route p \<in> {''all'', ''interpret'', ''respond''} \<and>
     rp_window_unit p \<in> {''minute'', ''hour'', ''day''} \<and>
     limit_ok (rp_max_requests p) \<and> limit_ok (rp_max_input_tokens p) \<and> limit_ok (rp_max_output_tokens p) \<and>
     limit_ok (rp_max_total_tokens p) \<and> limit_ok (rp_max_estimated_cost_usd p) \<and>
     (rp_max_requests p \<noteq> None \<or> rp_max_input_tokens p \<noteq> None \<or> rp_max_output_tokens p \<noteq> None \<or>
      rp_max_total_tokens p \<noteq> None \<or> rp_max_estimated_cost_usd p \<noteq> None) \<and>
     (rp_scope_type p = ''global'' \<longrightarrow> rp_route p = ''all'' \<and> rp_provider p = ''*'' \<and> rp_model p = ''*'') \<and>
     (rp_scope_type p = ''route'' \<longrightarrow> rp_route p \<noteq> ''all'' \<and> rp_provider p = ''*'' \<and> rp_model p = ''*'') \<and>
     (rp_scope_type p = ''provider'' \<longrightarrow> rp_provider p \<noteq> ''*'' \<and> rp_model p = ''*'') \<and>
     (rp_scope_type p = ''model'' \<longrightarrow> rp_model p \<noteq> ''*'')"

definition bucket_counts :: "RateLimitBucket \<Rightarrow> int list" where
  "bucket_counts b =
     [rb_request_count b, rb_input_tokens b, rb_output_tokens b, rb_total_tokens b, rb_deny_count b]"

definition bucket_ok :: "RateLimitBucket \<Rightarrow> bool" where
  "bucket_ok b \<longleftrightarrow>
     list_all (\<lambda>n. 0 \<le> n \<and> is_i64 n) (bucket_counts b) \<and> 0 \<le> rb_estimated_cost_usd b"

section \<open>Policies\<close>

definition policy_key :: "RateLimitPolicy \<Rightarrow> string \<times> string \<times> string \<times> string \<times> string" where
  "policy_key p = (rp_scope_type p, rp_route p, rp_provider p, rp_model p, rp_window_unit p)"

text \<open>\<open>INSERT .. ON CONFLICT (scope_type, route, provider, model, window_unit) DO UPDATE\<close>.\<close>

definition upsert_policy :: "RateLimitPolicy \<Rightarrow> RateLimitPolicy list \<Rightarrow> RateLimitPolicy list" where
  "upsert_policy new ps =
     (if \<exists>p \<in> set ps. policy_key p = policy_key new
      then map (\<lambda>p. if policy_key p = policy_key new
                    then new\<lparr>rp_id := rp_id p, rp_created_at := rp_created_at p\<rparr> else p) ps
      else ps @ [new])"

definition upsert_default ::
  "string \<Rightarrow> string \<Rightarrow> string \<Rightarrow> int option \<Rightarrow> int option \<Rightarrow> int option \<Rightarrow> int option \<Rightarrow> decimal option \<Rightarrow>
     (gov_db, sqlx_error, RateLimitPolicy) act" where
  "upsert_default route scope_type window_unit max_requests max_input_tokens max_output_tokens
      max_total_tokens max_estimated_cost_usd =
     statement (\<lambda>s.
       let new = \<lparr>rp_id = gv_next_id s, rp_scope_type = scope_type, rp_strategy = ''fixed_window'',
                  rp_route = route, rp_provider = ''*'', rp_model = ''*'', rp_window_unit = window_unit,
                  rp_max_requests = max_requests, rp_max_input_tokens = max_input_tokens,
                  rp_max_output_tokens = max_output_tokens, rp_max_total_tokens = max_total_tokens,
                  rp_max_estimated_cost_usd = map_option numeric8 max_estimated_cost_usd,
                  rp_enabled = True, rp_created_at = gv_now s, rp_updated_at = gv_now s\<rparr>;
           ps = upsert_policy new (gv_policies s)
       in if \<not> policy_ok new then (Inl CheckViolation, s)
          else case find (\<lambda>p. policy_key p = policy_key new) ps of
                 Some row \<Rightarrow> (Inr row, s\<lparr>gv_policies := ps, gv_next_id := gv_next_id s + 1\<rparr>)
               | None \<Rightarrow> (Inl RowNotFound, s))"

definition applies :: "string \<Rightarrow> string \<Rightarrow> string \<Rightarrow> RateLimitPolicy \<Rightarrow> bool" where
  "applies route provider model p \<longleftrightarrow>
     rp_enabled p \<and> (rp_route p = route \<or> rp_route p = ''all'') \<and>
     (rp_provider p = provider \<or> rp_provider p = ''*'') \<and> (rp_model p = model \<or> rp_model p = ''*'')"

definition policy_rank :: "RateLimitPolicy \<Rightarrow> int \<times> int \<times> int" where
  "policy_rank p =
     (if rp_window_unit p = ''minute'' then 1 else if rp_window_unit p = ''hour'' then 2 else 3,
      if rp_scope_type p = ''route'' then 1 else if rp_scope_type p = ''provider'' then 2
      else if rp_scope_type p = ''model'' then 3 else 4,
      rp_id p)"

definition find_applicable ::
  "string \<Rightarrow> string \<Rightarrow> string \<Rightarrow> (gov_db, sqlx_error, RateLimitPolicy list) act" where
  "find_applicable route provider model =
     statement (\<lambda>s. (Inr (sort_key policy_rank (filter (applies route provider model) (gv_policies s))), s))"

section \<open>Buckets\<close>

definition coalesce :: "'a option \<Rightarrow> 'a option \<Rightarrow> 'a option" where
  "coalesce x y = (case x of Some _ \<Rightarrow> x | None \<Rightarrow> y)"

definition window_key :: "RateLimitPolicy \<Rightarrow> datetime \<Rightarrow> bucket_key" where
  "window_key p now = (rp_id p, window_start now (window_unit_from (rp_window_unit p)))"

definition increment ::
  "RateLimitPolicy \<Rightarrow> BucketMutation \<Rightarrow> datetime \<Rightarrow> (gov_db, sqlx_error, RateLimitBucket) act" where
  "increment policy mutation now =
     statement (\<lambda>s.
       let unit = window_unit_from (rp_window_unit policy);
           ws = window_start now unit;
           we = window_end ws unit;
           fresh = \<lparr>rb_id = gv_next_id s, rb_scope_type = rp_scope_type policy,
                    rb_strategy = ''fixed_window'', rb_route = bm_route mutation,
                    rb_provider = bm_provider mutation, rb_model = bm_model mutation,
                    rb_window_unit = bm_window_unit mutation, rb_window_ends_at = we,
                    rb_request_count = bm_request_count mutation, rb_input_tokens = bm_input_tokens mutation,
                    rb_output_tokens = bm_output_tokens mutation, rb_total_tokens = bm_total_tokens mutation,
                    rb_estimated_cost_usd = numeric8 (bm_estimated_cost_usd mutation),
                    rb_deny_count = bm_deny_count mutation,
                    rb_last_request_id = bm_last_request_id mutation,
                    rb_last_generation_id = bm_last_generation_id mutation,
                    rb_last_seen_at = gv_now s, rb_created_at = gv_now s, rb_updated_at = gv_now s\<rparr>;
           row = (case map_of (gv_buckets s) (rp_id policy, ws) of
                    None \<Rightarrow> fresh
                  | Some b \<Rightarrow>
                      b\<lparr>rb_request_count := rb_request_count b + rb_request_count fresh,
                        rb_input_tokens := rb_input_tokens b + rb_input_tokens fresh,
                        rb_output_tokens := rb_output_tokens b + rb_output_tokens fresh,
                        rb_total_tokens := rb_total_tokens b + rb_total_tokens fresh,
                        rb_estimated_cost_usd := rb_estimated_cost_usd b + rb_estimated_cost_usd fresh,
                        rb_deny_count := rb_deny_count b + rb_deny_count fresh,
                        rb_last_request_id := coalesce (rb_last_request_id fresh) (rb_last_request_id b),
                        rb_last_generation_id := coalesce (rb_last_generation_id fresh) (rb_last_generation_id b),
                        rb_last_seen_at := gv_now s, rb_updated_at := gv_now s\<rparr>)
       in if \<not> bucket_ok fresh \<or> \<not> bucket_ok row then (Inl CheckViolation, s)
          else (Inr row, s\<lparr>gv_buckets := AList.update (rp_id policy, ws) row (gv_buckets s),
                           gv_next_id := gv_next_id s + 1\<rparr>))"

definition zero_mutation :: "RateLimitPolicy \<Rightarrow> BucketMutation" where
  "zero_mutation policy =
     \<lparr>bm_route = rp_route policy, bm_provider = rp_provider policy, bm_model = rp_model policy,
      bm_window_unit = rp_window_unit policy, bm_request_count = 0, bm_input_tokens = 0,
      bm_output_tokens = 0, bm_total_tokens = 0, bm_estimated_cost_usd = 0, bm_deny_count = 0,
      bm_last_request_id = None, bm_last_generation_id = None\<rparr>"

definition record_usage ::
  "RateLimitPolicy \<Rightarrow> int \<Rightarrow> int \<Rightarrow> int \<Rightarrow> decimal \<Rightarrow> string \<Rightarrow> string \<Rightarrow> datetime \<Rightarrow>
     (gov_db, sqlx_error, RateLimitBucket) act" where
  "record_usage policy input_tokens output_tokens total_tokens estimated_cost_usd request_id generation_id now =
     increment policy
       ((zero_mutation policy)\<lparr>bm_request_count := 1, bm_input_tokens := input_tokens,
          bm_output_tokens := output_tokens, bm_total_tokens := total_tokens,
          bm_estimated_cost_usd := estimated_cost_usd,
          bm_last_request_id := Some request_id, bm_last_generation_id := Some generation_id\<rparr>) now"

definition record_denial ::
  "RateLimitPolicy \<Rightarrow> string \<Rightarrow> string \<Rightarrow> datetime \<Rightarrow> (gov_db, sqlx_error, RateLimitBucket) act" where
  "record_denial policy request_id generation_id now =
     increment policy
       ((zero_mutation policy)\<lparr>bm_deny_count := 1,
          bm_last_request_id := Some request_id, bm_last_generation_id := Some generation_id\<rparr>) now"

section \<open>The check before a call\<close>

definition allow_decision :: PreflightDecision where
  "allow_decision = \<lparr>pd_allowed = True, pd_action = Allow\<rparr>"

definition exhausted_decision :: "string \<Rightarrow> PreflightDecision" where
  "exhausted_decision route =
     (let action = (if route = ''interpret'' then Deny else if route = ''respond'' then Degrade else Deny)
      in \<lparr>pd_allowed = (action = Degrade), pd_action = action\<rparr>)"

definition DEFAULT_COST :: decimal where
  "DEFAULT_COST = 10 ^ 24"

fun preflight_policies ::
  "string \<Rightarrow> decimal \<Rightarrow> string \<Rightarrow> string \<Rightarrow> datetime \<Rightarrow> RateLimitPolicy list \<Rightarrow>
     (gov_db, sqlx_error, PreflightDecision) act" where
  "preflight_policies route cost request_id generation_id now [] = ok allow_decision"
| "preflight_policies route cost request_id generation_id now (policy # policies) =
     and_then (increment policy (zero_mutation policy) now) (\<lambda>bucket.
       let too_many = (case rp_max_requests policy of
                         Some max_req \<Rightarrow> wrap_i64 (rb_request_count bucket + 1) > max_req | None \<Rightarrow> False);
           too_dear = (case rp_max_estimated_cost_usd policy of
                         Some max_cost \<Rightarrow> rb_estimated_cost_usd bucket + cost > max_cost | None \<Rightarrow> False)
       in if too_many \<or> too_dear
          then and_then (record_denial policy request_id generation_id now) (\<lambda>_. ok (exhausted_decision route))
          else preflight_policies route cost request_id generation_id now policies)"

definition preflight_check ::
  "datetime \<Rightarrow> string \<Rightarrow> string \<Rightarrow> string \<Rightarrow> decimal option \<Rightarrow> string \<Rightarrow> string \<Rightarrow>
     (gov_db, sqlx_error, PreflightDecision) act" where
  "preflight_check now route provider model projected_cost_usd request_id generation_id =
     and_then (find_applicable route provider model) (\<lambda>policies.
       preflight_policies route (case projected_cost_usd of Some c \<Rightarrow> c | None \<Rightarrow> DEFAULT_COST)
         request_id generation_id now policies)"

text \<open>
  What the callers do after a successful call (\<open>src/src/llm/interpret.rs\<close>): record the usage under
  every applicable policy, errors ignored.
\<close>

fun record_usages ::
  "int \<Rightarrow> int \<Rightarrow> int \<Rightarrow> decimal \<Rightarrow> string \<Rightarrow> string \<Rightarrow> datetime \<Rightarrow> RateLimitPolicy list \<Rightarrow>
     (gov_db, sqlx_error, unit) act" where
  "record_usages i out t cost request_id generation_id now [] = ok ()"
| "record_usages i out t cost request_id generation_id now (p # ps) =
     and_then (ignore_err (record_usage p i out t cost request_id generation_id now)) (\<lambda>_.
       record_usages i out t cost request_id generation_id now ps)"

definition record_governance_usage ::
  "string \<Rightarrow> string \<Rightarrow> string \<Rightarrow> int option \<Rightarrow> int option \<Rightarrow> int option \<Rightarrow> decimal \<Rightarrow> string \<Rightarrow> string \<Rightarrow> datetime \<Rightarrow>
     (gov_db, sqlx_error, unit) act" where
  "record_governance_usage route provider model input_tokens output_tokens token_count cost request_id generation_id now =
     and_then (try_err (find_applicable route provider model)) (\<lambda>r.
       case r of
         Inl _ \<Rightarrow> ok ()
       | Inr policies \<Rightarrow>
           record_usages (case input_tokens of Some n \<Rightarrow> n | None \<Rightarrow> 0)
             (case output_tokens of Some n \<Rightarrow> n | None \<Rightarrow> 0)
             (case token_count of Some n \<Rightarrow> n | None \<Rightarrow> 0) cost request_id generation_id now policies)"

section \<open>What the operations do to the counts\<close>

definition counts :: "gov_db \<Rightarrow> bucket_key \<Rightarrow> int" where
  "counts s k = (case map_of (gv_buckets s) k of None \<Rightarrow> 0 | Some b \<Rightarrow> rb_request_count b)"

lemma wp_statement:
  "wp (statement f) Q R s =
     (case gv_faults s of
        Some e # _ \<Rightarrow> R (Error e) (s\<lparr>gv_faults := tl (gv_faults s)\<rparr>)
      | _ \<Rightarrow> (case f (s\<lparr>gv_faults := tl (gv_faults s)\<rparr>) of
                (Inl e, _) \<Rightarrow> R (Error e) (s\<lparr>gv_faults := tl (gv_faults s)\<rparr>) | (Inr a, t) \<Rightarrow> Q a t))"
  by (auto simp: wp_def statement_def Let_def split: list.splits option.splits prod.splits sum.splits)

lemma counts_simps [simp]:
  "counts (s\<lparr>gv_faults := fs\<rparr>) = counts s"
  by (simp_all add: counts_def fun_eq_iff)

lemma wp_find_applicable:
  "wp (find_applicable route provider model)
     (\<lambda>ps s'. ps = sort_key policy_rank (filter (applies route provider model) (gv_policies s)) \<and>
        s' = s\<lparr>gv_faults := gv_faults s'\<rparr>)
     (\<lambda>x s'. x \<noteq> Panic \<and> s' = s\<lparr>gv_faults := gv_faults s'\<rparr>) s"
  by (auto simp: find_applicable_def wp_statement split: list.splits option.splits)

text \<open>\<open>same s s'\<close>: neither the policies nor the counts have changed.\<close>

definition same :: "gov_db \<Rightarrow> gov_db \<Rightarrow> bool" where
  "same s s' \<longleftrightarrow> gv_policies s' = gv_policies s \<and> counts s' = counts s"

lemma same_refl [simp]: "same s s" and same_faults [simp]: "same s (s\<lparr>gv_faults := fs\<rparr>)"
  and same_trans [trans]: "same s t \<Longrightarrow> same t u \<Longrightarrow> same s u"
  by (auto simp: same_def)

lemma same_faultsD: "s' = s\<lparr>gv_faults := gv_faults s'\<rparr> \<Longrightarrow> same s s'"
  by (metis same_faults)

lemma wp_increment:
  "wp (increment p m now)
     (\<lambda>b s'. gv_policies s' = gv_policies s \<and> rb_request_count b = counts s (window_key p now) + bm_request_count m \<and>
        is_i64 (rb_request_count b) \<and>
        counts s' = (counts s)(window_key p now := rb_request_count b))
     (\<lambda>x s'. x \<noteq> Panic \<and> same s s') s"
  by (auto simp: increment_def wp_statement Let_def window_key_def counts_def fun_eq_iff update_conv'
      bucket_ok_def bucket_counts_def same_def split: list.splits option.splits)

lemma wp_increment_zero:
  assumes "bm_request_count m = 0"
  shows "wp (increment p m now)
     (\<lambda>b s'. same s s' \<and> rb_request_count b = counts s (window_key p now) \<and> is_i64 (rb_request_count b))
     (\<lambda>x s'. x \<noteq> Panic \<and> same s s') s"
  by (rule wp_mono [OF wp_increment]) (auto simp: assms same_def fun_eq_iff)

lemma wp_record_denial:
  "wp (record_denial p rid gid now) (\<lambda>b s'. same s s') (\<lambda>x s'. x \<noteq> Panic \<and> same s s') s"
  unfolding record_denial_def by (rule wp_mono [OF wp_increment_zero]) (auto simp: zero_mutation_def)

definition below :: "gov_db \<Rightarrow> RateLimitPolicy \<Rightarrow> datetime \<Rightarrow> bool" where
  "below s p now \<longleftrightarrow>
     (case rp_max_requests p of None \<Rightarrow> True | Some m \<Rightarrow> wrap_i64 (counts s (window_key p now) + 1) \<le> m)"

lemma below_same: "same s t \<Longrightarrow> below t p now = below s p now"
  by (auto simp: below_def same_def split: option.splits)

lemma wp_preflight_policies:
  "wp (preflight_policies route cost rid gid now ps)
     (\<lambda>d s'. same s s' \<and> (d = exhausted_decision route \<or>
         d = allow_decision \<and> (\<forall>p \<in> set ps. below s p now)))
     (\<lambda>x s'. x \<noteq> Panic \<and> same s s') s"
proof (induction ps arbitrary: s)
  case Nil
  then show ?case by (simp add: wp_simps)
next
  case (Cons p ps)
  show ?case
    unfolding preflight_policies.simps wp_and_then
  proof (rule wp_mono [OF wp_increment_zero], goal_cases)
    case (2 b t)
    then have st: "same s t" and b: "rb_request_count b = counts s (window_key p now)" by auto
    have ok: "below s p now" if "\<not> (case rp_max_requests p of
                         Some max_req \<Rightarrow> wrap_i64 (rb_request_count b + 1) > max_req | None \<Rightarrow> False)"
      using that b by (auto simp: below_def split: option.splits)
    have deny: "wp (and_then (record_denial p rid gid now) (\<lambda>_. ok (exhausted_decision route)))
       (\<lambda>d s'. same s s' \<and> (d = exhausted_decision route \<or>
           d = allow_decision \<and> (\<forall>p \<in> set (p # ps). below s p now)))
       (\<lambda>x s'. x \<noteq> Panic \<and> same s s') t"
      unfolding wp_and_then
      by (rule wp_mono [OF wp_record_denial]) (auto simp: wp_simps intro: same_trans [OF st])
    have rest: "wp (preflight_policies route cost rid gid now ps)
       (\<lambda>d s'. same s s' \<and> (d = exhausted_decision route \<or>
           d = allow_decision \<and> (\<forall>p \<in> set (p # ps). below s p now)))
       (\<lambda>x s'. x \<noteq> Panic \<and> same s s') t" if "below s p now"
      by (rule wp_mono [OF Cons.IH]) (use that in \<open>auto simp: below_same [OF st] intro: same_trans [OF st]\<close>)
    show ?case unfolding Let_def wp_if by (auto intro: deny rest ok simp del: set_simps)
  qed (simp_all add: zero_mutation_def)
qed

lemma wp_preflight_check:
  "wp (preflight_check now route provider model projected rid gid)
     (\<lambda>d s'. same s s' \<and> (d = exhausted_decision route \<or>
         d = allow_decision \<and> (\<forall>p \<in> set (gv_policies s). applies route provider model p \<longrightarrow> below s p now)))
     (\<lambda>x s'. x \<noteq> Panic \<and> same s s') s"
  unfolding preflight_check_def wp_and_then
proof (rule wp_mono [OF wp_find_applicable], goal_cases)
  case (1 ps s')
  then have s': "same s s'" using same_faultsD by blast
  have "wp (preflight_policies route c rid gid now ps)
     (\<lambda>d s'. same s s' \<and> (d = exhausted_decision route \<or>
         d = allow_decision \<and> (\<forall>p \<in> set (gv_policies s). applies route provider model p \<longrightarrow> below s p now)))
     (\<lambda>x s'. x \<noteq> Panic \<and> same s s') s'" for c
    using 1 by (intro wp_mono [OF wp_preflight_policies]) (auto simp: below_same [OF s'] intro: same_trans [OF s'])
  then show ?case .
qed (use same_faultsD in blast)

text \<open>The counts after usage is recorded under distinct policies.\<close>

lemma wp_record_usages:
  assumes "distinct (map rp_id ps)"
  shows "wp (record_usages i out t cost rid gid now ps)
     (\<lambda>_ s'. gv_policies s' = gv_policies s \<and>
        (\<forall>k. counts s' k = counts s k \<or>
             (\<exists>p \<in> set ps. k = window_key p now \<and> counts s' k = counts s k + 1 \<and> is_i64 (counts s' k))))
     (\<lambda>_ _. False) s"
  using assms
proof (induction ps arbitrary: s)
  case Nil
  then show ?case by (simp add: wp_simps)
next
  case (Cons p ps)
  have keys: "window_key q now \<noteq> window_key p now" if "q \<in> set ps" for q :: RateLimitPolicy
    using Cons.prems that by (auto simp: window_key_def) (metis image_eqI)
  have rest: "wp (record_usages i out t cost rid gid now ps)
     (\<lambda>_ s'. gv_policies s' = gv_policies s \<and>
        (\<forall>k. counts s' k = counts s k \<or>
             (\<exists>p \<in> set (p # ps). k = window_key p now \<and> counts s' k = counts s k + 1 \<and> is_i64 (counts s' k))))
     (\<lambda>_ _. False) u"
    if u: "gv_policies u = gv_policies s"
      "counts u = counts s \<or> counts u = (counts s)(window_key p now := counts s (window_key p now) + 1) \<and>
         is_i64 (counts s (window_key p now) + 1)" for u
  proof (rule wp_mono [OF Cons.IH], goal_cases)
    case (2 a v)
    show ?case
    proof (intro conjI allI)
      fix k
      have IH: "counts v k = counts u k \<or>
          (\<exists>q \<in> set ps. k = window_key q now \<and> counts v k = counts u k + 1 \<and> is_i64 (counts v k))"
        using 2 by blast
      show "counts v k = counts s k \<or>
          (\<exists>q \<in> set (p # ps). k = window_key q now \<and> counts v k = counts s k + 1 \<and> is_i64 (counts v k))"
      proof (cases "k = window_key p now")
        case True
        then have "\<not> (\<exists>q \<in> set ps. k = window_key q now)" using keys by metis
        then have "counts v k = counts u k" using IH by metis
        then show ?thesis using True u(2) by auto
      next
        case False
        then have "counts u k = counts s k" using u(2) by auto
        then show ?thesis using IH by auto
      qed
    qed (use 2 u(1) in simp)
  qed (use Cons.prems in auto)
  show ?case
    unfolding record_usages.simps wp_and_then wp_ignore_err record_usage_def
  proof (rule wp_mono [OF wp_increment], goal_cases)
    case (1 b u)
    then show ?case by (intro rest) (auto simp add: zero_mutation_def)
  next
    case (2 x u)
    then have u: "gv_policies u = gv_policies s" "counts u = counts s \<or> counts u =
        (counts s)(window_key p now := counts s (window_key p now) + 1) \<and> is_i64 (counts s (window_key p now) + 1)"
      by (simp_all add: same_def)
    show ?case using 2 rest [OF u] by (cases x) simp_all
  qed
qed

section \<open>Invariants of the tables\<close>

definition policies_ok :: "RateLimitPolicy list \<Rightarrow> bool" where
  "policies_ok ps \<longleftrightarrow>
     distinct (map rp_id ps) \<and> distinct (map policy_key ps) \<and> list_all policy_ok ps"

text \<open>No bucket of a policy has counted more requests than the policy allows.\<close>

definition within_limits :: "gov_db \<Rightarrow> bool" where
  "within_limits s \<longleftrightarrow>
     (\<forall>p \<in> set (gv_policies s). \<forall>m. rp_max_requests p = Some m \<longrightarrow> (\<forall>ws. counts s (rp_id p, ws) \<le> m))"

lemma within_limits_same: "same s t \<Longrightarrow> within_limits t = within_limits s"
  by (simp add: within_limits_def same_def)

text \<open>A request as the services make it: check, and on \<open>Allow\<close> call and record the usage.\<close>

definition governed_request ::
  "datetime \<Rightarrow> string \<Rightarrow> string \<Rightarrow> string \<Rightarrow> decimal option \<Rightarrow> decimal \<Rightarrow> int option \<Rightarrow> string \<Rightarrow> string \<Rightarrow>
     (gov_db, sqlx_error, ExhaustionAction) act" where
  "governed_request now route provider model projected cost tokens rid gid =
     and_then (preflight_check now route provider model projected rid gid) (\<lambda>d.
       if pd_action d = Deny then ok Deny
       else and_then (record_governance_usage route provider model tokens tokens tokens cost rid gid now)
              (\<lambda>_. ok (pd_action d)))"

lemma wp_record_governance_usage:
  assumes "distinct (map rp_id (gv_policies s))"
  shows "wp (record_governance_usage route provider model i out t cost rid gid now)
     (\<lambda>_ s'. gv_policies s' = gv_policies s \<and>
        (\<forall>k. counts s' k = counts s k \<or>
             (\<exists>p \<in> set (gv_policies s). applies route provider model p \<and>
                k = window_key p now \<and> counts s' k = counts s k + 1 \<and> is_i64 (counts s' k))))
     (\<lambda>_ _. False) s"
  unfolding record_governance_usage_def wp_and_then wp_try_err
proof (rule wp_mono [OF wp_find_applicable], goal_cases)
  case (1 ps u)
  then have ps: "ps = sort_key policy_rank (filter (applies route provider model) (gv_policies s))"
    and u: "gv_policies u = gv_policies s" "counts u = counts s"
    using same_faultsD by (auto simp only: same_def)
  have "distinct (map rp_id ps)"
    using ps assms by (auto simp: distinct_map intro: inj_on_subset)
  note usages = wp_mono [OF wp_record_usages [OF this]]
  show ?case by (simp, rule usages) (use ps u in auto)
next
  case (2 x u)
  then have u: "gv_policies u = gv_policies s" "counts u = counts s" "x \<noteq> Panic"
    using same_faultsD by (auto simp only: same_def)
  then show ?case by (cases x) (simp_all add: wp_simps)
qed

section \<open>Samples\<close>

definition sample_policy :: RateLimitPolicy where
  "sample_policy =
     \<lparr>rp_id = 1, rp_scope_type = ''route'', rp_strategy = ''fixed_window'', rp_route = ''interpret'',
      rp_provider = ''*'', rp_model = ''*'', rp_window_unit = ''minute'', rp_max_requests = Some 1,
      rp_max_input_tokens = None, rp_max_output_tokens = None, rp_max_total_tokens = None,
      rp_max_estimated_cost_usd = None, rp_enabled = True, rp_created_at = 0, rp_updated_at = 0\<rparr>"

definition sample_gov :: gov_db where
  "sample_gov = \<lparr>gv_policies = [sample_policy], gv_buckets = [], gv_next_id = 2, gv_now = 0, gv_faults = []\<rparr>"

lemma sample_gov_ok: "policies_ok (gv_policies sample_gov)" "within_limits sample_gov"
  by (simp_all add: sample_gov_def sample_policy_def policies_ok_def policy_ok_def limit_ok_def
      within_limits_def counts_def)

section \<open>Without faults\<close>

text \<open>What an increment does to its bucket when no statement fails and the counters stay in range.\<close>

lemma wp_increment_exact:
  assumes "gv_faults s = []" and "bm_request_count m = rc" and "0 \<le> rc" and "is_i64 rc"
    and "bm_input_tokens m = 0" "bm_output_tokens m = 0" "bm_total_tokens m = 0" "bm_estimated_cost_usd m = 0"
    and "bm_deny_count m = dc" and "0 \<le> dc" and "is_i64 dc"
    and "\<And>k b. (k, b) \<in> set (gv_buckets s) \<Longrightarrow> bucket_ok b \<and> is_i64 (rb_request_count b + rc) \<and> is_i64 (rb_deny_count b + dc)"
  shows "wp (increment p m now)
     (\<lambda>b s'. gv_policies s' = gv_policies s \<and> gv_faults s' = [] \<and>
        rb_request_count b = counts s (window_key p now) + rc \<and>
        map_of (gv_buckets s') (window_key p now) = Some b \<and>
        rb_deny_count b = (case map_of (gv_buckets s) (window_key p now) of None \<Rightarrow> 0 | Some b' \<Rightarrow> rb_deny_count b') + dc \<and>
        rb_estimated_cost_usd b = (case map_of (gv_buckets s) (window_key p now) of None \<Rightarrow> 0 | Some b' \<Rightarrow> rb_estimated_cost_usd b') \<and>
        gv_buckets s' = AList.update (window_key p now) b (gv_buckets s) \<and> bucket_ok b)
     (\<lambda>_ _. False) s"
proof (cases "map_of (gv_buckets s) (window_key p now)")
  case None
  then show ?thesis
    using assms by (simp add: increment_def wp_statement Let_def window_key_def counts_def
        bucket_ok_def bucket_counts_def numeric8_def is_i64_def update_conv')
next
  case (Some b)
  have "bucket_ok b" "is_i64 (rb_request_count b + rc)" "is_i64 (rb_deny_count b + dc)"
    using assms(12) [OF map_of_SomeD [OF Some]] by auto
  then show ?thesis
    using assms Some by (simp add: increment_def wp_statement Let_def window_key_def counts_def
        bucket_ok_def bucket_counts_def numeric8_def update_conv') (simp add: is_i64_def)
qed

section \<open>Properties\<close>



text \<open>
  Windows partition time: every time lies in its window, and a time lies in the window that starts
  where another time's window starts exactly if both have the same window.
\<close>

theorem windows_partition_time:
  "window_start t u \<le> t \<and> t < window_end (window_start t u) u \<and>
   (window_start t u \<le> t' \<and> t' < window_end (window_start t u) u \<longleftrightarrow> window_start t' u = window_start t u)"
proof -
  define n where "n = unit_nanos u"
  have n: "0 < n" by (cases u) (simp_all add: n_def unit_nanos_def)
  have t: "t = n * (t div n) + t mod n" "0 \<le> t mod n" "t mod n < n" using n by auto
  have t': "t' = n * (t' div n) + t' mod n" "0 \<le> t' mod n" "t' mod n < n" using n by auto
  have start: "window_start x u = n * (x div n)" for x
    by (simp add: window_start_def n_def minus_mod_eq_mult_div)
  have "n * (t div n) \<le> t' \<and> t' < n * (t div n) + n \<longleftrightarrow> t' div n = t div n"
  proof
    assume "n * (t div n) \<le> t' \<and> t' < n * (t div n) + n"
    then show "t' div n = t div n" by (intro int_div_pos_eq [where r = "t' - n * (t div n)"]) auto
  next
    assume eq: "t' div n = t div n"
    show "n * (t div n) \<le> t' \<and> t' < n * (t div n) + n"
      using t' unfolding eq by linarith
  qed
  moreover have "n * (t div n) \<le> t \<and> t < n * (t div n) + n" using t by linarith
  moreover have "n * (t' div n) = n * (t div n) \<longleftrightarrow> t' div n = t div n" using n by simp
  ultimately show ?thesis
    unfolding start window_end_def n_def [symmetric] by blast
qed

text \<open>
  Of the policies, exactly those that are enabled and match the route, provider and model apply, each
  once, the shortest window first.
\<close>

theorem find_applicable_sorted:
  assumes "distinct (map rp_id (gv_policies s))"
  shows "wp (find_applicable route provider model)
     (\<lambda>ps s'. distinct ps \<and> sorted (map policy_rank ps) \<and>
        (\<forall>p. p \<in> set ps \<longleftrightarrow> p \<in> set (gv_policies s) \<and> rp_enabled p \<and> rp_route p \<in> {route, ''all''} \<and>
               rp_provider p \<in> {provider, ''*''} \<and> rp_model p \<in> {model, ''*''}) \<and>
        gv_policies s' = gv_policies s \<and> gv_buckets s' = gv_buckets s)
     (\<lambda>_ _. True) s"
  using assms
  by (auto simp: find_applicable_def wp_statement applies_def distinct_map split: list.splits option.splits)

theorem find_applicable_sorted_witness:
  "wp (find_applicable ''interpret'' ''minimax'' ''m3'')
     (\<lambda>ps s'. sample_policy \<in> set ps \<and> distinct ps) (\<lambda>_ _. True) sample_gov"
  by (rule wp_mono [OF find_applicable_sorted]) (auto simp: sample_gov_def sample_policy_def)

text \<open>
  At the limit a request is turned down: if one policy applies and its bucket has reached the limit,
  the check returns the route's exhausted decision, deny for the interpreter and degrade, which still
  allows the call, for the responder; it counts one denial and no request.
\<close>

theorem preflight_turns_down_at_limit:
  assumes "gv_faults s = []" and "filter (applies route provider model) (gv_policies s) = [p]"
    and "rp_max_requests p = Some m" and "m \<le> counts s (window_key p now)"
    and "\<And>k b. (k, b) \<in> set (gv_buckets s) \<Longrightarrow>
           bucket_ok b \<and> rb_request_count b < 2 ^ 63 - 1 \<and> rb_deny_count b < 2 ^ 63 - 1"
  shows "wp (preflight_check now route provider model projected rid gid)
     (\<lambda>d s'. d = exhausted_decision route \<and>
        (\<exists>b. map_of (gv_buckets s') (window_key p now) = Some b \<and>
           rb_request_count b = counts s (window_key p now) \<and>
           rb_deny_count b =
             (case map_of (gv_buckets s) (window_key p now) of None \<Rightarrow> 0 | Some b' \<Rightarrow> rb_deny_count b') + 1))
     (\<lambda>_ _. False) s"
proof -
  have room: "bucket_ok b \<and> is_i64 (rb_request_count b) \<and> is_i64 (rb_deny_count b)"
    if "(k, b) \<in> set (gv_buckets s)" for k b
    using assms(5) [OF that] by (auto simp: bucket_ok_def bucket_counts_def)
  have count: "0 \<le> counts s (window_key p now)" "counts s (window_key p now) + 1 < 2 ^ 63"
    using assms(5) [OF map_of_SomeD]
    by (auto simp: counts_def bucket_ok_def bucket_counts_def split: option.split)
  have denied: "wp (record_denial p rid gid now)
     (\<lambda>_ s'. \<exists>b. map_of (gv_buckets s') (window_key p now) = Some b \<and>
           rb_request_count b = counts s (window_key p now) \<and>
           rb_deny_count b =
             (case map_of (gv_buckets s) (window_key p now) of None \<Rightarrow> 0 | Some b' \<Rightarrow> rb_deny_count b') + 1)
     (\<lambda>_ _. False) u"
    if u: "gv_faults u = []" "gv_buckets u = AList.update (window_key p now) b (gv_buckets s)"
      and b: "bucket_ok b" "rb_request_count b = counts s (window_key p now)"
        "rb_deny_count b = (case map_of (gv_buckets s) (window_key p now) of None \<Rightarrow> 0 | Some b' \<Rightarrow> rb_deny_count b')"
    for u b
  proof -
    have deny_count: "rb_deny_count b < 2 ^ 63 - 1"
      unfolding b(3) using assms(5) [OF map_of_SomeD] by (auto split: option.split)
    have bs: "map_of (gv_buckets u) (window_key p now) = Some b" using u(2) by (simp add: update_conv')
    show ?thesis
      using u(1) bs b(1) deny_count unfolding record_denial_def increment_def Let_def
      by (simp add: wp_statement window_key_def zero_mutation_def bucket_ok_def bucket_counts_def
          numeric8_def update_conv' is_i64_def b(2,3))
  qed
  have "wp (preflight_policies route cost rid gid now [p])
     (\<lambda>d s'. d = exhausted_decision route \<and>
        (\<exists>b. map_of (gv_buckets s') (window_key p now) = Some b \<and>
           rb_request_count b = counts s (window_key p now) \<and>
           rb_deny_count b =
             (case map_of (gv_buckets s) (window_key p now) of None \<Rightarrow> 0 | Some b' \<Rightarrow> rb_deny_count b') + 1))
     (\<lambda>_ _. False) s" for cost
    unfolding preflight_policies.simps wp_and_then
  proof (rule wp_mono [OF wp_increment_exact [where rc = 0 and dc = 0]], goal_cases)
    case (13 b u)
    then have "wrap_i64 (rb_request_count b + 1) > m" using assms(4) count by (simp add: is_i64_def)
    moreover have "wp (record_denial p rid gid now)
       (\<lambda>_ s'. \<exists>b. map_of (gv_buckets s') (window_key p now) = Some b \<and>
           rb_request_count b = counts s (window_key p now) \<and>
           rb_deny_count b =
             (case map_of (gv_buckets s) (window_key p now) of None \<Rightarrow> 0 | Some b' \<Rightarrow> rb_deny_count b') + 1)
       (\<lambda>_ _. False) u"
      by (rule denied [of u b]) (use 13 in simp_all)
    ultimately show ?case using assms(3) by (simp add: wp_simps) (erule wp_mono; simp add: wp_simps)
  qed (use room assms(1) in \<open>simp_all add: zero_mutation_def is_i64_def\<close>)
  note turned_down = this
  have nofault: "s\<lparr>gv_faults := []\<rparr> = s" using assms(1) by (cases s) simp
  have "wp (find_applicable route provider model) (\<lambda>ps u. ps = [p] \<and> u = s) (\<lambda>_ _. False) s"
    using assms(1,2) nofault by (simp add: find_applicable_def wp_statement)
  then show ?thesis
    unfolding preflight_check_def wp_and_then
    by (rule wp_mono) (auto simp del: preflight_policies.simps intro: turned_down)
qed

theorem preflight_turns_down_at_limit_witness:
  "wp (preflight_check 5 ''interpret'' ''p'' ''m'' None ''r1'' ''g1'')
     (\<lambda>d s'. d = \<lparr>pd_allowed = False, pd_action = Deny\<rparr>) (\<lambda>_ _. False)
     (sample_gov\<lparr>gv_policies := [sample_policy\<lparr>rp_max_requests := Some 0\<rparr>]\<rparr>)"
  by (rule wp_mono [OF preflight_turns_down_at_limit [where p = "sample_policy\<lparr>rp_max_requests := Some 0\<rparr>" and m = 0]])
    (auto simp: sample_gov_def sample_policy_def applies_def counts_def exhausted_decision_def)

text \<open>
  The check and the record are separate statements, so the limit can be exceeded: with a limit of one
  request per minute, two requests that both check before either records are both allowed, and the
  bucket counts two.
\<close>

theorem concurrent_requests_exceed_limit:
  "rp_max_requests sample_policy = Some 1 \<and>
   wp (and_then (preflight_check 5 ''interpret'' ''p'' ''m'' None ''r1'' ''g1'') (\<lambda>d1.
       and_then (preflight_check 6 ''interpret'' ''p'' ''m'' None ''r2'' ''g2'') (\<lambda>d2.
       and_then (record_governance_usage ''interpret'' ''p'' ''m'' None None None 0 ''r1'' ''g1'' 7) (\<lambda>_.
       and_then (record_governance_usage ''interpret'' ''p'' ''m'' None None None 0 ''r2'' ''g2'' 8) (\<lambda>_.
         ok (d1, d2))))))
     (\<lambda>ds s. ds = (allow_decision, allow_decision) \<and> counts s (window_key sample_policy 5) = 2)
     (\<lambda>_ _. False) sample_gov"
  by code_simp

end
