(* ===== verification/Lifecycle.thy ===== *)
theory Lifecycle
  imports Prelude
begin

text \<open>
  The media generation lifecycle, \<open>src/src/orchestrator/lifecycle.rs\<close>: the nine statuses, the
  transition matrix, the order behind \<open>status_before\<close>, and the conversions to proto values
  and strings. \<open>lifecycle_step\<close> and \<open>lifecycle_path\<close> read the matrix as a state machine.
  The locale \<open>ranked_machine\<close> is what the clients of a status machine rely on: transitions
  strictly increase a bounded rank and terminal states are final.
\<close>

datatype MediaGenerationStatus =
    Queued | Interpreting | Classified | Generating | Uploading | Publishing
  | Completed | Failed | Cancelled

definition ALL_STATUSES :: "MediaGenerationStatus list" where
  "ALL_STATUSES =
     [Queued, Interpreting, Classified, Generating, Uploading, Publishing,
      Completed, Failed, Cancelled]"

definition MINIMUM :: "MediaGenerationStatus list" where
  "MINIMUM =
     [Queued, Interpreting, Classified, Generating, Uploading, Publishing, Completed, Failed]"

definition TERMINAL :: "MediaGenerationStatus list" where
  "TERMINAL = [Completed, Failed, Cancelled]"

fun is_terminal :: "MediaGenerationStatus \<Rightarrow> bool" where
  "is_terminal Completed = True"
| "is_terminal Failed = True"
| "is_terminal Cancelled = True"
| "is_terminal _ = False"

fun can_transition :: "MediaGenerationStatus \<Rightarrow> MediaGenerationStatus \<Rightarrow> bool" where
  "can_transition Queued to = (to = Interpreting \<or> to = Failed \<or> to = Cancelled)"
| "can_transition Interpreting to = (to = Classified \<or> to = Failed \<or> to = Cancelled)"
| "can_transition Classified to = (to = Generating \<or> to = Failed \<or> to = Cancelled)"
| "can_transition Generating to = (to = Uploading \<or> to = Failed \<or> to = Cancelled)"
| "can_transition Uploading to = (to = Publishing \<or> to = Failed \<or> to = Cancelled)"
| "can_transition Publishing to = (to = Completed \<or> to = Failed)"
| "can_transition Completed to = False"
| "can_transition Failed to = False"
| "can_transition Cancelled to = False"

fun next_statuses :: "MediaGenerationStatus \<Rightarrow> MediaGenerationStatus list" where
  "next_statuses Queued = [Interpreting, Failed, Cancelled]"
| "next_statuses Interpreting = [Classified, Failed, Cancelled]"
| "next_statuses Classified = [Generating, Failed, Cancelled]"
| "next_statuses Generating = [Uploading, Failed, Cancelled]"
| "next_statuses Uploading = [Publishing, Failed, Cancelled]"
| "next_statuses Publishing = [Completed, Failed]"
| "next_statuses Completed = []"
| "next_statuses Failed = []"
| "next_statuses Cancelled = []"

fun retry_behavior :: "MediaGenerationStatus \<Rightarrow> string" where
  "retry_behavior Queued = ''requeue_pending_job''"
| "retry_behavior Interpreting = ''resume_current_step''"
| "retry_behavior Classified = ''continue_to_next_step''"
| "retry_behavior Generating = ''resume_current_step''"
| "retry_behavior Uploading = ''resume_current_step''"
| "retry_behavior Publishing = ''resume_current_step''"
| "retry_behavior Completed = ''forbidden''"
| "retry_behavior Failed = ''restart_from_interpreting''"
| "retry_behavior Cancelled = ''manual_requeue_only''"

fun order_index :: "MediaGenerationStatus \<Rightarrow> nat" where
  "order_index Queued = 0"
| "order_index Interpreting = 1"
| "order_index Classified = 2"
| "order_index Generating = 3"
| "order_index Uploading = 4"
| "order_index Publishing = 5"
| "order_index Completed = 6"
| "order_index Failed = 7"
| "order_index Cancelled = 8"

definition from_proto_value :: "int \<Rightarrow> MediaGenerationStatus option" where
  "from_proto_value v =
     (if v = 1 then Some Queued
      else if v = 2 then Some Interpreting
      else if v = 3 then Some Classified
      else if v = 4 then Some Generating
      else if v = 5 then Some Uploading
      else if v = 6 then Some Publishing
      else if v = 7 then Some Completed
      else if v = 8 then Some Failed
      else if v = 9 then Some Cancelled
      else None)"

fun to_proto_value :: "MediaGenerationStatus \<Rightarrow> int" where
  "to_proto_value Queued = 1"
| "to_proto_value Interpreting = 2"
| "to_proto_value Classified = 3"
| "to_proto_value Generating = 4"
| "to_proto_value Uploading = 5"
| "to_proto_value Publishing = 6"
| "to_proto_value Completed = 7"
| "to_proto_value Failed = 8"
| "to_proto_value Cancelled = 9"

definition from_str :: "string \<Rightarrow> MediaGenerationStatus option" where
  "from_str s =
     (if s = ''queued'' then Some Queued
      else if s = ''interpreting'' then Some Interpreting
      else if s = ''classified'' then Some Classified
      else if s = ''generating'' then Some Generating
      else if s = ''uploading'' then Some Uploading
      else if s = ''publishing'' then Some Publishing
      else if s = ''completed'' then Some Completed
      else if s = ''failed'' then Some Failed
      else if s = ''cancelled'' then Some Cancelled
      else None)"

fun as_status_str :: "MediaGenerationStatus \<Rightarrow> string" where
  "as_status_str Queued = ''queued''"
| "as_status_str Interpreting = ''interpreting''"
| "as_status_str Classified = ''classified''"
| "as_status_str Generating = ''generating''"
| "as_status_str Uploading = ''uploading''"
| "as_status_str Publishing = ''publishing''"
| "as_status_str Completed = ''completed''"
| "as_status_str Failed = ''failed''"
| "as_status_str Cancelled = ''cancelled''"

definition status_before :: "MediaGenerationStatus \<Rightarrow> MediaGenerationStatus \<Rightarrow> bool" where
  "status_before s checkpoint =
     (if is_terminal s then False else order_index s < order_index checkpoint)"

definition opt_status_before :: "MediaGenerationStatus option \<Rightarrow> MediaGenerationStatus \<Rightarrow> bool" where
  "opt_status_before s checkpoint =
     (case s of Some status \<Rightarrow> status_before status checkpoint | None \<Rightarrow> True)"

section \<open>What a client of a status machine relies on\<close>

locale ranked_machine =
  fixes step :: "'s \<Rightarrow> 's \<Rightarrow> bool"
    and final :: "'s \<Rightarrow> bool"
    and rank :: "'s \<Rightarrow> nat"
    and bound :: nat
  assumes rank_step: "step a b \<Longrightarrow> rank a < rank b"
    and rank_bound: "rank a \<le> bound"
    and final_stuck: "final a \<Longrightarrow> \<not> step a b"
    and final_progress: "\<not> final a \<Longrightarrow> \<exists>b. step a b"
begin

lemma steps_rank: "step\<^sup>*\<^sup>* a b \<Longrightarrow> a = b \<or> rank a < rank b"
  by (induction rule: rtranclp_induct) (auto dest: rank_step)

lemma trancl_rank: "step\<^sup>+\<^sup>+ a b \<Longrightarrow> rank a < rank b"
  by (induction rule: tranclp_induct) (auto dest: rank_step)

lemma no_cycle: "step\<^sup>+\<^sup>+ a b \<Longrightarrow> \<not> step\<^sup>*\<^sup>* b a"
  using trancl_rank steps_rank by (metis less_asym less_irrefl)

lemma final_sink: "final a \<Longrightarrow> step\<^sup>*\<^sup>* a b \<Longrightarrow> b = a"
  by (erule converse_rtranclpE) (auto dest: final_stuck)

text \<open>A sequence of states, each a step from the one before, is no longer than the ranks allow.\<close>

lemma path_length: "successively step (a # xs) \<Longrightarrow> rank a + length xs \<le> bound"
proof (induction xs arbitrary: a)
  case Nil
  then show ?case by (simp add: rank_bound)
next
  case (Cons b xs)
  then have "rank a < rank b" and "rank b + length xs \<le> bound"
    by (auto dest: rank_step)
  then show ?case by simp
qed

lemma reaches_final: "\<exists>b. step\<^sup>*\<^sup>* a b \<and> final b"
proof (induction "bound - rank a" arbitrary: a rule: less_induct)
  case less
  show ?case
  proof (cases "final a")
    case True
    then show ?thesis by auto
  next
    case False
    then obtain c where c: "step a c" using final_progress by blast
    then have "bound - rank c < bound - rank a"
      using rank_step [OF c] rank_bound [of c] by simp
    then obtain b where "step\<^sup>*\<^sup>* c b" "final b" using less by blast
    with c show ?thesis by (meson converse_rtranclp_into_rtranclp)
  qed
qed

end

section \<open>The lifecycle is such a machine\<close>

lemma can_transition_rank: "can_transition a b \<Longrightarrow> order_index a < order_index b"
  by (cases a) auto

lemma order_index_bound: "order_index a \<le> 8"
  by (cases a) auto

lemma order_index_inject: "order_index a = order_index b \<longleftrightarrow> a = b"
  by (cases a; cases b) auto

text \<open>The order of the statuses, in which every transition goes up.\<close>

instantiation MediaGenerationStatus :: linorder
begin

definition less_eq_MediaGenerationStatus :: "MediaGenerationStatus \<Rightarrow> MediaGenerationStatus \<Rightarrow> bool" where
  "less_eq_MediaGenerationStatus a b \<longleftrightarrow> order_index a \<le> order_index b"

definition less_MediaGenerationStatus :: "MediaGenerationStatus \<Rightarrow> MediaGenerationStatus \<Rightarrow> bool" where
  "less_MediaGenerationStatus a b \<longleftrightarrow> order_index a < order_index b"

instance
  by standard (auto simp: less_eq_MediaGenerationStatus_def less_MediaGenerationStatus_def order_index_inject)

end

lemma status_before_less: "status_before s checkpoint \<longleftrightarrow> \<not> is_terminal s \<and> s < checkpoint"
  by (simp add: status_before_def less_MediaGenerationStatus_def)

interpretation lifecycle: ranked_machine can_transition is_terminal order_index 8
proof unfold_locales
  show "can_transition a b \<Longrightarrow> order_index a < order_index b" for a b
    by (rule can_transition_rank)
  show "order_index a \<le> 8" for a by (rule order_index_bound)
  show "is_terminal a \<Longrightarrow> \<not> can_transition a b" for a b by (cases a) auto
  show "\<not> is_terminal a \<Longrightarrow> \<exists>b. can_transition a b" for a by (cases a) auto
qed

lemma from_str_as_str [simp]: "from_str (as_status_str s) = Some s"
  by (cases s) (simp_all add: from_str_def)

lemma from_str_Some: "from_str x = Some s \<Longrightarrow> x = as_status_str s"
  by (auto simp: from_str_def split: if_splits)

lemma from_proto_to_proto [simp]: "from_proto_value (to_proto_value s) = Some s"
  by (cases s) (simp_all add: from_proto_value_def)

lemma from_proto_Some: "from_proto_value v = Some s \<Longrightarrow> v = to_proto_value s"
  by (auto simp: from_proto_value_def split: if_splits)

lemma as_str_inj [simp]: "as_status_str a = as_status_str b \<longleftrightarrow> a = b"
  by (metis from_str_as_str option.inject)

lemma is_terminal_TERMINAL: "is_terminal s \<longleftrightarrow> s \<in> set TERMINAL"
  by (cases s) (auto simp: TERMINAL_def)

section \<open>Properties\<close>

text \<open>
  The two encodings of the transition matrix agree: \<open>can_transition\<close> allows exactly the
  statuses \<open>next_statuses\<close> lists, and no status allows itself.
\<close>

theorem transition_matrix_consistent:
  "can_transition s t \<longleftrightarrow> t \<in> set (next_statuses s) \<and> t \<noteq> s"
  by (cases s) auto

text \<open>
  No regression: along any sequence of transitions the order index strictly increases, so a
  status is never visited twice, and a history that follows the matrix has at most nine entries.
\<close>

theorem lifecycle_no_regression:
  "(can_transition\<^sup>+\<^sup>+ s t \<longrightarrow> order_index s < order_index t \<and> \<not> can_transition\<^sup>*\<^sup>* t s) \<and>
   (successively can_transition (s # xs) \<longrightarrow> length (s # xs) \<le> 9)"
proof (intro conjI impI)
  assume st: "can_transition\<^sup>+\<^sup>+ s t"
  then show "order_index s < order_index t" by (rule lifecycle.trancl_rank)
  show "\<not> can_transition\<^sup>*\<^sup>* t s" using st by (rule lifecycle.no_cycle)
next
  assume "successively can_transition (s # xs)"
  then show "length (s # xs) \<le> 9" using lifecycle.path_length by fastforce
qed

theorem lifecycle_no_regression_witness:
  "order_index Queued < order_index Classified \<and> \<not> can_transition\<^sup>*\<^sup>* Classified Queued \<and>
   length [Queued, Interpreting, Classified] \<le> 9"
proof -
  have "can_transition\<^sup>+\<^sup>+ Queued Classified"
    by (rule tranclp.trancl_into_trancl [OF tranclp.r_into_trancl [of _ _ Interpreting]]) simp_all
  moreover have "successively can_transition (Queued # [Interpreting, Classified])" by simp
  ultimately show ?thesis
    using lifecycle_no_regression [of Queued Classified "[Interpreting, Classified]"] by blast
qed

text \<open>
  Terminal statuses are exactly the final states: nothing leaves them, every other status
  can still be completed or failed, and a generation that is publishing can no longer be
  cancelled.
\<close>

theorem lifecycle_termination_options:
  "(is_terminal s \<longleftrightarrow> (\<forall>t. \<not> can_transition s t)) \<and>
   (\<not> is_terminal s \<longleftrightarrow> can_transition\<^sup>*\<^sup>* s Completed \<and> s \<noteq> Completed) \<and>
   (\<not> is_terminal s \<longleftrightarrow> can_transition s Failed) \<and>
   (can_transition s Cancelled \<longleftrightarrow> \<not> is_terminal s \<and> s \<noteq> Publishing)"
proof -
  have p: "can_transition\<^sup>*\<^sup>* Publishing Completed" by (simp add: r_into_rtranclp)
  have u: "can_transition\<^sup>*\<^sup>* Uploading Completed"
    by (rule converse_rtranclp_into_rtranclp [OF _ p]) simp
  have g: "can_transition\<^sup>*\<^sup>* Generating Completed"
    by (rule converse_rtranclp_into_rtranclp [OF _ u]) simp
  have c: "can_transition\<^sup>*\<^sup>* Classified Completed"
    by (rule converse_rtranclp_into_rtranclp [OF _ g]) simp
  have i: "can_transition\<^sup>*\<^sup>* Interpreting Completed"
    by (rule converse_rtranclp_into_rtranclp [OF _ c]) simp
  have q: "can_transition\<^sup>*\<^sup>* Queued Completed"
    by (rule converse_rtranclp_into_rtranclp [OF _ i]) simp
  have "is_terminal s \<Longrightarrow> can_transition\<^sup>*\<^sup>* s Completed \<Longrightarrow> s = Completed"
    using lifecycle.final_sink by metis
  then show ?thesis using p u g c i q by (cases s) auto
qed

text \<open>
  The string and proto encodings of a status round-trip, and no other string or number
  decodes to a status.
\<close>

theorem status_codec_roundtrip:
  "(from_str x = Some s \<longleftrightarrow> x = as_status_str s) \<and>
   (from_proto_value v = Some s \<longleftrightarrow> v = to_proto_value s)"
  using from_str_Some from_proto_to_proto from_proto_Some by auto

text \<open>
  The retry labels that allow a re-run agree with the matrix on finality: a status is retried in
  place, or moved on, exactly when it is not terminal; \<open>completed\<close> alone forbids a retry.
\<close>

theorem retry_behavior_finality:
  "(is_terminal s \<longleftrightarrow>
      retry_behavior s \<notin> {''requeue_pending_job'', ''resume_current_step'', ''continue_to_next_step''}) \<and>
   (retry_behavior s = ''forbidden'' \<longleftrightarrow> s = Completed)"
  by (cases s) simp_all

end
