(* ===== verification/Audit_Payload.thy ===== *)
theory Audit_Payload
  imports Generations Lifecycle "HOL-Library.Monad_Syntax"
begin

text \<open>
  The JSON payload of the audit trail: the helper functions of
  \<open>src/src/orchestrator/audit_trail.rs\<close>. A helper that can panic (indexing a value that is
  not an object, slicing a string inside a code point) returns \<open>None\<close> where it does.
  \<open>E\<close> holds the third-party functions, \<open>now\<close> is \<open>Utc::now()\<close>.
\<close>

definition SCHEMA_VERSION :: string where
  "SCHEMA_VERSION = ''media_generation_orchestration_audit.v1''"

definition HISTORY_LIMIT :: nat where
  "HISTORY_LIMIT = 50"

datatype AuditTrailError =
    NotFound string
  | InvalidTransition MediaGenerationStatus MediaGenerationStatus
  | Database sqlx_error
  | Terminal string MediaGenerationStatus
  | Payload string

definition parse_uuid :: "externals \<Rightarrow> string \<Rightarrow> ('s, AuditTrailError, uuid) act" where
  "parse_uuid E s = ok_or (Payload (''Invalid UUID: '' @ s)) (x_parse_uuid E s)"

section \<open>Messages and contexts\<close>

fun collapse_ws :: "bool \<Rightarrow> string list \<Rightarrow> string list" where
  "collapse_ws prev_space [] = []"
| "collapse_ws prev_space (c # cs) =
     (if is_whitespace c then (if prev_space then [] else ['' '']) @ collapse_ws True cs
      else c # collapse_ws False cs)"

definition sanitize_message :: "string \<Rightarrow> string option" where
  "sanitize_message message =
     (let collapsed = trim (concat (collapse_ws False (chars message)))
      in if length collapsed > 240 then slice_to collapsed 240 else Some collapsed)"

definition safe_keys :: "string list" where
  "safe_keys =
     [''http_status'', ''config'', ''kind'', ''adapter_provider'', ''adapter_model'',
      ''adapter_primary_provider'', ''adapter_fallback_used'', ''adapter_fallback_reason'']"

definition safe_throwable_context :: "json option \<Rightarrow> json" where
  "safe_throwable_context context =
     (case context of
        Some (JObj obj) \<Rightarrow>
          JObj (fold (\<lambda>key safe.
                  case map_of obj key of
                    Some value \<Rightarrow> if is_scalar value then AList.update key value safe else safe
                  | None \<Rightarrow> safe) safe_keys [])
      | _ \<Rightarrow> JObj [])"

text \<open>\<open>if t.len() > limit { format!("{}...", &t[..cut]) }\<close>, then \<open>sanitize_message\<close>.\<close>

definition shorten :: "nat \<Rightarrow> nat \<Rightarrow> string \<Rightarrow> string option" where
  "shorten limit n t =
     do {
       truncated \<leftarrow> (if length t > limit
                     then map_option (\<lambda>u. u @ ''...'') (slice_to t n) else Some t);
       sanitize_message truncated
     }"

text \<open>\<open>arr.iter().filter_map(..).take(n)\<close>: items after the \<open>n\<close>-th kept one are not looked at.\<close>

fun filter_items :: "nat \<Rightarrow> json list \<Rightarrow> json list option" where
  "filter_items 0 items = Some []"
| "filter_items (Suc n) [] = Some []"
| "filter_items (Suc n) (item # items) =
     (case item of
        JStr s \<Rightarrow>
          (if trim s = [] then filter_items (Suc n) items
           else do {
             t \<leftarrow> shorten 80 77 (trim s);
             rest \<leftarrow> filter_items n items;
             Some (JStr t # rest)
           })
      | JBool b \<Rightarrow> map_option (Cons item) (filter_items n items)
      | JInt i \<Rightarrow> map_option (Cons item) (filter_items n items)
      | JFloat w \<Rightarrow> map_option (Cons item) (filter_items n items)
      | _ \<Rightarrow> filter_items (Suc n) items)"

text \<open>One field of a context: \<open>None\<close> a panic, \<open>Some None\<close> a field that is left out.\<close>

definition filter_field :: "(json \<Rightarrow> json option) \<Rightarrow> json \<Rightarrow> json option option" where
  "filter_field rec val =
     (case val of
        JNull \<Rightarrow> Some None
      | JStr s \<Rightarrow>
          (if trim s = [] then Some None
           else map_option (\<lambda>t. Some (JStr t)) (shorten 160 157 (trim s)))
      | JArr arr \<Rightarrow>
          map_option (\<lambda>items. if items = [] then None else Some (JArr items)) (filter_items 8 arr)
      | JObj _ \<Rightarrow> map_option (\<lambda>nested. if nested = JNull then None else Some nested) (rec val)
      | _ \<Rightarrow> Some (Some val))"

fun filter_fields ::
  "(json \<Rightarrow> json option) \<Rightarrow> (string \<times> json) list \<Rightarrow> (string \<times> json) list \<Rightarrow>
     (string \<times> json) list option" where
  "filter_fields rec [] filtered = Some filtered"
| "filter_fields rec ((key, val) # entries) filtered =
     do {
       kept \<leftarrow> filter_field rec val;
       filter_fields rec entries
         (case kept of None \<Rightarrow> filtered | Some v \<Rightarrow> AList.update key v filtered)
     }"

function filter_context_inner :: "json \<Rightarrow> nat \<Rightarrow> json option" where
  "filter_context_inner value depth =
     (if depth > 1 then Some JNull
      else case value of
        JObj m \<Rightarrow>
          map_option (\<lambda>filtered. if filtered = [] then JNull else JObj filtered)
            (filter_fields (\<lambda>val. filter_context_inner val (depth + 1)) m [])
      | _ \<Rightarrow> Some JNull)"
  by pat_completeness auto
termination
  by (relation "measure (\<lambda>(_, depth). 2 - depth)") auto

declare filter_context_inner.simps [simp del]

definition filter_context :: "json option \<Rightarrow> json option" where
  "filter_context context =
     (case context of None \<Rightarrow> Some JNull | Some ctx \<Rightarrow> filter_context_inner ctx 0)"

section \<open>The payload\<close>

definition no_provider :: json where
  "no_provider = JObj [(''name'', JNull), (''model'', JNull)]"

definition default_provider_trace :: json where
  "default_provider_trace =
     JObj [(''interpretation'', no_provider), (''generator'', no_provider), (''delivery'', no_provider)]"

definition build_base_payload :: "externals \<Rightarrow> datetime \<Rightarrow> json" where
  "build_base_payload E now =
     (let now_rfc = JStr (x_to_rfc3339 E now) in
      JObj
       [(''schema_version'', JStr SCHEMA_VERSION),
        (''current_status'', JStr ''queued''),
        (''resolved_output_type'', JNull),
        (''provider_trace'', default_provider_trace),
        (''job'', JObj
          [(''connection'', JNull), (''queue'', JNull), (''tries'', JNull),
           (''timeout_seconds'', JNull), (''backoff_seconds'', JNull), (''attempt'', JInt 0),
           (''last_run_at'', JNull)]),
        (''timing'', JObj
          [(''queued_at'', now_rfc), (''processing_started_at'', JNull),
           (''last_transition_at'', now_rfc), (''completed_at'', JNull),
           (''total_duration_ms'', JNull), (''status_durations_ms'', JObj [])]),
        (''latest_error'', JNull),
        (''status_history'', JArr
          [JObj
            [(''event_type'', JStr ''status_transition''), (''from_status'', JNull),
             (''to_status'', JStr ''queued''), (''attempt'', JInt 0), (''at'', now_rfc),
             (''context'', JObj [(''reason'', JStr ''generation_created'')])]])])"

definition insert_if :: "string \<Rightarrow> json option \<Rightarrow> json \<Rightarrow> json" where
  "insert_if k x v = (case x of None \<Rightarrow> v | Some w \<Rightarrow> obj_insert k w v)"

definition job_field_str :: "string \<Rightarrow> json \<Rightarrow> json option" where
  "job_field_str k jc = map_option JStr (Option.bind (jget k jc) as_str)"

definition apply_runtime_metadata ::
  "externals \<Rightarrow> json \<Rightarrow> datetime \<Rightarrow> int option \<Rightarrow> json option \<Rightarrow> json option" where
  "apply_runtime_metadata E payload now attempt job_context =
     do {
       payload1 \<leftarrow>
         (case job_context of
            None \<Rightarrow> Some payload
          | Some jc \<Rightarrow>
              get_mut_upd ''job'' (\<lambda>job. Some
                (insert_if ''backoff_seconds'' (jget ''backoff_seconds'' jc)
                  (insert_if ''timeout_seconds'' (jget ''timeout_seconds'' jc)
                    (insert_if ''tries'' (jget ''tries'' jc)
                      (insert_if ''queue'' (job_field_str ''queue'' jc)
                        (insert_if ''connection'' (job_field_str ''connection'' jc) job))))))
                payload);
       let current_attempt =
         (case attempt of
            Some a \<Rightarrow> a
          | None \<Rightarrow>
              (case Option.bind (pointer [''job'', ''attempt''] payload1) as_i64 of
                 Some n \<Rightarrow> wrap_i32 n
               | None \<Rightarrow> 0));
       get_mut_upd ''job'' (\<lambda>job.
         do {
           job1 \<leftarrow> index_put ''attempt'' (JInt current_attempt) job;
           index_put ''last_run_at'' (JStr (x_to_rfc3339 E now)) job1
         }) payload1
     }"

definition parse_timestamp :: "externals \<Rightarrow> string \<Rightarrow> datetime option" where
  "parse_timestamp E s = (if s = [] then None else x_parse_rfc3339 E s)"

definition elapsed_ms :: "datetime \<Rightarrow> datetime \<Rightarrow> int" where
  "elapsed_ms now ts = max (timestamp_millis now - timestamp_millis ts) 0"

definition calculate_total_duration :: "externals \<Rightarrow> json \<Rightarrow> datetime \<Rightarrow> int option" where
  "calculate_total_duration E payload now =
     do {
       queued_at_str \<leftarrow> Option.bind (pointer [''timing'', ''queued_at''] payload) as_str;
       queued_ts \<leftarrow> parse_timestamp E queued_at_str;
       Some (elapsed_ms now queued_ts)
     }"

definition add_status_duration ::
  "externals \<Rightarrow> MediaGenerationStatus \<Rightarrow> datetime \<Rightarrow> json \<Rightarrow> json option" where
  "add_status_duration E from_status now payload =
     (let last_str = (case Option.bind (pointer [''timing'', ''last_transition_at''] payload) as_str of
                        Some s \<Rightarrow> s | None \<Rightarrow> []);
          ts = (case parse_timestamp E last_str of Some t \<Rightarrow> t | None \<Rightarrow> now);
          from_key = as_status_str from_status
      in get_mut_upd ''timing''
           (get_mut_upd ''status_durations_ms''
             (\<lambda>sd.
                let current = (case Option.bind (jget from_key sd) as_i64 of Some n \<Rightarrow> n | None \<Rightarrow> 0)
                in index_put from_key (JInt (wrap_i64 (current + elapsed_ms now ts))) sd))
           payload)"

definition set_processing_started ::
  "externals \<Rightarrow> MediaGenerationStatus \<Rightarrow> datetime \<Rightarrow> json \<Rightarrow> json option" where
  "set_processing_started E to_status now payload =
     (if Option.bind (pointer [''timing'', ''processing_started_at''] payload) as_str = None \<and>
         to_status \<noteq> Queued
      then get_mut_upd ''timing''
             (index_put ''processing_started_at'' (JStr (x_to_rfc3339 E now))) payload
      else Some payload)"

definition apply_transition_timing ::
  "externals \<Rightarrow> json \<Rightarrow> MediaGenerationStatus \<Rightarrow> MediaGenerationStatus \<Rightarrow> datetime \<Rightarrow> json option" where
  "apply_transition_timing E payload from_status to_status now =
     do {
       payload1 \<leftarrow> add_status_duration E from_status now payload;
       payload2 \<leftarrow> set_processing_started E to_status now payload1;
       let completed_at =
         (if is_terminal to_status then JStr (x_to_rfc3339 E now)
          else jopt (pointer [''timing'', ''completed_at''] payload2));
       let queued_at =
         (case Option.bind (pointer [''timing'', ''queued_at''] payload2) as_str of
            Some s \<Rightarrow> s | None \<Rightarrow> x_to_rfc3339 E now);
       let total_duration = calculate_total_duration E payload2 now;
       get_mut_upd ''timing'' (\<lambda>timing.
         do {
           timing1 \<leftarrow> index_put ''queued_at'' (JStr queued_at) timing;
           timing2 \<leftarrow> index_put ''last_transition_at'' (JStr (x_to_rfc3339 E now)) timing1;
           timing3 \<leftarrow> index_put ''completed_at'' completed_at timing2;
           index_put ''total_duration_ms'' (jint_opt total_duration) timing3
         }) payload2
     }"

definition history_of :: "json \<Rightarrow> json list" where
  "history_of payload =
     (case Option.bind (jget ''status_history'' payload) as_array of Some h \<Rightarrow> h | None \<Rightarrow> [])"

definition append_history :: "json \<Rightarrow> json \<Rightarrow> json option" where
  "append_history payload event =
     (let history = history_of payload @ [event];
          capped = (if length history > HISTORY_LIMIT then last_n HISTORY_LIMIT history else history)
      in index_put ''status_history'' (JArr capped) payload)"

definition update_provider_trace :: "json \<Rightarrow> json option" where
  "update_provider_trace payload =
     (if jget ''provider_trace'' payload = None
      then index_put ''provider_trace'' default_provider_trace payload
      else Some payload)"

definition attempt_or_zero :: "int option \<Rightarrow> int" where
  "attempt_or_zero attempt = (case attempt of Some a \<Rightarrow> a | None \<Rightarrow> 0)"

definition error_summary ::
  "string \<Rightarrow> string \<Rightarrow> bool \<Rightarrow> json option \<Rightarrow> json option" where
  "error_summary error_code error_message retryable context =
     map_option (\<lambda>message.
       JObj [(''error_code'', JStr error_code),
             (''error_class'', JStr ''orchestrator::AuditTrailService''),
             (''message'', JStr message),
             (''retryable'', JBool retryable),
             (''safe_context'', safe_throwable_context context)])
       (sanitize_message error_message)"

section \<open>Well-formed payloads\<close>

text \<open>
  A payload the sources write: an object whose \<open>job\<close> and \<open>timing\<close>, where present, are objects or
  \<open>null\<close>, with a capped history. Every helper is total on such payloads and keeps them so:
  \<open>keeps_payload\<close> composes along the \<open>do\<close> blocks.
\<close>

definition obj_or_null :: "json option \<Rightarrow> bool" where
  "obj_or_null x \<longleftrightarrow> (case x of None \<Rightarrow> True | Some v \<Rightarrow> v = JNull \<or> is_obj v)"

definition timing_ok :: "json option \<Rightarrow> bool" where
  "timing_ok x \<longleftrightarrow>
     obj_or_null x \<and> (case x of None \<Rightarrow> True | Some v \<Rightarrow> obj_or_null (jget ''status_durations_ms'' v))"

definition payload_ok :: "json \<Rightarrow> bool" where
  "payload_ok v \<longleftrightarrow>
     is_obj v \<and> obj_or_null (jget ''job'' v) \<and> timing_ok (jget ''timing'' v) \<and>
     length (history_of v) \<le> HISTORY_LIMIT"

definition keeps_payload :: "(json \<Rightarrow> json option) \<Rightarrow> bool" where
  "keeps_payload f \<longleftrightarrow> (\<forall>v. payload_ok v \<longrightarrow> (\<exists>v'. f v = Some v' \<and> payload_ok v'))"

lemma history_of_index_put:
  "k \<noteq> ''status_history'' \<Longrightarrow> index_put k w v = Some v' \<Longrightarrow> history_of v' = history_of v"
  by (simp add: history_of_def jget_index_put)

lemma history_of_get_mut_upd:
  "k \<noteq> ''status_history'' \<Longrightarrow> get_mut_upd k f v = Some v' \<Longrightarrow> history_of v' = history_of v"
  by (simp add: history_of_def jget_get_mut_upd)

lemma obj_or_null_index_put: "obj_or_null (Some v) \<Longrightarrow> \<exists>v'. index_put k w v = Some v' \<and> is_obj v'"
  by (rule index_put_total) (auto simp: obj_or_null_def)

lemma is_obj_obj_or_null [simp]: "is_obj v \<Longrightarrow> obj_or_null (Some v)"
  by (simp add: obj_or_null_def)

lemma keeps_index_put:
  "k \<notin> {''job'', ''timing'', ''status_history''} \<Longrightarrow> keeps_payload (index_put k w)"
  unfolding keeps_payload_def
proof (intro allI impI)
  fix v assume k: "k \<notin> {''job'', ''timing'', ''status_history''}" and v: "payload_ok v"
  then obtain v' where "index_put k w v = Some v'" "is_obj v'"
    using index_put_total by (metis payload_ok_def)
  with k v show "\<exists>v'. index_put k w v = Some v' \<and> payload_ok v'"
    by (auto simp: payload_ok_def jget_index_put history_of_index_put)
qed

lemma keeps_get_mut_job:
  "(\<And>j. obj_or_null (Some j) \<Longrightarrow> \<exists>j'. f j = Some j' \<and> obj_or_null (Some j')) \<Longrightarrow> keeps_payload (get_mut_upd ''job'' f)"
  unfolding keeps_payload_def
proof (intro allI impI)
  fix v
  assume f: "\<And>j. obj_or_null (Some j) \<Longrightarrow> \<exists>j'. f j = Some j' \<and> obj_or_null (Some j')" and v: "payload_ok v"
  have "f x \<noteq> None" if "jget ''job'' v = Some x" for x
    using f [of x] v that by (auto simp: payload_ok_def)
  then obtain v' where v': "get_mut_upd ''job'' f v = Some v'" using get_mut_upd_total by blast
  moreover have "obj_or_null (jget ''job'' v')"
  proof (cases "jget ''job'' v")
    case None
    then show ?thesis by (simp add: jget_get_mut_upd [OF v'] obj_or_null_def)
  next
    case (Some x)
    then show ?thesis using f [of x] v by (auto simp: jget_get_mut_upd [OF v'] payload_ok_def)
  qed
  ultimately show "\<exists>v'. get_mut_upd ''job'' f v = Some v' \<and> payload_ok v'"
    using v history_of_get_mut_upd [OF _ v'] by (auto simp: payload_ok_def get_mut_upd_is_obj jget_get_mut_upd)
qed

lemma keeps_get_mut_timing:
  "(\<And>x. timing_ok (Some x) \<Longrightarrow> \<exists>x'. f x = Some x' \<and> timing_ok (Some x')) \<Longrightarrow> keeps_payload (get_mut_upd ''timing'' f)"
  unfolding keeps_payload_def
proof (intro allI impI)
  fix v
  assume f: "\<And>x. timing_ok (Some x) \<Longrightarrow> \<exists>x'. f x = Some x' \<and> timing_ok (Some x')" and v: "payload_ok v"
  have "f x \<noteq> None" if "jget ''timing'' v = Some x" for x
    using f [of x] v that by (auto simp: payload_ok_def)
  then obtain v' where v': "get_mut_upd ''timing'' f v = Some v'" using get_mut_upd_total by blast
  moreover have "timing_ok (jget ''timing'' v')"
  proof (cases "jget ''timing'' v")
    case None
    then show ?thesis by (simp add: jget_get_mut_upd [OF v'] timing_ok_def obj_or_null_def)
  next
    case (Some x)
    then show ?thesis using f [of x] v by (auto simp: jget_get_mut_upd [OF v'] payload_ok_def)
  qed
  ultimately show "\<exists>v'. get_mut_upd ''timing'' f v = Some v' \<and> payload_ok v'"
    using v history_of_get_mut_upd [OF _ v'] by (auto simp: payload_ok_def get_mut_upd_is_obj jget_get_mut_upd)
qed

lemma keepsD: "keeps_payload f \<Longrightarrow> payload_ok v \<Longrightarrow> \<exists>v'. f v = Some v' \<and> payload_ok v'"
  by (simp add: keeps_payload_def)

lemma keeps_bind:
  "keeps_payload f \<Longrightarrow> keeps_payload g \<Longrightarrow> keeps_payload (\<lambda>v. Option.bind (f v) g)"
  unfolding keeps_payload_def by fastforce

lemma keeps_dep: "(\<And>x. keeps_payload (h x)) \<Longrightarrow> keeps_payload (\<lambda>v. h (c v) v)"
  unfolding keeps_payload_def by blast

lemma keeps_Some: "keeps_payload Some"
  by (simp add: keeps_payload_def)

lemma keeps_if: "(\<And>v. keeps_payload f) \<Longrightarrow> keeps_payload g \<Longrightarrow> keeps_payload (\<lambda>v. if c v then f v else g v)"
  unfolding keeps_payload_def by auto

lemma obj_or_null_insert_if [simp]: "obj_or_null (Some v) \<Longrightarrow> obj_or_null (Some (insert_if k x v))"
  by (auto simp: insert_if_def obj_insert_def obj_or_null_def split: option.splits json.splits)

text \<open>Writing a field of the timing keeps it a timing.\<close>

lemma timing_index_put:
  assumes "timing_ok (Some x)" and "k \<noteq> ''status_durations_ms''"
  shows "\<exists>x'. index_put k w x = Some x' \<and> timing_ok (Some x')"
proof -
  obtain x' where x': "index_put k w x = Some x'" "is_obj x'"
    using obj_or_null_index_put assms(1) by (metis timing_ok_def)
  then show ?thesis using assms by (auto simp: timing_ok_def jget_index_put)
qed

lemma keeps_append_history: "payload_ok v \<Longrightarrow> \<exists>v'. append_history v ev = Some v' \<and> payload_ok v'"
proof -
  assume v: "payload_ok v"
  let ?h = "JArr (if length (history_of v @ [ev]) > HISTORY_LIMIT then last_n HISTORY_LIMIT (history_of v @ [ev]) else history_of v @ [ev])"
  obtain v' where v': "index_put ''status_history'' ?h v = Some v'" "is_obj v'"
    using v index_put_total by (metis payload_ok_def)
  then have "append_history v ev = Some v'" by (simp add: append_history_def)
  moreover have "history_of v' = the (as_array ?h)" by (simp add: history_of_def jget_index_put [OF v'(1)])
  ultimately show ?thesis
    using v v' by (auto simp: payload_ok_def jget_index_put as_array_def)
qed

lemma history_of_append_history:
  "append_history v ev = Some v' \<Longrightarrow> history_of v' = last_n HISTORY_LIMIT (history_of v @ [ev])"
  by (auto simp: append_history_def Let_def history_of_def jget_index_put as_array_def)

lemma payload_ok_base [simp]: "payload_ok (build_base_payload E now)"
  by (simp add: payload_ok_def build_base_payload_def Let_def timing_ok_def obj_or_null_def history_of_def
      HISTORY_LIMIT_def)

lemma keeps_job_context:
  "keeps_payload (\<lambda>v. case jc of None \<Rightarrow> Some v
      | Some jc \<Rightarrow> get_mut_upd ''job'' (\<lambda>job. Some
                (insert_if ''backoff_seconds'' (jget ''backoff_seconds'' jc)
                  (insert_if ''timeout_seconds'' (jget ''timeout_seconds'' jc)
                    (insert_if ''tries'' (jget ''tries'' jc)
                      (insert_if ''queue'' (job_field_str ''queue'' jc)
                        (insert_if ''connection'' (job_field_str ''connection'' jc) job)))))) v)"
  by (cases jc) (auto intro!: keeps_get_mut_job simp: keeps_Some)

lemma keeps_job_attempt:
  "keeps_payload (get_mut_upd ''job'' (\<lambda>job.
     Option.bind (index_put ''attempt'' a job) (index_put ''last_run_at'' r)))"
proof (rule keeps_get_mut_job)
  fix j assume "obj_or_null (Some j)"
  then obtain j1 where 1: "index_put ''attempt'' a j = Some j1" "is_obj j1"
    using obj_or_null_index_put by blast
  then obtain j2 where "index_put ''last_run_at'' r j1 = Some j2" "is_obj j2"
    using obj_or_null_index_put [of j1] by auto
  with 1 show "\<exists>j'. Option.bind (index_put ''attempt'' a j) (index_put ''last_run_at'' r) = Some j' \<and> obj_or_null (Some j')"
    by simp
qed

lemma keeps_apply_runtime_metadata: "keeps_payload (\<lambda>v. apply_runtime_metadata E v now attempt jc)"
  unfolding apply_runtime_metadata_def Let_def
  by (intro keeps_bind keeps_job_context) (rule keeps_dep [OF keeps_job_attempt])

lemma timing_put_duration:
  assumes "timing_ok (Some x)"
  shows "\<exists>x'. get_mut_upd ''status_durations_ms'' (\<lambda>sd. index_put k (g sd) sd) x = Some x' \<and> timing_ok (Some x')"
proof (cases "jget ''status_durations_ms'' x")
  case None
  then have "get_mut_upd ''status_durations_ms'' (\<lambda>sd. index_put k (g sd) sd) x = Some x"
    by (auto simp: get_mut_upd_def split: json.splits)
  with assms show ?thesis by blast
next
  case (Some sd)
  then have "obj_or_null (Some sd)" using assms by (simp add: timing_ok_def)
  then obtain sd' where sd': "index_put k (g sd) sd = Some sd'" "is_obj sd'"
    using obj_or_null_index_put by blast
  obtain m where m: "x = JObj m" using Some by (cases x) auto
  with Some sd' have "get_mut_upd ''status_durations_ms'' (\<lambda>sd. index_put k (g sd) sd) x =
      Some (JObj (AList.update ''status_durations_ms'' sd' m))"
    by (simp add: get_mut_upd_def)
  moreover have "timing_ok (Some (JObj (AList.update ''status_durations_ms'' sd' m)))"
    using sd'(2) by (simp add: timing_ok_def update_conv)
  ultimately show ?thesis by blast
qed

lemma keeps_add_status_duration: "keeps_payload (add_status_duration E from_status now)"
  unfolding add_status_duration_def Let_def
  by (rule keeps_dep [where h = "\<lambda>d. get_mut_upd ''timing'' (get_mut_upd ''status_durations_ms'' (\<lambda>sd.
        index_put (as_status_str from_status) (JInt (wrap_i64 ((case Option.bind (jget (as_status_str from_status) sd) as_i64 of None \<Rightarrow> 0 | Some n \<Rightarrow> n) + d))) sd))"])
    (intro keeps_get_mut_timing timing_put_duration)

lemma keeps_set_processing_started: "keeps_payload (set_processing_started E to_status now)"
  unfolding set_processing_started_def
  by (intro keeps_if keeps_Some keeps_get_mut_timing timing_index_put) simp_all

lemma keeps_timing_summary:
  "keeps_payload (get_mut_upd ''timing'' (\<lambda>x. Option.bind (index_put ''queued_at'' a x) (\<lambda>x.
        Option.bind (index_put ''last_transition_at'' b x) (\<lambda>x.
        Option.bind (index_put ''completed_at'' c x) (index_put ''total_duration_ms'' d)))))"
proof (rule keeps_get_mut_timing)
  fix x assume "timing_ok (Some x)"
  then obtain x1 where 1: "index_put ''queued_at'' a x = Some x1" "timing_ok (Some x1)"
    using timing_index_put [of x "''queued_at''"] by auto
  then obtain x2 where 2: "index_put ''last_transition_at'' b x1 = Some x2" "timing_ok (Some x2)"
    using timing_index_put [of x1 "''last_transition_at''"] by auto
  then obtain x3 where 3: "index_put ''completed_at'' c x2 = Some x3" "timing_ok (Some x3)"
    using timing_index_put [of x2 "''completed_at''"] by auto
  then show "\<exists>x'. Option.bind (index_put ''queued_at'' a x) (\<lambda>x.
        Option.bind (index_put ''last_transition_at'' b x) (\<lambda>x.
        Option.bind (index_put ''completed_at'' c x) (index_put ''total_duration_ms'' d))) = Some x' \<and> timing_ok (Some x')"
    using 1 2 timing_index_put [of x3 "''total_duration_ms''"] by simp
qed

lemma keeps_apply_transition_timing:
  "keeps_payload (\<lambda>v. apply_transition_timing E v from_status to_status now)"
  unfolding apply_transition_timing_def Let_def
  apply (intro keeps_bind keeps_add_status_duration keeps_set_processing_started)
  apply (rule keeps_dep [where h = "\<lambda>(a, c, d). get_mut_upd ''timing'' (\<lambda>x. Option.bind (index_put ''queued_at'' a x) (\<lambda>x.
        Option.bind (index_put ''last_transition_at'' (JStr (x_to_rfc3339 E now)) x) (\<lambda>x.
        Option.bind (index_put ''completed_at'' c x) (index_put ''total_duration_ms'' d))))"
        and c = "\<lambda>w. (_ w, _ w, _ w)", simplified prod.case])
  by (simp add: keeps_timing_summary split: prod.splits)

lemma keeps_update_provider_trace: "keeps_payload update_provider_trace"
proof -
  have "keeps_payload (index_put ''provider_trace'' default_provider_trace)" by (rule keeps_index_put) simp
  then show ?thesis by (auto simp: keeps_payload_def update_provider_trace_def)
qed

section \<open>What the helpers leave alone\<close>

lemma jget_apply_runtime_metadata:
  "apply_runtime_metadata E v now attempt jc = Some v' \<Longrightarrow> k \<noteq> ''job'' \<Longrightarrow> jget k v' = jget k v"
  by (auto simp: apply_runtime_metadata_def Let_def bind_eq_Some_conv jget_get_mut_upd split: option.splits)

lemma jget_apply_transition_timing:
  "apply_transition_timing E v a b now = Some v' \<Longrightarrow> k \<noteq> ''timing'' \<Longrightarrow> jget k v' = jget k v"
  by (auto simp: apply_transition_timing_def add_status_duration_def set_processing_started_def Let_def
      bind_eq_Some_conv jget_get_mut_upd split: if_splits)

lemma jget_update_provider_trace:
  "update_provider_trace v = Some v' \<Longrightarrow> k \<noteq> ''provider_trace'' \<Longrightarrow> jget k v' = jget k v"
  by (auto simp: update_provider_trace_def jget_index_put split: if_splits)

lemma jget_append_history:
  "append_history v ev = Some v' \<Longrightarrow> k \<noteq> ''status_history'' \<Longrightarrow> jget k v' = jget k v"
  by (auto simp: append_history_def Let_def jget_index_put)

lemma history_of_cong: "jget ''status_history'' v = jget ''status_history'' w \<Longrightarrow> history_of v = history_of w"
  by (simp add: history_of_def)

end
