(* ===== verification/Audit_Sanitize.thy ===== *)
theory Audit_Sanitize
  imports Audit_Payload
begin

text \<open>
  What \<open>sanitize_message\<close> and \<open>filter_context\<close> of \<open>src/src/orchestrator/audit_trail.rs\<close> let into the
  audit payload: the normal form of messages, when truncation panics, and the bounds on contexts.
\<close>

section \<open>Messages\<close>

text \<open>A code point of a well-formed string, and the strings made of them.\<close>

definition unit_ok :: "string \<Rightarrow> bool" where
  "unit_ok u \<longleftrightarrow> (case u of [] \<Rightarrow> False | c # cs \<Rightarrow> \<not> is_cont c \<and> list_all is_cont cs)"

definition utf8_start :: "string \<Rightarrow> bool" where
  "utf8_start s \<longleftrightarrow> s = [] \<or> \<not> is_cont (hd s)"

lemma chars_unit: "unit_ok u \<Longrightarrow> chars u = [u]"
proof (cases u)
  case (Cons c cs)
  moreover assume "unit_ok u"
  ultimately have "\<forall>x\<in>set cs. is_cont x" by (simp add: unit_ok_def list_all_iff)
  then have "dropWhile is_cont cs = []" "takeWhile is_cont cs = cs"
    by (simp_all add: takeWhile_eq_all_conv)
  then show ?thesis by (simp only: Cons chars.simps)
qed (simp add: unit_ok_def)

lemma unit_ok_hd: "unit_ok u \<Longrightarrow> u \<noteq> [] \<and> \<not> is_cont (hd u)"
  by (cases u) (auto simp: unit_ok_def)

lemma utf8_start_concat: "list_all unit_ok us \<Longrightarrow> utf8_start (concat us)"
  by (cases us) (auto simp: utf8_start_def dest: unit_ok_hd)

lemma chars_concat: "list_all unit_ok us \<Longrightarrow> chars (concat us) = us"
proof (induction us)
  case (Cons u us)
  then show ?case
    using chars_append_clean [of "concat us" u] utf8_start_concat [of us]
    by (simp add: chars_unit utf8_start_def)
qed simp

lemma chars_units: "utf8_start s \<Longrightarrow> list_all unit_ok (chars s)"
proof (induction s rule: chars.induct)
  case (2 c cs)
  have "utf8_start (dropWhile is_cont cs)"
    unfolding utf8_start_def by (metis hd_dropWhile)
  moreover have "list_all is_cont (takeWhile is_cont cs)"
    by (auto simp: list_all_iff dest: set_takeWhileD)
  ultimately show ?case using 2 by (simp add: unit_ok_def utf8_start_def)
qed simp

lemma chars_slice_to:
  assumes "slice_to s n = Some t"
  shows "prefix (chars t) (chars s)"
proof -
  have "s = t @ drop n s" "t = take n s" and "is_char_boundary s n"
    using assms by (auto simp: slice_to_def split: if_splits)
  then have "drop n s = [] \<or> \<not> is_cont (hd (drop n s)) \<or> t = []"
    by (auto simp: is_char_boundary_def hd_drop_conv_nth)
  then show ?thesis
    using chars_append_clean [of "drop n s" t] \<open>s = t @ drop n s\<close>
    by (metis chars.simps(1) Nil_prefix prefixI)
qed

text \<open>Squeezed text: every white space is one blank, and no two blanks are adjacent.\<close>

definition squeezed :: "string list \<Rightarrow> bool" where
  "squeezed us \<longleftrightarrow>
     list_all (\<lambda>u. is_whitespace u \<longrightarrow> u = '' '') us \<and>
     successively (\<lambda>u v. \<not> (is_whitespace u \<and> is_whitespace v)) us"

lemma squeezed_append: "squeezed (us @ vs) \<Longrightarrow> squeezed us \<and> squeezed vs"
  by (simp add: squeezed_def successively_append_iff)

lemma squeezed_prefix: "prefix us vs \<Longrightarrow> squeezed vs \<Longrightarrow> squeezed us"
  by (auto simp: prefix_def dest: squeezed_append)

lemma blank_whitespace [simp]: "is_whitespace '' ''"
  by (simp add: is_whitespace_def whitespace_codes_def byte_def)

lemma unit_ok_blank [simp]: "unit_ok '' ''"
  by (simp add: unit_ok_def is_cont_def byte_def)

lemma collapse_ws_units: "list_all unit_ok us \<Longrightarrow> list_all unit_ok (collapse_ws b us)"
  by (induction b us rule: collapse_ws.induct) auto

lemma collapse_ws_squeezed:
  "squeezed (collapse_ws b us) \<and> (b \<longrightarrow> collapse_ws b us = [] \<or> \<not> is_whitespace (hd (collapse_ws b us)))"
proof (induction b us rule: collapse_ws.induct)
  case (2 b c cs)
  then show ?case by (auto simp: squeezed_def successively_Cons)
qed (simp add: squeezed_def)

lemma trim_chars_parts: "\<exists>a b. us = a @ trim_chars us @ b"
proof -
  let ?v = "dropWhile is_whitespace us"
  have 1: "us = takeWhile is_whitespace us @ ?v" by simp
  have "rev ?v = takeWhile is_whitespace (rev ?v) @ dropWhile is_whitespace (rev ?v)" by simp
  then have "?v = rev (dropWhile is_whitespace (rev ?v)) @ rev (takeWhile is_whitespace (rev ?v))"
    by (metis rev_append rev_rev_ident)
  with 1 show ?thesis unfolding trim_chars_def by (metis append.assoc)
qed

lemma squeezed_trim: "squeezed us \<Longrightarrow> squeezed (trim_chars us)"
  using trim_chars_parts [of us] by (metis squeezed_append)

lemma units_trim: "list_all unit_ok us \<Longrightarrow> list_all unit_ok (trim_chars us)"
  using trim_chars_parts [of us] by (metis list_all_append)

lemma trim_chars_ends:
  "trim_chars us \<noteq> [] \<Longrightarrow> \<not> is_whitespace (hd (trim_chars us)) \<and> \<not> is_whitespace (last (trim_chars us))"
proof -
  assume ne: "trim_chars us \<noteq> []"
  let ?v = "dropWhile is_whitespace us"
  have last: "\<not> is_whitespace (last (trim_chars us))"
    using ne hd_dropWhile [of is_whitespace "rev ?v"] by (simp add: trim_chars_def last_rev)
  have "prefix (trim_chars us) ?v"
    unfolding trim_chars_def by (metis prefixI rev_append rev_rev_ident takeWhile_dropWhile_id)
  then have "hd (trim_chars us) = hd ?v" using ne by (auto simp: prefix_def)
  moreover have "?v \<noteq> []" using ne \<open>prefix (trim_chars us) ?v\<close> by (metis prefix_Nil)
  ultimately show ?thesis using last hd_dropWhile by metis
qed

definition collapsed_message :: "string \<Rightarrow> string" where
  "collapsed_message m = trim (concat (collapse_ws False (chars m)))"

lemma chars_collapsed:
  assumes "utf8_start m"
  shows "chars (collapsed_message m) = trim_chars (collapse_ws False (chars m))"
    and "list_all unit_ok (trim_chars (collapse_ws False (chars m)))"
proof -
  have u: "list_all unit_ok (collapse_ws False (chars m))"
    by (intro collapse_ws_units chars_units assms)
  then show "list_all unit_ok (trim_chars (collapse_ws False (chars m)))" by (rule units_trim)
  then show "chars (collapsed_message m) = trim_chars (collapse_ws False (chars m))"
    using u by (simp add: collapsed_message_def trim_def chars_concat)
qed

text \<open>A message without white space is its own normal form.\<close>

lemma collapse_ws_plain: "list_all (\<lambda>u. \<not> is_whitespace u) us \<Longrightarrow> collapse_ws b us = us"
  by (induction us arbitrary: b) auto

lemma trim_chars_plain: "list_all (\<lambda>u. \<not> is_whitespace u) us \<Longrightarrow> trim_chars us = us"
proof -
  assume us: "list_all (\<lambda>u. \<not> is_whitespace u) us"
  then have "dropWhile is_whitespace us = us" by (cases us) auto
  moreover have "dropWhile is_whitespace (rev us) = rev us"
    using us by (cases us rule: rev_cases) auto
  ultimately show ?thesis by (simp add: trim_chars_def)
qed

lemma collapsed_message_plain:
  "list_all (\<lambda>u. \<not> is_whitespace u) (chars m) \<Longrightarrow> collapsed_message m = m"
  by (simp add: collapsed_message_def trim_def collapse_ws_plain trim_chars_plain)

text \<open>A message of 241 bytes whose byte 240 is the second byte of a two-byte code point.\<close>

definition long_message :: string where
  "long_message = concat (replicate 239 ''a'' @ [[CHR 0xC3, CHR 0xA9]])"

lemma sanitize_long_message: "sanitize_message long_message = None"
proof -
  have "list_all unit_ok (replicate 239 ''a'' @ [[CHR 0xC3, CHR 0xA9]])"
    by (simp add: list_all_iff unit_ok_def is_cont_def byte_def)
  then have ch: "chars long_message = replicate 239 ''a'' @ [[CHR 0xC3, CHR 0xA9]]"
    unfolding long_message_def by (rule chars_concat)
  have "\<not> is_whitespace ''a''" "\<not> is_whitespace [CHR 0xC3, CHR 0xA9]"
    by (simp_all add: is_whitespace_def whitespace_codes_def byte_def)
  then have "collapsed_message long_message = long_message"
    by (intro collapsed_message_plain) (simp add: ch list_all_iff)
  moreover have len: "length long_message = 241"
    by (simp add: long_message_def length_concat sum_list_replicate)
  moreover have "long_message ! 240 = CHR 0xA9"
    by (simp add: long_message_def nth_append length_concat sum_list_replicate)
  ultimately show ?thesis
    by (simp add: sanitize_message_def collapsed_message_def slice_to_def is_char_boundary_def
        is_cont_def byte_def)
qed

section \<open>Contexts\<close>

lemma length_collapse_ws:
  "list_all (\<lambda>u. u \<noteq> []) us \<Longrightarrow> length (concat (collapse_ws b us)) \<le> length (concat us)"
proof (induction b us rule: collapse_ws.induct)
  case (2 b c cs)
  then have "length c \<ge> 1" by (cases c) auto
  with 2 show ?case by (auto simp: length_concat)
qed simp

lemma length_trim: "length (trim s) \<le> length s"
proof -
  have "length (concat (dropWhile P xs)) \<le> length (concat xs)" for P and xs :: "string list"
    by (metis concat_append length_append le_add2 takeWhile_dropWhile_id)
  then have "length (concat (rev (dropWhile P (rev xs)))) \<le> length (concat xs)" for P and xs :: "string list"
    by (metis length_concat rev_map sum_list_rev rev_rev_ident)
  then show ?thesis
    unfolding trim_def trim_chars_def
    by (metis \<open>\<And>xs P. length (concat (dropWhile P xs)) \<le> length (concat xs)\<close> concat_chars order_trans)
qed

lemma length_sanitize_message: "sanitize_message m = Some r \<Longrightarrow> length r \<le> length m"
proof -
  assume r: "sanitize_message m = Some r"
  have "length (trim (concat (collapse_ws False (chars m)))) \<le> length m"
    using length_trim [of "concat (collapse_ws False (chars m))"] length_collapse_ws [of "chars m" False]
      chars_nonempty [of _ m] by (fastforce simp: list_all_iff)
  then show ?thesis
    using r by (auto simp: sanitize_message_def Let_def split: if_splits dest: slice_to_length)
qed

lemma length_shorten:
  "shorten limit n t = Some r \<Longrightarrow> n + 3 \<le> limit \<Longrightarrow> length r \<le> limit"
  by (fastforce simp: shorten_def bind_eq_Some_conv split: if_splits
      dest!: length_sanitize_message slice_to_length)

lemma length_shorten_field: "shorten 160 157 t = Some r \<Longrightarrow> length r \<le> 160"
  by (rule length_shorten) auto

lemma length_shorten_item: "shorten 80 77 t = Some r \<Longrightarrow> length r \<le> 80"
  by (rule length_shorten) auto

fun bounded_context :: "nat \<Rightarrow> json \<Rightarrow> bool" where
  "bounded_context 0 v = False"
| "bounded_context (Suc d) v =
     (case v of
        JObj m \<Rightarrow> m \<noteq> [] \<and> list_all (\<lambda>(_, x).
          (case x of
             JNull \<Rightarrow> False
           | JStr s \<Rightarrow> length s \<le> 160
           | JArr xs \<Rightarrow> xs \<noteq> [] \<and> length xs \<le> 8 \<and>
               list_all (\<lambda>y. case y of JStr s \<Rightarrow> length s \<le> 80 | _ \<Rightarrow> is_scalar y) xs
           | JObj _ \<Rightarrow> bounded_context d x
           | _ \<Rightarrow> True)) m
      | _ \<Rightarrow> False)"

lemma filter_items_bounded:
  "filter_items n xs = Some ys \<Longrightarrow>
     length ys \<le> n \<and> list_all (\<lambda>y. case y of JStr s \<Rightarrow> length s \<le> 80 | _ \<Rightarrow> is_scalar y) ys"
proof (induction n xs arbitrary: ys rule: filter_items.induct)
  case (3 n item items)
  show ?case
    using 3 by (cases item)
      (auto simp: bind_eq_Some_conv is_scalar_def split: if_splits dest: length_shorten_item)
qed auto

lemma filter_field_bounded:
  assumes "filter_field rec x = Some (Some y)" and "\<And>v w. rec v = Some w \<Longrightarrow> w = JNull \<or> bounded_context d w"
  shows "(case y of
             JNull \<Rightarrow> False
           | JStr s \<Rightarrow> length s \<le> 160
           | JArr xs \<Rightarrow> xs \<noteq> [] \<and> length xs \<le> 8 \<and>
               list_all (\<lambda>y. case y of JStr s \<Rightarrow> length s \<le> 80 | _ \<Rightarrow> is_scalar y) xs
           | JObj _ \<Rightarrow> bounded_context d y
           | _ \<Rightarrow> True)"
proof (cases x)
  case (JStr s)
  then show ?thesis using assms by (auto simp: filter_field_def split: if_splits dest: length_shorten_field)
next
  case (JArr xs)
  then show ?thesis
    using assms filter_items_bounded [of 8 xs] by (auto simp: filter_field_def split: if_splits)
next
  case (JObj m)
  then obtain w where w: "rec x = Some w" "w = y" "y \<noteq> JNull"
    using assms(1) by (auto simp: filter_field_def split: if_splits)
  then have "bounded_context d y" using assms(2) by blast
  then show ?thesis by (cases d; cases y) auto
qed (use assms in \<open>auto simp: filter_field_def\<close>)

lemma filter_fields_bounded:
  assumes "\<And>x y. filter_field rec x = Some (Some y) \<Longrightarrow> P y"
  shows "filter_fields rec m acc = Some r \<Longrightarrow> list_all (\<lambda>(_, x). P x) acc \<Longrightarrow> list_all (\<lambda>(_, x). P x) r"
proof (induction m arbitrary: acc)
  case (Cons kv m)
  obtain key val where kv: "kv = (key, val)" by (cases kv)
  with Cons.prems obtain kept where kept: "filter_field rec val = Some kept"
    "filter_fields rec m (case kept of None \<Rightarrow> acc | Some v \<Rightarrow> AList.update key v acc) = Some r"
    by (auto simp: bind_eq_Some_conv)
  have "list_all (\<lambda>(_, x). P x) (AList.update key v acc)" if "P v" for v
    using Cons.prems(2) that by (induction acc) auto
  then have "list_all (\<lambda>(_, x). P x) (case kept of None \<Rightarrow> acc | Some v \<Rightarrow> AList.update key v acc)"
    using kept(1) assms Cons.prems(2) by (auto split: option.splits)
  with kept(2) show ?case by (rule Cons.IH)
qed simp

lemma filter_context_inner_bounded:
  "depth \<le> 2 \<Longrightarrow> filter_context_inner v depth = Some w \<Longrightarrow> w = JNull \<or> bounded_context (2 - depth) w"
proof (induction "2 - depth" arbitrary: v w depth)
  case 0
  then show ?case by (subst (asm) filter_context_inner.simps) auto
next
  case (Suc d)
  then have d: "depth \<le> 1" "2 - (depth + 1) = d" by auto
  show ?case
  proof (cases v)
    case (JObj m)
    with Suc.prems d obtain r where
      r: "filter_fields (\<lambda>val. filter_context_inner val (depth + 1)) m [] = Some r"
      and w: "w = (if r = [] then JNull else JObj r)"
      by (subst (asm) (2) filter_context_inner.simps) (auto split: if_splits)
    have "list_all (\<lambda>(_, x).
        (case x of JNull \<Rightarrow> False | JStr s \<Rightarrow> length s \<le> 160
         | JArr xs \<Rightarrow> xs \<noteq> [] \<and> length xs \<le> 8 \<and>
               list_all (\<lambda>y. case y of JStr s \<Rightarrow> length s \<le> 80 | _ \<Rightarrow> is_scalar y) xs
         | JObj _ \<Rightarrow> bounded_context d x | _ \<Rightarrow> True)) r"
      by (rule filter_fields_bounded [OF _ r], erule filter_field_bounded)
        (use Suc.hyps(1) [of "depth + 1"] d in auto)
    then show ?thesis using w Suc.hyps(2) [symmetric] by auto
  qed (use Suc.prems d filter_context_inner.simps [of v depth] in \<open>auto split: if_splits\<close>)
qed

section \<open>Text that never panics\<close>

text \<open>A value whose texts are ASCII, down to the depth the filter looks at.\<close>

fun ascii_json :: "nat \<Rightarrow> json \<Rightarrow> bool" where
  "ascii_json n (JStr s) = is_ascii s"
| "ascii_json (Suc n) (JArr items) = list_all (ascii_json n) items"
| "ascii_json (Suc n) (JObj m) = list_all (\<lambda>(k, v). ascii_json n v) m"
| "ascii_json n v = True"

lemma ascii_json_numeral [simp]:
  "ascii_json (numeral k) (JArr items) = list_all (ascii_json (pred_numeral k)) items"
  "ascii_json (numeral k) (JObj m) = list_all (\<lambda>(a, v). ascii_json (pred_numeral k) v) m"
  by (simp_all add: numeral_eq_Suc)

lemma is_ascii_collapse_ws: "list_all is_ascii us \<Longrightarrow> list_all is_ascii (collapse_ws b us)"
  by (induction us arbitrary: b) (auto simp: is_ascii_def byte_def)

lemma sanitize_message_ascii:
  assumes "is_ascii s"
  shows "\<exists>m. sanitize_message s = Some m \<and> is_ascii m"
proof -
  let ?c = "trim (concat (collapse_ws False (chars s)))"
  have "is_ascii ?c"
    using is_ascii_collapse_ws assms by (intro is_ascii_trim) (simp add: is_ascii_concat is_ascii_chars [of s])
  moreover have "is_ascii (take 240 ?c)"
    by (rule is_ascii_subset [OF set_take_subset]) fact
  ultimately show ?thesis
    by (auto simp: sanitize_message_def Let_def slice_to_ascii)
qed

lemma shorten_ascii:
  assumes "is_ascii s" and "n \<le> limit"
  shows "\<exists>m. shorten limit n s = Some m"
proof -
  have "is_ascii (take n s)" "is_ascii ''...''"
    using assms(1) is_ascii_subset [OF set_take_subset] by (auto simp: is_ascii_def byte_def)
  then show ?thesis
    using assms sanitize_message_ascii [of s] sanitize_message_ascii [of "take n s @ ''...''"]
    by (auto simp: shorten_def slice_to_ascii)
qed

lemma shorten_trim_ascii: "is_ascii s \<Longrightarrow> n \<le> limit \<Longrightarrow> \<exists>m. shorten limit n (trim s) = Some m"
  by (intro shorten_ascii is_ascii_trim)

lemma filter_items_ascii: "list_all (ascii_json k) items \<Longrightarrow> \<exists>r. filter_items n items = Some r"
proof (induction items arbitrary: n)
  case Nil
  then show ?case by (cases n) auto
next
  case (Cons item items)
  then show ?case
    using shorten_trim_ascii [of "the (as_str item)" 77 80]
    by (cases n; cases item) (auto simp: as_str_def bind_eq_Some_conv)
qed

lemma filter_field_ascii:
  assumes "ascii_json (Suc n) v" and "is_obj v \<Longrightarrow> \<exists>r. rec v = Some r"
  shows "\<exists>r. filter_field rec v = Some r"
  using assms shorten_trim_ascii [of "the (as_str v)" 157 160] filter_items_ascii [of n _ 8]
  by (cases v) (auto simp: filter_field_def as_str_def is_obj_def)

lemma filter_fields_ascii:
  "(\<And>k v. (k, v) \<in> set m \<Longrightarrow> \<exists>r. filter_field rec v = Some r) \<Longrightarrow> \<exists>r. filter_fields rec m acc = Some r"
proof (induction m arbitrary: acc)
  case (Cons kv m)
  obtain k v where kv: "kv = (k, v)" by (cases kv)
  obtain r where "filter_field rec v = Some r" using Cons.prems kv by auto
  moreover have "\<exists>r. filter_fields rec m acc = Some r" for acc
    by (rule Cons.IH) (use Cons.prems in auto)
  ultimately show ?case by (simp add: kv)
qed simp

lemma filter_context_inner_ascii:
  "ascii_json (Suc (Suc n)) v \<Longrightarrow> 1 < d + n \<Longrightarrow> \<exists>r. filter_context_inner v d = Some r"
proof (induction n arbitrary: v d)
  case 0
  then show ?case by (simp add: filter_context_inner.simps)
next
  case (Suc n)
  have "\<exists>r. filter_fields (\<lambda>v. filter_context_inner v (d + 1)) m [] = Some r" if "v = JObj m" for m
  proof (rule filter_fields_ascii)
    fix k w assume "(k, w) \<in> set m"
    then have w: "ascii_json (Suc (Suc n)) w" using Suc.prems that by (auto simp: list_all_iff)
    show "\<exists>r. filter_field (\<lambda>v. filter_context_inner v (d + 1)) w = Some r"
      by (rule filter_field_ascii [OF w]) (use Suc.IH [OF w, of "d + 1"] Suc.prems in auto)
  qed
  then show ?case by (subst filter_context_inner.simps) (auto split: json.split)
qed

lemma filter_context_ascii: "ascii_json 4 v \<Longrightarrow> \<exists>r. filter_context (Some v) = Some r"
  using filter_context_inner_ascii [of 2 v 0] by (simp add: filter_context_def eval_nat_numeral)

section \<open>Properties\<close>

text \<open>
  \<open>sanitize_message\<close> returns at most 240 bytes of squeezed text that does not start with white
  space; a message whose normal form fits is only normalised, and then also does not end with white
  space. It panics exactly when the normal form is longer than 240 bytes and byte 240 lies
  inside a code point.
\<close>

theorem sanitize_message_normal_form:
  assumes "utf8_start m"
  shows "(case sanitize_message m of
            None \<Rightarrow> length (collapsed_message m) > 240 \<and> is_cont (collapsed_message m ! 240)
          | Some r \<Rightarrow>
              length r \<le> 240 \<and> prefix r (collapsed_message m) \<and> squeezed (chars r) \<and>
              (r \<noteq> [] \<longrightarrow> \<not> is_whitespace (hd (chars r))) \<and>
              (length (collapsed_message m) \<le> 240 \<longrightarrow>
                 r = collapsed_message m \<and> (r \<noteq> [] \<longrightarrow> \<not> is_whitespace (last (chars r)))))"
proof -
  let ?c = "collapsed_message m"
  have ch: "chars ?c = trim_chars (collapse_ws False (chars m))" by (rule chars_collapsed) fact
  have sq: "squeezed (chars ?c)" unfolding ch using collapse_ws_squeezed squeezed_trim by blast
  have ends: "?c \<noteq> [] \<Longrightarrow> \<not> is_whitespace (hd (chars ?c)) \<and> \<not> is_whitespace (last (chars ?c))"
    unfolding ch by (rule trim_chars_ends) (metis ch chars.simps(1) concat_chars concat.simps(1))
  show ?thesis
  proof (cases "length ?c > 240")
    case False
    then have "sanitize_message m = Some ?c" by (simp add: sanitize_message_def collapsed_message_def Let_def)
    with False sq ends show ?thesis by simp
  next
    case True
    then have eq: "sanitize_message m = slice_to ?c 240"
      by (simp add: sanitize_message_def collapsed_message_def Let_def)
    show ?thesis
    proof (cases "slice_to ?c 240")
      case None
      with True eq show ?thesis by (auto simp: slice_to_def is_char_boundary_def split: if_splits)
    next
      case (Some r)
      have p: "prefix (chars r) (chars ?c)" using chars_slice_to [OF Some] .
      have "r \<noteq> [] \<Longrightarrow> chars r \<noteq> []" by (metis concat_chars concat.simps(1))
      moreover from this have "r \<noteq> [] \<Longrightarrow> hd (chars r) = hd (chars ?c)" using p by (auto simp: prefix_def)
      moreover have "?c \<noteq> []" using True by auto
      ultimately show ?thesis
        using True eq Some slice_to_length [OF Some] squeezed_prefix [OF p sq] ends by auto
    qed
  qed
qed

theorem sanitize_message_normal_form_witness:
  "utf8_start '' a  b '' \<and> sanitize_message '' a  b '' = Some ''a b'' \<and> squeezed (chars ''a b'')"
proof -
  have u: "utf8_start '' a  b ''" by (simp add: utf8_start_def is_cont_def byte_def)
  have s: "sanitize_message '' a  b '' = Some ''a b''" by code_simp
  show ?thesis using sanitize_message_normal_form [OF u] u s by simp
qed

text \<open>
  \<open>filter_context\<close> bounds what reaches the audit payload: \<open>null\<close>, or an object nested at most
  twice, without empty or \<open>null\<close> values, whose strings have at most 160 bytes, and whose arrays hold
  one to eight scalars with strings of at most 80 bytes.
\<close>

theorem filter_context_bounded:
  "(case filter_context context of
      None \<Rightarrow> True
    | Some r \<Rightarrow> r = JNull \<or> bounded_context 2 r)"
  using filter_context_inner_bounded [of 0]
  by (auto simp: filter_context_def split: option.splits)

text \<open>
  ASCII text never panics: the byte slices of \<open>sanitize_message\<close> and \<open>filter_context\<close> are safe for
  an error message and a context whose texts are ASCII, whatever their length and nesting.
\<close>

theorem ascii_never_panics:
  assumes "is_ascii msg" and "ascii_json 4 ctx"
  shows "sanitize_message msg \<noteq> None \<and> filter_context (Some ctx) \<noteq> None"
  using sanitize_message_ascii [OF assms(1)] filter_context_ascii [OF assms(2)] by auto

theorem ascii_never_panics_witness:
  "sanitize_message (replicate 500 (CHR ''x'')) \<noteq> None \<and>
   filter_context (Some (JObj [(''step'', JStr (replicate 300 (CHR ''x'')))])) \<noteq> None"
proof -
  have a: "is_ascii (replicate n (CHR ''x''))" for n by (simp add: is_ascii_def byte_def list_all_iff)
  show ?thesis by (intro ascii_never_panics a) (simp add: a)
qed

end
