(* ===== verification/Generations_Repo.thy ===== *)
theory Generations_Repo
  imports Generations
begin

text \<open>
  \<open>PgMediaGenerationsRepo\<close>, \<open>src/src/db/repositories/media_generations.rs\<close>: the statements
  of the repository over the table of \<open>Generations\<close>. Each update is one SQL statement; its
  column list is the record update. \<open>insert_generation\<close> enforces the primary key, the partial
  unique index on \<open>active_duplicate_key\<close> and the foreign key of \<open>generated_from_id\<close>;
  \<open>update_generation_job_status\<close> the check constraint of its column. The eager-loading queries
  (\<open>attach_relations\<close>) are not modelled: they only read other tables.
\<close>

datatype repo_error = Failed_to string sqlx_error | Not_found

record CreateMediaGenerationPayload =
  cp_teacher_id :: int
  cp_raw_prompt :: string
  cp_request_fingerprint :: string
  cp_generated_from_id :: "uuid option"
  cp_is_regeneration :: bool
  cp_subject_id :: "int option"
  cp_sub_subject_id :: "int option"
  cp_preferred_output_type :: string
  cp_active_duplicate_key :: "string option"

record UpdatePayloadsPayload =
  up_interpretation_payload :: "json option"
  up_interpretation_audit_payload :: "json option"
  up_generation_spec_payload :: "json option"
  up_decision_payload :: "json option"
  up_orchestration_audit_payload :: "json option"
  up_delivery_payload :: "json option"
  up_generator_service_response :: "json option"
  up_resolved_output_type :: "string option"
  up_llm_provider :: "string option"
  up_llm_model :: "string option"
  up_generator_provider :: "string option"
  up_generator_model :: "string option"
  up_storage_path :: "string option"
  up_file_url :: "string option"
  up_thumbnail_url :: "string option"
  up_mime_type :: "string option"
  up_error_code :: "string option"
  up_error_message :: "string option"

section \<open>Reads\<close>

definition find_raw :: "uuid \<Rightarrow> ('z db_scheme, repo_error, generation) act" where
  "find_raw i =
     and_then
       (map_err (Failed_to ''failed to fetch media generation'')
         (db_select (\<lambda>t. Inr (map_of t i))))
       (ok_or Not_found)"

text \<open>A read by a column that is not the key: the first match, in table order.\<close>

definition find_where :: "(generation \<Rightarrow> bool) \<Rightarrow> gen_table \<Rightarrow> (uuid \<times> generation) option" where
  "find_where P t = find (\<lambda>(_, g). P g) t"

definition find_by_job_id ::
  "uuid \<Rightarrow> ('z db_scheme, repo_error, (uuid \<times> generation) option) act" where
  "find_by_job_id job =
     map_err (Failed_to ''failed to find media generation by job_id'')
       (db_select (\<lambda>t. Inr (find_where (\<lambda>g. mg_generation_job_id g = Some job) t)))"

definition CHAIN_LIMIT :: nat where
  "CHAIN_LIMIT = 50"

fun walk_ancestors ::
  "nat \<Rightarrow> uuid option \<Rightarrow> (uuid \<times> generation) list \<Rightarrow>
     ('z db_scheme, repo_error, (uuid \<times> generation) list) act" where
  "walk_ancestors 0 cur acc = ok acc"
| "walk_ancestors (Suc n) cur acc =
     and_then
       (map_err (Failed_to ''failed to fetch ancestor in chain'')
         (db_select (\<lambda>t. Inr (case cur of None \<Rightarrow> None | Some i \<Rightarrow> map_option (Pair i) (map_of t i)))))
       (\<lambda>gen. case gen of
          Some (i, g) \<Rightarrow>
            if mg_generated_from_id g = None then ok (acc @ [(i, g)])
            else walk_ancestors n (mg_generated_from_id g) (acc @ [(i, g)])
        | None \<Rightarrow> ok acc)"

definition find_chain ::
  "uuid \<Rightarrow> ('z db_scheme, repo_error,
              (uuid \<times> generation) list \<times> (uuid \<times> generation) list) act" where
  "find_chain i =
     and_then (walk_ancestors CHAIN_LIMIT (Some i) [])
       (\<lambda>ancestors.
          and_then
            (map_err (Failed_to ''failed to fetch children in chain'')
              (db_select (\<lambda>t. Inr (sort_key (\<lambda>(_, g). mg_created_at g)
                 (filter (\<lambda>(_, g). mg_generated_from_id g = Some i) t)))))
            (\<lambda>children. ok (rev ancestors, children)))"

section \<open>Writes\<close>

definition new_generation :: "datetime \<Rightarrow> CreateMediaGenerationPayload \<Rightarrow> generation" where
  "new_generation now p =
     \<lparr>mg_generated_from_id = cp_generated_from_id p,
      mg_is_regeneration = cp_is_regeneration p,
      mg_teacher_id = cp_teacher_id p,
      mg_subject_id = cp_subject_id p,
      mg_sub_subject_id = cp_sub_subject_id p,
      mg_topic_id = None, mg_content_id = None, mg_recommended_project_id = None,
      mg_raw_prompt = cp_raw_prompt p,
      mg_request_fingerprint = cp_request_fingerprint p,
      mg_active_duplicate_key = cp_active_duplicate_key p,
      mg_preferred_output_type = cp_preferred_output_type p,
      mg_resolved_output_type = None,
      mg_status = ''queued'',
      mg_llm_provider = None, mg_llm_model = None,
      mg_generator_provider = None, mg_generator_model = None,
      mg_interpretation_payload = None, mg_interpretation_audit_payload = None,
      mg_generation_spec_payload = None, mg_decision_payload = None,
      mg_orchestration_audit_payload = None, mg_delivery_payload = None,
      mg_generator_service_response = None,
      mg_storage_path = None, mg_file_url = None, mg_thumbnail_url = None, mg_mime_type = None,
      mg_error_code = None, mg_error_message = None,
      mg_generation_job_id = None, mg_generation_status = None,
      mg_s3_object_key = None, mg_presigned_download_url = None,
      mg_presigned_url_expires_at = None,
      mg_generation_error_code = None, mg_generation_error_message = None,
      mg_clarification_state = None, mg_clarified_at = None, mg_clarification_skipped = False,
      mg_created_at = now, mg_updated_at = now\<rparr>"

definition insert_row :: "uuid \<Rightarrow> generation \<Rightarrow> gen_table \<Rightarrow> sqlx_error + gen_table" where
  "insert_row i g t =
     (if i \<in> fst ` set t then Inl UniqueViolation
      else if mg_active_duplicate_key g \<noteq> None \<and>
              (\<exists>(_, h)\<in>set t. mg_active_duplicate_key h = mg_active_duplicate_key g)
           then Inl UniqueViolation
      else if (case mg_generated_from_id g of None \<Rightarrow> False | Some p \<Rightarrow> p \<notin> fst ` set t)
           then Inl ForeignKeyViolation
      else Inr (t @ [(i, g)]))"

text \<open>\<open>i\<close> is the id \<open>Uuid::new_v4()\<close> draws.\<close>

definition insert_generation ::
  "uuid \<Rightarrow> CreateMediaGenerationPayload \<Rightarrow> ('z db_scheme, repo_error, uuid \<times> generation) act" where
  "insert_generation i p =
     map_err (Failed_to ''failed to insert media generation'')
       (db_call (\<lambda>s.
          let g = new_generation (db_now s) p in
          case insert_row i g (gens s) of
            Inl e \<Rightarrow> (Inl e, gens s)
          | Inr t \<Rightarrow> (Inr (i, g), t)))"

definition update_or_missing ::
  "string \<Rightarrow> uuid \<Rightarrow> (generation \<Rightarrow> generation) \<Rightarrow> ('z db_scheme, repo_error, generation) act" where
  "update_or_missing msg i f =
     and_then
       (map_err (Failed_to msg)
         (db_update_returning i (\<lambda>now g. (f g)\<lparr>mg_updated_at := now\<rparr>)))
       (ok_or Not_found)"

definition update_status :: "uuid \<Rightarrow> string \<Rightarrow> ('z db_scheme, repo_error, generation) act" where
  "update_status i status =
     update_or_missing ''failed to update media generation status'' i
       (\<lambda>g. g\<lparr>mg_status := status\<rparr>)"

text \<open>\<open>add_col!\<close>: a column is set when the payload's field is.\<close>

definition keep :: "'a option \<Rightarrow> 'a option \<Rightarrow> 'a option" where
  "keep new old = (case new of None \<Rightarrow> old | Some v \<Rightarrow> Some v)"

definition payload_is_empty :: "UpdatePayloadsPayload \<Rightarrow> bool" where
  "payload_is_empty p \<longleftrightarrow>
     up_interpretation_payload p = None \<and> up_interpretation_audit_payload p = None \<and>
     up_generation_spec_payload p = None \<and> up_decision_payload p = None \<and>
     up_orchestration_audit_payload p = None \<and> up_delivery_payload p = None \<and>
     up_generator_service_response p = None \<and> up_resolved_output_type p = None \<and>
     up_llm_provider p = None \<and> up_llm_model p = None \<and>
     up_generator_provider p = None \<and> up_generator_model p = None \<and>
     up_storage_path p = None \<and> up_file_url p = None \<and> up_thumbnail_url p = None \<and>
     up_mime_type p = None \<and> up_error_code p = None \<and> up_error_message p = None"

definition payload_set :: "UpdatePayloadsPayload \<Rightarrow> generation \<Rightarrow> generation" where
  "payload_set p g =
     g\<lparr>mg_interpretation_payload := keep (up_interpretation_payload p) (mg_interpretation_payload g),
       mg_interpretation_audit_payload :=
         keep (up_interpretation_audit_payload p) (mg_interpretation_audit_payload g),
       mg_generation_spec_payload := keep (up_generation_spec_payload p) (mg_generation_spec_payload g),
       mg_decision_payload := keep (up_decision_payload p) (mg_decision_payload g),
       mg_orchestration_audit_payload :=
         keep (up_orchestration_audit_payload p) (mg_orchestration_audit_payload g),
       mg_delivery_payload := keep (up_delivery_payload p) (mg_delivery_payload g),
       mg_generator_service_response :=
         keep (up_generator_service_response p) (mg_generator_service_response g),
       mg_resolved_output_type := keep (up_resolved_output_type p) (mg_resolved_output_type g),
       mg_llm_provider := keep (up_llm_provider p) (mg_llm_provider g),
       mg_llm_model := keep (up_llm_model p) (mg_llm_model g),
       mg_generator_provider := keep (up_generator_provider p) (mg_generator_provider g),
       mg_generator_model := keep (up_generator_model p) (mg_generator_model g),
       mg_storage_path := keep (up_storage_path p) (mg_storage_path g),
       mg_file_url := keep (up_file_url p) (mg_file_url g),
       mg_thumbnail_url := keep (up_thumbnail_url p) (mg_thumbnail_url g),
       mg_mime_type := keep (up_mime_type p) (mg_mime_type g),
       mg_error_code := keep (up_error_code p) (mg_error_code g),
       mg_error_message := keep (up_error_message p) (mg_error_message g)\<rparr>"

definition update_payloads ::
  "uuid \<Rightarrow> UpdatePayloadsPayload \<Rightarrow> ('z db_scheme, repo_error, generation) act" where
  "update_payloads i p =
     (if payload_is_empty p then find_raw i
      else update_or_missing ''failed to update media generation payloads'' i (payload_set p))"

text \<open>The check constraint \<open>chk_media_generations_generation_status\<close>.\<close>

definition generation_status_ok :: "string \<Rightarrow> bool" where
  "generation_status_ok st \<longleftrightarrow> st \<in> {''pending'', ''processing'', ''completed'', ''failed''}"

definition update_generation_job_status ::
  "uuid \<Rightarrow> uuid option \<Rightarrow> string \<Rightarrow> ('z db_scheme, repo_error, generation) act" where
  "update_generation_job_status i job st =
     and_then
       (map_err (Failed_to ''failed to update generation job status'')
         (db_call (\<lambda>s.
            let t = update_gen i (\<lambda>g. g\<lparr>mg_generation_job_id := job, mg_generation_status := Some st,
                                       mg_updated_at := db_now s\<rparr>) (gens s)
            in if map_of (gens s) i \<noteq> None \<and> \<not> generation_status_ok st
               then (Inl CheckViolation, gens s) else (Inr (map_of t i), t))))
       (ok_or Not_found)"

definition update_s3_metadata ::
  "uuid \<Rightarrow> string \<Rightarrow> string \<Rightarrow> datetime \<Rightarrow> ('z db_scheme, repo_error, generation) act" where
  "update_s3_metadata i key url expires =
     update_or_missing ''failed to update S3 metadata'' i
       (\<lambda>g. g\<lparr>mg_s3_object_key := Some key, mg_presigned_download_url := Some url,
              mg_presigned_url_expires_at := Some expires\<rparr>)"

definition update_generation_error ::
  "uuid \<Rightarrow> string \<Rightarrow> string \<Rightarrow> ('z db_scheme, repo_error, generation) act" where
  "update_generation_error i code msg =
     update_or_missing ''failed to update generation error'' i
       (\<lambda>g. g\<lparr>mg_generation_error_code := Some code, mg_generation_error_message := Some msg\<rparr>)"

definition update_clarification_state ::
  "uuid \<Rightarrow> json option \<Rightarrow> datetime option \<Rightarrow> bool \<Rightarrow> ('z db_scheme, repo_error, generation) act" where
  "update_clarification_state i st at skipped =
     update_or_missing ''failed to update clarification state'' i
       (\<lambda>g. g\<lparr>mg_clarification_state := st, mg_clarified_at := at, mg_clarification_skipped := skipped\<rparr>)"

definition reset_for_reprocessing ::
  "uuid \<Rightarrow> string \<Rightarrow> ('z db_scheme, repo_error, generation) act" where
  "reset_for_reprocessing i prompt =
     update_or_missing ''failed to reset generation for reprocessing'' i
       (\<lambda>g. g\<lparr>mg_raw_prompt := prompt, mg_status := ''queued'',
              mg_interpretation_payload := None, mg_interpretation_audit_payload := None,
              mg_generation_spec_payload := None, mg_decision_payload := None,
              mg_orchestration_audit_payload := None, mg_delivery_payload := None,
              mg_generator_service_response := None, mg_resolved_output_type := None,
              mg_llm_provider := None, mg_llm_model := None,
              mg_generator_provider := None, mg_generator_model := None,
              mg_error_code := None, mg_error_message := None,
              mg_generation_status := None, mg_generation_error_code := None,
              mg_generation_error_message := None\<rparr>)"

section \<open>The operations keep the constraints\<close>

lemma table_ok_insert_row:
  assumes ok: "table_ok t" and ins: "insert_row i g t = Inr t'"
  shows "table_ok t'"
proof -
  from ins have t': "t' = t @ [(i, g)]" and i: "i \<notin> fst ` set t"
    and dup: "mg_active_duplicate_key g = None \<or>
                (\<forall>(_, h)\<in>set t. mg_active_duplicate_key h \<noteq> mg_active_duplicate_key g)"
    and fk: "\<forall>p. mg_generated_from_id g = Some p \<longrightarrow> p \<in> fst ` set t"
    by (auto simp: insert_row_def split: if_splits option.splits)
  have ks: "table_keys t' = table_keys t @ [(i, row_keys g)]"
    by (simp add: t' table_keys_def)
  have fsts: "fst ` set (table_keys t) = fst ` set t"
    by (metis map_fst_table_keys list.set_map)
  have "mg_active_duplicate_key g \<noteq> None \<Longrightarrow>
          mg_active_duplicate_key g \<notin> set (map (fst \<circ> snd) (table_keys t))"
    using dup by (auto simp: table_keys_def row_keys_def)
  then show ?thesis
    using ok i fk fsts
    by (auto simp: table_ok_def keys_ok_def ks list_all_iff row_keys_def split: option.splits)
qed

text \<open>What every operation of the repository guarantees, whatever statements fail.\<close>

definition keeps_table :: "('z db_scheme, 'e, 'a) act \<Rightarrow> bool" where
  "keeps_table m \<longleftrightarrow>
     (\<forall>s. table_ok (gens s) \<longrightarrow>
        wp m (\<lambda>_ s'. table_ok (gens s')) (\<lambda>x s'. table_ok (gens s') \<and> x \<noteq> Panic) s)"

lemma keeps_table_update_or_missing:
  "(\<And>g. row_keys (f g) = row_keys g) \<Longrightarrow> keeps_table (update_or_missing msg i f)"
  unfolding keeps_table_def update_or_missing_def
  by (intro allI impI wp_intros) (auto intro!: table_ok_update_gen simp: row_keys_def)

lemma keeps_table_find_raw: "keeps_table (find_raw i)"
  unfolding keeps_table_def find_raw_def by (intro allI impI wp_intros) auto

lemma keeps_table_insert: "keeps_table (insert_generation i p)"
  unfolding keeps_table_def insert_generation_def
  by (intro allI impI wp_map_err_I wp_db_call_I)
    (auto simp: Let_def table_ok_insert_row split: sum.splits)

lemma keeps_table_job_status: "keeps_table (update_generation_job_status i job st)"
  unfolding keeps_table_def update_generation_job_status_def
  by (intro allI impI wp_and_then_I wp_map_err_I wp_db_call_I)
    (auto simp: Let_def row_keys_def wp_simps intro!: table_ok_update_gen split: option.splits)

section \<open>The chain of ancestors\<close>

text \<open>
  \<open>lineage t cur xs\<close>: \<open>xs\<close> follows \<open>generated_from_id\<close> in \<open>t\<close> from \<open>cur\<close>, and \<open>next_id\<close> is the
  id it would visit next.
\<close>

fun lineage :: "gen_table \<Rightarrow> uuid option \<Rightarrow> (uuid \<times> generation) list \<Rightarrow> bool" where
  "lineage t cur [] \<longleftrightarrow> True"
| "lineage t cur ((i, g) # xs) \<longleftrightarrow>
     cur = Some i \<and> map_of t i = Some g \<and> lineage t (mg_generated_from_id g) xs"

fun next_id :: "uuid option \<Rightarrow> (uuid \<times> generation) list \<Rightarrow> uuid option" where
  "next_id cur [] = cur"
| "next_id cur ((i, g) # xs) = next_id (mg_generated_from_id g) xs"

definition stuck_at :: "gen_table \<Rightarrow> uuid option \<Rightarrow> bool" where
  "stuck_at t cur \<longleftrightarrow> (case cur of None \<Rightarrow> True | Some j \<Rightarrow> map_of t j = None)"

lemma wp_walk_ancestors:
  "gens s = t \<Longrightarrow>
   wp (walk_ancestors n cur acc)
      (\<lambda>r s'. gens s' = t \<and>
         (\<exists>xs. r = acc @ xs \<and> length xs \<le> n \<and> lineage t cur xs \<and>
               (length xs < n \<longrightarrow> stuck_at t (next_id cur xs))))
      (\<lambda>x s'. gens s' = t \<and> x \<noteq> Panic) s"
proof (induction n arbitrary: cur acc s)
  case 0
  then show ?case by (auto intro!: wp_intros exI [of _ "[]"])
next
  case (Suc n)
  show ?case
    unfolding walk_ancestors.simps
  proof (intro wp_and_then_I wp_map_err_I wp_db_select_I)
    fix e fs
    show "gens (s\<lparr>faults := fs\<rparr>) = t \<and> map_exn (Failed_to ''failed to fetch ancestor in chain'') (Error e) \<noteq> Panic"
      using Suc.prems by simp
  next
    fix fs a
    assume a: "Inr (case cur of None \<Rightarrow> None | Some i \<Rightarrow> map_option (Pair i) (map_of (gens s) i)) = Inr a"
    show "wp (case a of None \<Rightarrow> ok acc
         | Some (i, g) \<Rightarrow> if mg_generated_from_id g = None then ok (acc @ [(i, g)])
             else walk_ancestors n (mg_generated_from_id g) (acc @ [(i, g)]))
        (\<lambda>r s'. gens s' = t \<and> (\<exists>xs. r = acc @ xs \<and> length xs \<le> Suc n \<and> lineage t cur xs \<and>
               (length xs < Suc n \<longrightarrow> stuck_at t (next_id cur xs))))
        (\<lambda>x s'. gens s' = t \<and> x \<noteq> Panic) (s\<lparr>faults := fs\<rparr>)"
    proof (cases a)
      case None
      with a Suc.prems have "stuck_at t cur" by (auto simp: stuck_at_def split: option.splits)
      with None Suc.prems show ?thesis by (auto intro!: wp_intros exI [of _ "[]"])
    next
      case (Some p)
      then obtain i g where p: "a = Some (i, g)" by (cases p) auto
      with a Suc.prems have i: "cur = Some i" "map_of t i = Some g" by (auto split: option.splits)
      show ?thesis
      proof (cases "mg_generated_from_id g = None")
        case True
        with p i Suc.prems show ?thesis
          by (auto intro!: wp_intros exI [of _ "[(i, g)]"] simp: stuck_at_def)
      next
        case False
        have "wp (walk_ancestors n (mg_generated_from_id g) (acc @ [(i, g)]))
          (\<lambda>r s'. gens s' = t \<and> (\<exists>xs. r = (acc @ [(i, g)]) @ xs \<and> length xs \<le> n \<and>
               lineage t (mg_generated_from_id g) xs \<and>
               (length xs < n \<longrightarrow> stuck_at t (next_id (mg_generated_from_id g) xs))))
          (\<lambda>x s'. gens s' = t \<and> x \<noteq> Panic) (s\<lparr>faults := fs\<rparr>)"
          by (rule Suc.IH) (simp add: Suc.prems)
        then show ?thesis
          unfolding p using False i
          by (auto elim!: wp_mono intro!: exI [of _ "(i, g) # _"])
      qed
    qed
  qed auto
qed

text \<open>With the foreign key, only a root ends a lineage.\<close>

lemma table_ok_parent:
  assumes "table_ok t" and "map_of t i = Some g" and "mg_generated_from_id g = Some p"
  shows "map_of t p \<noteq> None"
proof -
  have "(i, row_keys g) \<in> set (table_keys t)"
    using map_of_SomeD [OF assms(2)] by (force simp: table_keys_def)
  then have "p \<in> fst ` set (table_keys t)"
    using assms(1,3) by (auto simp: table_ok_def keys_ok_def list_all_iff row_keys_def split: option.splits)
  then have "p \<in> fst ` set t" by (metis map_fst_table_keys list.set_map)
  then show ?thesis by (simp add: map_of_eq_None_iff)
qed

lemma lineage_root:
  "table_ok t \<Longrightarrow> lineage t cur xs \<Longrightarrow> xs \<noteq> [] \<Longrightarrow> stuck_at t (next_id cur xs) \<Longrightarrow>
     mg_generated_from_id (snd (last xs)) = None"
proof (induction t cur xs rule: lineage.induct)
  case (2 t cur i g xs)
  then show ?case
    by (cases "mg_generated_from_id g"; cases xs) (auto simp: stuck_at_def dest: table_ok_parent)
qed simp

section \<open>A sample table\<close>

text \<open>A generation, its regeneration, and third-party functions for them, for the concrete instances.\<close>

definition sample_externals :: externals where
  "sample_externals =
     \<lparr>x_parse_uuid = (\<lambda>s. if s = ''g1'' then Some 1 else if s = ''g2'' then Some 2 else None),
      x_uuid_str = (\<lambda>i. if i = 1 then ''g1'' else ''g2''),
      x_uuid_error = (\<lambda>s. ''invalid character''),
      x_to_rfc3339 = (\<lambda>t. show_int t),
      x_parse_rfc3339 = parse_i64,
      x_sha256_hex = (\<lambda>s. take 64 s),
      x_lower = (\<lambda>s. s),
      x_char_lower = (\<lambda>s. s),
      x_jsonb_text = (\<lambda>v. case v of JStr s \<Rightarrow> s | _ \<Rightarrow> []),
      x_json_to_string = (\<lambda>v. ''{}''), x_utf8_lossy = (\<lambda>s. s)\<rparr>"

definition sample_payload :: CreateMediaGenerationPayload where
  "sample_payload =
     \<lparr>cp_teacher_id = 7, cp_raw_prompt = ''pecahan'', cp_request_fingerprint = ''f1'',
      cp_generated_from_id = None, cp_is_regeneration = False,
      cp_subject_id = None, cp_sub_subject_id = None,
      cp_preferred_output_type = ''auto'', cp_active_duplicate_key = Some ''f1''\<rparr>"

definition sample_row :: generation where
  "sample_row = new_generation 0 sample_payload"

definition sample_child :: generation where
  "sample_child = new_generation 5
     (sample_payload\<lparr>cp_generated_from_id := Some 1, cp_is_regeneration := True,
        cp_request_fingerprint := ''f2'', cp_active_duplicate_key := Some ''f2''\<rparr>)"

definition sample_db :: db where
  "sample_db = \<lparr>gens = [(1, sample_row), (2, sample_child)], db_now = 10, faults = []\<rparr>"

lemmas sample_defs = sample_db_def sample_row_def sample_child_def sample_payload_def new_generation_def

lemma sample_table_ok: "table_ok (gens sample_db)"
  by (simp add: sample_defs table_ok_def keys_ok_def table_keys_def row_keys_def)

lemma sample_faults [simp]: "faults sample_db = []"
  by (simp add: sample_db_def)

lemma sample_lookup [simp]: "map_of (gens sample_db) 1 = Some sample_row" "map_of (gens sample_db) 2 = Some sample_child"
  by (simp_all add: sample_db_def)

lemma sample_uuid [simp]: "x_parse_uuid sample_externals ''g1'' = Some 1"
  by (simp add: sample_externals_def)

lemma sample_status [simp]: "mg_status sample_row = ''queued''" "mg_orchestration_audit_payload sample_row = None"
  by (simp_all add: sample_defs)

section \<open>Properties\<close>


text \<open>
  C36. \<open>find_chain\<close> returns the lineage of the generation, oldest first: at most fifty rows, each
  the parent of the next, ending in the generation itself, and starting at a root unless the
  limit cut it off; with it the direct children. It changes nothing and ends on cyclic parents too.
\<close>

theorem find_chain_lineage:
  assumes "table_ok (gens s)"
  shows
  "wp (find_chain i)
      (\<lambda>(ancestors, children) s'. gens s' = gens s \<and>
         length ancestors \<le> 50 \<and> lineage (gens s) (Some i) (rev ancestors) \<and>
         (ancestors \<noteq> [] \<and> length ancestors < 50 \<longrightarrow> mg_generated_from_id (snd (hd ancestors)) = None) \<and>
         (ancestors = [] \<longleftrightarrow> map_of (gens s) i = None) \<and>
         set children = {(k, g) \<in> set (gens s). mg_generated_from_id g = Some i} \<and>
         sorted (map (\<lambda>(k, g). mg_created_at g) children))
      (\<lambda>x s'. gens s' = gens s \<and> x \<noteq> Panic) s"
proof -
  let ?ch = "sort_key (\<lambda>(_, g). mg_created_at g) (filter (\<lambda>(_, g). mg_generated_from_id g = Some i) (gens s))"
  have children: "set ?ch = {(k, g) \<in> set (gens s). mg_generated_from_id g = Some i}" by auto
  have sorted: "sorted (map (\<lambda>(k, g). mg_created_at g) ?ch)" by (rule sorted_sort_key)
  have root: "mg_generated_from_id (snd (hd (rev xs))) = None"
    if "lineage (gens s) (Some i) xs" "length xs < 50 \<longrightarrow> stuck_at (gens s) (next_id (Some i) xs)"
      "xs \<noteq> []" "length xs < 50" for xs
    using lineage_root [OF assms that(1,3)] that by (simp add: hd_rev)
  have missing: "xs = [] \<longleftrightarrow> map_of (gens s) i = None"
    if "lineage (gens s) (Some i) xs" "length xs < 50 \<longrightarrow> stuck_at (gens s) (next_id (Some i) xs)" for xs
    using that by (cases xs) (auto simp: stuck_at_def)
  show ?thesis
    unfolding find_chain_def
  proof (rule wp_and_then_I, rule wp_mono [OF wp_walk_ancestors [OF refl]], goal_cases)
    case (1 anc s1)
    then obtain xs where xs: "anc = xs" "length xs \<le> 50" "lineage (gens s) (Some i) xs"
        "length xs < 50 \<longrightarrow> stuck_at (gens s) (next_id (Some i) xs)" and s1: "gens s1 = gens s"
      by (auto simp: CHAIN_LIMIT_def)
    have "(\<lambda>(ancestors, children) s'. gens s' = gens s \<and>
         length ancestors \<le> 50 \<and> lineage (gens s) (Some i) (rev ancestors) \<and>
         (ancestors \<noteq> [] \<and> length ancestors < 50 \<longrightarrow> mg_generated_from_id (snd (hd ancestors)) = None) \<and>
         (ancestors = [] \<longleftrightarrow> map_of (gens s) i = None) \<and>
         set children = {(k, g) \<in> set (gens s). mg_generated_from_id g = Some i} \<and>
         sorted (map (\<lambda>(k, g). mg_created_at g) children)) (rev anc, ?ch) (s1\<lparr>faults := fs\<rparr>)" for fs
      using xs root [OF xs(3,4)] missing [OF xs(3,4)] sorted by (simp add: s1) blast
    then show ?case
      by (intro wp_and_then_I wp_map_err_I wp_db_select_I wp_ok_I) (use sorted in \<open>auto simp: s1\<close>)
  qed simp
qed

theorem find_chain_lineage_witness:
  "table_ok (gens sample_db) \<and>
   wp (find_chain 2) (\<lambda>(ancestors, children) s'. ancestors \<noteq> [] \<and> length ancestors \<le> 50) (\<lambda>_ _. True) sample_db"
proof
  show "table_ok (gens sample_db)" by (rule sample_table_ok)
  show "wp (find_chain 2) (\<lambda>(ancestors, children) s'. ancestors \<noteq> [] \<and> length ancestors \<le> 50) (\<lambda>_ _. True) sample_db"
    by (rule wp_mono [OF find_chain_lineage [OF sample_table_ok, of 2]]) auto
qed

end
