(* ===== verification/Audit_Trail.thy ===== *)
theory Audit_Trail
  imports Audit_Sanitize Generations_Repo
begin

text \<open>
  \<open>AuditTrailService\<close> of \<open>src/src/orchestrator/audit_trail.rs\<close>: four operations, each one
  transaction that locks the row of a generation, rewrites its audit payload and, for
  \<open>transition\<close> and \<open>mark_failed\<close>, its status. Under the row lock an operation runs alone on its
  row, so it is a function of the state. \<open>now\<close> is \<open>Utc::now()\<close>, the clock of the application;
  \<open>updated_at\<close> is the clock of the database.
\<close>

section \<open>The operations\<close>

definition payload_or_base :: "externals \<Rightarrow> datetime \<Rightarrow> json option \<Rightarrow> json" where
  "payload_or_base E now opt_payload =
     (case opt_payload of
        Some v \<Rightarrow> if v = JNull then build_base_payload E now else v
      | None \<Rightarrow> build_base_payload E now)"

text \<open>\<open>SELECT EXISTS(.. FOR UPDATE)\<close> and the \<open>hasPayload\<close> query of \<open>initialize\<close>.\<close>

definition has_payload :: "generation \<Rightarrow> json option" where
  "has_payload g =
     (case mg_orchestration_audit_payload g of
        Some v \<Rightarrow>
          if jget ''schema_version'' v = Some (JStr SCHEMA_VERSION) \<and> jget ''status_history'' v \<noteq> None
          then Some v else None
      | None \<Rightarrow> None)"

definition initialize ::
  "externals \<Rightarrow> datetime \<Rightarrow> string \<Rightarrow> ('z db_scheme, AuditTrailError, json) act" where
  "initialize E now generation_id =
     and_then (parse_uuid E generation_id) (\<lambda>gen_id.
       transaction Database
         (and_then (map_err Database (db_select (\<lambda>t. Inr (map_of t gen_id \<noteq> None)))) (\<lambda>exists.
            if \<not> exists then raise (NotFound generation_id)
            else
              and_then (map_err Database
                (db_select (\<lambda>t. Inr (Option.bind (map_of t gen_id) has_payload)))) (\<lambda>existing.
                case existing of
                  Some payload \<Rightarrow> ok payload
                | None \<Rightarrow>
                    (let base = build_base_payload E now in
                     and_then (map_err Database
                       (db_update gen_id (\<lambda>db_time g.
                          g\<lparr>mg_orchestration_audit_payload := Some base, mg_updated_at := db_time\<rparr>)))
                       (\<lambda>_. ok base))))))"

definition status_event ::
  "externals \<Rightarrow> datetime \<Rightarrow> string \<Rightarrow> string \<Rightarrow> int option \<Rightarrow> json option \<Rightarrow>
     (string \<times> json) list \<Rightarrow> json option" where
  "status_event E now from_status_str to_str attempt context extra =
     map_option (\<lambda>ctx.
       JObj ([(''event_type'', JStr ''status_transition''),
              (''from_status'', JStr from_status_str),
              (''to_status'', JStr to_str),
              (''attempt'', JInt (attempt_or_zero attempt)),
              (''at'', JStr (x_to_rfc3339 E now)),
              (''context'', ctx)] @ extra))
       (filter_context context)"

definition rerun_payload :: "MediaGenerationStatus \<Rightarrow> json \<Rightarrow> json option" where
  "rerun_payload to_status payload =
     do {
       payload1 \<leftarrow> index_put ''current_status'' (JStr (as_status_str to_status)) payload;
       index_put ''latest_error'' JNull payload1
     }"

definition transition_payload ::
  "externals \<Rightarrow> datetime \<Rightarrow> MediaGenerationStatus \<Rightarrow> string \<Rightarrow> MediaGenerationStatus \<Rightarrow>
     json option \<Rightarrow> int option \<Rightarrow> json \<Rightarrow> json option" where
  "transition_payload E now from_status from_status_str to_status context attempt payload =
     do {
       payload1 \<leftarrow> apply_transition_timing E payload from_status to_status now;
       payload2 \<leftarrow> index_put ''current_status'' (JStr (as_status_str to_status)) payload1;
       payload3 \<leftarrow> update_provider_trace payload2;
       payload4 \<leftarrow> index_put ''latest_error'' JNull payload3;
       event \<leftarrow> status_event E now from_status_str (as_status_str to_status) attempt context [];
       append_history payload4 event
     }"

definition transition ::
  "externals \<Rightarrow> datetime \<Rightarrow> string \<Rightarrow> MediaGenerationStatus \<Rightarrow> json option \<Rightarrow> int option \<Rightarrow>
     json option \<Rightarrow> ('z db_scheme, AuditTrailError, json) act" where
  "transition E now generation_id to_status context attempt job_context =
     and_then (parse_uuid E generation_id) (\<lambda>gen_id.
       transaction Database
         (and_then (map_err Database (db_select (\<lambda>t. Inr (map_of t gen_id)))) (\<lambda>found.
          and_then (ok_or (NotFound generation_id) found) (\<lambda>row.
          and_then (ok_or (Payload (''Unknown status: '' @ mg_status row)) (from_str (mg_status row)))
            (\<lambda>from_status.
          and_then (or_panic (apply_runtime_metadata E
              (payload_or_base E now (mg_orchestration_audit_payload row)) now attempt job_context))
            (\<lambda>current_payload.
            if from_status = to_status then
              and_then (or_panic (rerun_payload to_status current_payload)) (\<lambda>payload.
              and_then (map_err Database
                (db_update gen_id (\<lambda>db_time g.
                   g\<lparr>mg_orchestration_audit_payload := Some payload, mg_error_code := None,
                     mg_error_message := None, mg_updated_at := db_time\<rparr>)))
                (\<lambda>_. ok payload))
            else if \<not> can_transition from_status to_status then
              raise (InvalidTransition from_status to_status)
            else
              and_then (or_panic (transition_payload E now from_status (mg_status row) to_status
                  context attempt current_payload)) (\<lambda>payload.
              and_then (map_err Database
                (db_update gen_id (\<lambda>db_time g.
                   g\<lparr>mg_status := as_status_str to_status,
                     mg_orchestration_audit_payload := Some payload, mg_error_code := None,
                     mg_error_message := None, mg_updated_at := db_time\<rparr>)))
                (\<lambda>_. ok payload))))))))"

definition failure_event ::
  "externals \<Rightarrow> datetime \<Rightarrow> json \<Rightarrow> int option \<Rightarrow> json option \<Rightarrow> json \<Rightarrow> json option" where
  "failure_event E now payload attempt context err =
     map_option (\<lambda>ctx.
       JObj [(''event_type'', JStr ''attempt_failed''),
             (''status'', jopt (jget ''current_status'' payload)),
             (''attempt'', JInt (attempt_or_zero attempt)),
             (''at'', JStr (x_to_rfc3339 E now)),
             (''context'', ctx),
             (''error'', err)])
       (filter_context context)"

definition attempt_failure_payload ::
  "externals \<Rightarrow> datetime \<Rightarrow> string \<Rightarrow> string \<Rightarrow> bool \<Rightarrow> json option \<Rightarrow> int option \<Rightarrow> json option \<Rightarrow>
     json \<Rightarrow> json option" where
  "attempt_failure_payload E now error_code error_message retryable context attempt job_context payload =
     do {
       payload1 \<leftarrow> apply_runtime_metadata E payload now attempt job_context;
       err \<leftarrow> error_summary error_code error_message retryable context;
       let total_dur = calculate_total_duration E payload1 now;
       payload2 \<leftarrow> index_put ''latest_error'' err payload1;
       payload3 \<leftarrow> index_upd ''timing''
                    (index_put ''total_duration_ms'' (jint_opt total_dur)) payload2;
       event \<leftarrow> failure_event E now payload3 attempt context err;
       append_history payload3 event
     }"

text \<open>
  The row is read with \<open>query_scalar::<_, Value>\<close> into an \<open>Option\<close>: \<open>None\<close> is a missing row, and a
  row whose payload is \<open>NULL\<close> fails to decode.
\<close>

definition select_payload :: "uuid \<Rightarrow> gen_table \<Rightarrow> sqlx_error + json option" where
  "select_payload i t =
     (case map_of t i of
        None \<Rightarrow> Inr None
      | Some row \<Rightarrow>
          (case mg_orchestration_audit_payload row of
             None \<Rightarrow> Inl UnexpectedNull
           | Some v \<Rightarrow> Inr (Some v)))"

definition record_attempt_failure ::
  "externals \<Rightarrow> datetime \<Rightarrow> string \<Rightarrow> string \<Rightarrow> string \<Rightarrow> bool \<Rightarrow> json option \<Rightarrow> int option \<Rightarrow>
     json option \<Rightarrow> ('z db_scheme, AuditTrailError, json) act" where
  "record_attempt_failure E now generation_id error_code error_message retryable context attempt job_context =
     and_then (parse_uuid E generation_id) (\<lambda>gen_id.
       transaction Database
         (and_then (map_err Database (db_select (select_payload gen_id))) (\<lambda>opt_payload.
          and_then (or_panic (attempt_failure_payload E now error_code error_message retryable context
              attempt job_context (payload_or_base E now opt_payload))) (\<lambda>payload.
          and_then (map_err Database
            (db_update gen_id (\<lambda>db_time g.
               g\<lparr>mg_orchestration_audit_payload := Some payload, mg_updated_at := db_time\<rparr>)))
            (\<lambda>_. ok payload)))))"

definition mark_failed_payload ::
  "externals \<Rightarrow> datetime \<Rightarrow> MediaGenerationStatus \<Rightarrow> string \<Rightarrow> json \<Rightarrow> json option \<Rightarrow> int option \<Rightarrow>
     json \<Rightarrow> json option" where
  "mark_failed_payload E now current_status current_status_str err context attempt payload =
     do {
       payload1 \<leftarrow>
         (if current_status \<noteq> Failed \<and> can_transition current_status Failed
          then do {
            timed \<leftarrow> apply_transition_timing E payload current_status Failed now;
            event \<leftarrow> status_event E now current_status_str ''failed'' attempt context [(''error'', err)];
            append_history timed event
          }
          else Some payload);
       payload2 \<leftarrow> index_put ''current_status'' (JStr ''failed'') payload1;
       payload3 \<leftarrow> update_provider_trace payload2;
       index_put ''latest_error'' err payload3
     }"

text \<open>The body's result is an error to return after the commit, or the payload.\<close>

definition mark_failed_body ::
  "externals \<Rightarrow> datetime \<Rightarrow> string \<Rightarrow> uuid \<Rightarrow> string \<Rightarrow> string \<Rightarrow> bool \<Rightarrow> json option \<Rightarrow> int option \<Rightarrow>
     json option \<Rightarrow> ('z db_scheme, AuditTrailError, AuditTrailError + json) act" where
  "mark_failed_body E now generation_id gen_id error_code error_message retryable context attempt job_context =
     and_then (map_err Database (db_select (\<lambda>t. Inr (map_of t gen_id)))) (\<lambda>found.
     and_then (ok_or (NotFound generation_id) found) (\<lambda>row.
     and_then (ok_or (Payload (''Unknown status: '' @ mg_status row)) (from_str (mg_status row)))
       (\<lambda>current_status.
       if current_status = Completed \<or> current_status = Cancelled then
         ok (Inl (Terminal generation_id current_status))
       else
         and_then (or_panic (apply_runtime_metadata E
             (payload_or_base E now (mg_orchestration_audit_payload row)) now attempt job_context))
           (\<lambda>payload0.
         and_then (or_panic (error_summary error_code error_message retryable context)) (\<lambda>err.
         and_then (or_panic (mark_failed_payload E now current_status (mg_status row) err context
             attempt payload0)) (\<lambda>payload.
         and_then (or_panic (sanitize_message error_message)) (\<lambda>message.
         and_then (map_err Database
           (db_update gen_id (\<lambda>db_time g.
              g\<lparr>mg_status := ''failed'', mg_generation_status := Some ''failed'',
                mg_orchestration_audit_payload := Some payload,
                mg_error_code := Some error_code, mg_error_message := Some message,
                mg_generation_error_code := Some error_code,
                mg_generation_error_message := Some message, mg_updated_at := db_time\<rparr>)))
           (\<lambda>_. ok (Inr payload)))))))))"

definition mark_failed ::
  "externals \<Rightarrow> datetime \<Rightarrow> string \<Rightarrow> string \<Rightarrow> string \<Rightarrow> bool \<Rightarrow> json option \<Rightarrow> int option \<Rightarrow>
     json option \<Rightarrow> ('z db_scheme, AuditTrailError, json) act" where
  "mark_failed E now generation_id error_code error_message retryable context attempt job_context =
     and_then (parse_uuid E generation_id) (\<lambda>gen_id.
     and_then (transaction Database
         (mark_failed_body E now generation_id gen_id error_code error_message retryable context
            attempt job_context))
       (\<lambda>r. case r of Inl e \<Rightarrow> raise e | Inr payload \<Rightarrow> ok payload))"

definition get_payload :: "externals \<Rightarrow> string \<Rightarrow> ('z db_scheme, AuditTrailError, json) act" where
  "get_payload E generation_id =
     and_then (parse_uuid E generation_id) (\<lambda>gen_id.
     and_then (map_err Database (db_select (select_payload gen_id)))
       (ok_or (NotFound generation_id)))"

section \<open>What each operation does, under any database faults\<close>

text \<open>A success is one update of one row; a failure, a panic included, leaves the table as it was.\<close>

lemma wp_initialize:
  "wp (initialize E now gid)
     (\<lambda>p s'. \<exists>i row. x_parse_uuid E gid = Some i \<and> map_of (gens s) i = Some row \<and>
        (has_payload row = Some p \<and> s' = s\<lparr>faults := faults s'\<rparr> \<or>
         has_payload row = None \<and> p = build_base_payload E now \<and>
         s' = s\<lparr>faults := faults s',
                gens := update_gen i (\<lambda>g. g\<lparr>mg_orchestration_audit_payload := Some p,
                                             mg_updated_at := db_now s\<rparr>) (gens s)\<rparr>))
     (\<lambda>x s'. s' = s\<lparr>faults := faults s'\<rparr> \<and> x \<noteq> Panic) s"
  unfolding initialize_def parse_uuid_def Let_def
  by (intro wp_intros allI conjI) auto

lemma wp_transition:
  "wp (transition E now gid to_status context attempt job_context)
     (\<lambda>p s'. \<exists>i row from_status payload.
        x_parse_uuid E gid = Some i \<and> map_of (gens s) i = Some row \<and>
        from_str (mg_status row) = Some from_status \<and>
        apply_runtime_metadata E (payload_or_base E now (mg_orchestration_audit_payload row)) now
          attempt job_context = Some payload \<and>
        (if from_status = to_status then rerun_payload to_status payload = Some p
         else can_transition from_status to_status \<and>
              transition_payload E now from_status (mg_status row) to_status context attempt payload = Some p) \<and>
        s' = s\<lparr>faults := faults s',
               gens := update_gen i (\<lambda>g. g\<lparr>
                     mg_status := (if from_status = to_status then mg_status g else as_status_str to_status),
                     mg_orchestration_audit_payload := Some p, mg_error_code := None,
                     mg_error_message := None, mg_updated_at := db_now s\<rparr>) (gens s)\<rparr>)
     (\<lambda>x s'. s' = s\<lparr>faults := faults s'\<rparr>) s"
  unfolding transition_def parse_uuid_def
  by (intro wp_intros allI conjI) auto

lemma wp_record_attempt_failure:
  "wp (record_attempt_failure E now gid code msg retryable context attempt job_context)
     (\<lambda>p s'. \<exists>i opt. x_parse_uuid E gid = Some i \<and> select_payload i (gens s) = Inr opt \<and>
        attempt_failure_payload E now code msg retryable context attempt job_context
          (payload_or_base E now opt) = Some p \<and>
        s' = s\<lparr>faults := faults s',
               gens := update_gen i (\<lambda>g. g\<lparr>mg_orchestration_audit_payload := Some p,
                                            mg_updated_at := db_now s\<rparr>) (gens s)\<rparr>)
     (\<lambda>x s'. s' = s\<lparr>faults := faults s'\<rparr>) s"
  unfolding record_attempt_failure_def parse_uuid_def
  by (intro wp_intros allI conjI) auto

lemma wp_mark_failed:
  "wp (mark_failed E now gid code msg retryable context attempt job_context)
     (\<lambda>p s'. \<exists>i row status payload err message.
        x_parse_uuid E gid = Some i \<and> map_of (gens s) i = Some row \<and>
        from_str (mg_status row) = Some status \<and> status \<noteq> Completed \<and> status \<noteq> Cancelled \<and>
        apply_runtime_metadata E (payload_or_base E now (mg_orchestration_audit_payload row)) now
          attempt job_context = Some payload \<and>
        error_summary code msg retryable context = Some err \<and>
        mark_failed_payload E now status (mg_status row) err context attempt payload = Some p \<and>
        sanitize_message msg = Some message \<and>
        s' = s\<lparr>faults := faults s',
               gens := update_gen i (\<lambda>g. g\<lparr>mg_status := ''failed'', mg_generation_status := Some ''failed'',
                mg_orchestration_audit_payload := Some p,
                mg_error_code := Some code, mg_error_message := Some message,
                mg_generation_error_code := Some code,
                mg_generation_error_message := Some message, mg_updated_at := db_now s\<rparr>) (gens s)\<rparr>)
     (\<lambda>x s'. s' = s\<lparr>faults := faults s'\<rparr>) s"
  unfolding mark_failed_def mark_failed_body_def parse_uuid_def
  by (intro wp_intros allI conjI) auto
section \<open>The payloads the operations write\<close>

lemma transition_payload_SomeD:
  assumes "transition_payload E now from_status fstr to_status context attempt v = Some p"
  shows "jget ''current_status'' p = Some (JStr (as_status_str to_status))"
    and "jget ''latest_error'' p = Some JNull"
    and "\<exists>ev. status_event E now fstr (as_status_str to_status) attempt context [] = Some ev \<and>
              history_of p = last_n HISTORY_LIMIT (history_of v @ [ev])"
proof -
  obtain v1 v2 v3 v4 ev where
    1: "apply_transition_timing E v from_status to_status now = Some v1" and
    2: "index_put ''current_status'' (JStr (as_status_str to_status)) v1 = Some v2" and
    3: "update_provider_trace v2 = Some v3" and
    4: "index_put ''latest_error'' JNull v3 = Some v4" and
    ev: "status_event E now fstr (as_status_str to_status) attempt context [] = Some ev" and
    5: "append_history v4 ev = Some p"
    using assms by (auto simp: transition_payload_def bind_eq_Some_conv)
  show "jget ''current_status'' p = Some (JStr (as_status_str to_status))"
    using jget_append_history [OF 5] jget_index_put [OF 4] jget_update_provider_trace [OF 3]
      jget_index_put [OF 2] by simp
  show "jget ''latest_error'' p = Some JNull"
    using jget_append_history [OF 5] jget_index_put [OF 4] by simp
  have "history_of v4 = history_of v"
    by (rule history_of_cong)
      (simp add: jget_index_put [OF 4] jget_update_provider_trace [OF 3]
        jget_index_put [OF 2] jget_apply_transition_timing [OF 1])
  with ev history_of_append_history [OF 5]
  show "\<exists>ev. status_event E now fstr (as_status_str to_status) attempt context [] = Some ev \<and>
              history_of p = last_n HISTORY_LIMIT (history_of v @ [ev])" by auto
qed

lemma rerun_payload_SomeD:
  assumes "rerun_payload to_status v = Some p"
  shows "jget ''current_status'' p = Some (JStr (as_status_str to_status))"
    and "jget ''latest_error'' p = Some JNull" and "history_of p = history_of v"
proof -
  obtain v1 where 1: "index_put ''current_status'' (JStr (as_status_str to_status)) v = Some v1"
    and 2: "index_put ''latest_error'' JNull v1 = Some p"
    using assms by (auto simp: rerun_payload_def bind_eq_Some_conv)
  show "jget ''current_status'' p = Some (JStr (as_status_str to_status))"
    and "jget ''latest_error'' p = Some JNull" and "history_of p = history_of v"
    using jget_index_put [OF 1] jget_index_put [OF 2] by (simp_all add: history_of_def)
qed

lemma mark_failed_payload_SomeD:
  assumes "mark_failed_payload E now st st_str err context attempt v = Some p"
  shows "jget ''current_status'' p = Some (JStr ''failed'')" and "jget ''latest_error'' p = Some err"
proof -
  obtain v1 v2 v3 where
    2: "index_put ''current_status'' (JStr ''failed'') v1 = Some v2" and
    3: "update_provider_trace v2 = Some v3" and
    4: "index_put ''latest_error'' err v3 = Some p"
    using assms by (auto simp: mark_failed_payload_def bind_eq_Some_conv)
  show "jget ''current_status'' p = Some (JStr ''failed'')" and "jget ''latest_error'' p = Some err"
    using jget_index_put [OF 4] jget_update_provider_trace [OF 3] jget_index_put [OF 2] by simp_all
qed

lemma keeps_rerun_payload: "keeps_payload (rerun_payload to_status)"
  unfolding rerun_payload_def by (intro keeps_bind keeps_index_put) simp_all

lemma keeps_append: "keeps_payload (\<lambda>v. append_history v ev)"
  unfolding keeps_payload_def by (blast intro: keeps_append_history)

lemma keeps_transition_payload:
  assumes "filter_context context \<noteq> None"
  shows "keeps_payload (transition_payload E now from_status s to_status context attempt)"
proof -
  obtain ev where ev: "status_event E now s (as_status_str to_status) attempt context [] = Some ev"
    using assms by (auto simp: status_event_def)
  show ?thesis
    unfolding transition_payload_def ev bind.bind_lunit
    by (intro keeps_bind keeps_index_put keeps_update_provider_trace keeps_append
        keeps_apply_transition_timing) simp_all
qed

lemma keeps_mark_failed_payload:
  assumes "filter_context context \<noteq> None"
  shows "keeps_payload (mark_failed_payload E now st s err context attempt)"
proof -
  obtain ev where ev: "status_event E now s ''failed'' attempt context [(''error'', err)] = Some ev"
    using assms by (auto simp: status_event_def)
  show ?thesis
    unfolding mark_failed_payload_def ev bind.bind_lunit
    by (intro keeps_bind keeps_if keeps_index_put keeps_update_provider_trace keeps_append keeps_Some
        keeps_apply_transition_timing) simp_all
qed

lemma keeps_total_duration: "keeps_payload (index_upd ''timing'' (index_put ''total_duration_ms'' d))"
  unfolding keeps_payload_def
proof (intro allI impI)
  fix v assume v: "payload_ok v"
  then obtain m where m: "v = JObj m" by (cases v) (auto simp: payload_ok_def)
  have "timing_ok (Some (jopt (map_of m ''timing'')))"
    using v by (cases "map_of m ''timing''") (auto simp: m payload_ok_def jopt_def timing_ok_def obj_or_null_def)
  then obtain t where t: "index_put ''total_duration_ms'' d (jopt (map_of m ''timing'')) = Some t" "timing_ok (Some t)"
    using timing_index_put [of _ "''total_duration_ms''"] by auto
  then have "index_upd ''timing'' (index_put ''total_duration_ms'' d) v = Some (JObj (AList.update ''timing'' t m))"
    by (simp add: m)
  moreover have "payload_ok (JObj (AList.update ''timing'' t m))"
    using v t(2) by (simp add: m payload_ok_def update_conv history_of_def)
  ultimately show "\<exists>v'. index_upd ''timing'' (index_put ''total_duration_ms'' d) v = Some v' \<and> payload_ok v'"
    by blast
qed

lemma keeps_attempt_failure_payload:
  assumes "filter_context context \<noteq> None" and "sanitize_message msg \<noteq> None"
  shows "keeps_payload (attempt_failure_payload E now code msg retryable context attempt jc)"
proof -
  obtain err where err: "error_summary code msg retryable context = Some err"
    using assms by (auto simp: error_summary_def)
  obtain ctx where ctx: "filter_context context = Some ctx" using assms by blast
  have ev: "keeps_payload (\<lambda>v. Option.bind (failure_event E now v attempt context err) (append_history v))"
    unfolding failure_event_def ctx option.map bind.bind_lunit
    unfolding keeps_payload_def by (blast intro: keeps_append_history)
  show ?thesis
    unfolding attempt_failure_payload_def err bind.bind_lunit Let_def
    apply (intro keeps_bind keeps_apply_runtime_metadata)
    apply (rule keeps_dep [where h = "\<lambda>d v. Option.bind (index_put ''latest_error'' err v)
       (\<lambda>v. Option.bind (index_upd ''timing'' (index_put ''total_duration_ms'' d) v) (\<lambda>v.
          Option.bind (failure_event E now v attempt context err) (append_history v)))"])
    apply (intro keeps_bind keeps_index_put keeps_total_duration ev)
    apply simp
    done
qed

section \<open>Tables the audit trail keeps well-formed\<close>

definition payload_column_ok :: "generation \<Rightarrow> bool" where
  "payload_column_ok g \<longleftrightarrow>
     (case mg_orchestration_audit_payload g of None \<Rightarrow> True | Some v \<Rightarrow> v = JNull \<or> payload_ok v)"

definition audit_table_ok :: "gen_table \<Rightarrow> bool" where
  "audit_table_ok t \<longleftrightarrow> list_all (\<lambda>(_, g). payload_column_ok g) t"

lemma audit_table_okD: "audit_table_ok t \<Longrightarrow> map_of t i = Some g \<Longrightarrow> payload_column_ok g"
  by (auto simp: audit_table_ok_def list_all_iff dest: map_of_SomeD)

lemma payload_or_base_ok:
  "payload_column_ok g \<Longrightarrow> payload_ok (payload_or_base E now (mg_orchestration_audit_payload g))"
  by (auto simp: payload_column_ok_def payload_or_base_def split: option.splits)

lemma audit_table_ok_update_gen:
  "audit_table_ok t \<Longrightarrow> (\<And>g. payload_column_ok g \<Longrightarrow> payload_column_ok (f g)) \<Longrightarrow> audit_table_ok (update_gen i f t)"
  by (auto simp: audit_table_ok_def list_all_iff update_gen_def split: if_splits)

lemma payload_column_ok_put:
  "payload_ok p \<Longrightarrow> mg_orchestration_audit_payload g = Some p \<Longrightarrow> payload_column_ok g"
  by (simp add: payload_column_ok_def)

text \<open>What an operation of the audit trail may do to the rows of the table.\<close>

definition status_step :: "string \<Rightarrow> string \<Rightarrow> bool" where
  "status_step a b \<longleftrightarrow>
     a = b \<or> (case (from_str a, from_str b) of (Some x, Some y) \<Rightarrow> can_transition x y | _ \<Rightarrow> False)"

definition same_other_columns :: "generation \<Rightarrow> generation \<Rightarrow> bool" where
  "same_other_columns g h \<longleftrightarrow>
     h = g\<lparr>mg_status := mg_status h,
           mg_orchestration_audit_payload := mg_orchestration_audit_payload h,
           mg_error_code := mg_error_code h, mg_error_message := mg_error_message h,
           mg_generation_status := mg_generation_status h,
           mg_generation_error_code := mg_generation_error_code h,
           mg_generation_error_message := mg_generation_error_message h,
           mg_updated_at := mg_updated_at h\<rparr>"

definition audit_step :: "gen_table \<Rightarrow> gen_table \<Rightarrow> bool" where
  "audit_step t u \<longleftrightarrow>
     map fst u = map fst t \<and>
     list_all (\<lambda>i. rel_option (\<lambda>g h. same_other_columns g h \<and> status_step (mg_status g) (mg_status h))
                     (map_of t i) (map_of u i)) (map fst t)"

lemma rel_option_refl': "(\<And>a. R a a) \<Longrightarrow> rel_option R x x"
  by (cases x) auto

lemma audit_step_refl: "audit_step t t"
  by (auto simp: audit_step_def list_all_iff same_other_columns_def status_step_def intro!: rel_option_refl')

lemma audit_step_update_gen:
  assumes "\<And>g. map_of t i = Some g \<Longrightarrow> same_other_columns g (f g) \<and> status_step (mg_status g) (mg_status (f g))"
  shows "audit_step t (update_gen i f t)"
  using assms
  by (cases "map_of t i")
    (auto simp: audit_step_def list_all_iff same_other_columns_def status_step_def intro!: rel_option_refl')

lemma from_str_failed: "from_str ''failed'' = Some Failed"
  using from_str_as_str [of Failed] by simp

lemma not_terminal_to_failed: "\<not> is_terminal s \<Longrightarrow> can_transition s Failed"
  by (cases s) auto

lemma wp_audit_step:
  "wp (initialize E now gid) (\<lambda>_ s'. audit_step (gens s) (gens s')) (\<lambda>_ s'. gens s' = gens s) s"
  "wp (transition E now gid to_status context attempt jc)
      (\<lambda>_ s'. audit_step (gens s) (gens s')) (\<lambda>_ s'. gens s' = gens s) s"
  "wp (record_attempt_failure E now gid code msg retryable context attempt jc)
      (\<lambda>_ s'. audit_step (gens s) (gens s')) (\<lambda>_ s'. gens s' = gens s) s"
  "wp (mark_failed E now gid code msg retryable context attempt jc)
      (\<lambda>_ s'. audit_step (gens s) (gens s')) (\<lambda>_ s'. gens s' = gens s) s"
proof -
  have eqs: "s' = s\<lparr>faults := faults s'\<rparr> \<Longrightarrow> gens s' = gens s"
    "s' = s\<lparr>faults := faults s', gens := t\<rparr> \<Longrightarrow> gens s' = t" for s' t
    by (metis db.select_convs(1) db.surjective db.update_convs(3))
       (metis db.select_convs(1) db.surjective db.update_convs(1))
  show "wp (initialize E now gid) (\<lambda>_ s'. audit_step (gens s) (gens s')) (\<lambda>_ s'. gens s' = gens s) s"
    by (rule wp_mono [OF wp_initialize])
      (auto dest!: eqs intro!: audit_step_refl audit_step_update_gen simp: same_other_columns_def status_step_def)
  show "wp (transition E now gid to_status context attempt jc)
      (\<lambda>_ s'. audit_step (gens s) (gens s')) (\<lambda>_ s'. gens s' = gens s) s"
    by (rule wp_mono [OF wp_transition])
      (auto dest!: eqs intro!: audit_step_update_gen simp: same_other_columns_def status_step_def
        split: if_splits)
  show "wp (record_attempt_failure E now gid code msg retryable context attempt jc)
      (\<lambda>_ s'. audit_step (gens s) (gens s')) (\<lambda>_ s'. gens s' = gens s) s"
    by (rule wp_mono [OF wp_record_attempt_failure])
      (auto dest!: eqs intro!: audit_step_update_gen simp: same_other_columns_def status_step_def)
  have failed: "status_step (mg_status g) ''failed''"
    if "from_str (mg_status g) = Some st" "st \<noteq> Completed" "st \<noteq> Cancelled" for st and g :: generation
    using from_str_Some [OF that(1)] that by (cases st) (auto simp: status_step_def from_str_failed)
  show "wp (mark_failed E now gid code msg retryable context attempt jc)
      (\<lambda>_ s'. audit_step (gens s) (gens s')) (\<lambda>_ s'. gens s' = gens s) s"
    by (rule wp_mono [OF wp_mark_failed])
      (auto dest!: eqs intro!: audit_step_update_gen simp: same_other_columns_def, rule failed, assumption+)
qed

text \<open>
  Workers run the operations concurrently; each is a transaction under the lock of its row, so an
  execution is a sequence of them, in any order and with any arguments.
\<close>

datatype audit_op =
    Initialize datetime string
  | Transition datetime string MediaGenerationStatus "json option" "int option" "json option"
  | Record_failure datetime string string string bool "json option" "int option" "json option"
  | Mark_failed datetime string string string bool "json option" "int option" "json option"

fun run_audit_op :: "externals \<Rightarrow> audit_op \<Rightarrow> db \<Rightarrow> db" where
  "run_audit_op E (Initialize now gid) s = snd (initialize E now gid s)"
| "run_audit_op E (Transition now gid to_status ctx a jc) s = snd (transition E now gid to_status ctx a jc s)"
| "run_audit_op E (Record_failure now gid code msg r ctx a jc) s =
     snd (record_attempt_failure E now gid code msg r ctx a jc s)"
| "run_audit_op E (Mark_failed now gid code msg r ctx a jc) s =
     snd (mark_failed E now gid code msg r ctx a jc s)"

lemma audit_step_snd:
  "wp m (\<lambda>_ s'. audit_step (gens s) (gens s')) (\<lambda>_ s'. gens s' = gens s) s \<Longrightarrow>
     audit_step (gens s) (gens (snd (m s)))"
  by (auto simp: wp_def audit_step_refl split: prod.splits sum.splits)

lemma run_audit_op_step: "audit_step (gens s) (gens (run_audit_op E op s))"
  by (cases op) (simp_all only: run_audit_op.simps audit_step_snd wp_audit_step)

lemma audit_stepD:
  assumes "audit_step t u" and "map_of t i = Some g"
  shows "\<exists>h. map_of u i = Some h \<and> same_other_columns g h \<and> status_step (mg_status g) (mg_status h)"
proof -
  have "i \<in> set (map fst t)" using assms(2) by (force dest: map_of_SomeD)
  then have "rel_option (\<lambda>g h. same_other_columns g h \<and> status_step (mg_status g) (mg_status h))
               (map_of t i) (map_of u i)"
    using assms(1) by (simp add: audit_step_def list_all_iff del: set_map)
  with assms(2) show ?thesis by (cases "map_of u i") auto
qed

definition lifecycle_ahead :: "string \<Rightarrow> string \<Rightarrow> bool" where
  "lifecycle_ahead a b \<longleftrightarrow>
     a = b \<or> (\<exists>x y. from_str a = Some x \<and> from_str b = Some y \<and> can_transition\<^sup>+\<^sup>+ x y)"

lemma lifecycle_ahead_step: "lifecycle_ahead a b \<Longrightarrow> status_step b c \<Longrightarrow> lifecycle_ahead a c"
  by (auto simp: lifecycle_ahead_def status_step_def split: option.splits
      intro: tranclp.trancl_into_trancl)

lemma same_other_columns_trans: "same_other_columns a b \<Longrightarrow> same_other_columns b c \<Longrightarrow> same_other_columns a c"
  by (cases a; cases b; cases c) (simp add: same_other_columns_def)

lemma audit_run_ahead:
  "map_of (gens s) i = Some g \<Longrightarrow>
   \<exists>h. map_of (gens (fold (run_audit_op E) ops s)) i = Some h \<and> same_other_columns g h \<and>
       lifecycle_ahead (mg_status g) (mg_status h)"
proof (induction ops rule: rev_induct)
  case Nil
  then show ?case by (simp add: lifecycle_ahead_def same_other_columns_def)
next
  case (snoc op ops)
  let ?s = "fold (run_audit_op E) ops s"
  obtain h where h: "map_of (gens ?s) i = Some h" "same_other_columns g h"
      "lifecycle_ahead (mg_status g) (mg_status h)" using snoc by blast
  then obtain k where "map_of (gens (run_audit_op E op ?s)) i = Some k"
      "same_other_columns h k" "status_step (mg_status h) (mg_status k)"
    using audit_stepD [OF run_audit_op_step [of ?s E op] h(1)] by blast
  with h show ?case by (auto intro: lifecycle_ahead_step same_other_columns_trans)
qed

text \<open>An operation keeps well-formed tables well-formed.\<close>

definition keeps_audit_table :: "('z db_scheme, 'e, 'a) act \<Rightarrow> bool" where
  "keeps_audit_table m \<longleftrightarrow>
     (\<forall>s. audit_table_ok (gens s) \<longrightarrow>
        wp m (\<lambda>_ s'. audit_table_ok (gens s')) (\<lambda>_ s'. audit_table_ok (gens s')) s)"

lemma db_eqs:
  "s' = s\<lparr>faults := faults s'\<rparr> \<Longrightarrow> gens s' = gens s"
  "s' = s\<lparr>faults := faults s', gens := t\<rparr> \<Longrightarrow> gens s' = t"
  by (metis db.select_convs(1) db.surjective db.update_convs(3))
     (metis db.select_convs(1) db.surjective db.update_convs(1))

lemma select_payload_ok:
  "audit_table_ok t \<Longrightarrow> select_payload i t = Inr opt \<Longrightarrow> payload_ok (payload_or_base E now opt)"
  using audit_table_okD [of t i]
  by (auto simp: select_payload_def payload_column_ok_def payload_or_base_def split: option.splits)

lemma keepsE: "keeps_payload f \<Longrightarrow> payload_ok v \<Longrightarrow> f v = Some w \<Longrightarrow> payload_ok w"
  by (auto simp: keeps_payload_def)

lemma status_event_SomeD: "status_event E now a b attempt context extra = Some ev \<Longrightarrow> filter_context context \<noteq> None"
  by (auto simp: status_event_def)

lemma attempt_failure_payload_ok:
  assumes "payload_ok v" "attempt_failure_payload E now code msg retryable context attempt jc v = Some p"
  shows "payload_ok p"
proof -
  have "filter_context context \<noteq> None" "sanitize_message msg \<noteq> None"
    using assms(2) by (auto simp: attempt_failure_payload_def error_summary_def failure_event_def bind_eq_Some_conv)
  then show ?thesis using keepsE [OF keeps_attempt_failure_payload assms] by blast
qed

lemma transition_payload_ok:
  assumes "payload_ok v" "transition_payload E now from_status fstr to_status context attempt v = Some p"
  shows "payload_ok p"
proof -
  have "filter_context context \<noteq> None"
    using assms(2) by (auto simp: transition_payload_def status_event_def bind_eq_Some_conv)
  then show ?thesis using keepsE [OF keeps_transition_payload assms] by blast
qed

lemma mark_failed_payload_ok:
  assumes "payload_ok v" "mark_failed_payload E now st s err context attempt v = Some p"
  shows "payload_ok p"
proof (cases "st \<noteq> Failed \<and> can_transition st Failed")
  case True
  then have "filter_context context \<noteq> None"
    using assms(2) by (auto simp: mark_failed_payload_def status_event_def bind_eq_Some_conv)
  then show ?thesis using keepsE [OF keeps_mark_failed_payload assms] by blast
next
  case False
  then have eq: "mark_failed_payload E now st s err context attempt v = mark_failed_payload E now st s err None attempt v"
    by (auto simp: mark_failed_payload_def)
  show ?thesis
    by (rule keepsE [OF keeps_mark_failed_payload [of None] assms(1)]) (use assms(2) eq in \<open>auto simp: filter_context_def\<close>)
qed

lemma keeps_audit_table_initialize: "keeps_audit_table (initialize E now gid)"
  unfolding keeps_audit_table_def
  by (intro allI impI, rule wp_mono [OF wp_initialize])
    (auto dest!: db_eqs intro!: audit_table_ok_update_gen simp: payload_column_ok_def)

lemma keeps_audit_table_transition:
  "keeps_audit_table (transition E now gid to_status context attempt jc)"
  unfolding keeps_audit_table_def
proof (intro allI impI, rule wp_mono [OF wp_transition], goal_cases)
  case (1 s p s')
  from 1(2) obtain i row from_status payload where
    row: "map_of (gens s) i = Some row" and
    payload: "apply_runtime_metadata E (payload_or_base E now (mg_orchestration_audit_payload row)) now attempt jc = Some payload" and
    p: "if from_status = to_status then rerun_payload to_status payload = Some p
        else can_transition from_status to_status \<and>
             transition_payload E now from_status (mg_status row) to_status context attempt payload = Some p" and
    s': "s' = s\<lparr>faults := faults s', gens := update_gen i (\<lambda>g. g\<lparr>
                     mg_status := (if from_status = to_status then mg_status g else as_status_str to_status),
                     mg_orchestration_audit_payload := Some p, mg_error_code := None,
                     mg_error_message := None, mg_updated_at := db_now s\<rparr>) (gens s)\<rparr>"
    by (elim exE conjE) (rule that)
  have "payload_ok payload"
    using keepsE [OF keeps_apply_runtime_metadata payload_or_base_ok payload] audit_table_okD [OF 1(1) row] by blast
  then have "payload_ok p"
    using p keepsE [OF keeps_rerun_payload] transition_payload_ok by (metis (full_types))
  then show ?case
    using 1(1) db_eqs(2) [OF s'] by (auto intro!: audit_table_ok_update_gen simp: payload_column_ok_def)
qed (auto dest!: db_eqs)

lemma keeps_audit_table_record:
  "keeps_audit_table (record_attempt_failure E now gid code msg retryable context attempt jc)"
  unfolding keeps_audit_table_def
proof (intro allI impI, rule wp_mono [OF wp_record_attempt_failure], goal_cases)
  case (1 s p s')
  then have "payload_ok p" using attempt_failure_payload_ok select_payload_ok by blast
  with 1 show ?case
    by (auto dest!: db_eqs intro!: audit_table_ok_update_gen simp: payload_column_ok_def)
qed (auto dest!: db_eqs)

lemma keeps_audit_table_mark_failed:
  "keeps_audit_table (mark_failed E now gid code msg retryable context attempt jc)"
  unfolding keeps_audit_table_def
proof (intro allI impI, rule wp_mono [OF wp_mark_failed], goal_cases)
  case (1 s p s')
  then have "payload_ok p"
    using mark_failed_payload_ok keepsE [OF keeps_apply_runtime_metadata] payload_or_base_ok audit_table_okD by meson
  with 1 show ?case
    by (auto dest!: db_eqs intro!: audit_table_ok_update_gen simp: payload_column_ok_def)
qed (auto dest!: db_eqs)

lemma wp_mark_failed_exact:
  assumes "faults s = []" and "audit_table_ok (gens s)" and "x_parse_uuid E gid = Some i"
    and "map_of (gens s) i = Some row" and "from_str (mg_status row) = Some status"
    and "filter_context context \<noteq> None" and "sanitize_message msg = Some message"
  shows "wp (mark_failed E now gid code msg retryable context attempt jc)
     (\<lambda>p s'. \<exists>row'. map_of (gens s') i = Some row' \<and> status \<noteq> Completed \<and> status \<noteq> Cancelled \<and>
        mg_status row' = ''failed'' \<and> mg_generation_status row' = Some ''failed'' \<and>
        mg_error_code row' = Some code \<and> mg_error_message row' = Some message \<and>
        mg_generation_error_code row' = Some code \<and> mg_generation_error_message row' = Some message \<and>
        mg_orchestration_audit_payload row' = Some p \<and>
        jget ''current_status'' p = Some (JStr ''failed'') \<and>
        jget ''latest_error'' p = error_summary code msg retryable context)
     (\<lambda>x s'. x = Error (Terminal gid status) \<and> s' = s \<and> (status = Completed \<or> status = Cancelled)) s"
proof -
  have ok: "payload_ok (payload_or_base E now (mg_orchestration_audit_payload row))"
    using audit_table_okD [OF assms(2,4)] by (rule payload_or_base_ok)
  obtain payload where payload: "apply_runtime_metadata E
      (payload_or_base E now (mg_orchestration_audit_payload row)) now attempt jc = Some payload"
      "payload_ok payload"
    using keepsD [OF keeps_apply_runtime_metadata ok] by blast
  obtain err where err: "error_summary code msg retryable context = Some err"
    using assms(7) by (simp add: error_summary_def)
  obtain p where p: "mark_failed_payload E now status (mg_status row) err context attempt payload = Some p"
    using keepsD [OF keeps_mark_failed_payload [OF assms(6)] payload(2)] by blast
  show ?thesis
    unfolding mark_failed_def mark_failed_body_def parse_uuid_def
    using assms payload(1) err p mark_failed_payload_SomeD [OF p]
    by (auto simp: wp_simps intro!: wp_transaction_exact_I)
qed

section \<open>The sample table\<close>

lemma sample_audit_ok: "audit_table_ok (gens sample_db)"
  by (simp add: sample_defs audit_table_ok_def payload_column_ok_def)

lemma from_str_queued: "from_str ''queued'' = Some Queued"
  using from_str_as_str [of Queued] by simp

section \<open>Properties\<close>

text \<open>
  C1. The audit trail respects the lifecycle under every interleaving: whatever sequence of its four
  operations runs, with whatever arguments and database faults, the status of a row only moves
  forward along the transition matrix, a terminal status is final, and only the columns the audit
  trail owns change.
\<close>

theorem audit_trail_respects_lifecycle:
  assumes "map_of (gens s) i = Some g"
  shows "\<exists>h. map_of (gens (fold (run_audit_op E) ops s)) i = Some h \<and> same_other_columns g h \<and>
    (mg_status h = mg_status g \<or>
     (\<exists>x y. mg_status g = as_status_str x \<and> mg_status h = as_status_str y \<and>
            can_transition\<^sup>+\<^sup>+ x y \<and> order_index x < order_index y \<and> \<not> is_terminal x))"
proof -
  obtain h where h: "map_of (gens (fold (run_audit_op E) ops s)) i = Some h" "same_other_columns g h"
      "lifecycle_ahead (mg_status g) (mg_status h)" using audit_run_ahead [OF assms] by blast
  moreover have "\<not> is_terminal x" if "can_transition\<^sup>+\<^sup>+ x y" for x y
    using that lifecycle.final_stuck by (metis tranclpD)
  ultimately show ?thesis
    by (auto simp: lifecycle_ahead_def dest!: from_str_Some intro: lifecycle.trancl_rank)
qed

theorem audit_trail_respects_lifecycle_witness:
  "map_of (gens sample_db) 1 = Some sample_row \<and>
   (\<exists>h. map_of (gens (fold (run_audit_op sample_externals)
           [Transition 3 ''g1'' Interpreting None None None, Transition 4 ''g1'' Queued None None None]
           sample_db)) 1 = Some h \<and> same_other_columns sample_row h)"
  using audit_trail_respects_lifecycle [of sample_db 1 sample_row sample_externals
      "[Transition 3 ''g1'' Interpreting None None None, Transition 4 ''g1'' Queued None None None]"]
  by auto

text \<open>
  Failure atomicity: an operation of the audit trail that does not return a payload, because of a
  database fault at any statement, the commit included, because of a rejected transition, or because it
  panics, leaves the table as it was.
\<close>

theorem audit_trail_failure_atomic:
  "wp (initialize E now gid) (\<lambda>_ _. True) (\<lambda>_ s'. gens s' = gens s) s \<and>
   wp (transition E now gid to_status context attempt jc) (\<lambda>_ _. True) (\<lambda>_ s'. gens s' = gens s) s \<and>
   wp (record_attempt_failure E now gid code msg retryable context attempt jc)
      (\<lambda>_ _. True) (\<lambda>_ s'. gens s' = gens s) s \<and>
   wp (mark_failed E now gid code msg retryable context attempt jc)
      (\<lambda>_ _. True) (\<lambda>_ s'. gens s' = gens s) s"
proof -
  have weaken: "wp m (\<lambda>_ _. True) (\<lambda>_ s'. gens s' = gens s) s"
    if "wp m (\<lambda>_ s'. audit_step (gens s) (gens s')) (\<lambda>_ s'. gens s' = gens s) s"
    for m :: "('a db_scheme, AuditTrailError, json) act"
    using that by (rule wp_mono) auto
  show ?thesis by (intro conjI weaken wp_audit_step)
qed

text \<open>
  Every operation of the audit trail keeps all payloads well-formed (objects where objects are
  expected, a history of at most fifty entries), whatever fails, so the indexing of the payload
  never panics on a table only the audit trail writes.
\<close>

theorem audit_trail_keeps_payloads:
  "keeps_audit_table (initialize E now gid) \<and>
   keeps_audit_table (transition E now gid to_status context attempt jc) \<and>
   keeps_audit_table (record_attempt_failure E now gid code msg retryable context attempt jc) \<and>
   keeps_audit_table (mark_failed E now gid code msg retryable context attempt jc)"
  by (simp add: keeps_audit_table_initialize keeps_audit_table_transition keeps_audit_table_record
      keeps_audit_table_mark_failed)

text \<open>
  C34. A transition the matrix allows succeeds on a well-formed table when no statement fails: the
  row gets the new status, its errors are cleared, and its payload says so (current status, no
  error, the event appended to the history and the oldest entries dropped beyond fifty).
\<close>

theorem transition_succeeds:
  assumes "faults s = []" and "audit_table_ok (gens s)" and "x_parse_uuid E gid = Some i"
    and "map_of (gens s) i = Some row" and "from_str (mg_status row) = Some from_status"
    and "can_transition from_status to_status" and "filter_context context \<noteq> None"
  shows "wp (transition E now gid to_status context attempt jc)
     (\<lambda>p s'. \<exists>row' event. map_of (gens s') i = Some row' \<and>
        mg_status row' = as_status_str to_status \<and> mg_orchestration_audit_payload row' = Some p \<and>
        mg_error_code row' = None \<and> mg_error_message row' = None \<and> mg_updated_at row' = db_now s \<and>
        jget ''current_status'' p = Some (JStr (as_status_str to_status)) \<and>
        jget ''latest_error'' p = Some JNull \<and>
        status_event E now (mg_status row) (as_status_str to_status) attempt context [] = Some event \<and>
        history_of p = last_n 50
          (history_of (payload_or_base E now (mg_orchestration_audit_payload row)) @ [event]))
     (\<lambda>_ _. False) s"
proof -
  have neq: "from_status \<noteq> to_status" using assms(6) by (cases from_status) auto
  have ok: "payload_ok (payload_or_base E now (mg_orchestration_audit_payload row))"
    using audit_table_okD [OF assms(2,4)] by (rule payload_or_base_ok)
  obtain payload where payload: "apply_runtime_metadata E
      (payload_or_base E now (mg_orchestration_audit_payload row)) now attempt jc = Some payload"
      "payload_ok payload"
    using keepsD [OF keeps_apply_runtime_metadata ok] by blast
  obtain p where p: "transition_payload E now from_status (mg_status row) to_status context attempt payload = Some p"
    using keepsD [OF keeps_transition_payload [OF assms(7)] payload(2)] by blast
  have h: "history_of payload = history_of (payload_or_base E now (mg_orchestration_audit_payload row))"
    by (rule history_of_cong) (simp add: jget_apply_runtime_metadata [OF payload(1)])
  show ?thesis
    unfolding transition_def parse_uuid_def
    using assms neq payload(1) p transition_payload_SomeD [OF p] h
    by (auto simp: wp_simps HISTORY_LIMIT_def intro!: wp_transaction_exact_I)
qed

theorem transition_succeeds_witness:
  "wp (transition sample_externals 3 ''g1'' Interpreting None None None)
      (\<lambda>p s'. jget ''current_status'' p = Some (JStr ''interpreting'')) (\<lambda>_ _. False) sample_db"
proof (rule wp_mono [OF transition_succeeds [where i = 1 and row = sample_row and from_status = Queued]], goal_cases)
  case (8 p s')
  then show ?case by (elim exE conjE) simp
qed (simp_all add: sample_audit_ok from_str_queued filter_context_def)

text \<open>
  A transition the matrix does not allow, to another status, is rejected with both statuses in the
  error and changes nothing.
\<close>

theorem transition_rejects:
  assumes "faults s = []" and "audit_table_ok (gens s)" and "x_parse_uuid E gid = Some i"
    and "map_of (gens s) i = Some row" and "from_str (mg_status row) = Some from_status"
    and "from_status \<noteq> to_status" and "\<not> can_transition from_status to_status"
  shows "transition E now gid to_status context attempt jc s =
           (Inl (Error (InvalidTransition from_status to_status)), s)"
proof -
  have ok: "payload_ok (payload_or_base E now (mg_orchestration_audit_payload row))"
    using audit_table_okD [OF assms(2,4)] by (rule payload_or_base_ok)
  obtain payload where payload: "apply_runtime_metadata E
      (payload_or_base E now (mg_orchestration_audit_payload row)) now attempt jc = Some payload"
    using keepsD [OF keeps_apply_runtime_metadata ok] by blast
  have "wp (transition E now gid to_status context attempt jc) (\<lambda>_ _. False)
      (\<lambda>x s'. x = Error (InvalidTransition from_status to_status) \<and> s' = s) s"
    unfolding transition_def parse_uuid_def
    using assms payload by (auto simp: wp_simps intro!: wp_transaction_exact_I)
  then show ?thesis by (auto simp: wp_def split: prod.splits sum.splits)
qed

theorem transition_rejects_witness:
  "transition sample_externals 3 ''g1'' Completed None None None sample_db =
     (Inl (Error (InvalidTransition Queued Completed)), sample_db)"
  by (rule transition_rejects [where i = 1 and row = sample_row])
    (simp_all add: sample_audit_ok from_str_queued)

text \<open>
  \<open>mark_failed\<close> on a live generation records the failure in the row and in the payload; on a
  completed or cancelled one it changes nothing and says which terminal status it found.
\<close>

theorem mark_failed_outcome:
  assumes "faults s = []" and "audit_table_ok (gens s)" and "x_parse_uuid E gid = Some i"
    and "map_of (gens s) i = Some row" and "from_str (mg_status row) = Some status"
    and "filter_context context \<noteq> None" and "sanitize_message msg = Some message"
  shows "wp (mark_failed E now gid code msg retryable context attempt jc)
     (\<lambda>p s'. \<exists>row'. map_of (gens s') i = Some row' \<and> status \<noteq> Completed \<and> status \<noteq> Cancelled \<and>
        mg_status row' = ''failed'' \<and> mg_generation_status row' = Some ''failed'' \<and>
        mg_error_code row' = Some code \<and> mg_error_message row' = Some message \<and>
        mg_generation_error_code row' = Some code \<and> mg_generation_error_message row' = Some message \<and>
        mg_orchestration_audit_payload row' = Some p \<and>
        jget ''current_status'' p = Some (JStr ''failed'') \<and>
        jget ''latest_error'' p = error_summary code msg retryable context)
     (\<lambda>x s'. x = Error (Terminal gid status) \<and> s' = s \<and> (status = Completed \<or> status = Cancelled)) s"
  using assms by (rule wp_mark_failed_exact)

theorem mark_failed_outcome_witness:
  "wp (mark_failed sample_externals 3 ''g1'' ''llm_error'' ''no answer'' True None None None)
      (\<lambda>p s'. \<exists>row'. map_of (gens s') 1 = Some row' \<and> mg_status row' = ''failed'') (\<lambda>_ _. False) sample_db"
proof -
  have "sanitize_message ''no answer'' = Some ''no answer''" by code_simp
  then show ?thesis
    by (intro wp_mono [OF mark_failed_outcome [where i = 1 and row = sample_row and status = Queued
          and message = "''no answer''"]])
      (auto simp: sample_audit_ok from_str_queued filter_context_def)
qed

text \<open>
  A message whose normal form is cut inside a code point makes \<open>mark_failed\<close> panic on every live
  generation, so the failure is not recorded: the row keeps its status.
\<close>

theorem mark_failed_panics:
  assumes "faults s = []" and "audit_table_ok (gens s)" and "x_parse_uuid E gid = Some i"
    and "map_of (gens s) i = Some row" and "from_str (mg_status row) = Some status"
    and "status \<noteq> Completed" and "status \<noteq> Cancelled" and "sanitize_message msg = None"
  shows "mark_failed E now gid code msg retryable context attempt jc s = (Inl Panic, s)"
proof -
  have ok: "payload_ok (payload_or_base E now (mg_orchestration_audit_payload row))"
    using audit_table_okD [OF assms(2,4)] by (rule payload_or_base_ok)
  obtain payload where payload: "apply_runtime_metadata E
      (payload_or_base E now (mg_orchestration_audit_payload row)) now attempt jc = Some payload"
    using keepsD [OF keeps_apply_runtime_metadata ok] by blast
  have "wp (mark_failed E now gid code msg retryable context attempt jc) (\<lambda>_ _. False)
      (\<lambda>x s'. x = Panic \<and> s' = s) s"
    unfolding mark_failed_def mark_failed_body_def parse_uuid_def
    using assms payload by (auto simp: wp_simps error_summary_def intro!: wp_transaction_exact_I)
  then show ?thesis by (auto simp: wp_def split: prod.splits sum.splits)
qed

theorem mark_failed_panics_witness:
  "mark_failed sample_externals 3 ''g1'' ''llm_error'' long_message True None None None sample_db =
     (Inl Panic, sample_db)"
  by (rule mark_failed_panics [where i = 1 and row = sample_row and status = Queued])
    (simp_all add: sample_audit_ok from_str_queued sanitize_long_message)

text \<open>
  \<open>initialize\<close> is idempotent: once it has succeeded, a second call, at any later time, returns the
  same payload and changes nothing.
\<close>

theorem initialize_idempotent:
  fixes s :: "'z db_scheme"
  assumes "faults s = []"
  shows "wp (initialize E now gid) (\<lambda>p s'. initialize E now' gid s' = (Inr p, s'))
           (\<lambda>x s'. s' = s \<and> (x = Error (Payload (''Invalid UUID: '' @ gid)) \<or> x = Error (NotFound gid))) s"
proof -
  have base: "has_payload (g\<lparr>mg_orchestration_audit_payload := Some (build_base_payload E now), mg_updated_at := d\<rparr>) =
      Some (build_base_payload E now)" for g :: generation and d
    by (simp add: has_payload_def build_base_payload_def Let_def)
  have again: "initialize E now' gid s' = (Inr p, s')"
    if "x_parse_uuid E gid = Some i" "map_of (gens s') i = Some g" "has_payload g = Some p" "faults s' = []"
    for s' :: "'z db_scheme" and i g p
  proof -
    have "wp (initialize E now' gid) (\<lambda>r t. r = p \<and> t = s') (\<lambda>_ _. False) s'"
      unfolding initialize_def parse_uuid_def Let_def
      using that by (auto simp: wp_simps intro!: wp_transaction_exact_I)
    then show ?thesis by (auto simp: wp_def split: prod.splits sum.splits)
  qed
  show ?thesis
    apply (subst initialize_def)
    unfolding parse_uuid_def Let_def
    using assms
    by (auto simp: wp_simps base intro!: wp_transaction_exact_I split: option.splits intro!: again)
qed

theorem initialize_idempotent_witness:
  "wp (initialize sample_externals 3 ''g1'') (\<lambda>p s'. initialize sample_externals 9 ''g1'' s' = (Inr p, s'))
      (\<lambda>_ s'. s' = sample_db) sample_db"
  by (rule wp_mono [OF initialize_idempotent]) auto

end
