(* ===== verification/Job_Queue.thy ===== *)
theory Job_Queue
  imports Audit_Trail
begin

text \<open>
  The job queue on Redis Streams, \<open>src/src/queue/redis_streams.rs\<close>, and the dead-letter queue,
  \<open>src/src/queue/dead_letter.rs\<close>. Redis itself is not modelled: an operation is the commands it
  sends (\<open>redis_cmd\<close>) as a function of the replies it got (\<open>redis_value\<close>, the constructors of
  \<open>redis::Value\<close> the sources match on).
\<close>

definition STREAM_KEY :: string where
  "STREAM_KEY = ''klass:media-gen''"

definition CONSUMER_GROUP :: string where
  "CONSUMER_GROUP = ''klass-workers''"

definition DLQ_STREAM_KEY :: string where
  "DLQ_STREAM_KEY = ''klass:media-gen-dlq''"

definition MAX_RETRY_ATTEMPTS :: int where
  "MAX_RETRY_ATTEMPTS = 3"

datatype redis_value =
    RInt int
  | BulkString string
  | SimpleString string
  | RArray "redis_value list"
  | ROther

datatype redis_cmd =
    XADD string "(string \<times> string) list"
  | XACK string string string
  | XDEL string string
  | XCLAIM string string string nat string
  | XREADGROUP string string string nat nat
  | SLEEP u64

definition value_to_str :: "externals \<Rightarrow> redis_value \<Rightarrow> string option" where
  "value_to_str E v =
     (case v of
        BulkString d \<Rightarrow> Some (x_utf8_lossy E d)
      | SimpleString s \<Rightarrow> Some s
      | RInt i \<Rightarrow> Some (show_int i)
      | _ \<Rightarrow> None)"

text \<open>\<open>xs.chunks(2)\<close>, the pairs of it.\<close>

fun pairs :: "'a list \<Rightarrow> ('a \<times> 'a) list" where
  "pairs (k # v # xs) = (k, v) # pairs xs"
| "pairs _ = []"

section \<open>Enqueuing\<close>

definition job_fields :: "string \<Rightarrow> string option \<Rightarrow> int \<Rightarrow> string \<Rightarrow> (string \<times> string) list" where
  "job_fields generation_id job_id attempt now =
     [(''generation_id'', generation_id)] @
     (case job_id of Some jid \<Rightarrow> [(''job_id'', jid)] | None \<Rightarrow> []) @
     [(''attempt'', show_int attempt), (''enqueued_at'', now)]"

definition enqueue :: "externals \<Rightarrow> datetime \<Rightarrow> string \<Rightarrow> string \<Rightarrow> int \<Rightarrow> redis_cmd" where
  "enqueue E now generation_id job_id attempt =
     XADD STREAM_KEY (job_fields generation_id (Some job_id) attempt (x_to_rfc3339 E now))"

text \<open>\<open>create_consumer_group\<close>: a group that exists already is not an error.\<close>

definition create_consumer_group :: "unit + string \<Rightarrow> string + unit" where
  "create_consumer_group reply =
     (case reply of
        Inl _ \<Rightarrow> Inr ()
      | Inr msg \<Rightarrow> if contains msg ''BUSYGROUP'' then Inr () else Inl msg)"

section \<open>Reading entries\<close>

record StreamEntry =
  se_id :: string
  se_generation_id :: string
  se_job_id :: "string option"
  se_attempt :: int
  se_payload :: json

definition fields_of :: "externals \<Rightarrow> redis_value list \<Rightarrow> (string \<times> string) list" where
  "fields_of E fields_arr =
     fold (\<lambda>(k, v) fields.
        case value_to_str E k of
          Some key \<Rightarrow>
            AList.update key (case value_to_str E v of Some s \<Rightarrow> s | None \<Rightarrow> []) fields
        | None \<Rightarrow> fields) (pairs fields_arr) []"

fun extract_msgs :: "externals \<Rightarrow> redis_value list \<Rightarrow> (string \<times> (string \<times> string) list) list option" where
  "extract_msgs E [] = Some []"
| "extract_msgs E (msg # msgs) =
     (case msg of
        RArray (i # body # _) \<Rightarrow>
          (case value_to_str E i of
             None \<Rightarrow> None
           | Some entry_id \<Rightarrow>
               (case body of
                  RArray fields_arr \<Rightarrow>
                    map_option (Cons (entry_id, fields_of E fields_arr)) (extract_msgs E msgs)
                | _ \<Rightarrow> extract_msgs E msgs))
      | _ \<Rightarrow> extract_msgs E msgs)"

definition extract_messages ::
  "externals \<Rightarrow> redis_value \<Rightarrow> (string \<times> (string \<times> string) list) list option" where
  "extract_messages E stream_result =
     (case stream_result of
        RArray (_ # RArray messages # _) \<Rightarrow> extract_msgs E messages
      | _ \<Rightarrow> None)"

definition to_entry :: "string \<times> (string \<times> string) list \<Rightarrow> StreamEntry" where
  "to_entry msg =
     (case msg of (entry_id, fs) \<Rightarrow>
       let generation_id = (case map_of fs ''generation_id'' of Some g \<Rightarrow> g | None \<Rightarrow> []);
           job_id = (case map_of fs ''job_id'' of
                       Some j \<Rightarrow> if j \<noteq> [] then Some j else None | None \<Rightarrow> None);
           attempt = (case Option.bind (map_of fs ''attempt'') parse_i64 of
                        Some a \<Rightarrow> a | None \<Rightarrow> 1)
       in \<lparr>se_id = entry_id, se_generation_id = generation_id, se_job_id = job_id,
           se_attempt = attempt,
           se_payload = JObj [(''generation_id'', JStr generation_id), (''job_id'', jstr_opt job_id),
                              (''attempt'', JInt attempt), (''entry_id'', JStr entry_id)]\<rparr>)"

text \<open>The reply of \<open>XREADGROUP\<close>; \<open>None\<close> is a nil reply (the block timed out).\<close>

definition read_entries :: "externals \<Rightarrow> redis_value option \<Rightarrow> StreamEntry list" where
  "read_entries E raw =
     (case raw of
        Some (RArray streams) \<Rightarrow>
          concat (map (\<lambda>r. case extract_messages E r of
                             Some msgs \<Rightarrow> map to_entry msgs | None \<Rightarrow> []) streams)
      | _ \<Rightarrow> [])"

section \<open>The dead-letter queue\<close>

definition build_retry_context :: "externals \<Rightarrow> datetime \<Rightarrow> string \<Rightarrow> int \<Rightarrow> string \<Rightarrow> json" where
  "build_retry_context E now generation_id attempt err =
     JObj [(''generation_id'', JStr generation_id), (''attempt'', JInt attempt), (''error'', JStr err),
           (''dlq_moved_at'', JStr (x_to_rfc3339 E now)), (''max_retries'', JInt MAX_RETRY_ATTEMPTS)]"

definition dlq_payload :: "externals \<Rightarrow> datetime \<Rightarrow> string \<Rightarrow> int \<Rightarrow> string \<Rightarrow> string \<Rightarrow> json" where
  "dlq_payload E now generation_id attempt error_code error_message =
     JObj [(''generation_id'', JStr generation_id), (''attempt'', JInt attempt),
           (''error_code'', JStr error_code), (''error_message'', JStr error_message),
           (''moved_to_dlq_at'', JStr (x_to_rfc3339 E now)),
           (''retry_context'', build_retry_context E now generation_id attempt error_message)]"

definition xadd_dlq :: "externals \<Rightarrow> string \<Rightarrow> int \<Rightarrow> json \<Rightarrow> redis_cmd" where
  "xadd_dlq E generation_id attempt payload =
     XADD DLQ_STREAM_KEY [(''generation_id'', generation_id), (''attempt'', show_int attempt),
                          (''payload'', x_json_to_string E payload)]"

text \<open>
  \<open>send_to_dlq\<close>: \<open>entry_id\<close> is the id \<open>XADD\<close> returned, or \<open>None\<close> if it failed; the generation is
  marked failed either way, and the error of that is dropped.
\<close>

definition send_to_dlq ::
  "externals \<Rightarrow> datetime \<Rightarrow> string option \<Rightarrow> string \<Rightarrow> int \<Rightarrow> string \<Rightarrow> string \<Rightarrow>
     ('z db_scheme, unit, redis_cmd list) act" where
  "send_to_dlq E now entry_id generation_id attempt error_code error_message =
     (let payload = dlq_payload E now generation_id attempt error_code error_message;
          job_context = JObj [(''connection'', JStr ''redis''), (''queue'', JStr ''klass:media-gen-dlq''),
                              (''tries'', JInt MAX_RETRY_ATTEMPTS), (''dlq_entry_id'', jstr_opt entry_id)]
      in and_then (ignore_err (mark_failed E now generation_id error_code error_message False
                     (Some payload) (Some (wrap_i32 attempt)) (Some job_context)))
           (\<lambda>_. ok [xadd_dlq E generation_id attempt payload]))"

text \<open>The entries of an \<open>XRANGE\<close> reply that belong to a generation.\<close>

fun pair_match :: "externals \<Rightarrow> string \<Rightarrow> (redis_value \<times> redis_value) list \<Rightarrow> bool" where
  "pair_match E generation_id [] = False"
| "pair_match E generation_id ((k, v) # ps) =
     (case value_to_str E k of
        None \<Rightarrow> False
      | Some key \<Rightarrow>
          if key = ''generation_id'' then
            (case value_to_str E v of
               None \<Rightarrow> False
             | Some val \<Rightarrow> if val = generation_id then True else pair_match E generation_id ps)
          else pair_match E generation_id ps)"

definition dlq_match :: "externals \<Rightarrow> string \<Rightarrow> redis_value \<Rightarrow> string option" where
  "dlq_match E generation_id item =
     (case item of
        RArray (i # body # _) \<Rightarrow>
          (case (value_to_str E i, body) of
             (Some entry_id, RArray field_pairs) \<Rightarrow>
               if pair_match E generation_id (pairs field_pairs) then Some entry_id else None
           | _ \<Rightarrow> None)
      | _ \<Rightarrow> None)"

definition delete_dlq_entry :: "externals \<Rightarrow> string \<Rightarrow> redis_value option \<Rightarrow> bool \<times> redis_cmd list" where
  "delete_dlq_entry E generation_id reply =
     (let entry_ids = (case reply of
            Some (RArray items) \<Rightarrow> List.map_filter (dlq_match E generation_id) items | _ \<Rightarrow> [])
      in if entry_ids = [] then (False, [])
         else (True, map (XDEL DLQ_STREAM_KEY) entry_ids))"

definition retry_from_dlq ::
  "externals \<Rightarrow> datetime \<Rightarrow> string \<Rightarrow> redis_value option \<Rightarrow> bool \<times> redis_cmd list" where
  "retry_from_dlq E now generation_id reply =
     (case delete_dlq_entry E generation_id reply of
        (False, cmds) \<Rightarrow> (False, cmds)
      | (True, cmds) \<Rightarrow> (True, cmds @ [enqueue E now generation_id [] 1]))"

section \<open>What Redis delivers\<close>

text \<open>
  The reply of \<open>XREADGROUP\<close> that delivers one entry: the stream's key, the entry's id and the fields
  \<open>XADD\<close> was given, in order. \<open>lossless\<close> says that a string is its own lossy UTF-8 decoding, as valid
  UTF-8 is.
\<close>

definition delivered :: "string \<Rightarrow> redis_cmd \<Rightarrow> redis_value option" where
  "delivered i cmd =
     (case cmd of
        XADD key fs \<Rightarrow>
          Some (RArray [RArray [BulkString key,
            RArray [RArray [BulkString i, RArray (concat (map (\<lambda>(k, v). [BulkString k, BulkString v]) fs))]]]])
      | _ \<Rightarrow> None)"

definition lossless :: "externals \<Rightarrow> string set \<Rightarrow> bool" where
  "lossless E S \<longleftrightarrow> (\<forall>s. is_ascii s \<or> s \<in> S \<longrightarrow> x_utf8_lossy E s = s)"

definition stream_entry :: "string \<Rightarrow> string \<Rightarrow> string option \<Rightarrow> int \<Rightarrow> StreamEntry" where
  "stream_entry i gid job_id attempt =
     \<lparr>se_id = i, se_generation_id = gid, se_job_id = job_id, se_attempt = attempt,
      se_payload = JObj [(''generation_id'', JStr gid), (''job_id'', jstr_opt job_id),
                         (''attempt'', JInt attempt), (''entry_id'', JStr i)]\<rparr>"

lemma is_ascii_show_int: "is_ascii (show_int a)"
proof -
  have "byte c < 128" if "c \<in> set (show_nat n)" for c n
    using show_nat_hd [OF that] by (simp add: is_digit_def)
  then show ?thesis by (auto simp: show_int_def is_ascii_def list_all_iff byte_def)
qed

lemma read_delivered:
  assumes "lossless E {i, gid, case job_id of Some j \<Rightarrow> j | None \<Rightarrow> []}" and "is_i64 attempt"
  shows "read_entries E (delivered i (XADD key (job_fields gid job_id attempt ts))) =
           [stream_entry i gid (if job_id = Some [] then None else job_id) attempt]"
proof -
  have id: "x_utf8_lossy E s = s" if "is_ascii s \<or> s \<in> {i, gid, case job_id of Some j \<Rightarrow> j | None \<Rightarrow> []}" for s
    using assms(1) that by (auto simp: lossless_def)
  have names: "is_ascii ''generation_id''" "is_ascii ''job_id''" "is_ascii ''attempt''" "is_ascii ''enqueued_at''"
    by code_simp+
  show ?thesis
    using names is_ascii_show_int [of attempt] parse_show_i64 [OF assms(2)]
    by (cases job_id) (auto simp: read_entries_def delivered_def job_fields_def extract_messages_def
        fields_of_def value_to_str_def id to_entry_def stream_entry_def Let_def update_conv)
qed

text \<open>An entry of the reply of \<open>XRANGE\<close>: its id and the fields \<open>XADD\<close> was given.\<close>

definition range_item :: "string \<Rightarrow> redis_cmd \<Rightarrow> redis_value" where
  "range_item i cmd =
     (case cmd of
        XADD key fs \<Rightarrow>
          RArray [BulkString i, RArray (concat (map (\<lambda>(k, v). [BulkString k, BulkString v]) fs))]
      | _ \<Rightarrow> ROther)"

lemma dlq_match_item:
  assumes "lossless E {i, gid'}"
  shows "dlq_match E gid (range_item i (xadd_dlq E gid' attempt payload)) =
           (if gid' = gid then Some i else None)"
proof -
  have id: "x_utf8_lossy E s = s" if "is_ascii s \<or> s \<in> {i, gid'}" for s
    using assms that by (auto simp: lossless_def)
  have names: "is_ascii ''generation_id''" "is_ascii ''payload''" "is_ascii ''attempt''" by code_simp+
  show ?thesis
    using names by (auto simp: dlq_match_def range_item_def xadd_dlq_def value_to_str_def id)
qed

lemma wp_send_to_dlq:
  "wp (send_to_dlq E now entry_id gid attempt code msg)
     (\<lambda>cmds s'. audit_step (gens s) (gens s') \<and>
        cmds = [xadd_dlq E gid attempt (dlq_payload E now gid attempt code msg)])
     (\<lambda>x s'. x = Panic \<and> gens s' = gens s) s"
  unfolding send_to_dlq_def Let_def wp_simps
  by (rule wp_mono [OF wp_audit_step(4)]) (auto simp: audit_step_refl wp_simps split: exn.splits)

section \<open>Properties\<close>

text \<open>
  C38. What \<open>enqueue\<close> adds to the stream, the worker reads back: the same generation, the same attempt,
  and the same job id, where an empty job id becomes none.
\<close>

theorem enqueue_read_roundtrip:
  assumes "lossless E {i, gid, jid}" and "is_i64 attempt"
  shows "read_entries E (delivered i (enqueue E now gid jid attempt)) =
           [stream_entry i gid (if jid = [] then None else Some jid) attempt]"
  using read_delivered [of E i gid "Some jid" attempt] assms by (simp add: enqueue_def)

theorem enqueue_read_roundtrip_witness:
  "read_entries sample_externals (delivered ''5-0'' (enqueue sample_externals 3 ''g1'' ''j1'' (- 2))) =
     [stream_entry ''5-0'' ''g1'' (Some ''j1'') (- 2)]"
  by (subst enqueue_read_roundtrip) (simp_all add: lossless_def sample_externals_def is_i64_def)

text \<open>
  \<open>delete_dlq_entry\<close> finds what \<open>send_to_dlq\<close> wrote: of the entries of the dead-letter stream it
  deletes exactly those of the generation, and reports whether there was one.
\<close>

theorem delete_dlq_entry_exact:
  assumes "\<And>i gid' attempt payload. (i, gid', attempt, payload) \<in> set entries \<Longrightarrow> lossless E {i, gid'}"
  shows "delete_dlq_entry E gid (Some (RArray
            (map (\<lambda>(i, gid', attempt, payload). range_item i (xadd_dlq E gid' attempt payload)) entries))) =
         (\<exists>i attempt payload. (i, gid, attempt, payload) \<in> set entries,
          map (\<lambda>(i, _). XDEL DLQ_STREAM_KEY i) (filter (\<lambda>(i, gid', _). gid' = gid) entries))"
proof -
  have "List.map_filter (dlq_match E gid)
          (map (\<lambda>(i, gid', attempt, payload). range_item i (xadd_dlq E gid' attempt payload)) entries) =
        map fst (filter (\<lambda>(i, gid', _). gid' = gid) entries)"
    using assms
  proof (induction entries)
    case (Cons e entries)
    obtain i gid' attempt payload where e: "e = (i, gid', attempt, payload)" by (cases e) auto
    have "dlq_match E gid (range_item i (xadd_dlq E gid' attempt payload)) = (if gid' = gid then Some i else None)"
      using Cons.prems e by (intro dlq_match_item) auto
    moreover note Cons.IH [OF Cons.prems [OF list.set_intros(2)]]
    ultimately show ?case by (simp add: e List.map_filter_simps)
  qed (simp add: List.map_filter_simps)
  then show ?thesis
    by (auto simp: delete_dlq_entry_def Let_def filter_empty_conv split: prod.splits) blast+
qed

theorem delete_dlq_entry_exact_witness:
  "delete_dlq_entry sample_externals ''g1'' (Some (RArray
      [range_item ''7-0'' (xadd_dlq sample_externals ''g1'' 4 JNull),
       range_item ''8-0'' (xadd_dlq sample_externals ''g2'' 1 JNull)])) =
     (True, [XDEL DLQ_STREAM_KEY ''7-0''])"
  using delete_dlq_entry_exact [of "[(''7-0'', ''g1'', 4, JNull), (''8-0'', ''g2'', 1, JNull)]" sample_externals "''g1''"]
  by (simp add: lossless_def sample_externals_def)

text \<open>
  Moving an entry to the dead-letter queue never fails, whatever Redis and the database do: it
  returns the entry it adds, or panics with the table unchanged; and it moves statuses only along the matrix.
\<close>

theorem send_to_dlq_total:
  "wp (send_to_dlq E now entry_id gid attempt code msg)
     (\<lambda>cmds s'. audit_step (gens s) (gens s') \<and>
        cmds = [xadd_dlq E gid attempt (dlq_payload E now gid attempt code msg)])
     (\<lambda>x s'. x = Panic \<and> gens s' = gens s) s"
  by (rule wp_send_to_dlq)

end
