(* ===== verification/Submission.thy ===== *)
theory Submission
  imports Generations_Repo
begin

text \<open>
  Submission of generation requests, \<open>src/src/orchestrator/submission.rs\<close>: the fingerprint of
  a request and the deduplicating insert.

  \<open>create_or_reuse\<close> runs in two transactions. Another session can commit between its lookup and
  its insert, and between the rollback and the second lookup; \<open>env1\<close> and \<open>env2\<close> are what other
  sessions do to the table there. A failed insert writes nothing, so its rollback restores nothing.
\<close>

definition ALLOWED_OUTPUT_TYPES :: "string list" where
  "ALLOWED_OUTPUT_TYPES = [''auto'', ''docx'', ''pdf'', ''pptx'']"

datatype SubmissionError =
    TeacherNotFound string
  | Sub_Database sqlx_error
  | InvalidUuid string

record ProviderMetadata =
  pm_llm_provider :: "string option"
  pm_llm_model :: "string option"
  pm_generator_provider :: "string option"
  pm_generator_model :: "string option"

record CreateInput =
  ci_teacher_id :: int
  ci_raw_prompt :: string
  ci_preferred_output_type :: "string option"
  ci_subject_id :: "int option"
  ci_sub_subject_id :: "int option"
  ci_provider_metadata :: ProviderMetadata

record CreateResult =
  cr_id :: uuid
  cr_was_created :: bool
  cr_request_fingerprint :: string

section \<open>Fingerprints\<close>

definition normalize_preferred_output_type :: "externals \<Rightarrow> string option \<Rightarrow> string" where
  "normalize_preferred_output_type E preferred =
     (case preferred of
        None \<Rightarrow> ''auto''
      | Some raw \<Rightarrow>
          if trim raw = [] then ''auto''
          else let normalized = to_lowercase (x_lower E) (trim raw)
               in if normalized \<notin> set ALLOWED_OUTPUT_TYPES then ''auto'' else normalized)"

fun squish_chars :: "externals \<Rightarrow> bool \<Rightarrow> string list \<Rightarrow> string" where
  "squish_chars E prev_ws [] = []"
| "squish_chars E prev_ws (c # cs) =
     (if is_whitespace c then (if prev_ws then [] else '' '') @ squish_chars E True cs
      else to_lowercase (x_char_lower E) c @ squish_chars E False cs)"

definition squish_and_lower :: "externals \<Rightarrow> string \<Rightarrow> string" where
  "squish_and_lower E s = trim (squish_chars E False (chars s))"

definition id_or_none :: "int option \<Rightarrow> string" where
  "id_or_none x = (case x of None \<Rightarrow> ''none'' | Some i \<Rightarrow> show_int i)"

definition canonical_request ::
  "externals \<Rightarrow> int \<Rightarrow> string \<Rightarrow> string \<Rightarrow> int option \<Rightarrow> int option \<Rightarrow> string" where
  "canonical_request E teacher_id raw_prompt preferred subject_id sub_subject_id =
     show_int teacher_id @ ''|'' @ preferred @ ''|'' @ id_or_none subject_id @ ''|'' @
     id_or_none sub_subject_id @ ''|'' @ squish_and_lower E raw_prompt"

definition make_request_fingerprint ::
  "externals \<Rightarrow> int \<Rightarrow> string \<Rightarrow> string \<Rightarrow> int option \<Rightarrow> int option \<Rightarrow> string" where
  "make_request_fingerprint E teacher_id raw_prompt preferred subject_id sub_subject_id =
     x_sha256_hex E (canonical_request E teacher_id raw_prompt preferred subject_id sub_subject_id)"

definition is_terminal_status :: "string \<Rightarrow> bool" where
  "is_terminal_status status \<longleftrightarrow> status \<in> {''completed'', ''failed'', ''cancelled''}"

section \<open>The operations\<close>

text \<open>\<open>ORDER BY created_at DESC, id DESC LIMIT 1\<close>.\<close>

fun newest :: "(uuid \<times> generation) list \<Rightarrow> (uuid \<times> generation) option" where
  "newest [] = None"
| "newest ((i, g) # rows) =
     (case newest rows of
        None \<Rightarrow> Some (i, g)
      | Some (j, h) \<Rightarrow>
          if mg_created_at h > mg_created_at g \<or> mg_created_at h = mg_created_at g \<and> j > i
          then Some (j, h) else Some (i, g))"

definition active_duplicates :: "int \<Rightarrow> string \<Rightarrow> gen_table \<Rightarrow> (uuid \<times> generation) list" where
  "active_duplicates teacher fingerprint t =
     filter (\<lambda>(_, g). mg_teacher_id g = teacher \<and> mg_request_fingerprint g = fingerprint \<and>
               mg_status g \<notin> {''completed'', ''failed'', ''cancelled''}) t"

definition find_active :: "int \<Rightarrow> string \<Rightarrow> ('z db_scheme, sqlx_error, uuid option) act" where
  "find_active teacher fingerprint =
     db_select (\<lambda>t. Inr (map_option fst (newest (active_duplicates teacher fingerprint t))))"

text \<open>\<open>begin\<close>, \<open>commit\<close> and \<open>rollback\<close> of a transaction that wrote nothing.\<close>

definition tx_control :: "('z db_scheme, sqlx_error, unit) act" where
  "tx_control = db_call (\<lambda>s. (Inr (), gens s))"

text \<open>The commit of a transaction that took the table from \<open>t\<close>; if it fails, its writes are undone.\<close>

definition commit_from :: "gen_table \<Rightarrow> ('z db_scheme, sqlx_error, unit) act" where
  "commit_from t s =
     (case tx_control s of
        (Inl x, s') \<Rightarrow> (Inl x, s'\<lparr>gens := t\<rparr>)
      | (Inr u, s') \<Rightarrow> (Inr u, s'))"

definition interfere :: "(gen_table \<Rightarrow> gen_table) \<Rightarrow> ('z db_scheme, 'e, unit) act" where
  "interfere env = modify (\<lambda>s. s\<lparr>gens := env (gens s)\<rparr>)"

definition submitted_row :: "datetime \<Rightarrow> CreateInput \<Rightarrow> string \<Rightarrow> string \<Rightarrow> generation" where
  "submitted_row now input normalized_type fingerprint =
     (new_generation now
        \<lparr>cp_teacher_id = ci_teacher_id input, cp_raw_prompt = ci_raw_prompt input,
         cp_request_fingerprint = fingerprint, cp_generated_from_id = None,
         cp_is_regeneration = False, cp_subject_id = ci_subject_id input,
         cp_sub_subject_id = ci_sub_subject_id input,
         cp_preferred_output_type = normalized_type, cp_active_duplicate_key = Some fingerprint\<rparr>)
      \<lparr>mg_llm_provider := pm_llm_provider (ci_provider_metadata input),
       mg_llm_model := pm_llm_model (ci_provider_metadata input),
       mg_generator_provider := pm_generator_provider (ci_provider_metadata input),
       mg_generator_model := pm_generator_model (ci_provider_metadata input)\<rparr>"

definition insert_returning ::
  "uuid \<Rightarrow> (datetime \<Rightarrow> generation) \<Rightarrow> ('z db_scheme, sqlx_error, uuid) act" where
  "insert_returning i row =
     db_call (\<lambda>s. case insert_row i (row (db_now s)) (gens s) of
                     Inl e \<Rightarrow> (Inl e, gens s)
                   | Inr t \<Rightarrow> (Inr i, t))"

definition retry_lookup ::
  "(gen_table \<Rightarrow> gen_table) \<Rightarrow> int \<Rightarrow> string \<Rightarrow> ('z db_scheme, SubmissionError, CreateResult) act" where
  "retry_lookup env2 teacher fingerprint =
     and_then (map_err Sub_Database tx_control) (\<lambda>_.
     and_then (interfere env2) (\<lambda>_.
     and_then (map_err Sub_Database tx_control) (\<lambda>_.
     and_then (map_err Sub_Database (find_active teacher fingerprint)) (\<lambda>duplicate.
       case duplicate of
         Some dup_id \<Rightarrow>
           and_then (map_err Sub_Database tx_control) (\<lambda>_.
             ok \<lparr>cr_id = dup_id, cr_was_created = False, cr_request_fingerprint = fingerprint\<rparr>)
       | None \<Rightarrow>
           and_then (map_err Sub_Database tx_control) (\<lambda>_. raise (Sub_Database UniqueViolation))))))"

definition create_or_reuse ::
  "externals \<Rightarrow> (gen_table \<Rightarrow> gen_table) \<Rightarrow> (gen_table \<Rightarrow> gen_table) \<Rightarrow> uuid \<Rightarrow> CreateInput \<Rightarrow>
     ('z db_scheme, SubmissionError, CreateResult) act" where
  "create_or_reuse E env1 env2 new_id input =
     (let normalized_type = normalize_preferred_output_type E (ci_preferred_output_type input);
          fingerprint = make_request_fingerprint E (ci_teacher_id input) (ci_raw_prompt input)
                          normalized_type (ci_subject_id input) (ci_sub_subject_id input)
      in
      and_then (map_err Sub_Database tx_control) (\<lambda>_.
      and_then (map_err Sub_Database (find_active (ci_teacher_id input) fingerprint)) (\<lambda>existing.
        case existing of
          Some existing_id \<Rightarrow>
            and_then (map_err Sub_Database tx_control) (\<lambda>_.
              ok \<lparr>cr_id = existing_id, cr_was_created = False, cr_request_fingerprint = fingerprint\<rparr>)
        | None \<Rightarrow>
            and_then (interfere env1) (\<lambda>_.
            and_then (gets gens) (\<lambda>before.
            and_then (try_err (insert_returning new_id
                (\<lambda>now. submitted_row now input normalized_type fingerprint))) (\<lambda>insert_result.
              case insert_result of
                Inr i \<Rightarrow>
                  and_then (map_err Sub_Database (commit_from before)) (\<lambda>_.
                    ok \<lparr>cr_id = i, cr_was_created = True, cr_request_fingerprint = fingerprint\<rparr>)
              | Inl e \<Rightarrow>
                  if e = UniqueViolation then retry_lookup env2 (ci_teacher_id input) fingerprint
                  else and_then (map_err Sub_Database tx_control) (\<lambda>_. raise (Sub_Database e))))))))"

definition combined_prompt :: "string \<Rightarrow> string \<Rightarrow> string" where
  "combined_prompt raw_prompt additional_prompt =
     ''Original Request:'' @ [CHR 0x0A] @ raw_prompt @ [CHR 0x0A, CHR 0x0A] @
     ''Refinement / Additional context:'' @ [CHR 0x0A] @ additional_prompt"

definition create_regeneration ::
  "externals \<Rightarrow> uuid \<Rightarrow> string \<Rightarrow> string \<Rightarrow> ('z db_scheme, SubmissionError, uuid) act" where
  "create_regeneration E new_id parent_generation_id additional_prompt =
     and_then (ok_or (InvalidUuid (x_uuid_error E parent_generation_id)) (x_parse_uuid E parent_generation_id)) (\<lambda>parent_id.
     and_then (map_err Sub_Database (db_select (\<lambda>t. Inr (map_of t parent_id)))) (\<lambda>found.
     and_then (ok_or (InvalidUuid (''parent generation not found: '' @ parent_generation_id)) found) (\<lambda>parent.
       let combined = combined_prompt (mg_raw_prompt parent) additional_prompt;
           normalized_type = mg_preferred_output_type parent;
           fingerprint = make_request_fingerprint E (mg_teacher_id parent) combined normalized_type
                           (mg_subject_id parent) (mg_sub_subject_id parent)
       in
       map_err Sub_Database (db_call (\<lambda>s.
         case map_of (gens s) parent_id of
           None \<Rightarrow> (Inl RowNotFound, gens s)
         | Some row \<Rightarrow>
             (case insert_row new_id (new_generation (db_now s)
                 \<lparr>cp_teacher_id = mg_teacher_id row, cp_raw_prompt = combined,
                  cp_request_fingerprint = fingerprint, cp_generated_from_id = Some parent_id,
                  cp_is_regeneration = True, cp_subject_id = mg_subject_id parent,
                  cp_sub_subject_id = mg_sub_subject_id parent,
                  cp_preferred_output_type = normalized_type,
                  cp_active_duplicate_key = Some fingerprint\<rparr>) (gens s) of
                Inl e \<Rightarrow> (Inl e, gens s)
              | Inr t \<Rightarrow> (Inr new_id, t)))))))"

section \<open>Fingerprint lemmas\<close>

lemma bar_free_id_or_none: "CHR ''|'' \<notin> set (id_or_none x)"
  using show_int_no_bar by (auto simp: id_or_none_def split: option.splits)

lemma id_or_none_inj: "id_or_none x = id_or_none y \<Longrightarrow> x = y"
proof -
  have "show_int i \<noteq> ''none''" for i
  proof
    assume "show_int i = ''none''"
    then have "CHR ''n'' \<in> set (show_int i)" by simp
    moreover have "is_digit c \<or> c = CHR ''-''" if "c \<in> set (show_int i)" for c
      using that show_nat_hd by (auto simp: show_int_def split: if_splits)
    ultimately have "is_digit (CHR ''n'') \<or> CHR ''n'' = CHR ''-''" by blast
    then show False by (simp add: is_digit_def byte_def)
  qed
  then show "id_or_none x = id_or_none y \<Longrightarrow> x = y"
    by (auto simp: id_or_none_def dest: show_int_inj split: option.splits)
qed

lemma split_bar:
  "a @ ''|'' @ b = c @ ''|'' @ d \<Longrightarrow> CHR ''|'' \<notin> set a \<Longrightarrow> CHR ''|'' \<notin> set c \<Longrightarrow> a = c \<and> b = d"
proof (induction a arbitrary: c)
  case Nil
  then show ?case by (cases c) auto
next
  case (Cons x a)
  then show ?case by (cases c) auto
qed

lemma normalize_allowed: "normalize_preferred_output_type E x \<in> set ALLOWED_OUTPUT_TYPES"
  by (auto simp: normalize_preferred_output_type_def Let_def ALLOWED_OUTPUT_TYPES_def split: option.splits)

lemma allowed_no_bar: "p \<in> set ALLOWED_OUTPUT_TYPES \<Longrightarrow> CHR ''|'' \<notin> set p"
  by (auto simp: ALLOWED_OUTPUT_TYPES_def)

section \<open>What a submission does\<close>

lemma wp_tx_control_I [wp_intros]:
  assumes "\<And>e fs. R (Error e) (s\<lparr>faults := fs\<rparr>)" and "\<And>fs. Q () (s\<lparr>faults := fs\<rparr>)"
  shows "wp tx_control Q R s"
  unfolding tx_control_def using assms by (intro wp_db_call_I) auto

lemma wp_find_active_I [wp_intros]:
  assumes "\<And>e fs. R (Error e) (s\<lparr>faults := fs\<rparr>)"
    and "\<And>fs. Q (map_option fst (newest (active_duplicates teacher fp (gens s)))) (s\<lparr>faults := fs\<rparr>)"
  shows "wp (find_active teacher fp) Q R s"
  unfolding find_active_def using assms by (intro wp_db_select_I) auto

lemma wp_commit_from_I [wp_intros]:
  assumes "\<And>e fs. R (Error e) (s\<lparr>faults := fs, gens := t\<rparr>)" and "\<And>fs. Q () (s\<lparr>faults := fs\<rparr>)"
  shows "wp (commit_from t) Q R s"
proof -
  have "wp tx_control Q (\<lambda>x s'. R x (s'\<lparr>gens := t\<rparr>)) s" using assms by (intro wp_tx_control_I) auto
  then show ?thesis by (auto simp: wp_def commit_from_def split: prod.splits sum.splits)
qed

lemma wp_interfere_I [wp_intros]: "Q () (s\<lparr>gens := env (gens s)\<rparr>) \<Longrightarrow> wp (interfere env) Q R s"
  by (simp add: interfere_def wp_simps)

lemma wp_insert_returning_I [wp_intros]:
  assumes "\<And>e fs. R (Error e) (s\<lparr>faults := fs\<rparr>)"
    and "\<And>fs. (table_ok (gens s) \<Longrightarrow> table_ok (gens s @ [(i, row (db_now s))])) \<Longrightarrow>
                 Q i (s\<lparr>faults := fs, gens := gens s @ [(i, row (db_now s))]\<rparr>)"
  shows "wp (insert_returning i row) Q R s"
proof -
  have t: "t = gens s @ [(i, row (db_now s))]" "table_ok (gens s) \<Longrightarrow> table_ok t"
    if "insert_row i (row (db_now s)) (gens s) = Inr t" for t
    using that table_ok_insert_row [OF _ that] by (auto simp: insert_row_def split: if_splits)
  show ?thesis
    unfolding insert_returning_def
  proof (rule wp_db_call_I)
    fix fs
    show "case (case insert_row i (row (db_now (s\<lparr>faults := fs\<rparr>))) (gens (s\<lparr>faults := fs\<rparr>)) of
                 Inl e \<Rightarrow> (Inl e, gens (s\<lparr>faults := fs\<rparr>)) | Inr t \<Rightarrow> (Inr i, t)) of
             (Inl e, t) \<Rightarrow> R (Error e) (s\<lparr>faults := fs, gens := t\<rparr>)
           | (Inr a, t) \<Rightarrow> Q a (s\<lparr>faults := fs, gens := t\<rparr>)"
    proof (cases "insert_row i (row (db_now s)) (gens s)")
      case (Inl e)
      then show ?thesis using assms(1) by simp
    next
      case (Inr t')
      then show ?thesis using assms(2) t [OF Inr] by simp
    qed
  qed (rule assms(1))
qed

lemma submitted_row_sel [simp]:
  "mg_status (submitted_row now input nt fp) = ''queued''"
  "mg_request_fingerprint (submitted_row now input nt fp) = fp"
  "mg_active_duplicate_key (submitted_row now input nt fp) = Some fp"
  "mg_teacher_id (submitted_row now input nt fp) = ci_teacher_id input"
  "mg_generated_from_id (submitted_row now input nt fp) = None"
  by (simp_all add: submitted_row_def new_generation_def)

lemma newest_in: "newest rows = Some r \<Longrightarrow> r \<in> set rows"
  by (induction rows arbitrary: r rule: newest.induct) (auto split: option.splits if_splits)

lemma newest_fst_in: "newest rows = Some (i, g) \<Longrightarrow> \<exists>g. (i, g) \<in> set rows"
  by (blast dest: newest_in)

lemma newest_None [simp]: "newest rows = None \<longleftrightarrow> rows = []"
  by (induction rows rule: newest.induct) (auto split: option.splits)

lemma newest_max:
  "newest rows = Some (j, h) \<Longrightarrow> (i, g) \<in> set rows \<Longrightarrow>
     mg_created_at g < mg_created_at h \<or> mg_created_at g = mg_created_at h \<and> i \<le> j"
proof (induction rows arbitrary: j h rule: newest.induct)
  case (2 k f rows)
  then show ?case by (cases "newest rows") (fastforce split: if_splits)+
qed simp

definition sample_input :: CreateInput where
  "sample_input =
     \<lparr>ci_teacher_id = 7, ci_raw_prompt = ''algebra'', ci_preferred_output_type = Some ''pdf'',
      ci_subject_id = None, ci_sub_subject_id = None,
      ci_provider_metadata = \<lparr>pm_llm_provider = None, pm_llm_model = None,
                              pm_generator_provider = None, pm_generator_model = None\<rparr>\<rparr>"

section \<open>Properties\<close>

text \<open>
  Whatever fails and whatever other sessions commit in between, \<open>create_or_reuse\<close> keeps the
  constraints of the table. It answers that it created a row exactly when it appended its own queued
  row to what the others left; otherwise it appended none, and the row it names is an active
  generation of this teacher with this fingerprint.
\<close>

theorem create_or_reuse_effect:
  assumes "table_ok (gens s)" and "\<And>t. table_ok t \<Longrightarrow> table_ok (env1 t)" and "\<And>t. table_ok t \<Longrightarrow> table_ok (env2 t)"
  shows "wp (create_or_reuse E env1 env2 new_id input)
     (\<lambda>r s'. table_ok (gens s') \<and>
        (if cr_was_created r
         then cr_id r = new_id \<and> (\<exists>g. gens s' = env1 (gens s) @ [(new_id, g)] \<and> mg_status g = ''queued'' \<and>
                mg_request_fingerprint g = cr_request_fingerprint r \<and>
                mg_active_duplicate_key g = Some (cr_request_fingerprint r) \<and>
                mg_teacher_id g = ci_teacher_id input)
         else gens s' \<in> {gens s, env2 (env1 (gens s))} \<and>
              (\<exists>g. (cr_id r, g) \<in> set (active_duplicates (ci_teacher_id input) (cr_request_fingerprint r) (gens s')))))
     (\<lambda>x s'. x \<noteq> Panic \<and> table_ok (gens s') \<and>
        gens s' \<in> {gens s, env1 (gens s), env2 (env1 (gens s))}) s"
  unfolding create_or_reuse_def Let_def retry_lookup_def
  by (intro wp_intros)
    (auto simp: assms wp_simps intro!: wp_intros intro: newest_fst_in)

theorem create_or_reuse_effect_witness:
  "wp (create_or_reuse sample_externals (\<lambda>t. t) (\<lambda>t. t) 9 sample_input)
     (\<lambda>r s'. table_ok (gens s')) (\<lambda>x s'. table_ok (gens s')) sample_db"
  by (rule wp_mono [OF create_or_reuse_effect]) (auto simp: sample_table_ok)

text \<open>
  C12. Alone on a table and without faults, a submission is decided by the rows with its fingerprint:
  the newest active one is reused, and nothing changes; with none, a row is created if no row,
  active or not, holds the duplicate key, and the submission fails with the unique violation
  otherwise.
\<close>

theorem create_or_reuse_decides:
  assumes "faults s = []" and "new_id \<notin> fst ` set (gens s)"
    and "fingerprint = make_request_fingerprint E (ci_teacher_id input) (ci_raw_prompt input)
           (normalize_preferred_output_type E (ci_preferred_output_type input))
           (ci_subject_id input) (ci_sub_subject_id input)"
  shows "create_or_reuse E (\<lambda>t. t) (\<lambda>t. t) new_id input s =
    (case newest (active_duplicates (ci_teacher_id input) fingerprint (gens s)) of
       Some (i, g) \<Rightarrow> (Inr \<lparr>cr_id = i, cr_was_created = False, cr_request_fingerprint = fingerprint\<rparr>, s)
     | None \<Rightarrow>
         if \<exists>(_, h)\<in>set (gens s). mg_active_duplicate_key h = Some fingerprint
         then (Inl (Error (Sub_Database UniqueViolation)), s)
         else (Inr \<lparr>cr_id = new_id, cr_was_created = True, cr_request_fingerprint = fingerprint\<rparr>,
               s\<lparr>gens := gens s @ [(new_id, submitted_row (db_now s) input
                  (normalize_preferred_output_type E (ci_preferred_output_type input)) fingerprint)]\<rparr>))"
proof -
  have ins: "insert_row new_id (submitted_row now input nt fp) (gens s) =
      (if \<exists>(_, h)\<in>set (gens s). mg_active_duplicate_key h = Some fp then Inl UniqueViolation
       else Inr (gens s @ [(new_id, submitted_row now input nt fp)]))" for now nt fp
    using assms(2) by (auto simp: insert_row_def)
  show ?thesis
    unfolding assms(3)
    by (auto simp: create_or_reuse_def Let_def retry_lookup_def and_then_def map_err_def tx_control_def
        db_call_def find_active_def db_select_def interfere_def modify_def gets_def try_err_def
        insert_returning_def commit_from_def ok_def raise_def assms(1) ins split: option.splits)
qed

theorem create_or_reuse_decides_witness:
  "fst (create_or_reuse sample_externals (\<lambda>t. t) (\<lambda>t. t) 9 sample_input
      \<lparr>gens = [], db_now = 0, faults = []\<rparr>) =
     Inr \<lparr>cr_id = 9, cr_was_created = True,
          cr_request_fingerprint = make_request_fingerprint sample_externals 7 ''algebra''
            (normalize_preferred_output_type sample_externals (Some ''pdf'')) None None\<rparr>"
  by (subst create_or_reuse_decides) (simp_all add: active_duplicates_def sample_input_def)

text \<open>
  The output type of a request is always one of the four allowed ones, and normalising an
  allowed type returns it.
\<close>

theorem normalize_preferred_allowed:
  "normalize_preferred_output_type E x \<in> set ALLOWED_OUTPUT_TYPES \<and>
   normalize_preferred_output_type E (Some (normalize_preferred_output_type E x)) =
     normalize_preferred_output_type E x"
proof -
  have "normalize_preferred_output_type E (Some p) = p" if "p \<in> set ALLOWED_OUTPUT_TYPES" for p
  proof -
    have "trim ''auto'' = ''auto''" "trim ''docx'' = ''docx''" "trim ''pdf'' = ''pdf''" "trim ''pptx'' = ''pptx''"
      by code_simp+
    moreover have "to_lowercase ul ''auto'' = ''auto''" "to_lowercase ul ''docx'' = ''docx''"
      "to_lowercase ul ''pdf'' = ''pdf''" "to_lowercase ul ''pptx'' = ''pptx''" for ul
      by (simp_all add: to_lowercase_def is_ascii_def ascii_lower_def byte_def)
    ultimately show ?thesis
      using that by (auto simp: normalize_preferred_output_type_def Let_def ALLOWED_OUTPUT_TYPES_def)
  qed
  with normalize_allowed show ?thesis by metis
qed

text \<open>
  The canonical form behind a fingerprint is unambiguous: two requests with allowed output types
  have the same canonical form exactly when teacher, output type, both subject ids and the squished
  prompt agree, whatever bars the prompt contains. So requests are deduplicated up to white space and
  case of the prompt, and collisions of the digest.
\<close>

theorem canonical_request_injective:
  assumes "p \<in> set ALLOWED_OUTPUT_TYPES" and "p' \<in> set ALLOWED_OUTPUT_TYPES"
  shows "canonical_request E teacher prompt p subj sub = canonical_request E teacher' prompt' p' subj' sub' \<longleftrightarrow>
    teacher = teacher' \<and> p = p' \<and> subj = subj' \<and> sub = sub' \<and>
    squish_and_lower E prompt = squish_and_lower E prompt'"
proof
  assume "canonical_request E teacher prompt p subj sub = canonical_request E teacher' prompt' p' subj' sub'"
  then have eq: "show_int teacher @ ''|'' @ p @ ''|'' @ id_or_none subj @ ''|'' @ id_or_none sub @ ''|'' @ squish_and_lower E prompt =
    show_int teacher' @ ''|'' @ p' @ ''|'' @ id_or_none subj' @ ''|'' @ id_or_none sub' @ ''|'' @ squish_and_lower E prompt'"
    by (simp only: canonical_request_def)
  note 1 = split_bar [OF eq show_int_no_bar show_int_no_bar]
  note 2 = split_bar [OF conjunct2 [OF 1] allowed_no_bar [OF assms(1)] allowed_no_bar [OF assms(2)]]
  note 3 = split_bar [OF conjunct2 [OF 2] bar_free_id_or_none bar_free_id_or_none]
  note 4 = split_bar [OF conjunct2 [OF 3] bar_free_id_or_none bar_free_id_or_none]
  show "teacher = teacher' \<and> p = p' \<and> subj = subj' \<and> sub = sub' \<and>
    squish_and_lower E prompt = squish_and_lower E prompt'"
    using 1 2 3 4 by (simp add: id_or_none_inj show_int_inj)
qed (simp add: canonical_request_def)

theorem canonical_request_injective_witness:
  "''pdf'' \<in> set ALLOWED_OUTPUT_TYPES \<and>
   canonical_request sample_externals 7 ''a|b'' ''pdf'' None (Some 1) \<noteq>
   canonical_request sample_externals 7 ''a|b'' ''pdf'' (Some 1) None"
proof -
  have p: "''pdf'' \<in> set ALLOWED_OUTPUT_TYPES" by (simp add: ALLOWED_OUTPUT_TYPES_def)
  show ?thesis using canonical_request_injective [OF p p] p by auto
qed

end
