(* ===== verification/F64.thy ===== *)
theory F64
  imports Complex_Main Json
begin

text \<open>
  Rust's \<open>f64\<close>: IEEE 754 binary64 with round to nearest, ties to even. A finite number is its sign
  and its exact magnitude, a rational; an operation computes exactly and rounds once. What the
  sources use: the four operations, \<open>abs\<close>, \<open>round\<close>, comparison, conversion from integers, literals
  and bit patterns, and the text of \<open>{:.n}\<close>.
\<close>

datatype f64 = F_Nan | F_Inf bool | F_Fin bool rat

section \<open>Rounding\<close>

fun bit_len :: "nat \<Rightarrow> nat" where
  "bit_len n = (if n = 0 then 0 else Suc (bit_len (n div 2)))"

declare bit_len.simps [simp del]

definition two_pow :: "int \<Rightarrow> rat" where
  "two_pow k = (if 0 \<le> k then 2 ^ nat k else 1 / 2 ^ nat (- k))"

text \<open>The exponent of the leading bit of a positive rational.\<close>

definition rat_log2 :: "rat \<Rightarrow> int" where
  "rat_log2 q =
     (case quotient_of q of
        (n, d) \<Rightarrow>
          let e = int (bit_len (nat n)) - int (bit_len (nat d))
          in if two_pow e \<le> q then e else e - 1)"

definition round_half_even :: "rat \<Rightarrow> int" where
  "round_half_even r =
     (let f = \<lfloor>r\<rfloor>; d = r - of_int f
      in if d < 1 / 2 then f else if 1 / 2 < d then f + 1 else if even f then f else f + 1)"

text \<open>The double nearest to a magnitude: 53 significant bits, at least \<open>2\<^sup>-\<^sup>1\<^sup>0\<^sup>7\<^sup>4\<close> apart.\<close>

definition round_f64 :: "bool \<Rightarrow> rat \<Rightarrow> f64" where
  "round_f64 neg q =
     (if q = 0 then F_Fin neg 0
      else let k = max (rat_log2 q - 52) (- 1074);
               m = of_int (round_half_even (q * two_pow (- k))) * two_pow k
           in if two_pow 1024 \<le> m then F_Inf neg else F_Fin neg m)"

definition f64_lit :: "rat \<Rightarrow> f64" where
  "f64_lit q = round_f64 (q < 0) \<bar>q\<bar>"

definition f64_of_int :: "int \<Rightarrow> f64" where
  "f64_of_int n = f64_lit (of_int n)"

section \<open>Operations\<close>

definition fin_val :: "bool \<Rightarrow> rat \<Rightarrow> rat" where
  "fin_val neg m = (if neg then - m else m)"

definition f64_neg :: "f64 \<Rightarrow> f64" where
  "f64_neg x = (case x of F_Nan \<Rightarrow> F_Nan | F_Inf s \<Rightarrow> F_Inf (\<not> s) | F_Fin s m \<Rightarrow> F_Fin (\<not> s) m)"

definition f64_abs :: "f64 \<Rightarrow> f64" where
  "f64_abs x = (case x of F_Nan \<Rightarrow> F_Nan | F_Inf s \<Rightarrow> F_Inf False | F_Fin s m \<Rightarrow> F_Fin False m)"

definition f64_add :: "f64 \<Rightarrow> f64 \<Rightarrow> f64" where
  "f64_add x y =
     (case x of
        F_Nan \<Rightarrow> F_Nan
      | F_Inf s \<Rightarrow> (case y of F_Nan \<Rightarrow> F_Nan | F_Inf t \<Rightarrow> if s = t then x else F_Nan | _ \<Rightarrow> x)
      | F_Fin s m \<Rightarrow>
          (case y of
             F_Nan \<Rightarrow> F_Nan
           | F_Inf t \<Rightarrow> y
           | F_Fin t n \<Rightarrow>
               let v = fin_val s m + fin_val t n
               in if v = 0 then F_Fin (s \<and> t) 0 else f64_lit v))"

definition f64_sub :: "f64 \<Rightarrow> f64 \<Rightarrow> f64" where
  "f64_sub x y = f64_add x (f64_neg y)"

definition f64_mul :: "f64 \<Rightarrow> f64 \<Rightarrow> f64" where
  "f64_mul x y =
     (case x of
        F_Nan \<Rightarrow> F_Nan
      | F_Inf s \<Rightarrow>
          (case y of
             F_Nan \<Rightarrow> F_Nan
           | F_Inf t \<Rightarrow> F_Inf (s \<noteq> t)
           | F_Fin t n \<Rightarrow> if n = 0 then F_Nan else F_Inf (s \<noteq> t))
      | F_Fin s m \<Rightarrow>
          (case y of
             F_Nan \<Rightarrow> F_Nan
           | F_Inf t \<Rightarrow> if m = 0 then F_Nan else F_Inf (s \<noteq> t)
           | F_Fin t n \<Rightarrow> round_f64 (s \<noteq> t) (m * n)))"

definition f64_div :: "f64 \<Rightarrow> f64 \<Rightarrow> f64" where
  "f64_div x y =
     (case x of
        F_Nan \<Rightarrow> F_Nan
      | F_Inf s \<Rightarrow>
          (case y of F_Nan \<Rightarrow> F_Nan | F_Inf t \<Rightarrow> F_Nan | F_Fin t n \<Rightarrow> F_Inf (s \<noteq> t))
      | F_Fin s m \<Rightarrow>
          (case y of
             F_Nan \<Rightarrow> F_Nan
           | F_Inf t \<Rightarrow> F_Fin (s \<noteq> t) 0
           | F_Fin t n \<Rightarrow>
               if n = 0 then (if m = 0 then F_Nan else F_Inf (s \<noteq> t))
               else round_f64 (s \<noteq> t) (m / n)))"

text \<open>\<open>f64::round\<close>: to the nearest integer, half-way cases away from zero.\<close>

definition f64_round :: "f64 \<Rightarrow> f64" where
  "f64_round x =
     (case x of F_Fin s m \<Rightarrow> F_Fin s (of_int \<lfloor>m + 1 / 2\<rfloor>) | _ \<Rightarrow> x)"

definition f64_lt :: "f64 \<Rightarrow> f64 \<Rightarrow> bool" where
  "f64_lt x y =
     (case x of
        F_Nan \<Rightarrow> False
      | F_Inf s \<Rightarrow> (case y of F_Nan \<Rightarrow> False | F_Inf t \<Rightarrow> s \<and> \<not> t | F_Fin t n \<Rightarrow> s)
      | F_Fin s m \<Rightarrow>
          (case y of F_Nan \<Rightarrow> False | F_Inf t \<Rightarrow> \<not> t | F_Fin t n \<Rightarrow> fin_val s m < fin_val t n))"

definition f64_eq :: "f64 \<Rightarrow> f64 \<Rightarrow> bool" where
  "f64_eq x y \<longleftrightarrow> x \<noteq> F_Nan \<and> y \<noteq> F_Nan \<and> \<not> f64_lt x y \<and> \<not> f64_lt y x"

definition f64_le :: "f64 \<Rightarrow> f64 \<Rightarrow> bool" where
  "f64_le x y \<longleftrightarrow> f64_lt x y \<or> f64_eq x y"

datatype ordering = Less | Equal | Greater

definition partial_cmp :: "f64 \<Rightarrow> f64 \<Rightarrow> ordering option" where
  "partial_cmp x y =
     (if f64_lt x y then Some Less else if f64_lt y x then Some Greater
      else if f64_eq x y then Some Equal else None)"

section \<open>Bit patterns and JSON numbers\<close>

definition f64_of_bits :: "64 word \<Rightarrow> f64" where
  "f64_of_bits w =
     (let n = unat w; s = (2 ^ 63 \<le> n); e = (n div 2 ^ 52) mod 2 ^ 11; f = n mod 2 ^ 52
      in if e = 2047 then (if f = 0 then F_Inf s else F_Nan)
         else if e = 0 then F_Fin s (of_nat f * two_pow (- 1074))
         else F_Fin s (of_nat (2 ^ 52 + f) * two_pow (int e - 1075)))"

definition f64_to_bits :: "f64 \<Rightarrow> 64 word" where
  "f64_to_bits x =
     (let bits = (\<lambda>s n. of_nat ((if s then 2 ^ 63 else 0) + n))
      in case x of
           F_Nan \<Rightarrow> bits False (2047 * 2 ^ 52 + 2 ^ 51)
         | F_Inf s \<Rightarrow> bits s (2047 * 2 ^ 52)
         | F_Fin s m \<Rightarrow>
             if m < two_pow (- 1022) then bits s (nat \<lfloor>m * two_pow 1074\<rfloor>)
             else let e = rat_log2 m
                  in bits s (nat (e + 1022) * 2 ^ 52 + nat \<lfloor>m * two_pow (52 - e)\<rfloor>))"

definition as_f64 :: "json \<Rightarrow> f64 option" where
  "as_f64 v =
     (case v of JInt n \<Rightarrow> Some (f64_of_int n) | JFloat w \<Rightarrow> Some (f64_of_bits w) | _ \<Rightarrow> None)"

text \<open>How serde serialises a float: a number, or \<open>null\<close> when it is not finite.\<close>

definition json_f64 :: "f64 \<Rightarrow> json" where
  "json_f64 x = (case x of F_Fin s m \<Rightarrow> JFloat (f64_to_bits x) | _ \<Rightarrow> JNull)"

section \<open>Text\<close>

fun pad_left :: "nat \<Rightarrow> string \<Rightarrow> string" where
  "pad_left n s = replicate (n - length s) (CHR ''0'') @ s"

text \<open>\<open>{:.n}\<close>: the exact value rounded to \<open>n\<close> decimals, half-way cases to even.\<close>

definition fmt_f64 :: "nat \<Rightarrow> f64 \<Rightarrow> string" where
  "fmt_f64 n x =
     (case x of
        F_Nan \<Rightarrow> ''NaN''
      | F_Inf s \<Rightarrow> if s then ''-inf'' else ''inf''
      | F_Fin s m \<Rightarrow>
          let k = nat (round_half_even (m * 10 ^ n))
          in (if s then ''-'' else '''') @ show_nat (k div 10 ^ n) @
             (if n = 0 then '''' else CHR ''.'' # pad_left n (show_nat (k mod 10 ^ n))))"

text \<open>
  \<open>str::parse::<f64>\<close>: an optional sign, then \<open>inf\<close>, \<open>infinity\<close> or \<open>nan\<close> in any case, or digits with an
  optional fraction and exponent. The exact decimal is rounded once.
\<close>

definition ten_pow :: "int \<Rightarrow> rat" where
  "ten_pow k = (if 0 \<le> k then 10 ^ nat k else 1 / 10 ^ nat (- k))"

definition split_sign :: "string \<Rightarrow> bool \<times> string" where
  "split_sign s =
     (case s of
        [] \<Rightarrow> (False, [])
      | c # cs \<Rightarrow> if c = CHR ''-'' then (True, cs) else if c = CHR ''+'' then (False, cs) else (False, s))"

definition parse_exponent :: "string \<Rightarrow> int option" where
  "parse_exponent s =
     (case s of
        [] \<Rightarrow> Some 0
      | c # cs \<Rightarrow>
          (case split_sign cs of
             (neg, ds) \<Rightarrow>
               if (c = CHR ''e'' \<or> c = CHR ''E'') \<and> ds \<noteq> [] \<and> list_all is_digit ds
               then Some (if neg then - int (digits_val ds) else int (digits_val ds)) else None))"

definition parse_decimal :: "bool \<Rightarrow> string \<Rightarrow> f64 option" where
  "parse_decimal neg s =
     (let whole = takeWhile is_digit s;
          after_whole = dropWhile is_digit s;
          has_point = (case after_whole of c # _ \<Rightarrow> c = CHR ''.'' | [] \<Rightarrow> False);
          frac = (if has_point then takeWhile is_digit (tl after_whole) else []);
          expo = (if has_point then dropWhile is_digit (tl after_whole) else after_whole)
      in if whole = [] \<and> frac = [] then None
         else map_option (\<lambda>e.
             round_f64 neg (of_nat (digits_val (whole @ frac)) * ten_pow (e - int (length frac))))
           (parse_exponent expo))"

definition parse_f64 :: "string \<Rightarrow> f64 option" where
  "parse_f64 s =
     (case split_sign s of
        (neg, body) \<Rightarrow>
          let lowered = map ascii_lower body
          in if lowered = ''inf'' \<or> lowered = ''infinity'' then Some (F_Inf neg)
             else if lowered = ''nan'' then Some F_Nan
             else parse_decimal neg body)"

section \<open>Laws\<close>

lemma f64_lt_irrefl [simp]: "\<not> f64_lt x x"
  by (auto simp: f64_lt_def split: f64.splits)

lemma f64_lt_trans: "f64_lt x y \<Longrightarrow> f64_lt y z \<Longrightarrow> f64_lt x z"
  by (auto simp: f64_lt_def split: f64.splits)

lemma f64_lt_asym: "f64_lt x y \<Longrightarrow> \<not> f64_lt y x"
  using f64_lt_trans f64_lt_irrefl by blast

lemma partial_cmp_swap:
  "partial_cmp y x = map_option (case_ordering Greater Equal Less) (partial_cmp x y)"
  using f64_lt_asym by (auto simp: partial_cmp_def f64_eq_def)

section \<open>Correct rounding\<close>

lemma two_pow_powi: "two_pow k = 2 powi k"
  by (simp add: two_pow_def power_int_def field_simps)

lemma two_pow_pos [simp]: "0 < two_pow k"
  by (simp add: two_pow_def)

lemma two_pow_add: "two_pow (a + b) = two_pow a * two_pow b"
  by (simp add: two_pow_powi power_int_add)

lemma two_pow_cancel [simp]: "two_pow (- k) * two_pow k = 1" "two_pow k * two_pow (- k) = 1"
  using two_pow_add [of "- k" k] two_pow_add [of k "- k"] by (simp_all add: two_pow_def)

lemma two_pow_mono: "a \<le> b \<Longrightarrow> two_pow a \<le> two_pow b"
  by (simp add: two_pow_powi power_int_increasing)

lemma two_pow_less: "two_pow a < two_pow b \<Longrightarrow> a < b"
  using two_pow_mono [of b a] by fastforce

lemma bit_len_bounds: "0 < n \<Longrightarrow> 2 ^ (bit_len n - 1) \<le> n \<and> n < 2 ^ bit_len n \<and> 0 < bit_len n"
proof (induction n rule: bit_len.induct)
  case (1 n)
  show ?case
  proof (cases "n = 1")
    case True
    then show ?thesis by (simp add: bit_len.simps)
  next
    case False
    with "1.prems" have half: "0 < n div 2" by auto
    with 1 have IH: "2 ^ (bit_len (n div 2) - 1) \<le> n div 2" "n div 2 < 2 ^ bit_len (n div 2)"
        "0 < bit_len (n div 2)" by auto
    have "bit_len n = Suc (bit_len (n div 2))"
      using "1.prems" by (subst bit_len.simps) simp
    moreover have "2 * 2 ^ (bit_len (n div 2) - 1) = (2 :: nat) ^ bit_len (n div 2)"
      using IH(3) by (simp add: power_eq_if)
    ultimately show ?thesis using IH by (auto; linarith)
  qed
qed

lemma rat_log2_bounds: "0 < q \<Longrightarrow> two_pow (rat_log2 q) \<le> q \<and> q < two_pow (rat_log2 q + 1)"
proof -
  assume q: "0 < q"
  obtain n d where nd: "quotient_of q = (n, d)" by force
  then have d: "0 < d" and eq: "q = of_int n / of_int d"
    by (auto simp: quotient_of_denom_pos quotient_of_div)
  with q have n: "0 < n" by (simp add: zero_less_divide_iff)
  define a b where "a = bit_len (nat n)" and "b = bit_len (nat d)"
  have A: "2 ^ (a - 1) \<le> nat n" "nat n < 2 ^ a" "0 < a" and B: "2 ^ (b - 1) \<le> nat d" "nat d < 2 ^ b" "0 < b"
    using bit_len_bounds [of "nat n"] bit_len_bounds [of "nat d"] n d by (simp_all add: a_def b_def)
  have rat_n: "(of_int n :: rat) = of_nat (nat n)" and rat_d: "(of_int d :: rat) = of_nat (nat d)"
    using n d by (simp_all add: of_nat_nat)
  have N: "(2 :: rat) ^ (a - 1) \<le> of_int n" "of_int n < (2 :: rat) ^ a"
    unfolding rat_n using A by (metis of_nat_le_iff of_nat_less_iff of_nat_numeral of_nat_power)+
  have D: "(2 :: rat) ^ (b - 1) \<le> of_int d" "of_int d < (2 :: rat) ^ b"
    unfolding rat_d using B by (metis of_nat_le_iff of_nat_less_iff of_nat_numeral of_nat_power)+
  let ?e = "int a - int b"
  have pow: "two_pow (int i) = 2 ^ i" for i by (simp add: two_pow_def)
  have up: "q < two_pow (?e + 1)"
  proof -
    have "two_pow (?e + 1) * 2 ^ (b - 1) = two_pow (?e + 1 + int (b - 1))"
      by (simp add: two_pow_add pow)
    also have "?e + 1 + int (b - 1) = int a" using B(3) by simp
    finally have "of_int n < two_pow (?e + 1) * 2 ^ (b - 1)" using N by (simp add: pow)
    also have "\<dots> \<le> two_pow (?e + 1) * of_int d" using D by (simp add: less_imp_le)
    finally show ?thesis using d by (simp add: eq field_simps)
  qed
  have low: "two_pow (?e - 1) \<le> q"
  proof -
    have "two_pow (?e - 1) * of_int d \<le> two_pow (?e - 1) * 2 ^ b" using D by (simp add: less_imp_le)
    also have "\<dots> = two_pow (?e - 1 + int b)" by (simp only: two_pow_add pow)
    also have "?e - 1 + int b = int (a - 1)" using A(3) by simp
    also have "two_pow (int (a - 1)) \<le> of_int n" using N by (simp only: pow)
    finally show ?thesis using d by (simp add: eq field_simps)
  qed
  show ?thesis using up low
    by (simp add: rat_log2_def nd Let_def flip: a_def b_def)
qed

lemma rat_log2_eq: "two_pow e \<le> q \<Longrightarrow> q < two_pow (e + 1) \<Longrightarrow> rat_log2 q = e"
proof -
  assume e: "two_pow e \<le> q" "q < two_pow (e + 1)"
  then have "0 < q" using two_pow_pos [of e] by linarith
  from rat_log2_bounds [OF this] e
  have "two_pow e < two_pow (rat_log2 q + 1)" "two_pow (rat_log2 q) < two_pow (e + 1)" by linarith+
  from this [THEN two_pow_less] show ?thesis by simp
qed

lemma round_half_even_near: "\<bar>r - of_int n\<bar> < 1 / 2 \<Longrightarrow> round_half_even r = n"
proof -
  assume "\<bar>r - of_int n\<bar> < 1 / 2"
  then have lo: "of_int n - 1 / 2 < r" and hi: "r < of_int n + 1 / 2" by linarith+
  show ?thesis
  proof (cases "of_int n \<le> r")
    case True
    then have "\<lfloor>r\<rfloor> = n" using hi by (intro floor_unique) auto
    with True hi show ?thesis by (simp add: round_half_even_def Let_def)
  next
    case False
    then have "\<lfloor>r\<rfloor> = n - 1" using lo by (intro floor_unique) auto
    with False lo show ?thesis by (simp add: round_half_even_def Let_def)
  qed
qed

lemma round_half_even_int [simp]: "round_half_even (of_int n) = n"
  by (rule round_half_even_near) simp

lemma round_half_even_error: "\<bar>of_int (round_half_even r) - r\<bar> \<le> 1 / 2"
proof -
  have "of_int \<lfloor>r\<rfloor> \<le> r" "r < of_int \<lfloor>r\<rfloor> + 1" by linarith+
  then show ?thesis by (auto simp: round_half_even_def Let_def)
qed

text \<open>A rounding step on concrete numbers: the exponent and the integer significand are given.\<close>

lemma round_f64_eq:
  assumes "two_pow e \<le> q" "q < two_pow (e + 1)" "- 1022 \<le> e" "\<bar>q * two_pow (52 - e) - of_int n\<bar> < 1 / 2"
    and "of_int n * two_pow (e - 52) < two_pow 1024"
  shows "round_f64 s q = F_Fin s (of_int n * two_pow (e - 52))"
proof -
  have "0 < q" using assms(1) two_pow_pos [of e] by linarith
  moreover have "rat_log2 q = e" using assms(1, 2) by (rule rat_log2_eq)
  moreover have "round_half_even (q * two_pow (- (e - 52))) = n"
    using assms(4) by (intro round_half_even_near) simp
  moreover have "max (e - 52) (- 1074) = e - 52" using assms(3) by simp
  ultimately show ?thesis using assms(5) by (simp add: round_f64_def Let_def not_le)
qed

text \<open>The relative error of a rounding is at most \<open>2\<^sup>-\<^sup>5\<^sup>3\<close>, down to the subnormal numbers.\<close>

lemma round_f64_error:
  assumes q: "two_pow (- 1022) \<le> q" and r: "round_f64 s q = F_Fin s m"
  shows "\<bar>m - q\<bar> \<le> q * two_pow (- 53)"
proof -
  from q have pos: "0 < q" using two_pow_pos [of "- 1022"] by linarith
  define e where "e = rat_log2 q"
  from rat_log2_bounds [OF pos] have e: "two_pow e \<le> q" "q < two_pow (e + 1)" by (simp_all add: e_def)
  with q have "two_pow (- 1022) < two_pow (e + 1)" by linarith
  from two_pow_less [OF this] have "max (e - 52) (- 1074) = e - 52" by simp
  then have m: "m = of_int (round_half_even (q * two_pow (52 - e))) * two_pow (e - 52)"
    using r pos by (auto simp: round_f64_def Let_def simp flip: e_def split: if_splits)
  let ?n = "of_int (round_half_even (q * two_pow (52 - e))) :: rat"
  have "q = q * two_pow (52 - e) * two_pow (e - 52)"
    using two_pow_cancel(2) [of "52 - e"] by (simp add: mult.assoc)
  then have "\<bar>m - q\<bar> = \<bar>?n - q * two_pow (52 - e)\<bar> * two_pow (e - 52)"
    by (metis m abs_mult abs_of_pos left_diff_distrib two_pow_pos)
  also have "\<dots> \<le> 1 / 2 * two_pow (e - 52)"
    using round_half_even_error by (intro mult_right_mono) (auto simp: less_imp_le)
  also have "1 / 2 * two_pow (e - 52) = two_pow e * two_pow (- 53)"
    using two_pow_add [of "e - 52" "- 1"] two_pow_add [of e "- 53"] by (simp add: two_pow_def [of "- 1"])
  also have "\<dots> \<le> q * two_pow (- 53)" using e by (intro mult_right_mono) (auto simp: less_imp_le)
  finally show ?thesis .
qed

text \<open>A double rounds to itself.\<close>

lemma round_half_even_scaled:
  assumes "k' \<le> k" "m = of_int n * two_pow k"
  shows "of_int (round_half_even (m * two_pow (- k'))) * two_pow k' = m"
proof -
  have "m * two_pow (- k') = of_int n * two_pow (k - k')"
    using assms(2) two_pow_add [of k "- k'"] by simp
  also have "\<dots> = of_int (n * 2 ^ nat (k - k'))" using assms(1) by (simp add: two_pow_def)
  finally have i: "m * two_pow (- k') = of_int (n * 2 ^ nat (k - k'))" .
  then have "of_int (round_half_even (m * two_pow (- k'))) = m * two_pow (- k')"
    by (simp only: round_half_even_int)
  then show ?thesis by (simp add: mult.assoc)
qed

lemma abs_sub_commute: "f64_abs (f64_sub x y) = f64_abs (f64_sub y x)"
proof -
  have abs_round: "f64_abs (round_f64 s q) = f64_abs (round_f64 t q)" for s t q
    by (simp add: round_f64_def f64_abs_def Let_def)
  have lit: "f64_abs (f64_lit v) = f64_abs (f64_lit (- v))" for v
    using abs_round [of "v < 0" "\<bar>v\<bar>" "- v < 0"] by (simp add: f64_lit_def)
  have "f64_abs (f64_sub (F_Fin s m) (F_Fin t n)) = f64_abs (f64_sub (F_Fin t n) (F_Fin s m))" for s m t n
  proof -
    have eq: "fin_val s m + fin_val (\<not> t) n = - (fin_val t n + fin_val (\<not> s) m)"
      by (simp add: fin_val_def)
    show ?thesis
      using lit [of "fin_val t n + fin_val (\<not> s) m"]
      by (simp add: f64_sub_def f64_neg_def f64_add_def Let_def eq) (simp add: f64_abs_def)
  qed
  then show ?thesis
    by (cases x; cases y; simp) (simp_all add: f64_sub_def f64_neg_def f64_add_def f64_abs_def)
qed

section \<open>Bounds\<close>

text \<open>Values with a magnitude that is not negative, as every operation returns them.\<close>

definition wf64 :: "f64 \<Rightarrow> bool" where
  "wf64 x \<longleftrightarrow> (case x of F_Fin s m \<Rightarrow> 0 \<le> m | _ \<Rightarrow> True)"

lemma round_half_even_le: "r \<le> of_int n \<Longrightarrow> round_half_even r \<le> n"
proof -
  assume "r \<le> of_int n"
  then have "r = of_int n \<or> \<lfloor>r\<rfloor> + 1 \<le> n" by linarith
  then show ?thesis by (auto simp: round_half_even_def Let_def)
qed

lemma round_half_even_nonneg: "0 \<le> r \<Longrightarrow> 0 \<le> round_half_even r"
  by (auto simp: round_half_even_def Let_def)

lemma wf64_round_f64 [simp]: "0 \<le> q \<Longrightarrow> wf64 (round_f64 s q)"
  by (auto simp: wf64_def round_f64_def Let_def round_half_even_nonneg less_imp_le)

lemma wf64_ops [simp]:
  "wf64 (f64_lit q)" "wf64 (f64_add x y)"
  "wf64 x \<Longrightarrow> wf64 y \<Longrightarrow> wf64 (f64_mul x y)" "wf64 x \<Longrightarrow> wf64 y \<Longrightarrow> wf64 (f64_div x y)"
  "wf64 x \<Longrightarrow> wf64 (f64_round x)"
proof -
  show lit: "wf64 (f64_lit q)" for q by (simp add: f64_lit_def)
  show "wf64 (f64_add x y)" for x y
    using lit by (cases x; cases y) (simp_all add: f64_add_def Let_def, simp_all add: wf64_def)
  have round: "wf64 (round_f64 s q)" if "0 \<le> q" for s q using that by simp
  show "wf64 x \<Longrightarrow> wf64 y \<Longrightarrow> wf64 (f64_mul x y)" "wf64 x \<Longrightarrow> wf64 y \<Longrightarrow> wf64 (f64_div x y)"
    using round by (cases x; cases y; simp add: f64_mul_def f64_div_def wf64_def)+
  show "wf64 x \<Longrightarrow> wf64 (f64_round x)" by (cases x) (auto simp: f64_round_def wf64_def)
qed

lemma round_f64_bounded:
  assumes "0 \<le> q" "q \<le> of_nat b" "b < 2 ^ 53"
  obtains m where "round_f64 s q = F_Fin s m" "0 \<le> m" "m \<le> of_nat b"
proof (cases "q = 0")
  case False
  with assms(1) have pos: "0 < q" by simp
  define k where "k = max (rat_log2 q - 52) (- 1074)"
  define m where "m = of_int (round_half_even (q * two_pow (- k))) * two_pow k"
  have "two_pow (rat_log2 q) \<le> q" using rat_log2_bounds [OF pos] by simp
  also have "q < two_pow 53" using assms(2,3) by (simp add: two_pow_def)
  finally have "rat_log2 q < 53" by (rule two_pow_less)
  then have k: "k \<le> 0" by (simp add: k_def)
  then have int: "two_pow (- k) = of_int (2 ^ nat (- k))" by (simp add: two_pow_def)
  have "q * two_pow (- k) \<le> of_int (int b * 2 ^ nat (- k))"
    using assms(2) by (simp add: int mult_right_mono)
  then have "round_half_even (q * two_pow (- k)) \<le> int b * 2 ^ nat (- k)" by (rule round_half_even_le)
  then have "of_int (round_half_even (q * two_pow (- k))) \<le> (of_int (int b * 2 ^ nat (- k)) :: rat)"
    by (simp only: of_int_le_iff)
  then have "of_int (round_half_even (q * two_pow (- k))) \<le> of_nat b * two_pow (- k)"
    by (simp only: int of_int_mult of_int_of_nat_eq)
  then have "m \<le> of_nat b * two_pow (- k) * two_pow k"
    unfolding m_def by (intro mult_right_mono) (simp_all add: less_imp_le)
  then have le: "m \<le> of_nat b" by (simp add: mult.assoc)
  have "(of_nat b :: rat) < of_nat (2 ^ 53)" using assms(3) by (simp only: of_nat_less_iff)
  also have "of_nat (2 ^ 53) \<le> two_pow 1024" by (simp add: two_pow_def power_increasing)
  finally have "m < two_pow 1024" using le by simp
  with False have "round_f64 s q = F_Fin s m" by (simp add: round_f64_def k_def m_def Let_def)
  moreover have "0 \<le> m" using assms(1) by (simp add: m_def round_half_even_nonneg less_imp_le)
  ultimately show ?thesis using le that by blast
qed (use that in \<open>auto simp: round_f64_def\<close>)

end
