(* ===== verification/Ranking.thy ===== *)
theory Ranking
  imports Submission F64 "HOL-Library.Multiset"
begin

text \<open>
  \<open>decide\<close> of \<open>src/src/orchestrator/decision.rs\<close>: the output type of a generation, from the teacher's
  choice, the constraint of the interpretation, or a ranking of the three formats by the scores of the
  language model and the keywords of the prompt.

  The scores live in a \<open>HashMap\<close>, whose iteration order changes from run to run: \<open>hash_order\<close> is that
  order, a parameter. The sort is the one of the standard library for short slices, an insertion sort.
\<close>

definition VERSION :: string where
  "VERSION = ''media_output_decision.v1''"

definition ALLOWED_FORMATS :: "string list" where
  "ALLOWED_FORMATS = [''docx'', ''pdf'', ''pptx'']"

definition type_priority :: "string \<Rightarrow> int" where
  "type_priority fmt =
     (if fmt = ''pptx'' then 0 else if fmt = ''pdf'' then 1 else if fmt = ''docx'' then 2 else 2 ^ 31 - 1)"

record KeywordSignalDef =
  kd_output_type :: string
  kd_weight :: f64
  kd_reason_code :: string
  kd_keywords :: "string list"

record MatchedSignal =
  ms_output_type :: string
  ms_reason_code :: string
  ms_weight :: f64
  ms_matched_keyword :: "string option"
  ms_reason :: string

record RankedCandidate =
  rc_output_type :: string
  rc_score :: f64
  rc_candidate_score :: f64
  rc_reason_code :: string
  rc_matched_signals :: "MatchedSignal list"
  rc_reasons :: "string list"

record DecisionOutput =
  do_schema_version :: string
  do_preferred_output_type :: string
  do_constraint_preferred_output_type :: string
  do_resolved_output_type :: string
  do_decision_source :: string
  do_reason_code :: string
  do_reasoning :: string
  do_ranked_candidates :: "RankedCandidate list"
  do_tie_breaker_applied :: bool
  do_resolved_at :: string

definition KEYWORD_SIGNALS :: "KeywordSignalDef list" where
  "KEYWORD_SIGNALS =
     [\<lparr>kd_output_type = ''pptx'', kd_weight = f64_lit (35 / 100), kd_reason_code = ''slide_intent_detected'',
       kd_keywords = [''slide'', ''slides'', ''deck'', ''presentasi'', ''presentation'', ''slideshow'', ''ppt'', ''pptx'']\<rparr>,
      \<lparr>kd_output_type = ''pdf'', kd_weight = f64_lit (25 / 100), kd_reason_code = ''printable_intent_detected'',
       kd_keywords = [''handout'', ''printable'', ''print'', ''cetak'', ''pdf'', ''booklet'']\<rparr>,
      \<lparr>kd_output_type = ''docx'', kd_weight = f64_lit (25 / 100),
       kd_reason_code = ''editable_document_intent_detected'',
       kd_keywords = [''editable'', ''edit'', ''docx'', ''word'', ''worksheet'', ''lembar kerja'', ''template'']\<rparr>]"

section \<open>Keyword signals\<close>

definition format_type_label :: "string \<Rightarrow> string" where
  "format_type_label fmt =
     (if fmt = ''pptx'' then ''slide deck or presentation''
      else if fmt = ''pdf'' then ''stable printable document''
      else if fmt = ''docx'' then ''editable document''
      else ''document'')"

text \<open>\<open>v.pointer(..)\<close> or \<open>v.get(..)\<close>, then \<open>as_str\<close> and \<open>as_array\<close>.\<close>

definition str_at :: "string list \<Rightarrow> json \<Rightarrow> string option" where
  "str_at path v = Option.bind (pointer path v) as_str"

definition arr_at :: "string list \<Rightarrow> json \<Rightarrow> json list option" where
  "arr_at path v = Option.bind (pointer path v) as_array"

definition opt_list :: "'a option \<Rightarrow> 'a list" where
  "opt_list x = (case x of None \<Rightarrow> [] | Some a \<Rightarrow> [a])"

definition nonblank_at :: "string list \<Rightarrow> json \<Rightarrow> string list" where
  "nonblank_at path v = filter (\<lambda>s. trim s \<noteq> []) (opt_list (str_at path v))"

definition section_texts :: "json \<Rightarrow> string list" where
  "section_texts s =
     opt_list (str_at [''title''] s) @ opt_list (str_at [''purpose''] s) @
     List.map_filter as_str (concat (opt_list (arr_at [''bullets''] s)))"

fun join :: "string \<Rightarrow> string list \<Rightarrow> string" where
  "join sep [] = []"
| "join sep [x] = x"
| "join sep (x # y # xs) = x @ sep @ join sep (y # xs)"

definition decision_haystack :: "externals \<Rightarrow> json \<Rightarrow> string" where
  "decision_haystack E interpretation =
     join '' '' (map (to_lowercase (x_lower E))
       (nonblank_at [''teacher_prompt''] interpretation @
        nonblank_at [''teacher_intent'', ''goal''] interpretation @
        nonblank_at [''resolved_output_type_reasoning''] interpretation @
        nonblank_at [''document_blueprint'', ''title''] interpretation @
        nonblank_at [''document_blueprint'', ''summary''] interpretation @
        concat (map section_texts
          (concat (opt_list (arr_at [''document_blueprint'', ''sections''] interpretation)))) @
        List.map_filter as_str
          (concat (opt_list
            (arr_at [''requested_media_characteristics'', ''format_preferences''] interpretation)))))"

definition keyword_signal :: "string \<Rightarrow> KeywordSignalDef \<Rightarrow> MatchedSignal option" where
  "keyword_signal haystack_lower signal_def =
     map_option (\<lambda>keyword.
         \<lparr>ms_output_type = kd_output_type signal_def, ms_reason_code = kd_reason_code signal_def,
          ms_weight = kd_weight signal_def, ms_matched_keyword = Some keyword,
          ms_reason = ''Keyword \"'' @ keyword @ ''\" indicates a '' @
            format_type_label (kd_output_type signal_def) @ '' format.''\<rparr>)
       (find (contains haystack_lower) (kd_keywords signal_def))"

definition visual_density_signal :: MatchedSignal where
  "visual_density_signal =
     \<lparr>ms_output_type = ''pptx'', ms_reason_code = ''visual_density_signal'', ms_weight = f64_lit (12 / 100),
      ms_matched_keyword = None,
      ms_reason = ''High visual density with explicit assets favors slide-oriented output.''\<rparr>"

definition keyword_signals :: "externals \<Rightarrow> json \<Rightarrow> MatchedSignal list" where
  "keyword_signals E interpretation =
     (let haystack_lower = to_lowercase (x_lower E) (decision_haystack E interpretation);
          visual_density = str_at [''requested_media_characteristics'', ''visual_density''] interpretation;
          has_assets = (case arr_at [''assets''] interpretation of None \<Rightarrow> False | Some a \<Rightarrow> a \<noteq> [])
      in List.map_filter (keyword_signal haystack_lower) KEYWORD_SIGNALS @
         (if visual_density = Some ''high'' \<and> has_assets then [visual_density_signal] else []))"

section \<open>The ranking\<close>

type_synonym scores = "(string \<times> RankedCandidate) list"

definition initial_scores :: scores where
  "initial_scores =
     map (\<lambda>fmt. (fmt,
       \<lparr>rc_output_type = fmt, rc_score = F_Fin False 0, rc_candidate_score = F_Fin False 0,
        rc_reason_code = ''highest_candidate_score'', rc_matched_signals = [], rc_reasons = []\<rparr>))
       ALLOWED_FORMATS"

text \<open>\<open>if let Some(entry) = scores.get_mut(k) { ... }\<close>.\<close>

definition with_entry :: "string \<Rightarrow> (RankedCandidate \<Rightarrow> RankedCandidate) \<Rightarrow> scores \<Rightarrow> scores" where
  "with_entry k f scores = map (\<lambda>(j, c). (j, if j = k then f c else c)) scores"

definition round4 :: "f64 \<Rightarrow> f64" where
  "round4 x = f64_div (f64_round (f64_mul x (f64_lit 10000))) (f64_lit 10000)"

definition add_llm_score :: "json \<Rightarrow> scores \<Rightarrow> scores" where
  "add_llm_score candidate scores =
     (let ctype = (case str_at [''type''] candidate of None \<Rightarrow> '''' | Some t \<Rightarrow> t);
          cscore = (case Option.bind (jget ''score'' candidate) as_f64 of
                      None \<Rightarrow> F_Fin False 0 | Some x \<Rightarrow> x);
          reason = (case str_at [''reason''] candidate of None \<Rightarrow> '''' | Some r \<Rightarrow> r);
          rounded_score = round4 cscore
      in with_entry ctype (\<lambda>entry.
           entry\<lparr>rc_score := f64_add (rc_score entry) rounded_score,
                 rc_candidate_score := rounded_score,
                 rc_reasons := rc_reasons entry @
                   [''LLM candidate score '' @ fmt_f64 4 rounded_score @ '': '' @ reason]\<rparr>) scores)"

definition add_signal :: "MatchedSignal \<Rightarrow> scores \<Rightarrow> scores" where
  "add_signal signal scores =
     with_entry (ms_output_type signal) (\<lambda>entry.
       entry\<lparr>rc_score := f64_add (rc_score entry) (ms_weight signal),
             rc_reason_code := ms_reason_code signal,
             rc_matched_signals := rc_matched_signals entry @ [signal],
             rc_reasons := rc_reasons entry @ [ms_reason signal]\<rparr>) scores"

definition TIE_TOLERANCE :: f64 where
  "TIE_TOLERANCE = f64_lit (1 / 10000)"

definition compare_candidates :: "RankedCandidate \<Rightarrow> RankedCandidate \<Rightarrow> ordering" where
  "compare_candidates a b =
     (if f64_le TIE_TOLERANCE (f64_abs (f64_sub (rc_score a) (rc_score b)))
      then (case partial_cmp (rc_score b) (rc_score a) of None \<Rightarrow> Equal | Some c \<Rightarrow> c)
      else (let priority_a = type_priority (rc_output_type a); priority_b = type_priority (rc_output_type b)
            in if priority_a < priority_b then Less else if priority_b < priority_a then Greater else Equal))"

text \<open>
  \<open>slice::sort_by\<close> on at most twenty elements: each element moves left past those it is less than.
  The sorted prefix is kept reversed.
\<close>

fun shift_left :: "('a \<Rightarrow> 'a \<Rightarrow> bool) \<Rightarrow> 'a \<Rightarrow> 'a list \<Rightarrow> 'a list" where
  "shift_left is_less x [] = [x]"
| "shift_left is_less x (y # ys) = (if is_less x y then y # shift_left is_less x ys else x # y # ys)"

definition sort_by :: "('a \<Rightarrow> 'a \<Rightarrow> ordering) \<Rightarrow> 'a list \<Rightarrow> 'a list" where
  "sort_by cmp xs = rev (fold (shift_left (\<lambda>a b. cmp a b = Less)) xs [])"

definition final_scores :: "externals \<Rightarrow> json \<Rightarrow> scores" where
  "final_scores E interpretation =
     (let candidates = concat (opt_list (arr_at [''output_type_candidates''] interpretation))
      in fold add_signal (keyword_signals E interpretation) (fold add_llm_score candidates initial_scores))"

definition rank_candidates :: "externals \<Rightarrow> string list \<Rightarrow> json \<Rightarrow> RankedCandidate list" where
  "rank_candidates E hash_order interpretation =
     map (\<lambda>candidate. candidate\<lparr>rc_score := round4 (rc_score candidate)\<rparr>)
       (sort_by compare_candidates
         (List.map_filter (map_of (final_scores E interpretation)) hash_order))"

section \<open>The decision\<close>

definition to_uppercase :: "string \<Rightarrow> string" where
  "to_uppercase = map (\<lambda>c. if 97 \<le> byte c \<and> byte c \<le> 122 then char_of (byte c - 32) else c)"

definition build_ranking_reasoning ::
  "RankedCandidate \<Rightarrow> RankedCandidate option \<Rightarrow> bool \<Rightarrow> string \<Rightarrow> string" where
  "build_ranking_reasoning selected runner_up tie_breaker_applied interpretation_reasoning =
     trim (''Auto resolution selected '' @ to_uppercase (rc_output_type selected) @ '' with score '' @
           fmt_f64 4 (rc_score selected) @ ''. '' @ join '' '' (take 2 (rc_reasons selected)) @
           (case runner_up of
              None \<Rightarrow> ''''
            | Some runner \<Rightarrow> '' Runner-up was '' @ to_uppercase (rc_output_type runner) @ '' at score '' @
                fmt_f64 4 (rc_score runner) @ ''.'') @
           (if tie_breaker_applied
            then '' Scores tied, so the deterministic priority order PDF > DOCX > PPTX was applied.''
            else '''') @
           (if trim interpretation_reasoning \<noteq> [] then '' '' @ trim interpretation_reasoning else ''''))"

definition build_decision ::
  "string \<Rightarrow> string \<Rightarrow> string \<Rightarrow> string \<Rightarrow> string \<Rightarrow> string \<Rightarrow> string \<Rightarrow> RankedCandidate list \<Rightarrow> bool \<Rightarrow>
     DecisionOutput" where
  "build_decision now preferred resolved decision_source reason_code reasoning constraint ranked tie =
     \<lparr>do_schema_version = VERSION, do_preferred_output_type = preferred,
      do_constraint_preferred_output_type = constraint, do_resolved_output_type = resolved,
      do_decision_source = decision_source, do_reason_code = reason_code, do_reasoning = reasoning,
      do_ranked_candidates = ranked, do_tie_breaker_applied = tie, do_resolved_at = now\<rparr>"

text \<open>\<open>now\<close> is the clock read of \<open>build_decision\<close> as text. \<open>None\<close> is the panic of \<open>ranked_candidates[0]\<close>.\<close>

definition decide ::
  "externals \<Rightarrow> string list \<Rightarrow> string \<Rightarrow> json \<Rightarrow> string option \<Rightarrow> DecisionOutput option" where
  "decide E hash_order now interpretation preferred_output_type =
     (let normalized_preferred = normalize_preferred_output_type E preferred_output_type;
          constraint_preferred = normalize_preferred_output_type E
            (str_at [''constraints'', ''preferred_output_type''] interpretation);
          ranked_candidates = rank_candidates E hash_order interpretation
      in if normalized_preferred \<noteq> ''auto'' then
           Some (build_decision now normalized_preferred normalized_preferred
             ''teacher_override'' ''teacher_override''
             (''Teacher override selected '' @ to_uppercase normalized_preferred @
              '', so automatic classification was bypassed.'')
             constraint_preferred ranked_candidates False)
         else if constraint_preferred \<noteq> ''auto'' then
           Some (build_decision now normalized_preferred constraint_preferred
             ''interpretation_constraint'' ''interpretation_constraint''
             (''Interpretation payload explicitly constrained the output to '' @
              to_uppercase constraint_preferred @ ''.'')
             constraint_preferred ranked_candidates False)
         else
           (case ranked_candidates of
              [] \<Rightarrow> None
            | selected # others \<Rightarrow>
                let runner_up = (case others of [] \<Rightarrow> None | r # _ \<Rightarrow> Some r);
                    tie_breaker_applied = (case runner_up of
                        None \<Rightarrow> False
                      | Some r \<Rightarrow> f64_lt (f64_abs (f64_sub (rc_score selected) (rc_score r))) TIE_TOLERANCE);
                    reasoning = build_ranking_reasoning selected runner_up tie_breaker_applied
                      (case str_at [''resolved_output_type_reasoning''] interpretation of
                         None \<Rightarrow> '''' | Some r \<Rightarrow> r)
                in Some (build_decision now normalized_preferred (rc_output_type selected)
                     ''candidate_ranking'' (rc_reason_code selected) reasoning
                     constraint_preferred ranked_candidates tie_breaker_applied)))"

subsection \<open>The decision as JSON\<close>

definition signal_json :: "MatchedSignal \<Rightarrow> json" where
  "signal_json s =
     JObj [(''type'', JStr (ms_output_type s)), (''reason_code'', JStr (ms_reason_code s)),
           (''weight'', json_f64 (ms_weight s)), (''matched_keyword'', jstr_opt (ms_matched_keyword s)),
           (''reason'', JStr (ms_reason s))]"

definition candidate_json :: "RankedCandidate \<Rightarrow> json" where
  "candidate_json c =
     JObj [(''type'', JStr (rc_output_type c)), (''score'', json_f64 (rc_score c)),
           (''candidate_score'', json_f64 (rc_candidate_score c)),
           (''reason_code'', JStr (rc_reason_code c)),
           (''matched_signals'', JArr (map signal_json (rc_matched_signals c))),
           (''reasons'', JArr (map JStr (rc_reasons c)))]"

definition decision_fields :: "DecisionOutput \<Rightarrow> (string \<times> json) list" where
  "decision_fields d =
     [(''schema_version'', JStr (do_schema_version d)),
      (''preferred_output_type'', JStr (do_preferred_output_type d)),
      (''constraint_preferred_output_type'', JStr (do_constraint_preferred_output_type d)),
      (''resolved_output_type'', JStr (do_resolved_output_type d)),
      (''decision_source'', JStr (do_decision_source d)), (''reason_code'', JStr (do_reason_code d)),
      (''reasoning'', JStr (do_reasoning d)),
      (''ranked_candidates'', JArr (map candidate_json (do_ranked_candidates d))),
      (''tie_breaker_applied'', JBool (do_tie_breaker_applied d)),
      (''resolved_at'', JStr (do_resolved_at d))]"

section \<open>Sorting\<close>

lemma mset_shift_left [simp]: "mset (shift_left is_less x xs) = add_mset x (mset xs)"
  by (induction xs) auto

lemma mset_sort_by [simp]: "mset (sort_by cmp xs) = mset xs"
proof -
  have "mset (fold (shift_left is_less) xs ys) = mset xs + mset ys" for is_less :: "'a \<Rightarrow> 'a \<Rightarrow> bool" and ys
    by (induction xs arbitrary: ys) auto
  then show ?thesis by (simp add: sort_by_def)
qed

lemma set_sort_by [simp]: "set (sort_by cmp xs) = set xs"
  by (metis mset_sort_by set_mset_mset)

lemma set_shift_left [simp]: "set (shift_left is_less x ys) = insert x (set ys)"
  by (induction ys) auto

text \<open>A comparison that is transitive, and total on distinct elements, sorts.\<close>

lemma sorted_shift_left:
  assumes "sorted_wrt (\<lambda>a b. is_less b a) ys" and "x \<notin> set ys"
    and "\<And>a b c. {a, b, c} \<subseteq> insert x (set ys) \<Longrightarrow> is_less a b \<Longrightarrow> is_less b c \<Longrightarrow> is_less a c"
    and "\<And>a b. {a, b} \<subseteq> insert x (set ys) \<Longrightarrow> a \<noteq> b \<Longrightarrow> is_less a b \<or> is_less b a"
  shows "sorted_wrt (\<lambda>a b. is_less b a) (shift_left is_less x ys)"
  using assms
proof (induction ys)
  case Nil
  then show ?case by simp
next
  case (Cons y ys)
  have IH: "sorted_wrt (\<lambda>a b. is_less b a) (shift_left is_less x ys)"
  proof (rule Cons.IH)
    show "sorted_wrt (\<lambda>a b. is_less b a) ys" "x \<notin> set ys" using Cons.prems(1,2) by auto
    show "is_less a c" if "{a, b, c} \<subseteq> insert x (set ys)" "is_less a b" "is_less b c" for a b c
      using Cons.prems(3) [of a b c] that by auto
    show "is_less a b \<or> is_less b a" if "{a, b} \<subseteq> insert x (set ys)" "a \<noteq> b" for a b
      using Cons.prems(4) [of a b] that by auto
  qed
  show ?case
  proof (cases "is_less x y")
    case True
    with IH Cons.prems(1) show ?thesis by auto
  next
    case False
    with Cons.prems(2,4) have "is_less y x" by fastforce
    moreover have "is_less z x" if "z \<in> set ys" for z
      using that Cons.prems(1) \<open>is_less y x\<close> Cons.prems(3) [of z y x] by auto
    ultimately show ?thesis using False Cons.prems(1) by auto
  qed
qed

lemma sorted_sort_by:
  assumes "distinct xs"
    and "\<And>a b c. {a, b, c} \<subseteq> set xs \<Longrightarrow> cmp a b = Less \<Longrightarrow> cmp b c = Less \<Longrightarrow> cmp a c = Less"
    and "\<And>a b. {a, b} \<subseteq> set xs \<Longrightarrow> a \<noteq> b \<Longrightarrow> cmp a b = Less \<or> cmp b a = Less"
  shows "sorted_wrt (\<lambda>a b. cmp a b = Less) (sort_by cmp xs)"
proof -
  define is_less where "is_less = (\<lambda>a b. cmp a b = Less)"
  have "sorted_wrt (\<lambda>a b. is_less b a) (fold (shift_left is_less) zs ys)"
    if "distinct (zs @ ys)" "set (zs @ ys) \<subseteq> set xs" "sorted_wrt (\<lambda>a b. is_less b a) ys" for zs ys
    using that
  proof (induction zs arbitrary: ys)
    case (Cons z zs)
    have "sorted_wrt (\<lambda>a b. is_less b a) (shift_left is_less z ys)"
    proof (rule sorted_shift_left)
      show "sorted_wrt (\<lambda>a b. is_less b a) ys" "z \<notin> set ys" using Cons.prems by auto
      show "is_less a c" if "{a, b, c} \<subseteq> insert z (set ys)" "is_less a b" "is_less b c" for a b c
        using assms(2) [of a b c] that Cons.prems(2) by (auto simp: is_less_def)
      show "is_less a b \<or> is_less b a" if "{a, b} \<subseteq> insert z (set ys)" "a \<noteq> b" for a b
        using assms(3) [of a b] that Cons.prems(2) by (auto simp: is_less_def)
    qed
    moreover have "distinct (shift_left is_less z ys)"
      using Cons.prems(1) by (metis distinct.simps(2) distinct_append mset_eq_imp_distinct_iff
          append_Cons mset.simps(2) mset_shift_left Un_iff set_append)
    ultimately show ?case using Cons by auto
  qed simp
  from this [of xs "[]"] assms(1) show ?thesis
    by (simp add: sort_by_def is_less_def sorted_wrt_rev)
qed

lemma sorted_wrt_unique:
  assumes "sorted_wrt R xs" "sorted_wrt R ys" "mset xs = mset ys"
    and "\<And>a b. a \<in> set xs \<Longrightarrow> b \<in> set xs \<Longrightarrow> R a b \<Longrightarrow> \<not> R b a"
  shows "xs = ys"
  using assms
proof (induction xs arbitrary: ys)
  case Nil
  then show ?case by simp
next
  case (Cons x xs)
  from Cons.prems(3) obtain y zs where ys: "ys = y # zs" by (cases ys) auto
  have sets: "set (x # xs) = set ys" using Cons.prems(3) by (metis set_mset_mset)
  have "x = y"
  proof (rule ccontr)
    assume "x \<noteq> y"
    with sets ys have "y \<in> set xs" "x \<in> set zs" by auto
    then have "R x y" "R y x" using Cons.prems(1,2) ys by auto
    with Cons.prems(4) [of x y] \<open>y \<in> set xs\<close> show False by auto
  qed
  moreover have "xs = zs"
  proof (rule Cons.IH)
    show "sorted_wrt R xs" "sorted_wrt R zs" using Cons.prems(1,2) ys by auto
    show "mset xs = mset zs" using Cons.prems(3) ys \<open>x = y\<close> by simp
    show "\<not> R b a" if "a \<in> set xs" "b \<in> set xs" "R a b" for a b
      using Cons.prems(4) [of a b] that by simp
  qed
  ultimately show ?case using ys by simp
qed

section \<open>The candidates\<close>

lemma with_entry_keys [simp]: "map fst (with_entry k f s) = map fst s"
  by (simp add: with_entry_def comp_def case_prod_beta)

definition well_keyed :: "scores \<Rightarrow> bool" where
  "well_keyed s \<longleftrightarrow> map fst s = ALLOWED_FORMATS \<and> (\<forall>(k, c)\<in>set s. rc_output_type c = k)"

lemma well_keyed_with_entry:
  "well_keyed s \<Longrightarrow> (\<And>c. rc_output_type (f c) = rc_output_type c) \<Longrightarrow> well_keyed (with_entry k f s)"
  by (simp add: well_keyed_def) (auto simp: with_entry_def)

lemma well_keyed_initial: "well_keyed initial_scores"
  by (auto simp: well_keyed_def initial_scores_def comp_def)

lemma well_keyed_fold: "(\<And>x s. well_keyed s \<Longrightarrow> well_keyed (f x s)) \<Longrightarrow> well_keyed s \<Longrightarrow> well_keyed (fold f xs s)"
  by (induction xs arbitrary: s) auto

lemma well_keyed_final: "well_keyed (final_scores E interpretation)"
  unfolding final_scores_def Let_def
  by (intro well_keyed_fold well_keyed_initial)
    (auto simp: add_signal_def add_llm_score_def Let_def intro!: well_keyed_with_entry)

definition candidates :: "externals \<Rightarrow> string list \<Rightarrow> json \<Rightarrow> RankedCandidate list" where
  "candidates E hash_order interpretation =
     List.map_filter (map_of (final_scores E interpretation)) hash_order"

lemma well_keyed_lookup:
  assumes "well_keyed s" "k \<in> set ALLOWED_FORMATS"
  shows "\<exists>c. map_of s k = Some c \<and> rc_output_type c = k"
proof -
  have "k \<in> fst ` set s" using assms by (metis image_set well_keyed_def)
  then obtain c where "map_of s k = Some c" by (cases "map_of s k") (auto simp: map_of_eq_None_iff)
  with assms(1) show ?thesis by (auto simp: well_keyed_def dest: map_of_SomeD)
qed

lemma well_keyed_type: "well_keyed s \<Longrightarrow> map_of s k = Some c \<Longrightarrow> rc_output_type c = k"
  using map_of_SomeD [of s k c] by (auto simp: well_keyed_def)

lemma candidates_types:
  assumes "set hash_order \<subseteq> set ALLOWED_FORMATS"
  shows "map rc_output_type (candidates E hash_order interpretation) = hash_order"
  using assms
proof (induction hash_order)
  case (Cons k ks)
  from well_keyed_lookup [OF well_keyed_final, of k E "interpretation"] Cons.prems
  obtain c where "map_of (final_scores E interpretation) k = Some c" "rc_output_type c = k" by auto
  with Cons show ?case by (simp add: candidates_def List.map_filter_simps)
qed (simp add: candidates_def List.map_filter_simps)

lemma rank_types:
  assumes "mset hash_order = mset ALLOWED_FORMATS"
  shows "mset (map rc_output_type (rank_candidates E hash_order interpretation)) = mset ALLOWED_FORMATS"
proof -
  have sub: "set hash_order \<subseteq> set ALLOWED_FORMATS" using assms by (metis set_mset_mset subset_refl)
  have "map rc_output_type (rank_candidates E hash_order interpretation) =
      map rc_output_type (sort_by compare_candidates (candidates E hash_order interpretation))"
    by (simp add: rank_candidates_def candidates_def)
  also have "mset \<dots> = mset (map rc_output_type (candidates E hash_order interpretation))"
    by (simp only: mset_map mset_sort_by)
  also have "\<dots> = mset ALLOWED_FORMATS" using candidates_types [OF sub] assms by simp
  finally show ?thesis .
qed

section \<open>The comparison\<close>

text \<open>Rounding steps of the concrete scores below.\<close>

lemma round_tolerance: "round_f64 s (1 / 10000) = F_Fin s (7378697629483821 / 73786976294838206464)"
  using round_f64_eq [of "-14" "1 / 10000" "7378697629483821" s] by (simp add: two_pow_def)

lemma round_10000: "round_f64 s (10000) = F_Fin s (10000)"
  using round_f64_eq [of "13" "10000" "5497558138880000" s] by (simp add: two_pow_def)

lemma round_mul_5002: "round_f64 s (703968916753350625 / 140737488355328) = F_Fin s (5002)"
  using round_f64_eq [of "12" "703968916753350625 / 140737488355328" "5499757162135552" s] by (simp add: two_pow_def)

lemma round_div_5002: "round_f64 s (2501 / 5000) = F_Fin s (1126350266805361 / 2251799813685248)"
  using round_f64_eq [of "-1" "2501 / 5000" "4505401067221444" s] by (simp add: two_pow_def)

lemma round_add_5002: "round_f64 s (1126350266805361 / 2251799813685248) = F_Fin s (1126350266805361 / 2251799813685248)"
  using round_f64_eq [of "-1" "1126350266805361 / 2251799813685248" "4505401067221444" s] by (simp add: two_pow_def)

lemma round_mul_5001: "round_f64 s (1407656358529990625 / 281474976710656) = F_Fin s (5001)"
  using round_f64_eq [of "12" "1407656358529990625 / 281474976710656" "5498657650507776" s] by (simp add: two_pow_def)

lemma round_div_5001: "round_f64 s (5001 / 10000) = F_Fin s (2252250173647985 / 4503599627370496)"
  using round_f64_eq [of "-1" "5001 / 10000" "4504500347295970" s] by (simp add: two_pow_def)

lemma round_add_5001: "round_f64 s (2252250173647985 / 4503599627370496) = F_Fin s (2252250173647985 / 4503599627370496)"
  using round_f64_eq [of "-1" "2252250173647985 / 4503599627370496" "4504500347295970" s] by (simp add: two_pow_def)

lemma round_mul_5000: "round_f64 s (5000) = F_Fin s (5000)"
  using round_f64_eq [of "12" "5000" "5497558138880000" s] by (simp add: two_pow_def)

lemma round_div_5000: "round_f64 s (1 / 2) = F_Fin s (1 / 2)"
  using round_f64_eq [of "-1" "1 / 2" "4503599627370496" s] by (simp add: two_pow_def)

lemma round_sub_5002_5001: "round_f64 s (450359962737 / 4503599627370496) = F_Fin s (450359962737 / 4503599627370496)"
  using round_f64_eq [of "-14" "450359962737 / 4503599627370496" "7378697629483008" s] by (simp add: two_pow_def)

lemma round_sub_5002_5000: "round_f64 s (450359962737 / 2251799813685248) = F_Fin s (450359962737 / 2251799813685248)"
  using round_f64_eq [of "-13" "450359962737 / 2251799813685248" "7378697629483008" s] by (simp add: two_pow_def)

lemma round_sub_5001_5000: "round_f64 s (450359962737 / 4503599627370496) = F_Fin s (450359962737 / 4503599627370496)"
  using round_f64_eq [of "-14" "450359962737 / 4503599627370496" "7378697629483008" s] by (simp add: two_pow_def)


lemma tolerance: "TIE_TOLERANCE = F_Fin False (7378697629483821 / 73786976294838206464)"
  by (simp add: TIE_TOLERANCE_def f64_lit_def round_tolerance)

lemma compare_asym: "compare_candidates a b = Less \<Longrightarrow> compare_candidates b a \<noteq> Less"
  using abs_sub_commute [of "rc_score a" "rc_score b"] f64_lt_asym [of "rc_score a" "rc_score b"]
    f64_lt_asym [of "rc_score b" "rc_score a"]
  by (auto simp: compare_candidates_def Let_def partial_cmp_def split: if_splits option.splits)

lemma tolerance_lt:
  "f64_le TIE_TOLERANCE (f64_abs (f64_sub x y)) \<Longrightarrow> f64_lt x y \<or> f64_lt y x"
  by (auto simp: f64_le_def f64_eq_def tolerance f64_lt_def f64_abs_def f64_sub_def f64_add_def
      f64_neg_def fin_val_def Let_def split: f64.splits if_splits)

lemma type_priority_inj:
  "s \<in> set ALLOWED_FORMATS \<Longrightarrow> t \<in> set ALLOWED_FORMATS \<Longrightarrow> type_priority s = type_priority t \<Longrightarrow> s = t"
  by (auto simp: ALLOWED_FORMATS_def type_priority_def)

lemma compare_total:
  assumes "rc_output_type a \<in> set ALLOWED_FORMATS" "rc_output_type b \<in> set ALLOWED_FORMATS"
    and "rc_output_type a \<noteq> rc_output_type b"
  shows "compare_candidates a b = Less \<or> compare_candidates b a = Less"
  using tolerance_lt [of "rc_score a" "rc_score b"] type_priority_inj [OF assms(1,2)] assms(3)
    abs_sub_commute [of "rc_score a" "rc_score b"]
  by (auto simp: compare_candidates_def Let_def partial_cmp_def split: if_splits)

text \<open>The comparison has no cycle on the candidates of an interpretation.\<close>

definition acyclic_ranking :: "externals \<Rightarrow> json \<Rightarrow> bool" where
  "acyclic_ranking E interpretation \<longleftrightarrow>
     (let cs = candidates E ALLOWED_FORMATS interpretation
      in list_all (\<lambda>a. list_all (\<lambda>b. list_all (\<lambda>c.
           compare_candidates a b = Less \<longrightarrow> compare_candidates b c = Less \<longrightarrow>
           compare_candidates a c = Less) cs) cs) cs)"

lemma ALLOWED_distinct: "distinct ALLOWED_FORMATS"
  by (simp add: ALLOWED_FORMATS_def)

lemma candidates_mset:
  "mset hash_order = mset ks \<Longrightarrow>
     mset (candidates E hash_order interpretation) = mset (candidates E ks interpretation)"
  by (simp add: candidates_def List.map_filter_def mset_filter)

lemma sorted_candidates:
  assumes "mset hash_order = mset ALLOWED_FORMATS" "acyclic_ranking E interpretation"
  shows "sorted_wrt (\<lambda>a b. compare_candidates a b = Less)
           (sort_by compare_candidates (candidates E hash_order interpretation))"
proof (rule sorted_sort_by)
  let ?cs = "candidates E hash_order interpretation"
  have types: "map rc_output_type ?cs = hash_order"
    using assms(1) by (intro candidates_types) (metis set_mset_mset subset_refl)
  have hash_order: "distinct hash_order" "set hash_order = set ALLOWED_FORMATS"
    using assms(1) by (metis distinct_count_atmost_1 set_mset_mset mset_eq_imp_distinct_iff ALLOWED_distinct,
      metis assms(1) set_mset_mset)
  show "distinct ?cs" using types hash_order(1) by (metis distinct_map)
  have "set ?cs = set (candidates E ALLOWED_FORMATS interpretation)"
    using candidates_mset [OF assms(1)] by (metis set_mset_mset)
  then show "compare_candidates a c = Less"
    if "{a, b, c} \<subseteq> set ?cs" "compare_candidates a b = Less" "compare_candidates b c = Less" for a b c
    using assms(2) that unfolding acyclic_ranking_def Let_def list_all_iff by blast
  show "compare_candidates a b = Less \<or> compare_candidates b a = Less"
    if "{a, b} \<subseteq> set ?cs" "a \<noteq> b" for a b
  proof (rule compare_total)
    have "rc_output_type ` set ?cs = set ALLOWED_FORMATS" using types hash_order(2) by (metis set_map)
    with that show "rc_output_type a \<in> set ALLOWED_FORMATS" "rc_output_type b \<in> set ALLOWED_FORMATS"
      by blast+
    show "rc_output_type a \<noteq> rc_output_type b"
      using that types hash_order(1) by (metis distinct_map inj_onD insert_subset)
  qed
qed


lemma rank_independent:
  assumes "mset hash_order = mset ALLOWED_FORMATS" "acyclic_ranking E interpretation"
  shows "rank_candidates E hash_order interpretation = rank_candidates E ALLOWED_FORMATS interpretation"
proof -
  have "sort_by compare_candidates (candidates E hash_order interpretation) =
      sort_by compare_candidates (candidates E ALLOWED_FORMATS interpretation)"
    using sorted_candidates [OF assms] sorted_candidates [OF refl assms(2)]
    by (rule sorted_wrt_unique) (simp_all add: candidates_mset [OF assms(1)] compare_asym)
  then show ?thesis by (simp add: rank_candidates_def flip: candidates_def)
qed

text \<open>An interpretation without scores and keywords: all scores are zero.\<close>

lemma no_signals_empty: "keyword_signals E (JObj []) = []"
  by (simp add: keyword_signals_def str_at_def arr_at_def KEYWORD_SIGNALS_def keyword_signal_def
      to_lowercase_def is_ascii_def List.map_filter_simps decision_haystack_def nonblank_at_def opt_list_def)

lemma final_empty: "final_scores E (JObj []) = initial_scores"
  by (simp add: final_scores_def no_signals_empty arr_at_def opt_list_def)

lemma compare_zero:
  assumes "rc_score a = F_Fin False 0" "rc_score b = F_Fin False 0"
  shows "compare_candidates a b =
    (if type_priority (rc_output_type a) < type_priority (rc_output_type b) then Less
     else if type_priority (rc_output_type b) < type_priority (rc_output_type a) then Greater else Equal)"
  using assms by (simp add: compare_candidates_def f64_sub_def f64_neg_def f64_add_def fin_val_def
      f64_abs_def f64_le_def f64_eq_def f64_lt_def tolerance Let_def)

lemma acyclic_empty: "acyclic_ranking E (JObj [])"
  by (simp add: acyclic_ranking_def candidates_def final_empty initial_scores_def ALLOWED_FORMATS_def
      List.map_filter_simps Let_def compare_zero type_priority_def)

lemma decide_empty: "\<exists>d. decide E ALLOWED_FORMATS now (JObj []) None = Some d \<and> do_resolved_output_type d = ''pptx''"
  by (simp add: decide_def Let_def normalize_preferred_output_type_def str_at_def rank_candidates_def
      final_empty initial_scores_def ALLOWED_FORMATS_def List.map_filter_simps sort_by_def compare_zero
      type_priority_def build_decision_def)

section \<open>Properties\<close>

lemma normalized_format:
  "normalize_preferred_output_type E x \<noteq> ''auto'' \<Longrightarrow>
     normalize_preferred_output_type E x \<in> set ALLOWED_FORMATS"
  using normalize_allowed [of E x] by (auto simp: ALLOWED_OUTPUT_TYPES_def ALLOWED_FORMATS_def)

lemma rank_nonempty:
  assumes "mset hash_order = mset ALLOWED_FORMATS"
  obtains c cs where "rank_candidates E hash_order interpretation = c # cs"
    and "rc_output_type c \<in> set ALLOWED_FORMATS"
proof -
  from rank_types [OF assms, of E "interpretation"]
  have types: "set (map rc_output_type (rank_candidates E hash_order interpretation)) = set ALLOWED_FORMATS"
    by (metis set_mset_mset)
  have "rank_candidates E hash_order interpretation \<noteq> []"
  proof
    assume "rank_candidates E hash_order interpretation = []"
    with types show False by (simp add: ALLOWED_FORMATS_def)
  qed
  then obtain c cs where c: "rank_candidates E hash_order interpretation = c # cs"
    by (cases "rank_candidates E hash_order interpretation") auto
  with types have "rc_output_type c \<in> set ALLOWED_FORMATS" by auto
  with c show thesis by (rule that)
qed

lemma decide_total:
  assumes "mset hash_order = mset ALLOWED_FORMATS"
  shows "\<exists>d. decide E hash_order now interpretation preferred = Some d \<and>
      do_resolved_output_type d \<in> set ALLOWED_FORMATS \<and>
      do_ranked_candidates d = rank_candidates E hash_order interpretation"
proof -
  obtain c cs where "rank_candidates E hash_order interpretation = c # cs"
      "rc_output_type c \<in> set ALLOWED_FORMATS"
    using rank_nonempty [OF assms] .
  then show ?thesis
    using normalized_format [of E] by (simp add: decide_def Let_def build_decision_def)
qed

text \<open>
  Whatever the interpretation and the iteration order, \<open>decide\<close> returns without a panic, the output
  type is one of the three formats, and its ranking lists each of them once.
\<close>

theorem decide_resolves:
  assumes "mset hash_order = mset ALLOWED_FORMATS"
  shows "\<exists>d. decide E hash_order now interpretation preferred = Some d \<and>
      do_resolved_output_type d \<in> {''docx'', ''pdf'', ''pptx''} \<and>
      mset (map rc_output_type (do_ranked_candidates d)) = {# ''docx'', ''pdf'', ''pptx'' #}"
proof -
  have "mset (map rc_output_type (rank_candidates E hash_order interpretation)) = {# ''docx'', ''pdf'', ''pptx'' #}"
    using rank_types [OF assms] by (simp add: ALLOWED_FORMATS_def)
  moreover have "set ALLOWED_FORMATS = {''docx'', ''pdf'', ''pptx''}" by (auto simp: ALLOWED_FORMATS_def)
  ultimately show ?thesis using decide_total [OF assms] by metis
qed

theorem decide_resolves_witness:
  "\<exists>d. decide sample_externals [''pptx'', ''docx'', ''pdf''] ''now'' (JObj []) None = Some d \<and>
      do_resolved_output_type d \<in> {''docx'', ''pdf'', ''pptx''} \<and>
      mset (map rc_output_type (do_ranked_candidates d)) = {# ''docx'', ''pdf'', ''pptx'' #}"
  by (rule decide_resolves) (simp add: ALLOWED_FORMATS_def)

text \<open>
  A format the teacher asked for wins over everything; else a format the interpretation is constrained
  to; else the first of the ranking.
\<close>

theorem decide_precedence:
  assumes "decide E hash_order now interpretation preferred = Some d"
  shows "do_resolved_output_type d =
      (let teacher = normalize_preferred_output_type E preferred;
           constrained = normalize_preferred_output_type E
             (str_at [''constraints'', ''preferred_output_type''] interpretation)
       in if teacher \<noteq> ''auto'' then teacher else if constrained \<noteq> ''auto'' then constrained
          else rc_output_type (hd (do_ranked_candidates d))) \<and>
    (do_decision_source d = ''teacher_override'' \<longleftrightarrow> normalize_preferred_output_type E preferred \<noteq> ''auto'')"
  using assms
  by (auto simp: decide_def Let_def build_decision_def split: list.splits if_splits)

text \<open>
  If the comparison has no cycle on the candidates of an interpretation, the decision does not depend
  on the iteration order of the hash map.
\<close>

theorem decide_order_independent:
  assumes "mset hash_order = mset ALLOWED_FORMATS" "acyclic_ranking E interpretation"
  shows "decide E hash_order now interpretation preferred =
      decide E ALLOWED_FORMATS now interpretation preferred"
  using rank_independent [OF assms] by (simp add: decide_def)

theorem decide_order_independent_witness:
  "decide sample_externals [''pdf'', ''pptx'', ''docx''] ''now'' (JObj []) None =
     decide sample_externals ALLOWED_FORMATS ''now'' (JObj []) None"
  by (rule decide_order_independent) (simp_all add: ALLOWED_FORMATS_def acyclic_empty)



theorem decide_precedence_witness:
  "\<exists>d. decide sample_externals ALLOWED_FORMATS ''now'' (JObj []) None = Some d \<and>
     do_resolved_output_type d = rc_output_type (hd (do_ranked_candidates d)) \<and>
     do_decision_source d \<noteq> ''teacher_override''"
proof -
  obtain d where d: "decide sample_externals ALLOWED_FORMATS ''now'' (JObj []) None = Some d"
    using decide_empty by blast
  from decide_precedence [OF this] d show ?thesis
    by (simp add: normalize_preferred_output_type_def str_at_def)
qed

definition close_scores :: json where
  "close_scores =
     JObj [(''output_type_candidates'', JArr
       [JObj [(''type'', JStr ''docx''), (''score'', JFloat 4602680620612497860)],
        JObj [(''type'', JStr ''pdf''), (''score'', JFloat 4602679719892572386)],
        JObj [(''type'', JStr ''pptx''), (''score'', JFloat 4602678819172646912)]])]"


lemma close_numbers:
  "f64_of_bits 4602680620612497860 = F_Fin False (1126350266805361 / 2251799813685248)"
  "f64_of_bits 4602679719892572386 = F_Fin False (2252250173647985 / 4503599627370496)"
  "f64_of_bits 4602678819172646912 = F_Fin False (1 / 2)"
  by (simp_all add: f64_of_bits_def Let_def two_pow_def)

lemma round4_close:
  "round4 (F_Fin False (1126350266805361 / 2251799813685248)) = F_Fin False (1126350266805361 / 2251799813685248)"
  "round4 (F_Fin False (2252250173647985 / 4503599627370496)) = F_Fin False (2252250173647985 / 4503599627370496)"
  "round4 (F_Fin False (1 / 2)) = F_Fin False (1 / 2)"
proof -
  have floors: "\<lfloor>10005 / 2 :: rat\<rfloor> = 5002" "\<lfloor>10003 / 2 :: rat\<rfloor> = 5001" "\<lfloor>10001 / 2 :: rat\<rfloor> = 5000"
    by (simp_all add: floor_eq_iff)
  show "round4 (F_Fin False (1126350266805361 / 2251799813685248)) = F_Fin False (1126350266805361 / 2251799813685248)"
    "round4 (F_Fin False (2252250173647985 / 4503599627370496)) = F_Fin False (2252250173647985 / 4503599627370496)"
    "round4 (F_Fin False (1 / 2)) = F_Fin False (1 / 2)"
  by (simp_all add: floors round4_def f64_lit_def round_10000 f64_mul_def f64_div_def f64_round_def
      round_mul_5002 round_mul_5001 round_mul_5000 round_div_5002 round_div_5001 round_div_5000)
qed

lemma add_close:
  "f64_add (F_Fin False 0) (F_Fin False (1126350266805361 / 2251799813685248)) = F_Fin False (1126350266805361 / 2251799813685248)"
  "f64_add (F_Fin False 0) (F_Fin False (2252250173647985 / 4503599627370496)) = F_Fin False (2252250173647985 / 4503599627370496)"
  "f64_add (F_Fin False 0) (F_Fin False (1 / 2)) = F_Fin False (1 / 2)"
  by (simp_all add: f64_add_def fin_val_def Let_def f64_lit_def round_add_5002 round_add_5001 round_div_5000)

lemma no_signals_close: "keyword_signals E close_scores = []"
proof -
  have "decision_haystack E close_scores = []"
    by (simp add: decision_haystack_def close_scores_def nonblank_at_def str_at_def arr_at_def opt_list_def
        List.map_filter_simps)
  then show ?thesis
    by (simp add: keyword_signals_def close_scores_def str_at_def arr_at_def KEYWORD_SIGNALS_def
        keyword_signal_def to_lowercase_def is_ascii_def List.map_filter_simps)
qed

definition close_candidate :: "string \<Rightarrow> rat \<Rightarrow> string list \<Rightarrow> RankedCandidate" where
  "close_candidate t m rs =
     \<lparr>rc_output_type = t, rc_score = F_Fin False m, rc_candidate_score = F_Fin False m,
      rc_reason_code = ''highest_candidate_score'', rc_matched_signals = [], rc_reasons = rs\<rparr>"

lemma final_close:
  "\<exists>r1 r2 r3. final_scores E close_scores =
     [(''docx'', close_candidate ''docx'' (1126350266805361 / 2251799813685248) r1),
      (''pdf'', close_candidate ''pdf'' (2252250173647985 / 4503599627370496) r2),
      (''pptx'', close_candidate ''pptx'' (1 / 2) r3)]"
  by (simp add: final_scores_def no_signals_close)
    (simp add: close_scores_def arr_at_def str_at_def opt_list_def add_llm_score_def initial_scores_def
      ALLOWED_FORMATS_def with_entry_def as_f64_def close_numbers round4_close add_close close_candidate_def Let_def)

lemma compare_close:
  defines "a \<equiv> close_candidate ''docx'' (1126350266805361 / 2251799813685248)"
    and "b \<equiv> close_candidate ''pdf'' (2252250173647985 / 4503599627370496)"
    and "c \<equiv> close_candidate ''pptx'' (1 / 2)"
  shows "compare_candidates (a r1) (b r2) = Greater" "compare_candidates (b r2) (a r1) = Less"
    and "compare_candidates (b r2) (c r3) = Greater" "compare_candidates (c r3) (b r2) = Less"
    and "compare_candidates (a r1) (c r3) = Less" "compare_candidates (c r3) (a r1) = Greater"
  by (simp_all add: a_def b_def c_def close_candidate_def compare_candidates_def f64_sub_def f64_neg_def
      f64_add_def Let_def fin_val_def f64_lit_def round_sub_5002_5001 round_sub_5002_5000
      round_sub_5001_5000 f64_abs_def f64_le_def f64_eq_def f64_lt_def tolerance partial_cmp_def
      type_priority_def)

text \<open>
  The comparison is not transitive: with scores 0.5002, 0.5001 and 0.5 each neighbour is within the
  tolerance of the tie and the outer two are not. What \<open>decide\<close> resolves then depends on the
  iteration order of the hash map: the same interpretation becomes a PDF, a DOCX or a PPTX.
\<close>

theorem decide_depends_on_hash_order:
  "map_option do_resolved_output_type
     (decide E [''docx'', ''pdf'', ''pptx''] now close_scores None) = Some ''pdf'' \<and>
   map_option do_resolved_output_type
     (decide E [''docx'', ''pptx'', ''pdf''] now close_scores None) = Some ''docx'' \<and>
   map_option do_resolved_output_type
     (decide E [''pptx'', ''pdf'', ''docx''] now close_scores None) = Some ''pptx''"
proof -
  obtain r1 r2 r3 where f: "final_scores E close_scores =
     [(''docx'', close_candidate ''docx'' (1126350266805361 / 2251799813685248) r1),
      (''pdf'', close_candidate ''pdf'' (2252250173647985 / 4503599627370496) r2),
      (''pptx'', close_candidate ''pptx'' (1 / 2) r3)]"
    using final_close by blast
  have auto_type: "normalize_preferred_output_type E None = ''auto''"
      "normalize_preferred_output_type E (str_at [''constraints'', ''preferred_output_type''] close_scores) = ''auto''"
    by (simp_all add: normalize_preferred_output_type_def str_at_def close_scores_def)
  have types: "rc_output_type (close_candidate t m rs) = t" for t m rs
    by (simp add: close_candidate_def)
  show ?thesis
    by (simp add: decide_def Let_def auto_type rank_candidates_def f sort_by_def List.map_filter_simps
        compare_close build_decision_def types)
qed

end
