(* ===== verification/Gen_Spec.thy ===== *)
theory Gen_Spec
  imports Ranking
begin

text \<open>
  \<open>build_generation_spec\<close> of \<open>src/src/orchestrator/decision.rs\<close>: the payload the renderer gets, built
  from the interpretation and, when there is one, the content draft. One definition per field the
  function computes, then the object it returns.
\<close>

section \<open>Normalising fields\<close>

definition normalize_emphasis :: "string option \<Rightarrow> string" where
  "normalize_emphasis raw =
     (let r = (case raw of None \<Rightarrow> ''medium'' | Some r \<Rightarrow> r)
      in if r \<in> {''short'', ''brief'', ''concise'', ''minimal''} then ''short''
         else if r \<in> {''long'', ''long_text'', ''detailed'', ''extensive'', ''comprehensive''} then ''long''
         else ''medium'')"

definition normalize_assessment_type :: "externals \<Rightarrow> string \<Rightarrow> string" where
  "normalize_assessment_type E raw =
     (let r = to_lowercase (x_lower E) raw
      in if r \<in> {''assessment'', ''test'', ''exam'', ''evaluation''} then ''assessment''
         else if r \<in> {''activity'', ''exercise'', ''practice'', ''task''} then ''activity''
         else if r \<in> {''reflection'', ''reflect'', ''thinking''} then ''reflection''
         else if r \<in> {''quiz'', ''question'', ''mcq''} then ''quiz''
         else if r \<in> {''assignment'', ''homework'', ''worksheet''} then ''assignment''
         else ''activity'')"

definition normalize_body_block_type :: "externals \<Rightarrow> string \<Rightarrow> string" where
  "normalize_body_block_type E raw =
     (let r = to_lowercase (x_lower E) raw
      in if r \<in> {''paragraph'', ''text'', ''p''} then ''paragraph''
         else if r \<in> {''bullet'', ''bullets'', ''list'', ''ul''} then ''bullet''
         else if r \<in> {''checklist'', ''check'', ''checkbox''} then ''checklist''
         else if r \<in> {''note'', ''callout'', ''info''} then ''note''
         else ''paragraph'')"

definition str_or :: "string \<Rightarrow> string option \<Rightarrow> string" where
  "str_or d x = (case x of None \<Rightarrow> d | Some s \<Rightarrow> s)"

definition require_str :: "string option \<Rightarrow> string \<Rightarrow> string" where
  "require_str val fallback = str_or fallback val"

definition truncate_field :: "string \<Rightarrow> nat \<Rightarrow> string" where
  "truncate_field s max_len =
     (let trimmed = trim s
      in if length (chars trimmed) \<le> max_len then trimmed
         else concat (take (max_len - 3) (chars trimmed)) @ ''...'')"

definition require_str_bounded :: "string option \<Rightarrow> string \<Rightarrow> nat \<Rightarrow> string" where
  "require_str_bounded val fallback max_len = truncate_field (str_or fallback val) max_len"

section \<open>Sections\<close>

definition default_section :: "string \<Rightarrow> json" where
  "default_section teacher_prompt =
     (let truncated = (if 200 < length (chars teacher_prompt)
                       then concat (take 197 (chars teacher_prompt)) @ ''...'' else teacher_prompt)
      in JObj [(''title'', JStr truncated),
               (''purpose'', JStr ''Deliver the requested learning material.''),
               (''body_blocks'',
                  JArr [JObj [(''type'', JStr ''paragraph''), (''content'', JStr teacher_prompt)]]),
               (''emphasis'', JStr ''medium'')])"

definition body_block :: "string \<Rightarrow> string \<Rightarrow> json" where
  "body_block btype content = JObj [(''type'', JStr btype), (''content'', JStr content)]"

text \<open>The blocks of a section, or one paragraph with its purpose when none is left.\<close>

definition blocks_or_purpose :: "string \<Rightarrow> json list option \<Rightarrow> json list" where
  "blocks_or_purpose s_purpose normalized =
     (case normalized of
        None \<Rightarrow> [body_block ''paragraph'' s_purpose]
      | Some bs \<Rightarrow> if bs = [] then [body_block ''paragraph'' s_purpose] else bs)"

definition draft_block :: "externals \<Rightarrow> json \<Rightarrow> json option" where
  "draft_block E b =
     (let btype = str_or ''paragraph'' (str_at [''type''] b);
          content = str_or '''' (str_at [''content''] b)
      in if content = [] then None
         else Some (body_block (normalize_body_block_type E btype) (truncate_field content 1000)))"

definition bullet_block :: "json \<Rightarrow> json option" where
  "bullet_block bullet =
     (let content = str_or '''' (as_str bullet)
      in if content = [] then None else Some (body_block ''bullet'' (truncate_field content 1000)))"

definition section_json :: "string \<Rightarrow> string \<Rightarrow> json list \<Rightarrow> string option \<Rightarrow> json" where
  "section_json s_title s_purpose body_blocks raw_emphasis =
     JObj [(''title'', JStr (truncate_field s_title 200)),
           (''purpose'', JStr (truncate_field s_purpose 500)),
           (''body_blocks'', JArr body_blocks),
           (''emphasis'', JStr (normalize_emphasis raw_emphasis))]"

definition draft_section :: "externals \<Rightarrow> json \<Rightarrow> json" where
  "draft_section E s =
     (let s_title = str_or ''Untitled Section'' (str_at [''title''] s);
          s_purpose = str_or ''Section content'' (str_at [''purpose''] s)
      in section_json s_title s_purpose
           (blocks_or_purpose s_purpose
             (map_option (List.map_filter (draft_block E)) (arr_at [''body_blocks''] s)))
           (str_at [''emphasis''] s))"

definition blueprint_section :: "json \<Rightarrow> json" where
  "blueprint_section s =
     (let s_title = str_or ''Untitled Section'' (str_at [''title''] s);
          s_purpose = str_or ''Section content'' (str_at [''purpose''] s)
      in section_json s_title s_purpose
           (blocks_or_purpose s_purpose
             (map_option (List.map_filter bullet_block) (arr_at [''bullets''] s)))
           (str_at [''estimated_length''] s))"

definition sections_or_default :: "string \<Rightarrow> json list option \<Rightarrow> json list" where
  "sections_or_default teacher_prompt built =
     (case built of
        None \<Rightarrow> [default_section teacher_prompt]
      | Some ss \<Rightarrow> if ss = [] then [default_section teacher_prompt] else ss)"

text \<open>The draft is an envelope with a \<open>payload\<close>, or the payload itself.\<close>

definition draft_payload_of :: "json \<Rightarrow> json" where
  "draft_payload_of d = (case jget ''payload'' d of Some p \<Rightarrow> p | None \<Rightarrow> d)"

definition spec_sections :: "externals \<Rightarrow> json \<Rightarrow> json option \<Rightarrow> string \<Rightarrow> json list" where
  "spec_sections E interpretation draft_payload teacher_prompt =
     (case draft_payload of
        Some draft \<Rightarrow>
          sections_or_default teacher_prompt
            (map_option (map (draft_section E)) (arr_at [''sections''] (draft_payload_of draft)))
      | None \<Rightarrow>
          sections_or_default teacher_prompt
            (map_option (map blueprint_section)
              (arr_at [''document_blueprint'', ''sections''] interpretation)))"

section \<open>The other fields\<close>

definition target_units :: "json \<Rightarrow> string \<Rightarrow> int option" where
  "target_units interpretation export_format =
     (let count = (\<lambda>k. Option.bind (str_at [''interpreted_fields'', k] interpretation) parse_i64)
      in if export_format = ''pptx'' then count ''slide_count'' else count ''page_count'')"

definition assessment_block :: "externals \<Rightarrow> json \<Rightarrow> json option" where
  "assessment_block E b =
     (let a_title = str_or ''Activity'' (str_at [''title''] b);
          raw_type = str_or ''activity'' (str_at [''type''] b);
          instructions = str_or ''Complete the activity.'' (str_at [''instructions''] b)
      in if instructions = [] then None
         else Some (JObj [(''title'', JStr a_title), (''type'', JStr (normalize_assessment_type E raw_type)),
                          (''instructions'', JStr instructions)]))"

definition assessment_blocks :: "externals \<Rightarrow> json \<Rightarrow> json list" where
  "assessment_blocks E interpretation =
     (case arr_at [''assessment_or_activity_blocks''] interpretation of
        None \<Rightarrow> []
      | Some blocks \<Rightarrow> List.map_filter (assessment_block E) blocks)"

definition style_tone :: "json \<Rightarrow> string" where
  "style_tone interpretation =
     truncate_field
       (case str_at [''requested_media_characteristics'', ''tone''] interpretation of
          Some tone \<Rightarrow> tone
        | None \<Rightarrow> str_or ''clear_and_structured'' (str_at [''constraints'', ''tone''] interpretation))
       100"

definition format_prefs :: "json \<Rightarrow> string \<Rightarrow> json list" where
  "format_prefs interpretation export_format =
     (let prefs = concat (opt_list
            (arr_at [''requested_media_characteristics'', ''format_preferences''] interpretation))
      in if prefs = [] then [JStr export_format] else prefs)"

definition as_bool :: "json \<Rightarrow> bool option" where
  "as_bool v = (case v of JBool b \<Rightarrow> Some b | _ \<Rightarrow> None)"

definition asset_json :: "json \<Rightarrow> json" where
  "asset_json a =
     (let a_type = str_or ''text'' (str_at [''type''] a);
          description = str_or ''Asset'' (str_at [''description''] a);
          required = (case Option.bind (jget ''required'' a) as_bool of None \<Rightarrow> False | Some b \<Rightarrow> b);
          normalized_type =
            (if a_type \<in> {''text'', ''image'', ''table'', ''chart'', ''diagram'', ''reference''}
             then a_type else ''text'')
      in JObj [(''type'', JStr normalized_type), (''description'', JStr description),
               (''required'', JBool required)])"

definition spec_assets :: "json \<Rightarrow> json list" where
  "spec_assets interpretation =
     (case arr_at [''assets''] interpretation of None \<Rightarrow> [] | Some arr \<Rightarrow> map asset_json arr)"

definition objective_text :: "externals \<Rightarrow> json \<Rightarrow> string" where
  "objective_text E v =
     (case v of
        JStr s \<Rightarrow> s
      | JObj m \<Rightarrow> (case m of [] \<Rightarrow> ''Objective'' | (k, x) # _ \<Rightarrow> str_or ''Objective'' (as_str x))
      | _ \<Rightarrow> x_json_to_string E v)"

definition learning_objectives :: "externals \<Rightarrow> json \<Rightarrow> json" where
  "learning_objectives E interpretation =
     JArr (case arr_at [''learning_objectives''] interpretation of
             None \<Rightarrow> []
           | Some arr \<Rightarrow> map (\<lambda>v. JStr (objective_text E v)) arr)"

text \<open>\<open>slides\<close>, \<open>presentation_title\<close> and \<open>theme_suggestion\<close> of the draft.\<close>

definition pptx_slides :: "json option \<Rightarrow> json" where
  "pptx_slides draft_payload =
     (case Option.bind draft_payload (\<lambda>d. jget ''slides'' (draft_payload_of d)) of
        None \<Rightarrow> JNull
      | Some s \<Rightarrow> (case as_array s of None \<Rightarrow> JNull | Some a \<Rightarrow> if a = [] then JNull else s))"

definition draft_text :: "string \<Rightarrow> json option \<Rightarrow> json" where
  "draft_text k draft_payload =
     jstr_opt (Option.bind draft_payload (\<lambda>d. str_at [k] (draft_payload_of d)))"

section \<open>The specification\<close>

definition layout_hints :: "json \<Rightarrow> string \<Rightarrow> json list \<Rightarrow> json list \<Rightarrow> json list \<Rightarrow> json" where
  "layout_hints interpretation document_mode sections assets blocks =
     JObj [(''document_mode'', JStr document_mode),
           (''visual_density'', JStr (str_or ''medium''
              (str_at [''requested_media_characteristics'', ''visual_density''] interpretation))),
           (''section_count'', JInt (int (length sections))),
           (''asset_count'', JInt (int (length assets))),
           (''assessment_block_count'', JInt (int (length blocks)))]"

definition page_structure :: "string \<Rightarrow> int option \<Rightarrow> json list \<Rightarrow> json list \<Rightarrow> json" where
  "page_structure unit_type units sections blocks =
     JObj [(''unit_type'', JStr unit_type),
           (''total_units'', JInt (case units of
              Some n \<Rightarrow> n
            | None \<Rightarrow> 1 + int (length sections) + (if blocks = [] then 0 else 1))),
           (''opening_unit'', JBool True),
           (''section_units'', JInt (int (length sections))),
           (''closing_unit'', JBool (blocks \<noteq> [])),
           (''requested_units'', jint_opt units)]"

definition build_generation_spec :: "externals \<Rightarrow> json \<Rightarrow> string \<Rightarrow> json option \<Rightarrow> json" where
  "build_generation_spec E interpretation export_format draft_payload =
     (let document_mode = (if export_format = ''pptx'' then ''slide_deck'' else ''document'');
          unit_type = (if export_format = ''pptx'' then ''slide'' else ''page'');
          units = target_units interpretation export_format;
          teacher_prompt = str_or ''Learning material'' (str_at [''teacher_prompt''] interpretation);
          title = require_str_bounded (str_at [''document_blueprint'', ''title''] interpretation) teacher_prompt 200;
          summary = require_str_bounded (str_at [''document_blueprint'', ''summary''] interpretation) teacher_prompt 1000;
          teacher_delivery_summary =
            require_str_bounded (str_at [''teacher_delivery_summary''] interpretation) teacher_prompt 1000;
          language = require_str (str_at [''language''] interpretation) ''id'';
          source_schema_version =
            str_or ''media_prompt_understanding.v1'' (str_at [''schema_version''] interpretation);
          sections = spec_sections E interpretation draft_payload teacher_prompt;
          blocks = assessment_blocks E interpretation;
          assets = spec_assets interpretation
      in JObj
        [(''schema_version'', JStr ''media_generation_spec.v1''),
         (''source_interpretation_schema_version'', JStr source_schema_version),
         (''export_format'', JStr export_format),
         (''title'', JStr title), (''language'', JStr language), (''summary'', JStr summary),
         (''learning_objectives'', learning_objectives E interpretation),
         (''sections'', JArr sections),
         (''layout_hints'', layout_hints interpretation document_mode sections assets blocks),
         (''style_hints'',
            JObj [(''tone'', JStr (style_tone interpretation)),
                  (''audience_level'', JStr (truncate_field
                     (str_or ''general'' (str_at [''target_audience'', ''level''] interpretation)) 100)),
                  (''format_preferences'', JArr (format_prefs interpretation export_format))]),
         (''page_or_slide_structure'', page_structure unit_type units sections blocks),
         (''content_context'',
            JObj [(''subject_context'', jopt (jget ''subject_context'' interpretation)),
                  (''sub_subject_context'', jopt (jget ''sub_subject_context'' interpretation)),
                  (''target_audience'', jopt (jget ''target_audience'' interpretation))]),
         (''assets'', JArr assets), (''assessment_or_activity_blocks'', JArr blocks),
         (''teacher_delivery_summary'', JStr teacher_delivery_summary),
         (''pptx_slides'', pptx_slides draft_payload),
         (''pptx_presentation_title'', draft_text ''presentation_title'' draft_payload),
         (''pptx_theme_suggestion'', draft_text ''theme_suggestion'' draft_payload),
         (''contract_versions'',
            JObj [(''generator_output_metadata'', JStr ''media_generator_output_metadata.v1'')])])"


section \<open>Laws\<close>

lemma chars_concat_take [simp]: "chars (concat (take n (chars s))) = take n (chars s)"
proof (induction s arbitrary: n rule: chars.induct)
  case (2 c cs)
  show ?case
  proof (cases n)
    case (Suc m)
    let ?rest = "concat (take m (chars (dropWhile is_cont cs)))"
    have "?rest = [] \<or> \<not> is_cont (hd ?rest)"
    proof (cases "dropWhile is_cont cs")
      case Nil
      then show ?thesis by (simp only: chars.simps take_Nil concat.simps simp_thms)
    next
      case (Cons d ds)
      then have "\<not> is_cont d" by (metis hd_dropWhile list.discI list.sel(1))
      with Cons show ?thesis by (cases m) auto
    qed
    from chars_append_clean [OF this, of "c # takeWhile is_cont cs"]
    have "chars ((c # takeWhile is_cont cs) @ ?rest) = chars (c # takeWhile is_cont cs) @ chars ?rest" .
    moreover have "chars (c # takeWhile is_cont cs) = [c # takeWhile is_cont cs]"
    proof -
      have "dropWhile is_cont (takeWhile is_cont cs) = []"
        by (auto simp: dropWhile_eq_Nil_conv dest: set_takeWhileD)
      then show ?thesis by (simp add: takeWhile_takeWhile del: dropWhile_eq_Nil_conv)
    qed
    ultimately show ?thesis using 2 Suc by simp
  qed simp
qed simp

lemma dots: "chars ''...'' = [''.'', ''.'', ''.'']" "\<not> is_cont (CHR ''.'')"
  by (simp_all add: is_cont_def byte_def)

lemma truncate_field_bound: "3 \<le> n \<Longrightarrow> length (chars (truncate_field s n)) \<le> n"
  by (auto simp: truncate_field_def Let_def chars_append_clean dots)

lemma length_chars_le: "length (chars s) \<le> length s"
  by (induction s rule: chars.induct) (auto intro: order_trans length_dropWhile_le)

lemma truncate_field_short: "length (chars (trim s)) \<le> n \<Longrightarrow> truncate_field s n = trim s"
  by (simp add: truncate_field_def)

definition valid_block :: "json \<Rightarrow> bool" where
  "valid_block b \<longleftrightarrow>
     (case str_at [''type''] b of
        None \<Rightarrow> False
      | Some t \<Rightarrow> t \<in> {''paragraph'', ''bullet'', ''checklist'', ''note''}) \<and>
     str_at [''content''] b \<noteq> None"

definition valid_section :: "json \<Rightarrow> bool" where
  "valid_section s \<longleftrightarrow>
     (case str_at [''title''] s of None \<Rightarrow> False | Some t \<Rightarrow> length (chars t) \<le> 200) \<and>
     (case str_at [''purpose''] s of None \<Rightarrow> False | Some p \<Rightarrow> length (chars p) \<le> 500) \<and>
     (case str_at [''emphasis''] s of
        None \<Rightarrow> False | Some e \<Rightarrow> e \<in> {''short'', ''medium'', ''long''}) \<and>
     (case arr_at [''body_blocks''] s of None \<Rightarrow> False | Some bs \<Rightarrow> bs \<noteq> [] \<and> list_all valid_block bs)"

lemma str_at_obj [simp]: "str_at [k] (JObj m) = Option.bind (map_of m k) as_str"
  by (cases "map_of m k") (simp_all add: str_at_def)

lemma arr_at_obj [simp]: "arr_at [k] (JObj m) = Option.bind (map_of m k) as_array"
  by (cases "map_of m k") (simp_all add: arr_at_def)

lemma valid_body_block: "t \<in> {''paragraph'', ''bullet'', ''checklist'', ''note''} \<Longrightarrow> valid_block (body_block t c)"
  by (auto simp: valid_block_def body_block_def)

lemma list_all_map_filter:
  "(\<And>x y. f x = Some y \<Longrightarrow> P y) \<Longrightarrow> list_all P (List.map_filter f xs)"
  by (auto simp: List.map_filter_def list_all_iff)

lemma valid_draft_block: "draft_block E b = Some y \<Longrightarrow> valid_block y"
  by (auto simp: draft_block_def Let_def normalize_body_block_type_def intro!: valid_body_block split: if_splits)

lemma valid_bullet_block: "bullet_block b = Some y \<Longrightarrow> valid_block y"
  by (auto simp: bullet_block_def Let_def intro!: valid_body_block split: if_splits)

lemma valid_blocks_or_purpose:
  assumes "\<And>bs. x = Some bs \<Longrightarrow> list_all valid_block bs"
  shows "blocks_or_purpose p x \<noteq> [] \<and> list_all valid_block (blocks_or_purpose p x)"
  using assms by (auto simp: blocks_or_purpose_def valid_body_block split: option.splits)

lemma valid_section_json:
  "bs \<noteq> [] \<Longrightarrow> list_all valid_block bs \<Longrightarrow> valid_section (section_json t p bs e)"
  by (auto simp: valid_section_def section_json_def truncate_field_bound normalize_emphasis_def Let_def)

lemma valid_draft_section: "valid_section (draft_section E s)"
  unfolding draft_section_def Let_def
  by (rule valid_section_json)
    (use valid_blocks_or_purpose [of "map_option (List.map_filter (draft_block E)) (arr_at [''body_blocks''] s)"] in
      \<open>auto intro!: list_all_map_filter valid_draft_block\<close>)

lemma valid_blueprint_section: "valid_section (blueprint_section s)"
  unfolding blueprint_section_def Let_def
  by (rule valid_section_json)
    (use valid_blocks_or_purpose [of "map_option (List.map_filter bullet_block) (arr_at [''bullets''] s)"] in
      \<open>auto intro!: list_all_map_filter valid_bullet_block\<close>)

lemma valid_default_section: "valid_section (default_section p)"
proof -
  have "length (chars ''Deliver the requested learning material.'') \<le> 500"
    by (rule order_trans [OF length_chars_le]) simp
  moreover have "length (chars (concat (take 197 (chars p)) @ ''...'')) \<le> 200"
    by (simp add: chars_append_clean dots)
  ultimately show ?thesis
    by (simp add: default_section_def Let_def valid_section_def valid_block_def del: chars.simps)
qed

lemma spec_sections_valid:
  "spec_sections E interpretation draft_payload p \<noteq> [] \<and>
   list_all valid_section (spec_sections E interpretation draft_payload p)"
  by (auto simp: spec_sections_def sections_or_default_def valid_default_section valid_draft_section
      valid_blueprint_section list_all_iff split: option.splits)

section \<open>Properties\<close>


text \<open>
  The counts of the specification are those of its lists, and the total of units is the one asked for,
  or an opening unit, the sections and a closing unit for the assessment.
\<close>

theorem spec_counts_agree:
  assumes "spec = build_generation_spec E interpretation fmt draft_payload"
    and "arr_at [''sections''] spec = Some sections" "arr_at [''assets''] spec = Some assets"
    and "arr_at [''assessment_or_activity_blocks''] spec = Some blocks"
  shows "pointer [''layout_hints'', ''section_count''] spec = Some (JInt (int (length sections)))"
    and "pointer [''layout_hints'', ''asset_count''] spec = Some (JInt (int (length assets)))"
    and "pointer [''layout_hints'', ''assessment_block_count''] spec = Some (JInt (int (length blocks)))"
    and "pointer [''page_or_slide_structure'', ''section_units''] spec = Some (JInt (int (length sections)))"
    and "pointer [''page_or_slide_structure'', ''closing_unit''] spec = Some (JBool (blocks \<noteq> []))"
  using assms by (auto simp: build_generation_spec_def Let_def layout_hints_def page_structure_def)

theorem spec_counts_agree_witness:
  "pointer [''layout_hints'', ''section_count'']
     (build_generation_spec sample_externals (JObj []) ''pdf'' None) = Some (JInt 1)"
  using spec_counts_agree(1) [OF refl, of sample_externals "JObj []" "''pdf''" None
      "[default_section ''Learning material'']" "[]" "[]"]
  by (simp add: build_generation_spec_def Let_def spec_sections_def sections_or_default_def arr_at_def
      str_at_def str_or_def spec_assets_def assessment_blocks_def)

text \<open>
  A blank title of the blueprint is not replaced by the prompt: it is trimmed to the empty string, which
  reaches the renderer, and so does a blank text of a block.
\<close>

theorem blank_title_survives:
  "jget ''title'' (build_generation_spec E
      (JObj [(''teacher_prompt'', JStr ''Photosynthesis''),
             (''document_blueprint'', JObj [(''title'', JStr '' '')])]) fmt draft_payload) = Some (JStr []) \<and>
   draft_block E (JObj [(''content'', JStr '' '')]) = Some (body_block ''paragraph'' [])"
proof -
  have "is_whitespace '' ''" by (simp add: is_whitespace_def whitespace_codes_def byte_def)
  then have "trim '' '' = []" by (simp add: trim_def trim_chars_def)
  then have "truncate_field '' '' n = []" for n by (simp add: truncate_field_def)
  then show ?thesis
    by (simp add: build_generation_spec_def Let_def require_str_bounded_def str_at_def str_or_def
        draft_block_def normalize_body_block_type_def to_lowercase_def is_ascii_def byte_def ascii_lower_def)
qed

end
