(* ===== verification/Decision.thy ===== *)
theory Decision
  imports Generations_Repo Gen_Spec
begin

text \<open>
  \<open>DecisionService::resolve\<close> of \<open>src/src/orchestrator/decision.rs\<close>: how a decision, the content draft
  metadata and the generation specification are written to the row.
\<close>

datatype DecisionError = MissingInterpretation string | Dec_Database sqlx_error | Dec_InvalidUuid string

definition or_value :: "json \<Rightarrow> json option \<Rightarrow> json" where
  "or_value d x = (case x of None \<Rightarrow> d | Some v \<Rightarrow> v)"

definition content_draft_meta :: "json option \<Rightarrow> json" where
  "content_draft_meta draft_payload =
     (case draft_payload of
        Some draft \<Rightarrow>
          JObj [(''source'', or_value (JStr ''interpretation_only'') (jget ''source'' draft)),
                (''schema_version'', jopt (pointer [''payload'', ''schema_version''] draft)),
                (''adapter_provider'', jopt (pointer [''adapter_metadata'', ''provider''] draft)),
                (''adapter_model'', jopt (pointer [''adapter_metadata'', ''model''] draft)),
                (''adapter_primary_provider'',
                   jopt (pointer [''adapter_metadata'', ''primary_provider''] draft)),
                (''adapter_fallback_used'',
                   or_value (JBool False) (pointer [''adapter_metadata'', ''fallback_used''] draft)),
                (''adapter_fallback_reason'',
                   jopt (pointer [''adapter_metadata'', ''fallback_reason''] draft)),
                (''draft_fallback_triggered'',
                   or_value (JBool False) (pointer [''payload'', ''fallback'', ''triggered''] draft)),
                (''draft_fallback_reason_code'',
                   jopt (pointer [''payload'', ''fallback'', ''reason_code''] draft))]
      | None \<Rightarrow>
          JObj [(''source'', JStr ''interpretation_only''), (''schema_version'', JNull),
                (''adapter_provider'', JNull), (''adapter_model'', JNull),
                (''adapter_primary_provider'', JNull), (''adapter_fallback_used'', JBool False),
                (''adapter_fallback_reason'', JNull), (''draft_fallback_triggered'', JBool False),
                (''draft_fallback_reason_code'', JNull)])"

definition decision_value :: "DecisionOutput \<Rightarrow> json option \<Rightarrow> json" where
  "decision_value d draft_payload =
     JObj (AList.update ''content_draft'' (content_draft_meta draft_payload) (decision_fields d))"

definition resolve ::
  "externals \<Rightarrow> string list \<Rightarrow> string \<Rightarrow> string \<Rightarrow> json \<Rightarrow> string option \<Rightarrow> json option \<Rightarrow>
     ('z db_scheme, DecisionError, json) act" where
  "resolve E hash_order now generation_id interpretation preferred draft_payload =
     and_then (ok_or (Dec_InvalidUuid (x_uuid_error E generation_id)) (x_parse_uuid E generation_id)) (\<lambda>gen_id.
       if \<not> is_obj interpretation then
         raise (MissingInterpretation
           ''Interpretation payload must exist before resolving the output type.'')
       else
         and_then (or_panic (decide E hash_order now interpretation preferred)) (\<lambda>d.
         (let spec = build_generation_spec E interpretation (do_resolved_output_type d) draft_payload;
              value = decision_value d draft_payload
          in and_then (map_err Dec_Database
               (db_update gen_id (\<lambda>db_time g.
                  g\<lparr>mg_resolved_output_type := Some (do_resolved_output_type d),
                    mg_decision_payload := Some value, mg_generation_spec_payload := Some spec,
                    mg_error_code := None, mg_error_message := None, mg_updated_at := db_time\<rparr>)))
               (\<lambda>_. ok value))))"

text \<open>\<open>hash_order\<close> is an iteration order of the hash map of the three formats.\<close>

lemma wp_resolve:
  assumes "mset hash_order = mset ALLOWED_FORMATS"
  shows "wp (resolve E hash_order now gid interp pref draft)
     (\<lambda>v s'. \<exists>i d. x_parse_uuid E gid = Some i \<and> is_obj interp \<and>
        decide E hash_order now interp pref = Some d \<and> v = decision_value d draft \<and>
        s' = s\<lparr>faults := faults s',
               gens := update_gen i (\<lambda>g. g\<lparr>mg_resolved_output_type := Some (do_resolved_output_type d),
                    mg_decision_payload := Some v,
                    mg_generation_spec_payload :=
                      Some (build_generation_spec E interp (do_resolved_output_type d) draft),
                    mg_error_code := None, mg_error_message := None, mg_updated_at := db_now s\<rparr>) (gens s)\<rparr>)
     (\<lambda>x s'. s' = s\<lparr>faults := faults s'\<rparr> \<and> x \<noteq> Panic) s"
proof -
  obtain d where "decide E hash_order now interp pref = Some d"
    using decide_total [OF assms] by blast
  then show ?thesis
    unfolding resolve_def Let_def by (intro wp_intros) auto
qed

end
