(* ===== verification/Workflow.thy ===== *)
theory Workflow
  imports Audit_Trail Decision
begin

text \<open>
  The workflow of a generation, \<open>src/src/orchestrator/workflow.rs\<close>: \<open>process\<close> runs four checkpointed
  steps, whose status changes go through the audit trail. The step traits (\<open>InterpretStep\<close> and so
  on) are the fields of \<open>workflow_steps\<close>: actions on the database that can do anything a property
  does not exclude. Its last two fields are what each of the two calls of \<open>resolve\<close> reads from the hash seed and
  the clock. \<open>clk\<close> gives the time at each call of the audit trail. \<open>timed_step\<close> only
  traces and is left out.
\<close>

datatype WorkflowError =
    Wf_NotFound string
  | StepFailed string string
  | AuditTrail AuditTrailError
  | Wf_Decision DecisionError
  | StepProvider string
  | Wf_Database sqlx_error
  | Wf_InvalidUuid string

record workflow_steps =
  w_interpret :: "string \<Rightarrow> (db, WorkflowError, json) act"
  w_draft :: "string \<Rightarrow> (db, WorkflowError, json) act"
  w_submit_job :: "string \<Rightarrow> string \<Rightarrow> (db, WorkflowError, unit) act"
  w_publish :: "string \<Rightarrow> (db, WorkflowError, json) act"
  w_compose :: "string \<Rightarrow> (db, WorkflowError, json) act"
  w_hash_order :: "nat \<Rightarrow> string list"
  w_resolved_at :: "nat \<Rightarrow> string"

section \<open>Queries\<close>

definition wf_parse_uuid :: "externals \<Rightarrow> string \<Rightarrow> (db, WorkflowError, uuid) act" where
  "wf_parse_uuid E s = ok_or (Wf_InvalidUuid (x_uuid_error E s)) (x_parse_uuid E s)"

definition wf_query :: "externals \<Rightarrow> string \<Rightarrow> (generation option \<Rightarrow> sqlx_error + 'a) \<Rightarrow> (db, WorkflowError, 'a) act" where
  "wf_query E generation_id f =
     and_then (wf_parse_uuid E generation_id) (\<lambda>i.
       map_err Wf_Database (db_select (\<lambda>t. f (map_of t i))))"

definition get_status :: "externals \<Rightarrow> string \<Rightarrow> (db, WorkflowError, MediaGenerationStatus) act" where
  "get_status E generation_id =
     and_then (wf_query E generation_id (\<lambda>row. Inr (map_option mg_status row))) (\<lambda>status_str.
     and_then (ok_or (Wf_NotFound generation_id) status_str) (\<lambda>st.
       ok_or (StepFailed ''get_status'' (''Unknown status: '' @ st)) (from_str st)))"

definition wf_status_before ::
  "externals \<Rightarrow> string \<Rightarrow> MediaGenerationStatus \<Rightarrow> (db, WorkflowError, bool) act" where
  "wf_status_before E generation_id checkpoint =
     and_then (get_status E generation_id) (\<lambda>current. ok (status_before current checkpoint))"

text \<open>PostgreSQL's \<open>v->>'k'\<close>, and \<open>v->>0\<close> (a scalar counts as an array of itself).\<close>

definition text_of :: "externals \<Rightarrow> json \<Rightarrow> string option" where
  "text_of E v = (case v of JNull \<Rightarrow> None | JStr s \<Rightarrow> Some s | _ \<Rightarrow> Some (x_jsonb_text E v))"

definition arrow_text :: "externals \<Rightarrow> string \<Rightarrow> json \<Rightarrow> string option" where
  "arrow_text E k v = Option.bind (jget k v) (text_of E)"

definition index0_text :: "externals \<Rightarrow> json \<Rightarrow> string option" where
  "index0_text E v =
     (case v of JObj _ \<Rightarrow> None | JArr [] \<Rightarrow> None | JArr (x # _) \<Rightarrow> text_of E x | _ \<Rightarrow> text_of E v)"

text \<open>\<open>p IS NOT NULL AND p->>'schema_version' IS NOT NULL AND p->>'schema_version' != ''\<close>.\<close>

definition has_schema_version :: "externals \<Rightarrow> json option \<Rightarrow> bool" where
  "has_schema_version E p =
     (case p of
        None \<Rightarrow> False
      | Some v \<Rightarrow> (case arrow_text E ''schema_version'' v of None \<Rightarrow> False | Some s \<Rightarrow> s \<noteq> []))"

definition draft_source :: "externals \<Rightarrow> generation \<Rightarrow> string option" where
  "draft_source E g =
     Option.bind (mg_decision_payload g) (\<lambda>d. Option.bind (jget ''content_draft'' d) (arrow_text E ''source''))"

definition row_classified :: "externals \<Rightarrow> generation \<Rightarrow> bool" where
  "row_classified E g \<longleftrightarrow>
     has_schema_version E (mg_interpretation_payload g) \<and>
     has_schema_version E (mg_generation_spec_payload g) \<and>
     mg_resolved_output_type g \<noteq> None \<and> mg_resolved_output_type g \<noteq> Some []"

definition has_classification :: "externals \<Rightarrow> string \<Rightarrow> (db, WorkflowError, bool) act" where
  "has_classification E generation_id =
     and_then (wf_query E generation_id (\<lambda>row. Inr
         (case row of
            Some g \<Rightarrow> if row_classified E g then Some (draft_source E g) else None
          | None \<Rightarrow> None)))
       (\<lambda>row. ok (case row of
            Some (Some source) \<Rightarrow> source \<noteq> ''interpretation_only''
          | Some None \<Rightarrow> True
          | None \<Rightarrow> False))"

definition has_publication_entities :: "externals \<Rightarrow> string \<Rightarrow> (db, WorkflowError, bool) act" where
  "has_publication_entities E generation_id =
     wf_query E generation_id (\<lambda>row. Inr
       (case row of
          Some g \<Rightarrow> mg_topic_id g \<noteq> None \<and> mg_content_id g \<noteq> None \<and> mg_recommended_project_id g \<noteq> None
        | None \<Rightarrow> False))"

definition has_final_delivery_payload :: "externals \<Rightarrow> string \<Rightarrow> (db, WorkflowError, bool) act" where
  "has_final_delivery_payload E generation_id =
     wf_query E generation_id (\<lambda>row. Inr
       (case row of Some g \<Rightarrow> has_schema_version E (mg_delivery_payload g) | None \<Rightarrow> False))"

definition get_decision_context :: "externals \<Rightarrow> string \<Rightarrow> (db, WorkflowError, json) act" where
  "get_decision_context E generation_id =
     wf_query E generation_id (\<lambda>row. Inr (jopt (Option.bind row mg_decision_payload)))"

section \<open>Steps\<close>

definition wf_transition ::
  "externals \<Rightarrow> datetime \<Rightarrow> string \<Rightarrow> MediaGenerationStatus \<Rightarrow> json \<Rightarrow> int \<Rightarrow> json option \<Rightarrow>
     (db, WorkflowError, unit) act" where
  "wf_transition E now generation_id to_status ctx attempt job_context =
     and_then (map_err AuditTrail
       (transition E now generation_id to_status (Some ctx) (Some attempt) job_context)) (\<lambda>_. ok ())"

definition wf_resolve ::
  "externals \<Rightarrow> workflow_steps \<Rightarrow> nat \<Rightarrow> string \<Rightarrow> json \<Rightarrow> string option \<Rightarrow> json option \<Rightarrow>
     (db, WorkflowError, json) act" where
  "wf_resolve E W call generation_id interpretation preferred draft =
     map_err Wf_Decision (resolve E (w_hash_order W call) (w_resolved_at W call)
       generation_id interpretation preferred draft)"

definition ensure_classified ::
  "externals \<Rightarrow> workflow_steps \<Rightarrow> (nat \<Rightarrow> datetime) \<Rightarrow> string \<Rightarrow> int \<Rightarrow> json option \<Rightarrow>
     (db, WorkflowError, unit) act" where
  "ensure_classified E W clk generation_id attempt job_context =
     and_then (wf_status_before E generation_id Interpreting) (\<lambda>before_interpreting.
     and_then (if before_interpreting
               then wf_transition E (clk 1) generation_id Interpreting
                      (JObj [(''step'', JStr ''interpretation'')]) attempt job_context
               else ok ()) (\<lambda>_.
     and_then (has_classification E generation_id) (\<lambda>classified.
     and_then (if \<not> classified
               then
                 and_then (w_interpret W generation_id) (\<lambda>interpretation_payload.
                 and_then (wf_query E generation_id
                     (\<lambda>row. Inr (map_option mg_preferred_output_type row))) (\<lambda>preferred.
                 and_then (wf_resolve E W 0 generation_id interpretation_payload preferred None) (\<lambda>_.
                 and_then (w_draft W generation_id) (\<lambda>draft_payload.
                 and_then (wf_resolve E W 1 generation_id interpretation_payload preferred
                     (Some draft_payload)) (\<lambda>_. ok ())))))
               else ok ()) (\<lambda>_.
     and_then (wf_status_before E generation_id Classified) (\<lambda>before_classified.
       if before_classified then
         and_then (get_decision_context E generation_id) (\<lambda>decision_payload.
           wf_transition E (clk 2) generation_id Classified
             (JObj [(''step'', JStr ''classification''),
                    (''decision_source'', jopt (jget ''decision_source'' decision_payload)),
                    (''reason_code'', jopt (jget ''reason_code'' decision_payload)),
                    (''content_draft_source'',
                       jopt (pointer [''content_draft'', ''source''] decision_payload)),
                    (''resolved_output_type'', jopt (jget ''resolved_output_type'' decision_payload))])
             attempt job_context)
       else ok ())))))"

definition set_processing :: "externals \<Rightarrow> string \<Rightarrow> (db, WorkflowError, unit) act" where
  "set_processing E generation_id =
     and_then (wf_parse_uuid E generation_id) (\<lambda>i.
       map_err Wf_Database (db_update i (\<lambda>db_time g.
         g\<lparr>mg_generation_status := Some ''processing'', mg_updated_at := db_time\<rparr>)))"

definition generation_context :: "string option \<Rightarrow> string option \<Rightarrow> json" where
  "generation_context job_id resolved_type =
     JObj [(''step'', JStr ''generation''), (''job_id'', jstr_opt job_id),
           (''resolved_output_type'', jstr_opt resolved_type)]"

definition ensure_generated ::
  "externals \<Rightarrow> workflow_steps \<Rightarrow> (nat \<Rightarrow> datetime) \<Rightarrow> string \<Rightarrow> string option \<Rightarrow> int \<Rightarrow> json option \<Rightarrow>
     (db, WorkflowError, unit) act" where
  "ensure_generated E W clk generation_id job_id attempt job_context =
     and_then (wf_status_before E generation_id Generating) (\<lambda>before_generating.
     and_then (if before_generating
               then
                 and_then (wf_query E generation_id
                     (\<lambda>row. Inr (Option.bind row mg_resolved_output_type))) (\<lambda>resolved_type.
                 wf_transition E (clk 3) generation_id Generating
                   (generation_context job_id resolved_type)
                   attempt job_context)
               else ok ()) (\<lambda>_.
       case job_id of
         Some jid \<Rightarrow>
           and_then (w_submit_job W generation_id jid) (\<lambda>_. set_processing E generation_id)
       | None \<Rightarrow> ok ()))"

definition ensure_published ::
  "externals \<Rightarrow> workflow_steps \<Rightarrow> (nat \<Rightarrow> datetime) \<Rightarrow> string \<Rightarrow> int \<Rightarrow> json option \<Rightarrow>
     (db, WorkflowError, unit) act" where
  "ensure_published E W clk generation_id attempt job_context =
     and_then (has_publication_entities E generation_id) (\<lambda>published.
       if published then
         and_then (wf_status_before E generation_id Publishing) (\<lambda>before_publishing.
           if before_publishing
           then wf_transition E (clk 4) generation_id Publishing
                  (JObj [(''step'', JStr ''publication''),
                         (''reused_publication_entities'', JBool True)]) attempt job_context
           else ok ())
       else and_then (w_publish W generation_id) (\<lambda>_. ok ()))"

definition delivery_meta :: "externals \<Rightarrow> generation option \<Rightarrow> bool \<times> string option \<times> string option" where
  "delivery_meta E row =
     (let payload = Option.bind row mg_delivery_payload;
          lookup = (\<lambda>path. Option.bind payload (pointer path))
      in (Option.bind (lookup [''fallback'']) (arrow_text E ''triggered'') = Some ''true'',
          Option.bind (lookup [''response_meta'', ''provider'']) (index0_text E),
          Option.bind (lookup [''response_meta'', ''model'']) (index0_text E)))"

definition ensure_completed ::
  "externals \<Rightarrow> workflow_steps \<Rightarrow> (nat \<Rightarrow> datetime) \<Rightarrow> string \<Rightarrow> int \<Rightarrow> json option \<Rightarrow>
     (db, WorkflowError, unit) act" where
  "ensure_completed E W clk generation_id attempt job_context =
     and_then (has_final_delivery_payload E generation_id) (\<lambda>has_payload.
     and_then (if \<not> has_payload
               then and_then (w_compose W generation_id) (\<lambda>_. ok ()) else ok ()) (\<lambda>_.
     and_then (wf_status_before E generation_id Completed) (\<lambda>before_completed.
       if before_completed then
         and_then (wf_query E generation_id (\<lambda>row. Inr (delivery_meta E row))) (\<lambda>(fallback, provider, model).
           wf_transition E (clk 5) generation_id Completed
             (JObj [(''step'', JStr ''delivery''), (''delivery_fallback'', JBool fallback),
                    (''delivery_provider'', jstr_opt provider), (''delivery_model'', jstr_opt model)])
             attempt job_context)
       else ok ())))"

text \<open>
  \<open>SELECT generation_status = 'processing'\<close> read as \<open>bool\<close>: a \<open>NULL\<close> status fails to decode.
\<close>

definition is_processing :: "generation option \<Rightarrow> sqlx_error + bool" where
  "is_processing row =
     (case row of
        None \<Rightarrow> Inr False
      | Some g \<Rightarrow>
          (case mg_generation_status g of
             None \<Rightarrow> Inl UnexpectedNull
           | Some st \<Rightarrow> Inr (st = ''processing'')))"

definition process ::
  "externals \<Rightarrow> workflow_steps \<Rightarrow> (nat \<Rightarrow> datetime) \<Rightarrow> string \<Rightarrow> string option \<Rightarrow> int option \<Rightarrow> json option \<Rightarrow>
     (db, WorkflowError, unit) act" where
  "process E W clk generation_id job_id attempt_opt job_context =
     (let attempt = (case attempt_opt of Some a \<Rightarrow> a | None \<Rightarrow> 1) in
     and_then (map_err AuditTrail (initialize E (clk 0) generation_id)) (\<lambda>_.
     and_then (get_status E generation_id) (\<lambda>status.
       if is_terminal status then ok ()
       else
         and_then (ensure_classified E W clk generation_id attempt job_context) (\<lambda>_.
         and_then (ensure_generated E W clk generation_id job_id attempt job_context) (\<lambda>_.
         and_then (wf_query E generation_id is_processing) (\<lambda>processing.
           if processing then ok ()
           else
             and_then (ensure_published E W clk generation_id attempt job_context) (\<lambda>_.
             ensure_completed E W clk generation_id attempt job_context)))))))"

section \<open>What the workflow relies on\<close>

text \<open>\<open>keeps P m\<close>: the action \<open>m\<close> keeps \<open>P\<close>, whether it succeeds, fails or panics.\<close>

definition keeps :: "('s \<Rightarrow> bool) \<Rightarrow> ('s, 'e, 'a) act \<Rightarrow> bool" where
  "keeps P m \<longleftrightarrow> (\<forall>s. P s \<longrightarrow> wp m (\<lambda>_. P) (\<lambda>_. P) s)"

lemma keeps_snd: "keeps P m \<Longrightarrow> P s \<Longrightarrow> P (snd (m s))"
  by (cases "m s"; cases "fst (m s)") (auto simp: keeps_def wp_def)

named_theorems keeps_intros "closure rules of keeps"

lemma keeps_and_then [keeps_intros]: "keeps P m \<Longrightarrow> (\<And>a. keeps P (f a)) \<Longrightarrow> keeps P (and_then m f)"
  unfolding keeps_def by (auto simp: wp_simps elim!: wp_mono)

lemma keeps_map_err [keeps_intros]: "keeps P m \<Longrightarrow> keeps P (map_err g m)"
  unfolding keeps_def by (simp add: wp_simps)

lemma keeps_ok [keeps_intros]: "keeps P (ok a)"
  and keeps_raise [keeps_intros]: "keeps P (raise e)"
  and keeps_ok_or [keeps_intros]: "keeps P (ok_or e x)"
  and keeps_or_panic [keeps_intros]: "keeps P (or_panic z)"
  unfolding keeps_def by (auto simp: wp_simps split: option.splits)

lemma keeps_act_if [keeps_intros]: "(b \<Longrightarrow> keeps P m) \<Longrightarrow> (\<not> b \<Longrightarrow> keeps P m') \<Longrightarrow> keeps P (if b then m else m')"
  by simp

lemma keeps_case_option [keeps_intros]:
  "keeps P m \<Longrightarrow> (\<And>a. keeps P (f a)) \<Longrightarrow> keeps P (case x of None \<Rightarrow> m | Some a \<Rightarrow> f a)"
  by (cases x) auto

lemma keeps_case_prod [keeps_intros]: "(\<And>a b. keeps P (f a b)) \<Longrightarrow> keeps P (case x of (a, b) \<Rightarrow> f a b)"
  by (cases x) auto

text \<open>The status of one row; the rest of the state is free.\<close>

definition in_status :: "uuid \<Rightarrow> string set \<Rightarrow> db \<Rightarrow> bool" where
  "in_status i S s \<longleftrightarrow> (case map_of (gens s) i of None \<Rightarrow> False | Some g \<Rightarrow> mg_status g \<in> S)"

lemma keeps_db_select [keeps_intros]: "keeps (in_status i S) (db_select f)"
  unfolding keeps_def by (intro allI impI wp_intros) (simp_all add: in_status_def)

lemma keeps_db_update [keeps_intros]:
  "(\<And>t g. mg_status (f t g) = mg_status g) \<Longrightarrow> keeps (in_status i S) (db_update j f)"
  unfolding keeps_def by (intro allI impI wp_intros) (auto simp: in_status_def split: option.splits)

text \<open>
  The contract of a status transition, as a client sees it: it moves the row of the generation to
  the status asked for, if the matrix allows that or it is there already, and keeps every other
  status; on failure it keeps all. A client may conclude that any set of statuses closed under the
  transitions it asks for is kept.
\<close>

definition status_column :: "gen_table \<Rightarrow> uuid \<Rightarrow> string option" where
  "status_column t i = map_option mg_status (map_of t i)"

locale status_keeper =
  fixes trans :: "datetime \<Rightarrow> string \<Rightarrow> MediaGenerationStatus \<Rightarrow> json option \<Rightarrow> int option \<Rightarrow> json option \<Rightarrow>
                    (db, 'e, 'r) act"
  assumes trans_status:
    "wp (trans now gid to_status ctx attempt jc)
       (\<lambda>_ s'. \<exists>i from_status.
          status_column (gens s) i = Some (as_status_str from_status) \<and>
          (from_status = to_status \<or> can_transition from_status to_status) \<and>
          status_column (gens s') = (status_column (gens s))(i \<mapsto> as_status_str to_status))
       (\<lambda>_ s'. status_column (gens s') = status_column (gens s)) s"
begin

lemma keeps_trans:
  assumes "\<And>from_status. as_status_str from_status \<in> S \<Longrightarrow> can_transition from_status to_status \<Longrightarrow>
             as_status_str to_status \<in> S"
  shows "keeps (in_status i S) (trans now gid to_status ctx attempt jc)"
proof -
  have in_status: "in_status i S s \<longleftrightarrow> (\<exists>st. status_column (gens s) i = Some st \<and> st \<in> S)" for s :: db
    by (auto simp: in_status_def status_column_def split: option.splits)
  show ?thesis
    unfolding keeps_def
  proof (intro allI impI, rule wp_mono [OF trans_status])
    fix s s' :: db and r :: 'r
    assume "in_status i S s" and "\<exists>i from_status.
          status_column (gens s) i = Some (as_status_str from_status) \<and>
          (from_status = to_status \<or> can_transition from_status to_status) \<and>
          status_column (gens s') = (status_column (gens s))(i \<mapsto> as_status_str to_status)"
    then show "in_status i S s'" using assms by (auto simp: in_status split: if_splits)
  qed (simp add: in_status)
qed

end

lemma status_column_update_gen:
  "(\<And>g. mg_status (f g) = mg_status g) \<Longrightarrow> status_column (update_gen i f t) = status_column t"
  by (auto simp: status_column_def fun_eq_iff option.map_comp comp_def)

lemma status_column_update_gen_to:
  "map_of t i = Some g \<Longrightarrow> (\<And>g. mg_status (f g) = st) \<Longrightarrow>
     status_column (update_gen i f t) = (status_column t)(i \<mapsto> st)"
  by (auto simp: status_column_def fun_eq_iff)

interpretation audit: status_keeper "transition E" for E
proof (unfold_locales, rule wp_mono [OF wp_transition], goal_cases)
  case (1 now gid to_status ctx attempt jc s p s')
  then obtain i row from_status where
    row: "map_of (gens s) i = Some row" "from_str (mg_status row) = Some from_status"
    and ok: "from_status = to_status \<or> can_transition from_status to_status"
    and s': "s' = s\<lparr>faults := faults s', gens := update_gen i (\<lambda>g. g\<lparr>
                     mg_status := (if from_status = to_status then mg_status g else as_status_str to_status),
                     mg_orchestration_audit_payload := Some p, mg_error_code := None,
                     mg_error_message := None, mg_updated_at := db_now s\<rparr>) (gens s)\<rparr>"
    by (auto split: if_splits)
  have st: "mg_status row = as_status_str from_status" using row(2) by (rule from_str_Some)
  have "status_column (gens s') = (status_column (gens s))(i \<mapsto> as_status_str to_status)"
    unfolding db_eqs(2) [OF s'] using row(1) st
    by (cases "from_status = to_status") (auto simp: status_column_def fun_eq_iff)
  with row(1) st ok show ?case by (auto simp: status_column_def)
next
  case (2 now gid to_status ctx attempt jc s x s')
  then show ?case using db_eqs(1) by metis
qed

lemma keeps_wf_transition [keeps_intros]:
  "(\<And>from_status. as_status_str from_status \<in> S \<Longrightarrow> can_transition from_status to_status \<Longrightarrow>
       as_status_str to_status \<in> S) \<Longrightarrow>
   keeps (in_status i S) (wf_transition E now gid to_status ctx attempt jc)"
  unfolding wf_transition_def by (intro keeps_intros audit.keeps_trans)

lemma keeps_initialize [keeps_intros]: "keeps (in_status i S) (initialize E now gid)"
  unfolding keeps_def
  by (intro allI impI, rule wp_mono [OF wp_initialize])
    (auto dest!: db_eqs simp: in_status_def split: option.splits if_splits)

lemma keeps_wf_resolve [keeps_intros]: "keeps (in_status i S) (wf_resolve E W call gid interp pref draft)"
  unfolding wf_resolve_def resolve_def Let_def by (intro keeps_intros) simp

lemma keeps_queries [keeps_intros]:
  "keeps (in_status i S) (wf_query E gid f)"
  "keeps (in_status i S) (get_status E gid)"
  "keeps (in_status i S) (wf_status_before E gid st)"
  "keeps (in_status i S) (has_classification E gid)"
  "keeps (in_status i S) (has_publication_entities E gid)"
  "keeps (in_status i S) (has_final_delivery_payload E gid)"
  "keeps (in_status i S) (get_decision_context E gid)"
  "keeps (in_status i S) (set_processing E gid)"
  unfolding get_status_def wf_status_before_def has_classification_def has_publication_entities_def
    has_final_delivery_payload_def get_decision_context_def set_processing_def wf_query_def wf_parse_uuid_def
  by (intro keeps_intros; simp)+


text \<open>What a property assumes of the step implementations: they keep the statuses in \<open>S\<close>.\<close>

definition steps_keep :: "(db \<Rightarrow> bool) \<Rightarrow> workflow_steps \<Rightarrow> bool" where
  "steps_keep P W \<longleftrightarrow>
     (\<forall>gid. keeps P (w_interpret W gid) \<and> keeps P (w_draft W gid) \<and>
            (\<forall>jid. keeps P (w_submit_job W gid jid)) \<and>
            keeps P (w_publish W gid) \<and> keeps P (w_compose W gid))"

lemma keeps_steps [keeps_intros]:
  assumes "steps_keep P W"
  shows "keeps P (w_interpret W gid)" "keeps P (w_draft W gid)" "keeps P (w_submit_job W gid jid)"
    "keeps P (w_publish W gid)" "keeps P (w_compose W gid)"
  using assms by (simp_all add: steps_keep_def)

lemma keeps_process:
  assumes steps: "steps_keep (in_status i S) W"
    and closed: "\<And>a b. as_status_str a \<in> S \<Longrightarrow> can_transition a b \<Longrightarrow>
        b \<in> {Interpreting, Classified, Generating, Publishing, Completed} \<Longrightarrow> as_status_str b \<in> S"
  shows "keeps (in_status i S) (process E W clk gid job_id attempt jc)"
proof -
  note trans = keeps_wf_transition [OF closed]
  have 1: "keeps (in_status i S) (ensure_classified E W clk gid a jc)" for a
    unfolding ensure_classified_def
    by (intro keeps_intros steps trans) (auto intro: closed)
  have 2: "keeps (in_status i S) (ensure_generated E W clk gid job_id a jc)" for a
    unfolding ensure_generated_def
    by (intro keeps_intros steps trans) (auto intro: closed)
  have 3: "keeps (in_status i S) (ensure_published E W clk gid a jc)" for a
    unfolding ensure_published_def
    by (intro keeps_intros steps trans) (auto intro: closed)
  have 4: "keeps (in_status i S) (ensure_completed E W clk gid a jc)" for a
    unfolding ensure_completed_def
    by (intro keeps_intros steps trans) (auto intro: closed)
  show ?thesis
    unfolding process_def Let_def by (intro keeps_intros 1 2 3 4)
qed

definition LIVE :: "string set" where
  "LIVE = {''queued'', ''interpreting'', ''classified'', ''generating''}"

lemma wp_wf_query_exact:
  "faults s = [] \<Longrightarrow> x_parse_uuid E gid = Some i \<Longrightarrow>
   wp (wf_query E gid f) Q R s =
     (case f (map_of (gens s) i) of Inl e \<Rightarrow> R (Error (Wf_Database e)) s | Inr a \<Rightarrow> Q a s)"
  by (auto simp: wf_query_def wf_parse_uuid_def wp_simps split: sum.splits)

text \<open>Without faults \<open>initialize\<close> returns, and changes at most the audit payload of the row.\<close>

lemma initialize_runs:
  assumes "faults s = []" and "x_parse_uuid E gid = Some i" and "map_of (gens s) i = Some g"
  shows "wp (initialize E now gid)
    (\<lambda>p s'. faults s' = [] \<and> map_of (gens s') i = Some (g\<lparr>mg_orchestration_audit_payload := Some p,
        mg_updated_at := (if has_payload g = None then db_now s else mg_updated_at g)\<rparr>) \<and>
       (has_payload g \<noteq> None \<longrightarrow> s' = s) \<and> (audit_table_ok (gens s) \<longrightarrow> audit_table_ok (gens s')) \<and> db_now s' = db_now s)
    (\<lambda>_ _. False) s"
proof -
  have "g\<lparr>mg_orchestration_audit_payload := Some p\<rparr> = g" if "has_payload g = Some p" for p
    using that by (cases g) (auto simp: has_payload_def split: option.splits if_splits)
  then show ?thesis
    unfolding initialize_def parse_uuid_def Let_def
    using assms
    by (auto simp: wp_simps payload_column_ok_def intro!: wp_transaction_exact_I audit_table_ok_update_gen
        split: option.splits)
qed

lemma wp_get_status_exact:
  "faults s = [] \<Longrightarrow> x_parse_uuid E gid = Some i \<Longrightarrow> map_of (gens s) i = Some g \<Longrightarrow>
   from_str (mg_status g) = Some st \<Longrightarrow> wp (get_status E gid) Q R s = Q st s"
  by (simp add: get_status_def wp_simps wp_wf_query_exact)

lemma wp_status_before_exact:
  "faults s = [] \<Longrightarrow> x_parse_uuid E gid = Some i \<Longrightarrow> map_of (gens s) i = Some g \<Longrightarrow>
   from_str (mg_status g) = Some st \<Longrightarrow> wp (wf_status_before E gid c) Q R s = Q (status_before st c) s"
  by (simp add: wf_status_before_def wp_simps wp_get_status_exact)

lemma wp_has_classification_exact:
  "faults s = [] \<Longrightarrow> x_parse_uuid E gid = Some i \<Longrightarrow> map_of (gens s) i = Some g \<Longrightarrow>
   wp (has_classification E gid) Q R s =
     Q (row_classified E g \<and> draft_source E g \<noteq> Some ''interpretation_only'') s"
  by (simp add: has_classification_def wp_simps wp_wf_query_exact split: option.splits)

lemma status_before_simps:
  "status_before Generating Interpreting = False" "status_before Generating Classified = False"
  "status_before Generating Generating = False"
  "status_before Classified Interpreting = False" "status_before Classified Classified = False"
  "status_before Classified Generating = True"
  by (simp_all add: status_before_def)

lemma wp_wf_transition_exact:
  assumes "faults s = []" and "audit_table_ok (gens s)" and "x_parse_uuid E gid = Some i"
    and "map_of (gens s) i = Some row" and "from_str (mg_status row) = Some from_status"
    and "can_transition from_status to_status" and "filter_context (Some ctx) \<noteq> None"
  shows "wp (wf_transition E now gid to_status ctx a jc)
     (\<lambda>_ s'. faults s' = [] \<and> (\<exists>p. map_of (gens s') i = Some (row\<lparr>mg_status := as_status_str to_status,
         mg_orchestration_audit_payload := Some p, mg_error_code := None, mg_error_message := None,
         mg_updated_at := db_now s\<rparr>))) (\<lambda>_ _. False) s"
proof -
  have neq: "from_status \<noteq> to_status" using assms(6) by (cases from_status) auto
  have ok: "payload_ok (payload_or_base E now (mg_orchestration_audit_payload row))"
    using audit_table_okD [OF assms(2,4)] by (rule payload_or_base_ok)
  obtain payload where payload: "apply_runtime_metadata E
      (payload_or_base E now (mg_orchestration_audit_payload row)) now (Some a) jc = Some payload"
      "payload_ok payload"
    using keepsD [OF keeps_apply_runtime_metadata ok] by blast
  obtain p where p: "transition_payload E now from_status (mg_status row) to_status (Some ctx) (Some a) payload = Some p"
    using keepsD [OF keeps_transition_payload [OF assms(7)] payload(2)] by blast
  show ?thesis
    unfolding wf_transition_def transition_def parse_uuid_def
    using assms neq payload(1) p
    by (auto simp: wp_simps intro!: wp_transaction_exact_I)
qed

lemma wp_and_then_eta: "wp (and_then m f) Q R = wp m (\<lambda>a. wp (f a) Q R) R"
  by (rule ext) (rule wp_and_then)

lemma process_terminal:
  assumes "faults s = []" and "x_parse_uuid E gid = Some i" and "map_of (gens s) i = Some g"
    and "from_str (mg_status g) = Some st" and "is_terminal st"
  shows "process E W clk gid job_id attempt jc s = (Inr (), snd (initialize E (clk 0) gid s))"
proof -
  obtain p s' where init: "initialize E (clk 0) gid s = (Inr p, s')" and s': "faults s' = []"
      "map_option mg_status (map_of (gens s') i) = Some (mg_status g)"
    using initialize_runs [OF assms(1-3), of "clk 0"]
    by (cases "initialize E (clk 0) gid s") (auto simp: wp_def split: sum.splits)
  have "wp (get_status E gid) (\<lambda>r t. r = st \<and> t = s') (\<lambda>_ _. False) s'"
    using assms(2,4) s' by (auto simp: get_status_def wp_simps wp_wf_query_exact)
  then have "get_status E gid s' = (Inr st, s')"
    by (auto simp: wp_def split: prod.splits sum.splits)
  then show ?thesis
    using init assms(5) by (simp add: process_def Let_def and_then_def map_err_def ok_def)
qed

section \<open>A sample workflow\<close>

text \<open>Steps that succeed and change nothing, and generations at two points of their life.\<close>

definition sample_steps :: workflow_steps where
  "sample_steps =
     \<lparr>w_interpret = (\<lambda>gid. ok (JObj [])), w_draft = (\<lambda>gid. ok (JObj [])),
      w_submit_job = (\<lambda>gid jid. ok ()), w_publish = (\<lambda>gid. ok JNull), w_compose = (\<lambda>gid. ok JNull),
      w_hash_order = (\<lambda>call. ALLOWED_FORMATS), w_resolved_at = (\<lambda>call. ''2026-01-01T00:00:00.000Z'')\<rparr>"

lemma sample_steps_keep: "steps_keep P sample_steps"
  by (simp add: steps_keep_def sample_steps_def keeps_ok)

definition sample_classified :: generation where
  "sample_classified = sample_row
     \<lparr>mg_status := ''classified'',
      mg_interpretation_payload := Some (JObj [(''schema_version'', JStr ''v1'')]),
      mg_generation_spec_payload := Some (JObj [(''schema_version'', JStr ''v1'')]),
      mg_resolved_output_type := Some ''pdf''\<rparr>"

definition db_with :: "generation \<Rightarrow> db" where
  "db_with g = \<lparr>gens = [(1, g)], db_now = 10, faults = []\<rparr>"

lemma db_with_simps [simp]:
  "faults (db_with g) = []" "map_of (gens (db_with g)) 1 = Some g"
  "audit_table_ok (gens (db_with g)) = payload_column_ok g"
  by (simp_all add: db_with_def audit_table_ok_def)

lemma sample_classified_simps:
  "row_classified sample_externals sample_classified"
  "draft_source sample_externals sample_classified = None"
  "mg_status sample_classified = ''classified''" "mg_resolved_output_type sample_classified = Some ''pdf''"
  "mg_orchestration_audit_payload sample_classified = None" "mg_generation_status sample_classified = None"
  by (simp_all add: sample_classified_def row_classified_def draft_source_def has_schema_version_def
      arrow_text_def text_of_def sample_defs)

section \<open>Properties\<close>

text \<open>
  C2. The workflow respects the lifecycle: if the step implementations do not move the status of a
  generation other than along the matrix, then \<open>process\<close>, under any faults, for any job and any number
  of retries before, leaves its status where it was or moves it forward.
\<close>

theorem process_respects_lifecycle:
  assumes "steps_keep (in_status i {b. lifecycle_ahead st b}) W"
    and "status_column (gens s) i = Some st"
  shows "\<exists>st'. status_column (gens (snd (process E W clk gid job_id attempt jc s))) i = Some st' \<and>
           lifecycle_ahead st st'"
proof -
  have "keeps (in_status i {b. lifecycle_ahead st b}) (process E W clk gid job_id attempt jc)"
  proof (rule keeps_process [OF assms(1)])
    fix a b assume "as_status_str a \<in> {b. lifecycle_ahead st b}" "can_transition a b"
    then show "as_status_str b \<in> {b. lifecycle_ahead st b}"
      using lifecycle_ahead_step [of st "as_status_str a" "as_status_str b"]
      by (simp add: status_step_def)
  qed
  moreover have "in_status i {b. lifecycle_ahead st b} s"
    using assms(2) by (auto simp: in_status_def status_column_def lifecycle_ahead_def)
  ultimately have "in_status i {b. lifecycle_ahead st b} (snd (process E W clk gid job_id attempt jc s))"
    by (rule keeps_snd)
  then show ?thesis by (auto simp: in_status_def status_column_def split: option.splits)
qed

theorem process_respects_lifecycle_witness:
  "\<exists>st'. status_column (gens (snd (process sample_externals sample_steps (\<lambda>n. 0) ''g1'' None None None sample_db))) 1 = Some st' \<and>
     lifecycle_ahead ''queued'' st'"
  by (rule process_respects_lifecycle [OF sample_steps_keep]) (simp add: status_column_def)

text \<open>
  No workflow run completes a generation: a generation that is queued, interpreting, classified or
  generating is still in one of these statuses after \<open>process\<close>, whatever the steps return and
  however often it runs, unless a step changes the status itself. Nothing requests the status
  \<open>uploading\<close>, through which the matrix leads on.
\<close>

theorem process_never_completes:
  assumes "steps_keep (in_status i LIVE) W" and "in_status i LIVE s"
  shows "in_status i LIVE (fold (\<lambda>(job_id, attempt) t. snd (process E W clk gid job_id attempt jc t)) runs s)"
proof -
  have "keeps (in_status i LIVE) (process E W clk gid job_id attempt jc)" for job_id attempt
  proof (rule keeps_process [OF assms(1)])
    fix a b assume "as_status_str a \<in> LIVE" "can_transition a b"
      "b \<in> {Interpreting, Classified, Generating, Publishing, Completed}"
    then show "as_status_str b \<in> LIVE" by (cases a) (auto simp: LIVE_def)
  qed
  note step = keeps_snd [OF this]
  show ?thesis using assms(2)
  proof (induction runs arbitrary: s)
    case (Cons r runs)
    then show ?case using step by (cases r) simp
  qed simp
qed

theorem process_never_completes_witness:
  "in_status 1 LIVE (fold (\<lambda>(job_id, attempt) t. snd (process sample_externals sample_steps (\<lambda>n. 0) ''g1'' job_id attempt None t))
     [(Some ''j1'', Some 1), (None, Some 2)] sample_db)"
  by (rule process_never_completes [OF sample_steps_keep]) (simp add: in_status_def LIVE_def)

text \<open>
  A finished generation is left alone: on a row whose status is terminal \<open>process\<close> succeeds after
  \<open>initialize\<close>, without running any step, whatever the steps are.
\<close>

theorem process_terminal_noop:
  assumes "faults s = []" and "x_parse_uuid E gid = Some i" and "map_of (gens s) i = Some g"
    and "from_str (mg_status g) = Some st" and "is_terminal st"
  shows "process E W clk gid job_id attempt jc s = (Inr (), snd (initialize E (clk 0) gid s))"
  using assms by (rule process_terminal)

theorem process_terminal_noop_witness:
  "process sample_externals sample_steps (\<lambda>n. 0) ''g1'' (Some ''j1'') None None (db_with (sample_row\<lparr>mg_status := ''failed''\<rparr>)) =
     (Inr (), snd (initialize sample_externals 0 ''g1'' (db_with (sample_row\<lparr>mg_status := ''failed''\<rparr>))))"
  by (rule process_terminal_noop [where i = 1 and g = "sample_row\<lparr>mg_status := ''failed''\<rparr>" and st = Failed])
    (simp_all add: from_str_failed)

text \<open>
  A draft without a \<open>source\<close> is not recorded as a draft: after the decision is resolved with such
  a draft, the classification still counts as missing, so the next run of the workflow calls the
  interpreter and the drafter again.
\<close>

theorem undrafted_classification_repeats:
  assumes "faults s = []" and "x_parse_uuid E gid = Some i" and "is_obj interpretation"
    and "jget ''source'' draft = None" and "mset (w_hash_order W call) = mset ALLOWED_FORMATS"
  shows "wp (wf_resolve E W call gid interpretation preferred (Some draft))
     (\<lambda>_ s'. has_classification E gid s' = (Inr False, s')) (\<lambda>_ _. False) s"
proof -
  have src: "draft_source E g = Some ''interpretation_only''"
    if "mg_decision_payload g = Some (decision_value d (Some draft))" for g :: generation and d
    using that assms(4)
    by (simp add: draft_source_def decision_value_def content_draft_meta_def update_conv arrow_text_def
        text_of_def or_value_def)
  have cls: "has_classification E gid t = (Inr False, t)"
    if "faults t = []" "\<And>g. map_of (gens t) i = Some g \<Longrightarrow> draft_source E g = Some ''interpretation_only''"
    for t
  proof -
    have "wp (has_classification E gid) (\<lambda>r u. r = False \<and> u = t) (\<lambda>_ _. False) t"
      using that assms(2) by (auto simp: has_classification_def wp_simps wp_wf_query_exact split: option.splits)
    then show ?thesis by (auto simp: wp_def split: prod.splits sum.splits)
  qed
  obtain d where "decide E (w_hash_order W call) (w_resolved_at W call) interpretation preferred = Some d"
    using decide_total [OF assms(5)] by blast
  then show ?thesis
    unfolding wf_resolve_def resolve_def Let_def
    using assms(1-3) by (auto simp: wp_simps intro!: cls src [where d = d])
qed

theorem undrafted_classification_repeats_witness:
  "wp (wf_resolve sample_externals sample_steps 1 ''g1'' (JObj []) None (Some (JObj [(''payload'', JNull)])))
     (\<lambda>_ s'. has_classification sample_externals ''g1'' s' = (Inr False, s')) (\<lambda>_ _. False) sample_db"
  by (rule undrafted_classification_repeats [where i = 1]) (simp_all add: sample_steps_def)

text \<open>
  Without a job id, and with \<open>generation_status\<close> still \<open>NULL\<close>, the workflow of a generation that
  is classified and generating always fails, before publication and without running a step: the
  query for the processing flag cannot decode its result.
\<close>

theorem null_generation_status_fails:
  assumes "faults s = []" and "x_parse_uuid E gid = Some i" and "map_of (gens s) i = Some g"
    and "mg_status g = ''generating''" and "row_classified E g"
    and "draft_source E g \<noteq> Some ''interpretation_only''" and "mg_generation_status g = None"
  shows "fst (process E W clk gid None attempt jc s) = Inl (Error (Wf_Database UnexpectedNull))"
proof -
  have gen: "from_str ''generating'' = Some Generating" using from_str_as_str [of Generating] by simp
  have "wp (process E W clk gid None attempt jc) (\<lambda>_ _. False)
      (\<lambda>x _. x = Error (Wf_Database UnexpectedNull)) s"
    unfolding process_def Let_def wp_and_then wp_map_err
  proof (rule wp_mono [OF initialize_runs [OF assms(1-3)]])
    fix p and s' :: db
    let ?g = "g\<lparr>mg_orchestration_audit_payload := Some p,
        mg_updated_at := if has_payload g = None then db_now s else mg_updated_at g\<rparr>"
    assume "faults s' = [] \<and> map_of (gens s') i = Some ?g \<and> (has_payload g \<noteq> None \<longrightarrow> s' = s) \<and>
       (audit_table_ok (gens s) \<longrightarrow> audit_table_ok (gens s')) \<and> db_now s' = db_now s"
    then have s': "faults s' = []" "map_of (gens s') i = Some ?g" by simp_all
    have rc: "row_classified E ?g" "draft_source E ?g \<noteq> Some ''interpretation_only''"
      using assms(5,6) by (simp_all add: row_classified_def draft_source_def)
    have st: "from_str (mg_status ?g) = Some Generating" using assms(4) gen by simp
    note exact = wp_get_status_exact [OF s'(1) assms(2) s'(2) st]
      wp_status_before_exact [OF s'(1) assms(2) s'(2) st] wp_has_classification_exact [OF s'(1) assms(2) s'(2)]
      wp_wf_query_exact [OF s'(1) assms(2)]
    show "wp (get_status E gid) (\<lambda>status. wp (if is_terminal status then ok ()
        else and_then (ensure_classified E W clk gid (case attempt of None \<Rightarrow> 1 | Some a \<Rightarrow> a) jc) (\<lambda>_.
             and_then (ensure_generated E W clk gid None (case attempt of None \<Rightarrow> 1 | Some a \<Rightarrow> a) jc) (\<lambda>_.
             and_then (wf_query E gid is_processing) (\<lambda>processing.
               if processing then ok ()
               else and_then (ensure_published E W clk gid (case attempt of None \<Rightarrow> 1 | Some a \<Rightarrow> a) jc) (\<lambda>_.
                    ensure_completed E W clk gid (case attempt of None \<Rightarrow> 1 | Some a \<Rightarrow> a) jc)))))
        (\<lambda>_ _. False) (\<lambda>x _. x = Error (Wf_Database UnexpectedNull)))
        (\<lambda>x _. x = Error (Wf_Database UnexpectedNull)) s'"
      by (simp add: exact ensure_classified_def ensure_generated_def wp_simps status_before_simps rc
          s' is_processing_def assms(7))
  qed simp
  then show ?thesis by (auto simp: wp_def split: prod.splits sum.splits)
qed

theorem null_generation_status_fails_witness:
  "fst (process sample_externals sample_steps (\<lambda>n. 0) ''g1'' None None None
      (db_with (sample_classified\<lparr>mg_status := ''generating''\<rparr>))) = Inl (Error (Wf_Database UnexpectedNull))"
  by (rule null_generation_status_fails [where i = 1 and g = "sample_classified\<lparr>mg_status := ''generating''\<rparr>"])
    (use sample_classified_simps in \<open>simp_all add: row_classified_def draft_source_def\<close>)

text \<open>
  C37. Hand-over to the renderer: on a classified generation with a job id, when nothing fails and the
  renderer accepts the job, \<open>process\<close> moves the generation to \<open>generating\<close>, marks it as processing
  and returns without publishing or composing anything.
\<close>

theorem process_hands_over:
  assumes "faults s = []" and "audit_table_ok (gens s)" and "x_parse_uuid E gid = Some i"
    and "map_of (gens s) i = Some g" and "mg_status g = ''classified''" and "row_classified E g"
    and "draft_source E g \<noteq> Some ''interpretation_only''"
    and "\<And>t. w_submit_job W gid jid t = (Inr (), t)"
    and "filter_context (Some (generation_context (Some jid) (mg_resolved_output_type g))) \<noteq> None"
  shows "wp (process E W clk gid (Some jid) attempt jc)
     (\<lambda>_ s'. \<exists>g'. map_of (gens s') i = Some g' \<and> mg_status g' = ''generating'' \<and>
        mg_generation_status g' = Some ''processing'' \<and> mg_topic_id g' = mg_topic_id g \<and>
        mg_delivery_payload g' = mg_delivery_payload g)
     (\<lambda>_ _. False) s"
  unfolding process_def Let_def wp_and_then wp_map_err
proof (rule wp_mono [OF initialize_runs [OF assms(1,3,4)]], goal_cases)
  case (1 p s')
  let ?g = "g\<lparr>mg_orchestration_audit_payload := Some p,
        mg_updated_at := if has_payload g = None then db_now s else mg_updated_at g\<rparr>"
  from 1 assms(2) have s': "faults s' = []" "map_of (gens s') i = Some ?g" "audit_table_ok (gens s')" by simp_all
  have rc: "row_classified E ?g" "draft_source E ?g \<noteq> Some ''interpretation_only''"
    using assms(6,7) by (simp_all add: row_classified_def draft_source_def)
  have st: "from_str (mg_status ?g) = Some Classified" using assms(5) from_str_as_str [of Classified] by simp
  note exact = wp_get_status_exact [OF s'(1) assms(3) s'(2) st]
    wp_status_before_exact [OF s'(1) assms(3) s'(2) st] wp_has_classification_exact [OF s'(1) assms(3) s'(2)]
    wp_wf_query_exact [OF s'(1) assms(3)]
  have trans: "wp (wf_transition E (clk 3) gid Generating (generation_context (Some jid) (mg_resolved_output_type g)) a jc)
     (\<lambda>_ t. faults t = [] \<and> (\<exists>p. map_of (gens t) i = Some (?g\<lparr>mg_status := ''generating'',
         mg_orchestration_audit_payload := Some p, mg_error_code := None, mg_error_message := None,
         mg_updated_at := db_now s'\<rparr>))) (\<lambda>_ _. False) s'" for a
    using wp_wf_transition_exact [OF s'(1,3) assms(3) s'(2) st _ assms(9), of Generating "clk 3" a jc] by simp
  have submit: "wp (w_submit_job W gid jid) Q R t = Q () t" for Q R t
    using assms(8) by (simp add: wp_def)
  have rest: "wp (w_submit_job W gid jid) (\<lambda>_. wp (set_processing E gid)
     (\<lambda>_. wp (wf_query E gid is_processing) (\<lambda>processing. wp (if processing then ok () else m)
        (\<lambda>_ s'. \<exists>g'. map_of (gens s') i = Some g' \<and> mg_status g' = ''generating'' \<and>
        mg_generation_status g' = Some ''processing'' \<and> mg_topic_id g' = mg_topic_id g \<and>
        mg_delivery_payload g' = mg_delivery_payload g) (\<lambda>_ _. False)) (\<lambda>_ _. False)) (\<lambda>_ _. False)) (\<lambda>_ _. False) t"
    if "faults t = []" "map_of (gens t) i = Some (?g\<lparr>mg_status := ''generating'',
         mg_orchestration_audit_payload := Some p', mg_error_code := None, mg_error_message := None,
         mg_updated_at := db_now s'\<rparr>)" for t m p'
    using that assms(3)
    by (simp add: submit set_processing_def wf_parse_uuid_def wp_simps wp_wf_query_exact [OF _ assms(3)] is_processing_def)
  have bind: "Option.bind (map_of (gens s') i) mg_resolved_output_type = mg_resolved_output_type g"
    by (simp add: s')
  show ?case
    apply (simp add: exact ensure_classified_def wp_simps status_before_simps rc)
    apply (simp add: ensure_generated_def exact wp_simps status_before_simps bind)
    apply (rule wp_mono [OF trans])
     apply (elim conjE exE)
     apply (simp only: wp_and_then_eta)
     apply (rule rest)
      apply assumption+
    done
qed simp

theorem process_hands_over_witness:
  "wp (process sample_externals sample_steps (\<lambda>n. 0) ''g1'' (Some ''j1'') None None)
     (\<lambda>_ s'. \<exists>g'. map_of (gens s') 1 = Some g' \<and> mg_status g' = ''generating'') (\<lambda>_ _. False)
     (db_with sample_classified)"
proof -
  have ctx: "filter_context (Some (generation_context (Some ''j1'') (Some ''pdf''))) \<noteq> None" by code_simp
  have submit: "w_submit_job sample_steps ''g1'' ''j1'' t = (Inr (), t)" for t
    by (simp add: sample_steps_def ok_def)
  show ?thesis
    by (rule wp_mono [OF process_hands_over [where i = 1 and g = sample_classified, OF _ _ _ _ _ _ _ submit]])
      (auto simp: sample_classified_simps payload_column_ok_def intro: ctx [simplified])
qed

end
