(* ===== verification/Worker.thy ===== *)
theory Worker
  imports Job_Queue Workflow Breaker
begin

text \<open>
  The worker, \<open>src/src/queue/worker.rs\<close>: the loop that gates reads by a circuit breaker, claims
  pending entries and reads new ones, and the task that runs one entry through the workflow and then
  acknowledges it, re-enqueues it after a backoff, or moves it to the dead-letter queue. The breaker
  is the two atomics \<open>consecutive_failures\<close> and \<open>circuit_open_until\<close>. \<open>show_err\<close> is the display form
  of an error; a Redis connection the task cannot get (\<open>conn_ok = False\<close>) ends it.
\<close>

definition BATCH_SIZE :: nat where "BATCH_SIZE = 10"
definition BLOCK_SECS :: nat where "BLOCK_SECS = 5"
definition IDLE_TIMEOUT_SECS :: nat where "IDLE_TIMEOUT_SECS = 300"
definition MAX_TRIES :: int where "MAX_TRIES = 3"
definition CLAIM_INTERVAL :: nat where "CLAIM_INTERVAL = 6"
definition BASE_BACKOFF_SECS :: u64 where "BASE_BACKOFF_SECS = 10"
definition MAX_BACKOFF_SECS :: u64 where "MAX_BACKOFF_SECS = 90"
definition CIRCUIT_BREAKER_THRESHOLD :: nat where "CIRCUIT_BREAKER_THRESHOLD = 5"
definition CIRCUIT_BREAKER_COOLDOWN_SECS :: nat where "CIRCUIT_BREAKER_COOLDOWN_SECS = 60"

section \<open>Pure parts\<close>

definition compute_backoff :: "int \<Rightarrow> u64 \<Rightarrow> u64 \<Rightarrow> u64" where
  "compute_backoff attempt base_secs max_secs =
     (let shift = i64_as_u32 (max (wrap_i64 (attempt - 1)) 0);
          delay = saturating_mul_u64 base_secs (shl_u64 1 shift)
      in min delay max_secs)"

definition is_retryable_error :: "externals \<Rightarrow> string \<Rightarrow> bool" where
  "is_retryable_error E error_msg =
     (let lower = to_lowercase (x_lower E) error_msg in
      if contains lower ''artifact_invalid'' then False
      else if contains lower ''incoming request payload failed validation'' then False
      else if contains lower ''contract validation failed'' \<and>
              \<not> contains lower ''timeout'' \<and> \<not> contains lower ''connection'' then False
      else if contains lower ''missing required'' \<or> contains lower ''validation error'' then False
      else True)"

section \<open>The circuit breaker\<close>

record breaker =
  consecutive_failures :: nat
  circuit_open_until :: nat

definition closed_breaker :: breaker where
  "closed_breaker = \<lparr>consecutive_failures = 0, circuit_open_until = 0\<rparr>"

text \<open>The check at the top of the loop: the pause before looking again, or the breaker to go on with.\<close>

definition loop_gate :: "nat \<Rightarrow> breaker \<Rightarrow> nat + breaker" where
  "loop_gate now_epoch b =
     (if circuit_open_until b > 0 \<and> now_epoch < circuit_open_until b
      then Inl (min (circuit_open_until b - now_epoch) 5)
      else if circuit_open_until b > 0 \<and> now_epoch \<ge> circuit_open_until b
           then Inr (b\<lparr>circuit_open_until := 0, consecutive_failures := 0\<rparr>)
      else Inr b)"

definition breaker_success :: "breaker \<Rightarrow> breaker" where
  "breaker_success b = b\<lparr>consecutive_failures := 0, circuit_open_until := 0\<rparr>"

definition breaker_failure :: "nat \<Rightarrow> breaker \<Rightarrow> breaker" where
  "breaker_failure now_epoch b =
     (let new_failures = (consecutive_failures b + 1) mod 2 ^ 32;
          b' = b\<lparr>consecutive_failures := new_failures\<rparr>
      in if new_failures \<ge> CIRCUIT_BREAKER_THRESHOLD
         then b'\<lparr>circuit_open_until := now_epoch + CIRCUIT_BREAKER_COOLDOWN_SECS\<rparr> else b')"

interpretation worker_breaker: counting_breaker consecutive_failures "\<lambda>b. circuit_open_until b > 0"
    breaker_failure breaker_success CIRCUIT_BREAKER_THRESHOLD
  by unfold_locales
    (auto simp: breaker_failure_def breaker_success_def CIRCUIT_BREAKER_THRESHOLD_def
      CIRCUIT_BREAKER_COOLDOWN_SECS_def Let_def)

section \<open>The task of one entry\<close>

datatype disposition = Acknowledge | Dead_letter int string string | Retry u64 int

text \<open>What becomes of an entry, given the error text of its workflow run.\<close>

definition dispose :: "externals \<Rightarrow> StreamEntry \<Rightarrow> string option \<Rightarrow> disposition" where
  "dispose E entry failure =
     (case failure of
        None \<Rightarrow> Acknowledge
      | Some error_msg \<Rightarrow>
          let new_attempt = wrap_i64 (se_attempt entry + 1) in
          if \<not> is_retryable_error E error_msg
          then Dead_letter (se_attempt entry) ''PERMANENT_ERROR'' error_msg
          else if new_attempt > MAX_TRIES then Dead_letter new_attempt ''WORKFLOW_FAILED'' error_msg
          else Retry (compute_backoff (se_attempt entry) BASE_BACKOFF_SECS MAX_BACKOFF_SECS) new_attempt)"

definition update_breaker :: "nat \<Rightarrow> disposition \<Rightarrow> breaker \<Rightarrow> breaker" where
  "update_breaker now_epoch d b =
     (case d of
        Acknowledge \<Rightarrow> breaker_success b
      | Dead_letter _ _ _ \<Rightarrow> breaker_failure now_epoch b
      | Retry _ _ \<Rightarrow> b)"

definition xack_entry :: "StreamEntry \<Rightarrow> redis_cmd" where
  "xack_entry entry = XACK STREAM_KEY CONSUMER_GROUP (se_id entry)"

definition requeue :: "externals \<Rightarrow> datetime \<Rightarrow> StreamEntry \<Rightarrow> int \<Rightarrow> redis_cmd" where
  "requeue E now entry new_attempt =
     XADD STREAM_KEY (job_fields (se_generation_id entry) (se_job_id entry) new_attempt (x_to_rfc3339 E now))"

definition worker_job_context :: json where
  "worker_job_context =
     JObj [(''connection'', JStr ''redis''), (''queue'', JStr STREAM_KEY), (''tries'', JInt MAX_TRIES),
           (''timeout_seconds'', JInt 300), (''backoff_seconds'', JInt 10)]"

definition settle ::
  "externals \<Rightarrow> datetime \<Rightarrow> bool \<Rightarrow> string option \<Rightarrow> StreamEntry \<Rightarrow> disposition \<Rightarrow>
     (db, unit, redis_cmd list) act" where
  "settle E now conn_ok dlq_reply entry d =
     (case d of
        Acknowledge \<Rightarrow> ok (if conn_ok then [xack_entry entry] else [])
      | Dead_letter attempt code msg \<Rightarrow>
          and_then (send_to_dlq E now dlq_reply (se_generation_id entry) attempt code msg) (\<lambda>cmds.
            ok (cmds @ (if conn_ok then [xack_entry entry] else [])))
      | Retry backoff new_attempt \<Rightarrow>
          ok (SLEEP backoff # (if conn_ok then [xack_entry entry, requeue E now entry new_attempt] else [])))"

text \<open>
  The task: \<open>now_epoch\<close> is the time at which the loop read the entry, \<open>now\<close> the time at which the
  workflow has returned.
\<close>

definition run_task ::
  "externals \<Rightarrow> (WorkflowError \<Rightarrow> string) \<Rightarrow> workflow_steps \<Rightarrow> (nat \<Rightarrow> datetime) \<Rightarrow> nat \<Rightarrow> datetime \<Rightarrow> bool \<Rightarrow>
     string option \<Rightarrow> StreamEntry \<Rightarrow> (db, unit, disposition \<times> redis_cmd list) act" where
  "run_task E show_err W clk now_epoch now conn_ok dlq_reply entry =
     and_then (try_err (process E W clk (se_generation_id entry) (se_job_id entry)
         (Some (wrap_i32 (se_attempt entry))) (Some worker_job_context))) (\<lambda>result.
       let d = dispose E entry (case result of Inr _ \<Rightarrow> None | Inl e \<Rightarrow> Some (show_err e))
       in and_then (settle E now conn_ok dlq_reply entry d) (\<lambda>cmds. ok (d, cmds)))"

section \<open>The loop\<close>

text \<open>\<open>claim_pending\<close>, from the counter before the call and the reply of \<open>XPENDING\<close>.\<close>

definition claim_pending :: "externals \<Rightarrow> string \<Rightarrow> nat \<Rightarrow> redis_value option \<Rightarrow> redis_cmd list" where
  "claim_pending E consumer counter pending =
     (if counter mod CLAIM_INTERVAL \<noteq> 0 then []
      else
        let entry_ids = (case pending of
              Some (RArray items) \<Rightarrow>
                List.map_filter (\<lambda>item. case item of
                    RArray (i # _) \<Rightarrow> Some (case value_to_str E i of Some s \<Rightarrow> s | None \<Rightarrow> [])
                  | _ \<Rightarrow> None) items
            | _ \<Rightarrow> [])
        in map (XCLAIM STREAM_KEY CONSUMER_GROUP consumer (IDLE_TIMEOUT_SECS * 1000))
             (filter (\<lambda>i. i \<noteq> []) entry_ids))"

definition read_command :: "string \<Rightarrow> redis_cmd" where
  "read_command consumer = XREADGROUP CONSUMER_GROUP consumer STREAM_KEY BATCH_SIZE (BLOCK_SECS * 1000)"

record worker_state =
  wk_breaker :: breaker
  wk_claim_counter :: nat

text \<open>
  One iteration of the loop, from the replies of \<open>XPENDING\<close> and \<open>XREADGROUP\<close>: the commands it sends, and
  the entries it starts tasks for, or the Redis error that ends \<open>run\<close>. The reply of
  \<open>XREADGROUP ... >\<close> is the only source of entries.
\<close>

definition run_iteration ::
  "externals \<Rightarrow> string \<Rightarrow> nat \<Rightarrow> string + redis_value option \<Rightarrow> string + redis_value option \<Rightarrow> worker_state \<Rightarrow>
     worker_state \<times> redis_cmd list \<times> (string + StreamEntry list)" where
  "run_iteration E consumer now_epoch pending raw w =
     (case loop_gate now_epoch (wk_breaker w) of
        Inl pause \<Rightarrow> (w, [SLEEP (of_nat pause)], Inr [])
      | Inr b \<Rightarrow>
          let w' = w\<lparr>wk_breaker := b, wk_claim_counter := (wk_claim_counter w + 1) mod 2 ^ 32\<rparr>;
              pending_reply = (if wk_claim_counter w mod CLAIM_INTERVAL = 0 then pending else Inr None)
          in case pending_reply of
               Inl e \<Rightarrow> (w', [], Inl e)
             | Inr p \<Rightarrow>
                 (w', claim_pending E consumer (wk_claim_counter w) p @ [read_command consumer],
                  map_sum id (read_entries E) raw))"

section \<open>Backoff and breaker\<close>

lemma unat_min_word: "unat (min a b) = min (unat a) (unat b)" for a b :: u64
  by (simp add: min_def word_le_nat_alt)

lemma compute_backoff_value:
  assumes "1 \<le> a" and "a \<le> 64"
  shows "unat (compute_backoff a BASE_BACKOFF_SECS MAX_BACKOFF_SECS) = min (10 * 2 ^ nat (a - 1)) 90"
proof -
  have shift: "i64_as_u32 (max (wrap_i64 (a - 1)) 0) = nat (a - 1)"
    using assms by (simp add: is_i64_def i64_as_u32_def)
  have "nat (a - 1) < 64" using assms by simp
  then show ?thesis
    by (auto simp: compute_backoff_def shift unat_min_word unat_saturating_mul unat_shl_one
        BASE_BACKOFF_SECS_def MAX_BACKOFF_SECS_def)
qed

lemma compute_backoff_first:
  assumes "is_i64 a" and "a \<le> 1" and "a \<noteq> - (2 ^ 63)"
  shows "compute_backoff a BASE_BACKOFF_SECS MAX_BACKOFF_SECS = 10"
proof -
  have "i64_as_u32 (max (wrap_i64 (a - 1)) 0) = 0"
    using assms by (simp add: is_i64_def i64_as_u32_def)
  then show ?thesis
    by (simp add: compute_backoff_def BASE_BACKOFF_SECS_def MAX_BACKOFF_SECS_def saturating_mul_u64_def
        shl_u64_def)
qed

text \<open>
  The outcomes of a sequence of tasks, as the breaker sees them: a retry is none.
\<close>

definition breaker_outcomes :: "(nat \<times> disposition) list \<Rightarrow> nat option list" where
  "breaker_outcomes ds =
     concat (map (\<lambda>(now, d). case d of
        Acknowledge \<Rightarrow> [None] | Dead_letter _ _ _ \<Rightarrow> [Some now] | Retry _ _ \<Rightarrow> []) ds)"

definition run_breaker :: "(nat \<times> disposition) list \<Rightarrow> breaker \<Rightarrow> breaker" where
  "run_breaker ds b = fold (\<lambda>(now, d). update_breaker now d) ds b"

lemma run_breaker_outcomes: "run_breaker ds b = worker_breaker.outcomes (breaker_outcomes ds) b"
proof (induction ds arbitrary: b)
  case Nil
  then show ?case by (simp add: run_breaker_def breaker_outcomes_def)
next
  case (Cons d ds)
  then show ?case
    by (cases d; cases "snd d")
      (simp_all add: run_breaker_def breaker_outcomes_def worker_breaker.outcomes_def
        worker_breaker.outcome_def update_breaker_def)
qed

section \<open>Settling\<close>

text \<open>The commands that settle an entry, in the order in which they are sent.\<close>

definition settle_cmds ::
  "externals \<Rightarrow> datetime \<Rightarrow> StreamEntry \<Rightarrow> disposition \<Rightarrow> redis_cmd list" where
  "settle_cmds E now entry d =
     (case d of
        Acknowledge \<Rightarrow> [xack_entry entry]
      | Dead_letter a code msg \<Rightarrow>
          [xadd_dlq E (se_generation_id entry) a (dlq_payload E now (se_generation_id entry) a code msg),
           xack_entry entry]
      | Retry delay a \<Rightarrow> [SLEEP delay, xack_entry entry, requeue E now entry a])"

lemma wp_settle:
  "wp (settle E now conn_ok reply entry d)
     (\<lambda>cmds s'. audit_step (gens s) (gens s') \<and> (conn_ok \<longrightarrow> cmds = settle_cmds E now entry d) \<and>
        (\<not> conn_ok \<longrightarrow> xack_entry entry \<notin> set cmds))
     (\<lambda>x s'. x = Panic \<and> gens s' = gens s \<and> (\<exists>a code msg. d = Dead_letter a code msg)) s"
proof (cases d)
  case (Dead_letter a code msg)
  note dlq = wp_mono [OF wp_send_to_dlq]
  show ?thesis
    by (simp add: settle_def Dead_letter wp_simps settle_cmds_def)
      (intro conjI impI; rule dlq; auto simp: wp_simps xack_entry_def xadd_dlq_def)
qed (simp_all add: settle_def wp_simps settle_cmds_def audit_step_refl xack_entry_def)

lemma keeps_ahead_settle:
  "keeps (in_status i {b. lifecycle_ahead st b}) (settle E now conn_ok reply entry d)"
  unfolding keeps_def
proof (intro allI impI, rule wp_mono [OF wp_settle])
  fix s s' :: db and cmds
  assume "in_status i {b. lifecycle_ahead st b} s" and "audit_step (gens s) (gens s') \<and>
      (conn_ok \<longrightarrow> cmds = settle_cmds E now entry d) \<and> (\<not> conn_ok \<longrightarrow> xack_entry entry \<notin> set cmds)"
  then show "in_status i {b. lifecycle_ahead st b} s'"
    using audit_stepD [of "gens s" "gens s'" i]
    by (auto simp: in_status_def split: option.splits intro: lifecycle_ahead_step)
qed (simp add: in_status_def)

lemma keeps_ahead_process:
  assumes "steps_keep (in_status i {b. lifecycle_ahead st b}) W"
  shows "keeps (in_status i {b. lifecycle_ahead st b}) (process E W clk gid job_id attempt jc)"
proof (rule keeps_process [OF assms])
  fix a b assume "as_status_str a \<in> {b. lifecycle_ahead st b}" "can_transition a b"
  then show "as_status_str b \<in> {b. lifecycle_ahead st b}"
    using lifecycle_ahead_step [of st "as_status_str a" "as_status_str b"]
    by (simp add: status_step_def)
qed

lemma keeps_try_err [keeps_intros]: "keeps P m \<Longrightarrow> keeps P (try_err m)"
  unfolding keeps_def wp_try_err by (auto elim!: wp_mono split: exn.splits)

lemma stream_entry_simps [simp]:
  "se_id (stream_entry i gid j a) = i" "se_generation_id (stream_entry i gid j a) = gid"
  "se_job_id (stream_entry i gid j a) = j" "se_attempt (stream_entry i gid j a) = a"
  by (simp_all add: stream_entry_def)


section \<open>Retries\<close>

text \<open>
  A retry, end to end: the task of \<open>entry\<close> fails with \<open>msg\<close>, the re-enqueued entry is delivered under
  the id \<open>i\<close>, and the loop reads it.
\<close>

definition redeliver :: "externals \<Rightarrow> datetime \<Rightarrow> string \<Rightarrow> StreamEntry \<Rightarrow> string \<Rightarrow> StreamEntry option" where
  "redeliver E now i entry msg =
     (case dispose E entry (Some msg) of
        Retry delay next \<Rightarrow>
          (case read_entries E (delivered i (requeue E now entry next)) of
             e # _ \<Rightarrow> Some e | [] \<Rightarrow> None)
      | _ \<Rightarrow> None)"

inductive redelivered :: "externals \<Rightarrow> StreamEntry \<Rightarrow> StreamEntry \<Rightarrow> bool" for E where
  "redeliver E now i entry msg = Some entry' \<Longrightarrow>
   lossless E {i, se_generation_id entry, case se_job_id entry of Some j \<Rightarrow> j | None \<Rightarrow> []} \<Longrightarrow>
   redelivered E entry entry'"

inductive_cases redeliveredE: "redelivered E entry entry'"

lemma redeliver_eq:
  assumes "lossless E {i, se_generation_id entry, case se_job_id entry of Some j \<Rightarrow> j | None \<Rightarrow> []}"
    and "1 \<le> se_attempt entry" and "se_attempt entry < 2 ^ 63 - 1" and "se_job_id entry \<noteq> Some []"
  shows "redeliver E now i entry msg =
    (if is_retryable_error E msg \<and> se_attempt entry < 3
     then Some (stream_entry i (se_generation_id entry) (se_job_id entry) (se_attempt entry + 1)) else None)"
proof -
  have w: "wrap_i64 (se_attempt entry + 1) = se_attempt entry + 1" using assms(2,3) by (simp add: is_i64_def)
  have "read_entries E (delivered i (requeue E now entry (se_attempt entry + 1))) =
      [stream_entry i (se_generation_id entry) (se_job_id entry) (se_attempt entry + 1)]"
    using read_delivered [OF assms(1), of "se_attempt entry + 1"] assms(2-4)
    by (simp add: requeue_def is_i64_def)
  then show ?thesis by (auto simp: redeliver_def dispose_def Let_def w MAX_TRIES_def)
qed

lemma redelivered_step:
  assumes "redelivered E e e'" and "1 \<le> se_attempt e" and "se_attempt e < 2 ^ 63 - 1" and "se_job_id e \<noteq> Some []"
  shows "se_generation_id e' = se_generation_id e \<and> se_job_id e' = se_job_id e \<and>
         se_attempt e' = se_attempt e + 1 \<and> se_attempt e' \<le> 3"
  using assms(1)
  by (rule redeliveredE) (auto simp: redeliver_eq [OF _ assms(2-4)] stream_entry_def split: if_splits)



section \<open>Properties\<close>

text \<open>
  The retry policy: an entry whose run failed is retried only after a retryable error and only while
  its next attempt is at most the third; the delay is ten seconds after the first attempt and twenty
  after the second, and no other delay occurs.
\<close>

theorem retry_policy:
  assumes "dispose E entry failure = Retry delay next"
    and "1 \<le> se_attempt entry" and "se_attempt entry < 2 ^ 63 - 1"
  shows "next = se_attempt entry + 1 \<and> next \<le> 3 \<and> unat delay = 10 * 2 ^ nat (se_attempt entry - 1) \<and>
         delay \<in> {10, 20} \<and> (\<exists>msg. failure = Some msg \<and> is_retryable_error E msg)"
proof -
  obtain msg where msg: "failure = Some msg" "is_retryable_error E msg"
    and next_le: "wrap_i64 (se_attempt entry + 1) \<le> 3" and n: "next = wrap_i64 (se_attempt entry + 1)"
    and d: "delay = compute_backoff (se_attempt entry) BASE_BACKOFF_SECS MAX_BACKOFF_SECS"
    using assms(1) by (auto simp: dispose_def Let_def MAX_TRIES_def split: option.splits if_splits)
  have "is_i64 (se_attempt entry + 1)" using assms by (simp add: is_i64_def)
  with next_le n have le: "se_attempt entry + 1 \<le> 3" "next = se_attempt entry + 1" by simp_all
  then have cases: "se_attempt entry = 1 \<or> se_attempt entry = 2" using assms(2) by auto
  then have u: "unat delay = 10 * 2 ^ nat (se_attempt entry - 1)"
    using compute_backoff_value [of "se_attempt entry"] d by auto
  then have "unat delay = unat (10 :: u64) \<or> unat delay = unat (20 :: u64)" using cases by auto
  then have "delay \<in> {10, 20}" by (simp only: word_unat_eq_iff insert_iff empty_iff simp_thms)
  with msg le u show ?thesis by auto
qed

theorem retry_policy_witness:
  "dispose sample_externals (stream_entry ''5-0'' ''g1'' None 2) (Some ''timeout'') = Retry 20 3 \<and>
   unat (20 :: u64) = 10 * 2 ^ nat (se_attempt (stream_entry ''5-0'' ''g1'' None 2) - 1)"
proof -
  have "dispose sample_externals (stream_entry ''5-0'' ''g1'' None 2) (Some ''timeout'') = Retry 20 3"
    using unat_min_word [of "saturating_mul_u64 10 (shl_u64 1 1)" 90]
    by (simp add: dispose_def stream_entry_def is_retryable_error_def to_lowercase_def is_ascii_def byte_def
        ascii_lower_def compute_backoff_def i64_as_u32_def is_i64_def MAX_TRIES_def BASE_BACKOFF_SECS_def
        MAX_BACKOFF_SECS_def saturating_mul_u64_def shl_u64_def)
  with retry_policy [OF this] show ?thesis by (simp add: stream_entry_def)
qed

text \<open>
  The backoff doubles from ten seconds and is capped at ninety, for every attempt from one up to
  sixty-four; for an attempt below one it is ten, and so it is again at the sixty-fifth, where the
  shift count wraps.
\<close>

theorem backoff_doubles_to_cap:
  "(1 \<le> a \<and> a \<le> 64 \<longrightarrow>
      unat (compute_backoff a BASE_BACKOFF_SECS MAX_BACKOFF_SECS) = min (10 * 2 ^ nat (a - 1)) 90) \<and>
   (- (2 ^ 63) < a \<and> a \<le> 1 \<longrightarrow> compute_backoff a BASE_BACKOFF_SECS MAX_BACKOFF_SECS = 10) \<and>
   compute_backoff 65 BASE_BACKOFF_SECS MAX_BACKOFF_SECS = 10"
  using compute_backoff_value compute_backoff_first [of a]
  by (auto simp: is_i64_def compute_backoff_def i64_as_u32_def shl_u64_def saturating_mul_u64_def
      BASE_BACKOFF_SECS_def MAX_BACKOFF_SECS_def)

theorem backoff_doubles_to_cap_witness:
  "unat (compute_backoff 3 BASE_BACKOFF_SECS MAX_BACKOFF_SECS) = 40 \<and>
   compute_backoff (- 7) BASE_BACKOFF_SECS MAX_BACKOFF_SECS = 10"
  using backoff_doubles_to_cap [of 3] backoff_doubles_to_cap [of "- 7"] by simp

text \<open>
  The breaker opens exactly on five consecutive terminal failures: while no five outcomes in a row
  are failures (retries do not count either way) it is closed, and after five failures with no success
  between them it is open.
\<close>

theorem breaker_threshold:
  "(\<not> sublist (replicate 5 True) (map (\<lambda>r. r \<noteq> None) (breaker_outcomes ds)) \<longrightarrow>
      circuit_open_until (run_breaker ds closed_breaker) = 0) \<and>
   (breaker_outcomes ds = map Some ts \<and> length ts = 5 \<longrightarrow>
      circuit_open_until (run_breaker ds closed_breaker) = last ts + CIRCUIT_BREAKER_COOLDOWN_SECS)"
proof (intro conjI impI)
  assume "\<not> sublist (replicate 5 True) (map (\<lambda>r. r \<noteq> None) (breaker_outcomes ds))"
  then show "circuit_open_until (run_breaker ds closed_breaker) = 0"
    using worker_breaker.closed_outcomes [of closed_breaker "breaker_outcomes ds"]
    by (simp add: run_breaker_outcomes closed_breaker_def CIRCUIT_BREAKER_THRESHOLD_def)
next
  assume ts: "breaker_outcomes ds = map Some ts \<and> length ts = 5"
  then obtain us t where us: "ts = us @ [t]" "length us = 4" by (cases ts rule: rev_cases) auto
  then have "consecutive_failures (worker_breaker.outcomes (map Some us) closed_breaker) = 4"
    using worker_breaker.count_failures [of closed_breaker us]
    by (simp add: closed_breaker_def CIRCUIT_BREAKER_THRESHOLD_def)
  then show "circuit_open_until (run_breaker ds closed_breaker) = last ts + CIRCUIT_BREAKER_COOLDOWN_SECS"
    using ts us by (simp add: run_breaker_outcomes breaker_failure_def Let_def CIRCUIT_BREAKER_THRESHOLD_def)
qed

theorem breaker_threshold_witness:
  "circuit_open_until (run_breaker (map (\<lambda>n. (n, Dead_letter 1 ''c'' ''m'')) [1, 2, 3, 4, 7]) closed_breaker) =
     7 + CIRCUIT_BREAKER_COOLDOWN_SECS"
  using breaker_threshold [of "map (\<lambda>n. (n, Dead_letter 1 ''c'' ''m'')) [1, 2, 3, 4, 7]" "[1, 2, 3, 4, 7]"]
  by (simp add: breaker_outcomes_def)

text \<open>
  An open breaker starts nothing: until the cooldown is over an iteration of the loop sends no
  command, starts no entry, keeps its state and looks again within five seconds; the first iteration
  after it goes on with a closed breaker and reads.
\<close>

theorem breaker_gates_reads:
  assumes "circuit_open_until (wk_breaker w) > 0"
  shows "run_iteration E consumer now (Inr pending) raw w =
    (if now < circuit_open_until (wk_breaker w)
     then (w, [SLEEP (of_nat (min (circuit_open_until (wk_breaker w) - now) 5))], Inr [])
     else (w\<lparr>wk_breaker := closed_breaker, wk_claim_counter := (wk_claim_counter w + 1) mod 2 ^ 32\<rparr>,
           claim_pending E consumer (wk_claim_counter w) pending @ [read_command consumer],
           map_sum id (read_entries E) raw))"
proof -
  have "b\<lparr>circuit_open_until := 0, consecutive_failures := 0\<rparr> = closed_breaker" for b :: breaker
    by (cases b) (simp add: closed_breaker_def)
  moreover have "claim_pending E consumer (wk_claim_counter w)
      (if wk_claim_counter w mod CLAIM_INTERVAL = 0 then pending else None) =
      claim_pending E consumer (wk_claim_counter w) pending"
    by (simp add: claim_pending_def)
  ultimately show ?thesis using assms
    by (cases "wk_claim_counter w mod CLAIM_INTERVAL = 0")
      (simp_all add: run_iteration_def loop_gate_def Let_def)
qed

theorem breaker_gates_reads_witness:
  "run_iteration sample_externals ''c1'' 100 (Inr None) (Inr None)
     \<lparr>wk_breaker = \<lparr>consecutive_failures = 5, circuit_open_until = 130\<rparr>, wk_claim_counter = 2\<rparr> =
     (\<lparr>wk_breaker = \<lparr>consecutive_failures = 5, circuit_open_until = 130\<rparr>, wk_claim_counter = 2\<rparr>, [SLEEP 5], Inr [])"
  by (subst breaker_gates_reads) simp_all

text \<open>
  The cooldown runs from the time at which the loop read the entry, not from the failure: if the
  task that trips the breaker took a minute or more, the next iteration finds the cooldown over and
  reads at once.
\<close>

theorem slow_task_skips_cooldown:
  assumes "Suc (consecutive_failures b) = CIRCUIT_BREAKER_THRESHOLD"
    and "read_at + CIRCUIT_BREAKER_COOLDOWN_SECS \<le> now"
  shows "circuit_open_until (update_breaker read_at (Dead_letter attempt code msg) b) > 0 \<and>
         loop_gate now (update_breaker read_at (Dead_letter attempt code msg) b) = Inr closed_breaker"
  using assms
  by (cases b) (auto simp: update_breaker_def breaker_failure_def loop_gate_def Let_def closed_breaker_def
      CIRCUIT_BREAKER_THRESHOLD_def CIRCUIT_BREAKER_COOLDOWN_SECS_def)

theorem slow_task_skips_cooldown_witness:
  "loop_gate 175 (update_breaker 100 (Dead_letter 4 ''WORKFLOW_FAILED'' ''m'')
      \<lparr>consecutive_failures = 4, circuit_open_until = 0\<rparr>) = Inr closed_breaker"
  using slow_task_skips_cooldown [of "\<lparr>consecutive_failures = 4, circuit_open_until = 0\<rparr>" 100 175]
  by (simp add: CIRCUIT_BREAKER_THRESHOLD_def CIRCUIT_BREAKER_COOLDOWN_SECS_def)

text \<open>
  A whole task, the run of the workflow and the move to the dead-letter queue included, moves the
  status of a generation only forward along the matrix, if the steps do, under any faults.
\<close>

theorem run_task_respects_lifecycle:
  assumes "steps_keep (in_status i {b. lifecycle_ahead st b}) W"
    and "status_column (gens s) i = Some st"
  shows "\<exists>st'. status_column (gens (snd (run_task E show_err W clk read_at now conn_ok reply entry s))) i = Some st' \<and>
           lifecycle_ahead st st'"
proof -
  have "keeps (in_status i {b. lifecycle_ahead st b}) (run_task E show_err W clk read_at now conn_ok reply entry)"
    unfolding run_task_def Let_def
    by (intro keeps_intros keeps_ahead_process [OF assms(1)] keeps_ahead_settle)
  moreover have "in_status i {b. lifecycle_ahead st b} s"
    using assms(2) by (auto simp: in_status_def status_column_def lifecycle_ahead_def)
  ultimately have "in_status i {b. lifecycle_ahead st b} (snd (run_task E show_err W clk read_at now conn_ok reply entry s))"
    by (rule keeps_snd)
  then show ?thesis by (auto simp: in_status_def status_column_def split: option.splits)
qed

theorem run_task_respects_lifecycle_witness:
  "\<exists>st'. status_column (gens (snd (run_task sample_externals (\<lambda>e. ''timeout'') sample_steps (\<lambda>n. 0) 1 2 True None
      (stream_entry ''5-0'' ''g1'' None 3) sample_db))) 1 = Some st' \<and> lifecycle_ahead ''queued'' st'"
  by (rule run_task_respects_lifecycle [OF sample_steps_keep]) (simp add: status_column_def)



text \<open>
  A terminal failure reaches the database: when no statement fails, the error text can be stored and
  the generation is not completed or cancelled, the task's last step leaves it failed, with the
  worker's error code and the text.
\<close>

theorem dead_letter_marks_failed:
  assumes "faults s = []" and "audit_table_ok (gens s)" and "x_parse_uuid E (se_generation_id entry) = Some i"
    and "map_of (gens s) i = Some row" and "from_str (mg_status row) = Some status"
    and "status \<noteq> Completed" and "status \<noteq> Cancelled" and "sanitize_message msg = Some message"
    and "filter_context (Some (dlq_payload E now (se_generation_id entry) a code msg)) \<noteq> None"
  shows "wp (settle E now True reply entry (Dead_letter a code msg))
     (\<lambda>cmds s'. cmds = settle_cmds E now entry (Dead_letter a code msg) \<and>
        (\<exists>row'. map_of (gens s') i = Some row' \<and> mg_status row' = ''failed'' \<and>
           mg_generation_status row' = Some ''failed'' \<and> mg_error_code row' = Some code \<and>
           mg_error_message row' = Some message))
     (\<lambda>_ _. False) s"
proof -
  have "wp (mark_failed E now (se_generation_id entry) code msg False
        (Some (dlq_payload E now (se_generation_id entry) a code msg)) attempt jc)
     (\<lambda>p s'. \<exists>row'. map_of (gens s') i = Some row' \<and> mg_status row' = ''failed'' \<and>
           mg_generation_status row' = Some ''failed'' \<and> mg_error_code row' = Some code \<and>
           mg_error_message row' = Some message)
     (\<lambda>_ _. False) s" for attempt jc
    by (rule wp_mono [OF wp_mark_failed_exact [OF assms(1-5,9,8)]]) (use assms(6,7) in auto)
  note marks = wp_mono [OF this]
  show ?thesis
    by (simp add: settle_def send_to_dlq_def Let_def wp_simps settle_cmds_def) (rule marks, auto simp: wp_simps)
qed

theorem dead_letter_marks_failed_witness:
  "wp (settle sample_externals 3 True None (stream_entry ''5-0'' ''g1'' None 3) (Dead_letter 4 ''WORKFLOW_FAILED'' ''no answer''))
     (\<lambda>cmds s'. \<exists>row'. map_of (gens s') 1 = Some row' \<and> mg_status row' = ''failed'') (\<lambda>_ _. False) sample_db"
proof -
  have "sanitize_message ''no answer'' = Some ''no answer''" by code_simp
  moreover have "filter_context (Some (dlq_payload sample_externals 3 ''g1'' 4 ''WORKFLOW_FAILED'' ''no answer'')) \<noteq> None"
    using is_ascii_show_int [of 3] filter_context_ascii [of "dlq_payload sample_externals 3 ''g1'' 4 ''WORKFLOW_FAILED'' ''no answer''"]
    by (simp add: dlq_payload_def build_retry_context_def sample_externals_def is_ascii_def byte_def)
  ultimately show ?thesis
    by (intro wp_mono [OF dead_letter_marks_failed [where i = 1 and row = sample_row and status = Queued
          and message = "''no answer''"]])
      (auto simp: sample_audit_ok from_str_queued stream_entry_def)
qed

text \<open>
  C18. Retries are bounded: an entry is redelivered only with an attempt of at most three, its attempt
  goes up by one each time, and it stays the same job of the same generation; so an entry that
  starts at attempt one is processed at most three times.
\<close>

theorem retries_bounded:
  assumes "(redelivered E ^^ n) e e'"
    and "1 \<le> se_attempt e" and "se_attempt e < 2 ^ 63 - 1" and "se_job_id e \<noteq> Some []"
  shows "se_generation_id e' = se_generation_id e \<and> se_job_id e' = se_job_id e \<and>
         se_attempt e' = se_attempt e + int n \<and> (n = 0 \<or> se_attempt e' \<le> 3)"
  using assms(1)
proof (induction n arbitrary: e')
  case (Suc n)
  obtain d where d: "(redelivered E ^^ n) e d" "redelivered E d e'" using Suc.prems by auto
  note IH = Suc.IH [OF d(1)]
  have "1 \<le> se_attempt d" "se_attempt d < 2 ^ 63 - 1" "se_job_id d \<noteq> Some []" using IH assms(2-4) by auto
  from redelivered_step [OF d(2) this] IH show ?case by auto
qed simp

theorem retries_bounded_witness:
  "redelivered sample_externals (stream_entry ''5-0'' ''g1'' None 2) (stream_entry ''6-0'' ''g1'' None 3) \<and>
   se_attempt (stream_entry ''6-0'' ''g1'' None 3) \<le> 3"
proof -
  have r: "is_retryable_error sample_externals ''timeout''"
    by (simp add: is_retryable_error_def to_lowercase_def is_ascii_def byte_def ascii_lower_def)
  have l: "lossless sample_externals S" for S by (simp add: lossless_def sample_externals_def)
  have "redelivered sample_externals (stream_entry ''5-0'' ''g1'' None 2) (stream_entry ''6-0'' ''g1'' None 3)"
    by (rule redelivered.intros [where now = 7 and i = "''6-0''" and msg = "''timeout''", OF _ l])
      (use r in \<open>simp add: redeliver_eq [OF l]\<close>)
  then show ?thesis
    using retries_bounded [of 1 sample_externals "stream_entry ''5-0'' ''g1'' None 2"] by simp
qed



text \<open>
  A retry from the dead-letter queue is lost: the generation is failed, which is final, so the new
  entry's task succeeds without running a step, is acknowledged, and leaves the generation failed; the
  dead-letter entry is gone by then.
\<close>

theorem dlq_retry_is_lost:
  assumes "faults s = []" and "x_parse_uuid E gid = Some i" and "map_of (gens s) i = Some g"
    and "mg_status g = ''failed''" and "has_payload g \<noteq> None"
    and "lossless E {n, gid, m}" and "dlq_match E gid item = Some m"
  shows "retry_from_dlq E now gid (Some (RArray [item])) =
           (True, [XDEL DLQ_STREAM_KEY m, enqueue E now gid [] 1]) \<and>
         read_entries E (delivered n (enqueue E now gid [] 1)) = [stream_entry n gid None 1] \<and>
         run_task E show_err W clk read_at now' True reply (stream_entry n gid None 1) s =
           (Inr (Acknowledge, [XACK STREAM_KEY CONSUMER_GROUP n]), s)"
proof -
  have init: "snd (initialize E (clk 0) gid s) = s"
    using initialize_runs [OF assms(1-3), of "clk 0"] assms(5)
    by (auto simp: wp_def split: prod.splits sum.splits)
  have "process E W clk gid None (Some 1) (Some worker_job_context) s = (Inr (), s)"
    using process_terminal [OF assms(1-3), of Failed W clk None "Some 1" "Some worker_job_context"]
      init assms(4,5) by (auto simp: from_str_failed)
  moreover have "read_entries E (delivered n (enqueue E now gid [] 1)) = [stream_entry n gid None 1]"
    using assms(6) read_delivered [of E n gid "Some []" 1]
    by (simp add: enqueue_def lossless_def is_ascii_def is_i64_def)
  ultimately show ?thesis
    using assms(7)
    by (simp add: retry_from_dlq_def delete_dlq_entry_def List.map_filter_simps run_task_def
        and_then_def try_err_def dispose_def settle_def ok_def xack_entry_def wrap_i32_def
        Let_def)
qed

theorem dlq_retry_is_lost_witness:
  "let s = db_with (sample_row\<lparr>mg_status := ''failed'',
      mg_orchestration_audit_payload := Some (build_base_payload sample_externals 0)\<rparr>) in
   run_task sample_externals (\<lambda>e. ''m'') sample_steps (\<lambda>n. 0) 1 2 True None (stream_entry ''9-0'' ''g1'' None 1) s =
     (Inr (Acknowledge, [XACK STREAM_KEY CONSUMER_GROUP ''9-0'']), s)"
  unfolding Let_def
  by (rule dlq_retry_is_lost [where i = 1 and g = "sample_row\<lparr>mg_status := ''failed'',
      mg_orchestration_audit_payload := Some (build_base_payload sample_externals 0)\<rparr>" and m = "''7-0''"
        and item = "range_item ''7-0'' (xadd_dlq sample_externals ''g1'' 4 JNull)", THEN conjunct2, THEN conjunct2])
    (simp_all add: has_payload_def build_base_payload_def Let_def lossless_def dlq_match_item sample_externals_def)

end
