(* ===== verification/Interp_Types.thy ===== *)
theory Interp_Types
  imports Gen_Spec "HOL-Library.Monad_Syntax"
begin

text \<open>
  The interpretation contract of \<open>src/src/contracts/prompt_interpretation.rs\<close>: its types, how they are
  decoded from JSON and how they are validated.

  A decoder is a function from \<open>json\<close> that fails with \<open>None\<close>; the text of the error, which serde
  makes, is left out. As with serde, a struct is read from an object or from an array of its fields in
  order, an absent field takes its \<open>default\<close>, and unknown fields are ignored. \<open>len\<close> is garde's length
  of a string, a parameter of the validation.
\<close>

section \<open>Decoding\<close>

definition struct_fields :: "string list \<Rightarrow> json \<Rightarrow> (string \<Rightarrow> json option) option" where
  "struct_fields names v =
     (case v of
        JObj m \<Rightarrow> Some (map_of m)
      | JArr xs \<Rightarrow> if length xs \<le> length names then Some (map_of (zip names xs)) else None
      | _ \<Rightarrow> None)"

definition required :: "(json \<Rightarrow> 'a option) \<Rightarrow> string \<Rightarrow> (string \<Rightarrow> json option) \<Rightarrow> 'a option" where
  "required dec k fs = Option.bind (fs k) dec"

definition defaulted :: "'a \<Rightarrow> (json \<Rightarrow> 'a option) \<Rightarrow> string \<Rightarrow> (string \<Rightarrow> json option) \<Rightarrow> 'a option" where
  "defaulted d dec k fs = (case fs k of None \<Rightarrow> Some d | Some v \<Rightarrow> dec v)"

definition nullable :: "(json \<Rightarrow> 'a option) \<Rightarrow> json \<Rightarrow> 'a option option" where
  "nullable dec v = (if v = JNull then Some None else map_option Some (dec v))"

text \<open>An optional field without a default: absent from an object it is none, absent from an array an error.\<close>

definition optional :: "json \<Rightarrow> (json \<Rightarrow> 'a option) \<Rightarrow> string \<Rightarrow> (string \<Rightarrow> json option) \<Rightarrow> 'a option option" where
  "optional v dec k fs =
     (case fs k of
        Some w \<Rightarrow> nullable dec w
      | None \<Rightarrow> (case v of JArr _ \<Rightarrow> None | _ \<Rightarrow> Some None))"

definition dec_list :: "(json \<Rightarrow> 'a option) \<Rightarrow> json \<Rightarrow> 'a list option" where
  "dec_list dec v = Option.bind (as_array v) (\<lambda>xs. those (map dec xs))"

definition dec_i32 :: "json \<Rightarrow> int option" where
  "dec_i32 v =
     (case v of JInt n \<Rightarrow> if - (2 ^ 31) \<le> n \<and> n < 2 ^ 31 then Some n else None | _ \<Rightarrow> None)"

subsection \<open>The lenient decoders\<close>

definition parse_i32 :: "string \<Rightarrow> int option" where
  "parse_i32 s = Option.bind (parse_i64 s) (\<lambda>n. if - (2 ^ 31) \<le> n \<and> n < 2 ^ 31 then Some n else None)"

definition deserialize_optional_i32 :: "json \<Rightarrow> int option" where
  "deserialize_optional_i32 val =
     (case val of
        JInt n \<Rightarrow> map_option wrap_i32 (as_i64 val)
      | JStr s \<Rightarrow> parse_i32 (trim s)
      | _ \<Rightarrow> None)"

definition deserialize_f64_lenient :: "json \<Rightarrow> f64" where
  "deserialize_f64_lenient val =
     (case val of
        JStr s \<Rightarrow> (case parse_f64 (trim s) of Some n \<Rightarrow> n | None \<Rightarrow> f64_lit (6 / 10))
      | _ \<Rightarrow> (case as_f64 val of Some n \<Rightarrow> n | None \<Rightarrow> f64_lit (6 / 10)))"

definition f64_nonzero :: "json \<Rightarrow> bool" where
  "f64_nonzero val = (case as_f64 val of Some n \<Rightarrow> \<not> f64_eq n (F_Fin False 0) | None \<Rightarrow> False)"

definition deserialize_bool_lenient :: "externals \<Rightarrow> json \<Rightarrow> bool" where
  "deserialize_bool_lenient E val =
     (case val of
        JBool b \<Rightarrow> b
      | JStr s \<Rightarrow> to_lowercase (x_lower E) s = ''true''
      | _ \<Rightarrow> f64_nonzero val)"

definition deserialize_bool_lenient_option :: "externals \<Rightarrow> json \<Rightarrow> bool option" where
  "deserialize_bool_lenient_option E val =
     (case val of
        JBool b \<Rightarrow> Some b
      | JStr s \<Rightarrow> Some (to_lowercase (x_lower E) s = ''true'')
      | JInt n \<Rightarrow> Some (f64_nonzero val)
      | JFloat w \<Rightarrow> Some (f64_nonzero val)
      | _ \<Rightarrow> None)"

definition deserialize_optional_f64 :: "json \<Rightarrow> f64 option" where
  "deserialize_optional_f64 val = (case val of JStr s \<Rightarrow> parse_f64 (trim s) | _ \<Rightarrow> as_f64 val)"

text \<open>The first of the keys that is present decides, whatever its value.\<close>

definition text_key :: "(string \<times> json) list \<Rightarrow> json option" where
  "text_key m =
     (case List.map_filter (map_of m)
             [''text'', ''content'', ''label'', ''name'', ''subject_name'', ''title'', ''value''] of
        [] \<Rightarrow> None
      | v # _ \<Rightarrow> Some v)"

definition string_or_number :: "externals \<Rightarrow> json \<Rightarrow> string option" where
  "string_or_number E v =
     (case v of
        JStr s \<Rightarrow> Some s
      | JInt n \<Rightarrow> Some (x_json_to_string E v)
      | JFloat w \<Rightarrow> Some (x_json_to_string E v)
      | _ \<Rightarrow> None)"

definition deserialize_optional_string_lenient :: "externals \<Rightarrow> json \<Rightarrow> string option" where
  "deserialize_optional_string_lenient E val =
     (case val of
        JNull \<Rightarrow> None
      | JStr s \<Rightarrow> if trim s = [] then None else Some (trim s)
      | JBool b \<Rightarrow> Some (if b then ''true'' else ''false'')
      | JObj m \<Rightarrow>
          (case Option.bind (text_key m) as_str of
             Some s \<Rightarrow> Some s
           | None \<Rightarrow> Some (x_json_to_string E val))
      | JArr arr \<Rightarrow>
          (let strings = List.map_filter (string_or_number E) arr
           in if strings \<noteq> [] then Some (join '', '' strings) else Some (x_json_to_string E val))
      | _ \<Rightarrow> Some (x_json_to_string E val))"

section \<open>The types\<close>

record TeacherIntent =
  ti_type :: string
  ti_goal :: string
  ti_preferred_delivery_mode :: string
  ti_requires_clarification :: bool

record InterpretationConstraints =
  ic_preferred_output_type :: string
  ic_max_duration_minutes :: "int option"
  ic_must_include :: "string list"
  ic_avoid :: "string list"
  ic_tone :: "string option"

record OutputCandidate =
  oc_type :: string
  oc_score :: f64
  oc_reason :: string

record BlueprintSection =
  bs_title :: string
  bs_purpose :: string
  bs_bullets :: "string list"
  bs_estimated_length :: string

record DocumentBlueprint =
  db_title :: string
  db_summary :: string
  db_sections :: "BlueprintSection list"

record SubjectContext =
  sc_subject_name :: string
  sc_subject_slug :: "string option"

record SubSubjectContext =
  ssc_sub_subject_name :: string
  ssc_sub_subject_slug :: "string option"

record TargetAudience =
  ta_label :: string
  ta_level :: "string option"
  ta_age_range :: "string option"

record RequestedMediaCharacteristics =
  rm_tone :: "string option"
  rm_format_preferences :: "string list"
  rm_visual_density :: "string option"

record Asset =
  as_type :: string
  as_description :: string
  as_required :: bool

record AssessmentBlock =
  ab_title :: string
  ab_type :: string
  ab_instructions :: string

record Confidence =
  cf_score :: f64
  cf_label :: string
  cf_rationale :: "string option"

record ContentIntegrity =
  cg_integrity_score :: f64
  cg_violations :: "json list"
  cg_classification_source :: string
  cg_meta_repairs :: "json option"

record PlanMode =
  pm_active :: bool
  pm_reason :: "string option"
  pm_detected_content_type :: "string option"
  pm_content_type_confidence :: "f64 option"

record InterpretedFields =
  if_target_audience :: "string option"
  if_output_type :: "string option"
  if_subject :: "string option"
  if_topic :: "string option"
  if_learning_objectives :: "string list option"
  if_page_count :: "string option"
  if_difficulty_level :: "string option"
  if_include_activities :: "bool option"
  if_slide_count :: "string option"
  if_question_count :: "int option"
  if_meeting_duration :: "string option"
  if_teaching_method :: "string option"
  if_assessment_method :: "string option"
  if_visual_density :: "string option"
  if_speaker_notes :: "string option"
  if_question_type :: "string option"

record MissingField =
  mf_field_id :: string
  mf_field_label :: string
  mf_priority :: string
  mf_question :: string
  mf_suggestions :: "json list"
  mf_input_type :: string

record InterpretationFallback =
  fb_triggered :: bool
  fb_reason_code :: "string option"
  fb_action :: "string option"

record InterpretationPayload =
  ip_schema_version :: string
  ip_teacher_prompt :: string
  ip_language :: string
  ip_teacher_intent :: TeacherIntent
  ip_learning_objectives :: "string list"
  ip_constraints :: InterpretationConstraints
  ip_output_type_candidates :: "OutputCandidate list"
  ip_resolved_output_type_reasoning :: string
  ip_document_blueprint :: DocumentBlueprint
  ip_subject_context :: "SubjectContext option"
  ip_sub_subject_context :: "SubSubjectContext option"
  ip_target_audience :: "TargetAudience option"
  ip_requested_media_characteristics :: RequestedMediaCharacteristics
  ip_assets :: "Asset list"
  ip_assessment_or_activity_blocks :: "AssessmentBlock list"
  ip_teacher_delivery_summary :: string
  ip_confidence :: Confidence
  ip_fallback :: InterpretationFallback
  ip_content_integrity :: "ContentIntegrity option"
  ip_meta_repairs :: "json option"
  ip_plan_mode :: PlanMode
  ip_interpreted_fields :: "InterpretedFields option"
  ip_missing_fields :: "MissingField list"

definition media_default :: RequestedMediaCharacteristics where
  "media_default = \<lparr>rm_tone = None, rm_format_preferences = [], rm_visual_density = None\<rparr>"

definition plan_mode_default :: PlanMode where
  "plan_mode_default =
     \<lparr>pm_active = False, pm_reason = None, pm_detected_content_type = None, pm_content_type_confidence = None\<rparr>"

definition fallback_default :: InterpretationFallback where
  "fallback_default = \<lparr>fb_triggered = False, fb_reason_code = None, fb_action = None\<rparr>"

section \<open>Decoding the types\<close>

definition dec_teacher_intent :: "externals \<Rightarrow> json \<Rightarrow> TeacherIntent option" where
  "dec_teacher_intent E v = do {
     fs \<leftarrow> struct_fields [''type'', ''goal'', ''preferred_delivery_mode'', ''requires_clarification''] v;
     t \<leftarrow> required as_str ''type'' fs;
     g \<leftarrow> required as_str ''goal'' fs;
     p \<leftarrow> required as_str ''preferred_delivery_mode'' fs;
     r \<leftarrow> required (Some \<circ> deserialize_bool_lenient E) ''requires_clarification'' fs;
     Some \<lparr>ti_type = t, ti_goal = g, ti_preferred_delivery_mode = p, ti_requires_clarification = r\<rparr> }"

definition dec_constraints :: "json \<Rightarrow> InterpretationConstraints option" where
  "dec_constraints v = do {
     fs \<leftarrow> struct_fields [''preferred_output_type'', ''max_duration_minutes'', ''must_include'', ''avoid'', ''tone''] v;
     p \<leftarrow> defaulted ''auto'' as_str ''preferred_output_type'' fs;
     d \<leftarrow> defaulted None (Some \<circ> deserialize_optional_i32) ''max_duration_minutes'' fs;
     m \<leftarrow> defaulted [] (dec_list as_str) ''must_include'' fs;
     a \<leftarrow> defaulted [] (dec_list as_str) ''avoid'' fs;
     t \<leftarrow> defaulted None (nullable as_str) ''tone'' fs;
     Some \<lparr>ic_preferred_output_type = p, ic_max_duration_minutes = d, ic_must_include = m, ic_avoid = a, ic_tone = t\<rparr> }"

definition dec_candidate :: "json \<Rightarrow> OutputCandidate option" where
  "dec_candidate v = do {
     fs \<leftarrow> struct_fields [''type'', ''score'', ''reason''] v;
     t \<leftarrow> required as_str ''type'' fs;
     s \<leftarrow> required (Some \<circ> deserialize_f64_lenient) ''score'' fs;
     r \<leftarrow> required as_str ''reason'' fs;
     Some \<lparr>oc_type = t, oc_score = s, oc_reason = r\<rparr> }"

definition dec_section :: "json \<Rightarrow> BlueprintSection option" where
  "dec_section v = do {
     fs \<leftarrow> struct_fields [''title'', ''purpose'', ''bullets'', ''estimated_length''] v;
     t \<leftarrow> required as_str ''title'' fs;
     p \<leftarrow> required as_str ''purpose'' fs;
     b \<leftarrow> required (dec_list as_str) ''bullets'' fs;
     e \<leftarrow> required as_str ''estimated_length'' fs;
     Some \<lparr>bs_title = t, bs_purpose = p, bs_bullets = b, bs_estimated_length = e\<rparr> }"

definition dec_blueprint :: "json \<Rightarrow> DocumentBlueprint option" where
  "dec_blueprint v = do {
     fs \<leftarrow> struct_fields [''title'', ''summary'', ''sections''] v;
     t \<leftarrow> required as_str ''title'' fs;
     s \<leftarrow> required as_str ''summary'' fs;
     ss \<leftarrow> required (dec_list dec_section) ''sections'' fs;
     Some \<lparr>db_title = t, db_summary = s, db_sections = ss\<rparr> }"

definition dec_subject_context :: "json \<Rightarrow> SubjectContext option" where
  "dec_subject_context v = do {
     fs \<leftarrow> struct_fields [''subject_name'', ''subject_slug''] v;
     n \<leftarrow> required as_str ''subject_name'' fs;
     s \<leftarrow> defaulted None (nullable as_str) ''subject_slug'' fs;
     Some \<lparr>sc_subject_name = n, sc_subject_slug = s\<rparr> }"

definition dec_sub_subject_context :: "json \<Rightarrow> SubSubjectContext option" where
  "dec_sub_subject_context v = do {
     fs \<leftarrow> struct_fields [''sub_subject_name'', ''sub_subject_slug''] v;
     n \<leftarrow> required as_str ''sub_subject_name'' fs;
     s \<leftarrow> defaulted None (nullable as_str) ''sub_subject_slug'' fs;
     Some \<lparr>ssc_sub_subject_name = n, ssc_sub_subject_slug = s\<rparr> }"

definition dec_audience :: "json \<Rightarrow> TargetAudience option" where
  "dec_audience v = do {
     fs \<leftarrow> struct_fields [''label'', ''level'', ''age_range''] v;
     l \<leftarrow> required as_str ''label'' fs;
     v \<leftarrow> defaulted None (nullable as_str) ''level'' fs;
     a \<leftarrow> defaulted None (nullable as_str) ''age_range'' fs;
     Some \<lparr>ta_label = l, ta_level = v, ta_age_range = a\<rparr> }"

definition dec_media :: "json \<Rightarrow> RequestedMediaCharacteristics option" where
  "dec_media v = do {
     fs \<leftarrow> struct_fields [''tone'', ''format_preferences'', ''visual_density''] v;
     t \<leftarrow> defaulted None (nullable as_str) ''tone'' fs;
     f \<leftarrow> defaulted [] (dec_list as_str) ''format_preferences'' fs;
     d \<leftarrow> defaulted None (nullable as_str) ''visual_density'' fs;
     Some \<lparr>rm_tone = t, rm_format_preferences = f, rm_visual_density = d\<rparr> }"

definition dec_asset :: "externals \<Rightarrow> json \<Rightarrow> Asset option" where
  "dec_asset E v = do {
     fs \<leftarrow> struct_fields [''type'', ''description'', ''required''] v;
     t \<leftarrow> required as_str ''type'' fs;
     d \<leftarrow> required as_str ''description'' fs;
     r \<leftarrow> required (Some \<circ> deserialize_bool_lenient E) ''required'' fs;
     Some \<lparr>as_type = t, as_description = d, as_required = r\<rparr> }"

definition dec_assessment :: "json \<Rightarrow> AssessmentBlock option" where
  "dec_assessment v = do {
     fs \<leftarrow> struct_fields [''title'', ''type'', ''instructions''] v;
     t \<leftarrow> required as_str ''title'' fs;
     k \<leftarrow> required as_str ''type'' fs;
     i \<leftarrow> required as_str ''instructions'' fs;
     Some \<lparr>ab_title = t, ab_type = k, ab_instructions = i\<rparr> }"

definition dec_confidence :: "json \<Rightarrow> Confidence option" where
  "dec_confidence v = do {
     fs \<leftarrow> struct_fields [''score'', ''label'', ''rationale''] v;
     s \<leftarrow> required (Some \<circ> deserialize_f64_lenient) ''score'' fs;
     l \<leftarrow> required as_str ''label'' fs;
     r \<leftarrow> defaulted None (nullable as_str) ''rationale'' fs;
     Some \<lparr>cf_score = s, cf_label = l, cf_rationale = r\<rparr> }"

definition dec_integrity :: "json \<Rightarrow> ContentIntegrity option" where
  "dec_integrity v = do {
     fs \<leftarrow> struct_fields [''integrity_score'', ''violations'', ''classification_source'', ''meta_repairs''] v;
     s \<leftarrow> required (Some \<circ> deserialize_f64_lenient) ''integrity_score'' fs;
     i \<leftarrow> defaulted [] as_array ''violations'' fs;
     c \<leftarrow> required as_str ''classification_source'' fs;
     m \<leftarrow> defaulted None (nullable Some) ''meta_repairs'' fs;
     Some \<lparr>cg_integrity_score = s, cg_violations = i, cg_classification_source = c, cg_meta_repairs = m\<rparr> }"

definition dec_plan_mode :: "externals \<Rightarrow> json \<Rightarrow> PlanMode option" where
  "dec_plan_mode E v = do {
     fs \<leftarrow> struct_fields [''active'', ''reason'', ''detected_content_type'', ''content_type_confidence''] v;
     a \<leftarrow> required (Some \<circ> deserialize_bool_lenient E) ''active'' fs;
     r \<leftarrow> defaulted None (nullable as_str) ''reason'' fs;
     d \<leftarrow> defaulted None (nullable as_str) ''detected_content_type'' fs;
     c \<leftarrow> defaulted None (Some \<circ> deserialize_optional_f64) ''content_type_confidence'' fs;
     Some \<lparr>pm_active = a, pm_reason = r, pm_detected_content_type = d, pm_content_type_confidence = c\<rparr> }"

definition interpreted_names :: "string list" where
  "interpreted_names =
     [''target_audience'', ''output_type'', ''subject'', ''topic'', ''learning_objectives'', ''page_count'',
      ''difficulty_level'', ''include_activities'', ''slide_count'', ''question_count'', ''meeting_duration'',
      ''teaching_method'', ''assessment_method'', ''visual_density'', ''speaker_notes'', ''question_type'']"

definition dec_interpreted :: "externals \<Rightarrow> json \<Rightarrow> InterpretedFields option" where
  "dec_interpreted E v = do {
     fs \<leftarrow> struct_fields interpreted_names v;
     let text = (\<lambda>k. Option.bind (fs k) (deserialize_optional_string_lenient E));
     objectives \<leftarrow> defaulted None (nullable (dec_list as_str)) ''learning_objectives'' fs;
     questions \<leftarrow> defaulted None (nullable dec_i32) ''question_count'' fs;
     Some \<lparr>if_target_audience = text ''target_audience'', if_output_type = text ''output_type'',
           if_subject = text ''subject'', if_topic = text ''topic'', if_learning_objectives = objectives,
           if_page_count = text ''page_count'', if_difficulty_level = text ''difficulty_level'',
           if_include_activities =
             Option.bind (fs ''include_activities'') (deserialize_bool_lenient_option E),
           if_slide_count = text ''slide_count'', if_question_count = questions,
           if_meeting_duration = text ''meeting_duration'', if_teaching_method = text ''teaching_method'',
           if_assessment_method = text ''assessment_method'', if_visual_density = text ''visual_density'',
           if_speaker_notes = text ''speaker_notes'', if_question_type = text ''question_type''\<rparr> }"

definition dec_missing :: "json \<Rightarrow> MissingField option" where
  "dec_missing v = do {
     fs \<leftarrow> struct_fields [''field_id'', ''field_label'', ''priority'', ''question'', ''suggestions'', ''input_type''] v;
     i \<leftarrow> required as_str ''field_id'' fs;
     l \<leftarrow> required as_str ''field_label'' fs;
     p \<leftarrow> required as_str ''priority'' fs;
     q \<leftarrow> required as_str ''question'' fs;
     s \<leftarrow> defaulted [] as_array ''suggestions'' fs;
     t \<leftarrow> required as_str ''input_type'' fs;
     Some \<lparr>mf_field_id = i, mf_field_label = l, mf_priority = p, mf_question = q, mf_suggestions = s, mf_input_type = t\<rparr> }"

definition dec_fallback :: "json \<Rightarrow> InterpretationFallback option" where
  "dec_fallback v = do {
     fs \<leftarrow> struct_fields [''triggered'', ''reason_code'', ''action''] v;
     t \<leftarrow> defaulted False as_bool ''triggered'' fs;
     r \<leftarrow> defaulted None (nullable as_str) ''reason_code'' fs;
     a \<leftarrow> defaulted None (nullable as_str) ''action'' fs;
     Some \<lparr>fb_triggered = t, fb_reason_code = r, fb_action = a\<rparr> }"

definition payload_names :: "string list" where
  "payload_names =
     [''schema_version'', ''teacher_prompt'', ''language'', ''teacher_intent'', ''learning_objectives'',
      ''constraints'', ''output_type_candidates'', ''resolved_output_type_reasoning'', ''document_blueprint'',
      ''subject_context'', ''sub_subject_context'', ''target_audience'', ''requested_media_characteristics'',
      ''assets'', ''assessment_or_activity_blocks'', ''teacher_delivery_summary'', ''confidence'', ''fallback'',
      ''content_integrity'', ''meta_repairs'', ''plan_mode'', ''interpreted_fields'', ''missing_fields'']"

text \<open>\<open>alias = "_meta_repairs"\<close>: both names at once are a duplicate field.\<close>

definition meta_repairs_field :: "(string \<Rightarrow> json option) \<Rightarrow> json option option" where
  "meta_repairs_field fs =
     (if fs ''meta_repairs'' \<noteq> None \<and> fs ''_meta_repairs'' \<noteq> None then None
      else if fs ''_meta_repairs'' \<noteq> None then required (nullable Some) ''_meta_repairs'' fs
      else defaulted None (nullable Some) ''meta_repairs'' fs)"

definition dec_payload :: "externals \<Rightarrow> json \<Rightarrow> InterpretationPayload option" where
  "dec_payload E v = do {
     fs \<leftarrow> struct_fields payload_names v;
     schema_version \<leftarrow> required as_str ''schema_version'' fs;
     teacher_prompt \<leftarrow> required as_str ''teacher_prompt'' fs;
     language \<leftarrow> required as_str ''language'' fs;
     teacher_intent \<leftarrow> required (dec_teacher_intent E) ''teacher_intent'' fs;
     objectives \<leftarrow> defaulted [] (dec_list as_str) ''learning_objectives'' fs;
     constraints \<leftarrow> required dec_constraints ''constraints'' fs;
     cands \<leftarrow> required (dec_list dec_candidate) ''output_type_candidates'' fs;
     reasoning \<leftarrow> required as_str ''resolved_output_type_reasoning'' fs;
     blueprint \<leftarrow> required dec_blueprint ''document_blueprint'' fs;
     subject \<leftarrow> defaulted None (nullable dec_subject_context) ''subject_context'' fs;
     sub_subject \<leftarrow> defaulted None (nullable dec_sub_subject_context) ''sub_subject_context'' fs;
     audience \<leftarrow> defaulted None (nullable dec_audience) ''target_audience'' fs;
     media \<leftarrow> defaulted media_default dec_media ''requested_media_characteristics'' fs;
     assets \<leftarrow> defaulted [] (dec_list (dec_asset E)) ''assets'' fs;
     blocks \<leftarrow> defaulted [] (dec_list dec_assessment) ''assessment_or_activity_blocks'' fs;
     delivery \<leftarrow> required as_str ''teacher_delivery_summary'' fs;
     confidence \<leftarrow> required dec_confidence ''confidence'' fs;
     fallback \<leftarrow> defaulted fallback_default dec_fallback ''fallback'' fs;
     integrity \<leftarrow> defaulted None (nullable dec_integrity) ''content_integrity'' fs;
     repairs \<leftarrow> meta_repairs_field fs;
     plan_mode \<leftarrow> defaulted plan_mode_default (dec_plan_mode E) ''plan_mode'' fs;
     interpreted \<leftarrow> defaulted None (nullable (dec_interpreted E)) ''interpreted_fields'' fs;
     missing \<leftarrow> defaulted [] (dec_list dec_missing) ''missing_fields'' fs;
     Some \<lparr>ip_schema_version = schema_version, ip_teacher_prompt = teacher_prompt, ip_language = language,
           ip_teacher_intent = teacher_intent, ip_learning_objectives = objectives,
           ip_constraints = constraints, ip_output_type_candidates = cands,
           ip_resolved_output_type_reasoning = reasoning, ip_document_blueprint = blueprint,
           ip_subject_context = subject, ip_sub_subject_context = sub_subject,
           ip_target_audience = audience, ip_requested_media_characteristics = media,
           ip_assets = assets, ip_assessment_or_activity_blocks = blocks,
           ip_teacher_delivery_summary = delivery, ip_confidence = confidence, ip_fallback = fallback,
           ip_content_integrity = integrity, ip_meta_repairs = repairs, ip_plan_mode = plan_mode,
           ip_interpreted_fields = interpreted, ip_missing_fields = missing\<rparr> }"

section \<open>Validation\<close>

definition in_length :: "(string \<Rightarrow> nat) \<Rightarrow> nat \<Rightarrow> string \<Rightarrow> bool" where
  "in_length len max_len s \<longleftrightarrow> 1 \<le> len s \<and> len s \<le> max_len"

text \<open>
  \<open>garde(dive)\<close> descends into the intent, the constraints, the candidates, the blueprint and the
  confidence; the blueprint does not descend into its sections. Everything else is skipped.
\<close>

definition valid_payload :: "(string \<Rightarrow> nat) \<Rightarrow> InterpretationPayload \<Rightarrow> bool" where
  "valid_payload len p \<longleftrightarrow>
     1 \<le> len (ip_schema_version p) \<and>
     in_length len 5000 (ip_teacher_prompt p) \<and> in_length len 32 (ip_language p) \<and>
     in_length len 100 (ti_type (ip_teacher_intent p)) \<and> in_length len 500 (ti_goal (ip_teacher_intent p)) \<and>
     in_length len 100 (ti_preferred_delivery_mode (ip_teacher_intent p)) \<and>
     ip_output_type_candidates p \<noteq> [] \<and>
     list_all (\<lambda>c. in_length len 100 (oc_type c) \<and> in_length len 500 (oc_reason c)) (ip_output_type_candidates p) \<and>
     in_length len 1000 (ip_resolved_output_type_reasoning p) \<and>
     in_length len 200 (db_title (ip_document_blueprint p)) \<and>
     in_length len 1000 (db_summary (ip_document_blueprint p)) \<and>
     db_sections (ip_document_blueprint p) \<noteq> [] \<and>
     in_length len 1000 (ip_teacher_delivery_summary p) \<and>
     in_length len 100 (cf_label (ip_confidence p))"

section \<open>Properties\<close>

text \<open>
  A duration is cut to 32 bits, not refused: one that exceeds them wraps around.
\<close>

theorem duration_wraps:
  "is_i64 n \<Longrightarrow> deserialize_optional_i32 (JInt n) = Some ((n + 2 ^ 31) mod 2 ^ 32 - 2 ^ 31)"
  by (simp add: deserialize_optional_i32_def as_i64_def wrap_i32_def)

theorem duration_wraps_witness: "deserialize_optional_i32 (JInt (2 ^ 32 + 5)) = Some 5"
  using duration_wraps [of "2 ^ 32 + 5"] by (simp add: is_i64_def)

end
