(* ===== verification/Standards.thy ===== *)
theory Standards
  imports Gen_Spec
begin

text \<open>
  The content standards of \<open>src/src/standards/content_standards.rs\<close>: which fields each kind of teaching
  material needs, and the detectors that look for them in a prompt.

  The detectors that use regular expressions take \<open>regex\<close>, the two operations of the regex crate they
  call: the first group of the first match of a pattern, and whether a pattern matches.
\<close>

record regex =
  rx_group1 :: "string \<Rightarrow> string \<Rightarrow> string option"
  rx_is_match :: "string \<Rightarrow> string \<Rightarrow> bool"

section \<open>Types\<close>

datatype FieldPriority = Required | Recommended | Optional

definition priority_str :: "FieldPriority \<Rightarrow> string" where
  "priority_str p =
     (case p of Required \<Rightarrow> ''required'' | Recommended \<Rightarrow> ''recommended'' | Optional \<Rightarrow> ''optional'')"

datatype InputType = Select | MultiSelect | TextInput | NumberInput

definition input_type_str :: "InputType \<Rightarrow> string" where
  "input_type_str t =
     (case t of
        Select \<Rightarrow> ''select'' | MultiSelect \<Rightarrow> ''multi_select''
      | TextInput \<Rightarrow> ''text_input'' | NumberInput \<Rightarrow> ''number_input'')"

record SuggestionChip =
  ch_value :: string
  ch_label :: string

record FieldDefinition =
  fd_field_id :: string
  fd_label_id :: string
  fd_label_en :: string
  fd_input_type :: InputType
  fd_priority :: FieldPriority
  fd_suggestions :: "SuggestionChip list"

datatype ContentType =
  MateriPembelajaran | SlidePresentasi | Rpp | LembarKerja | Silabus | Penilaian | UnknownContent

definition content_type_str :: "ContentType \<Rightarrow> string" where
  "content_type_str t =
     (case t of
        MateriPembelajaran \<Rightarrow> ''materi_pembelajaran'' | SlidePresentasi \<Rightarrow> ''slide_presentasi''
      | Rpp \<Rightarrow> ''rpp'' | LembarKerja \<Rightarrow> ''lembar_kerja'' | Silabus \<Rightarrow> ''silabus''
      | Penilaian \<Rightarrow> ''penilaian'' | UnknownContent \<Rightarrow> ''unknown'')"

record ContentGap =
  gap_field_id :: string
  gap_question :: string
  gap_priority :: string
  gap_input_type :: string
  gap_suggestions :: "SuggestionChip list"
  gap_detected_value :: "string option"

record MinimumRequirementField =
  mq_field_id :: string
  mq_field_label :: string
  mq_priority :: string
  mq_input_type :: string
  mq_description :: string
  mq_suggestions :: "SuggestionChip list"

record MinimumRequirements =
  mr_content_type :: string
  mr_content_type_label :: string
  mr_required_fields :: "MinimumRequirementField list"
  mr_recommended_fields :: "MinimumRequirementField list"

definition chip :: "string \<Rightarrow> string \<Rightarrow> SuggestionChip" where
  "chip v l = \<lparr>ch_value = v, ch_label = l\<rparr>"

definition field_def ::
  "string \<Rightarrow> string \<Rightarrow> string \<Rightarrow> InputType \<Rightarrow> FieldPriority \<Rightarrow> SuggestionChip list \<Rightarrow> FieldDefinition" where
  "field_def i l e t p s =
     \<lparr>fd_field_id = i, fd_label_id = l, fd_label_en = e, fd_input_type = t, fd_priority = p,
      fd_suggestions = s\<rparr>"

definition requirement ::
  "string \<Rightarrow> string \<Rightarrow> string \<Rightarrow> string \<Rightarrow> string \<Rightarrow> SuggestionChip list \<Rightarrow> MinimumRequirementField" where
  "requirement i l p t d s =
     \<lparr>mq_field_id = i, mq_field_label = l, mq_priority = p, mq_input_type = t, mq_description = d,
      mq_suggestions = s\<rparr>"

section \<open>Detection\<close>

definition lowered :: "externals \<Rightarrow> string \<Rightarrow> string" where
  "lowered E prompt = to_lowercase (x_lower E) prompt"

definition mentions_any :: "string \<Rightarrow> string list \<Rightarrow> bool" where
  "mentions_any haystack needles = list_ex (contains haystack) needles"

definition count_signals :: "string \<Rightarrow> string list \<Rightarrow> f64" where
  "count_signals haystack signals =
     (let total = length signals; matched = length (filter (contains haystack) signals)
      in if total = 0 then F_Fin False 0 else f64_div (f64_of_int (int matched)) (f64_of_int (int total)))"

definition f64_max :: "f64 \<Rightarrow> f64 \<Rightarrow> f64" where
  "f64_max a b =
     (if a = F_Nan then b else if b = F_Nan then a else if f64_lt a b then b else a)"

text \<open>\<open>Iterator::max_by\<close>: of equal elements the last.\<close>

definition max_by :: "('a \<Rightarrow> 'a \<Rightarrow> ordering) \<Rightarrow> 'a \<Rightarrow> 'a list \<Rightarrow> 'a" where
  "max_by cmp x xs = foldl (\<lambda>a b. if cmp a b = Greater then a else b) x xs"

definition type_scores :: "string \<Rightarrow> (ContentType \<times> f64) list" where
  "type_scores lower =
     [(SlidePresentasi, count_signals lower [''slide'', ''presentasi'', ''pptx'', ''powerpoint'', ''slideshow'']),
      (Rpp, count_signals lower [''rpp'', ''lesson plan'', ''rencana pelaksanaan'', ''rencana pembelajaran'']),
      (LembarKerja, count_signals lower
         [''lembar kerja'', ''worksheet'', ''latihan'', ''soal'', ''ujian'', ''tes'', ''assessment'', ''penilaian'']),
      (Silabus, count_signals lower [''silabus'', ''syllabus'', ''kurikulum'']),
      (MateriPembelajaran, count_signals lower
         [''materi'', ''modul'', ''belajar'', ''pembelajaran'', ''handout'', ''bahan ajar''])]"

definition detect_content_type :: "externals \<Rightarrow> string \<Rightarrow> ContentType \<times> f64" where
  "detect_content_type E prompt =
     (let scores = type_scores (lowered E prompt);
          max_score = foldl f64_max (F_Fin False 0) (map snd scores)
      in if f64_lt max_score (f64_lit (15 / 100)) then (UnknownContent, F_Fin False 0)
         else max_by (\<lambda>a b. case partial_cmp (snd a) (snd b) of Some c \<Rightarrow> c | None \<Rightarrow> Equal)
                (hd scores) (tl scores))"

definition detect_output_type :: "externals \<Rightarrow> string \<Rightarrow> string option" where
  "detect_output_type E prompt =
     (let lower = lowered E prompt
      in if mentions_any lower [''pptx'', ''ppt'', ''powerpoint'', ''slide presentasi''] \<or>
            contains lower ''slide'' \<and> \<not> contains lower ''handout'' \<or> contains lower ''presentasi''
         then Some ''pptx''
         else if mentions_any lower [''pdf'', ''cetak'', ''print''] then Some ''pdf''
         else if mentions_any lower [''docx'', ''doc'', ''word'', ''dokumen'', ''edit''] then Some ''docx''
         else None)"

definition grade_patterns :: "(string \<times> string) list" where
  "grade_patterns =
     [(''kelas 1'', ''SD Kelas 1''), (''kelas 2'', ''SD Kelas 2''), (''kelas 3'', ''SD Kelas 3''),
      (''kelas 4'', ''SD Kelas 4''), (''kelas 5'', ''SD Kelas 5''), (''kelas 6'', ''SD Kelas 6''),
      (''kelas 7'', ''SMP Kelas 7''), (''kelas 8'', ''SMP Kelas 8''),
      (''kelas 9'', ''SMP Kelas 9''), (''kelas 10'', ''SMA Kelas 10''),
      (''kelas 11'', ''SMA Kelas 11''), (''kelas 12'', ''SMA Kelas 12''),
      (''kelas x'', ''SMA Kelas 10''), (''kelas xi'', ''SMA Kelas 11''),
      (''kelas xii'', ''SMA Kelas 12''), (''grade 1'', ''SD Kelas 1''),
      (''grade 2'', ''SD Kelas 2''), (''grade 3'', ''SD Kelas 3''), (''grade 4'', ''SD Kelas 4''),
      (''grade 5'', ''SD Kelas 5''), (''grade 6'', ''SD Kelas 6''),
      (''grade 7'', ''SMP Kelas 7''), (''grade 8'', ''SMP Kelas 8''),
      (''grade 9'', ''SMP Kelas 9''), (''grade 10'', ''SMA Kelas 10''),
      (''grade 11'', ''SMA Kelas 11''), (''grade 12'', ''SMA Kelas 12'')]"

definition standalone_levels :: "(string \<times> string) list" where
  "standalone_levels =
     [(''sd'', ''SD''), (''smp'', ''SMP''), (''sma'', ''SMA''), (''smk'', ''SMK''),
      (''paud'', ''PAUD''), (''tk'', ''TK'')]"

definition word_pattern :: "string \<Rightarrow> string" where
  "word_pattern w = [CHR 0x5C, CHR ''b''] @ w @ [CHR 0x5C, CHR ''b'']"

definition detect_target_audience :: "externals \<Rightarrow> regex \<Rightarrow> string \<Rightarrow> string option" where
  "detect_target_audience E R prompt =
     (let lower = lowered E prompt
      in case find (\<lambda>(pattern, label). contains lower pattern) grade_patterns of
           Some (pattern, label) \<Rightarrow> Some label
         | None \<Rightarrow>
             map_option snd (find (\<lambda>(pattern, label). rx_is_match R (word_pattern pattern) lower)
               standalone_levels))"

text \<open>A number captured by a pattern, or \<open>specified\<close> if one of the phrases occurs.\<close>

definition number_or_specified :: "externals \<Rightarrow> regex \<Rightarrow> string \<Rightarrow> string list \<Rightarrow> string \<Rightarrow> string option" where
  "number_or_specified E R pattern phrases prompt =
     (let lower = lowered E prompt
      in case rx_group1 R pattern lower of
           Some num \<Rightarrow> Some num
         | None \<Rightarrow> if mentions_any lower phrases then Some ''specified'' else None)"

definition number_pattern :: "string \<Rightarrow> string" where
  "number_pattern units = ''('' @ [CHR 0x5C] @ ''d+)'' @ [CHR 0x5C] @ ''s*(?:'' @ units @ '')''"

definition detect_page_count :: "externals \<Rightarrow> regex \<Rightarrow> string \<Rightarrow> string option" where
  "detect_page_count E R =
     number_or_specified E R (number_pattern ''halaman|hal|lembar|pages?'')
       [''jumlah halaman'', ''2-3 halaman'', ''5-7 halaman'', ''10+ halaman'']"

definition detect_slide_count :: "externals \<Rightarrow> regex \<Rightarrow> string \<Rightarrow> string option" where
  "detect_slide_count E R =
     number_or_specified E R (number_pattern ''slides?'')
       [''jumlah slide'', ''8-10 slide'', ''15-20 slide'', ''25+ slide'']"

definition detect_question_count :: "externals \<Rightarrow> regex \<Rightarrow> string \<Rightarrow> string option" where
  "detect_question_count E R =
     number_or_specified E R (number_pattern ''soal|pertanyaan|item|nomor'') [''jumlah soal'']"

definition difficulty_levels :: "(string \<times> string) list" where
  "difficulty_levels =
     [(''mudah'', ''mudah''), (''easy'', ''mudah''), (''sedang'', ''sedang''),
      (''medium'', ''sedang''), (''sulit'', ''sulit''), (''hard'', ''sulit''),
      (''hots'', ''sulit''), (''campuran'', ''campuran''), (''mixed'', ''campuran'')]"

definition detect_difficulty_level :: "externals \<Rightarrow> regex \<Rightarrow> string \<Rightarrow> string option" where
  "detect_difficulty_level E R prompt =
     (let lower = lowered E prompt
      in case find (\<lambda>(lvl, val). rx_is_match R (word_pattern lvl) lower) difficulty_levels of
           Some (lvl, val) \<Rightarrow> Some val
         | None \<Rightarrow>
             if mentions_any lower [''tingkat kesulitan'', ''kesulitan''] then Some ''specified'' else None)"

definition detect_include_activities :: "externals \<Rightarrow> string \<Rightarrow> string option" where
  "detect_include_activities E prompt =
     (if mentions_any (lowered E prompt)
           [''sertakan latihan'', ''dengan latihan'', ''ada latihan'', ''tanpa latihan'',
            ''latihan soal'']
      then Some ''yes'' else None)"

definition detect_meeting_duration :: "externals \<Rightarrow> regex \<Rightarrow> string \<Rightarrow> string option" where
  "detect_meeting_duration E R prompt =
     (let lower = lowered E prompt
      in if rx_is_match R (number_pattern ''menit|jp'') lower then Some ''specified''
         else if mentions_any lower [''2x45'', ''durasi pertemuan''] then Some ''specified'' else None)"

definition detect_teaching_method :: "externals \<Rightarrow> string \<Rightarrow> string option" where
  "detect_teaching_method E prompt =
     (if mentions_any (lowered E prompt)
           [''metode'', ''ceramah'', ''diskusi'', ''inquiry'', ''inkuiri'', ''pbl'', ''pjbl'',
            ''problem based'', ''project based'']
      then Some ''specified'' else None)"

definition detect_assessment_method :: "externals \<Rightarrow> string \<Rightarrow> string option" where
  "detect_assessment_method E prompt =
     (if mentions_any (lowered E prompt)
           [''tes tertulis'', ''tes lisan'', ''portofolio'', ''observasi'', ''cara penilaian'']
      then Some ''specified'' else None)"

definition detect_question_type :: "externals \<Rightarrow> string \<Rightarrow> string option" where
  "detect_question_type E prompt =
     (if mentions_any (lowered E prompt)
           [''pilihan ganda'', ''pg'', ''essay'', ''esai'', ''uraian'', ''benar/salah'',
            ''benar salah'', ''isian singkat'', ''mcq'']
      then Some ''specified'' else None)"

definition detect_learning_objectives :: "externals \<Rightarrow> string \<Rightarrow> string option" where
  "detect_learning_objectives E prompt =
     (if mentions_any (lowered E prompt)
           [''tujuan pembelajaran'', ''tujuan:'', ''agar siswa'', ''supaya siswa'',
            ''capaian pembelajaran'']
      then Some ''specified'' else None)"

definition detect_visual_density :: "externals \<Rightarrow> string \<Rightarrow> string option" where
  "detect_visual_density E prompt =
     (if mentions_any (lowered E prompt)
           [''banyak gambar'', ''fokus teks'', ''tampilan slide'', ''seimbang visual'']
      then Some ''specified'' else None)"

definition detect_speaker_notes :: "externals \<Rightarrow> string \<Rightarrow> string option" where
  "detect_speaker_notes E prompt =
     (if mentions_any (lowered E prompt)
           [''catatan presenter'', ''catatan pembicara'', ''speaker notes'']
      then Some ''specified'' else None)"

definition detect_field_value_from_prompt :: "externals \<Rightarrow> regex \<Rightarrow> string \<Rightarrow> string \<Rightarrow> string option" where
  "detect_field_value_from_prompt E R field_id prompt =
     (if field_id = ''target_audience'' then detect_target_audience E R prompt
      else if field_id = ''output_type'' then detect_output_type E prompt
      else if field_id = ''page_count'' then detect_page_count E R prompt
      else if field_id = ''slide_count'' then detect_slide_count E R prompt
      else if field_id = ''question_count'' then detect_question_count E R prompt
      else if field_id = ''difficulty_level'' then detect_difficulty_level E R prompt
      else if field_id = ''include_activities'' then detect_include_activities E prompt
      else if field_id = ''meeting_duration'' then detect_meeting_duration E R prompt
      else if field_id = ''teaching_method'' then detect_teaching_method E prompt
      else if field_id = ''assessment_method'' then detect_assessment_method E prompt
      else if field_id = ''question_type'' then detect_question_type E prompt
      else if field_id = ''learning_objectives'' then detect_learning_objectives E prompt
      else if field_id = ''visual_density'' then detect_visual_density E prompt
      else if field_id = ''speaker_notes'' then detect_speaker_notes E prompt
      else None)"

section \<open>The standards\<close>

definition grade_level_suggestions :: "SuggestionChip list" where
  "grade_level_suggestions =
     [chip ''SD_Kelas_1'' ''SD Kelas 1'',
      chip ''SD_Kelas_2'' ''SD Kelas 2'',
      chip ''SD_Kelas_3'' ''SD Kelas 3'',
      chip ''SD_Kelas_4'' ''SD Kelas 4'',
      chip ''SD_Kelas_5'' ''SD Kelas 5'',
      chip ''SD_Kelas_6'' ''SD Kelas 6'',
      chip ''SMP_Kelas_7'' ''SMP Kelas 7'',
      chip ''SMP_Kelas_8'' ''SMP Kelas 8'',
      chip ''SMP_Kelas_9'' ''SMP Kelas 9'',
      chip ''SMA_Kelas_10'' ''SMA Kelas 10'',
      chip ''SMA_Kelas_11'' ''SMA Kelas 11'',
      chip ''SMA_Kelas_12'' ''SMA Kelas 12'']"

definition output_type_suggestions :: "SuggestionChip list" where
  "output_type_suggestions =
     [chip ''pdf'' ''PDF (Untuk Dicetak)'',
      chip ''docx'' ''Word (Bisa Diedit)'',
      chip ''pptx'' ''PowerPoint (Presentasi)'']"

definition page_count_suggestions :: "SuggestionChip list" where
  "page_count_suggestions =
     [chip ''short'' ''Singkat (2-3 halaman)'',
      chip ''medium'' ''Sedang (5-7 halaman)'',
      chip ''long'' ''Lengkap (10+ halaman)'']"

definition slide_count_suggestions :: "SuggestionChip list" where
  "slide_count_suggestions =
     [chip ''short'' ''Singkat (8-10 slide)'',
      chip ''medium'' ''Sedang (15-20 slide)'',
      chip ''long'' ''Lengkap (25+ slide)'']"

definition meeting_duration_suggestions :: "SuggestionChip list" where
  "meeting_duration_suggestions =
     [chip ''35'' ''35 Menit'',
      chip ''40'' ''40 Menit'',
      chip ''45'' ''45 Menit'',
      chip ''2x45'' ''2 x 45 Menit (1 JP)'']"

definition teaching_method_suggestions :: "SuggestionChip list" where
  "teaching_method_suggestions =
     [chip ''ceramah'' ''Ceramah'',
      chip ''diskusi'' ''Diskusi'',
      chip ''praktik'' ''Praktik'',
      chip ''inquiry'' ''Inkuiri'',
      chip ''problem_based'' ''Problem Based Learning'',
      chip ''project_based'' ''Project Based Learning'']"

definition assessment_method_suggestions :: "SuggestionChip list" where
  "assessment_method_suggestions =
     [chip ''written_test'' ''Tes Tertulis'',
      chip ''oral'' ''Tes Lisan'',
      chip ''practical'' ''Penilaian Praktik'',
      chip ''portfolio'' ''Portofolio'',
      chip ''observation'' ''Observasi'']"

definition difficulty_level_suggestions :: "SuggestionChip list" where
  "difficulty_level_suggestions =
     [chip ''mudah'' ''Mudah'',
      chip ''sedang'' ''Sedang'',
      chip ''sulit'' ''Sulit'',
      chip ''campuran'' ''Campuran'']"

definition visual_density_suggestions :: "SuggestionChip list" where
  "visual_density_suggestions =
     [chip ''visual'' ''Banyak Gambar/Visual'',
      chip ''balanced'' ''Seimbang Teks & Visual'',
      chip ''text_focused'' ''Fokus Teks'']"

definition materi_pembelajaran_standards :: "FieldDefinition list" where
  "materi_pembelajaran_standards =
     [field_def ''target_audience'' ''Jenjang/Kelas'' ''Grade Level'' Select Required
        grade_level_suggestions,
      field_def ''output_type'' ''Format File'' ''File Format'' Select Required
        output_type_suggestions,
      field_def ''learning_objectives'' ''Tujuan Pembelajaran'' ''Learning Objectives'' TextInput Recommended
        [],
      field_def ''page_count'' ''Jumlah Halaman'' ''Page Count'' Select Recommended
        page_count_suggestions,
      field_def ''include_activities'' ''Sertakan Latihan?'' ''Include Exercises?'' Select Recommended
        [chip ''yes'' ''Ya, sertakan latihan'',
        chip ''no'' ''Tidak, materi saja'']]"

definition slide_presentasi_standards :: "FieldDefinition list" where
  "slide_presentasi_standards =
     [field_def ''target_audience'' ''Jenjang/Kelas'' ''Grade Level'' Select Required
        grade_level_suggestions,
      field_def ''output_type'' ''Format File'' ''File Format'' Select Required
        [chip ''pptx'' ''PowerPoint (Presentasi)''],
      field_def ''slide_count'' ''Jumlah Slide'' ''Slide Count'' Select Recommended
        slide_count_suggestions,
      field_def ''visual_density'' ''Tampilan Slide'' ''Slide Style'' Select Recommended
        visual_density_suggestions,
      field_def ''speaker_notes'' ''Catatan Presenter'' ''Speaker Notes'' Select Optional
        [chip ''yes'' ''Ya, sertakan catatan'',
        chip ''no'' ''Tidak'']]"

definition rpp_standards :: "FieldDefinition list" where
  "rpp_standards =
     [field_def ''target_audience'' ''Jenjang/Kelas'' ''Grade Level'' Select Required
        grade_level_suggestions,
      field_def ''learning_objectives'' ''Tujuan Pembelajaran'' ''Learning Objectives'' TextInput Required
        [],
      field_def ''meeting_duration'' ''Durasi Pertemuan'' ''Meeting Duration'' Select Recommended
        meeting_duration_suggestions,
      field_def ''teaching_method'' ''Metode Pembelajaran'' ''Teaching Method'' MultiSelect Recommended
        teaching_method_suggestions,
      field_def ''assessment_method'' ''Cara Penilaian'' ''Assessment Method'' MultiSelect Recommended
        assessment_method_suggestions]"

definition lembar_kerja_standards :: "FieldDefinition list" where
  "lembar_kerja_standards =
     [field_def ''target_audience'' ''Jenjang/Kelas'' ''Grade Level'' Select Required
        grade_level_suggestions,
      field_def ''difficulty_level'' ''Tingkat Kesulitan'' ''Difficulty Level'' Select Required
        difficulty_level_suggestions,
      field_def ''page_count'' ''Jumlah Halaman'' ''Page Count'' Select Recommended
        page_count_suggestions,
      field_def ''question_count'' ''Jumlah Soal'' ''Question Count'' NumberInput Recommended
        [],
      field_def ''output_type'' ''Format File'' ''File Format'' Select Optional
        output_type_suggestions]"

definition silabus_standards :: "FieldDefinition list" where
  "silabus_standards =
     [field_def ''target_audience'' ''Jenjang/Kelas'' ''Grade Level'' Select Required
        grade_level_suggestions,
      field_def ''learning_objectives'' ''Tujuan Pembelajaran'' ''Learning Objectives'' TextInput Recommended
        [],
      field_def ''output_type'' ''Format File'' ''File Format'' Select Optional
        output_type_suggestions]"

definition penilaian_standards :: "FieldDefinition list" where
  "penilaian_standards =
     [field_def ''target_audience'' ''Jenjang/Kelas'' ''Grade Level'' Select Required
        grade_level_suggestions,
      field_def ''difficulty_level'' ''Tingkat Kesulitan'' ''Difficulty Level'' Select Required
        difficulty_level_suggestions,
      field_def ''question_count'' ''Jumlah Soal'' ''Question Count'' NumberInput Required
        [],
      field_def ''question_type'' ''Jenis Soal'' ''Question Type'' MultiSelect Recommended
        [chip ''pilihan_ganda'' ''Pilihan Ganda'',
        chip ''essay'' ''Essay'',
        chip ''uraian'' ''Uraian'',
        chip ''benar_salah'' ''Benar/Salah'',
        chip ''isian_singkat'' ''Isian Singkat''],
      field_def ''output_type'' ''Format File'' ''File Format'' Select Optional
        output_type_suggestions]"

definition materi_pembelajaran_requirements :: MinimumRequirements where
  "materi_pembelajaran_requirements =
     \<lparr>mr_content_type = ''materi_pembelajaran'', mr_content_type_label = ''Materi Pembelajaran'',
      mr_required_fields =
       [requirement ''target_audience'' ''Jenjang/Kelas'' ''required'' ''select''
        ''Jenjang dan kelas siswa yang dituju (misal: SD Kelas 5, SMP Kelas 7)''
        grade_level_suggestions,
        requirement ''output_type'' ''Format File'' ''required'' ''select''
        ''Format file output: PDF untuk cetak, DOCX untuk diedit, PPTX untuk presentasi''
        output_type_suggestions],
      mr_recommended_fields =
       [requirement ''learning_objectives'' ''Tujuan Pembelajaran'' ''recommended'' ''text_input''
        ''Apa yang harus dipahami/dikuasai siswa setelah mempelajari materi ini''
        [],
        requirement ''page_count'' ''Jumlah Halaman'' ''recommended'' ''select''
        ''Panjangnya materi: singkat (2-3 hal), sedang (5-7 hal), atau lengkap (10+ hal)''
        page_count_suggestions,
        requirement ''include_activities'' ''Sertakan Latihan?'' ''recommended'' ''select''
        ''Apakah perlu disertakan latihan/soal di akhir materi''
        [chip ''yes'' ''Ya, sertakan latihan'',
        chip ''no'' ''Tidak, materi saja'']]\<rparr>"

definition slide_presentasi_requirements :: MinimumRequirements where
  "slide_presentasi_requirements =
     \<lparr>mr_content_type = ''slide_presentasi'', mr_content_type_label = ''Slide Presentasi'',
      mr_required_fields =
       [requirement ''target_audience'' ''Jenjang/Kelas'' ''required'' ''select''
        ''Jenjang dan kelas siswa yang dituju''
        grade_level_suggestions,
        requirement ''output_type'' ''Format File'' ''required'' ''select''
        ''Format output: PPTX untuk presentasi''
        [chip ''pptx'' ''PowerPoint (Presentasi)'']],
      mr_recommended_fields =
       [requirement ''slide_count'' ''Jumlah Slide'' ''recommended'' ''select''
        ''Jumlah slide: singkat (8-10), sedang (15-20), atau lengkap (25+)''
        slide_count_suggestions,
        requirement ''visual_density'' ''Tampilan Slide'' ''recommended'' ''select''
        ''Gaya tampilan: banyak visual, seimbang, atau fokus teks''
        visual_density_suggestions,
        requirement ''speaker_notes'' ''Catatan Presenter'' ''recommended'' ''select''
        ''Apakah perlu disertakan catatan untuk presenter''
        [chip ''yes'' ''Ya, sertakan catatan'',
        chip ''no'' ''Tidak'']]\<rparr>"

definition rpp_requirements :: MinimumRequirements where
  "rpp_requirements =
     \<lparr>mr_content_type = ''rpp'', mr_content_type_label = ''RPP (Rencana Pelaksanaan Pembelajaran)'',
      mr_required_fields =
       [requirement ''target_audience'' ''Jenjang/Kelas'' ''required'' ''select''
        ''Jenjang dan kelas siswa yang dituju''
        grade_level_suggestions,
        requirement ''learning_objectives'' ''Tujuan Pembelajaran'' ''required'' ''text_input''
        ''Tujuan pembelajaran yang ingin dicapai''
        []],
      mr_recommended_fields =
       [requirement ''meeting_duration'' ''Durasi Pertemuan'' ''recommended'' ''select''
        ''Lama durasi pertemuan pembelajaran''
        meeting_duration_suggestions,
        requirement ''teaching_method'' ''Metode Pembelajaran'' ''recommended'' ''multi_select''
        ''Metode yang digunakan: ceramah, diskusi, praktik, dll''
        teaching_method_suggestions,
        requirement ''assessment_method'' ''Cara Penilaian'' ''recommended'' ''multi_select''
        ''Cara menilai pemahaman siswa''
        assessment_method_suggestions]\<rparr>"

definition lembar_kerja_requirements :: MinimumRequirements where
  "lembar_kerja_requirements =
     \<lparr>mr_content_type = ''lembar_kerja'', mr_content_type_label = ''Lembar Kerja'',
      mr_required_fields =
       [requirement ''target_audience'' ''Jenjang/Kelas'' ''required'' ''select''
        ''Jenjang dan kelas siswa yang dituju''
        grade_level_suggestions,
        requirement ''difficulty_level'' ''Tingkat Kesulitan'' ''required'' ''select''
        ''Tingkat kesulitan soal: mudah, sedang, sulit, atau campuran''
        difficulty_level_suggestions],
      mr_recommended_fields =
       [requirement ''page_count'' ''Jumlah Halaman'' ''recommended'' ''select''
        ''Panjangnya lembar kerja''
        page_count_suggestions,
        requirement ''question_count'' ''Jumlah Soal'' ''recommended'' ''number_input''
        ''Jumlah soal yang diinginkan''
        [],
        requirement ''output_type'' ''Format File'' ''recommended'' ''select''
        ''Format file output''
        output_type_suggestions]\<rparr>"

definition silabus_requirements :: MinimumRequirements where
  "silabus_requirements =
     \<lparr>mr_content_type = ''silabus'', mr_content_type_label = ''Silabus'',
      mr_required_fields =
       [requirement ''target_audience'' ''Jenjang/Kelas'' ''required'' ''select''
        ''Jenjang dan kelas siswa yang dituju''
        grade_level_suggestions],
      mr_recommended_fields =
       [requirement ''learning_objectives'' ''Tujuan Pembelajaran'' ''recommended'' ''text_input''
        ''Tujuan pembelajaran yang ingin dicapai''
        [],
        requirement ''output_type'' ''Format File'' ''recommended'' ''select''
        ''Format file output''
        output_type_suggestions]\<rparr>"

definition penilaian_requirements :: MinimumRequirements where
  "penilaian_requirements =
     \<lparr>mr_content_type = ''penilaian'', mr_content_type_label = ''Penilaian'',
      mr_required_fields =
       [requirement ''target_audience'' ''Jenjang/Kelas'' ''required'' ''select''
        ''Jenjang dan kelas siswa yang dituju''
        grade_level_suggestions,
        requirement ''difficulty_level'' ''Tingkat Kesulitan'' ''required'' ''select''
        ''Tingkat kesulitan soal''
        difficulty_level_suggestions,
        requirement ''question_count'' ''Jumlah Soal'' ''required'' ''number_input''
        ''Jumlah soal yang diinginkan''
        []],
      mr_recommended_fields =
       [requirement ''question_type'' ''Jenis Soal'' ''recommended'' ''multi_select''
        ''Jenis soal: pilihan ganda, essay, uraian, dll''
        [chip ''pilihan_ganda'' ''Pilihan Ganda'',
        chip ''essay'' ''Essay'',
        chip ''uraian'' ''Uraian'',
        chip ''benar_salah'' ''Benar/Salah'',
        chip ''isian_singkat'' ''Isian Singkat''],
        requirement ''output_type'' ''Format File'' ''recommended'' ''select''
        ''Format file output''
        output_type_suggestions]\<rparr>"

definition unknown_requirements :: MinimumRequirements where
  "unknown_requirements =
     \<lparr>mr_content_type = ''unknown'', mr_content_type_label = ''Tidak Diketahui'',
      mr_required_fields =
       [requirement ''target_audience'' ''Jenjang/Kelas'' ''required'' ''select''
        ''Jenjang dan kelas siswa yang dituju''
        grade_level_suggestions,
        requirement ''output_type'' ''Format File'' ''required'' ''select''
        ''Format file output''
        output_type_suggestions],
      mr_recommended_fields =
       []\<rparr>"

definition get_standards_for_content_type :: "ContentType \<Rightarrow> FieldDefinition list" where
  "get_standards_for_content_type t =
     (case t of
        MateriPembelajaran \<Rightarrow> materi_pembelajaran_standards | SlidePresentasi \<Rightarrow> slide_presentasi_standards
      | Rpp \<Rightarrow> rpp_standards | LembarKerja \<Rightarrow> lembar_kerja_standards | Silabus \<Rightarrow> silabus_standards
      | Penilaian \<Rightarrow> penilaian_standards | UnknownContent \<Rightarrow> materi_pembelajaran_standards)"

definition priority_rank :: "FieldPriority \<Rightarrow> nat" where
  "priority_rank p = (case p of Required \<Rightarrow> 0 | Recommended \<Rightarrow> 1 | Optional \<Rightarrow> 2)"

definition compare_nat :: "nat \<Rightarrow> nat \<Rightarrow> ordering" where
  "compare_nat a b = (if a < b then Less else if b < a then Greater else Equal)"

definition get_clarification_fields :: "ContentType \<Rightarrow> FieldDefinition list" where
  "get_clarification_fields t =
     sort_by (\<lambda>a b. compare_nat (priority_rank (fd_priority a)) (priority_rank (fd_priority b)))
       (take 5 (filter (\<lambda>f. fd_priority f \<noteq> Optional) (get_standards_for_content_type t)))"

definition get_minimum_requirements :: "ContentType \<Rightarrow> MinimumRequirements" where
  "get_minimum_requirements t =
     (case t of
        MateriPembelajaran \<Rightarrow> materi_pembelajaran_requirements | SlidePresentasi \<Rightarrow> slide_presentasi_requirements
      | Rpp \<Rightarrow> rpp_requirements | LembarKerja \<Rightarrow> lembar_kerja_requirements
      | Silabus \<Rightarrow> silabus_requirements | Penilaian \<Rightarrow> penilaian_requirements
      | UnknownContent \<Rightarrow> unknown_requirements)"

subsection \<open>As JSON\<close>

definition chip_json :: "SuggestionChip \<Rightarrow> json" where
  "chip_json c = JObj [(''value'', JStr (ch_value c)), (''label'', JStr (ch_label c))]"

definition requirement_json :: "MinimumRequirementField \<Rightarrow> json" where
  "requirement_json f =
     JObj [(''field_id'', JStr (mq_field_id f)), (''field_label'', JStr (mq_field_label f)),
           (''priority'', JStr (mq_priority f)), (''input_type'', JStr (mq_input_type f)),
           (''description'', JStr (mq_description f)),
           (''suggestions'', JArr (map chip_json (mq_suggestions f)))]"

definition get_minimum_requirements_json :: "ContentType \<Rightarrow> json" where
  "get_minimum_requirements_json t =
     (let r = get_minimum_requirements t
      in JObj [(''content_type'', JStr (mr_content_type r)),
               (''content_type_label'', JStr (mr_content_type_label r)),
               (''required_fields'', JArr (map requirement_json (mr_required_fields r))),
               (''recommended_fields'', JArr (map requirement_json (mr_recommended_fields r)))])"

section \<open>Properties\<close>

lemma contains_trans: "contains h a \<Longrightarrow> sublist b a \<Longrightarrow> contains h b"
  by (auto simp: contains_sublist intro: sublist_order.order_trans)

text \<open>
  The required fields of the two tables agree for every content type, in the same order and with the
  same suggestions.\<close>

theorem requirement_tables_agree:
  "map (\<lambda>f. (mq_field_id f, mq_input_type f, mq_suggestions f)) (mr_required_fields (get_minimum_requirements t)) =
   map (\<lambda>f. (fd_field_id f, input_type_str (fd_input_type f), fd_suggestions f))
     (filter (\<lambda>f. fd_priority f = Required) (get_standards_for_content_type t))"
  by (cases t)
    (simp_all add: get_minimum_requirements_def get_standards_for_content_type_def field_def_def requirement_def
      input_type_str_def materi_pembelajaran_requirements_def slide_presentasi_requirements_def
      rpp_requirements_def lembar_kerja_requirements_def silabus_requirements_def penilaian_requirements_def
      unknown_requirements_def materi_pembelajaran_standards_def slide_presentasi_standards_def
      rpp_standards_def lembar_kerja_standards_def silabus_standards_def penilaian_standards_def)

text \<open>
  At most five fields are asked for, each once, none of them optional, and the required ones first.\<close>

theorem clarification_fields_ordered:
  "length (get_clarification_fields t) \<le> 5 \<and>
   distinct (map fd_field_id (get_clarification_fields t)) \<and>
   list_all (\<lambda>f. fd_priority f \<noteq> Optional) (get_clarification_fields t) \<and>
   sorted (map (priority_rank \<circ> fd_priority) (get_clarification_fields t)) \<and>
   filter (\<lambda>f. fd_priority f = Required) (get_clarification_fields t) =
     filter (\<lambda>f. fd_priority f = Required) (get_standards_for_content_type t)"
  by (cases t)
    (simp_all add: get_clarification_fields_def get_standards_for_content_type_def field_def_def
      materi_pembelajaran_standards_def slide_presentasi_standards_def
      rpp_standards_def lembar_kerja_standards_def silabus_standards_def penilaian_standards_def
      sort_by_def compare_nat_def priority_rank_def)

text \<open>
  The grades 11 and 12 are never detected: every prompt that names one of them also contains the
  shorter pattern of grade 1 or of grade 10, which comes first. A prompt with \<open>kelas 10\<close>, \<open>kelas 11\<close> or
  \<open>kelas 12\<close> is taken to be for the first grade of primary school.\<close>

theorem senior_grades_misread:
  assumes "contains (lowered E prompt) (''kelas 1'' @ d)"
  shows "detect_target_audience E R prompt = Some ''SD Kelas 1''"
proof -
  have "contains (lowered E prompt) ''kelas 1''"
    using assms by (rule contains_trans) (simp add: sublist_append_rightI)
  then show ?thesis by (simp add: detect_target_audience_def grade_patterns_def Let_def)
qed

theorem senior_grades_misread_witness:
  "detect_target_audience sample_externals \<lparr>rx_group1 = (\<lambda>_ _. None), rx_is_match = (\<lambda>_ _. False)\<rparr>
     ''materi kelas 12'' = Some ''SD Kelas 1''"
  by (rule senior_grades_misread [where d = "''2''"])
    (simp add: lowered_def to_lowercase_def is_ascii_def byte_def ascii_lower_def)

lemma audience_prefixes:
  "contains l ''kelas 11'' \<Longrightarrow> contains l ''kelas 1''" "contains l ''kelas 12'' \<Longrightarrow> contains l ''kelas 1''"
  "contains l ''kelas xi'' \<Longrightarrow> contains l ''kelas x''" "contains l ''kelas xii'' \<Longrightarrow> contains l ''kelas x''"
  "contains l ''grade 11'' \<Longrightarrow> contains l ''grade 1''" "contains l ''grade 12'' \<Longrightarrow> contains l ''grade 1''"
  by (erule contains_trans, simp add: sublist_code)+

text \<open>
  The eleventh and the twelfth grade are never detected, however a prompt names them.\<close>

theorem senior_grades_unreachable:
  "detect_target_audience E R prompt \<notin> {Some ''SMA Kelas 11'', Some ''SMA Kelas 12''}"
  using audience_prefixes [of "lowered E prompt"]
  by (auto simp: detect_target_audience_def grade_patterns_def standalone_levels_def Let_def)

end
