(* ===== verification/Interp_Repair.thy ===== *)
theory Interp_Repair
  imports Interp_Types Standards
begin

text \<open>
  \<open>repair_interpretation_json\<close> and \<open>decode_and_validate\<close> of
  \<open>src/src/contracts/prompt_interpretation.rs\<close>: the repair of a completion of the language model before
  it is decoded. Each numbered step of the source is a definition on the members of the object.

  \<open>codec\<close> holds what the code calls of other crates: the JSON parser, the regular expressions, and
  garde's length of a string.
\<close>

record codec =
  cd_parse :: "string \<Rightarrow> json option"
  cd_regex :: regex
  cd_len :: "string \<Rightarrow> nat"

type_synonym members = "(string \<times> json) list"

definition SCHEMA_VERSION_PU :: string where
  "SCHEMA_VERSION_PU = ''media_prompt_understanding.v1''"

section \<open>Operations on an object\<close>

definition has_key :: "string \<Rightarrow> members \<Rightarrow> bool" where
  "has_key k m \<longleftrightarrow> map_of m k \<noteq> None"

text \<open>\<open>!m.contains_key(k) || m[k].is_null()\<close>, and the same or the empty string.\<close>

definition null_at :: "string \<Rightarrow> members \<Rightarrow> bool" where
  "null_at k m \<longleftrightarrow> (case map_of m k of None \<Rightarrow> True | Some v \<Rightarrow> v = JNull)"

definition blank_at :: "string \<Rightarrow> members \<Rightarrow> bool" where
  "blank_at k m \<longleftrightarrow> null_at k m \<or> map_of m k = Some (JStr [])"

definition fill :: "string \<Rightarrow> json \<Rightarrow> members \<Rightarrow> members" where
  "fill k v m = (if blank_at k m then AList.update k v m else m)"

definition fill_null :: "string \<Rightarrow> json \<Rightarrow> members \<Rightarrow> members" where
  "fill_null k v m = (if null_at k m then AList.update k v m else m)"

text \<open>\<open>if let Some(m) = obj.get_mut(k).and_then(|v| v.as_object_mut())\<close>.\<close>

definition in_object :: "string \<Rightarrow> (members \<Rightarrow> members) \<Rightarrow> members \<Rightarrow> members" where
  "in_object k f m =
     (case map_of m k of Some (JObj n) \<Rightarrow> AList.update k (JObj (f n)) m | _ \<Rightarrow> m)"

text \<open>\<open>Map::remove\<close> of an ordered map puts the last member in the place of the removed one.\<close>

fun swap_remove :: "string \<Rightarrow> members \<Rightarrow> members" where
  "swap_remove k [] = []"
| "swap_remove k ((j, v) # m) =
     (if j = k then (if m = [] then [] else last m # butlast m) else (j, v) # swap_remove k m)"

section \<open>Text helpers\<close>

text \<open>The length test compares bytes with code points: the dots are left out of a cut text whose kept
  part has enough multi-byte code points.\<close>

definition truncate_str :: "string \<Rightarrow> nat \<Rightarrow> string" where
  "truncate_str value max_len =
     (let trimmed = trim value;
          kept = concat (take max_len (chars trimmed))
      in if length kept < length (chars trimmed) then kept @ ''...'' else kept)"

definition normalize_output_type :: "externals \<Rightarrow> string \<Rightarrow> string" where
  "normalize_output_type E raw =
     (let r = to_lowercase (x_lower E) raw
      in if r = ''pdf'' then ''pdf''
         else if r \<in> {''docx'', ''doc'', ''word''} then ''docx''
         else if r \<in> {''pptx'', ''ppt'', ''powerpoint'', ''slide'', ''slides''} then ''pptx''
         else ''pdf'')"

definition detect_language :: "externals \<Rightarrow> string \<Rightarrow> string" where
  "detect_language E prompt =
     (let lowered = to_lowercase (x_lower E) prompt;
          id_score = length (filter (contains lowered)
            [''buatkan'', ''kelas'', ''siswa'', ''materi'', ''untuk'', ''dan'']);
          en_score = length (filter (contains lowered)
            [''create'', ''grade'', ''students'', ''lesson'', ''for'', ''and''])
      in if en_score < id_score then ''id'' else if id_score < en_score then ''en'' else ''und'')"

definition detect_slide_count_from_prompt :: "externals \<Rightarrow> codec \<Rightarrow> string \<Rightarrow> string option" where
  "detect_slide_count_from_prompt E C prompt =
     (case detect_slide_count E (cd_regex C) prompt of
        Some s \<Rightarrow> if parse_i64 s \<noteq> None then Some s else None
      | None \<Rightarrow> None)"

definition detect_page_count_from_prompt :: "externals \<Rightarrow> codec \<Rightarrow> string \<Rightarrow> string option" where
  "detect_page_count_from_prompt E C prompt =
     (case detect_page_count E (cd_regex C) prompt of
        Some s \<Rightarrow> if parse_i64 s \<noteq> None then Some s else None
      | None \<Rightarrow> None)"

section \<open>Candidates\<close>

definition jf :: "rat \<Rightarrow> json" where
  "jf q = json_f64 (f64_lit q)"

definition candidate_obj :: "string \<Rightarrow> json \<Rightarrow> string \<Rightarrow> json" where
  "candidate_obj t score reason =
     JObj [(''type'', JStr t), (''score'', score), (''reason'', JStr reason)]"

definition normalize_output_type_candidates_string :: "externals \<Rightarrow> string \<Rightarrow> json" where
  "normalize_output_type_candidates_string E s =
     (let primary = normalize_output_type E s;
          (secondary, tertiary) =
            (if primary = ''pdf'' then (''docx'', ''pptx'')
             else if primary = ''docx'' then (''pdf'', ''pptx'') else (''pdf'', ''docx''))
      in JArr [candidate_obj primary (jf (82 / 100)) (''LLM suggested '' @ primary @ ''.''),
               candidate_obj secondary (jf (64 / 100)) (''Alternative '' @ secondary @ ''.''),
               candidate_obj tertiary (jf (46 / 100)) (''Alternative '' @ tertiary @ ''.'')])"

definition normalize_output_type_candidates_object :: "externals \<Rightarrow> members \<Rightarrow> json" where
  "normalize_output_type_candidates_object E m =
     (let primary =
        (case Option.bind (case List.map_filter (map_of m) [''preferred'', ''type'', ''format''] of
                             [] \<Rightarrow> None | v # _ \<Rightarrow> Some v) as_str of
           Some s \<Rightarrow> normalize_output_type E s
         | None \<Rightarrow> ''pdf'')
      in normalize_output_type_candidates_string E primary)"

definition repair_candidate :: "externals \<Rightarrow> json \<Rightarrow> json" where
  "repair_candidate E item =
     (case item of
        JStr s \<Rightarrow> candidate_obj (normalize_output_type E s) (jf (7 / 10)) (''LLM suggested '' @ s @ ''.'')
      | JObj m \<Rightarrow>
          (let type_val = str_or ''pdf'' (str_at [''type''] item);
               score = (case Option.bind (map_of m ''score'') as_f64 of
                          Some x \<Rightarrow> json_f64 x | None \<Rightarrow> jf (7 / 10));
               reason = str_or ''LLM candidate.'' (str_at [''reason''] item)
           in candidate_obj (normalize_output_type E type_val) score reason)
      | _ \<Rightarrow> item)"

definition default_candidates :: json where
  "default_candidates =
     JArr [candidate_obj ''pdf'' (jf (82 / 100)) ''Default PDF candidate.'',
           candidate_obj ''docx'' (jf (64 / 100)) ''Default DOCX candidate.'',
           candidate_obj ''pptx'' (jf (46 / 100)) ''Default PPTX candidate.'']"

definition repair_candidates :: "externals \<Rightarrow> members \<Rightarrow> members" where
  "repair_candidates E m =
     (case map_of m ''output_type_candidates'' of
        None \<Rightarrow> AList.update ''output_type_candidates'' default_candidates m
      | Some (JStr s) \<Rightarrow> AList.update ''output_type_candidates'' (normalize_output_type_candidates_string E s) m
      | Some (JObj n) \<Rightarrow> AList.update ''output_type_candidates'' (normalize_output_type_candidates_object E n) m
      | Some (JArr arr) \<Rightarrow> AList.update ''output_type_candidates'' (JArr (map (repair_candidate E) arr)) m
      | Some _ \<Rightarrow> m)"

section \<open>Constraints and blueprint\<close>

definition repair_duration :: "members \<Rightarrow> members" where
  "repair_duration =
     in_object ''constraints'' (\<lambda>c.
       case map_of c ''max_duration_minutes'' of
         Some (JStr s) \<Rightarrow>
           (case parse_i32 s of
              Some num \<Rightarrow> AList.update ''max_duration_minutes'' (JInt num) c
            | None \<Rightarrow> swap_remove ''max_duration_minutes'' c)
       | _ \<Rightarrow> c)"

definition section_obj :: "string \<Rightarrow> string \<Rightarrow> string list \<Rightarrow> string \<Rightarrow> json" where
  "section_obj t p bs len =
     JObj [(''title'', JStr t), (''purpose'', JStr p), (''bullets'', JArr (map JStr bs)),
           (''estimated_length'', JStr len)]"

definition requested_section :: "string \<Rightarrow> json" where
  "requested_section teacher_prompt =
     section_obj ''Requested Content'' ''Deliver the requested learning material.''
       [truncate_str teacher_prompt 300] ''medium''"

definition nonempty_or :: "string \<Rightarrow> string option \<Rightarrow> string" where
  "nonempty_or d x = (case x of Some s \<Rightarrow> if s = [] then d else s | None \<Rightarrow> d)"

definition bullet_text :: "json \<Rightarrow> string option" where
  "bullet_text b =
     (case b of
        JStr s \<Rightarrow> if s \<noteq> [] then Some s else None
      | JObj m \<Rightarrow> (case m of [] \<Rightarrow> None | (k, v) # _ \<Rightarrow> as_str v)
      | _ \<Rightarrow> None)"

definition section_bullets :: "json option \<Rightarrow> string list" where
  "section_bullets x =
     (case x of
        Some (JStr s) \<Rightarrow> if s \<noteq> [] then [s] else []
      | Some (JArr arr) \<Rightarrow> List.map_filter bullet_text arr
      | _ \<Rightarrow> [])"

definition repair_section :: "json \<Rightarrow> json" where
  "repair_section s =
     (case s of
        JStr title_str \<Rightarrow>
          section_obj (truncate_str title_str 200) (truncate_str title_str 500)
            [truncate_str title_str 300] ''medium''
      | JObj m \<Rightarrow>
          (let title = nonempty_or ''Untitled Section'' (str_at [''title''] s);
               purpose = nonempty_or ''Section content'' (str_at [''purpose''] s);
               bullets = section_bullets (map_of m ''bullets'');
               bullets' = (if bullets = [] then [purpose] else bullets);
               estimated_length = str_or ''medium'' (str_at [''estimated_length''] s)
           in section_obj (truncate_str title 200) (truncate_str purpose 500) bullets' estimated_length)
      | _ \<Rightarrow> s)"

definition blueprint_obj :: "string \<Rightarrow> string \<Rightarrow> json \<Rightarrow> json" where
  "blueprint_obj t s sec = JObj [(''title'', JStr t), (''summary'', JStr s), (''sections'', JArr [sec])]"

definition blueprint_from_string :: "members \<Rightarrow> members" where
  "blueprint_from_string m =
     (case map_of m ''document_blueprint'' of
        Some (JStr bp) \<Rightarrow>
          AList.update ''document_blueprint''
            (blueprint_obj (truncate_str bp 200) (truncate_str bp 1000)
              (section_obj ''Requested Content'' (truncate_str bp 500) [truncate_str bp 300] ''medium'')) m
      | _ \<Rightarrow> m)"

definition blueprint_from_alias :: "string \<Rightarrow> members \<Rightarrow> members" where
  "blueprint_from_alias teacher_prompt m =
     (if null_at ''document_blueprint'' m then
        (case map_of m ''blueprint'' of
           Some bp \<Rightarrow> AList.update ''document_blueprint'' bp (swap_remove ''blueprint'' m)
         | None \<Rightarrow>
             (case map_of m ''document'' of
                Some bp \<Rightarrow> AList.update ''document_blueprint'' bp (swap_remove ''document'' m)
              | None \<Rightarrow>
                  AList.update ''document_blueprint''
                    (blueprint_obj (truncate_str teacher_prompt 200) (truncate_str teacher_prompt 1000)
                      (requested_section teacher_prompt)) m))
      else m)"

definition repair_sections :: "string \<Rightarrow> members \<Rightarrow> members" where
  "repair_sections teacher_prompt bp =
     (case map_of bp ''sections'' of
        Some (JArr ss) \<Rightarrow>
          AList.update ''sections''
            (JArr (if ss = [] then [requested_section teacher_prompt] else map repair_section ss)) bp
      | _ \<Rightarrow> AList.update ''sections'' (JArr [requested_section teacher_prompt]) bp)"

definition repair_blueprint :: "string \<Rightarrow> members \<Rightarrow> members" where
  "repair_blueprint teacher_prompt m =
     in_object ''document_blueprint''
       (repair_sections teacher_prompt \<circ>
        fill ''summary'' (JStr (truncate_str teacher_prompt 1000)) \<circ>
        fill ''title'' (JStr (truncate_str teacher_prompt 200)))
       (blueprint_from_alias teacher_prompt (blueprint_from_string m))"

section \<open>Intent, constraints and confidence\<close>

definition repair_intent :: "string \<Rightarrow> members \<Rightarrow> members" where
  "repair_intent teacher_prompt m =
     (if has_key ''teacher_intent'' m then
        in_object ''teacher_intent''
          (fill_null ''requires_clarification'' (JBool False) \<circ>
           fill ''preferred_delivery_mode'' (JStr ''digital_download'') \<circ>
           fill ''goal'' (JStr (truncate_str teacher_prompt 500)) \<circ>
           fill ''type'' (JStr ''generate_learning_media'')) m
      else AList.update ''teacher_intent''
        (JObj [(''type'', JStr ''generate_learning_media''), (''goal'', JStr (truncate_str teacher_prompt 500)),
               (''preferred_delivery_mode'', JStr ''digital_download''),
               (''requires_clarification'', JBool False)]) m)"

definition repair_constraints :: "members \<Rightarrow> members" where
  "repair_constraints m =
     (if has_key ''constraints'' m
      then in_object ''constraints'' (fill ''preferred_output_type'' (JStr ''auto'')) m
      else AList.update ''constraints'' (JObj [(''preferred_output_type'', JStr ''auto'')]) m)"

text \<open>A score that is a string is parsed; one that is absent or null gets the default.\<close>

definition repair_number :: "string \<Rightarrow> f64 \<Rightarrow> members \<Rightarrow> members" where
  "repair_number k d m =
     (if null_at k m then AList.update k (json_f64 d) m
      else case map_of m k of
        Some (JStr s) \<Rightarrow>
          AList.update k (json_f64 (case parse_f64 s of Some x \<Rightarrow> x | None \<Rightarrow> d)) m
      | _ \<Rightarrow> m)"

definition score_label :: "f64 \<Rightarrow> string" where
  "score_label s =
     (if f64_le (f64_lit (8 / 10)) s then ''high''
      else if f64_le (f64_lit (5 / 10)) s then ''medium'' else ''low'')"

definition label_score :: "string \<Rightarrow> f64" where
  "label_score label =
     (if label \<in> {''high'', ''very high''} then f64_lit (9 / 10)
      else if label \<in> {''medium'', ''moderate''} then f64_lit (6 / 10)
      else if label \<in> {''low'', ''very low''} then f64_lit (3 / 10)
      else f64_lit (6 / 10))"

definition scalar_confidence :: "externals \<Rightarrow> json \<Rightarrow> f64 \<times> string" where
  "scalar_confidence E v =
     (case v of
        JStr s \<Rightarrow>
          (case parse_f64 (trim s) of
             Some n \<Rightarrow> (n, score_label n)
           | None \<Rightarrow>
               (let label = to_lowercase (x_lower E) (trim s)
                in (label_score label, if label = [] then ''medium'' else label)))
      | _ \<Rightarrow>
          (case as_f64 v of
             Some s \<Rightarrow> (s, score_label s)
           | None \<Rightarrow> (f64_lit (6 / 10), ''medium'')))"

definition repair_confidence :: "externals \<Rightarrow> members \<Rightarrow> members" where
  "repair_confidence E m =
     (case map_of m ''confidence'' of
        None \<Rightarrow> AList.update ''confidence'' (JObj [(''score'', jf (6 / 10)), (''label'', JStr ''medium'')]) m
      | Some (JObj n) \<Rightarrow>
          AList.update ''confidence''
            (JObj (repair_number ''score'' (f64_lit (6 / 10)) (fill ''label'' (JStr ''medium'') n))) m
      | Some v \<Rightarrow>
          (case scalar_confidence E v of
             (score, label) \<Rightarrow>
               AList.update ''confidence'' (JObj [(''score'', json_f64 score), (''label'', JStr label)]) m))"

section \<open>The other members\<close>

definition repair_integrity :: "members \<Rightarrow> members" where
  "repair_integrity =
     in_object ''content_integrity''
       (fill ''classification_source'' (JStr ''llm_interpret'') \<circ>
        repair_number ''integrity_score'' (f64_lit (8 / 10)))"

definition repair_asset :: "externals \<Rightarrow> json \<Rightarrow> json" where
  "repair_asset E asset =
     (case asset of
        JObj m \<Rightarrow>
          JObj (if null_at ''required'' m then AList.update ''required'' (JBool True) m
                else case map_of m ''required'' of
                  Some (JStr s) \<Rightarrow> AList.update ''required'' (JBool (to_lowercase (x_lower E) s = ''true'')) m
                | _ \<Rightarrow> m)
      | _ \<Rightarrow> asset)"

definition repair_assets :: "externals \<Rightarrow> members \<Rightarrow> members" where
  "repair_assets E m =
     (case map_of m ''assets'' of
        Some (JArr assets) \<Rightarrow> AList.update ''assets'' (JArr (map (repair_asset E) assets)) m
      | _ \<Rightarrow> m)"

definition repair_objectives :: "externals \<Rightarrow> members \<Rightarrow> members" where
  "repair_objectives E m =
     (if null_at ''learning_objectives'' m then AList.update ''learning_objectives'' (JArr []) m
      else case map_of m ''learning_objectives'' of
        Some (JArr arr) \<Rightarrow>
          AList.update ''learning_objectives'' (JArr (map (\<lambda>v. JStr (objective_text E v)) arr)) m
      | _ \<Rightarrow> m)"

definition repair_plan_mode :: "members \<Rightarrow> members" where
  "repair_plan_mode m =
     (if null_at ''plan_mode'' m then
        (let requires_clarification =
               (case Option.bind (pointer [''teacher_intent'', ''requires_clarification''] (JObj m)) as_bool of
                  Some b \<Rightarrow> b | None \<Rightarrow> False);
             confidence_score =
               (case Option.bind (pointer [''confidence'', ''score''] (JObj m)) as_f64 of
                  Some x \<Rightarrow> x | None \<Rightarrow> f64_lit (6 / 10));
             plan_active = (requires_clarification \<or> f64_lt confidence_score (f64_lit (5 / 10)))
         in AList.update ''plan_mode''
              (JObj [(''active'', JBool plan_active),
                     (''reason'', if plan_active
                        then JStr ''Prompt lacks required information for media generation. Teacher clarification needed.''
                        else JNull),
                     (''detected_content_type'', JNull),
                     (''content_type_confidence'', json_f64 confidence_score)]) m)
      else in_object ''plan_mode'' (fill_null ''active'' (JBool False)) m)"

definition interpreted_obj :: "externals \<Rightarrow> codec \<Rightarrow> string \<Rightarrow> members \<Rightarrow> json" where
  "interpreted_obj E C teacher_prompt m =
     (let v = JObj m;
          target_audience = (case str_at [''target_audience'', ''label''] v of
              Some s \<Rightarrow> Some s | None \<Rightarrow> str_at [''target_audience''] v);
          output_type = (case str_at [''constraints'', ''preferred_output_type''] v of
              Some s \<Rightarrow> if s \<noteq> ''auto'' then Some s else None | None \<Rightarrow> None);
          objectives = map_option (List.map_filter as_str) (arr_at [''learning_objectives''] v)
      in JObj [(''target_audience'', jstr_opt target_audience), (''output_type'', jstr_opt output_type),
               (''subject'', jstr_opt (str_at [''subject_context'', ''subject_name''] v)),
               (''topic'', jstr_opt (str_at [''document_blueprint'', ''title''] v)),
               (''learning_objectives'', case objectives of
                  Some os \<Rightarrow> if os = [] then JNull else JArr (map JStr os) | None \<Rightarrow> JNull),
               (''page_count'', jstr_opt (detect_page_count_from_prompt E C teacher_prompt)),
               (''difficulty_level'', JNull), (''include_activities'', JNull),
               (''slide_count'', jstr_opt (detect_slide_count_from_prompt E C teacher_prompt)),
               (''question_count'', JNull), (''meeting_duration'', JNull), (''teaching_method'', JNull),
               (''assessment_method'', JNull), (''visual_density'', JNull), (''speaker_notes'', JNull),
               (''question_type'', JNull)])"

definition fill_count :: "string \<Rightarrow> string option \<Rightarrow> members \<Rightarrow> members" where
  "fill_count k detected m = (case detected of Some n \<Rightarrow> fill_null k (JStr n) m | None \<Rightarrow> m)"

definition repair_interpreted :: "externals \<Rightarrow> codec \<Rightarrow> string \<Rightarrow> members \<Rightarrow> members" where
  "repair_interpreted E C teacher_prompt m =
     (if null_at ''interpreted_fields'' m
      then AList.update ''interpreted_fields'' (interpreted_obj E C teacher_prompt m) m
      else in_object ''interpreted_fields''
             (fill_count ''page_count'' (detect_page_count_from_prompt E C teacher_prompt) \<circ>
              fill_count ''slide_count'' (detect_slide_count_from_prompt E C teacher_prompt)) m)"

definition repair_missing_field :: "json \<Rightarrow> json option" where
  "repair_missing_field item =
     (case item of
        JObj m \<Rightarrow>
          (let field_id = str_or '''' (str_at [''field_id''] item);
               field_label = str_or field_id (str_at [''field_label''] item);
               priority = str_or ''required'' (str_at [''priority''] item);
               question = str_or '''' (str_at [''question''] item);
               input_type = str_or ''select'' (str_at [''input_type''] item)
           in if field_id = [] \<or> question = [] then None
              else Some (JObj [(''field_id'', JStr field_id), (''field_label'', JStr field_label),
                               (''priority'', JStr priority), (''question'', JStr question),
                               (''suggestions'', case map_of m ''suggestions'' of Some s \<Rightarrow> s | None \<Rightarrow> JArr []),
                               (''input_type'', JStr input_type)]))
      | _ \<Rightarrow> None)"

definition repair_missing :: "members \<Rightarrow> members" where
  "repair_missing m =
     (if null_at ''missing_fields'' m then AList.update ''missing_fields'' (JArr []) m
      else case map_of m ''missing_fields'' of
        Some (JArr arr) \<Rightarrow>
          AList.update ''missing_fields'' (JArr (List.map_filter repair_missing_field arr)) m
      | _ \<Rightarrow> m)"

section \<open>The whole repair\<close>

definition repair_object :: "externals \<Rightarrow> codec \<Rightarrow> members \<Rightarrow> members" where
  "repair_object E C m =
     (let teacher_prompt = str_or ''Learning material'' (str_at [''teacher_prompt''] (JObj m))
      in repair_missing (repair_interpreted E C teacher_prompt (repair_plan_mode (repair_objectives E
           (repair_assets E (repair_integrity
           (fill ''resolved_output_type_reasoning'' (JStr ''Auto-selected based on content analysis.'')
           (fill ''language'' (JStr (detect_language E teacher_prompt))
           (fill ''teacher_delivery_summary'' (JStr (truncate_str teacher_prompt 1000))
           (repair_confidence E (repair_constraints (repair_intent teacher_prompt
           (repair_blueprint teacher_prompt (repair_duration (repair_candidates E
           (fill ''teacher_prompt'' (JStr teacher_prompt)
           (fill_null ''schema_version'' (JStr SCHEMA_VERSION_PU) m)))))))))))))))))"

text \<open>\<open>trim_start_matches\<close> and \<open>trim_end_matches\<close> of a string strip every repetition.\<close>

function trim_start_matches :: "string \<Rightarrow> string \<Rightarrow> string" where
  "trim_start_matches p s =
     (if p \<noteq> [] \<and> take (length p) s = p then trim_start_matches p (drop (length p) s) else s)"
  by pat_completeness auto
termination
proof (relation "measure (\<lambda>(p, s). length s)")
  fix p s :: string
  assume "p \<noteq> [] \<and> take (length p) s = p"
  then have "s \<noteq> []" by auto
  with \<open>p \<noteq> [] \<and> _\<close> show "((p, drop (length p) s), p, s) \<in> measure (\<lambda>(p, s). length s)" by simp
qed simp

declare trim_start_matches.simps [simp del]

definition trim_end_matches :: "string \<Rightarrow> string \<Rightarrow> string" where
  "trim_end_matches p s = rev (trim_start_matches (rev p) (rev s))"

definition starts_with :: "string \<Rightarrow> string \<Rightarrow> bool" where
  "starts_with s p \<longleftrightarrow> take (length p) s = p"

definition ends_with :: "string \<Rightarrow> string \<Rightarrow> bool" where
  "ends_with s p \<longleftrightarrow> starts_with (rev s) (rev p)"

definition strip_fences :: "string \<Rightarrow> string" where
  "strip_fences s =
     (let t = (if starts_with s ''```json'' then trim (trim_start_matches ''```json'' s)
               else if starts_with s ''```'' then trim (trim_start_matches ''```'' s) else s)
      in if ends_with t ''```'' then trim (trim_end_matches ''```'' t) else t)"

text \<open>From the first opening to the last closing brace, if both occur in this order.\<close>

definition extract_object :: "string \<Rightarrow> string" where
  "extract_object raw =
     (let trimmed = trim raw
      in if CHR ''{'' \<in> set trimmed \<and> CHR ''}'' \<in> set trimmed then
           (let start = length (takeWhile (\<lambda>c. c \<noteq> CHR ''{'') trimmed);
                end_pos = length trimmed - 1 - length (takeWhile (\<lambda>c. c \<noteq> CHR ''}'') (rev trimmed))
            in if start < end_pos then drop start (take (Suc end_pos) trimmed) else trimmed)
         else strip_fences trimmed)"

definition repair_interpretation_json :: "externals \<Rightarrow> codec \<Rightarrow> string \<Rightarrow> string" where
  "repair_interpretation_json E C raw =
     (let cleaned = extract_object raw
      in case cd_parse C cleaned of
           None \<Rightarrow> cleaned
         | Some (JObj m) \<Rightarrow> x_json_to_string E (JObj (repair_object E C m))
         | Some _ \<Rightarrow> raw)"

datatype ContractValidationError =
    Empty_Completion string
  | Contract_Undecodable string
  | Contract_Invalid string

definition decode_and_validate ::
  "externals \<Rightarrow> codec \<Rightarrow> string \<Rightarrow> ContractValidationError + InterpretationPayload" where
  "decode_and_validate E C raw_json =
     (if trim raw_json = [] then Inl (Empty_Completion raw_json)
      else
        (case Option.bind (cd_parse C (repair_interpretation_json E C (trim raw_json))) (dec_payload E) of
           None \<Rightarrow> Inl (Contract_Undecodable raw_json)
         | Some payload \<Rightarrow>
             if valid_payload (cd_len C) payload then Inr payload else Inl (Contract_Invalid raw_json)))"

section \<open>Laws\<close>

lemma truncate_str_ascii:
  "is_ascii (trim s) \<Longrightarrow>
     truncate_str s n = (if length (trim s) \<le> n then trim s else take n (trim s) @ ''...'')"
  by (simp add: truncate_str_def Let_def concat_take_ascii) (simp add: chars_ascii)

text \<open>A measure of strings that counts the bytes, or the code points, of ASCII text.\<close>

definition ascii_measure :: "(string \<Rightarrow> nat) \<Rightarrow> bool" where
  "ascii_measure len \<longleftrightarrow> (\<forall>s. is_ascii s \<longrightarrow> len s = length s)"

lemma ascii_measureD: "ascii_measure len \<Longrightarrow> is_ascii s \<Longrightarrow> len s = length s"
  by (simp add: ascii_measure_def)

lemma len_truncate_str:
  assumes "ascii_measure len" "is_ascii s"
  shows "len (truncate_str s n) = (if length (trim s) \<le> n then length (trim s) else n + 3)"
proof -
  have "is_ascii (trim s)" using assms(2) by (rule is_ascii_trim)
  moreover have "is_ascii ''...''" by (simp add: is_ascii_def byte_def)
  ultimately show ?thesis
    using assms(1) by (simp add: truncate_str_ascii ascii_measureD is_ascii_take)
qed

lemma language_ascii:
  "detect_language E p \<in> {''id'', ''en'', ''und''}"
  by (simp add: detect_language_def Let_def)


section \<open>What a repaired section decodes to\<close>

lemma those_map_JStr [simp]: "those (map (as_str \<circ> JStr) xs) = Some xs"
  by (induction xs) auto

lemma dec_section_obj: "dec_section (section_obj t p bs l) =
    Some \<lparr>bs_title = t, bs_purpose = p, bs_bullets = bs, bs_estimated_length = l\<rparr>"
  by (simp add: dec_section_def section_obj_def struct_fields_def required_def dec_list_def)

lemma dec_repair_section: "\<exists>s. dec_section (repair_section (JObj m)) = Some s"
  by (simp add: repair_section_def Let_def dec_section_obj)

section \<open>A completion with only the prompt\<close>

definition prompt_only :: "string \<Rightarrow> members" where
  "prompt_only p = [(''teacher_prompt'', JStr p)]"

lemma map_of_fill: "map_of (fill k v m) = (if blank_at k m then (map_of m)(k \<mapsto> v) else map_of m)"
  by (simp add: fill_def update_conv')

lemma map_of_fill_null: "map_of (fill_null k v m) = (if null_at k m then (map_of m)(k \<mapsto> v) else map_of m)"
  by (simp add: fill_null_def update_conv')

lemmas lookup_simps = map_of_fill map_of_fill_null blank_at_def null_at_def has_key_def in_object_def update_conv'

lemma truncate_str_nonempty: "trim s \<noteq> [] \<Longrightarrow> 0 < n \<Longrightarrow> truncate_str s n \<noteq> []"
  by (cases "trim s"; cases n) (auto simp: truncate_str_def Let_def)

lemma dec_interpreted_obj: "\<exists>f. dec_interpreted E (interpreted_obj E C p m) = Some f"
  by (auto simp: dec_interpreted_def interpreted_obj_def Let_def struct_fields_def defaulted_def nullable_def
      dec_list_def split: option.splits)

lemma dec_plan_obj:
  "reason = JNull \<or> (\<exists>s. reason = JStr s) \<Longrightarrow>
     \<exists>pm. dec_plan_mode E (JObj [(''active'', JBool b), (''reason'', reason),
        (''detected_content_type'', JNull), (''content_type_confidence'', c)]) = Some pm"
  by (auto simp: dec_plan_mode_def struct_fields_def required_def defaulted_def nullable_def)

lemma repair_prompt_only:
  assumes "trim p \<noteq> []" "map_of m = [''teacher_prompt'' \<mapsto> JStr p]"
  shows "\<exists>plan interp pm ifs. map_of (repair_object E C m) =
    [''teacher_prompt'' \<mapsto> JStr p, ''schema_version'' \<mapsto> JStr SCHEMA_VERSION_PU,
     ''output_type_candidates'' \<mapsto> default_candidates,
     ''document_blueprint'' \<mapsto> blueprint_obj (truncate_str p 200) (truncate_str p 1000)
        (repair_section (requested_section p)),
     ''teacher_intent'' \<mapsto>
        JObj [(''type'', JStr ''generate_learning_media''), (''goal'', JStr (truncate_str p 500)),
              (''preferred_delivery_mode'', JStr ''digital_download''), (''requires_clarification'', JBool False)],
     ''constraints'' \<mapsto> JObj [(''preferred_output_type'', JStr ''auto'')],
     ''confidence'' \<mapsto> JObj [(''score'', jf (6 / 10)), (''label'', JStr ''medium'')],
     ''teacher_delivery_summary'' \<mapsto> JStr (truncate_str p 1000),
     ''language'' \<mapsto> JStr (detect_language E p),
     ''resolved_output_type_reasoning'' \<mapsto> JStr ''Auto-selected based on content analysis.'',
     ''learning_objectives'' \<mapsto> JArr [], ''plan_mode'' \<mapsto> plan,
     ''interpreted_fields'' \<mapsto> interp, ''missing_fields'' \<mapsto> JArr []] \<and>
     dec_plan_mode E plan = Some pm \<and> dec_interpreted E interp = Some ifs"
proof -
  have nonempty: "p \<noteq> []" "truncate_str p 200 \<noteq> []" "truncate_str p 1000 \<noteq> []" "truncate_str p 500 \<noteq> []"
    using assms(1) truncate_str_nonempty by (auto simp: trim_def trim_chars_def)
  define m1 where "m1 = fill ''teacher_prompt'' (JStr p) (fill_null ''schema_version'' (JStr SCHEMA_VERSION_PU) m)"
  have m1: "map_of m1 = [''teacher_prompt'' \<mapsto> JStr p, ''schema_version'' \<mapsto> JStr SCHEMA_VERSION_PU]"
    using nonempty by (simp add: m1_def lookup_simps assms(2))
  define m2 where "m2 = repair_duration (repair_candidates E m1)"
  have m2: "map_of m2 = (map_of m1)(''output_type_candidates'' \<mapsto> default_candidates)"
    by (simp add: m2_def repair_duration_def repair_candidates_def m1 lookup_simps)
  define m3 where "m3 = repair_blueprint p m2"
  have m3: "map_of m3 = (map_of m2)(''document_blueprint'' \<mapsto>
      blueprint_obj (truncate_str p 200) (truncate_str p 1000) (repair_section (requested_section p)))"
    using nonempty
    by (simp add: m3_def repair_blueprint_def blueprint_from_string_def blueprint_from_alias_def m2 m1
        lookup_simps blueprint_obj_def repair_sections_def fill_def)
  define m4 where "m4 = repair_confidence E (repair_constraints (repair_intent p m3))"
  have m4: "map_of m4 = (map_of m3)(
     ''teacher_intent'' \<mapsto>
        JObj [(''type'', JStr ''generate_learning_media''), (''goal'', JStr (truncate_str p 500)),
              (''preferred_delivery_mode'', JStr ''digital_download''), (''requires_clarification'', JBool False)],
     ''constraints'' \<mapsto> JObj [(''preferred_output_type'', JStr ''auto'')],
     ''confidence'' \<mapsto> JObj [(''score'', jf (6 / 10)), (''label'', JStr ''medium'')])"
    by (simp add: m4_def repair_intent_def repair_constraints_def repair_confidence_def m3 m2 m1 lookup_simps)
  define m5 where "m5 = fill ''resolved_output_type_reasoning'' (JStr ''Auto-selected based on content analysis.'')
     (fill ''language'' (JStr (detect_language E p))
     (fill ''teacher_delivery_summary'' (JStr (truncate_str p 1000)) m4))"
  have m5: "map_of m5 = (map_of m4)(''teacher_delivery_summary'' \<mapsto> JStr (truncate_str p 1000),
     ''language'' \<mapsto> JStr (detect_language E p),
     ''resolved_output_type_reasoning'' \<mapsto> JStr ''Auto-selected based on content analysis.'')"
    by (simp add: m5_def m4 m3 m2 m1 lookup_simps)
  define m6 where "m6 = repair_objectives E (repair_assets E (repair_integrity m5))"
  have m6: "map_of m6 = (map_of m5)(''learning_objectives'' \<mapsto> JArr [])"
    by (simp add: m6_def repair_objectives_def repair_assets_def repair_integrity_def m5 m4 m3 m2 m1 lookup_simps)
  define m7 where "m7 = repair_plan_mode m6"
  have "\<exists>plan pm. map_of m7 = (map_of m6)(''plan_mode'' \<mapsto> plan) \<and> dec_plan_mode E plan = Some pm"
    using dec_plan_obj [of _ E] by (auto simp: m7_def repair_plan_mode_def Let_def m6 m5 m4 m3 m2 m1 lookup_simps)
  then obtain plan pm where m7: "map_of m7 = (map_of m6)(''plan_mode'' \<mapsto> plan)"
      "dec_plan_mode E plan = Some pm" by blast
  obtain ifs where ifs: "dec_interpreted E (interpreted_obj E C p m7) = Some ifs"
    using dec_interpreted_obj by blast
  have m8: "map_of (repair_missing (repair_interpreted E C p m7)) =
      (map_of m7)(''interpreted_fields'' \<mapsto> interpreted_obj E C p m7, ''missing_fields'' \<mapsto> JArr [])"
    by (simp add: repair_missing_def repair_interpreted_def m7(1) m6 m5 m4 m3 m2 m1 lookup_simps)
  have "repair_object E C m = repair_missing (repair_interpreted E C p m7)"
    by (simp add: repair_object_def str_or_def str_at_def assms(2) m7_def m6_def m5_def m4_def m3_def m2_def m1_def)
  with m8 m7 ifs show ?thesis
    by (intro exI [of _ plan] exI [of _ "interpreted_obj E C p m7"] exI [of _ pm] exI [of _ ifs])
      (simp add: m6 m5 m4 m3 m2 m1)
qed


lemma dec_default_candidates:
  "\<exists>cs. dec_list dec_candidate default_candidates = Some cs \<and> cs \<noteq> [] \<and>
     list_all (\<lambda>c. oc_type c \<in> {''pdf'', ''docx'', ''pptx''} \<and>
       oc_reason c \<in> {''Default PDF candidate.'', ''Default DOCX candidate.'', ''Default PPTX candidate.''}) cs"
  by (simp add: default_candidates_def candidate_obj_def dec_list_def dec_candidate_def struct_fields_def
      required_def)

lemma dec_prompt_only:
  assumes "trim p \<noteq> []" "map_of m = [''teacher_prompt'' \<mapsto> JStr p]"
  shows "\<exists>payload cs. dec_payload E (JObj (repair_object E C m)) = Some payload \<and>
    ip_schema_version payload = SCHEMA_VERSION_PU \<and> ip_teacher_prompt payload = p \<and>
    ip_language payload = detect_language E p \<and>
    ip_teacher_intent payload =
      \<lparr>ti_type = ''generate_learning_media'', ti_goal = truncate_str p 500,
       ti_preferred_delivery_mode = ''digital_download'', ti_requires_clarification = False\<rparr> \<and>
    ip_output_type_candidates payload = cs \<and> dec_list dec_candidate default_candidates = Some cs \<and>
    ip_resolved_output_type_reasoning payload = ''Auto-selected based on content analysis.'' \<and>
    db_title (ip_document_blueprint payload) = truncate_str p 200 \<and>
    db_summary (ip_document_blueprint payload) = truncate_str p 1000 \<and>
    db_sections (ip_document_blueprint payload) \<noteq> [] \<and>
    ip_teacher_delivery_summary payload = truncate_str p 1000 \<and>
    cf_label (ip_confidence payload) = ''medium''"
proof -
  obtain plan interp pm ifs where fs: "map_of (repair_object E C m) =
    [''teacher_prompt'' \<mapsto> JStr p, ''schema_version'' \<mapsto> JStr SCHEMA_VERSION_PU,
     ''output_type_candidates'' \<mapsto> default_candidates,
     ''document_blueprint'' \<mapsto> blueprint_obj (truncate_str p 200) (truncate_str p 1000)
        (repair_section (requested_section p)),
     ''teacher_intent'' \<mapsto>
        JObj [(''type'', JStr ''generate_learning_media''), (''goal'', JStr (truncate_str p 500)),
              (''preferred_delivery_mode'', JStr ''digital_download''), (''requires_clarification'', JBool False)],
     ''constraints'' \<mapsto> JObj [(''preferred_output_type'', JStr ''auto'')],
     ''confidence'' \<mapsto> JObj [(''score'', jf (6 / 10)), (''label'', JStr ''medium'')],
     ''teacher_delivery_summary'' \<mapsto> JStr (truncate_str p 1000),
     ''language'' \<mapsto> JStr (detect_language E p),
     ''resolved_output_type_reasoning'' \<mapsto> JStr ''Auto-selected based on content analysis.'',
     ''learning_objectives'' \<mapsto> JArr [], ''plan_mode'' \<mapsto> plan,
     ''interpreted_fields'' \<mapsto> interp, ''missing_fields'' \<mapsto> JArr []]"
    and dec: "dec_plan_mode E plan = Some pm" "dec_interpreted E interp = Some ifs"
    using repair_prompt_only [OF assms] by blast
  obtain cs where cs: "dec_list dec_candidate default_candidates = Some cs"
    using dec_default_candidates by blast
  obtain s where s: "dec_section (repair_section (requested_section p)) = Some s"
    using dec_repair_section unfolding requested_section_def section_obj_def by blast
  have bp: "dec_blueprint (blueprint_obj t u (repair_section (requested_section p))) =
      Some \<lparr>db_title = t, db_summary = u, db_sections = [s]\<rparr>" for t u
    using s by (simp add: dec_blueprint_def blueprint_obj_def struct_fields_def required_def dec_list_def)
  have intent: "dec_teacher_intent E (JObj [(''type'', JStr a), (''goal'', JStr b),
      (''preferred_delivery_mode'', JStr c), (''requires_clarification'', JBool d)]) =
      Some \<lparr>ti_type = a, ti_goal = b, ti_preferred_delivery_mode = c, ti_requires_clarification = d\<rparr>" for a b c d
    by (simp add: dec_teacher_intent_def struct_fields_def required_def deserialize_bool_lenient_def)
  have con: "\<exists>c. dec_constraints (JObj [(''preferred_output_type'', JStr ''auto'')]) = Some c"
    by (simp add: dec_constraints_def struct_fields_def defaulted_def)
  have conf: "\<exists>c. dec_confidence (JObj [(''score'', jf (6 / 10)), (''label'', JStr ''medium'')]) = Some c \<and> cf_label c = ''medium''"
    by (simp add: dec_confidence_def struct_fields_def required_def defaulted_def)
  have lists: "dec_list f (JArr []) = Some []" for f :: "json \<Rightarrow> 'x option"
    by (simp add: dec_list_def)
  have interp: "nullable (dec_interpreted E) interp \<noteq> None"
    using dec(2) by (simp add: nullable_def)
  show ?thesis
    using con conf interp
    by (auto simp: dec_payload_def struct_fields_def fs required_def defaulted_def bp intent lists cs dec(1)
        meta_repairs_field_def)
qed

section \<open>Properties\<close>

text \<open>
  C21. A completion that holds nothing but a prompt is repaired, decoded and accepted if and only if the
  prompt has at most 200 characters without the blanks around it. For a longer one the repair makes a
  title of 203 characters, which the validation after it refuses. The prompt is ASCII and not blank;
  the JSON parser reads the completion, and reads back what is printed.
\<close>

theorem prompt_only_completion:
  assumes len: "ascii_measure (cd_len C)" and ascii: "is_ascii p" and blank: "trim p \<noteq> []"
    and raw: "trim raw \<noteq> []" "cd_parse C (extract_object (trim raw)) = Some (JObj (prompt_only p))"
    and reparse: "cd_parse C (x_json_to_string E (JObj (repair_object E C (prompt_only p)))) =
      Some (JObj (repair_object E C (prompt_only p)))"
  shows "(\<exists>payload. decode_and_validate E C raw = Inr payload) \<longleftrightarrow>
    length (trim p) \<le> 200 \<and> length p \<le> 5000"
proof -
  obtain payload cs where dec: "dec_payload E (JObj (repair_object E C (prompt_only p))) = Some payload"
    and f: "ip_schema_version payload = SCHEMA_VERSION_PU" "ip_teacher_prompt payload = p"
      "ip_language payload = detect_language E p"
      "ip_teacher_intent payload =
        \<lparr>ti_type = ''generate_learning_media'', ti_goal = truncate_str p 500,
         ti_preferred_delivery_mode = ''digital_download'', ti_requires_clarification = False\<rparr>"
      "ip_output_type_candidates payload = cs"
      "ip_resolved_output_type_reasoning payload = ''Auto-selected based on content analysis.''"
      "db_title (ip_document_blueprint payload) = truncate_str p 200"
      "db_summary (ip_document_blueprint payload) = truncate_str p 1000"
      "db_sections (ip_document_blueprint payload) \<noteq> []"
      "ip_teacher_delivery_summary payload = truncate_str p 1000"
      "cf_label (ip_confidence payload) = ''medium''"
    and cs: "dec_list dec_candidate default_candidates = Some cs"
    using dec_prompt_only [OF blank, of "prompt_only p" E C] by (auto simp: prompt_only_def)
  have lits: "cd_len C ''generate_learning_media'' = 23" "cd_len C ''digital_download'' = 16"
      "cd_len C ''medium'' = 6" "cd_len C SCHEMA_VERSION_PU = 29" "cd_len C ''id'' = 2" "cd_len C ''en'' = 2"
      "cd_len C ''und'' = 3" "cd_len C ''pdf'' = 3" "cd_len C ''docx'' = 4" "cd_len C ''pptx'' = 4"
      "cd_len C ''Default PDF candidate.'' = 22" "cd_len C ''Default DOCX candidate.'' = 23"
      "cd_len C ''Default PPTX candidate.'' = 23"
      "cd_len C ''Auto-selected based on content analysis.'' = 40"
    by (simp_all add: ascii_measureD [OF len] is_ascii_def byte_def SCHEMA_VERSION_PU_def)
  have "list_all (\<lambda>c. in_length (cd_len C) 100 (oc_type c) \<and> in_length (cd_len C) 500 (oc_reason c)) cs \<and> cs \<noteq> []"
    using dec_default_candidates cs by (auto simp: list_all_iff in_length_def lits)
  moreover have "in_length (cd_len C) 32 (detect_language E p)"
    using language_ascii [of E p] by (auto simp: in_length_def lits)
  ultimately have "valid_payload (cd_len C) payload \<longleftrightarrow> length (trim p) \<le> 200 \<and> length p \<le> 5000"
    using length_trim_le [of p] blank
    by (auto simp: valid_payload_def f in_length_def lits len_truncate_str [OF len ascii]
        ascii_measureD [OF len ascii] Suc_le_eq)
  moreover have "decode_and_validate E C raw =
      (if valid_payload (cd_len C) payload then Inr payload else Inl (Contract_Invalid raw))"
    using raw reparse dec by (simp add: decode_and_validate_def repair_interpretation_json_def Let_def)
  ultimately show ?thesis by simp
qed


text \<open>A parser that knows two texts: a completion with a prompt of 201 letters, and its repair.\<close>

definition long_prompt :: string where
  "long_prompt = replicate 201 (CHR ''a'')"

definition no_counts :: "(string \<Rightarrow> json option) \<Rightarrow> codec" where
  "no_counts parse =
     \<lparr>cd_parse = parse, cd_regex = \<lparr>rx_group1 = (\<lambda>_ _. None), rx_is_match = (\<lambda>_ _. False)\<rparr>, cd_len = length\<rparr>"

definition sample_codec :: codec where
  "sample_codec = no_counts (\<lambda>s. if s = ''{p}'' then Some (JObj (prompt_only long_prompt))
     else Some (JObj (repair_object sample_externals (no_counts (\<lambda>_. None)) (prompt_only long_prompt))))"

lemma repair_no_counts: "repair_object E (no_counts f) m = repair_object E (no_counts g) m"
proof -
  have "detect_slide_count_from_prompt E (no_counts f) = detect_slide_count_from_prompt E (no_counts g)"
    "detect_page_count_from_prompt E (no_counts f) = detect_page_count_from_prompt E (no_counts g)"
    by (simp_all add: fun_eq_iff detect_slide_count_from_prompt_def detect_page_count_from_prompt_def no_counts_def)
  then have "repair_interpreted E (no_counts f) = repair_interpreted E (no_counts g)"
    by (simp add: fun_eq_iff repair_interpreted_def interpreted_obj_def)
  then show ?thesis by (simp only: repair_object_def)
qed

lemma trim_long_prompt: "trim long_prompt = long_prompt" "is_ascii long_prompt"
proof -
  have "\<not> is_whitespace ''a''" by (simp add: is_whitespace_def whitespace_codes_def byte_def)
  moreover show a: "is_ascii long_prompt" by (simp add: long_prompt_def is_ascii_def list_all_iff byte_def)
  ultimately show "trim long_prompt = long_prompt"
    by (simp add: long_prompt_def trim_def chars_ascii trim_chars_def map_replicate concat_replicate_single
        dropWhile_replicate)
qed

lemma extract_braces: "trim ''{p}'' = ''{p}''" "extract_object ''{p}'' = ''{p}''"
proof -
  show t: "trim ''{p}'' = ''{p}''"
    by (simp add: trim_def trim_chars_def is_whitespace_def whitespace_codes_def byte_def is_cont_def)
  show "extract_object ''{p}'' = ''{p}''" by (simp add: extract_object_def Let_def t)
qed

theorem prompt_only_completion_witness:
  "\<not> (\<exists>payload. decode_and_validate sample_externals sample_codec ''{p}'' = Inr payload)"
proof -
  have "length long_prompt = 201" by (simp add: long_prompt_def)
  moreover have "(\<exists>payload. decode_and_validate sample_externals sample_codec ''{p}'' = Inr payload) \<longleftrightarrow>
      length (trim long_prompt) \<le> 200 \<and> length long_prompt \<le> 5000"
  proof (rule prompt_only_completion)
    show "cd_parse sample_codec (extract_object (trim ''{p}'')) = Some (JObj (prompt_only long_prompt))"
      by (simp add: extract_braces sample_codec_def no_counts_def)
    have "x_json_to_string sample_externals v \<noteq> ''{p}''" for v
      by (simp add: sample_externals_def)
    then show "cd_parse sample_codec (x_json_to_string sample_externals
        (JObj (repair_object sample_externals sample_codec (prompt_only long_prompt)))) =
      Some (JObj (repair_object sample_externals sample_codec (prompt_only long_prompt)))"
      unfolding sample_codec_def
      by (subst (1) no_counts_def) (auto simp: intro: repair_no_counts)
  qed (use trim_long_prompt \<open>length long_prompt = 201\<close> in
        \<open>auto simp: sample_codec_def no_counts_def ascii_measure_def extract_braces\<close>)
  ultimately show ?thesis by (simp add: trim_long_prompt)
qed

text \<open>
  A text of multi-byte code points that is longer than the limit, by up to twice, is cut without the
  dots that mark a cut.
\<close>

theorem multibyte_cut_unmarked:
  assumes "trim s = s" and "\<And>c. c \<in> set (chars s) \<Longrightarrow> 2 \<le> length c" and "length (chars s) \<le> 2 * n"
  shows "truncate_str s n = concat (take n (chars s))"
proof -
  have "2 * length us \<le> length (concat us)" if "\<And>c. c \<in> set us \<Longrightarrow> 2 \<le> length c" for us :: "string list"
    using that by (induction us) force+
  from this [of "take n (chars s)"] assms(2) have "2 * length (take n (chars s)) \<le> length (concat (take n (chars s)))"
    by (meson in_set_takeD)
  with assms(3) have "\<not> length (concat (take n (chars s))) < length (chars s)" by (auto simp: min_def split: if_splits)
  then show ?thesis by (simp add: truncate_str_def assms(1) Let_def)
qed

theorem multibyte_cut_unmarked_witness:
  "truncate_str (concat (replicate 4 [CHR 0xC3, CHR 0xA9])) 3 = concat (replicate 3 [CHR 0xC3, CHR 0xA9])"
proof -
  let ?e = "[CHR 0xC3, CHR 0xA9]"
  have c: "chars (concat (replicate 4 ?e)) = replicate 4 ?e"
    by (simp add: numeral_eq_Suc is_cont_def byte_def)
  have "\<not> is_whitespace ?e" by (simp add: is_whitespace_def whitespace_codes_def byte_def)
  then have "trim (concat (replicate 4 ?e)) = concat (replicate 4 ?e)"
    by (simp add: trim_def c trim_chars_def dropWhile_replicate)
  from multibyte_cut_unmarked [OF this, of 3] show ?thesis by (simp add: c)
qed

text \<open>
  A candidate list the model gave as one word becomes the three formats, once each, with the one it
  named first.
\<close>

theorem candidate_word_ranks_all:
  "\<exists>cs. dec_list dec_candidate (normalize_output_type_candidates_string E s) = Some cs \<and>
     oc_type (hd cs) = normalize_output_type E s \<and>
     mset (map oc_type cs) = {# ''docx'', ''pdf'', ''pptx'' #}"
  by (simp add: normalize_output_type_candidates_string_def normalize_output_type_def Let_def
      candidate_obj_def dec_list_def dec_candidate_def struct_fields_def required_def add_mset_commute)

end
