(* ===== verification/Plan_Mode.thy ===== *)
theory Plan_Mode
  imports Interp_Repair
begin

text \<open>
  \<open>regenerate_plan_mode_from_interpretation\<close> and \<open>fallback\<close> of
  \<open>src/src/contracts/prompt_interpretation.rs\<close>: the questions asked of the teacher are derived from the
  content of an interpretation, and the interpretation used when the language model gave none.
\<close>

section \<open>Content types\<close>

definition content_type_keywords :: "string \<Rightarrow> string list" where
  "content_type_keywords content_type =
     (if content_type = ''slide_presentasi'' then [''slide'', ''presentasi'', ''powerpoint'', ''pptx'', ''tayangan'']
      else if content_type = ''rpp'' then
        [''rpp'', ''rencana pelaksanaan'', ''lesson plan'', ''perencanaan pembelajaran'']
      else if content_type = ''lembar_kerja'' then [''lembar kerja'', ''worksheet'', ''latihan'', ''praktik'']
      else if content_type = ''penilaian'' then
        [''penilaian'', ''asesmen'', ''assessment'', ''soal'', ''ujian'', ''tes'']
      else if content_type = ''silabus'' then [''silabus'', ''syllabus'', ''kurikulum'']
      else if content_type = ''materi_pembelajaran'' then
        [''materi'', ''modul'', ''handout'', ''bahan ajar'', ''pelajaran'', ''belajar'']
      else [])"

definition CONTENT_TYPES :: "string list" where
  "CONTENT_TYPES =
     [''slide_presentasi'', ''rpp'', ''lembar_kerja'', ''penilaian'', ''silabus'', ''materi_pembelajaran'']"

definition payload_text :: "externals \<Rightarrow> InterpretationPayload \<Rightarrow> string" where
  "payload_text E p =
     to_lowercase (x_lower E) (ip_teacher_prompt p) @ '' '' @
     to_lowercase (x_lower E) (db_title (ip_document_blueprint p)) @ '' '' @
     to_lowercase (x_lower E) (db_summary (ip_document_blueprint p))"

definition keyword_score :: "string \<Rightarrow> string \<Rightarrow> nat" where
  "keyword_score haystack content_type =
     length (filter (contains haystack) (content_type_keywords content_type))"

text \<open>A stable sort by descending score, of which the first element is used.\<close>

definition detect_content_type_from_payload :: "externals \<Rightarrow> InterpretationPayload \<Rightarrow> string" where
  "detect_content_type_from_payload E p =
     (let haystack = payload_text E p;
          scores = sort_by (\<lambda>a b. if snd b < snd a then Less else if snd a < snd b then Greater else Equal)
                     (map (\<lambda>t. (t, keyword_score haystack t)) CONTENT_TYPES)
      in if snd (hd scores) = 0 then ''materi_pembelajaran'' else fst (hd scores))"

definition content_type_required_fields :: "string \<Rightarrow> string list" where
  "content_type_required_fields content_type =
     (if content_type = ''slide_presentasi'' then [''target_audience'', ''output_type'']
      else if content_type = ''rpp'' then [''target_audience'', ''learning_objectives'']
      else if content_type = ''lembar_kerja'' then [''target_audience'', ''difficulty_level'']
      else if content_type = ''penilaian'' then [''target_audience'', ''difficulty_level'', ''question_count'']
      else if content_type = ''silabus'' then [''target_audience'']
      else if content_type = ''materi_pembelajaran'' then [''target_audience'', ''output_type'']
      else [''target_audience''])"

definition detected_content_type_label :: "string \<Rightarrow> string" where
  "detected_content_type_label content_type =
     (if content_type = ''slide_presentasi'' then ''slide presentasi''
      else if content_type = ''rpp'' then ''Rencana Pelaksanaan Pembelajaran (RPP)''
      else if content_type = ''lembar_kerja'' then ''lembar kerja''
      else if content_type = ''penilaian'' then ''penilaian/asesmen''
      else if content_type = ''silabus'' then ''silabus''
      else if content_type = ''materi_pembelajaran'' then ''materi pembelajaran''
      else ''media pembelajaran'')"

section \<open>Missing fields\<close>

definition field_present :: "InterpretationPayload \<Rightarrow> string \<Rightarrow> bool" where
  "field_present p field_id =
     (if field_id = ''target_audience'' then ip_target_audience p \<noteq> None
      else if field_id = ''output_type'' then ic_preferred_output_type (ip_constraints p) \<noteq> ''auto''
      else if field_id = ''learning_objectives'' then ip_learning_objectives p \<noteq> []
      else if field_id = ''difficulty_level''
        then Option.bind (ip_interpreted_fields p) if_difficulty_level \<noteq> None
      else if field_id = ''question_count''
        then Option.bind (ip_interpreted_fields p) if_question_count \<noteq> None
      else False)"

definition find_missing_required_fields :: "InterpretationPayload \<Rightarrow> string list \<Rightarrow> string list" where
  "find_missing_required_fields p required_ids = filter (\<lambda>f. \<not> field_present p f) required_ids"

definition vec_string_suggestions :: "string list \<Rightarrow> json list" where
  "vec_string_suggestions items = map JStr items"

definition vec_number_suggestions :: "int list \<Rightarrow> json list" where
  "vec_number_suggestions items = map JInt items"

definition vec_jenjang_suggestions :: "json list" where
  "vec_jenjang_suggestions =
     vec_string_suggestions
       [''SD Kelas 1'', ''SD Kelas 2'', ''SD Kelas 3'', ''SD Kelas 4'', ''SD Kelas 5'', ''SD Kelas 6'',
        ''SMP Kelas 7'', ''SMP Kelas 8'', ''SMP Kelas 9'', ''SMA Kelas 10'', ''SMA Kelas 11'', ''SMA Kelas 12'']"

definition suggestion :: "string \<Rightarrow> string \<Rightarrow> json" where
  "suggestion v label = JObj [(''value'', JStr v), (''label'', JStr label)]"

definition required_field :: "string \<Rightarrow> string \<Rightarrow> string \<Rightarrow> json list \<Rightarrow> string \<Rightarrow> MissingField" where
  "required_field field_id field_label question suggestions input_type =
     \<lparr>mf_field_id = field_id, mf_field_label = field_label, mf_priority = ''required'',
      mf_question = question, mf_suggestions = suggestions, mf_input_type = input_type\<rparr>"

definition quoted :: "string \<Rightarrow> string" where
  "quoted s = char_of (39 :: nat) # s @ [char_of (39 :: nat)]"

definition generate_contextual_missing_field ::
  "string \<Rightarrow> InterpretationPayload \<Rightarrow> string \<Rightarrow> MissingField" where
  "generate_contextual_missing_field field_id p content_type =
     (let topic_hint = db_title (ip_document_blueprint p);
          subject_hint = (case ip_subject_context p of
              Some sc \<Rightarrow> sc_subject_name sc | None \<Rightarrow> ''pelajaran ini'')
      in if field_id = ''target_audience'' then
           required_field ''target_audience'' ''Jenjang/Kelas''
             (if content_type = ''slide_presentasi'' then
                ''Slide presentasi '' @ quoted topic_hint @ '' ini ditujukan untuk siswa jenjang/kelas mana?''
              else if content_type = ''rpp'' then
                ''RPP '' @ quoted topic_hint @ '' ini disusun untuk jenjang/kelas berapa?''
              else ''Materi '' @ quoted topic_hint @ '' untuk '' @ subject_hint @
                '' ini ditujukan untuk siswa jenjang/kelas mana?'')
             vec_jenjang_suggestions ''select''
         else if field_id = ''output_type'' then
           (if content_type = ''slide_presentasi'' then
              required_field ''output_type'' ''Format Output''
                (''Format file apa yang Anda inginkan untuk slide '' @ quoted topic_hint @ '' ini?'')
                [suggestion ''pptx'' ''PowerPoint (.pptx)'', suggestion ''pdf'' ''PDF (cetak)''] ''select''
            else
              required_field ''output_type'' ''Format Output''
                (''Format file apa yang Anda inginkan untuk materi '' @ quoted topic_hint @ '' ini?'')
                [suggestion ''pdf'' ''PDF (cetak)'', suggestion ''docx'' ''Word (.docx)'',
                 suggestion ''pptx'' ''PowerPoint (.pptx)''] ''select'')
         else if field_id = ''learning_objectives'' then
           required_field ''learning_objectives'' ''Tujuan Pembelajaran''
             (''Apa saja tujuan pembelajaran yang ingin dicapai dari '' @ quoted topic_hint @ ''? Contoh: Memahami konsep X, Menganalisis Y, Menerapkan Z.'')
             (vec_string_suggestions
               [''Memahami konsep...'', ''Menganalisis...'', ''Menerapkan...'', ''Menjelaskan...''])
             ''textarea''
         else if field_id = ''difficulty_level'' then
           required_field ''difficulty_level'' ''Tingkat Kesulitan''
             (''Tingkat kesulitan materi '' @ quoted topic_hint @ '' ini sebaiknya seperti apa?'')
             (vec_string_suggestions
               [''Mudah (pengenalan dasar)'', ''Sedang (pemahaman konsep)'', ''Sulit (analisis dan evaluasi)''])
             ''select''
         else if field_id = ''question_count'' then
           required_field ''question_count'' ''Jumlah Soal''
             (''Berapa jumlah soal yang Anda butuhkan untuk asesmen '' @ quoted topic_hint @ '' ini?'')
             (vec_number_suggestions [10, 15, 20, 25, 30]) ''number''
         else
           \<lparr>mf_field_id = field_id, mf_field_label = map (\<lambda>c. if c = CHR ''_'' then CHR '' '' else c) field_id,
            mf_priority = ''recommended'',
            mf_question = ''Informasi '' @ quoted field_id @ '' belum terdeteksi. Mohon lengkapi jika diperlukan.'',
            mf_suggestions = [], mf_input_type = ''text''\<rparr>)"

section \<open>Interpreted fields\<close>

definition or_else :: "'a option \<Rightarrow> 'a option \<Rightarrow> 'a option" where
  "or_else x y = (case x of Some a \<Rightarrow> Some a | None \<Rightarrow> y)"

definition build_interpreted_fields_from_payload :: "InterpretationPayload \<Rightarrow> InterpretedFields" where
  "build_interpreted_fields_from_payload p =
     (let existing = ip_interpreted_fields p;
          audience = map_option (\<lambda>ta.
              case ta_level ta of Some level \<Rightarrow> ta_label ta @ '' '' @ level | None \<Rightarrow> ta_label ta)
            (ip_target_audience p);
          output_type =
            (if ic_preferred_output_type (ip_constraints p) \<noteq> ''auto''
             then Some (ic_preferred_output_type (ip_constraints p))
             else (case ip_output_type_candidates p of [] \<Rightarrow> None | c # _ \<Rightarrow> Some (oc_type c)));
          subject = map_option sc_subject_name (ip_subject_context p);
          topic = Some (db_title (ip_document_blueprint p));
          objectives =
            (if ip_learning_objectives p = [] then None else Some (ip_learning_objectives p))
      in \<lparr>if_target_audience = or_else audience (Option.bind existing if_target_audience),
          if_output_type = or_else output_type (Option.bind existing if_output_type),
          if_subject = or_else subject (Option.bind existing if_subject),
          if_topic = or_else topic (Option.bind existing if_topic),
          if_learning_objectives = or_else objectives (Option.bind existing if_learning_objectives),
          if_page_count = Option.bind existing if_page_count,
          if_difficulty_level = Option.bind existing if_difficulty_level,
          if_include_activities = Option.bind existing if_include_activities,
          if_slide_count = Option.bind existing if_slide_count,
          if_question_count = Option.bind existing if_question_count,
          if_meeting_duration = Option.bind existing if_meeting_duration,
          if_teaching_method = Option.bind existing if_teaching_method,
          if_assessment_method = Option.bind existing if_assessment_method,
          if_visual_density =
            or_else (rm_visual_density (ip_requested_media_characteristics p))
              (Option.bind existing if_visual_density),
          if_speaker_notes = Option.bind existing if_speaker_notes,
          if_question_type = Option.bind existing if_question_type\<rparr>)"

section \<open>Regeneration\<close>

definition plan_reason :: "string \<Rightarrow> MissingField list \<Rightarrow> string" where
  "plan_reason content_type missing =
     ''Berdasarkan analisis prompt, terdapat informasi yang belum lengkap untuk '' @
     detected_content_type_label content_type @ '': '' @ join '', '' (map mf_field_label missing) @
     ''. Silakan lengkapi informasi berikut agar media dapat dibuat dengan tepat.''"

definition regenerate_plan_mode_from_interpretation ::
  "externals \<Rightarrow> InterpretationPayload \<Rightarrow> InterpretationPayload" where
  "regenerate_plan_mode_from_interpretation E payload =
     (let interpreted = build_interpreted_fields_from_payload payload;
          content_type = detect_content_type_from_payload E payload;
          missing_ids = find_missing_required_fields payload (content_type_required_fields content_type);
          missing = map (\<lambda>f. generate_contextual_missing_field f payload content_type) missing_ids;
          plan_active = (missing \<noteq> []);
          reason = (if plan_active then Some (plan_reason content_type missing) else None)
      in payload
        \<lparr>ip_plan_mode :=
           \<lparr>pm_active = plan_active, pm_reason = reason, pm_detected_content_type = Some content_type,
            pm_content_type_confidence = Some (cf_score (ip_confidence payload))\<rparr>,
         ip_interpreted_fields := Some interpreted,
         ip_missing_fields := missing,
         ip_teacher_intent := (ip_teacher_intent payload)\<lparr>ti_requires_clarification := plan_active\<rparr>\<rparr>)"

section \<open>The fallback\<close>

definition fallback_preference :: "externals \<Rightarrow> string \<Rightarrow> string \<Rightarrow> string" where
  "fallback_preference E teacher_prompt preferred_output_type =
     (let normalized_pref = to_lowercase (x_lower E) preferred_output_type;
          prompt_lower = to_lowercase (x_lower E) teacher_prompt
      in if normalized_pref = ''auto'' then
           (if list_ex (contains prompt_lower) [''ppt'', ''powerpoint'', ''slide'', ''presentasi''] then ''pptx''
            else if list_ex (contains prompt_lower) [''word'', ''docx'', ''dokumen''] then ''docx''
            else ''pdf'')
         else normalized_pref)"

definition fallback_candidates :: "string \<Rightarrow> OutputCandidate list" where
  "fallback_candidates normalized_pref =
     (let score = (\<lambda>t. if normalized_pref = t then f64_lit (95 / 100) else f64_lit (40 / 100))
      in sort_by (\<lambda>a b. case partial_cmp (oc_score b) (oc_score a) of Some c \<Rightarrow> c | None \<Rightarrow> Equal)
        [\<lparr>oc_type = ''pdf'', oc_score = score ''pdf'', oc_reason = ''Default PDF fallback.''\<rparr>,
         \<lparr>oc_type = ''docx'', oc_score = score ''docx'', oc_reason = ''Default DOCX fallback.''\<rparr>,
         \<lparr>oc_type = ''pptx'', oc_score = score ''pptx'', oc_reason = ''Default PPTX fallback.''\<rparr>])"

definition fallback :: "externals \<Rightarrow> string \<Rightarrow> string \<Rightarrow> InterpretationPayload" where
  "fallback E teacher_prompt preferred_output_type =
     (let cands = fallback_candidates (fallback_preference E teacher_prompt preferred_output_type);
          top_type = (case cands of [] \<Rightarrow> ''pdf'' | c # _ \<Rightarrow> oc_type c)
      in \<lparr>ip_schema_version = SCHEMA_VERSION_PU, ip_teacher_prompt = teacher_prompt,
          ip_language = detect_language E teacher_prompt,
          ip_teacher_intent =
            \<lparr>ti_type = ''generate_learning_media'', ti_goal = truncate_str teacher_prompt 500,
             ti_preferred_delivery_mode = ''digital_download'', ti_requires_clarification = False\<rparr>,
          ip_learning_objectives = [],
          ip_constraints =
            \<lparr>ic_preferred_output_type = preferred_output_type, ic_max_duration_minutes = None,
             ic_must_include = [], ic_avoid = [], ic_tone = None\<rparr>,
          ip_output_type_candidates = cands,
          ip_resolved_output_type_reasoning = ''Fallback honored output type: '' @ top_type,
          ip_document_blueprint =
            \<lparr>db_title = truncate_str teacher_prompt 200, db_summary = truncate_str teacher_prompt 1000,
             db_sections =
               [\<lparr>bs_title = ''Requested Content'',
                 bs_purpose = ''Deliver the requested learning material clearly.'',
                 bs_bullets = [truncate_str teacher_prompt 300], bs_estimated_length = ''medium''\<rparr>]\<rparr>,
          ip_subject_context = None, ip_sub_subject_context = None, ip_target_audience = None,
          ip_requested_media_characteristics = media_default, ip_assets = [],
          ip_assessment_or_activity_blocks = [],
          ip_teacher_delivery_summary = truncate_str teacher_prompt 1000,
          ip_confidence = \<lparr>cf_score = f64_lit (6 / 10), cf_label = ''medium'', cf_rationale = None\<rparr>,
          ip_fallback =
            \<lparr>fb_triggered = True, fb_reason_code = Some ''provider_response_contract_invalid'',
             fb_action = Some ''fallback_from_interpretation''\<rparr>,
          ip_content_integrity = None, ip_meta_repairs = None, ip_plan_mode = plan_mode_default,
          ip_interpreted_fields = None, ip_missing_fields = []\<rparr>)"

section \<open>Laws\<close>

lemma or_else_idem [simp]: "or_else x (or_else x y) = or_else x y"
  by (simp add: or_else_def split: option.splits)

lemma regenerate_keeps [simp]:
  "ip_teacher_prompt (regenerate_plan_mode_from_interpretation E p) = ip_teacher_prompt p"
  "ip_document_blueprint (regenerate_plan_mode_from_interpretation E p) = ip_document_blueprint p"
  "ip_subject_context (regenerate_plan_mode_from_interpretation E p) = ip_subject_context p"
  "ip_target_audience (regenerate_plan_mode_from_interpretation E p) = ip_target_audience p"
  "ip_constraints (regenerate_plan_mode_from_interpretation E p) = ip_constraints p"
  "ip_learning_objectives (regenerate_plan_mode_from_interpretation E p) = ip_learning_objectives p"
  "ip_output_type_candidates (regenerate_plan_mode_from_interpretation E p) = ip_output_type_candidates p"
  "ip_requested_media_characteristics (regenerate_plan_mode_from_interpretation E p) =
     ip_requested_media_characteristics p"
  "ip_confidence (regenerate_plan_mode_from_interpretation E p) = ip_confidence p"
  "ip_interpreted_fields (regenerate_plan_mode_from_interpretation E p) =
     Some (build_interpreted_fields_from_payload p)"
  by (simp_all add: regenerate_plan_mode_from_interpretation_def Let_def)

lemma detect_content_type_cong:
  "ip_teacher_prompt p = ip_teacher_prompt q \<Longrightarrow> ip_document_blueprint p = ip_document_blueprint q \<Longrightarrow>
     detect_content_type_from_payload E p = detect_content_type_from_payload E q"
  by (simp add: detect_content_type_from_payload_def payload_text_def)

lemma field_present_regenerate [simp]:
  "field_present (regenerate_plan_mode_from_interpretation E p) f = field_present p f"
  by (simp add: field_present_def build_interpreted_fields_from_payload_def Let_def)

lemma generate_cong:
  "ip_document_blueprint p = ip_document_blueprint q \<Longrightarrow> ip_subject_context p = ip_subject_context q \<Longrightarrow>
     generate_contextual_missing_field f p t = generate_contextual_missing_field f q t"
  by (simp add: generate_contextual_missing_field_def)

lemma build_interpreted_regenerate [simp]:
  "build_interpreted_fields_from_payload (regenerate_plan_mode_from_interpretation E p) =
     build_interpreted_fields_from_payload p"
  by (simp add: build_interpreted_fields_from_payload_def [of "regenerate_plan_mode_from_interpretation E p"])
    (simp add: build_interpreted_fields_from_payload_def Let_def)

lemma regenerate_idem:
  "regenerate_plan_mode_from_interpretation E (regenerate_plan_mode_from_interpretation E p) =
     regenerate_plan_mode_from_interpretation E p"
proof -
  let ?q = "regenerate_plan_mode_from_interpretation E p"
  have t: "detect_content_type_from_payload E ?q = detect_content_type_from_payload E p"
    by (rule detect_content_type_cong) simp_all
  have m: "find_missing_required_fields ?q fs = find_missing_required_fields p fs" for fs
    by (simp add: find_missing_required_fields_def)
  have g: "generate_contextual_missing_field f ?q = generate_contextual_missing_field f p" for f
    by (rule ext, rule generate_cong) simp_all
  show ?thesis
    by (subst (1) regenerate_plan_mode_from_interpretation_def, simp add: t m g Let_def)
      (simp add: regenerate_plan_mode_from_interpretation_def Let_def)
qed

lemma generated_field [simp]:
  "mf_field_id (generate_contextual_missing_field f p t) = f"
  "mf_question (generate_contextual_missing_field f p t) \<noteq> []"
  "mf_input_type (generate_contextual_missing_field f p t) \<noteq> []"
  by (auto simp: generate_contextual_missing_field_def required_field_def Let_def)

lemma fallback_candidates_set:
  "set (fallback_candidates t) =
     {\<lparr>oc_type = ''pdf'', oc_score = if t = ''pdf'' then f64_lit (95 / 100) else f64_lit (40 / 100),
       oc_reason = ''Default PDF fallback.''\<rparr>,
      \<lparr>oc_type = ''docx'', oc_score = if t = ''docx'' then f64_lit (95 / 100) else f64_lit (40 / 100),
       oc_reason = ''Default DOCX fallback.''\<rparr>,
      \<lparr>oc_type = ''pptx'', oc_score = if t = ''pptx'' then f64_lit (95 / 100) else f64_lit (40 / 100),
       oc_reason = ''Default PPTX fallback.''\<rparr>}"
  by (simp add: fallback_candidates_def Let_def)

section \<open>Properties\<close>


text \<open>
  Deriving plan mode again changes nothing, so a cached interpretation gives the same questions each
  time it is read.
\<close>

theorem plan_mode_stable:
  "regenerate_plan_mode_from_interpretation E (regenerate_plan_mode_from_interpretation E p) =
     regenerate_plan_mode_from_interpretation E p"
  by (rule regenerate_idem)

text \<open>
  The fallback of an ASCII prompt satisfies the contract of the interpretation if and only if the
  prompt, without the blanks around it, has between 1 and 200 characters (and at most 5000 with them):
  the cut title of a longer prompt, with its dots, is three characters too long.
\<close>

theorem fallback_satisfies_contract:
  assumes len: "ascii_measure len" and ascii: "is_ascii teacher_prompt"
  shows "valid_payload len (fallback E teacher_prompt preferred) \<longleftrightarrow>
    trim teacher_prompt \<noteq> [] \<and> length (trim teacher_prompt) \<le> 200 \<and> length teacher_prompt \<le> 5000"
proof -
  have lits: "len ''generate_learning_media'' = 23" "len ''digital_download'' = 16" "len ''medium'' = 6"
      "len SCHEMA_VERSION_PU = 29" "len ''id'' = 2" "len ''en'' = 2" "len ''und'' = 3"
      "len ''pdf'' = 3" "len ''docx'' = 4" "len ''pptx'' = 4" "len ''Default PDF fallback.'' = 21"
      "len ''Default DOCX fallback.'' = 22" "len ''Default PPTX fallback.'' = 22"
      "len ''Fallback honored output type: pdf'' = 33" "len ''Fallback honored output type: docx'' = 34"
      "len ''Fallback honored output type: pptx'' = 34"
    by (simp_all add: ascii_measureD [OF len] is_ascii_def byte_def SCHEMA_VERSION_PU_def)
  define cs where "cs = fallback_candidates (fallback_preference E teacher_prompt preferred)"
  have cs_set: "oc_type c \<in> {''pdf'', ''docx'', ''pptx''} \<and>
      oc_reason c \<in> {''Default PDF fallback.'', ''Default DOCX fallback.'', ''Default PPTX fallback.''}"
    if "c \<in> set cs" for c
    using that by (auto simp: cs_def fallback_candidates_set)
  have "set cs \<noteq> {}" by (simp add: cs_def fallback_candidates_set)
  then obtain c cs' where c: "cs = c # cs'" by (cases cs) simp_all
  have "list_all (\<lambda>c. in_length len 100 (oc_type c) \<and> in_length len 500 (oc_reason c)) cs"
    unfolding list_all_iff
  proof
    fix x
    assume "x \<in> set cs"
    from cs_set [OF this] show "in_length len 100 (oc_type x) \<and> in_length len 500 (oc_reason x)"
      by (auto simp: in_length_def lits)
  qed
  moreover have "in_length len 1000 (''Fallback honored output type: '' @ oc_type c)"
    using cs_set [of c] c by (auto simp: in_length_def lits)
  moreover have "in_length len 32 (detect_language E teacher_prompt)"
    using language_ascii [of E teacher_prompt] by (auto simp: in_length_def lits)
  ultimately show ?thesis
    using length_trim_le [of teacher_prompt]
    by (auto simp: valid_payload_def fallback_def Let_def in_length_def lits c [unfolded cs_def] cs_def
        len_truncate_str [OF len ascii] ascii_measureD [OF len ascii] Suc_le_eq)
qed

theorem fallback_satisfies_contract_witness:
  "\<not> valid_payload length (fallback sample_externals (replicate 201 (CHR ''a'')) ''auto'')"
proof -
  have "\<not> is_whitespace ''a''" by (simp add: is_whitespace_def whitespace_codes_def byte_def)
  moreover have a: "is_ascii (replicate 201 (CHR ''a''))" by (simp add: is_ascii_def list_all_iff byte_def)
  ultimately have "trim (replicate 201 (CHR ''a'')) = replicate 201 (CHR ''a'')"
    by (simp add: trim_def chars_ascii trim_chars_def map_replicate concat_replicate_single dropWhile_replicate)
  then show ?thesis
    using fallback_satisfies_contract [OF _ a, of length] by (simp add: ascii_measure_def)
qed


text \<open>
  The fields the plan mode asks for are those of the content standards: the two tables of required fields,
  one in the contract and one in the standards, name the same fields in the same order, except
  for a prompt whose content type is not known, where the plan mode does not ask for the output type.\<close>

theorem required_fields_consistent:
  "content_type_required_fields (content_type_str t) =
     (if t = UnknownContent then [''target_audience'']
      else map mq_field_id (mr_required_fields (get_minimum_requirements t)))"
  by (cases t) (simp_all add: content_type_required_fields_def content_type_str_def get_minimum_requirements_def
      requirement_def materi_pembelajaran_requirements_def slide_presentasi_requirements_def rpp_requirements_def
      lembar_kerja_requirements_def silabus_requirements_def penilaian_requirements_def unknown_requirements_def)

end
