(* ===== verification/Clarification.thy ===== *)
theory Clarification
  imports Standards
begin

text \<open>
  The clarification service, \<open>src/src/llm/clarification.rs\<close>: which questions a teacher is asked about a
  prompt, and how the answers are put into it.

  \<open>up\<close> is the upper case of a string that is not ASCII. A result of \<open>None\<close> of \<open>extract_topic\<close> and of the
  two preflights is a panic.
\<close>

section \<open>Strings\<close>

function replace_all :: "string \<Rightarrow> string \<Rightarrow> string \<Rightarrow> string" where
  "replace_all p r [] = []"
| "replace_all p r (c # cs) =
     (if p \<noteq> [] \<and> take (length p) (c # cs) = p then r @ replace_all p r (drop (length p) (c # cs))
      else c # replace_all p r cs)"
  by pat_completeness auto
termination
proof (relation "measure (\<lambda>(p, r, s). length s)")
  fix p r cs :: string and c
  assume p: "p \<noteq> [] \<and> take (length p) (c # cs) = p"
  then have "0 < length p" by simp
  then show "((p, r, drop (length p) (c # cs)), p, r, c # cs) \<in> measure (\<lambda>(p, r, s). length s)" by simp
qed simp_all

definition unscore :: "string \<Rightarrow> string" where
  "unscore = map (\<lambda>c. if c = CHR ''_'' then CHR '' '' else c)"

definition upper :: "(string \<Rightarrow> string) \<Rightarrow> string \<Rightarrow> string" where
  "upper up s = (if is_ascii s then to_uppercase s else up s)"

fun words_from :: "string \<Rightarrow> string list \<Rightarrow> string list" where
  "words_from acc [] = (if acc = [] then [] else [acc])"
| "words_from acc (u # us) =
     (if is_whitespace u then (if acc = [] then [] else [acc]) @ words_from [] us
      else words_from (acc @ u) us)"

definition split_whitespace :: "string \<Rightarrow> string list" where
  "split_whitespace s = words_from [] (chars s)"

text \<open>\<open>str::find\<close>: the first index at which the needle occurs.\<close>

fun str_find :: "string \<Rightarrow> string \<Rightarrow> nat option" where
  "str_find [] needle = (if needle = [] then Some 0 else None)"
| "str_find (c # cs) needle =
     (if take (length needle) (c # cs) = needle then Some 0 else map_option Suc (str_find cs needle))"

definition slice_from :: "string \<Rightarrow> nat \<Rightarrow> string option" where
  "slice_from s n = (if is_char_boundary s n then Some (drop n s) else None)"

section \<open>Types\<close>

record DetectedInfo =
  di_output_type :: "string option"
  di_subject :: "string option"
  di_subject_id :: "int option"
  di_audience :: "string option"
  di_topic :: "string option"
  di_content_type :: string
  di_confidence :: f64

record ClarificationResponse =
  cl_generation_id :: string
  cl_detected :: DetectedInfo
  cl_gaps :: "ContentGap list"
  cl_suggested_prompt :: string
  cl_is_ready :: bool
  cl_total_required_gaps :: nat
  cl_total_recommended_gaps :: nat

record PreflightInput =
  pi_raw_prompt :: string
  pi_preferred_output_type :: "string option"
  pi_subject_id :: "int option"
  pi_sub_subject_id :: "int option"

record PreflightWithInterpretationInput =
  pw_raw_prompt :: string
  pw_detected_content_type :: "string option"
  pw_interpreted_fields :: json
  pw_confidence_score :: "f64 option"
  pw_llm_requires_clarification :: "bool option"
  pw_preferred_output_type :: "string option"
  pw_subject_id :: "int option"
  pw_sub_subject_id :: "int option"

section \<open>Gaps\<close>

definition is_field_present_in_json :: "json option \<Rightarrow> bool" where
  "is_field_present_in_json value =
     (case value of
        None \<Rightarrow> False
      | Some v \<Rightarrow>
          (case v of
             JNull \<Rightarrow> False
           | JStr s \<Rightarrow> trim s \<noteq> [] \<and> trim s \<noteq> ''auto''
           | JArr arr \<Rightarrow> arr \<noteq> []
           | JObj m \<Rightarrow> m \<noteq> []
           | _ \<Rightarrow> True))"

definition build_question :: "FieldDefinition \<Rightarrow> string" where
  "build_question field =
     (let i = fd_field_id field
      in if i = ''target_audience'' then ''Untuk jenjang/kelas berapa?''
         else if i = ''output_type'' then ''Format file apa yang Anda inginkan?''
         else if i = ''page_count'' then ''Berapa jumlah halaman yang diinginkan?''
         else if i = ''slide_count'' then ''Berapa jumlah slide yang diinginkan?''
         else if i = ''learning_objectives'' then ''Apa tujuan pembelajaran dari konten ini?''
         else if i = ''include_activities'' then ''Apakah perlu disertakan latihan/soal?''
         else if i = ''meeting_duration'' then ''Berapa lama durasi pertemuan?''
         else if i = ''teaching_method'' then ''Metode pembelajaran apa yang digunakan?''
         else if i = ''assessment_method'' then ''Bagaimana cara penilaian siswa?''
         else if i = ''difficulty_level'' then ''Tingkat kesulitan materi ini?''
         else if i = ''question_count'' then ''Berapa jumlah soal yang diinginkan?''
         else if i = ''visual_density'' then ''Bagaimana tampilan slide yang diinginkan?''
         else if i = ''speaker_notes'' then ''Apakah perlu disertakan catatan presenter?''
         else ''Informasi tambahan untuk '' @ fd_label_id field @ ''?'')"

definition build_question_from_requirement :: "MinimumRequirementField \<Rightarrow> string" where
  "build_question_from_requirement field =
     (let i = mq_field_id field
      in if i = ''target_audience'' then ''Untuk jenjang/kelas berapa materi ini ditujukan?''
         else if i = ''output_type'' then ''Format file apa yang Anda inginkan? (PDF, Word, PowerPoint)''
         else if i = ''learning_objectives'' then ''Apa tujuan pembelajaran dari konten ini?''
         else if i = ''page_count'' then ''Berapa jumlah halaman yang diinginkan?''
         else if i = ''slide_count'' then ''Berapa jumlah slide yang diinginkan?''
         else if i = ''include_activities'' then ''Apakah perlu disertakan latihan/soal?''
         else if i = ''meeting_duration'' then ''Berapa lama durasi pertemuan?''
         else if i = ''teaching_method'' then ''Metode pembelajaran apa yang digunakan?''
         else if i = ''assessment_method'' then ''Bagaimana cara penilaian siswa?''
         else if i = ''difficulty_level'' then ''Tingkat kesulitan materi ini?''
         else if i = ''question_count'' then ''Berapa jumlah soal yang diinginkan?''
         else if i = ''visual_density'' then ''Bagaimana tampilan slide yang diinginkan?''
         else if i = ''speaker_notes'' then ''Apakah perlu disertakan catatan presenter?''
         else if i = ''question_type'' then ''Jenis soal apa yang diinginkan?''
         else ''Informasi tambahan untuk '' @ mq_field_label field @ ''?'')"

definition field_gap :: "FieldDefinition \<Rightarrow> ContentGap" where
  "field_gap field =
     \<lparr>gap_field_id = fd_field_id field, gap_question = build_question field,
      gap_priority = priority_str (fd_priority field), gap_input_type = input_type_str (fd_input_type field),
      gap_suggestions = fd_suggestions field, gap_detected_value = None\<rparr>"

definition field_known ::
  "externals \<Rightarrow> regex \<Rightarrow> string \<Rightarrow> string option \<Rightarrow> string option \<Rightarrow> int option \<Rightarrow> string \<Rightarrow> bool" where
  "field_known E R raw_prompt audience output_type subject_id i \<longleftrightarrow>
     i = ''target_audience'' \<and> audience \<noteq> None \<or> i = ''output_type'' \<and> output_type \<noteq> None \<or>
     i = ''subject'' \<and> subject_id \<noteq> None \<or> detect_field_value_from_prompt E R i raw_prompt \<noteq> None"

definition compute_gaps ::
  "externals \<Rightarrow> regex \<Rightarrow> FieldDefinition list \<Rightarrow> string \<Rightarrow> string option \<Rightarrow> string option \<Rightarrow> int option \<Rightarrow>
     ContentGap list" where
  "compute_gaps E R standards raw_prompt audience output_type subject_id =
     map field_gap (filter (\<lambda>f.
       \<not> field_known E R raw_prompt audience output_type subject_id (fd_field_id f)) standards)"

definition requirement_gap :: "string \<Rightarrow> MinimumRequirementField \<Rightarrow> ContentGap" where
  "requirement_gap priority field =
     \<lparr>gap_field_id = mq_field_id field, gap_question = build_question_from_requirement field,
      gap_priority = priority, gap_input_type = mq_input_type field,
      gap_suggestions = mq_suggestions field, gap_detected_value = None\<rparr>"

definition requirement_open :: "externals \<Rightarrow> regex \<Rightarrow> json \<Rightarrow> string \<Rightarrow> MinimumRequirementField \<Rightarrow> bool" where
  "requirement_open E R interpreted raw_prompt field \<longleftrightarrow>
     \<not> is_field_present_in_json (jget (mq_field_id field) interpreted) \<and>
     detect_field_value_from_prompt E R (mq_field_id field) raw_prompt = None"

definition compute_gaps_from_interpretation ::
  "externals \<Rightarrow> regex \<Rightarrow> MinimumRequirementField list \<Rightarrow> MinimumRequirementField list \<Rightarrow> json \<Rightarrow> string \<Rightarrow>
     ContentGap list" where
  "compute_gaps_from_interpretation E R required_fields recommended_fields interpreted raw_prompt =
     (let gaps = map (requirement_gap ''required'')
                   (filter (requirement_open E R interpreted raw_prompt) required_fields);
          recommended_limit = 5 - length gaps
      in gaps @ map (requirement_gap ''recommended'')
           (filter (requirement_open E R interpreted raw_prompt) (take recommended_limit recommended_fields)))"

section \<open>Prompts\<close>

definition build_suggested_prompt ::
  "externals \<Rightarrow> (string \<Rightarrow> string) \<Rightarrow> string \<Rightarrow> string option \<Rightarrow> string option \<Rightarrow> string" where
  "build_suggested_prompt E up raw_prompt audience output_type =
     (let raw = trim raw_prompt;
          lower = lowered E raw;
          with_audience = (case audience of
              None \<Rightarrow> raw
            | Some a \<Rightarrow>
                if list_all (contains lower) (split_whitespace (lowered E (unscore a))) then raw
                else raw @ '' untuk '' @ a);
          result = (case output_type of
              None \<Rightarrow> with_audience
            | Some t \<Rightarrow>
                (let l = lowered E t;
                     format_mention =
                       (if l = ''pptx'' then [''ppt'', ''pptx'', ''powerpoint'', ''slide'', ''presentasi'', ''slideshow'']
                        else if l = ''pdf'' then [''pdf'']
                        else if l = ''docx'' then [''docx'', ''doc'', ''word'', ''dokumen'']
                        else [])
                 in if mentions_any lower format_mention then with_audience
                    else with_audience @ '' dalam format '' @ upper up t))
      in case chars result of
           [] \<Rightarrow> []
         | c # cs \<Rightarrow>
             (let capitalised = upper up c @ concat cs
              in if capitalised \<noteq> [] \<and> last capitalised \<in> {CHR ''.'', CHR ''?'', CHR ''!''} then capitalised
                 else capitalised @ ''.''))"

definition topic_markers :: "string list" where
  "topic_markers = [''tentang '', ''about '', ''materi '', ''topik '', ''topic '']"

fun topic_after :: "string \<Rightarrow> string \<Rightarrow> string list \<Rightarrow> string option option" where
  "topic_after prompt lower [] = Some None"
| "topic_after prompt lower (marker # markers) =
     (case str_find lower marker of
        None \<Rightarrow> topic_after prompt lower markers
      | Some pos \<Rightarrow>
          (case slice_from prompt (pos + length marker) of
             None \<Rightarrow> None
           | Some rest \<Rightarrow>
               (let topic = trim (takeWhile (\<lambda>c. c \<notin> {CHR ''.'', CHR '','', CHR ''!'', CHR ''?''}) rest)
                in if topic \<noteq> [] \<and> 2 < length topic then Some (Some topic)
                   else topic_after prompt lower markers)))"

definition extract_topic :: "externals \<Rightarrow> string \<Rightarrow> string option option" where
  "extract_topic E prompt = topic_after prompt (lowered E prompt) topic_markers"

section \<open>Preflight\<close>

definition chosen_output_type :: "string option \<Rightarrow> string option" where
  "chosen_output_type preferred =
     (case preferred of Some s \<Rightarrow> if s \<noteq> [] \<and> s \<noteq> ''auto'' then Some s else None | None \<Rightarrow> None)"

definition alt :: "'a option \<Rightarrow> 'a option \<Rightarrow> 'a option" where
  "alt x y = (case x of Some a \<Rightarrow> Some a | None \<Rightarrow> y)"

definition count_priority :: "string \<Rightarrow> ContentGap list \<Rightarrow> nat" where
  "count_priority p gaps = length (filter (\<lambda>g. gap_priority g = p) gaps)"

definition clarification_response ::
  "string \<Rightarrow> DetectedInfo \<Rightarrow> ContentGap list \<Rightarrow> string \<Rightarrow> ClarificationResponse" where
  "clarification_response generation_id detected gaps suggested =
     \<lparr>cl_generation_id = generation_id, cl_detected = detected, cl_gaps = gaps,
      cl_suggested_prompt = suggested,
      cl_is_ready = (count_priority (priority_str Required) gaps = 0),
      cl_total_required_gaps = count_priority (priority_str Required) gaps,
      cl_total_recommended_gaps = count_priority (priority_str Recommended) gaps\<rparr>"

definition preflight ::
  "externals \<Rightarrow> regex \<Rightarrow> (string \<Rightarrow> string) \<Rightarrow> string \<Rightarrow> PreflightInput \<Rightarrow> ClarificationResponse option" where
  "preflight E R up generation_id input =
     (let prompt = pi_raw_prompt input;
          (content_type, confidence) = detect_content_type E prompt;
          audience = detect_target_audience E R prompt;
          output_type = alt (chosen_output_type (pi_preferred_output_type input)) (detect_output_type E prompt);
          gaps = compute_gaps E R (get_clarification_fields content_type) prompt audience output_type
                   (pi_subject_id input);
          suggested = build_suggested_prompt E up prompt audience output_type
      in map_option (\<lambda>topic.
           clarification_response generation_id
             \<lparr>di_output_type = output_type, di_subject = None, di_subject_id = pi_subject_id input,
              di_audience = audience, di_topic = topic, di_content_type = content_type_str content_type,
              di_confidence = confidence\<rparr>
             gaps suggested)
           (extract_topic E prompt))"

definition interpreted_content_type ::
  "externals \<Rightarrow> PreflightWithInterpretationInput \<Rightarrow> ContentType \<times> f64" where
  "interpreted_content_type E input =
     (case pw_detected_content_type input of
        Some ct \<Rightarrow>
          ((if ct = ''materi_pembelajaran'' then MateriPembelajaran
            else if ct = ''slide_presentasi'' then SlidePresentasi
            else if ct = ''rpp'' then Rpp
            else if ct = ''lembar_kerja'' then LembarKerja
            else if ct = ''silabus'' then Silabus
            else if ct = ''penilaian'' then Penilaian
            else fst (detect_content_type E (pw_raw_prompt input))),
           case pw_confidence_score input of Some c \<Rightarrow> c | None \<Rightarrow> f64_lit (6 / 10))
      | None \<Rightarrow> detect_content_type E (pw_raw_prompt input))"

definition preflight_with_interpretation ::
  "externals \<Rightarrow> regex \<Rightarrow> (string \<Rightarrow> string) \<Rightarrow> string \<Rightarrow> PreflightWithInterpretationInput \<Rightarrow>
     ClarificationResponse option" where
  "preflight_with_interpretation E R up generation_id input =
     (let prompt = pw_raw_prompt input; fields = pw_interpreted_fields input;
          (content_type, confidence) = interpreted_content_type E input;
          requirements = get_minimum_requirements content_type;
          gaps = compute_gaps_from_interpretation E R (mr_required_fields requirements)
                   (mr_recommended_fields requirements) fields prompt;
          audience = alt (str_at [''target_audience''] fields) (detect_target_audience E R prompt);
          output_type = alt (chosen_output_type (pw_preferred_output_type input))
             (alt (chosen_output_type (str_at [''output_type''] fields)) (detect_output_type E prompt));
          suggested = build_suggested_prompt E up prompt audience output_type;
          respond = (\<lambda>topic.
            clarification_response generation_id
             \<lparr>di_output_type = output_type, di_subject = None, di_subject_id = pw_subject_id input,
              di_audience = audience, di_topic = topic, di_content_type = content_type_str content_type,
              di_confidence = confidence\<rparr>
             gaps suggested)
      in case str_at [''topic''] fields of
           Some topic \<Rightarrow> Some (respond (Some topic))
         | None \<Rightarrow> map_option respond (extract_topic E prompt))"

section \<open>Enriching a prompt with the answers\<close>

definition contains_all_tokens :: "externals \<Rightarrow> string \<Rightarrow> string \<Rightarrow> bool" where
  "contains_all_tokens E haystack needle \<longleftrightarrow>
     (let tokens = split_whitespace (lowered E (unscore needle))
      in tokens \<noteq> [] \<and> list_all (contains haystack) tokens)"

definition prompt_has_quantity :: "string \<Rightarrow> string list \<Rightarrow> bool" where
  "prompt_has_quantity haystack unit_synonyms \<longleftrightarrow>
     list_ex is_digit haystack \<and> mentions_any haystack unit_synonyms"

type_synonym answers = "string \<Rightarrow> string option"

definition part :: "string option \<Rightarrow> (string \<Rightarrow> bool) \<Rightarrow> (string \<Rightarrow> string) \<Rightarrow> string list" where
  "part answer known text = (case answer of None \<Rightarrow> [] | Some a \<Rightarrow> if known a then [] else [text a])"

definition audience_part :: "externals \<Rightarrow> string \<Rightarrow> answers \<Rightarrow> string list" where
  "audience_part E h ans =
     part (ans ''target_audience'') (\<lambda>a. contains_all_tokens E h (unscore a))
       (\<lambda>a. ''untuk jenjang '' @ unscore a)"

definition format_known :: "externals \<Rightarrow> string \<Rightarrow> string \<Rightarrow> bool" where
  "format_known E h t =
     (let l = lowered E t
      in if l = ''pptx'' then mentions_any h
           [''ppt'', ''pptx'', ''powerpoint'', ''slide'', ''slides'', ''presentasi'', ''presentation'', ''slideshow'']
         else if l = ''pdf'' then mentions_any h [''pdf'', ''dokumen pdf'']
         else if l = ''docx'' then mentions_any h [''docx'', ''doc'', ''word'', ''dokumen word'', ''lembar kerja'']
         else contains h l)"

definition format_part :: "externals \<Rightarrow> (string \<Rightarrow> string) \<Rightarrow> string \<Rightarrow> answers \<Rightarrow> string list" where
  "format_part E up h ans =
     part (ans ''output_type'') (format_known E h) (\<lambda>t. ''dalam format '' @ upper up t)"

definition page_part :: "string \<Rightarrow> answers \<Rightarrow> string list" where
  "page_part h ans =
     part (ans ''page_count'')
       (\<lambda>_. prompt_has_quantity h [''halaman'', ''hal'', ''page'', ''pages'', ''pg'', ''pgs''])
       (\<lambda>pages. ''sebanyak '' @
          (if pages = ''short'' then ''2-3 halaman'' else if pages = ''medium'' then ''5-7 halaman''
           else if pages = ''long'' then ''10+ halaman'' else pages))"

definition slide_part :: "string \<Rightarrow> answers \<Rightarrow> string list" where
  "slide_part h ans =
     part (ans ''slide_count'')
       (\<lambda>_. prompt_has_quantity h
          [''slide'', ''slides'', ''halaman'', ''hal'', ''ppt'', ''pptx'', ''deck'', ''presentasi''])
       (\<lambda>slides. ''sebanyak '' @
          (if slides = ''short'' then ''8-10 slide'' else if slides = ''medium'' then ''15-20 slide''
           else if slides = ''long'' then ''25+ slide'' else slides))"

definition objectives_part :: "externals \<Rightarrow> string \<Rightarrow> answers \<Rightarrow> string list" where
  "objectives_part E h ans =
     part (map_option trim (ans ''learning_objectives''))
       (\<lambda>os. os = [] \<or> contains h (lowered E os)) (\<lambda>os. ''dengan tujuan pembelajaran: '' @ os)"

definition difficulty_part :: "externals \<Rightarrow> string \<Rightarrow> answers \<Rightarrow> string list" where
  "difficulty_part E h ans =
     part (ans ''difficulty_level'') (\<lambda>d. contains h (lowered E d)) (\<lambda>d. ''tingkat kesulitan '' @ d)"

definition question_part :: "string \<Rightarrow> answers \<Rightarrow> string list" where
  "question_part h ans =
     part (ans ''question_count'')
       (\<lambda>_. prompt_has_quantity h [''soal'', ''pertanyaan'', ''kuis'', ''quiz'', ''question'', ''questions''])
       (\<lambda>count. ''dengan '' @ count @ '' soal'')"

definition method_part :: "externals \<Rightarrow> string \<Rightarrow> answers \<Rightarrow> string list" where
  "method_part E h ans =
     part (ans ''teaching_method'') (\<lambda>m. contains h (lowered E (unscore m)))
       (\<lambda>m. ''dengan metode '' @ unscore m)"

definition activities_part :: "string \<Rightarrow> answers \<Rightarrow> string list" where
  "activities_part h ans =
     part (ans ''include_activities'')
       (\<lambda>a. a \<noteq> ''yes'' \<or>
          mentions_any h [''latihan'', ''soal'', ''kuis'', ''aktivitas'', ''activity'', ''exercise'', ''quiz''])
       (\<lambda>_. ''sertakan latihan/soal'')"

definition slide_content :: "answers \<Rightarrow> nat \<Rightarrow> string list" where
  "slide_content ans i =
     part (alt (ans (''slide_'' @ show_nat i)) (ans (''slide_'' @ show_nat i @ ''_content'')))
       (\<lambda>content. trim content = []) (\<lambda>content. ''Slide '' @ show_nat i @ '': '' @ content)"

definition clean_up :: "string \<Rightarrow> string" where
  "clean_up s = replace_all ''..'' ''.'' (replace_all '',.'' ''.'' (replace_all '', ,'' '','' s))"

definition enrich_prompt :: "externals \<Rightarrow> (string \<Rightarrow> string) \<Rightarrow> string \<Rightarrow> answers \<Rightarrow> string" where
  "enrich_prompt E up raw_prompt ans =
     (let raw = trim raw_prompt;
          h = lowered E raw;
          parts = audience_part E h ans @ format_part E up h ans @ page_part h ans @ slide_part h ans @
            objectives_part E h ans @ difficulty_part E h ans @ question_part h ans @
            method_part E h ans @ activities_part h ans;
          slide_contents = concat (map (slide_content ans) [1..<21]);
          with_parts = (if parts = [] then raw else raw @ '', '' @ join '', '' parts)
      in clean_up (if slide_contents = [] then with_parts
           else with_parts @ ''. '' @ ''Rincian isi per slide:'' @ [CHR 0x0A] @ join [CHR 0x0A] slide_contents))"

section \<open>Properties\<close>

abbreviation no_regex :: regex where "no_regex \<equiv> \<lparr>rx_group1 = (\<lambda>_ _. None), rx_is_match = (\<lambda>_ _. False)\<rparr>"

abbreviation sample_prompt :: PreflightInput where
  "sample_prompt \<equiv> \<lparr>pi_raw_prompt = ''slide tata surya'', pi_preferred_output_type = None,
     pi_subject_id = Some 3, pi_sub_subject_id = None\<rparr>"

lemma compute_gaps_required:
  "count_priority ''required'' (compute_gaps E R fs p a t s) = 0 \<longleftrightarrow>
     list_all (\<lambda>f. fd_priority f = Required \<longrightarrow> field_known E R p a t s (fd_field_id f)) fs"
  by (induction fs) (auto simp: compute_gaps_def count_priority_def field_gap_def priority_str_def
      split: FieldPriority.splits)

lemma clarification_fields_short: "length (get_clarification_fields t) \<le> 5"
proof -
  have "length (sort_by c xs) = length xs" for c and xs :: "FieldDefinition list"
    by (metis mset_sort_by size_mset)
  then show ?thesis by (simp add: get_clarification_fields_def)
qed



lemma requirement_gap_counts:
  "count_priority ''required'' (map (requirement_gap ''required'') fs) = length fs"
  "count_priority ''required'' (map (requirement_gap ''recommended'') fs) = 0"
  "count_priority p (gs @ gs') = count_priority p gs + count_priority p gs'"
  by (auto simp: count_priority_def requirement_gap_def)

lemma required_short: "length (mr_required_fields (get_minimum_requirements t)) \<le> 3"
  by (cases t) (simp_all add: get_minimum_requirements_def materi_pembelajaran_requirements_def
      slide_presentasi_requirements_def rpp_requirements_def lembar_kerja_requirements_def
      silabus_requirements_def penilaian_requirements_def unknown_requirements_def)

text \<open>
  With an interpretation, too, there are at most five questions, the required ones first, and the
  prompt is ready exactly if no required field is open: absent from the interpretation and not found
  in the prompt.\<close>

theorem interpreted_preflight_ready:
  assumes "preflight_with_interpretation E R up gid input = Some r"
  shows "length (cl_gaps r) \<le> 5 \<and>
    cl_total_required_gaps r = length (takeWhile (\<lambda>g. gap_priority g = ''required'') (cl_gaps r)) \<and>
    (cl_is_ready r \<longleftrightarrow>
      list_all (\<lambda>f. \<not> requirement_open E R (pw_interpreted_fields input) (pw_raw_prompt input) f)
        (mr_required_fields (get_minimum_requirements (fst (interpreted_content_type E input)))))"
proof -
  let ?t = "fst (interpreted_content_type E input)"
  let ?open = "requirement_open E R (pw_interpreted_fields input) (pw_raw_prompt input)"
  let ?req = "filter ?open (mr_required_fields (get_minimum_requirements ?t))"
  define rec where "rec = filter ?open
    (take (5 - length ?req) (mr_recommended_fields (get_minimum_requirements ?t)))"
  have "length ?req \<le> 3" using required_short [of ?t] length_filter_le le_trans by blast
  moreover have "length rec \<le> 5 - length ?req"
    unfolding rec_def by (rule le_trans [OF length_filter_le]) simp
  moreover have gaps: "cl_gaps r = map (requirement_gap ''required'') ?req @ map (requirement_gap ''recommended'') rec"
    using assms
    by (auto simp: preflight_with_interpretation_def Let_def clarification_response_def rec_def
        compute_gaps_from_interpretation_def split: prod.splits option.splits)
  moreover have "cl_total_required_gaps r = count_priority ''required'' (cl_gaps r)"
      "cl_is_ready r = (cl_total_required_gaps r = 0)"
    using assms
    by (auto simp: preflight_with_interpretation_def Let_def clarification_response_def priority_str_def
        split: prod.splits option.splits)
  moreover have "takeWhile (\<lambda>g. gap_priority g = ''required'')
      (map (requirement_gap ''required'') fs @ map (requirement_gap ''recommended'') fs') =
      map (requirement_gap ''required'') fs" for fs fs'
    by (induction fs) (cases fs', auto simp: requirement_gap_def)
  ultimately show ?thesis
    by (auto simp: requirement_gap_counts filter_empty_conv list_all_iff)
qed

theorem interpreted_preflight_ready_witness:
  "\<exists>r. preflight_with_interpretation sample_externals no_regex id ''g1''
      \<lparr>pw_raw_prompt = ''slide tata surya'', pw_detected_content_type = Some ''rpp'',
       pw_interpreted_fields = JObj [(''topic'', JStr ''tata surya'')], pw_confidence_score = None,
       pw_llm_requires_clarification = None, pw_preferred_output_type = None, pw_subject_id = None,
       pw_sub_subject_id = None\<rparr> = Some r \<and> length (cl_gaps r) \<le> 5"
    (is "\<exists>r. ?p = Some r \<and> _")
proof -
  have "?p \<noteq> None"
    by (simp add: preflight_with_interpretation_def Let_def str_at_def split: prod.splits)
  then obtain r where "?p = Some r" by blast
  with interpreted_preflight_ready [OF this] show ?thesis by blast
qed

text \<open>
  A teacher's answer for the number of slides is dropped if the prompt has a digit anywhere and the word
  slide: the digit of a grade is taken for a number of slides.\<close>

theorem slide_count_answer_dropped:
  assumes "list_ex is_digit (lowered E (trim raw))" and "contains (lowered E (trim raw)) ''slide''"
  shows "enrich_prompt E up raw ans = enrich_prompt E up raw (ans(''slide_count'' := None))"
proof -
  have hd: "hd (show_nat i) \<noteq> CHR ''c''" "show_nat i \<noteq> []" for i
    using show_nat_digits [of i] by (cases "show_nat i"; auto simp: is_digit_def byte_def)+
  then have "show_nat i \<noteq> ''count''" "show_nat i @ ''_content'' \<noteq> ''count''" for i
    by (metis list.sel(1), metis hd_append2 list.sel(1))
  then have "slide_content (ans(''slide_count'' := None)) i = slide_content ans i" for i
    by (simp add: slide_content_def)
  moreover have "slide_part (lowered E (trim raw)) a = []" for a
    using assms by (simp add: slide_part_def part_def prompt_has_quantity_def mentions_any_def split: option.splits)
  ultimately show ?thesis
    by (simp add: enrich_prompt_def Let_def audience_part_def format_part_def page_part_def objectives_part_def
        difficulty_part_def question_part_def method_part_def activities_part_def cong: map_cong)
qed

lemma trim_ascii_literal: "trim ''slide kelas 5'' = ''slide kelas 5''"
  by code_simp

theorem slide_count_answer_dropped_witness:
  "enrich_prompt sample_externals id ''slide kelas 5'' [''slide_count'' \<mapsto> ''12 slide''] =
   enrich_prompt sample_externals id ''slide kelas 5'' Map.empty"
  using slide_count_answer_dropped [of sample_externals "''slide kelas 5''" id "[''slide_count'' \<mapsto> ''12 slide'']"]
    trim_ascii_literal
  by (simp add: lowered_def to_lowercase_def is_ascii_def byte_def ascii_lower_def is_digit_def)

text \<open>
  The byte position of a marker in the lowercased prompt is used to cut the prompt itself. A capital
  I with a dot above takes two bytes and its lower case takes three, so a prompt such as
  this one is cut one byte behind its end: the preflight panics.\<close>

theorem topic_position_panics:
  assumes "x_lower E ([CHR 0xC4, CHR 0xB0] @ '' tentang '') = [CHR 0x69, CHR 0xCC, CHR 0x87] @ '' tentang ''"
    and "pi_raw_prompt input = [CHR 0xC4, CHR 0xB0] @ '' tentang ''"
  shows "preflight E R up generation_id input = None"
proof -
  have "lowered E ([CHR 0xC4, CHR 0xB0] @ '' tentang '') = [CHR 0x69, CHR 0xCC, CHR 0x87] @ '' tentang ''"
    using assms by (simp add: lowered_def to_lowercase_def is_ascii_def byte_def)
  then have "extract_topic E (pi_raw_prompt input) = None"
    using assms(2) by (simp add: extract_topic_def topic_markers_def slice_from_def is_char_boundary_def)
  then show ?thesis by (simp add: preflight_def Let_def split: prod.splits)
qed

theorem topic_position_panics_witness:
  "preflight (sample_externals\<lparr>x_lower := (\<lambda>_. [CHR 0x69, CHR 0xCC, CHR 0x87] @ '' tentang '')\<rparr>) no_regex id ''g1''
     \<lparr>pi_raw_prompt = [CHR 0xC4, CHR 0xB0] @ '' tentang '', pi_preferred_output_type = None,
      pi_subject_id = None, pi_sub_subject_id = None\<rparr> = None"
  by (rule topic_position_panics) simp_all

end
