(* ===== verification/Slice_Sort.thy ===== *)
theory Slice_Sort
  imports Ranking "HOL-Library.List_Lexorder"
begin

text \<open>
  Comparisons and \<open>slice::sort_by\<close>.

  The standard library promises a stable sort for a comparison that is a total order, and for any other
  comparison some permutation or a panic. The locale \<open>slice_sort\<close> states this contract, and that up to
  twenty elements are sorted by insertion; the functions that sort take the sorting function as an
  argument. A total order has only one stable sort, so what they return does not depend on the
  algorithm.
\<close>

section \<open>Comparisons\<close>

definition total_cmp :: "('a \<Rightarrow> 'a \<Rightarrow> ordering) \<Rightarrow> 'a set \<Rightarrow> bool" where
  "total_cmp cmp A \<longleftrightarrow>
     (\<forall>a\<in>A. cmp a a = Equal) \<and>
     (\<forall>a\<in>A. \<forall>b\<in>A. cmp a b = Less \<longleftrightarrow> cmp b a = Greater) \<and>
     (\<forall>a\<in>A. \<forall>b\<in>A. \<forall>c\<in>A. cmp a b \<noteq> Greater \<longrightarrow> cmp b c \<noteq> Greater \<longrightarrow> cmp a c \<noteq> Greater)"

definition compare_by :: "('a \<Rightarrow> 'k::linorder) \<Rightarrow> 'a \<Rightarrow> 'a \<Rightarrow> ordering" where
  "compare_by key a b = (if key a < key b then Less else if key b < key a then Greater else Equal)"

definition compare_f64_desc :: "('a \<Rightarrow> f64) \<Rightarrow> 'a \<Rightarrow> 'a \<Rightarrow> ordering" where
  "compare_f64_desc key a b = (case partial_cmp (key b) (key a) of None \<Rightarrow> Equal | Some c \<Rightarrow> c)"

definition then_with :: "('a \<Rightarrow> 'a \<Rightarrow> ordering) \<Rightarrow> ('a \<Rightarrow> 'a \<Rightarrow> ordering) \<Rightarrow> 'a \<Rightarrow> 'a \<Rightarrow> ordering" where
  "then_with c d a b = (if c a b = Equal then d a b else c a b)"

text \<open>Strings are compared byte by byte.\<close>

definition compare_str :: "('a \<Rightarrow> string) \<Rightarrow> 'a \<Rightarrow> 'a \<Rightarrow> ordering" where
  "compare_str key = compare_by (\<lambda>a. map byte (key a))"

lemma total_cmpI:
  assumes "\<And>a. a \<in> A \<Longrightarrow> cmp a a = Equal"
    and "\<And>a b. a \<in> A \<Longrightarrow> b \<in> A \<Longrightarrow> cmp a b = Less \<longleftrightarrow> cmp b a = Greater"
    and "\<And>a b c. a \<in> A \<Longrightarrow> b \<in> A \<Longrightarrow> c \<in> A \<Longrightarrow> cmp a b \<noteq> Greater \<Longrightarrow> cmp b c \<noteq> Greater \<Longrightarrow>
      cmp a c \<noteq> Greater"
  shows "total_cmp cmp A"
  using assms unfolding total_cmp_def by blast

lemma total_cmp_refl: "total_cmp cmp A \<Longrightarrow> a \<in> A \<Longrightarrow> cmp a a = Equal"
  by (simp add: total_cmp_def)

lemma total_cmp_swap:
  "total_cmp cmp A \<Longrightarrow> a \<in> A \<Longrightarrow> b \<in> A \<Longrightarrow> cmp b a = (case cmp a b of Less \<Rightarrow> Greater | Equal \<Rightarrow> Equal | Greater \<Rightarrow> Less)"
  unfolding total_cmp_def by (cases "cmp a b"; cases "cmp b a") (metis ordering.distinct ordering.simps)+

lemma total_cmp_trans:
  "total_cmp cmp A \<Longrightarrow> a \<in> A \<Longrightarrow> b \<in> A \<Longrightarrow> c \<in> A \<Longrightarrow> cmp a b \<noteq> Greater \<Longrightarrow> cmp b c \<noteq> Greater \<Longrightarrow>
     cmp a c \<noteq> Greater"
  unfolding total_cmp_def by blast

lemma total_cmp_subset: "total_cmp cmp A \<Longrightarrow> B \<subseteq> A \<Longrightarrow> total_cmp cmp B"
  unfolding total_cmp_def by (meson subsetD)

lemma total_cmp_equal_trans:
  assumes t: "total_cmp cmp A" and abc: "a \<in> A" "b \<in> A" "c \<in> A" and e: "cmp a b = Equal"
  shows "cmp a c = cmp b c"
proof -
  have ba: "cmp b a = Equal" using total_cmp_swap [OF t abc(1,2)] e by simp
  have ac: "cmp c a = (case cmp a c of Less \<Rightarrow> Greater | Equal \<Rightarrow> Equal | Greater \<Rightarrow> Less)"
    by (rule total_cmp_swap [OF t abc(1,3)])
  have bc: "cmp c b = (case cmp b c of Less \<Rightarrow> Greater | Equal \<Rightarrow> Equal | Greater \<Rightarrow> Less)"
    by (rule total_cmp_swap [OF t abc(2,3)])
  have "cmp a c \<noteq> Greater \<longleftrightarrow> cmp b c \<noteq> Greater"
    using total_cmp_trans [OF t abc(2,1,3)] total_cmp_trans [OF t abc] e ba by auto
  moreover have "cmp c a \<noteq> Greater \<longleftrightarrow> cmp c b \<noteq> Greater"
    using total_cmp_trans [OF t abc(3,1,2)] total_cmp_trans [OF t abc(3,2,1)] e ba by auto
  ultimately show ?thesis using ac bc by (cases "cmp a c"; cases "cmp b c") simp_all
qed

named_theorems total_intros

lemma total_compare_by [total_intros]: "total_cmp (compare_by key) A"
  by (rule total_cmpI) (auto simp: compare_by_def split: if_splits)

lemma total_compare_by_desc [total_intros]: "total_cmp (\<lambda>a b. compare_by key b a) A"
  by (rule total_cmpI) (auto simp: compare_by_def split: if_splits)

lemma total_then_with [total_intros]:
  assumes c: "total_cmp c A" and d: "total_cmp d A"
  shows "total_cmp (then_with c d) A"
proof (rule total_cmpI)
  fix x y z assume A: "x \<in> A" "y \<in> A" "z \<in> A"
    and le: "then_with c d x y \<noteq> Greater" "then_with c d y z \<noteq> Greater"
  show "then_with c d x z \<noteq> Greater"
  proof (cases "c x y = Equal")
    case True
    then have "c x z = c y z" by (rule total_cmp_equal_trans [OF c A])
    with True le total_cmp_trans [OF d A] show ?thesis by (auto simp: then_with_def split: if_splits)
  next
    case False
    then have "c x y = Less" using le(1) by (cases "c x y") (auto simp: then_with_def)
    moreover have "c y z \<noteq> Greater" using le(2) by (auto simp: then_with_def split: if_splits)
    ultimately have "c x z = Less"
      using total_cmp_trans [OF c A] total_cmp_trans [OF c A(2,3,1)] total_cmp_swap [OF c A(1,3)]
        total_cmp_swap [OF c A(1,2)] by (cases "c x z") auto
    then show ?thesis by (simp add: then_with_def)
  qed
next
  fix a b assume "a \<in> A" "b \<in> A"
  then show "then_with c d a b = Less \<longleftrightarrow> then_with c d b a = Greater"
    using total_cmp_swap [OF c, of a b] total_cmp_swap [OF d, of a b]
    by (cases "c a b"; cases "d a b") (simp_all add: then_with_def)
qed (simp add: then_with_def total_cmp_refl [OF c] total_cmp_refl [OF d])

lemma total_compare_str [total_intros]: "total_cmp (compare_str key) A"
  unfolding compare_str_def by (rule total_compare_by)

lemma total_compare_f64_desc [total_intros]:
  assumes "\<And>a. a \<in> A \<Longrightarrow> key a \<noteq> F_Nan"
  shows "total_cmp (compare_f64_desc key) A"
proof -
  have cmp: "compare_f64_desc key a b =
      (if f64_lt (key b) (key a) then Less else if f64_lt (key a) (key b) then Greater else Equal)"
    if "a \<in> A" "b \<in> A" for a b
    using that assms by (auto simp: compare_f64_desc_def partial_cmp_def f64_eq_def)
  have total: "x = F_Nan \<or> y = F_Nan \<or> z = F_Nan \<or> f64_lt x y \<or> f64_lt y z" if "f64_lt x z" for x y z
    using that by (auto simp: f64_lt_def split: f64.splits)
  show ?thesis
  proof (rule total_cmpI)
    fix a b c
    assume A: "a \<in> A" "b \<in> A" "c \<in> A"
      and "compare_f64_desc key a b \<noteq> Greater" "compare_f64_desc key b c \<noteq> Greater"
    then show "compare_f64_desc key a c \<noteq> Greater"
      using total [of "key a" "key c" "key b"] assms f64_lt_asym by (auto simp: cmp split: if_splits)
  qed (use f64_lt_asym in \<open>auto simp: cmp\<close>)
qed


section \<open>Stable sorting\<close>

definition stable_sort_of :: "('a \<Rightarrow> 'a \<Rightarrow> ordering) \<Rightarrow> 'a list \<Rightarrow> 'a list \<Rightarrow> bool" where
  "stable_sort_of cmp xs ys \<longleftrightarrow>
     mset ys = mset xs \<and> sorted_wrt (\<lambda>a b. cmp a b \<noteq> Greater) ys \<and>
     (\<forall>x\<in>set xs. filter (\<lambda>y. cmp x y = Equal) ys = filter (\<lambda>y. cmp x y = Equal) xs)"

lemma stable_sort_of_set: "stable_sort_of cmp xs ys \<Longrightarrow> set ys = set xs"
  by (metis stable_sort_of_def mset_eq_setD)

lemma sorted_segments_unique:
  assumes "total_cmp cmp (set xs)" and "mset ys = mset xs"
    and "sorted_wrt (\<lambda>a b. cmp a b \<noteq> Greater) xs" and "sorted_wrt (\<lambda>a b. cmp a b \<noteq> Greater) ys"
    and "\<And>x. x \<in> set xs \<Longrightarrow> filter (\<lambda>y. cmp x y = Equal) ys = filter (\<lambda>y. cmp x y = Equal) xs"
  shows "ys = xs"
  using assms
proof (induction xs arbitrary: ys)
  case Nil
  then show ?case by simp
next
  case (Cons x xs)
  note t = Cons.prems(1)
  from Cons.prems(2) obtain y zs where ys: "ys = y # zs" by (cases ys) auto
  have mem: "y \<in> set (x # xs)" "x \<in> set (y # zs)"
    using Cons.prems(2) by (metis list.set_intros(1) mset_eq_setD ys)+
  have "cmp x x = Equal" "cmp y y = Equal" using t mem by (auto simp: total_cmp_def)
  moreover have "cmp x y \<noteq> Greater" using Cons.prems(3) mem(1) \<open>cmp x x = Equal\<close> by auto
  moreover have "cmp y x \<noteq> Greater" using Cons.prems(4) mem(2) \<open>cmp y y = Equal\<close> by (auto simp: ys)
  ultimately have "cmp x y = Equal"
    using total_cmp_swap [OF t, of x y] mem(1) by (auto split: ordering.splits)
  then have xy: "y = x" using Cons.prems(5) [of x] \<open>cmp x x = Equal\<close> by (simp add: ys)
  have "zs = xs"
  proof (rule Cons.IH)
    show "total_cmp cmp (set xs)" by (rule total_cmp_subset [OF t]) auto
    show "mset zs = mset xs" using Cons.prems(2) by (simp add: ys xy)
    fix z assume "z \<in> set xs"
    then show "filter (\<lambda>y. cmp z y = Equal) zs = filter (\<lambda>y. cmp z y = Equal) xs"
      using Cons.prems(5) [of z] by (auto simp: ys xy split: if_splits)
  qed (use Cons.prems in \<open>auto simp: ys\<close>)
  then show ?case by (simp add: ys xy)
qed

lemma stable_sort_of_unique:
  assumes "total_cmp cmp (set xs)" "stable_sort_of cmp xs ys" "stable_sort_of cmp xs zs"
  shows "ys = zs"
proof (rule sorted_segments_unique [of cmp])
  show "total_cmp cmp (set zs)" using assms stable_sort_of_set by metis
  fix z assume "z \<in> set zs"
  then show "filter (\<lambda>y. cmp z y = Equal) ys = filter (\<lambda>y. cmp z y = Equal) zs"
    using assms stable_sort_of_set [OF assms(3)] by (simp add: stable_sort_of_def)
qed (use assms in \<open>auto simp: stable_sort_of_def\<close>)

locale slice_sort =
  fixes sorter :: "('a \<Rightarrow> 'a \<Rightarrow> ordering) \<Rightarrow> 'a list \<Rightarrow> 'a list option"
  assumes total_sorted:
      "total_cmp cmp (set xs) \<Longrightarrow> \<exists>ys. sorter cmp xs = Some ys \<and> stable_sort_of cmp xs ys"
    and permutes: "sorter cmp xs = Some ys \<Longrightarrow> mset ys = mset xs"
    and small_inserted: "length xs \<le> 20 \<Longrightarrow> sorter cmp xs = Some (sort_by cmp xs)"
begin

lemma sorterI:
  assumes "total_cmp cmp (set xs)" and "stable_sort_of cmp xs ys"
  shows "sorter cmp xs = Some ys"
  using total_sorted [OF assms(1)] stable_sort_of_unique [OF assms(1) assms(2)] by auto

lemma sorter_set: "sorter cmp xs = Some ys \<Longrightarrow> set ys = set xs"
  by (metis permutes mset_eq_setD)

lemma sorter_length: "sorter cmp xs = Some ys \<Longrightarrow> length ys = length xs"
  by (metis permutes size_mset)

end

lemma those_map_Some [simp]: "those (map (\<lambda>x. Some (f x)) xs) = Some (map f xs)"
  by (induction xs) simp_all

section \<open>Insertion sort\<close>

lemma sorted_shift_left_total:
  assumes "total_cmp cmp (insert x (set ys))" and "sorted_wrt (\<lambda>a b. cmp b a \<noteq> Greater) ys"
  shows "sorted_wrt (\<lambda>a b. cmp b a \<noteq> Greater) (shift_left (\<lambda>a b. cmp a b = Less) x ys)"
  using assms
proof (induction ys)
  case Nil
  then show ?case by simp
next
  case (Cons y ys)
  have t: "total_cmp cmp (insert x (set ys))" by (rule total_cmp_subset [OF Cons.prems(1)]) auto
  have swap: "cmp y x = (case cmp x y of Less \<Rightarrow> Greater | Equal \<Rightarrow> Equal | Greater \<Rightarrow> Less)"
    by (rule total_cmp_swap [OF Cons.prems(1)]) auto
  have below: "cmp z x \<noteq> Greater" if "z \<in> set ys" "cmp y x \<noteq> Greater" for z
    using total_cmp_trans [OF Cons.prems(1), of z y x] that Cons.prems(2) by auto
  show ?case
  proof (cases "cmp x y = Less")
    case True
    then show ?thesis using Cons.IH [OF t] Cons.prems(2) swap total_cmp_swap [OF Cons.prems(1), of y x] by auto
  next
    case False
    then have "cmp y x \<noteq> Greater" using swap by (cases "cmp x y") auto
    then show ?thesis using False Cons.prems(2) below by auto
  qed
qed

lemma segment_shift_left:
  assumes "total_cmp cmp (insert z (insert x (set ys)))"
  shows "filter (\<lambda>y. cmp z y = Equal) (shift_left (\<lambda>a b. cmp a b = Less) x ys) =
    (if cmp z x = Equal then [x] else []) @ filter (\<lambda>y. cmp z y = Equal) ys"
  using assms
proof (induction ys)
  case Nil
  then show ?case by simp
next
  case (Cons y ys)
  have t: "total_cmp cmp (insert z (insert x (set ys)))" by (rule total_cmp_subset [OF Cons.prems]) auto
  have "cmp x y = cmp z y" if "cmp z x = Equal"
    by (rule total_cmp_equal_trans [OF Cons.prems _ _ _ that, symmetric]) auto
  with Cons.IH [OF t] show ?case by auto
qed

lemma sort_by_stable:
  assumes "total_cmp cmp (set xs)"
  shows "stable_sort_of cmp xs (sort_by cmp xs)"
proof -
  let ?ins = "shift_left (\<lambda>a b. cmp a b = Less)"
  have "sorted_wrt (\<lambda>a b. cmp b a \<noteq> Greater) (fold ?ins zs ys) \<and>
      (\<forall>z\<in>set xs. filter (\<lambda>y. cmp z y = Equal) (fold ?ins zs ys) =
        rev (filter (\<lambda>y. cmp z y = Equal) zs) @ filter (\<lambda>y. cmp z y = Equal) ys)"
    if "set zs \<union> set ys \<subseteq> set xs" "sorted_wrt (\<lambda>a b. cmp b a \<noteq> Greater) ys" for zs ys
    using that
  proof (induction zs arbitrary: ys)
    case (Cons x zs)
    have "total_cmp cmp (insert x (set ys))" by (rule total_cmp_subset [OF assms]) (use Cons.prems in auto)
    moreover have "total_cmp cmp (insert z (insert x (set ys)))" if "z \<in> set xs" for z
      by (rule total_cmp_subset [OF assms]) (use Cons.prems that in auto)
    ultimately show ?case
      using Cons.IH [of "?ins x ys"] Cons.prems
      by (simp add: sorted_shift_left_total segment_shift_left)
  qed simp
  from this [of xs "[]"] have "sorted_wrt (\<lambda>a b. cmp a b \<noteq> Greater) (sort_by cmp xs) \<and>
      (\<forall>z\<in>set xs. filter (\<lambda>y. cmp z y = Equal) (sort_by cmp xs) = filter (\<lambda>y. cmp z y = Equal) xs)"
    by (simp add: sort_by_def sorted_wrt_rev rev_filter [symmetric])
  then show ?thesis by (simp add: stable_sort_of_def)
qed

interpretation insertion: slice_sort "\<lambda>cmp xs. Some (sort_by cmp xs)"
  by unfold_locales (auto intro: sort_by_stable)

end
