(* ===== verification/Personalization.thy ===== *)
theory Personalization
  imports Slice_Sort
begin

text \<open>
  Personalization of recommendations, \<open>src/src/recommendation/personalization.rs\<close>: from the profile of a
  user and the sub-subjects of the topics they wrote to the order in which sub-subjects are preferred.
\<close>

record SubjectInfo =
  si_id :: int
  si_name :: string
  si_slug :: string
  si_source :: "string option"

record SubSubjectInfo =
  ssi_id :: int
  ssi_subject_id :: int
  ssi_name :: string
  ssi_slug :: string

record ActivityRow =
  ar_sub_subject_id :: int
  ar_subject_id :: int
  ar_topic_count :: int
  ar_latest_topic_activity_at :: "string option"
  ar_sub_subject :: "SubSubjectInfo option"
  ar_subject :: "SubjectInfo option"

record PersonalizationInput =
  pz_user_id :: "int option"
  pz_primary_subject :: "SubjectInfo option"
  pz_authored_topic_activity :: "ActivityRow list"

definition guest :: PersonalizationInput where
  "guest = \<lparr>pz_user_id = None, pz_primary_subject = None, pz_authored_topic_activity = []\<rparr>"

record CandidateSubject =
  cs_sub_subject_id :: int
  cs_subject_id :: int
  cs_topic_count :: int
  cs_latest_topic_activity_at :: "string option"
  cs_subject :: "SubjectInfo option"
  cs_sub_subject :: "SubSubjectInfo option"
  cs_source :: string

record PersonalizationPublic =
  pp_signals_available :: bool
  pp_has_primary_subject :: bool
  pp_has_authored_topic_activity :: bool
  pp_signal_source :: string
  pp_fallback_mode :: "string option"
  pp_primary_subject :: "SubjectInfo option"
  pp_subject_anchor :: "SubjectInfo option"
  pp_candidate_sub_subject_ids :: "int list"
  pp_candidate_sub_subjects :: "CandidateSubject list"

record PersonalizationInternal =
  pn_signals_available :: bool
  pn_primary_subject_id :: "int option"
  pn_preferred_ids :: "int list"
  pn_secondary_ids :: "int list"
  pn_personalized_mode :: string
  pn_personalized_description :: string

record PersonalizationContext =
  pc_public :: PersonalizationPublic
  pc_internal :: PersonalizationInternal

definition PERSONALIZED_MODE :: string where
  "PERSONALIZED_MODE = ''personalized_system_candidate_selection''"

definition guest_context :: PersonalizationContext where
  "guest_context =
     \<lparr>pc_public =
        \<lparr>pp_signals_available = False, pp_has_primary_subject = False,
         pp_has_authored_topic_activity = False, pp_signal_source = ''guest'',
         pp_fallback_mode = Some ''global_feed'', pp_primary_subject = None, pp_subject_anchor = None,
         pp_candidate_sub_subject_ids = [], pp_candidate_sub_subjects = []\<rparr>,
      pc_internal =
        \<lparr>pn_signals_available = False, pn_primary_subject_id = None, pn_preferred_ids = [],
         pn_secondary_ids = [], pn_personalized_mode = PERSONALIZED_MODE,
         pn_personalized_description =
           ''Select and order system-generated recommendations using authenticated user personalization signals.''\<rparr>\<rparr>"

definition resolve_signal_source :: "bool \<Rightarrow> bool \<Rightarrow> string" where
  "resolve_signal_source has_primary_subject has_authored_activity =
     (case (has_primary_subject, has_authored_activity) of
        (True, True) \<Rightarrow> ''profile_subject_with_authored_activity''
      | (True, False) \<Rightarrow> ''profile_subject''
      | (False, True) \<Rightarrow> ''authored_topic_activity''
      | (False, False) \<Rightarrow> ''insufficient_signals'')"

definition resolve_fallback_mode :: "bool \<Rightarrow> bool \<Rightarrow> ActivityRow list \<Rightarrow> string option" where
  "resolve_fallback_mode has_primary_subject has_authored_activity preferred =
     (if \<not> has_primary_subject \<and> \<not> has_authored_activity then Some ''global_feed''
      else if has_primary_subject \<and> preferred = [] then Some ''primary_subject_catalog''
      else None)"

definition resolve_personalized_description :: "bool \<Rightarrow> bool \<Rightarrow> string" where
  "resolve_personalized_description has_primary_subject has_authored_activity =
     (case (has_primary_subject, has_authored_activity) of
        (True, True) \<Rightarrow>
          ''Select and order system-generated recommendations using the user primary subject and authored-topic activity.''
      | (True, False) \<Rightarrow>
          ''Select and order system-generated recommendations using the user primary subject when authored-topic activity is still sparse.''
      | _ \<Rightarrow>
          ''Select and order system-generated recommendations using authored-topic activity because no primary subject is set.'')"

definition preferred_rows :: "PersonalizationInput \<Rightarrow> ActivityRow list" where
  "preferred_rows input =
     (case pz_primary_subject input of
        Some ps \<Rightarrow> filter (\<lambda>r. ar_subject_id r = si_id ps) (pz_authored_topic_activity input)
      | None \<Rightarrow> pz_authored_topic_activity input)"

definition secondary_rows :: "PersonalizationInput \<Rightarrow> ActivityRow list" where
  "secondary_rows input =
     (case pz_primary_subject input of
        Some ps \<Rightarrow> filter (\<lambda>r. ar_subject_id r \<noteq> si_id ps) (pz_authored_topic_activity input)
      | None \<Rightarrow> [])"

definition subject_anchor :: "PersonalizationInput \<Rightarrow> SubjectInfo option" where
  "subject_anchor input =
     (case pz_primary_subject input of
        Some ps \<Rightarrow> Some (ps\<lparr>si_source := Some ''profile''\<rparr>)
      | None \<Rightarrow>
          (case preferred_rows input @ secondary_rows input of
             [] \<Rightarrow> None
           | r # _ \<Rightarrow> map_option (\<lambda>s. s\<lparr>si_source := Some ''authored_topic_activity''\<rparr>) (ar_subject r)))"

definition candidate_subject :: "ActivityRow \<Rightarrow> CandidateSubject" where
  "candidate_subject r =
     \<lparr>cs_sub_subject_id = ar_sub_subject_id r, cs_subject_id = ar_subject_id r,
      cs_topic_count = ar_topic_count r, cs_latest_topic_activity_at = ar_latest_topic_activity_at r,
      cs_subject = ar_subject r, cs_sub_subject = ar_sub_subject r, cs_source = ''authored_topic_activity''\<rparr>"

definition authenticated_context :: "PersonalizationInput \<Rightarrow> PersonalizationContext" where
  "authenticated_context input =
     (let has_primary_subject = (pz_primary_subject input \<noteq> None);
          has_authored_activity = (pz_authored_topic_activity input \<noteq> []);
          signals_available = (has_primary_subject \<or> has_authored_activity);
          preferred = preferred_rows input;
          secondary = secondary_rows input;
          candidates = map candidate_subject (preferred @ secondary)
      in \<lparr>pc_public =
            \<lparr>pp_signals_available = signals_available, pp_has_primary_subject = has_primary_subject,
             pp_has_authored_topic_activity = has_authored_activity,
             pp_signal_source = resolve_signal_source has_primary_subject has_authored_activity,
             pp_fallback_mode = resolve_fallback_mode has_primary_subject has_authored_activity preferred,
             pp_primary_subject = pz_primary_subject input, pp_subject_anchor = subject_anchor input,
             pp_candidate_sub_subject_ids = map cs_sub_subject_id candidates,
             pp_candidate_sub_subjects = candidates\<rparr>,
          pc_internal =
            \<lparr>pn_signals_available = signals_available,
             pn_primary_subject_id = map_option si_id (pz_primary_subject input),
             pn_preferred_ids = map ar_sub_subject_id preferred,
             pn_secondary_ids = map ar_sub_subject_id secondary,
             pn_personalized_mode = PERSONALIZED_MODE,
             pn_personalized_description =
               resolve_personalized_description has_primary_subject has_authored_activity\<rparr>\<rparr>)"

definition resolve_personalization :: "PersonalizationInput \<Rightarrow> PersonalizationContext" where
  "resolve_personalization input =
     (case pz_user_id input of None \<Rightarrow> guest_context | Some _ \<Rightarrow> authenticated_context input)"

section \<open>Properties\<close>

text \<open>
  The context of a signed-in user loses no activity: the preferred and the secondary sub-subjects
  together are those of the rows, each row once, and those of the primary subject come first. There are
  signals exactly if a profile subject or an activity exists, and no fallback exactly if there is an
  activity to prefer.\<close>

theorem personalization_keeps_activity:
  assumes "pz_user_id input = Some u"
  shows "let ctx = resolve_personalization input; internal = pc_internal ctx; public = pc_public ctx
    in pp_candidate_sub_subject_ids public = pn_preferred_ids internal @ pn_secondary_ids internal \<and>
       mset (pp_candidate_sub_subject_ids public) =
         mset (map ar_sub_subject_id (pz_authored_topic_activity input)) \<and>
       (pp_fallback_mode public = None \<longleftrightarrow> pn_preferred_ids internal \<noteq> []) \<and>
       (pn_signals_available internal \<longleftrightarrow>
          pz_primary_subject input \<noteq> None \<or> pz_authored_topic_activity input \<noteq> [])"
proof -
  have "mset (filter P xs) + mset (filter (\<lambda>x. \<not> P x) xs) = mset xs" for P and xs :: "ActivityRow list"
    by (induction xs) auto
  then have "mset (preferred_rows input) + mset (secondary_rows input) = mset (pz_authored_topic_activity input)"
    by (auto simp: preferred_rows_def secondary_rows_def split: option.splits)
  then have "image_mset ar_sub_subject_id (mset (preferred_rows input)) +
      image_mset ar_sub_subject_id (mset (secondary_rows input)) =
      image_mset ar_sub_subject_id (mset (pz_authored_topic_activity input))"
    by (metis image_mset_union)
  then show ?thesis
    using assms
    by (auto simp: resolve_personalization_def authenticated_context_def Let_def candidate_subject_def
        resolve_fallback_mode_def preferred_rows_def comp_def split: option.splits)
qed

end
