(* ===== verification/Aggregation.thy ===== *)
theory Aggregation
  imports Personalization Interp_Types
begin

text \<open>
  Aggregation of recommendations, \<open>src/src/recommendation/aggregation.rs\<close>: the feed of the home page and
  the summary of what the system distributes.

  \<open>P\<close> parses the two forms of a timestamp, \<open>sorter\<close> is \<open>slice::sort_by\<close>, whose \<open>None\<close> is its panic on
  a comparison that is not an order. \<open>hash_order\<close> is the order in which a hash map is iterated.
\<close>

section \<open>Types\<close>

record SubjectTaxonomy =
  st_id :: int
  st_name :: string
  st_slug :: string

record SubSubjectTaxonomy =
  sst_id :: int
  sst_subject_id :: int
  sst_name :: string
  sst_slug :: string
  sst_subject :: "SubjectTaxonomy option"

record TaxonomyInfo =
  ti_subject :: "SubjectTaxonomy option"
  ti_sub_subject :: SubSubjectTaxonomy

record PersonalizationInfo =
  pf_eligible :: bool
  pf_mode :: "string option"
  pf_excluded_reason :: "string option"
  pf_has_normalized_ownership :: bool
  pf_has_adequate_taxonomy :: bool

record CuratedItemInput =
  cu_id :: string
  cu_title :: string
  cu_description :: "string option"
  cu_thumbnail_url :: "string option"
  cu_ratio :: "string option"
  cu_project_type :: "string option"
  cu_tags :: "string list"
  cu_modules :: "string list"
  cu_source_type :: string
  cu_source_reference :: "string option"
  cu_source_payload :: json
  cu_display_priority :: int
  cu_is_active :: bool
  cu_starts_at :: "string option"
  cu_ends_at :: "string option"
  cu_created_at :: "string option"
  cu_updated_at :: "string option"

record TopicItemInput =
  to_id :: string
  to_title :: string
  to_thumbnail_url :: "string option"
  to_sub_subject_id :: "int option"
  to_subject_id :: "int option"
  to_taxonomy :: "TaxonomyInfo option"
  to_personalization_eligible :: "bool option"
  to_personalization_mode :: "string option"
  to_personalization_excluded_reason :: "string option"
  to_has_normalized_ownership :: bool
  to_modules :: "string list"
  to_teacher_id :: "string option"
  to_owner_user_id :: "int option"
  to_ownership_status :: "string option"
  to_order :: "int option"
  to_created_at :: "string option"
  to_updated_at :: "string option"

record SourceMetadata =
  sm_id :: string
  sm_title :: string
  sm_created_at :: "string option"

record SystemAssignmentInput =
  sa_source_type :: string
  sa_source_reference :: string
  sa_subject_id :: "int option"
  sa_sub_subject_id :: int
  sa_distinct_user_count :: int
  sa_latest_distribution_at :: "string option"

record AggregationInput =
  ai_curated_items :: "CuratedItemInput list"
  ai_suppressed_source_keys :: "string list"
  ai_topic_items :: "TopicItemInput list"
  ai_assignments :: "SystemAssignmentInput list"
  ai_sub_subject_lookup :: "int \<Rightarrow> SubSubjectTaxonomy option"
  ai_ai_source_lookup :: "string \<Rightarrow> SourceMetadata option"
  ai_topic_override_lookup :: "string \<Rightarrow> SourceMetadata option"
  ai_personalization_context :: "PersonalizationContext option"
  ai_minimum_distinct_user_count :: int
  ai_maximum_items_per_sub_subject :: nat
  ai_eligible_source_types :: "string list"

record VisibilityInfo =
  vi_is_active :: bool
  vi_starts_at :: "string option"
  vi_ends_at :: "string option"

record CandidateSelection =
  cx_eligible :: bool
  cx_selected :: bool
  cx_group :: nat
  cx_rank :: nat
  cx_reason :: string

definition USIZE_MAX :: nat where
  "USIZE_MAX = 2 ^ 64 - 1"

definition candidate_selection_default :: CandidateSelection where
  "candidate_selection_default =
     \<lparr>cx_eligible = False, cx_selected = False, cx_group = 4, cx_rank = USIZE_MAX,
      cx_reason = ''normalization_required''\<rparr>"

record FeedItem =
  fi_id :: string
  fi_title :: string
  fi_description :: "string option"
  fi_thumbnail_url :: "string option"
  fi_ratio :: string
  fi_project_type :: "string option"
  fi_tags :: "string list"
  fi_modules :: "string list"
  fi_sub_subject_id :: "int option"
  fi_subject_id :: "int option"
  fi_taxonomy :: "TaxonomyInfo option"
  fi_personalization :: "PersonalizationInfo option"
  fi_source_type :: string
  fi_source_reference :: "string option"
  fi_feed_origin :: string
  fi_display_priority :: int
  fi_score :: f64
  fi_visibility :: VisibilityInfo
  fi_created_at :: "string option"
  fi_updated_at :: "string option"
  fi_candidate_selection :: CandidateSelection

record SourceStatusInfo =
  ss_state :: string
  ss_suppressed_count :: "nat option"

record PersonalizationSummary =
  ps_applied :: bool
  ps_filter_applied :: bool
  ps_mode :: "string option"
  ps_description :: "string option"
  ps_selected_count :: "nat option"
  ps_filtered_out_count :: "nat option"
  ps_matched_topic_count :: "nat option"
  ps_source_breakdown :: "(string \<rightharpoonup> nat) option"
  ps_matched_sub_subject_ids :: "int list option"

record FeedSnapshot =
  fs_items :: "FeedItem list"
  fs_source_status :: "string \<rightharpoonup> SourceStatusInfo"
  fs_personalization :: PersonalizationSummary

record DistributionSummaryItem =
  ds_recommendation_key :: string
  ds_recommendation_item_id :: string
  ds_title :: string
  ds_source_type :: string
  ds_source_reference :: string
  ds_subject_id :: "int option"
  ds_sub_subject_id :: int
  ds_subject :: "SubjectTaxonomy option"
  ds_sub_subject :: "SubSubjectTaxonomy option"
  ds_distinct_user_count :: int
  ds_latest_distribution_at :: "string option"
  ds_source_created_at :: "string option"

type_synonym 'a sorter = "('a \<Rightarrow> 'a \<Rightarrow> ordering) \<Rightarrow> 'a list \<Rightarrow> 'a list option"

definition SOURCE_ADMIN_UPLOAD :: string where
  "SOURCE_ADMIN_UPLOAD = ''admin_upload''"

definition SOURCE_SYSTEM_TOPIC :: string where
  "SOURCE_SYSTEM_TOPIC = ''system_topic''"

definition SOURCE_AI_GENERATED :: string where
  "SOURCE_AI_GENERATED = ''ai_generated''"

section \<open>Decoding\<close>

definition dec_subject_taxonomy :: "json \<Rightarrow> SubjectTaxonomy option" where
  "dec_subject_taxonomy v = do {
     fs \<leftarrow> struct_fields [''id'', ''name'', ''slug''] v;
     i \<leftarrow> required as_i64 ''id'' fs;
     n \<leftarrow> required as_str ''name'' fs;
     s \<leftarrow> required as_str ''slug'' fs;
     Some \<lparr>st_id = i, st_name = n, st_slug = s\<rparr> }"

definition dec_sub_subject_taxonomy :: "json \<Rightarrow> SubSubjectTaxonomy option" where
  "dec_sub_subject_taxonomy v = do {
     fs \<leftarrow> struct_fields [''id'', ''subject_id'', ''name'', ''slug'', ''subject''] v;
     i \<leftarrow> required as_i64 ''id'' fs;
     j \<leftarrow> required as_i64 ''subject_id'' fs;
     n \<leftarrow> required as_str ''name'' fs;
     s \<leftarrow> required as_str ''slug'' fs;
     t \<leftarrow> optional v dec_subject_taxonomy ''subject'' fs;
     Some \<lparr>sst_id = i, sst_subject_id = j, sst_name = n, sst_slug = s, sst_subject = t\<rparr> }"

definition dec_taxonomy_info :: "json \<Rightarrow> TaxonomyInfo option" where
  "dec_taxonomy_info v = do {
     fs \<leftarrow> struct_fields [''subject'', ''sub_subject''] v;
     s \<leftarrow> optional v dec_subject_taxonomy ''subject'' fs;
     t \<leftarrow> required dec_sub_subject_taxonomy ''sub_subject'' fs;
     Some \<lparr>ti_subject = s, ti_sub_subject = t\<rparr> }"

definition dec_personalization_info :: "json \<Rightarrow> PersonalizationInfo option" where
  "dec_personalization_info v = do {
     fs \<leftarrow> struct_fields
       [''eligible'', ''mode'', ''excluded_reason'', ''has_normalized_ownership'', ''has_adequate_taxonomy''] v;
     e \<leftarrow> required as_bool ''eligible'' fs;
     m \<leftarrow> optional v as_str ''mode'' fs;
     r \<leftarrow> optional v as_str ''excluded_reason'' fs;
     n \<leftarrow> required as_bool ''has_normalized_ownership'' fs;
     a \<leftarrow> required as_bool ''has_adequate_taxonomy'' fs;
     Some \<lparr>pf_eligible = e, pf_mode = m, pf_excluded_reason = r, pf_has_normalized_ownership = n,
           pf_has_adequate_taxonomy = a\<rparr> }"

section \<open>Feed items\<close>

definition make_source_key :: "string \<Rightarrow> string \<Rightarrow> string" where
  "make_source_key source_type source_reference = source_type @ '':'' @ source_reference"

record timestamps =
  ts_rfc3339 :: "string \<Rightarrow> datetime option"
  ts_naive :: "string \<Rightarrow> datetime option"

definition timestamp_value :: "timestamps \<Rightarrow> string option \<Rightarrow> int" where
  "timestamp_value P value =
     (case value of
        None \<Rightarrow> 0
      | Some s \<Rightarrow>
          if s = [] then 0
          else (case ts_rfc3339 P s of
                  Some t \<Rightarrow> t div 10 ^ 9
                | None \<Rightarrow> (case ts_naive P s of Some t \<Rightarrow> t div 10 ^ 9 | None \<Rightarrow> 0)))"

definition resolve_state_from_count :: "nat \<Rightarrow> string" where
  "resolve_state_from_count n = (if n > 0 then ''ok'' else ''empty'')"

definition normalize_curated_item :: "CuratedItemInput \<Rightarrow> FeedItem" where
  "normalize_curated_item c =
     \<lparr>fi_id = cu_id c, fi_title = cu_title c, fi_description = cu_description c,
      fi_thumbnail_url = cu_thumbnail_url c, fi_ratio = str_or ''16:9'' (cu_ratio c),
      fi_project_type = cu_project_type c, fi_tags = cu_tags c, fi_modules = cu_modules c,
      fi_sub_subject_id = Option.bind (jget ''sub_subject_id'' (cu_source_payload c)) as_i64,
      fi_subject_id = Option.bind (jget ''subject_id'' (cu_source_payload c)) as_i64,
      fi_taxonomy = Option.bind (jget ''taxonomy'' (cu_source_payload c)) dec_taxonomy_info,
      fi_personalization = Option.bind (jget ''personalization'' (cu_source_payload c)) dec_personalization_info,
      fi_source_type = cu_source_type c, fi_source_reference = cu_source_reference c,
      fi_feed_origin = (if cu_source_type c = SOURCE_ADMIN_UPLOAD then ''admin_curated'' else ''system_generated''),
      fi_display_priority = cu_display_priority c,
      fi_score = (case Option.bind (jget ''score'' (cu_source_payload c)) as_f64 of
                    Some x \<Rightarrow> x | None \<Rightarrow> F_Fin False 0),
      fi_visibility = \<lparr>vi_is_active = cu_is_active c, vi_starts_at = cu_starts_at c, vi_ends_at = cu_ends_at c\<rparr>,
      fi_created_at = cu_created_at c, fi_updated_at = cu_updated_at c,
      fi_candidate_selection = candidate_selection_default\<rparr>"

definition normalize_topic_item :: "TopicItemInput \<Rightarrow> FeedItem" where
  "normalize_topic_item t =
     \<lparr>fi_id = ''system_topic_'' @ to_id t, fi_title = to_title t, fi_description = None,
      fi_thumbnail_url = to_thumbnail_url t, fi_ratio = ''16:9'', fi_project_type = None, fi_tags = [],
      fi_modules = to_modules t, fi_sub_subject_id = to_sub_subject_id t, fi_subject_id = to_subject_id t,
      fi_taxonomy = to_taxonomy t,
      fi_personalization = Some
        \<lparr>pf_eligible = (case to_personalization_eligible t of Some e \<Rightarrow> e | None \<Rightarrow> True),
         pf_mode = to_personalization_mode t, pf_excluded_reason = to_personalization_excluded_reason t,
         pf_has_normalized_ownership = to_has_normalized_ownership t,
         pf_has_adequate_taxonomy = (to_sub_subject_id t \<noteq> None)\<rparr>,
      fi_source_type = SOURCE_SYSTEM_TOPIC, fi_source_reference = Some (to_id t),
      fi_feed_origin = ''system_generated'', fi_display_priority = 0, fi_score = F_Fin False 0,
      fi_visibility = \<lparr>vi_is_active = True, vi_starts_at = None, vi_ends_at = None\<rparr>,
      fi_created_at = to_created_at t, fi_updated_at = to_updated_at t,
      fi_candidate_selection = candidate_selection_default\<rparr>"

section \<open>Candidate selection\<close>

definition is_eligible_system_generated_candidate :: "FeedItem \<Rightarrow> bool" where
  "is_eligible_system_generated_candidate item =
     (if fi_source_type item = SOURCE_ADMIN_UPLOAD then False
      else if fi_sub_subject_id item = None \<or> fi_subject_id item = None then False
      else if fi_source_type item = SOURCE_SYSTEM_TOPIC
      then (case fi_personalization item of Some p \<Rightarrow> pf_eligible p | None \<Rightarrow> True)
      else True)"

definition build_rank_lookup :: "int list \<Rightarrow> int \<rightharpoonup> nat" where
  "build_rank_lookup ids = map_of (rev (zip ids [0..<length ids]))"

definition build_primary_subject_catalog_lookup :: "FeedItem list \<Rightarrow> int option \<Rightarrow> int list \<Rightarrow> int \<rightharpoonup> nat" where
  "build_primary_subject_catalog_lookup items primary_subject_id excluded_ids =
     (case primary_subject_id of
        None \<Rightarrow> Map.empty
      | Some ps_id \<Rightarrow>
          build_rank_lookup (sort (List.map_filter fi_sub_subject_id
            (filter (\<lambda>item. case fi_sub_subject_id item of Some i \<Rightarrow> i \<notin> set excluded_ids | None \<Rightarrow> True)
              (filter (\<lambda>item. fi_subject_id item = Some ps_id)
                (filter is_eligible_system_generated_candidate items))))))"

definition select_candidate ::
  "int option \<Rightarrow> (int \<rightharpoonup> nat) \<Rightarrow> (int \<rightharpoonup> nat) \<Rightarrow> (int \<rightharpoonup> nat) \<Rightarrow> FeedItem \<Rightarrow> CandidateSelection" where
  "select_candidate primary_subject_id preferred catalog secondary item =
     (let eligible = is_eligible_system_generated_candidate item;
          chosen = (\<lambda>group rank reason.
            \<lparr>cx_eligible = True, cx_selected = True, cx_group = group, cx_rank = rank, cx_reason = reason\<rparr>);
          open_selection =
            \<lparr>cx_eligible = eligible, cx_selected = False, cx_group = (if eligible then 3 else 4),
             cx_rank = USIZE_MAX,
             cx_reason = (if eligible then ''global_feed_fallback'' else ''normalization_required'')\<rparr>
      in if \<not> eligible then open_selection
         else case fi_sub_subject_id item of
           None \<Rightarrow> open_selection
         | Some ss_id \<Rightarrow>
             (let selection =
                (case preferred ss_id of
                   Some rank \<Rightarrow> chosen 0 rank ''authored_topic_activity''
                 | None \<Rightarrow>
                     (case primary_subject_id of
                        None \<Rightarrow> open_selection
                      | Some ps_id \<Rightarrow>
                          (case catalog ss_id of
                             Some rank \<Rightarrow>
                               if fi_subject_id item = Some ps_id
                               then chosen 1 rank ''primary_subject_catalog'' else open_selection
                           | None \<Rightarrow> open_selection)))
              in if cx_selected selection then selection
                 else (case secondary ss_id of
                         Some rank \<Rightarrow> chosen 2 rank ''secondary_authored_topic_activity''
                       | None \<Rightarrow> selection)))"

definition empty_personalization_summary :: PersonalizationSummary where
  "empty_personalization_summary =
     \<lparr>ps_applied = False, ps_filter_applied = False, ps_mode = None, ps_description = None,
      ps_selected_count = None, ps_filtered_out_count = None, ps_matched_topic_count = None,
      ps_source_breakdown = None, ps_matched_sub_subject_ids = None\<rparr>"

definition compare_ts_desc :: "timestamps \<Rightarrow> ('a \<Rightarrow> string option) \<Rightarrow> 'a \<Rightarrow> 'a \<Rightarrow> ordering" where
  "compare_ts_desc P key = (\<lambda>a b. compare_by (\<lambda>x. timestamp_value P (key x)) b a)"

definition compare_selection :: "timestamps \<Rightarrow> FeedItem \<Rightarrow> FeedItem \<Rightarrow> ordering" where
  "compare_selection P =
     then_with (compare_by (cx_group \<circ> fi_candidate_selection))
       (then_with (compare_by (cx_rank \<circ> fi_candidate_selection)) (compare_ts_desc P fi_updated_at))"

definition count_source :: "string \<Rightarrow> FeedItem list \<Rightarrow> nat" where
  "count_source source items = length (filter (\<lambda>i. fi_source_type i = source) items)"

text \<open>The first occurrences.\<close>

fun unique_from :: "int set \<Rightarrow> int list \<Rightarrow> int list" where
  "unique_from seen [] = []"
| "unique_from seen (i # is) = (if i \<in> seen then unique_from seen is else i # unique_from (insert i seen) is)"

definition build_personalization_summary ::
  "FeedItem sorter \<Rightarrow> timestamps \<Rightarrow> FeedItem list \<Rightarrow> FeedItem list \<Rightarrow> PersonalizationContext \<Rightarrow>
     PersonalizationSummary option" where
  "build_personalization_summary sorter P all selected ctx =
     (let summary =
        \<lparr>ps_applied = (selected \<noteq> []), ps_filter_applied = (selected \<noteq> []),
         ps_mode = Some (pn_personalized_mode (pc_internal ctx)),
         ps_description = Some (pn_personalized_description (pc_internal ctx)),
         ps_selected_count = Some (length selected),
         ps_filtered_out_count = Some (length all - length selected),
         ps_matched_topic_count = Some (count_source SOURCE_SYSTEM_TOPIC selected),
         ps_source_breakdown = None, ps_matched_sub_subject_ids = None\<rparr>
      in if selected = [] then Some summary
         else map_option (\<lambda>ordered. summary
             \<lparr>ps_source_breakdown := Some
                [SOURCE_SYSTEM_TOPIC \<mapsto> count_source SOURCE_SYSTEM_TOPIC selected,
                 SOURCE_AI_GENERATED \<mapsto> count_source SOURCE_AI_GENERATED selected],
              ps_matched_sub_subject_ids :=
                Some (unique_from {} (List.map_filter fi_sub_subject_id ordered))\<rparr>)
           (sorter (compare_selection P) selected))"

definition annotate_items :: "FeedItem list \<Rightarrow> PersonalizationContext \<Rightarrow> FeedItem list" where
  "annotate_items items ctx =
     (let internal = pc_internal ctx;
          preferred = build_rank_lookup (pn_preferred_ids internal);
          secondary = build_rank_lookup (pn_secondary_ids internal);
          catalog = build_primary_subject_catalog_lookup items (pn_primary_subject_id internal)
                      (pn_preferred_ids internal @ pn_secondary_ids internal)
      in map (\<lambda>item. item\<lparr>fi_candidate_selection :=
             select_candidate (pn_primary_subject_id internal) preferred catalog secondary item\<rparr>) items)"

definition select_system_generated_candidates ::
  "FeedItem sorter \<Rightarrow> timestamps \<Rightarrow> FeedItem list \<Rightarrow> AggregationInput \<Rightarrow>
     (FeedItem list \<times> PersonalizationSummary) option" where
  "select_system_generated_candidates sorter P items input =
     (if items = [] then Some (items, empty_personalization_summary)
      else case ai_personalization_context input of
        None \<Rightarrow> Some (items, empty_personalization_summary)
      | Some ctx \<Rightarrow>
          if \<not> pn_signals_available (pc_internal ctx) then Some (items, empty_personalization_summary)
          else
            (let annotated = annotate_items items ctx;
                 selected = filter (\<lambda>i. cx_selected (fi_candidate_selection i)) annotated
             in if selected = [] then Some (items, empty_personalization_summary)
                else map_option (\<lambda>summary. (selected, summary))
                  (build_personalization_summary sorter P annotated selected ctx)))"

section \<open>The feed\<close>

definition compare_items :: "timestamps \<Rightarrow> FeedItem \<Rightarrow> FeedItem \<Rightarrow> ordering" where
  "compare_items P a b =
     (let a_is_system = (fi_source_type a \<noteq> SOURCE_ADMIN_UPLOAD);
          b_is_system = (fi_source_type b \<noteq> SOURCE_ADMIN_UPLOAD);
          cmp = compare_selection P a b
      in if a_is_system \<and> b_is_system \<and> cmp \<noteq> Equal then cmp
         else then_with (\<lambda>x y. compare_by fi_display_priority y x)
           (then_with (compare_f64_desc fi_score)
             (then_with (compare_ts_desc P fi_created_at) (compare_str fi_id))) a b)"

definition is_admin :: "CuratedItemInput \<Rightarrow> bool" where
  "is_admin c \<longleftrightarrow> cu_source_type c = SOURCE_ADMIN_UPLOAD"

definition system_items :: "AggregationInput \<Rightarrow> FeedItem list" where
  "system_items input =
     map normalize_curated_item (filter (\<lambda>c. \<not> is_admin c) (ai_curated_items input)) @
     map normalize_topic_item
       (filter (\<lambda>t. make_source_key SOURCE_SYSTEM_TOPIC (to_id t) \<notin> set (ai_suppressed_source_keys input))
         (ai_topic_items input))"

definition source_status_of :: "AggregationInput \<Rightarrow> string \<rightharpoonup> SourceStatusInfo" where
  "source_status_of input =
     [SOURCE_ADMIN_UPLOAD \<mapsto>
        \<lparr>ss_state = resolve_state_from_count (length (filter is_admin (ai_curated_items input))),
         ss_suppressed_count = None\<rparr>,
      SOURCE_SYSTEM_TOPIC \<mapsto>
        \<lparr>ss_state = resolve_state_from_count (length (ai_topic_items input)),
         ss_suppressed_count = Some (length (ai_suppressed_source_keys input))\<rparr>,
      SOURCE_AI_GENERATED \<mapsto>
        \<lparr>ss_state = resolve_state_from_count
           (length (filter (\<lambda>c. cu_source_type c = SOURCE_AI_GENERATED) (ai_curated_items input))),
         ss_suppressed_count = None\<rparr>]"

definition build_feed_snapshot ::
  "FeedItem sorter \<Rightarrow> timestamps \<Rightarrow> AggregationInput \<Rightarrow> FeedSnapshot option" where
  "build_feed_snapshot sorter P input =
     (let admin_items = map normalize_curated_item (filter is_admin (ai_curated_items input))
      in Option.bind (select_system_generated_candidates sorter P (system_items input) input)
           (\<lambda>(selected, summary).
             map_option (\<lambda>items.
                 \<lparr>fs_items = items, fs_source_status = source_status_of input, fs_personalization = summary\<rparr>)
               (sorter (compare_items P) (admin_items @ selected))))"

section \<open>The distribution summary\<close>

definition resolve_distribution_metadata ::
  "SystemAssignmentInput \<Rightarrow> AggregationInput \<Rightarrow> string \<times> string \<times> string option" where
  "resolve_distribution_metadata a input =
     (let plain = (sa_source_reference a, sa_source_type a @ '':'' @ sa_source_reference a, None)
      in if sa_source_type a = SOURCE_AI_GENERATED then
           (case ai_ai_source_lookup input (sa_source_reference a) of
              Some m \<Rightarrow> (sm_id m, sm_title m, sm_created_at m)
            | None \<Rightarrow> plain)
         else if sa_source_type a = SOURCE_SYSTEM_TOPIC then
           (case ai_topic_override_lookup input (sa_source_reference a) of
              Some m \<Rightarrow> (sm_id m, sm_title m, sm_created_at m)
            | None \<Rightarrow> (''system_topic_'' @ sa_source_reference a, sa_source_reference a, None))
         else plain)"

definition compare_distribution_candidates ::
  "timestamps \<Rightarrow> DistributionSummaryItem \<Rightarrow> DistributionSummaryItem \<Rightarrow> ordering" where
  "compare_distribution_candidates P =
     then_with (\<lambda>a b. compare_by ds_distinct_user_count b a)
       (then_with (compare_ts_desc P ds_latest_distribution_at)
         (then_with (compare_ts_desc P ds_source_created_at) (compare_str ds_source_reference)))"

definition subject_key :: "DistributionSummaryItem \<Rightarrow> int" where
  "subject_key i = (case ds_subject i of Some s \<Rightarrow> st_id s | None \<Rightarrow> 0)"

definition compare_distribution :: "timestamps \<Rightarrow> DistributionSummaryItem \<Rightarrow> DistributionSummaryItem \<Rightarrow> ordering" where
  "compare_distribution P =
     then_with (compare_by subject_key)
       (then_with (compare_by ds_sub_subject_id) (compare_distribution_candidates P))"

definition group_of :: "DistributionSummaryItem list \<Rightarrow> int \<Rightarrow> DistributionSummaryItem list" where
  "group_of items g = filter (\<lambda>i. ds_sub_subject_id i = g) items"

definition group_and_sort_distribution ::
  "DistributionSummaryItem sorter \<Rightarrow> timestamps \<Rightarrow> int list \<Rightarrow> DistributionSummaryItem list \<Rightarrow> nat \<Rightarrow>
     DistributionSummaryItem list option" where
  "group_and_sort_distribution sorter P hash_order items max_per_sub_subject =
     Option.bind (those (map (\<lambda>g. map_option (take max_per_sub_subject)
         (sorter (compare_distribution_candidates P) (group_of items g))) hash_order))
       (\<lambda>groups. sorter (compare_distribution P) (concat groups))"

definition distribution_item :: "AggregationInput \<Rightarrow> SystemAssignmentInput \<Rightarrow> DistributionSummaryItem option" where
  "distribution_item input a =
     map_option (\<lambda>sub_subject.
       case resolve_distribution_metadata a input of
         (item_id, title, source_created_at) \<Rightarrow>
           \<lparr>ds_recommendation_key = make_source_key (sa_source_type a) (sa_source_reference a),
            ds_recommendation_item_id = item_id, ds_title = title, ds_source_type = sa_source_type a,
            ds_source_reference = sa_source_reference a,
            ds_subject_id = (case sst_subject sub_subject of Some s \<Rightarrow> Some (st_id s) | None \<Rightarrow> sa_subject_id a),
            ds_sub_subject_id = sa_sub_subject_id a, ds_subject = sst_subject sub_subject,
            ds_sub_subject = Some sub_subject, ds_distinct_user_count = sa_distinct_user_count a,
            ds_latest_distribution_at = sa_latest_distribution_at a,
            ds_source_created_at = source_created_at\<rparr>)
       (ai_sub_subject_lookup input (sa_sub_subject_id a))"

definition distribution_items :: "AggregationInput \<Rightarrow> DistributionSummaryItem list" where
  "distribution_items input =
     (let min_count = max (ai_minimum_distinct_user_count input) 1
      in List.map_filter (distribution_item input)
           (filter (\<lambda>a. sa_source_type a \<in> set (ai_eligible_source_types input) \<and>
               min_count \<le> sa_distinct_user_count a) (ai_assignments input)))"

definition build_system_distribution_summary ::
  "DistributionSummaryItem sorter \<Rightarrow> timestamps \<Rightarrow> int list \<Rightarrow> AggregationInput \<Rightarrow>
     DistributionSummaryItem list option" where
  "build_system_distribution_summary sorter P hash_order input =
     (if ai_eligible_source_types input = [] then Some []
      else if filter (\<lambda>a. sa_source_type a \<in> set (ai_eligible_source_types input) \<and>
          max (ai_minimum_distinct_user_count input) 1 \<le> sa_distinct_user_count a) (ai_assignments input) = []
      then Some []
      else group_and_sort_distribution sorter P hash_order (distribution_items input)
             (ai_maximum_items_per_sub_subject input))"


section \<open>Examples\<close>

definition sample_curated :: "string \<Rightarrow> string \<Rightarrow> int \<Rightarrow> string \<Rightarrow> CuratedItemInput" where
  "sample_curated i source priority updated =
     \<lparr>cu_id = i, cu_title = i, cu_description = None, cu_thumbnail_url = None, cu_ratio = None,
      cu_project_type = None, cu_tags = [], cu_modules = [], cu_source_type = source,
      cu_source_reference = None, cu_source_payload = JNull, cu_display_priority = priority,
      cu_is_active = True, cu_starts_at = None, cu_ends_at = None, cu_created_at = None,
      cu_updated_at = Some updated\<rparr>"

definition sample_feed_input :: "CuratedItemInput list \<Rightarrow> AggregationInput" where
  "sample_feed_input curated =
     \<lparr>ai_curated_items = curated, ai_suppressed_source_keys = [], ai_topic_items = [], ai_assignments = [],
      ai_sub_subject_lookup = Map.empty, ai_ai_source_lookup = Map.empty,
      ai_topic_override_lookup = Map.empty, ai_personalization_context = None,
      ai_minimum_distinct_user_count = 2, ai_maximum_items_per_sub_subject = 1,
      ai_eligible_source_types = []\<rparr>"

definition year_timestamps :: timestamps where
  "year_timestamps = \<lparr>ts_rfc3339 = (\<lambda>s. map_option (\<lambda>n. n * 10 ^ 9) (parse_i64 s)), ts_naive = (\<lambda>_. None)\<rparr>"

section \<open>The summary equals its reference\<close>

text \<open>
  The reference: all items in one stable order, of which each sub-subject keeps its first ones.
\<close>

fun top_per_group :: "nat \<Rightarrow> (int \<Rightarrow> nat) \<Rightarrow> DistributionSummaryItem list \<Rightarrow> DistributionSummaryItem list" where
  "top_per_group n used [] = []"
| "top_per_group n used (x # xs) =
     (let g = ds_sub_subject_id x
      in if used g < n then x # top_per_group n (used(g := Suc (used g))) xs
         else top_per_group n used xs)"

lemma total_compare_ts_desc [total_intros]: "total_cmp (compare_ts_desc P key) A"
  unfolding compare_ts_desc_def by (intro total_intros)

lemma total_distribution [total_intros]:
  "total_cmp (compare_distribution_candidates P) A" "total_cmp (compare_distribution P) A"
  unfolding compare_distribution_def compare_distribution_candidates_def by (intro total_intros)+

lemma group_of_top: "group_of (top_per_group n used xs) g = take (n - used g) (group_of xs g)"
  by (induction xs arbitrary: used) (auto simp: group_of_def Let_def take_Cons' Suc_diff_Suc)

lemma set_top: "set (top_per_group n used xs) \<subseteq> set xs"
  by (induction xs arbitrary: used) (auto simp: Let_def split: if_splits)

lemma sorted_top: "sorted_wrt R xs \<Longrightarrow> sorted_wrt R (top_per_group n used xs)"
  by (induction xs arbitrary: used) (auto simp: Let_def dest: subsetD [OF set_top])

lemma group_of_concat:
  assumes "distinct gs" and "\<And>g. set (f g) \<subseteq> {x. ds_sub_subject_id x = g}"
  shows "group_of (concat (map f gs)) g = (if g \<in> set gs then f g else [])"
  using assms(1)
proof (induction gs)
  case Nil
  then show ?case by (simp add: group_of_def)
next
  case (Cons h gs)
  have "filter (\<lambda>i. ds_sub_subject_id i = g) (f h) = (if h = g then f h else [])"
    using assms(2) [of h] by (auto simp: filter_empty_conv filter_id_conv)
  with Cons show ?case by (auto simp: group_of_def)
qed

lemma mset_eq_groups:
  assumes "\<And>g. group_of xs g = group_of ys g"
  shows "mset xs = mset ys"
proof (rule multiset_eqI)
  have count: "count (mset zs) z = count (mset (group_of zs (ds_sub_subject_id z))) z" for zs z
    by (induction zs) (auto simp: group_of_def)
  show "count (mset xs) z = count (mset ys) z" for z
    using assms count [of xs z] count [of ys z] by simp
qed

lemma compare_distribution_group:
  "compare_distribution P x y = Equal \<longleftrightarrow> subject_key x = subject_key y \<and>
     ds_sub_subject_id x = ds_sub_subject_id y \<and> compare_distribution_candidates P x y = Equal"
  by (auto simp: compare_distribution_def then_with_def compare_by_def)

lemma compare_in_group:
  "subject_key x = subject_key y \<Longrightarrow> ds_sub_subject_id x = ds_sub_subject_id y \<Longrightarrow>
     compare_distribution P x y = compare_distribution_candidates P x y"
  by (simp add: compare_distribution_def then_with_def compare_by_def)

lemma segment_group:
  "filter (\<lambda>y. compare_distribution P x y = Equal) xs =
     filter (\<lambda>y. compare_distribution P x y = Equal) (group_of xs (ds_sub_subject_id x))"
  unfolding group_of_def filter_filter by (rule filter_cong) (auto simp: compare_distribution_group)

definition one_subject :: "DistributionSummaryItem list \<Rightarrow> bool" where
  "one_subject items \<longleftrightarrow>
     (\<forall>x\<in>set items. \<forall>y\<in>set items. ds_sub_subject_id x = ds_sub_subject_id y \<longrightarrow> subject_key x = subject_key y)"

lemma stable_group:
  assumes "one_subject items" and S: "stable_sort_of (compare_distribution P) items S"
  shows "stable_sort_of (compare_distribution_candidates P) (group_of items g) (group_of S g)"
proof -
  have set: "set S = set items" by (rule stable_sort_of_set [OF S])
  have same: "compare_distribution P x y = compare_distribution_candidates P x y"
    if "x \<in> set (group_of items g)" "y \<in> set (group_of items g)" for x y
    using that assms(1) by (intro compare_in_group) (auto simp: group_of_def one_subject_def)
  have "sorted_wrt (\<lambda>a b. compare_distribution P a b \<noteq> Greater) (group_of S g)"
    using S by (simp add: stable_sort_of_def group_of_def sorted_wrt_filter)
  then have "sorted_wrt (\<lambda>a b. compare_distribution_candidates P a b \<noteq> Greater) (group_of S g)"
    by (rule sorted_wrt_mono_rel [rotated]) (use same set in \<open>auto simp: group_of_def\<close>)
  moreover have "filter (\<lambda>y. compare_distribution_candidates P x y = Equal) (group_of zs g) =
      filter (\<lambda>y. compare_distribution P x y = Equal) zs"
    if "x \<in> set (group_of items g)" "set zs = set items" for x zs
    unfolding segment_group [of P x zs] using that same
    by (auto simp: group_of_def intro!: filter_cong)
  ultimately show ?thesis
    using S set by (simp add: stable_sort_of_def group_of_def)
qed

lemma group_and_sort_reference:
  assumes "slice_sort sorter" and "one_subject items"
    and "distinct hash_order" "set hash_order = ds_sub_subject_id ` set items"
  shows "group_and_sort_distribution sorter P hash_order items n =
    Some (top_per_group n (\<lambda>_. 0) (sort_by (compare_distribution P) items))"
proof -
  define S where "S = sort_by (compare_distribution P) items"
  define F where "F = concat (map (\<lambda>g. take n (group_of S g)) hash_order)"
  have S: "stable_sort_of (compare_distribution P) items S"
    unfolding S_def by (intro sort_by_stable total_intros)
  have "sorter (compare_distribution_candidates P) (group_of items g) = Some (group_of S g)" for g
    by (rule slice_sort.sorterI [OF assms(1)]) (intro total_intros stable_group assms S)+
  then have groups: "group_and_sort_distribution sorter P hash_order items n = sorter (compare_distribution P) F"
    by (simp add: group_and_sort_distribution_def F_def comp_def)
  have "group_of F g = take n (group_of S g)" for g
  proof -
    have "group_of S g = []" if "g \<notin> set hash_order"
      using that assms(4) stable_sort_of_set [OF S] by (auto simp: group_of_def filter_empty_conv)
    then show ?thesis
      unfolding F_def using assms(3)
      by (subst group_of_concat) (auto simp: group_of_def dest: in_set_takeD)
  qed
  then have same: "group_of (top_per_group n (\<lambda>_. 0) S) g = group_of F g" for g
    by (simp add: group_of_top)
  have "stable_sort_of (compare_distribution P) F (top_per_group n (\<lambda>_. 0) S)"
    unfolding stable_sort_of_def
  proof (intro conjI ballI)
    show "mset (top_per_group n (\<lambda>_. 0) S) = mset F" by (rule mset_eq_groups) (rule same)
    show "sorted_wrt (\<lambda>a b. compare_distribution P a b \<noteq> Greater) (top_per_group n (\<lambda>_. 0) S)"
      using S by (intro sorted_top) (simp add: stable_sort_of_def)
    fix x
    show "filter (\<lambda>y. compare_distribution P x y = Equal) (top_per_group n (\<lambda>_. 0) S) =
        filter (\<lambda>y. compare_distribution P x y = Equal) F"
      by (subst (1 2) segment_group) (simp add: same)
  qed
  then show ?thesis
    unfolding groups S_def [symmetric] by (intro slice_sort.sorterI [OF assms(1)] total_intros)
qed

lemma distribution_one_subject: "one_subject (distribution_items input)"
  by (auto simp: one_subject_def distribution_items_def Let_def List.map_filter_def distribution_item_def
      subject_key_def split: prod.splits)


definition sample_assignment :: "string \<Rightarrow> int \<Rightarrow> int \<Rightarrow> SystemAssignmentInput" where
  "sample_assignment reference sub_subject users =
     \<lparr>sa_source_type = ''ai_generated'', sa_source_reference = reference, sa_subject_id = None,
      sa_sub_subject_id = sub_subject, sa_distinct_user_count = users, sa_latest_distribution_at = None\<rparr>"

definition sample_distribution_input :: AggregationInput where
  "sample_distribution_input =
     (sample_feed_input [])\<lparr>ai_eligible_source_types := [''ai_generated''],
       ai_sub_subject_lookup := (\<lambda>i. Some
         \<lparr>sst_id = i, sst_subject_id = 9, sst_name = ''n'', sst_slug = ''s'', sst_subject = None\<rparr>),
       ai_assignments := [sample_assignment ''a'' 1 3, sample_assignment ''b'' 1 5, sample_assignment ''c'' 2 2,
         sample_assignment ''d'' 2 1]\<rparr>"


section \<open>The personalized feed\<close>

text \<open>
  What the selection is for: an eligible item whose subject is the user's own, or whose sub-subject the
  user has written about.
\<close>

definition matches_user :: "PersonalizationInput \<Rightarrow> FeedItem \<Rightarrow> bool" where
  "matches_user pin item \<longleftrightarrow>
     pz_user_id pin \<noteq> None \<and> is_eligible_system_generated_candidate item \<and>
     ((\<exists>s. pz_primary_subject pin = Some s \<and> fi_subject_id item = Some (si_id s)) \<or>
      (\<exists>r\<in>set (pz_authored_topic_activity pin). fi_sub_subject_id item = Some (ar_sub_subject_id r)))"

definition unselected :: "FeedItem \<Rightarrow> FeedItem" where
  "unselected item = item\<lparr>fi_candidate_selection := candidate_selection_default\<rparr>"

lemma rank_lookup_none: "build_rank_lookup ids i = None \<longleftrightarrow> i \<notin> set ids"
proof -
  have "fst ` set (zip ids [0..<length ids]) = set ids" by (metis length_map map_nth map_fst_zip set_map diff_zero length_upt)
  then show ?thesis by (simp add: build_rank_lookup_def map_of_eq_None_iff)
qed

lemma eligible_ids:
  "is_eligible_system_generated_candidate item \<Longrightarrow> \<exists>i j. fi_sub_subject_id item = Some i \<and> fi_subject_id item = Some j"
  by (auto simp: is_eligible_system_generated_candidate_def split: if_splits)

lemma set_map_filter: "set (List.map_filter f xs) = {y. \<exists>x\<in>set xs. f x = Some y}"
  by (induction xs) (auto simp: List.map_filter_simps split: option.splits)

lemma catalog_lookup_none:
  "build_primary_subject_catalog_lookup items (Some ps) excluded i = None \<longleftrightarrow>
     (\<forall>item\<in>set items. is_eligible_system_generated_candidate item \<longrightarrow> fi_subject_id item = Some ps \<longrightarrow>
        fi_sub_subject_id item = Some i \<longrightarrow> i \<in> set excluded)"
  by (auto simp: build_primary_subject_catalog_lookup_def rank_lookup_none set_map_filter)
    (metis option.simps(5))

lemma select_candidate_selected:
  "cx_selected (select_candidate ps preferred catalog secondary item) \<longleftrightarrow>
     is_eligible_system_generated_candidate item \<and>
     (\<exists>i. fi_sub_subject_id item = Some i \<and>
        (preferred i \<noteq> None \<or> ps \<noteq> None \<and> fi_subject_id item = ps \<and> catalog i \<noteq> None \<or> secondary i \<noteq> None))"
  by (auto simp: select_candidate_def Let_def split: option.splits if_splits)

lemma listed_selected:
  assumes "item \<in> set items"
  shows "cx_selected (select_candidate ps (build_rank_lookup pref)
      (build_primary_subject_catalog_lookup items ps (pref @ sec)) (build_rank_lookup sec) item) \<longleftrightarrow>
    is_eligible_system_generated_candidate item \<and>
    ((\<exists>p. ps = Some p \<and> fi_subject_id item = Some p) \<or> (\<exists>i\<in>set (pref @ sec). fi_sub_subject_id item = Some i))"
proof (cases "is_eligible_system_generated_candidate item")
  case True
  then obtain i j where "fi_sub_subject_id item = Some i" "fi_subject_id item = Some j"
    using eligible_ids by blast
  with True assms show ?thesis
    unfolding select_candidate_selected rank_lookup_none
    by (cases ps) (auto simp: catalog_lookup_none)
qed (simp add: select_candidate_selected)

lemma annotated_selected:
  assumes "pz_user_id pin = Some u" and "item \<in> set items"
  defines "internal \<equiv> pc_internal (resolve_personalization pin)"
  shows "cx_selected (select_candidate (pn_primary_subject_id internal)
      (build_rank_lookup (pn_preferred_ids internal))
      (build_primary_subject_catalog_lookup items (pn_primary_subject_id internal)
         (pn_preferred_ids internal @ pn_secondary_ids internal))
      (build_rank_lookup (pn_secondary_ids internal)) item) \<longleftrightarrow> matches_user pin item"
proof -
  have "set (pn_preferred_ids internal @ pn_secondary_ids internal) =
      ar_sub_subject_id ` set (pz_authored_topic_activity pin)"
    "pn_primary_subject_id internal = map_option si_id (pz_primary_subject pin)"
    using assms(1)
    by (auto simp: internal_def resolve_personalization_def authenticated_context_def Let_def
        preferred_rows_def secondary_rows_def split: option.splits)
  then show ?thesis
    unfolding listed_selected [OF assms(2)] using assms(1) by (auto simp: matches_user_def)
qed

lemma unselected_update: "unselected (i\<lparr>fi_candidate_selection := c\<rparr>) = unselected i"
  by (simp add: unselected_def)

lemma unselected_selected:
  assumes "\<And>i. i \<in> set xs \<Longrightarrow> cx_selected (f i) \<longleftrightarrow> Q i" "\<And>i. i \<in> set xs \<Longrightarrow> unselected i = i"
  shows "map unselected (filter (\<lambda>i. cx_selected (fi_candidate_selection i))
    (map (\<lambda>i. i\<lparr>fi_candidate_selection := f i\<rparr>) xs)) = filter Q xs"
proof -
  have "filter (\<lambda>i. cx_selected (fi_candidate_selection (i\<lparr>fi_candidate_selection := f i\<rparr>))) xs = filter Q xs"
    by (rule filter_cong) (simp_all add: assms(1))
  moreover have "map (\<lambda>i. unselected (i\<lparr>fi_candidate_selection := f i\<rparr>)) (filter Q xs) = filter Q xs"
    by (rule map_idI) (simp only: unselected_update set_filter mem_Collect_eq assms(2))
  ultimately show ?thesis by (simp only: filter_map map_map comp_def)
qed

lemma selection_outcome:
  assumes sel: "select_system_generated_candidates sorter P items input = Some (selected, summary)"
    and ctx: "ai_personalization_context input = Some (resolve_personalization pin)"
    and fresh: "\<And>i. i \<in> set items \<Longrightarrow> unselected i = i"
  shows "if filter (matches_user pin) items = [] then selected = items \<and> summary = empty_personalization_summary
    else map unselected selected = filter (matches_user pin) items \<and> ps_applied summary \<and>
      ps_selected_count summary = Some (length selected) \<and>
      ps_filtered_out_count summary = Some (length items - length selected)"
proof (cases "pn_signals_available (pc_internal (resolve_personalization pin))")
  case False
  then have "filter (matches_user pin) items = []"
    by (auto simp: resolve_personalization_def authenticated_context_def Let_def matches_user_def
        filter_empty_conv split: option.splits)
  with False sel ctx show ?thesis
    by (auto simp: select_system_generated_candidates_def split: if_splits)
next
  case True
  then obtain u where u: "pz_user_id pin = Some u"
    by (auto simp: resolve_personalization_def guest_context_def split: option.splits)
  define chosen where "chosen = filter (\<lambda>i. cx_selected (fi_candidate_selection i))
    (annotate_items items (resolve_personalization pin))"
  have chosen: "map unselected chosen = filter (matches_user pin) items"
    unfolding chosen_def annotate_items_def Let_def
    by (rule unselected_selected) (simp_all only: annotated_selected [OF u] fresh)
  then have empty: "chosen = [] \<longleftrightarrow> filter (matches_user pin) items = []" by (metis map_is_Nil_conv)
  have len: "length (annotate_items items c) = length items" for c
    by (simp add: annotate_items_def Let_def)
  from sel ctx True have
    "if items = [] \<or> chosen = [] then selected = items \<and> summary = empty_personalization_summary
     else selected = chosen \<and> build_personalization_summary sorter P
        (annotate_items items (resolve_personalization pin)) chosen (resolve_personalization pin) = Some summary"
    by (auto simp: select_system_generated_candidates_def chosen_def Let_def split: if_splits)
  then show ?thesis
    using chosen empty by (auto simp: build_personalization_summary_def Let_def len split: if_splits)
qed

lemma system_items_fresh: "i \<in> set (system_items input) \<Longrightarrow> unselected i = i"
  by (auto simp: system_items_def unselected_def normalize_curated_item_def normalize_topic_item_def)


definition sample_user :: PersonalizationInput where
  "sample_user =
     \<lparr>pz_user_id = Some 4, pz_primary_subject = Some \<lparr>si_id = 9, si_name = ''IPA'', si_slug = ''ipa'', si_source = None\<rparr>,
      pz_authored_topic_activity = []\<rparr>"

definition sample_user_input :: AggregationInput where
  "sample_user_input =
     (sample_feed_input
        [sample_curated ''other'' ''ai_generated'' 0 ''2026'',
         (sample_curated ''own'' ''ai_generated'' 0 ''2025'')
           \<lparr>cu_source_payload := JObj [(''sub_subject_id'', JInt 3), (''subject_id'', JInt 9)]\<rparr>])
     \<lparr>ai_personalization_context := Some (resolve_personalization sample_user)\<rparr>"

section \<open>The order of the feed\<close>

definition compare_rest :: "timestamps \<Rightarrow> FeedItem \<Rightarrow> FeedItem \<Rightarrow> ordering" where
  "compare_rest P =
     then_with (\<lambda>x y. compare_by fi_display_priority y x)
       (then_with (compare_f64_desc fi_score)
         (then_with (compare_ts_desc P fi_created_at) (compare_str fi_id)))"

lemma total_selection [total_intros]: "total_cmp (compare_selection P) A"
  unfolding compare_selection_def by (intro total_intros)

lemma total_rest:
  assumes "\<And>a. a \<in> A \<Longrightarrow> fi_score a \<noteq> F_Nan"
  shows "total_cmp (compare_rest P) A"
  unfolding compare_rest_def by (intro total_intros assms)

lemma compare_items_rest:
  "compare_items P a b =
     (if fi_source_type a \<noteq> SOURCE_ADMIN_UPLOAD \<and> fi_source_type b \<noteq> SOURCE_ADMIN_UPLOAD
      then then_with (compare_selection P) (compare_rest P) a b else compare_rest P a b)"
  by (simp add: compare_items_def compare_rest_def then_with_def Let_def)

lemma total_cmp_cong:
  assumes "total_cmp c A" and "\<And>a b. a \<in> A \<Longrightarrow> b \<in> A \<Longrightarrow> d a b = c a b"
  shows "total_cmp d A"
proof (rule total_cmpI)
  fix x y z assume A: "x \<in> A" "y \<in> A" "z \<in> A" and "d x y \<noteq> Greater" "d y z \<noteq> Greater"
  then show "d x z \<noteq> Greater"
    using total_cmp_trans [OF assms(1) A] assms(2) [OF A(1,2)] assms(2) [OF A(2,3)] assms(2) [OF A(1,3)] by simp
next
  fix x y assume A: "x \<in> A" "y \<in> A"
  show "d x y = Less \<longleftrightarrow> d y x = Greater"
    unfolding assms(2) [OF A] assms(2) [OF A(2,1)] using assms(1) A unfolding total_cmp_def by blast
next
  fix x assume "x \<in> A"
  with total_cmp_refl [OF assms(1)] assms(2) [of x x] show "d x x = Equal" by simp
qed

lemma total_compare_items:
  assumes "\<And>a. a \<in> A \<Longrightarrow> fi_score a \<noteq> F_Nan"
    and "(\<forall>a\<in>A. fi_source_type a = SOURCE_ADMIN_UPLOAD) \<or> (\<forall>a\<in>A. fi_source_type a \<noteq> SOURCE_ADMIN_UPLOAD)"
  shows "total_cmp (compare_items P) A"
  using assms(2)
proof
  assume "\<forall>a\<in>A. fi_source_type a = SOURCE_ADMIN_UPLOAD"
  then show ?thesis
    by (intro total_cmp_cong [OF total_rest [OF assms(1)]]) (simp_all add: compare_items_rest)
next
  assume "\<forall>a\<in>A. fi_source_type a \<noteq> SOURCE_ADMIN_UPLOAD"
  then show ?thesis
    by (intro total_cmp_cong [OF total_then_with [OF total_selection total_rest [OF assms(1)]]])
      (simp_all add: compare_items_rest)
qed

lemma selection_returns:
  assumes "slice_sort sorter"
  shows "\<exists>selected summary. select_system_generated_candidates sorter P items input = Some (selected, summary) \<and>
    (\<forall>i\<in>set selected. \<exists>j\<in>set items. fi_score i = fi_score j \<and> fi_source_type i = fi_source_type j)"
proof -
  have "\<exists>s. build_personalization_summary sorter P all sel ctx = Some s" for all sel ctx
    using slice_sort.total_sorted [OF assms total_selection, of P sel]
    by (auto simp: build_personalization_summary_def Let_def)
  moreover have "\<exists>j\<in>set items. fi_score i = fi_score j \<and> fi_source_type i = fi_source_type j"
    if "i \<in> set (annotate_items items ctx)" for i ctx
    using that by (auto simp: annotate_items_def Let_def)
  ultimately show ?thesis
    by (fastforce simp: select_system_generated_candidates_def Let_def split: option.splits)
qed

lemma source_types:
  "i \<in> set (system_items input) \<Longrightarrow> fi_source_type i \<noteq> SOURCE_ADMIN_UPLOAD"
  "fi_source_type (normalize_curated_item c) = SOURCE_ADMIN_UPLOAD \<longleftrightarrow> is_admin c"
  by (auto simp: system_items_def normalize_curated_item_def normalize_topic_item_def is_admin_def
      SOURCE_ADMIN_UPLOAD_def SOURCE_SYSTEM_TOPIC_def)

text \<open>
  A feed without admin items, or with nothing else, is returned and sorted: no item comes before one
  that is to precede it. Scores are JSON numbers and therefore not NaN.\<close>

theorem feed_sorted:
  assumes "slice_sort sorter"
    and "\<And>c. c \<in> set (ai_curated_items input) \<Longrightarrow> fi_score (normalize_curated_item c) \<noteq> F_Nan"
    and "filter is_admin (ai_curated_items input) = [] \<or> system_items input = []"
  shows "\<exists>feed. build_feed_snapshot sorter P input = Some feed \<and>
    sorted_wrt (\<lambda>a b. compare_items P a b \<noteq> Greater) (fs_items feed)"
proof -
  define admin where "admin = map normalize_curated_item (filter is_admin (ai_curated_items input))"
  obtain selected summary where
    sel: "select_system_generated_candidates sorter P (system_items input) input = Some (selected, summary)"
    and from_system: "\<And>i. i \<in> set selected \<Longrightarrow>
      \<exists>j\<in>set (system_items input). fi_score i = fi_score j \<and> fi_source_type i = fi_source_type j"
    using selection_returns [OF assms(1)] by blast
  have scores: "fi_score i \<noteq> F_Nan" if "i \<in> set (system_items input) \<union> set admin" for i
    using that assms(2) by (auto simp: system_items_def admin_def normalize_topic_item_def)
  have "total_cmp (compare_items P) (set (admin @ selected))"
  proof (rule total_compare_items)
    show "fi_score a \<noteq> F_Nan" if "a \<in> set (admin @ selected)" for a
      using that scores from_system [of a] by (cases "a \<in> set admin") force+
    have admin: "fi_source_type a = SOURCE_ADMIN_UPLOAD" if "a \<in> set admin" for a
      using that source_types(2) by (auto simp: admin_def)
    have system: "fi_source_type a \<noteq> SOURCE_ADMIN_UPLOAD" if "a \<in> set selected" for a
      using from_system [OF that] source_types(1) by metis
    from assms(3) show "(\<forall>a\<in>set (admin @ selected). fi_source_type a = SOURCE_ADMIN_UPLOAD) \<or>
        (\<forall>a\<in>set (admin @ selected). fi_source_type a \<noteq> SOURCE_ADMIN_UPLOAD)"
    proof
      assume "filter is_admin (ai_curated_items input) = []"
      then have "admin = []" by (simp add: admin_def)
      with system show ?thesis by simp
    next
      assume "system_items input = []"
      then have "selected = []" using from_system by (cases selected) auto
      with admin show ?thesis by simp
    qed
  qed
  from slice_sort.total_sorted [OF assms(1) this] sel show ?thesis
    by (auto simp: build_feed_snapshot_def admin_def [symmetric] stable_sort_of_def Let_def)
qed

theorem feed_sorted_witness:
  "\<exists>feed. build_feed_snapshot (\<lambda>c xs. Some (sort_by c xs)) year_timestamps
      (sample_feed_input [sample_curated ''older'' ''ai_generated'' 10 ''2025'']) = Some feed \<and>
    sorted_wrt (\<lambda>a b. compare_items year_timestamps a b \<noteq> Greater) (fs_items feed)"
  by (rule feed_sorted [OF insertion.slice_sort_axioms])
    (simp_all add: sample_feed_input_def sample_curated_def normalize_curated_item_def is_admin_def
      SOURCE_ADMIN_UPLOAD_def jget_def)


section \<open>The mixed feed\<close>

text \<open>
  Admin items and items of the system are compared by priority, two items of the system by selection
  and time first: with both in a feed the comparison is not an order. The same three items, a recent one
  of priority zero and an older one of priority ten from the system and one of priority five from an
  admin, come out in another order when the database returns the rows in another order. In the first
  feed the item of priority five precedes that of priority ten.\<close>

theorem feed_depends_on_row_order:
  assumes "slice_sort sorter"
  shows "let recent = sample_curated ''recent'' ''ai_generated'' 0 ''2026'';
      older = sample_curated ''older'' ''ai_generated'' 10 ''2025'';
      admin = sample_curated ''admin'' ''admin_upload'' 5 ''2024'';
      ids = (\<lambda>rows. map_option (map fi_id \<circ> fs_items)
               (build_feed_snapshot sorter year_timestamps (sample_feed_input rows)))
    in ids [admin, recent, older] = Some [''admin'', ''recent'', ''older''] \<and>
       ids [admin, older, recent] = Some [''older'', ''admin'', ''recent'']"
proof -
  have ts: "timestamp_value year_timestamps (Some ''2026'') = 2026"
    "timestamp_value year_timestamps (Some ''2025'') = 2025"
    "timestamp_value year_timestamps (Some ''2024'') = 2024"
    by code_simp+
  let ?A = "normalize_curated_item (sample_curated ''recent'' ''ai_generated'' 0 ''2026'')"
  let ?B = "normalize_curated_item (sample_curated ''older'' ''ai_generated'' 10 ''2025'')"
  let ?C = "normalize_curated_item (sample_curated ''admin'' ''admin_upload'' 5 ''2024'')"
  note cmp_defs = compare_items_rest compare_selection_def compare_rest_def then_with_def compare_by_def
    compare_ts_desc_def normalize_curated_item_def sample_curated_def SOURCE_ADMIN_UPLOAD_def ts
  have cmp: "compare_items year_timestamps ?A ?C = Greater" "compare_items year_timestamps ?B ?A = Greater"
    "compare_items year_timestamps ?B ?C = Less"
    by (simp_all add: cmp_defs)
  have "sort_by (compare_items year_timestamps) [?C, ?A, ?B] = [?C, ?A, ?B]"
    "sort_by (compare_items year_timestamps) [?C, ?B, ?A] = [?B, ?C, ?A]"
    by (simp_all add: sort_by_def cmp)
  then have sorts: "sorter (compare_items year_timestamps) [?C, ?A, ?B] = Some [?C, ?A, ?B]"
    "sorter (compare_items year_timestamps) [?C, ?B, ?A] = Some [?B, ?C, ?A]"
    using slice_sort.small_inserted [OF assms] by simp_all
  have "fi_id (normalize_curated_item (sample_curated i source p u)) = i" for i source p u
    by (simp add: normalize_curated_item_def sample_curated_def)
  moreover have "is_admin (sample_curated i source p u) \<longleftrightarrow> source = ''admin_upload''" for i source p u
    by (simp add: is_admin_def sample_curated_def SOURCE_ADMIN_UPLOAD_def)
  ultimately show ?thesis
    by (simp add: build_feed_snapshot_def sample_feed_input_def system_items_def
        select_system_generated_candidates_def Let_def sorts)
qed

theorem feed_depends_on_row_order_witness:
  "map_option (map fi_id \<circ> fs_items)
     (build_feed_snapshot (\<lambda>c xs. Some (sort_by c xs)) year_timestamps
       (sample_feed_input [sample_curated ''admin'' ''admin_upload'' 5 ''2024'',
          sample_curated ''older'' ''ai_generated'' 10 ''2025'',
          sample_curated ''recent'' ''ai_generated'' 0 ''2026''])) = Some [''older'', ''admin'', ''recent'']"
  using feed_depends_on_row_order [OF insertion.slice_sort_axioms] by (simp add: Let_def)

end
