(* ===== verification/Taxonomy.thy ===== *)
theory Taxonomy
  imports Clarification Slice_Sort
begin

text \<open>
  The inference of subject and sub-subject from a prompt, \<open>src/src/recommendation/taxonomy.rs\<close>.

  The rows of \<open>subjects.json\<close> are an argument, as are the regular expressions \<open>R\<close>, the upper case \<open>up\<close>
  of text that is not ASCII and the sorting function, whose \<open>None\<close> is a panic.
\<close>

section \<open>Types\<close>

record text_tools = regex +
  rx_replace_all :: "string \<Rightarrow> string \<Rightarrow> string \<Rightarrow> string"

record TaxonomyEntry =
  te_catalog_index :: nat
  te_jenjang :: "string option"
  te_subject_name :: string
  te_subject_slug :: string
  te_kelas :: "int option"
  te_semester :: "int option"
  te_bab :: "int option"
  te_sub_subject_name :: string
  te_sub_subject_slug :: string
  te_description :: string
  te_is_active :: bool
  te_content_structure :: string
  te_structure_items :: "string list"
  te_normalized_subject :: string
  te_normalized_sub_subject :: string

record PromptContext =
  px_jenjang :: "string option"
  px_kelas :: "int option"
  px_semester :: "int option"
  px_bab :: "int option"

record MatchSignal =
  sg_subject_phrase_match :: bool
  sg_sub_subject_phrase_match :: bool
  sg_subject_overlap :: nat
  sg_sub_subject_overlap :: nat
  sg_description_overlap :: nat
  sg_structure_overlap :: nat
  sg_jenjang_match :: "bool option"
  sg_kelas_match :: "bool option"
  sg_semester_match :: "bool option"
  sg_bab_match :: "bool option"

record CandidateScore =
  cn_entry :: TaxonomyEntry
  cn_raw_score :: f64
  cn_normalized_score :: f64
  cn_signal :: MatchSignal

record ConfidenceInfo =
  cf_score :: f64
  cf_label :: string
  cf_sub_subject_attached :: bool

record BestMatch =
  bm_jenjang :: "string option"
  bm_kelas :: "int option"
  bm_semester :: "int option"
  bm_bab :: "int option"
  bm_subject_name :: string
  bm_subject_slug :: string
  bm_subject_id :: "int option"
  bm_sub_subject_name :: "string option"
  bm_sub_subject_slug :: "string option"
  bm_sub_subject_id :: "int option"
  bm_description :: string
  bm_content_structure :: string
  bm_structure_items :: "string list"
  bm_matched_signals :: "string list"

record CandidateSummary =
  cm_subject_name :: string
  cm_subject_slug :: string
  cm_sub_subject_name :: string
  cm_sub_subject_slug :: string
  cm_jenjang :: "string option"
  cm_kelas :: "int option"
  cm_score :: f64
  cm_label :: string

record TaxonomyInferenceResult =
  tr_schema_version :: string
  tr_source :: string
  tr_prompt_context :: PromptContext
  tr_confidence :: ConfidenceInfo
  tr_best_match :: BestMatch
  tr_candidate_matches :: "CandidateSummary list"

definition STOPWORDS :: "string list" where
  "STOPWORDS =
     [''agar'', ''ajar'', ''aku'', ''analisis'', ''buat'', ''buatkan'', ''contoh'', ''dan'',
      ''dengan'', ''di'', ''dokumen'', ''file'', ''guru'', ''handout'', ''kelas'', ''kuis'',
      ''latihan'', ''lembar'', ''materi'', ''modul'', ''pada'', ''pdf'', ''pelajaran'',
      ''pembelajaran'', ''ppt'', ''pptx'', ''ringkas'', ''saya'', ''semester'', ''sebuah'',
      ''slide'', ''siswa'', ''soal'', ''tentang'', ''untuk'', ''yang'']"

definition SCORE_NORMALIZER :: f64 where
  "SCORE_NORMALIZER = f64_lit 24"

definition MINIMUM_CONFIDENCE_SCORE :: f64 where
  "MINIMUM_CONFIDENCE_SCORE = f64_lit (25 / 100)"

section \<open>Text\<close>

definition normalize_search_text :: "externals \<Rightarrow> 'z text_tools_scheme \<Rightarrow> string \<Rightarrow> string" where
  "normalize_search_text E R value =
     rx_replace_all R ([CHR 0x5C] @ ''s+'')
       (trim (rx_replace_all R (''[^'' @ [CHR 0x5C] @ ''p{L}'' @ [CHR 0x5C] @ ''p{N}]+'') (lowered E value) '' ''))
       '' ''"

definition tokenize_search_text :: "externals \<Rightarrow> 'z text_tools_scheme \<Rightarrow> string \<Rightarrow> string list" where
  "tokenize_search_text E R value =
     (let normalized = normalize_search_text E R value
      in if normalized = [] then [] else filter (\<lambda>t. t \<noteq> []) (split_whitespace normalized))"

definition filtered_tokens :: "externals \<Rightarrow> 'z text_tools_scheme \<Rightarrow> string \<Rightarrow> string list" where
  "filtered_tokens E R text =
     filter (\<lambda>token. \<not> (token = [] \<or> list_all is_digit token) \<and> token \<notin> set STOPWORDS \<and>
         2 \<le> length (chars token))
       (tokenize_search_text E R text)"

definition text_value :: "externals \<Rightarrow> json option \<Rightarrow> string" where
  "text_value E v =
     (case v of None \<Rightarrow> [] | Some (JStr s) \<Rightarrow> s | Some w \<Rightarrow> x_json_to_string E w)"

definition normalize_text_value :: "externals \<Rightarrow> json option \<Rightarrow> string" where
  "normalize_text_value E v =
     (case v of
        Some (JStr s) \<Rightarrow> trim s
      | Some (JArr arr) \<Rightarrow> join '', '' (filter (\<lambda>t. t \<noteq> []) (map (\<lambda>w. text_value E (Some w)) arr))
      | Some (JInt n) \<Rightarrow> x_json_to_string E (JInt n)
      | Some (JFloat w) \<Rightarrow> x_json_to_string E (JFloat w)
      | Some (JBool b) \<Rightarrow> if b then ''true'' else ''false''
      | _ \<Rightarrow> [])"

fun split_char :: "char \<Rightarrow> string \<Rightarrow> string list" where
  "split_char d [] = [[]]"
| "split_char d (c # cs) =
     (if c = d then [] # split_char d cs
      else case split_char d cs of [] \<Rightarrow> [[c]] | p # ps \<Rightarrow> (c # p) # ps)"

definition structure_items :: "'z text_tools_scheme \<Rightarrow> string \<Rightarrow> string list" where
  "structure_items R content_structure =
     (if content_structure = [] then []
      else filter (\<lambda>p. p \<noteq> [])
        (map (\<lambda>p. rx_replace_all R ([CHR 0x5C] @ ''s+'') (trim p) '' '')
          (split_char (CHR '','')
            (rx_replace_all R ([CHR 0x5C] @ ''s+(dan|and)'' @ [CHR 0x5C] @ ''s+'') content_structure '', ''))))"

definition trim_matches :: "char \<Rightarrow> string \<Rightarrow> string" where
  "trim_matches d s = rev (dropWhile (\<lambda>c. c = d) (rev (dropWhile (\<lambda>c. c = d) s)))"

definition slugify :: "externals \<Rightarrow> 'z text_tools_scheme \<Rightarrow> string \<Rightarrow> string" where
  "slugify E R value = lowered E (trim_matches (CHR ''-'') (rx_replace_all R ''[^a-zA-Z0-9]+'' value ''-''))"

definition normalize_entry ::
  "externals \<Rightarrow> 'z text_tools_scheme \<Rightarrow> (string \<Rightarrow> string) \<Rightarrow> json \<Rightarrow> nat \<Rightarrow> TaxonomyEntry option" where
  "normalize_entry E R up row index =
     Option.bind (Option.bind (jget ''subject'' row) as_str) (\<lambda>subject.
     Option.bind (Option.bind (jget ''sub_subject'' row) as_str) (\<lambda>sub_subject.
       let subject_name = trim subject; sub_subject_name = trim sub_subject;
           raw_structure = (case alt (jget ''Structure of content'' row) (jget ''structure_of_content'' row) of
               None \<Rightarrow> [] | Some v \<Rightarrow> text_value E (Some v))
       in if subject_name = [] \<or> sub_subject_name = [] then None
          else Some
            \<lparr>te_catalog_index = index + 1,
             te_jenjang = (case Option.bind (jget ''jenjang'' row) as_str of
                None \<Rightarrow> None
              | Some s \<Rightarrow> if trim (upper up s) = [] then None else Some (trim (upper up s))),
             te_subject_name = subject_name,
             te_subject_slug = slugify E R (str_or subject_name (Option.bind (jget ''subject_slug'' row) as_str)),
             te_kelas = Option.bind (jget ''kelas'' row) as_i64,
             te_semester = Option.bind (jget ''semester'' row) as_i64,
             te_bab = Option.bind (jget ''bab'' row) as_i64,
             te_sub_subject_name = sub_subject_name,
             te_sub_subject_slug =
               slugify E R (str_or sub_subject_name (Option.bind (jget ''sub_subject_slug'' row) as_str)),
             te_description =
               normalize_text_value E (alt (jget ''deskripsi_singkat'' row) (jget ''description'' row)),
             te_is_active = (case Option.bind (jget ''is_active'' row) as_bool of Some b \<Rightarrow> b | None \<Rightarrow> True),
             te_content_structure = normalize_text_value E (Some (JStr raw_structure)),
             te_structure_items = structure_items R raw_structure,
             te_normalized_subject = normalize_search_text E R subject_name,
             te_normalized_sub_subject = normalize_search_text E R sub_subject_name\<rparr>))"

definition entries ::
  "externals \<Rightarrow> 'z text_tools_scheme \<Rightarrow> (string \<Rightarrow> string) \<Rightarrow> json list \<Rightarrow> TaxonomyEntry list" where
  "entries E R up rows = List.map_filter (\<lambda>(row, idx). normalize_entry E R up row idx) (zip rows [0..<length rows])"

section \<open>Context of the prompt\<close>

definition contains_word :: "'z text_tools_scheme \<Rightarrow> string \<Rightarrow> string \<Rightarrow> bool" where
  "contains_word R text word = rx_is_match R (word_pattern word) text"

definition detect_jenjang :: "externals \<Rightarrow> 'z text_tools_scheme \<Rightarrow> string \<Rightarrow> string option" where
  "detect_jenjang E R text =
     (let normalized = normalize_search_text E R text
      in if contains_word R normalized ''smk'' \<or> contains normalized ''sekolah menengah kejuruan'' then Some ''SMK''
         else if contains_word R normalized ''sma'' \<or> contains normalized ''sekolah menengah atas'' then Some ''SMA''
         else if contains_word R normalized ''smp'' \<or> contains normalized ''sekolah menengah pertama'' then Some ''SMP''
         else if contains_word R normalized ''sd'' \<or> contains normalized ''sekolah dasar'' then Some ''SD''
         else None)"

definition roman_to_int :: "(string \<Rightarrow> string) \<Rightarrow> string \<Rightarrow> int option" where
  "roman_to_int up token =
     map_of [(''I'', 1), (''II'', 2), (''III'', 3), (''IV'', 4), (''V'', 5), (''VI'', 6), (''VII'', 7),
             (''VIII'', 8), (''IX'', 9), (''X'', 10), (''XI'', 11), (''XII'', 12)] (upper up token)"

definition class_pattern :: string where
  "class_pattern =
     ''(?i)'' @ [CHR 0x5C] @ ''b(?:kelas|grade)'' @ [CHR 0x5C] @
     ''s+([0-9]{1,2}|xii|xi|ix|viii|vii|vi|x|v|iv|iii|ii|i)'' @ [CHR 0x5C] @ ''b''"

definition detect_class_number ::
  "externals \<Rightarrow> 'z text_tools_scheme \<Rightarrow> (string \<Rightarrow> string) \<Rightarrow> string \<Rightarrow> int option" where
  "detect_class_number E R up text =
     (case rx_group1 R class_pattern text of
        None \<Rightarrow> None
      | Some t \<Rightarrow>
          (let token = lowered E t
           in case parse_i64 token of Some n \<Rightarrow> Some n | None \<Rightarrow> roman_to_int up token))"

definition detect_number_by_label :: "'z text_tools_scheme \<Rightarrow> string \<Rightarrow> string list \<Rightarrow> int option" where
  "detect_number_by_label R text labels =
     Option.bind (rx_group1 R (''(?i)'' @ [CHR 0x5C] @ ''b(?:'' @ join ''|'' labels @ '')'' @ [CHR 0x5C] @
         ''s+([0-9]{1,2})'' @ [CHR 0x5C] @ ''b'') text) parse_i64"

definition prompt_context ::
  "externals \<Rightarrow> 'z text_tools_scheme \<Rightarrow> (string \<Rightarrow> string) \<Rightarrow> string \<Rightarrow> PromptContext" where
  "prompt_context E R up text =
     \<lparr>px_jenjang = detect_jenjang E R text, px_kelas = detect_class_number E R up text,
      px_semester = detect_number_by_label R text [''semester''],
      px_bab = detect_number_by_label R text [''bab'', ''chapter'']\<rparr>"

section \<open>Scoring\<close>

definition contains_phrase :: "string \<Rightarrow> string \<Rightarrow> bool" where
  "contains_phrase haystack needle \<longleftrightarrow>
     (let h = trim haystack; n = trim needle
      in h \<noteq> [] \<and> n \<noteq> [] \<and> contains ('' '' @ h @ '' '') ('' '' @ n @ '' ''))"

definition sort_dedup :: "string list \<Rightarrow> string list" where
  "sort_dedup xs = remdups_adj (sort_key (map byte) xs)"

definition overlap_count :: "string list \<Rightarrow> string list \<Rightarrow> nat" where
  "overlap_count prompt_tokens candidate_tokens =
     (if prompt_tokens = [] \<or> candidate_tokens = [] then 0
      else length (filter (\<lambda>t. t \<in> set (sort_dedup candidate_tokens)) prompt_tokens))"

definition matches_context :: "externals \<Rightarrow> string option \<Rightarrow> string option \<Rightarrow> bool option" where
  "matches_context E prompt_val entry_val =
     (case (prompt_val, entry_val) of
        (Some p, Some e) \<Rightarrow> if p \<noteq> [] then Some (lowered E p = lowered E e) else None
      | _ \<Rightarrow> None)"

definition matches_context_i64 :: "int option \<Rightarrow> int option \<Rightarrow> bool option" where
  "matches_context_i64 prompt_val entry_val =
     (case (prompt_val, entry_val) of (Some p, Some e) \<Rightarrow> Some (p = e) | _ \<Rightarrow> None)"

definition f64_min :: "f64 \<Rightarrow> f64 \<Rightarrow> f64" where
  "f64_min a b =
     (if a = F_Nan then b else if b = F_Nan then a else if f64_lt b a then b else a)"

definition normalize_score :: "f64 \<Rightarrow> f64" where
  "normalize_score raw_score =
     round4 (f64_min (f64_lit 1) (f64_max (F_Fin False 0) (f64_div raw_score SCORE_NORMALIZER)))"

definition confidence_label :: "f64 \<Rightarrow> string" where
  "confidence_label score =
     (if f64_le (f64_lit (75 / 100)) score then ''high''
      else if f64_le (f64_lit (45 / 100)) score then ''medium'' else ''low'')"

definition match_signal ::
  "externals \<Rightarrow> 'z text_tools_scheme \<Rightarrow> TaxonomyEntry \<Rightarrow> string \<Rightarrow> string list \<Rightarrow> PromptContext \<Rightarrow> MatchSignal" where
  "match_signal E R entry normalized_prompt prompt_tokens ctx =
     (let tokens = filtered_tokens E R;
          structure_tokens = sort_dedup (concat (map tokens (te_structure_items entry)))
      in \<lparr>sg_subject_phrase_match = contains_phrase normalized_prompt (te_normalized_subject entry),
          sg_sub_subject_phrase_match = contains_phrase normalized_prompt (te_normalized_sub_subject entry),
          sg_subject_overlap = overlap_count prompt_tokens (tokens (te_subject_name entry)),
          sg_sub_subject_overlap = overlap_count prompt_tokens (tokens (te_sub_subject_name entry)),
          sg_description_overlap = min 4 (overlap_count prompt_tokens (tokens (te_description entry))),
          sg_structure_overlap = min 3 (overlap_count prompt_tokens structure_tokens),
          sg_jenjang_match = matches_context E (px_jenjang ctx) (te_jenjang entry),
          sg_kelas_match = matches_context_i64 (px_kelas ctx) (te_kelas entry),
          sg_semester_match = matches_context_i64 (px_semester ctx) (te_semester entry),
          sg_bab_match = matches_context_i64 (px_bab ctx) (te_bab entry)\<rparr>)"

definition match_weight :: "bool option \<Rightarrow> rat \<Rightarrow> rat \<Rightarrow> f64" where
  "match_weight m hit miss =
     (case m of Some True \<Rightarrow> f64_lit hit | Some False \<Rightarrow> f64_neg (f64_lit miss) | None \<Rightarrow> F_Fin False 0)"

definition times :: "nat \<Rightarrow> rat \<Rightarrow> f64" where
  "times n weight = f64_mul (f64_of_int (int n)) (f64_lit weight)"

definition raw_score_of :: "PromptContext \<Rightarrow> MatchSignal \<Rightarrow> f64" where
  "raw_score_of ctx s =
     (let add = (\<lambda>x acc. f64_add acc x);
          total = fold add
            ((if sg_subject_phrase_match s then [f64_lit 7] else []) @
             (if sg_sub_subject_phrase_match s then [f64_lit 12] else []) @
             [times (sg_subject_overlap s) (15 / 10), times (sg_sub_subject_overlap s) (275 / 100),
              times (sg_description_overlap s) (75 / 100), times (sg_structure_overlap s) (35 / 100),
              match_weight (sg_jenjang_match s) (45 / 10) 6, match_weight (sg_kelas_match s) (55 / 10) 7,
              match_weight (sg_semester_match s) (15 / 10) 1, match_weight (sg_bab_match s) (15 / 10) (75 / 100)] @
             (if px_kelas ctx \<noteq> None \<and> sg_kelas_match s = Some True \<and> sg_subject_phrase_match s
              then [f64_lit (15 / 10)] else []) @
             (if px_jenjang ctx \<noteq> None \<and> sg_jenjang_match s = Some True \<and> 0 < sg_subject_overlap s
              then [f64_lit 1] else []))
            (F_Fin False 0)
      in f64_max (F_Fin False 0) (round4 total))"

definition score_entry ::
  "externals \<Rightarrow> 'z text_tools_scheme \<Rightarrow> TaxonomyEntry \<Rightarrow> string \<Rightarrow> string list \<Rightarrow> PromptContext \<Rightarrow> CandidateScore" where
  "score_entry E R entry normalized_prompt prompt_tokens ctx =
     (let s = match_signal E R entry normalized_prompt prompt_tokens ctx; raw = raw_score_of ctx s
      in \<lparr>cn_entry = entry, cn_raw_score = raw, cn_normalized_score = normalize_score raw, cn_signal = s\<rparr>)"

section \<open>Inference\<close>

definition should_attach_sub_subject :: "CandidateScore \<Rightarrow> CandidateScore option \<Rightarrow> bool" where
  "should_attach_sub_subject best runner_up =
     (let s = cn_signal best
      in if sg_sub_subject_phrase_match s then True
         else if 2 \<le> sg_sub_subject_overlap s \<or> 2 \<le> sg_description_overlap s then True
         else if sg_semester_match s = Some True \<or> sg_bab_match s = Some True then True
         else if \<not> sg_subject_phrase_match s \<and> sg_subject_overlap s = 0 then False
         else case runner_up of
           None \<Rightarrow> False
         | Some r \<Rightarrow>
             f64_le (f64_lit (7 / 10)) (cn_normalized_score best) \<and>
             f64_le (f64_lit 3) (f64_sub (cn_raw_score best) (cn_raw_score r)) \<and>
             te_subject_slug (cn_entry best) \<noteq> te_subject_slug (cn_entry r))"

definition matched_signals :: "MatchSignal \<Rightarrow> string list" where
  "matched_signals s =
     (if sg_subject_phrase_match s then [''subject_phrase''] else []) @
     (if sg_sub_subject_phrase_match s then [''sub_subject_phrase''] else []) @
     (if 0 < sg_subject_overlap s then [''subject_tokens''] else []) @
     (if 0 < sg_sub_subject_overlap s then [''sub_subject_tokens''] else []) @
     (if 0 < sg_description_overlap s then [''description_tokens''] else []) @
     (if 0 < sg_structure_overlap s then [''content_structure''] else []) @
     (if sg_jenjang_match s = Some True then [''jenjang''] else []) @
     (if sg_kelas_match s = Some True then [''kelas''] else []) @
     (if sg_semester_match s = Some True then [''semester''] else []) @
     (if sg_bab_match s = Some True then [''bab''] else [])"

definition compare_scores :: "CandidateScore \<Rightarrow> CandidateScore \<Rightarrow> ordering" where
  "compare_scores =
     then_with (compare_f64_desc cn_raw_score) (compare_by (te_catalog_index \<circ> cn_entry))"

definition candidate_summary :: "CandidateScore \<Rightarrow> CandidateSummary" where
  "candidate_summary c =
     \<lparr>cm_subject_name = te_subject_name (cn_entry c), cm_subject_slug = te_subject_slug (cn_entry c),
      cm_sub_subject_name = te_sub_subject_name (cn_entry c),
      cm_sub_subject_slug = te_sub_subject_slug (cn_entry c),
      cm_jenjang = te_jenjang (cn_entry c), cm_kelas = te_kelas (cn_entry c),
      cm_score = cn_normalized_score c, cm_label = confidence_label (cn_normalized_score c)\<rparr>"

definition inference_result :: "PromptContext \<Rightarrow> CandidateScore \<Rightarrow> CandidateScore list \<Rightarrow> TaxonomyInferenceResult" where
  "inference_result ctx best ranked =
     (let entry = cn_entry best;
          best_subject = (case find (\<lambda>c. te_subject_slug (cn_entry c) = te_subject_slug entry) ranked of
              Some c \<Rightarrow> c | None \<Rightarrow> best);
          include = should_attach_sub_subject best (case ranked of _ # r # _ \<Rightarrow> Some r | _ \<Rightarrow> None)
      in \<lparr>tr_schema_version = ''media_prompt_taxonomy_inference.v1'', tr_source = ''subjects.json'',
          tr_prompt_context = ctx,
          tr_confidence =
            \<lparr>cf_score = cn_normalized_score best, cf_label = confidence_label (cn_normalized_score best),
             cf_sub_subject_attached = include\<rparr>,
          tr_best_match =
            \<lparr>bm_jenjang = te_jenjang entry, bm_kelas = te_kelas entry, bm_semester = te_semester entry,
             bm_bab = te_bab entry, bm_subject_name = te_subject_name (cn_entry best_subject),
             bm_subject_slug = te_subject_slug (cn_entry best_subject), bm_subject_id = None,
             bm_sub_subject_name = (if include then Some (te_sub_subject_name entry) else None),
             bm_sub_subject_slug = (if include then Some (te_sub_subject_slug entry) else None),
             bm_sub_subject_id = None, bm_description = te_description entry,
             bm_content_structure = te_content_structure entry,
             bm_structure_items = te_structure_items entry, bm_matched_signals = matched_signals (cn_signal best)\<rparr>,
          tr_candidate_matches = map candidate_summary (take 3 ranked)\<rparr>)"

definition scored_candidates ::
  "externals \<Rightarrow> 'z text_tools_scheme \<Rightarrow> (string \<Rightarrow> string) \<Rightarrow> json list \<Rightarrow> string \<Rightarrow> CandidateScore list" where
  "scored_candidates E R up rows teacher_prompt =
     filter (\<lambda>c. f64_lt (F_Fin False 0) (cn_raw_score c))
       (map (\<lambda>entry. score_entry E R entry (normalize_search_text E R teacher_prompt)
           (filtered_tokens E R teacher_prompt) (prompt_context E R up teacher_prompt))
         (entries E R up rows))"

definition infer ::
  "((CandidateScore \<Rightarrow> CandidateScore \<Rightarrow> ordering) \<Rightarrow> CandidateScore list \<Rightarrow> CandidateScore list option) \<Rightarrow>
     externals \<Rightarrow> 'z text_tools_scheme \<Rightarrow> (string \<Rightarrow> string) \<Rightarrow> json list \<Rightarrow> string \<Rightarrow>
     TaxonomyInferenceResult option option" where
  "infer sorter E R up rows prompt =
     (let teacher_prompt = trim prompt
      in if teacher_prompt = [] then Some None
         else if scored_candidates E R up rows teacher_prompt = [] then Some None
         else map_option (\<lambda>ranked.
             let best = hd ranked
             in if f64_lt (cn_normalized_score best) MINIMUM_CONFIDENCE_SCORE \<and>
                   \<not> sg_subject_phrase_match (cn_signal best) \<and>
                   \<not> sg_sub_subject_phrase_match (cn_signal best)
                then None
                else Some (inference_result (prompt_context E R up teacher_prompt) best ranked))
           (sorter compare_scores (scored_candidates E R up rows teacher_prompt)))"

section \<open>Bounds\<close>

lemma round4_bounded:
  assumes "0 \<le> v" "v \<le> 1"
  obtains w where "round4 (F_Fin False v) = F_Fin False w" "0 \<le> w" "w \<le> 1"
proof -
  have lit: "f64_lit 10000 = F_Fin False 10000"
    by (simp add: f64_lit_def round_f64_eq [where e = 13 and n = "10000 * 2 ^ 39", simplified] two_pow_def)
  have "0 \<le> v * 10000" "v * 10000 \<le> of_nat 10000" using assms by auto
  then obtain m where m: "round_f64 False (v * 10000) = F_Fin False m" "0 \<le> m" "m \<le> of_nat 10000"
    by (rule round_f64_bounded) auto
  define r where "r = (of_int \<lfloor>m + 1 / 2\<rfloor> :: rat)"
  have "\<lfloor>m + 1 / 2\<rfloor> \<le> 10000" using m(3) by linarith
  then have "r \<le> 10000" unfolding r_def by (metis of_int_le_iff of_int_numeral)
  then have "0 \<le> r / 10000" "r / 10000 \<le> of_nat 1" using m(2) by (auto simp: r_def)
  then obtain w where "round_f64 False (r / 10000) = F_Fin False w" "0 \<le> w" "w \<le> of_nat 1"
    by (rule round_f64_bounded) auto
  with m(1) that show ?thesis
    by (simp add: round4_def f64_mul_def f64_div_def f64_round_def lit r_def)
qed

lemma clamp_cases:
  assumes "wf64 y"
  shows "\<exists>v. f64_min (f64_lit 1) (f64_max (F_Fin False 0) y) = F_Fin False v \<and> 0 \<le> v \<and> v \<le> 1"
proof -
  have "f64_lit 1 = F_Fin False 1"
    by (simp add: f64_lit_def round_f64_eq [where e = 0 and n = "2 ^ 52", simplified] two_pow_def)
  moreover have "\<exists>z. f64_max (F_Fin False 0) y = z \<and> (z = F_Inf False \<or> (\<exists>v. z = F_Fin False v \<and> 0 \<le> v))"
    using assms by (cases y) (auto simp: f64_max_def f64_lt_def fin_val_def wf64_def)
  ultimately show ?thesis by (auto simp: f64_min_def f64_lt_def fin_val_def)
qed

text \<open>
  Every score of an entry is between zero and one, and its raw score is a number that is not negative,
  whatever the prompt and the entry.\<close>

theorem taxonomy_score_bounds:
  "\<exists>v. cn_normalized_score (score_entry E R entry prompt tokens ctx) = F_Fin False v \<and> 0 \<le> v \<and> v \<le> 1"
proof -
  define raw where "raw = cn_raw_score (score_entry E R entry prompt tokens ctx)"
  have max: "wf64 y \<Longrightarrow> wf64 (f64_max (F_Fin False 0) y)" for y
    by (auto simp: f64_max_def wf64_def)
  have fold: "wf64 acc \<Longrightarrow> wf64 (fold (\<lambda>x acc. f64_add acc x) xs acc)" for xs acc
    by (induction xs arbitrary: acc) auto
  have "wf64 (F_Fin False 0)" by (simp add: wf64_def)
  then have "wf64 raw"
    by (simp add: raw_def score_entry_def raw_score_of_def Let_def round4_def max fold)
  then have "wf64 (f64_div raw SCORE_NORMALIZER)" by (simp add: SCORE_NORMALIZER_def)
  then obtain v where "f64_min (f64_lit 1) (f64_max (F_Fin False 0) (f64_div raw SCORE_NORMALIZER)) = F_Fin False v"
    "0 \<le> v" "v \<le> 1" using clamp_cases by blast
  then obtain w where "normalize_score raw = F_Fin False w" "0 \<le> w" "w \<le> 1"
    using round4_bounded by (metis normalize_score_def)
  then show ?thesis by (simp add: raw_def score_entry_def Let_def)
qed

section \<open>The best match\<close>

definition below_threshold :: "CandidateScore \<Rightarrow> bool" where
  "below_threshold c \<longleftrightarrow>
     f64_lt (cn_normalized_score c) MINIMUM_CONFIDENCE_SCORE \<and>
     \<not> sg_subject_phrase_match (cn_signal c) \<and> \<not> sg_sub_subject_phrase_match (cn_signal c)"

definition is_best :: "CandidateScore list \<Rightarrow> CandidateScore \<Rightarrow> bool" where
  "is_best cs best \<longleftrightarrow>
     best \<in> set cs \<and>
     (\<forall>c\<in>set cs. \<not> f64_lt (cn_raw_score best) (cn_raw_score c) \<and>
        (f64_eq (cn_raw_score best) (cn_raw_score c) \<longrightarrow>
           te_catalog_index (cn_entry best) \<le> te_catalog_index (cn_entry c)))"

lemma scored_not_nan: "c \<in> set (scored_candidates E R up rows prompt) \<Longrightarrow> cn_raw_score c \<noteq> F_Nan"
  by (auto simp: scored_candidates_def f64_lt_def)

lemma sorter_scores:
  assumes "slice_sort sorter"
  shows "sorter compare_scores (scored_candidates E R up rows prompt) =
    Some (sort_by compare_scores (scored_candidates E R up rows prompt))"
proof -
  have "total_cmp compare_scores (set (scored_candidates E R up rows prompt))"
    unfolding compare_scores_def by (intro total_intros scored_not_nan)
  then show ?thesis by (intro slice_sort.sorterI [OF assms] sort_by_stable)
qed

lemma sorted_head_best:
  assumes "cs \<noteq> []" "\<And>c. c \<in> set cs \<Longrightarrow> cn_raw_score c \<noteq> F_Nan"
  shows "is_best cs (hd (sort_by compare_scores cs))"
proof -
  have total: "total_cmp compare_scores (set cs)"
    unfolding compare_scores_def by (intro total_intros assms(2))
  obtain b bs where bs: "sort_by compare_scores cs = b # bs"
    using assms(1) by (cases "sort_by compare_scores cs") (metis mset_sort_by mset_zero_iff, blast)
  have set: "set cs = insert b (set bs)" by (metis bs list.simps(15) set_sort_by)
  have "compare_scores b c \<noteq> Greater" if "c \<in> set cs" for c
    using sort_by_stable [OF total] that total_cmp_refl [OF total, of b] set
    by (auto simp: stable_sort_of_def bs)
  moreover have "\<not> f64_lt (cn_raw_score b) (cn_raw_score c) \<and>
      (f64_eq (cn_raw_score b) (cn_raw_score c) \<longrightarrow> te_catalog_index (cn_entry b) \<le> te_catalog_index (cn_entry c))"
    if "compare_scores b c \<noteq> Greater" for c
    using that f64_lt_asym
    by (auto simp: compare_scores_def then_with_def compare_f64_desc_def partial_cmp_def compare_by_def f64_eq_def
        split: if_splits)
  ultimately show ?thesis using set by (auto simp: is_best_def bs)
qed


definition plain_tools :: text_tools where
  "plain_tools =
     \<lparr>rx_group1 = (\<lambda>_ _. None), rx_is_match = (\<lambda>_ _. False), rx_replace_all = (\<lambda>_ text _. text)\<rparr>"

definition sample_rows :: "json list" where
  "sample_rows =
     [JObj [(''subject'', JStr ''kimia''), (''sub_subject'', JStr ''atom'')],
      JObj [(''subject'', JStr ''fisika''), (''sub_subject'', JStr ''gaya'')]]"


end
