(* ===== verification/Cache.thy ===== *)
theory Cache
  imports Rate_Limit Slice_Sort Standards
begin

text \<open>
  The cache of model responses, \<open>src/src/cache/mod.rs\<close>, over the table \<open>llm_cache_entries\<close>.

  The state holds the table, keyed by its unique \<open>cache_key\<close>, the advisory locks by session, the time
  of the database and the moment of the last lazy cleanup. Each statement may fail as a schedule of
  faults says. \<open>h\<close> reads the first eight bytes of a Blake2b hash as an \<open>i64\<close>; \<open>sess\<close> is the session of
  the pool that runs a statement; \<open>pick\<close> is the row a \<open>DELETE .. RETURNING\<close> returns first.
\<close>

section \<open>Types\<close>

datatype CacheRoute = Cache_Interpret | Cache_Respond

definition cache_route_str :: "CacheRoute \<Rightarrow> string" where
  "cache_route_str r = (case r of Cache_Interpret \<Rightarrow> ''interpret'' | Cache_Respond \<Rightarrow> ''respond'')"

definition default_ttl_seconds :: "CacheRoute \<Rightarrow> int" where
  "default_ttl_seconds r = (case r of Cache_Interpret \<Rightarrow> 3600 | Cache_Respond \<Rightarrow> 86400)"

record CacheRow =
  cw_id :: int
  cw_route :: string
  cw_request_payload :: json
  cw_response_payload :: json
  cw_created_at :: datetime
  cw_expires_at :: datetime
  cw_hit_count :: int
  cw_last_hit_at :: "datetime option"

record CacheEntry =
  ce_cache_key :: string
  ce_request_payload :: json
  ce_response_payload :: json
  ce_created_at :: datetime
  ce_expires_at :: datetime
  ce_hit_count :: int
  ce_last_hit_at :: "datetime option"

definition cache_entry :: "string \<Rightarrow> CacheRow \<Rightarrow> CacheEntry" where
  "cache_entry k r =
     \<lparr>ce_cache_key = k, ce_request_payload = cw_request_payload r, ce_response_payload = cw_response_payload r,
      ce_created_at = cw_created_at r, ce_expires_at = cw_expires_at r, ce_hit_count = cw_hit_count r,
      ce_last_hit_at = cw_last_hit_at r\<rparr>"

record CleanupResult =
  cl_route :: CacheRoute
  cl_deleted_count :: int

record cache_db =
  cc_rows :: "(string \<times> CacheRow) list"
  cc_next_id :: int
  cc_now :: datetime
  cc_faults :: "sqlx_error option list"
  cc_locks :: "(nat \<times> int) list"
  cc_lazy_cleanup_last :: "int option"

definition cache_statement :: "(cache_db \<Rightarrow> (sqlx_error + 'a) \<times> cache_db) \<Rightarrow> (cache_db, sqlx_error, 'a) act" where
  "cache_statement f s =
     (let s' = s\<lparr>cc_faults := tl (cc_faults s)\<rparr>
      in case cc_faults s of
           Some e # _ \<Rightarrow> (Inl (Error e), s')
         | _ \<Rightarrow> (case f s' of (Inl e, _) \<Rightarrow> (Inl (Error e), s') | (Inr a, t) \<Rightarrow> (Inr a, t)))"

section \<open>Keys\<close>

text \<open>
  Canonical JSON: the members of an object by key, nothing between the tokens. A \<open>Value\<close> has no two
  members with the same key.
\<close>

fun to_canonical_json_string :: "externals \<Rightarrow> json \<Rightarrow> string" where
  "to_canonical_json_string E (JObj m) =
     ''{'' @ join '','' (map (\<lambda>(k, v). x_json_to_string E (JStr k) @ '':'' @ v)
       (sort_key (\<lambda>(k, v). map byte k) (map (\<lambda>(k, v). (k, to_canonical_json_string E v)) m))) @ ''}''"
| "to_canonical_json_string E (JArr xs) = ''['' @ join '','' (map (to_canonical_json_string E) xs) @ '']''"
| "to_canonical_json_string E JNull = ''null''"
| "to_canonical_json_string E v = x_json_to_string E v"

definition build_cache_key ::
  "externals \<Rightarrow> CacheRoute \<Rightarrow> string \<Rightarrow> string \<Rightarrow> string \<Rightarrow> string \<Rightarrow> json \<Rightarrow> string" where
  "build_cache_key E route provider model request_type instruction input_payload =
     x_sha256_hex E (to_canonical_json_string E (JObj
       [(''schema_version'', JStr ''llm_adapter_cache.v1''), (''route'', JStr (cache_route_str route)),
        (''request_type'', JStr request_type), (''provider'', JStr (lowered E provider)),
        (''model'', JStr model), (''instruction'', JStr instruction), (''input'', input_payload)]))"

definition build_lock_id :: "(string \<Rightarrow> int) \<Rightarrow> CacheRoute \<Rightarrow> string \<Rightarrow> int" where
  "build_lock_id h route cache_key =
     (let lock_id = h (cache_route_str route @ '':'' @ trim cache_key)
      in if lock_id \<le> 0 then 1 else lock_id)"

section \<open>Statements\<close>

definition unexpired :: "string \<Rightarrow> CacheRoute \<Rightarrow> cache_db \<Rightarrow> CacheRow option" where
  "unexpired key route s =
     (case map_of (cc_rows s) key of
        Some r \<Rightarrow> if cw_route r = cache_route_str route \<and> cc_now s < cw_expires_at r then Some r else None
      | None \<Rightarrow> None)"

definition delete_expired_by_key :: "string \<Rightarrow> (cache_db, sqlx_error, unit) act" where
  "delete_expired_by_key key =
     cache_statement (\<lambda>s. (Inr (),
       s\<lparr>cc_rows := filter (\<lambda>(k, r). \<not> (k = key \<and> cw_expires_at r \<le> cc_now s)) (cc_rows s)\<rparr>))"

definition touch :: "string \<Rightarrow> CacheRoute \<Rightarrow> (cache_db, sqlx_error, CacheEntry option) act" where
  "touch key route =
     cache_statement (\<lambda>s.
       case unexpired key route s of
         None \<Rightarrow> (Inr None, s)
       | Some r \<Rightarrow>
           if is_i64 (cw_hit_count r + 1) then
             (let r' = r\<lparr>cw_hit_count := cw_hit_count r + 1, cw_last_hit_at := Some (cc_now s)\<rparr>
              in (Inr (Some (cache_entry key r')), s\<lparr>cc_rows := AList.update key r' (cc_rows s)\<rparr>))
           else (Inl (Database_error ''bigint out of range''), s))"

definition upsert ::
  "string \<Rightarrow> CacheRoute \<Rightarrow> json \<Rightarrow> json \<Rightarrow> datetime \<Rightarrow> (cache_db, sqlx_error, CacheEntry) act" where
  "upsert key route request_payload response_payload expires_at =
     cache_statement (\<lambda>s.
       let row = (case map_of (cc_rows s) key of
             None \<Rightarrow>
               \<lparr>cw_id = cc_next_id s, cw_route = cache_route_str route, cw_request_payload = request_payload,
                cw_response_payload = response_payload, cw_created_at = cc_now s,
                cw_expires_at = expires_at, cw_hit_count = 0, cw_last_hit_at = None\<rparr>
           | Some r \<Rightarrow>
               r\<lparr>cw_request_payload := request_payload, cw_response_payload := response_payload,
                 cw_created_at := cc_now s, cw_expires_at := expires_at, cw_hit_count := 0,
                 cw_last_hit_at := None\<rparr>)
       in (Inr (cache_entry key row),
           s\<lparr>cc_rows := AList.update key row (cc_rows s), cc_next_id := cc_next_id s + 1\<rparr>))"

definition expired_rows :: "CacheRoute \<Rightarrow> nat \<Rightarrow> cache_db \<Rightarrow> (string \<times> CacheRow) list" where
  "expired_rows route limit s =
     take limit (sort_key (\<lambda>(k, r). cw_expires_at r)
       (filter (\<lambda>(k, r). cw_route r = cache_route_str route \<and> cw_expires_at r \<le> cc_now s) (cc_rows s)))"

section \<open>The repository\<close>

definition cleanup_expired ::
  "(int list \<Rightarrow> int) \<Rightarrow> CacheRoute \<Rightarrow> int \<Rightarrow> (cache_db, sqlx_error, CleanupResult) act" where
  "cleanup_expired pick route limit =
     and_then (cache_statement (\<lambda>s.
         if limit < 0 then (Inl (Database_error ''LIMIT must not be negative''), s)
         else let gone = expired_rows route (nat limit) s
              in (Inr (if gone = [] then None else Some (pick (map (cw_id \<circ> snd) gone))),
                  s\<lparr>cc_rows := filter (\<lambda>(k, r). cw_id r \<notin> cw_id ` snd ` set gone) (cc_rows s)\<rparr>)))
       (\<lambda>deleted. ok \<lparr>cl_route = route,
          cl_deleted_count = (case deleted of None \<Rightarrow> 0 | Some i \<Rightarrow> i)\<rparr>)"

definition maybe_run_lazy_cleanup ::
  "(int list \<Rightarrow> int) \<Rightarrow> int \<Rightarrow> CacheRoute \<Rightarrow> (cache_db, sqlx_error, unit) act" where
  "maybe_run_lazy_cleanup pick inst route =
     and_then (gets cc_lazy_cleanup_last) (\<lambda>last.
       let due = (case last of None \<Rightarrow> True | Some t \<Rightarrow> 60 * 10 ^ 9 \<le> max (inst - t) 0)
       in if due
          then and_then (modify (\<lambda>s. s\<lparr>cc_lazy_cleanup_last := Some inst\<rparr>)) (\<lambda>_.
                 ignore_err (cleanup_expired pick route 100))
          else ok ())"

definition lookup ::
  "(int list \<Rightarrow> int) \<Rightarrow> int \<Rightarrow> CacheRoute \<Rightarrow> string \<Rightarrow> (cache_db, sqlx_error, CacheEntry option) act" where
  "lookup pick inst route key =
     and_then (maybe_run_lazy_cleanup pick inst route) (\<lambda>_.
     and_then (delete_expired_by_key key) (\<lambda>_. touch key route))"

definition peek :: "CacheRoute \<Rightarrow> string \<Rightarrow> (cache_db, sqlx_error, CacheEntry option) act" where
  "peek route key =
     cache_statement (\<lambda>s. (Inr (map_option (cache_entry key) (unexpired key route s)), s))"

text \<open>
  \<open>Utc::now() + chrono::Duration::seconds(ttl)\<close>: both the duration and the sum panic out of range. The
  last second of a \<open>DateTime<Utc>\<close> is that of the year 262142, the first that of the year -262143.
\<close>

definition add_seconds :: "datetime \<Rightarrow> int \<Rightarrow> datetime option" where
  "add_seconds t n =
     (let r = t + n * 10 ^ 9
      in if - ((2 ^ 63 - 1) div 1000) \<le> n \<and> n \<le> (2 ^ 63 - 1) div 1000 \<and>
            - 8334601228800 \<le> r div 10 ^ 9 \<and> r div 10 ^ 9 \<le> 8210266876799
         then Some r else None)"

definition store ::
  "(int list \<Rightarrow> int) \<Rightarrow> int \<Rightarrow> datetime \<Rightarrow> CacheRoute \<Rightarrow> string \<Rightarrow> json \<Rightarrow> json \<Rightarrow> int option \<Rightarrow>
     (cache_db, sqlx_error, CacheEntry) act" where
  "store pick inst utc_now route key request_payload response_payload ttl_seconds =
     and_then (maybe_run_lazy_cleanup pick inst route) (\<lambda>_.
       let ttl = (case ttl_seconds of Some t \<Rightarrow> t | None \<Rightarrow> default_ttl_seconds route)
       in and_then (or_panic (add_seconds utc_now ttl)) (\<lambda>expires_at.
            upsert key route request_payload response_payload expires_at))"

definition try_acquire_lock ::
  "(string \<Rightarrow> int) \<Rightarrow> nat \<Rightarrow> CacheRoute \<Rightarrow> string \<Rightarrow> (cache_db, sqlx_error, bool) act" where
  "try_acquire_lock h sess route key =
     (let i = build_lock_id h route key
      in cache_statement (\<lambda>s.
           if list_ex (\<lambda>(t, j). j = i \<and> t \<noteq> sess) (cc_locks s) then (Inr False, s)
           else (Inr True, s\<lparr>cc_locks := (sess, i) # cc_locks s\<rparr>)))"

definition release_lock ::
  "(string \<Rightarrow> int) \<Rightarrow> nat \<Rightarrow> CacheRoute \<Rightarrow> string \<Rightarrow> (cache_db, sqlx_error, bool) act" where
  "release_lock h sess route key =
     (let i = build_lock_id h route key
      in cache_statement (\<lambda>s.
           if (sess, i) \<in> set (cc_locks s) then (Inr True, s\<lparr>cc_locks := remove1 (sess, i) (cc_locks s)\<rparr>)
           else (Inr False, s)))"

text \<open>
  The polling loop: the \<open>k\<close>-th look takes \<open>lag k\<close> nanoseconds, a sleep takes the interval, and \<open>env k\<close> is
  what other sessions and the time do to the database meanwhile. The loop of the code is unbounded;
  \<open>None\<close> is running out of \<open>fuel\<close>.
\<close>

fun wait_polls ::
  "nat \<Rightarrow> nat \<Rightarrow> (nat \<Rightarrow> nat) \<Rightarrow> (nat \<Rightarrow> cache_db \<Rightarrow> cache_db) \<Rightarrow> nat \<Rightarrow> nat \<Rightarrow> CacheRoute \<Rightarrow> string \<Rightarrow> nat \<Rightarrow>
     cache_db \<Rightarrow> ((sqlx_error exn + CacheEntry option) \<times> cache_db) option" where
  "wait_polls 0 k lag env interval deadline route key now s = None"
| "wait_polls (Suc fuel) k lag env interval deadline route key now s =
     (case peek route key s of
        (Inl x, s') \<Rightarrow> Some (Inl x, s')
      | (Inr (Some e), s') \<Rightarrow> Some (Inr (Some e), s')
      | (Inr None, s') \<Rightarrow>
          if deadline \<le> now + lag k then Some (Inr None, s')
          else wait_polls fuel (Suc k) lag env interval deadline route key (now + lag k + interval) (env k s'))"

definition wait_for_entry ::
  "nat \<Rightarrow> (nat \<Rightarrow> nat) \<Rightarrow> (nat \<Rightarrow> cache_db \<Rightarrow> cache_db) \<Rightarrow> nat \<Rightarrow> CacheRoute \<Rightarrow> string \<Rightarrow> nat option \<Rightarrow> nat option \<Rightarrow>
     cache_db \<Rightarrow> ((sqlx_error exn + CacheEntry option) \<times> cache_db) option" where
  "wait_for_entry fuel lag env now route key poll_interval timeout s =
     (let interval = (case poll_interval of Some d \<Rightarrow> d | None \<Rightarrow> 50 * 10 ^ 6);
          deadline = now + (case timeout of Some t \<Rightarrow> t | None \<Rightarrow> 10 * 10 ^ 9)
      in wait_polls fuel 0 lag env interval deadline route key now s)"

section \<open>The cache as an expiring map\<close>

text \<open>
  What a client sees: a map from keys to a response and the moment it expires. \<open>row_at\<close> is the same
  view of the table; every statement but \<open>upsert\<close> keeps it, at present and at any later time.
\<close>

type_synonym memo = "string \<rightharpoonup> json \<times> datetime"

definition memo_get :: "memo \<Rightarrow> datetime \<Rightarrow> string \<Rightarrow> json option" where
  "memo_get m t k = (case m k of Some (v, e) \<Rightarrow> if t < e then Some v else None | None \<Rightarrow> None)"

definition row_at :: "cache_db \<Rightarrow> string \<Rightarrow> datetime \<Rightarrow> json option" where
  "row_at s k t =
     (case map_of (cc_rows s) k of
        Some r \<Rightarrow> if t < cw_expires_at r then Some (cw_response_payload r) else None
      | None \<Rightarrow> None)"

definition cache_inv :: "(string \<Rightarrow> CacheRoute) \<Rightarrow> int \<Rightarrow> cache_db \<Rightarrow> bool" where
  "cache_inv rt n s \<longleftrightarrow>
     distinct (map fst (cc_rows s)) \<and> distinct (map (cw_id \<circ> snd) (cc_rows s)) \<and>
     (\<forall>(k, r) \<in> set (cc_rows s).
        cw_id r < cc_next_id s \<and> cw_route r = cache_route_str (rt k) \<and> 0 \<le> cw_hit_count r \<and> cw_hit_count r \<le> n)"

definition faultless :: "cache_db \<Rightarrow> bool" where
  "faultless s \<longleftrightarrow> (\<forall>x \<in> set (cc_faults s). x = None)"

definition same_view :: "(string \<Rightarrow> CacheRoute) \<Rightarrow> int \<Rightarrow> cache_db \<Rightarrow> cache_db \<Rightarrow> bool" where
  "same_view rt n s s' \<longleftrightarrow>
     cache_inv rt n s' \<and> cc_now s' = cc_now s \<and> (faultless s \<longrightarrow> faultless s') \<and>
     (\<forall>k t. cc_now s \<le> t \<longrightarrow> row_at s' k t = row_at s k t)"

lemma wp_cache_statementI:
  assumes "\<And>e. \<not> faultless s \<Longrightarrow> R (Error e) (s\<lparr>cc_faults := tl (cc_faults s)\<rparr>)"
    and "\<And>e t. f (s\<lparr>cc_faults := tl (cc_faults s)\<rparr>) = (Inl e, t) \<Longrightarrow> R (Error e) (s\<lparr>cc_faults := tl (cc_faults s)\<rparr>)"
    and "\<And>a t. f (s\<lparr>cc_faults := tl (cc_faults s)\<rparr>) = (Inr a, t) \<Longrightarrow> Q a t"
  shows "wp (cache_statement f) Q R s"
  using assms
  by (cases "cc_faults s")
     (auto simp: wp_def cache_statement_def Let_def faultless_def split: option.splits prod.splits sum.splits)

lemma same_view_refl: "cache_inv rt n s \<Longrightarrow> same_view rt n s s"
  by (simp add: same_view_def)

lemma same_view_trans:
  "same_view rt n s s' \<Longrightarrow> same_view rt m s' s'' \<Longrightarrow> same_view rt m s s''"
  by (simp add: same_view_def)

lemma same_view_inv: "same_view rt n s s' \<Longrightarrow> cache_inv rt n s'"
  by (simp add: same_view_def)

lemma same_view_faults:
  "cache_inv rt n s \<Longrightarrow> same_view rt n s (s\<lparr>cc_faults := tl (cc_faults s)\<rparr>)"
  by (cases "cc_faults s") (auto simp: same_view_def cache_inv_def faultless_def row_at_def)

lemma same_view_frame:
  "cache_inv rt n s \<Longrightarrow> same_view rt n s (s\<lparr>cc_locks := l, cc_lazy_cleanup_last := c\<rparr>)"
  by (auto simp: same_view_def cache_inv_def faultless_def row_at_def)

lemma map_of_filter_distinct:
  "distinct (map fst xs) \<Longrightarrow>
     map_of (filter P xs) k = (case map_of xs k of Some r \<Rightarrow> if P (k, r) then Some r else None | None \<Rightarrow> None)"
proof (induction xs)
  case (Cons x xs)
  then show ?case
    by (cases x; cases "fst x = k") (force split: option.splits simp: map_of_eq_None_iff dest: map_of_SomeD)+
qed simp

text \<open>Deleting rows that have expired cannot be seen.\<close>

lemma same_view_filter:
  assumes inv: "cache_inv rt n s"
    and exp: "\<And>k r. (k, r) \<in> set (cc_rows s) \<Longrightarrow> \<not> P (k, r) \<Longrightarrow> cw_expires_at r \<le> cc_now s"
  shows "same_view rt n s (s\<lparr>cc_rows := filter P (cc_rows s)\<rparr>)"
proof -
  let ?rows = "filter P (cc_rows s)"
  have dist: "distinct (map fst (cc_rows s))" and dist': "distinct (map (cw_id \<circ> snd) (cc_rows s))"
    using inv by (simp_all add: cache_inv_def)
  note map_of_filter_distinct [OF dist, of P]
  then have "row_at (s\<lparr>cc_rows := ?rows\<rparr>) k t = row_at s k t" if "cc_now s \<le> t" for k t
    using that exp by (fastforce simp: row_at_def split: option.splits dest: map_of_SomeD)
  moreover have "cache_inv rt n (s\<lparr>cc_rows := ?rows\<rparr>)"
    using inv dist dist' by (auto simp: cache_inv_def distinct_map intro: inj_on_subset)
  ultimately show ?thesis by (simp add: same_view_def faultless_def)
qed


lemma same_view_delete:
  assumes "cache_inv rt n s"
    and "\<And>k r. (k, r) \<in> set (cc_rows s) \<Longrightarrow> \<not> P (k, r) \<Longrightarrow> cw_expires_at r \<le> cc_now s"
  shows "same_view rt n s (s\<lparr>cc_faults := tl (cc_faults s), cc_rows := filter P (cc_rows s)\<rparr>)"
proof -
  let ?s = "s\<lparr>cc_faults := tl (cc_faults s)\<rparr>"
  have view: "same_view rt n s ?s" by (rule same_view_faults [OF assms(1)])
  have "same_view rt n ?s (?s\<lparr>cc_rows := filter P (cc_rows ?s)\<rparr>)"
    using assms(2) by (intro same_view_filter same_view_inv [OF view]) simp
  from same_view_trans [OF view this] show ?thesis by simp
qed

lemma expired_rows_faults [simp]: "expired_rows route m (s\<lparr>cc_faults := fs\<rparr>) = expired_rows route m s"
  by (simp add: expired_rows_def)

lemma distinct_update_snd:
  assumes "distinct (map (g \<circ> snd) xs)"
    and "\<And>v'. map_of xs k = Some v' \<Longrightarrow> g v = g v'" and "map_of xs k = None \<Longrightarrow> g v \<notin> g ` snd ` set xs"
  shows "distinct (map (g \<circ> snd) (AList.update k v xs)) \<and>
    g ` snd ` set (AList.update k v xs) = insert (g v) (g ` snd ` set xs)"
  using assms
proof (induction xs)
  case (Cons x xs)
  obtain k' w where x: "x = (k', w)" by (cases x)
  show ?case
  proof (cases "k' = k")
    case True
    then show ?thesis using Cons.prems by (auto simp: x)
  next
    case False
    then have IH: "distinct (map (g \<circ> snd) (AList.update k v xs)) \<and>
        g ` snd ` set (AList.update k v xs) = insert (g v) (g ` snd ` set xs)"
      using Cons.prems by (intro Cons.IH) (auto simp: x)
    have "g w \<noteq> g v"
    proof (cases "map_of xs k")
      case None
      then show ?thesis using Cons.prems(3) False by (auto simp: x)
    next
      case (Some a)
      then have "g v = g a" "(k, a) \<in> set xs"
        using Cons.prems(2) False by (auto simp: x dest: map_of_SomeD)
      then show ?thesis using Cons.prems(1) by (force simp: x)
    qed
    then show ?thesis using IH Cons.prems(1) False by (auto simp: x image_image comp_def)
  qed
qed simp

lemma set_alist_update: "set (AList.update k v xs) \<subseteq> insert (k, v) (set xs)"
  by (induction xs) auto

lemma cache_inv_update:
  assumes inv: "cache_inv rt n s" and "n \<le> m"
    and row: "cw_route r = cache_route_str (rt k)" "0 \<le> cw_hit_count r" "cw_hit_count r \<le> m"
    and fresh: "\<And>r'. map_of (cc_rows s) k = Some r' \<Longrightarrow> cw_id r = cw_id r'"
      "map_of (cc_rows s) k = None \<Longrightarrow> cw_id r = cc_next_id s"
    and ids: "cc_next_id s \<le> i" "cw_id r < i"
  shows "cache_inv rt m (s\<lparr>cc_faults := fs, cc_rows := AList.update k r (cc_rows s), cc_next_id := i\<rparr>)"
proof -
  have "cw_id r \<notin> cw_id ` snd ` set (cc_rows s)" if "map_of (cc_rows s) k = None"
    using inv fresh(2) [OF that] by (auto simp: cache_inv_def)
  then have "distinct (map (cw_id \<circ> snd) (AList.update k r (cc_rows s)))"
    using distinct_update_snd [of cw_id "cc_rows s" k r] inv fresh(1) by (simp add: cache_inv_def)
  moreover have "set (AList.update k r (cc_rows s)) \<subseteq> insert (k, r) (set (cc_rows s))"
    by (rule set_alist_update)
  ultimately show ?thesis
    using inv assms(2) row ids by (fastforce simp: cache_inv_def distinct_update)
qed

lemma expired_rowsD:
  assumes "cache_inv rt n s" and "(k, r) \<in> set (cc_rows s)" and "cw_id r \<in> cw_id ` snd ` set (expired_rows route m s)"
  shows "cw_expires_at r \<le> cc_now s"
proof -
  obtain k' r' where r': "(k', r') \<in> set (expired_rows route m s)" "cw_id r' = cw_id r"
    using assms(3) by auto
  then have "(k', r') \<in> set (cc_rows s)" and le: "cw_expires_at r' \<le> cc_now s"
    by (auto simp: expired_rows_def dest!: in_set_takeD)
  then have "(k', r') = (k, r)"
    using assms(1,2) r'(2) inj_onD [of "cw_id \<circ> snd" "set (cc_rows s)" "(k', r')" "(k, r)"]
    by (auto simp: cache_inv_def distinct_map)
  then show ?thesis using le by simp
qed

lemma wp_cleanup_expired:
  assumes inv: "cache_inv rt n s"
  shows "wp (cleanup_expired pick route limit) (\<lambda>_. same_view rt n s)
           (\<lambda>x s'. same_view rt n s s' \<and> (\<exists>e. x = Error e) \<and> (faultless s \<longrightarrow> limit < 0)) s"
proof -
  have "same_view rt n s (s\<lparr>cc_faults := tl (cc_faults s),
      cc_rows := filter (\<lambda>(k, r). cw_id r \<notin> cw_id ` snd ` set (expired_rows route m s)) (cc_rows s)\<rparr>)" for m
    by (rule same_view_delete [OF inv], rule expired_rowsD [OF inv]) simp_all
  then show ?thesis
    unfolding cleanup_expired_def wp_simps
    by (intro wp_cache_statementI)
       (auto simp: Let_def same_view_faults [OF inv] split: if_splits)
qed

lemma wp_maybe_run_lazy_cleanup:
  assumes inv: "cache_inv rt n s"
  shows "wp (maybe_run_lazy_cleanup pick inst route) (\<lambda>_. same_view rt n s) (\<lambda>_ _. False) s"
proof -
  let ?s = "s\<lparr>cc_lazy_cleanup_last := Some inst\<rparr>"
  have view: "same_view rt n s ?s"
    using same_view_frame [OF inv, of "Some inst" "cc_locks s"] by simp
  then have "cache_inv rt n ?s" by (simp add: same_view_def)
  then have "wp (cleanup_expired pick route 100) (\<lambda>_. same_view rt n s)
      (\<lambda>x. case x of Error e \<Rightarrow> same_view rt n s | Panic \<Rightarrow> (\<lambda>_. False)) ?s"
    by (rule wp_mono [OF wp_cleanup_expired]) (auto intro: same_view_trans [OF view])
  then show ?thesis
    by (auto simp: maybe_run_lazy_cleanup_def wp_simps Let_def same_view_refl [OF inv]
        elim!: wp_mono split: exn.splits)
qed

lemma wp_delete_expired_by_key:
  assumes inv: "cache_inv rt n s"
  shows "wp (delete_expired_by_key key) (\<lambda>_. same_view rt n s)
           (\<lambda>x s'. same_view rt n s s' \<and> (\<exists>e. x = Error e) \<and> \<not> faultless s) s"
  unfolding delete_expired_by_key_def
  by (intro wp_cache_statementI) (auto simp: same_view_faults [OF inv] intro!: same_view_delete [OF inv])

lemma unexpired_faults [simp]: "unexpired key route (s\<lparr>cc_faults := fs\<rparr>) = unexpired key route s"
  by (simp add: unexpired_def split: option.split)

lemma unexpired_row_at:
  assumes "cache_inv rt n s" and "rt key = route"
  shows "map_option cw_response_payload (unexpired key route s) = row_at s key (cc_now s)"
  using assms
  by (auto simp: unexpired_def row_at_def cache_inv_def split: option.splits dest!: map_of_SomeD)

lemma row_at_update:
  "row_at (s\<lparr>cc_faults := fs, cc_rows := AList.update k r (cc_rows s)\<rparr>) k' t =
     (if k' = k then if t < cw_expires_at r then Some (cw_response_payload r) else None else row_at s k' t)"
  by (simp add: row_at_def update_conv')

lemma cache_inv_mono: "cache_inv rt n s \<Longrightarrow> n \<le> m \<Longrightarrow> cache_inv rt m s"
  by (fastforce simp: cache_inv_def)

lemma same_view_mono: "same_view rt n s s' \<Longrightarrow> n \<le> m \<Longrightarrow> same_view rt m s s'"
  by (auto simp: same_view_def intro: cache_inv_mono)

lemma faultless_tl: "faultless s \<Longrightarrow> faultless (s\<lparr>cc_faults := tl (cc_faults s)\<rparr>)"
  by (cases "cc_faults s") (auto simp: faultless_def)

lemma faultless_locks [simp]: "faultless (s\<lparr>cc_locks := l\<rparr>) = faultless s"
  by (simp add: faultless_def)

lemma cache_statement_faultless:
  "faultless s \<Longrightarrow> cache_statement f s =
     (let s' = s\<lparr>cc_faults := tl (cc_faults s)\<rparr>
      in case f s' of (Inl e, _) \<Rightarrow> (Inl (Error e), s') | (Inr a, t) \<Rightarrow> (Inr a, t))"
  by (cases "cc_faults s") (auto simp: cache_statement_def faultless_def Let_def)

lemma same_view_hit:
  assumes inv: "cache_inv rt n s" and r: "map_of (cc_rows s) k = Some r"
  shows "same_view rt (n + 1) s (s\<lparr>cc_faults := tl (cc_faults s), cc_rows := AList.update k
           (r\<lparr>cw_hit_count := cw_hit_count r + 1, cw_last_hit_at := h\<rparr>) (cc_rows s)\<rparr>)"
proof -
  let ?r = "r\<lparr>cw_hit_count := cw_hit_count r + 1, cw_last_hit_at := h\<rparr>"
  let ?s = "s\<lparr>cc_faults := tl (cc_faults s), cc_rows := AList.update k ?r (cc_rows s)\<rparr>"
  have "(k, r) \<in> set (cc_rows s)" using r by (rule map_of_SomeD)
  then have "cache_inv rt (n + 1) (s\<lparr>cc_faults := tl (cc_faults s),
      cc_rows := AList.update k ?r (cc_rows s), cc_next_id := cc_next_id s\<rparr>)"
    using inv r by (intro cache_inv_update [OF inv]) (auto simp: cache_inv_def)
  moreover have "row_at ?s k' t = row_at s k' t" for k' t
    using r by (simp add: row_at_update) (simp add: row_at_def)
  ultimately show ?thesis using faultless_tl [of s] by (simp add: same_view_def faultless_def)
qed

lemma wp_touch:
  assumes inv: "cache_inv rt n s" and rt: "rt key = route" and n: "n < 2 ^ 63 - 1"
  shows "wp (touch key route)
           (\<lambda>e s'. same_view rt (n + 1) s s' \<and> map_option ce_response_payload e = row_at s key (cc_now s))
           (\<lambda>x s'. same_view rt (n + 1) s s' \<and> (\<exists>e. x = Error e) \<and> \<not> faultless s) s"
proof -
  have view: "same_view rt (n + 1) s (s\<lparr>cc_faults := tl (cc_faults s)\<rparr>)"
    using same_view_mono [OF same_view_faults [OF inv]] by simp
  show ?thesis
  proof (cases "unexpired key route s")
    case None
    then show ?thesis
      unfolding touch_def using unexpired_row_at [OF inv rt] view
      by (intro wp_cache_statementI) auto
  next
    case (Some r)
    then have r: "map_of (cc_rows s) key = Some r" by (simp add: unexpired_def split: option.splits if_splits)
    then have "is_i64 (cw_hit_count r + 1)"
      using inv n by (force simp: cache_inv_def is_i64_def dest!: map_of_SomeD)
    then show ?thesis
      unfolding touch_def using unexpired_row_at [OF inv rt] view same_view_hit [OF inv r] Some
      by (intro wp_cache_statementI) (auto simp: Let_def cache_entry_def)
  qed
qed

lemma wp_peek:
  assumes inv: "cache_inv rt n s" and rt: "rt key = route"
  shows "wp (peek route key)
           (\<lambda>e s'. same_view rt n s s' \<and> map_option ce_response_payload e = row_at s key (cc_now s))
           (\<lambda>x s'. same_view rt n s s' \<and> (\<exists>e. x = Error e) \<and> \<not> faultless s) s"
  unfolding peek_def using unexpired_row_at [OF inv rt] same_view_faults [OF inv]
  by (intro wp_cache_statementI) (auto simp: cache_entry_def option.map_comp comp_def)

definition stored_view ::
  "(string \<Rightarrow> CacheRoute) \<Rightarrow> int \<Rightarrow> string \<Rightarrow> json \<Rightarrow> datetime \<Rightarrow> cache_db \<Rightarrow> cache_db \<Rightarrow> bool" where
  "stored_view rt n key v e s s' \<longleftrightarrow>
     cache_inv rt n s' \<and> cc_now s' = cc_now s \<and> (faultless s \<longrightarrow> faultless s') \<and>
     (\<forall>k t. cc_now s \<le> t \<longrightarrow>
        row_at s' k t = (if k = key then if t < e then Some v else None else row_at s k t))"

lemma wp_upsert:
  assumes inv: "cache_inv rt n s" and rt: "rt key = route" and n: "0 \<le> n"
  shows "wp (upsert key route req resp e) (\<lambda>c. stored_view rt n key resp e s)
           (\<lambda>x s'. same_view rt n s s' \<and> (\<exists>e. x = Error e) \<and> \<not> faultless s) s"
proof -
  define row where "row = (case map_of (cc_rows s) key of
      None \<Rightarrow> \<lparr>cw_id = cc_next_id s, cw_route = cache_route_str route, cw_request_payload = req,
        cw_response_payload = resp, cw_created_at = cc_now s, cw_expires_at = e, cw_hit_count = 0,
        cw_last_hit_at = None\<rparr>
    | Some r \<Rightarrow> r\<lparr>cw_request_payload := req, cw_response_payload := resp, cw_created_at := cc_now s,
        cw_expires_at := e, cw_hit_count := 0, cw_last_hit_at := None\<rparr>)"
  let ?s = "s\<lparr>cc_faults := tl (cc_faults s), cc_rows := AList.update key row (cc_rows s),
    cc_next_id := cc_next_id s + 1\<rparr>"
  have "cache_inv rt n ?s"
  proof (rule cache_inv_update [OF inv])
    show "cw_route row = cache_route_str (rt key)" "cw_id row < cc_next_id s + 1"
      using inv rt by (force simp: row_def cache_inv_def split: option.splits dest!: map_of_SomeD)+
  qed (use n in \<open>auto simp: row_def split: option.splits\<close>)
  moreover have "cw_response_payload row = resp" "cw_expires_at row = e"
    by (simp_all add: row_def split: option.splits)
  ultimately have "stored_view rt n key resp e s ?s"
    using faultless_tl [of s] by (simp add: stored_view_def row_at_def update_conv' faultless_def)
  then show ?thesis
    unfolding upsert_def using same_view_faults [OF inv]
    by (intro wp_cache_statementI) (auto simp: Let_def row_def cong: option.case_cong)
qed

lemma wp_lookup:
  assumes inv: "cache_inv rt n s" and rt: "rt key = route" and n: "n < 2 ^ 63 - 1"
  shows "wp (lookup pick inst route key)
           (\<lambda>e s'. same_view rt (n + 1) s s' \<and> map_option ce_response_payload e = row_at s key (cc_now s))
           (\<lambda>x s'. same_view rt (n + 1) s s' \<and> (\<exists>e. x = Error e) \<and> \<not> faultless s) s"
  unfolding lookup_def wp_simps
proof (rule wp_mono [OF wp_maybe_run_lazy_cleanup [OF inv]], goal_cases)
  case (1 u s1)
  then have inv1: "cache_inv rt n s1" and view1: "same_view rt n s s1" by (simp_all add: same_view_def)
  show ?case
  proof (rule wp_mono [OF wp_delete_expired_by_key [OF inv1]], goal_cases)
    case (1 u s2)
    then have inv2: "cache_inv rt n s2" and view: "same_view rt n s s2"
      by (rule same_view_inv, rule same_view_trans [OF view1])
    then have "row_at s2 key (cc_now s2) = row_at s key (cc_now s)" "faultless s \<longrightarrow> faultless s2"
      by (simp_all add: same_view_def)
    then show ?case
      using same_view_trans [OF view]
      by (intro wp_mono [OF wp_touch [OF inv2 rt n]]) auto
  next
    case (2 x s2)
    then have "same_view rt n s s2" "\<not> faultless s"
      using view1 by (auto simp: same_view_def)
    then show ?case using same_view_mono [of rt n s s2 "n + 1"] 2 by simp
  qed
qed simp

lemma wp_store:
  assumes inv: "cache_inv rt n s" and rt: "rt key = route" and n: "0 \<le> n"
  shows "wp (store pick inst utc route key req resp ttl)
           (\<lambda>c s'. \<exists>e. add_seconds utc (case ttl of Some t \<Rightarrow> t | None \<Rightarrow> default_ttl_seconds route) = Some e \<and>
                 stored_view rt n key resp e s s')
           (\<lambda>x s'. same_view rt n s s' \<and> (x \<noteq> Panic \<and> \<not> faultless s \<or>
              x = Panic \<and> add_seconds utc (case ttl of Some t \<Rightarrow> t | None \<Rightarrow> default_ttl_seconds route) = None)) s"
  unfolding store_def wp_simps Let_def
proof (rule wp_mono [OF wp_maybe_run_lazy_cleanup [OF inv]], goal_cases)
  case (1 u s1)
  then have inv1: "cache_inv rt n s1" and view: "same_view rt n s s1" by (simp_all add: same_view_def)
  show ?case
  proof (cases "add_seconds utc (case ttl of Some t \<Rightarrow> t | None \<Rightarrow> default_ttl_seconds route)")
    case None
    then show ?thesis using view by simp
  next
    case (Some e)
    then show ?thesis
      using view same_view_trans [OF view]
      by (auto intro!: wp_mono [OF wp_upsert [OF inv1 rt n]] simp: same_view_def stored_view_def)
  qed
qed simp

subsection \<open>Sequences of operations\<close>

datatype cache_op =
  Op_Lookup int CacheRoute string
| Op_Peek CacheRoute string
| Op_Store int datetime CacheRoute string json json "int option"
| Op_Cleanup CacheRoute int
| Op_Tick nat

datatype cache_reply = Found "json option" | Stored | Swept | Ticked | Failed "sqlx_error exn"

definition reply_of :: "('a \<Rightarrow> cache_reply) \<Rightarrow> (cache_db, sqlx_error, 'a) act \<Rightarrow> cache_db \<Rightarrow> cache_reply \<times> cache_db" where
  "reply_of f m s = (case m s of (Inl x, s') \<Rightarrow> (Failed x, s') | (Inr a, s') \<Rightarrow> (f a, s'))"

fun cache_exec :: "(int list \<Rightarrow> int) \<Rightarrow> cache_op \<Rightarrow> cache_db \<Rightarrow> cache_reply \<times> cache_db" where
  "cache_exec pick (Op_Lookup i r k) s = reply_of (\<lambda>e. Found (map_option ce_response_payload e)) (lookup pick i r k) s"
| "cache_exec pick (Op_Peek r k) s = reply_of (\<lambda>e. Found (map_option ce_response_payload e)) (peek r k) s"
| "cache_exec pick (Op_Store i u r k req resp ttl) s = reply_of (\<lambda>_. Stored) (store pick i u r k req resp ttl) s"
| "cache_exec pick (Op_Cleanup r l) s = reply_of (\<lambda>_. Swept) (cleanup_expired pick r l) s"
| "cache_exec pick (Op_Tick d) s = (Ticked, s\<lparr>cc_now := cc_now s + int d\<rparr>)"

fun cache_run :: "(int list \<Rightarrow> int) \<Rightarrow> cache_op list \<Rightarrow> cache_db \<Rightarrow> cache_reply list \<times> cache_db" where
  "cache_run pick [] s = ([], s)"
| "cache_run pick (x # xs) s =
     (let (r, s1) = cache_exec pick x s; (rs, s2) = cache_run pick xs s1 in (r # rs, s2))"

text \<open>The route every key belongs to, as the route is a part of what the key is a hash of.\<close>

fun op_keyed :: "(string \<Rightarrow> CacheRoute) \<Rightarrow> cache_op \<Rightarrow> bool" where
  "op_keyed rt (Op_Lookup i r k) = (rt k = r)"
| "op_keyed rt (Op_Peek r k) = (rt k = r)"
| "op_keyed rt (Op_Store i u r k req resp ttl) = (rt k = r)"
| "op_keyed rt (Op_Cleanup r l) = True"
| "op_keyed rt (Op_Tick d) = True"

text \<open>
  The specification: a map and a clock. \<open>F\<close> says that the database may fail; without it only a negative
  limit is an error and only a lifetime out of the calendar a panic.
\<close>

inductive memo_step :: "bool \<Rightarrow> cache_op \<Rightarrow> cache_reply \<Rightarrow> memo \<times> datetime \<Rightarrow> memo \<times> datetime \<Rightarrow> bool" where
  memo_lookup: "memo_step F (Op_Lookup i r k) (Found (memo_get m t k)) (m, t) (m, t)"
| memo_peek: "memo_step F (Op_Peek r k) (Found (memo_get m t k)) (m, t) (m, t)"
| memo_store:
    "add_seconds u (case ttl of Some n \<Rightarrow> n | None \<Rightarrow> default_ttl_seconds r) = Some e \<Longrightarrow>
     memo_step F (Op_Store i u r k req resp ttl) Stored (m, t) (m(k \<mapsto> (resp, e)), t)"
| memo_cleanup: "memo_step F (Op_Cleanup r l) Swept (m, t) (m, t)"
| memo_tick: "memo_step F (Op_Tick d) Ticked (m, t) (m, t + int d)"
| memo_fault: "F \<Longrightarrow> memo_step F x (Failed (Error e)) (m, t) (m, t)"
| memo_limit: "l < 0 \<Longrightarrow> memo_step F (Op_Cleanup r l) (Failed (Error e)) (m, t) (m, t)"
| memo_overflow:
    "add_seconds u (case ttl of Some n \<Rightarrow> n | None \<Rightarrow> default_ttl_seconds r) = None \<Longrightarrow>
     memo_step F (Op_Store i u r k req resp ttl) (Failed Panic) (m, t) (m, t)"

inductive memo_run :: "bool \<Rightarrow> cache_op list \<Rightarrow> cache_reply list \<Rightarrow> memo \<times> datetime \<Rightarrow> memo \<times> datetime \<Rightarrow> bool" where
  memo_done: "memo_run F [] [] a a"
| memo_next: "memo_step F x r a b \<Longrightarrow> memo_run F xs rs b c \<Longrightarrow> memo_run F (x # xs) (r # rs) a c"

definition simulates :: "(string \<Rightarrow> CacheRoute) \<Rightarrow> bool \<Rightarrow> int \<Rightarrow> memo \<times> datetime \<Rightarrow> cache_db \<Rightarrow> bool" where
  "simulates rt F n a s \<longleftrightarrow>
     cache_inv rt n s \<and> snd a = cc_now s \<and> (\<not> F \<longrightarrow> faultless s) \<and>
     (\<forall>k t. cc_now s \<le> t \<longrightarrow> memo_get (fst a) t k = row_at s k t)"

lemma simulates_view:
  "simulates rt F n a s \<Longrightarrow> same_view rt m s s' \<Longrightarrow> simulates rt F m a s'"
  by (auto simp: simulates_def same_view_def)

lemma simulates_store:
  "simulates rt F n (m, t) s \<Longrightarrow> stored_view rt n k v e s s' \<Longrightarrow> simulates rt F n (m(k \<mapsto> (v, e)), t) s'"
  by (auto simp: simulates_def stored_view_def memo_get_def)

lemma wp_reply_of:
  "reply_of f m s = (r, s') \<Longrightarrow> wp m Q R s \<Longrightarrow> (\<exists>a. r = f a \<and> Q a s') \<or> (\<exists>x. r = Failed x \<and> R x s')"
  by (auto simp: reply_of_def wp_def split: prod.splits sum.splits)

lemma simulates_mono: "simulates rt F n a s \<Longrightarrow> n \<le> m \<Longrightarrow> simulates rt F m a s"
  by (auto simp: simulates_def intro: cache_inv_mono)

lemma cache_exec_simulated:
  assumes sim: "simulates rt F n a s" and key: "op_keyed rt x" and n: "0 \<le> n" "n < 2 ^ 63 - 1"
    and run: "cache_exec pick x s = (r, s')"
  shows "\<exists>b. memo_step F x r a b \<and> simulates rt F (n + 1) b s'"
proof -
  obtain m where a: "a = (m, cc_now s)" using sim by (cases a) (simp add: simulates_def)
  have inv: "cache_inv rt n s" and fl: "\<not> F \<Longrightarrow> faultless s"
    and get: "memo_get m (cc_now s) k = row_at s k (cc_now s)" for k
    using sim by (auto simp: simulates_def a)
  have view: "same_view rt n s s' \<Longrightarrow> simulates rt F (n + 1) a s'"
    "same_view rt (n + 1) s s' \<Longrightarrow> simulates rt F (n + 1) a s'"
    using simulates_view [OF sim] simulates_mono [of rt F n a s' "n + 1"] by auto
  have failed: ?thesis if "r = Failed x'" "same_view rt n s s' \<or> same_view rt (n + 1) s s'" "\<exists>e. x' = Error e" "\<not> faultless s" for x'
    using that fl view by (auto simp: a intro!: exI [of _ a] memo_fault)
  show ?thesis
  proof (cases x)
    case (Op_Lookup i rt' k)
    then have "wp (lookup pick i rt' k)
        (\<lambda>e s'. same_view rt (n + 1) s s' \<and> map_option ce_response_payload e = row_at s k (cc_now s))
        (\<lambda>x s'. same_view rt (n + 1) s s' \<and> (\<exists>e. x = Error e) \<and> \<not> faultless s) s"
      using key by (intro wp_lookup [OF inv _ n(2)]) simp
    from wp_reply_of [OF run [unfolded Op_Lookup cache_exec.simps] this]
    consider "r = Found (row_at s k (cc_now s))" "same_view rt (n + 1) s s'"
      | x' where "r = Failed x'" "same_view rt (n + 1) s s'" "\<exists>e. x' = Error e" "\<not> faultless s"
      by auto
    then show ?thesis
    proof cases
      case 1
      then show ?thesis
        using view(2) memo_lookup [of F i rt' k m "cc_now s"] by (auto simp: a Op_Lookup get)
    qed (use failed in auto)
  next
    case (Op_Peek rt' k)
    then have "wp (peek rt' k)
        (\<lambda>e s'. same_view rt n s s' \<and> map_option ce_response_payload e = row_at s k (cc_now s))
        (\<lambda>x s'. same_view rt n s s' \<and> (\<exists>e. x = Error e) \<and> \<not> faultless s) s"
      using key by (intro wp_peek [OF inv]) simp
    from wp_reply_of [OF run [unfolded Op_Peek cache_exec.simps] this]
    consider "r = Found (row_at s k (cc_now s))" "same_view rt n s s'"
      | x' where "r = Failed x'" "same_view rt n s s'" "\<exists>e. x' = Error e" "\<not> faultless s"
      by auto
    then show ?thesis
    proof cases
      case 1
      then show ?thesis
        using view(1) memo_peek [of F rt' k m "cc_now s"] by (auto simp: a Op_Peek get)
    qed (use failed in auto)
  next
    case (Op_Store i u rt' k req resp ttl)
    let ?e = "add_seconds u (case ttl of Some n \<Rightarrow> n | None \<Rightarrow> default_ttl_seconds rt')"
    have "rt k = rt'" using key Op_Store by simp
    from wp_reply_of [OF run [unfolded Op_Store cache_exec.simps] wp_store [OF inv this n(1)]]
    consider e where "r = Stored" "?e = Some e" "stored_view rt n k resp e s s'"
      | x' where "r = Failed x'" "same_view rt n s s'" "x' \<noteq> Panic" "\<not> faultless s"
      | "r = Failed Panic" "same_view rt n s s'" "?e = None"
      by auto
    then show ?thesis
    proof cases
      case 1
      then show ?thesis
        using simulates_mono [OF simulates_store [OF sim [unfolded a]], of k resp e s' "n + 1"]
        by (intro exI [of _ "(m(k \<mapsto> (resp, e)), cc_now s)"]) (auto simp: a Op_Store intro: memo_store)
    next
      case 2
      then show ?thesis using failed by (cases x') auto
    next
      case 3
      then show ?thesis using view(1) memo_overflow by (intro exI [of _ a]) (auto simp: a Op_Store)
    qed
  next
    case (Op_Cleanup rt' l)
    from wp_reply_of [OF run [unfolded Op_Cleanup cache_exec.simps] wp_cleanup_expired [OF inv]]
    consider "r = Swept" "same_view rt n s s'"
      | e where "r = Failed (Error e)" "same_view rt n s s'" "\<not> faultless s \<or> l < 0"
      by auto
    then show ?thesis
    proof cases
      case 1
      then show ?thesis using view(1) memo_cleanup by (intro exI [of _ a]) (auto simp: a Op_Cleanup)
    next
      case 2
      then consider "\<not> faultless s" | "memo_step F x r a a"
        using memo_limit by (auto simp: a Op_Cleanup)
      then show ?thesis using failed 2 view(1) by cases blast+
    qed
  next
    case (Op_Tick d)
    then have "simulates rt F (n + 1) (m, cc_now s + int d) s'"
      using run simulates_mono [OF sim, of "n + 1"]
      by (auto simp: simulates_def a cache_inv_def faultless_def row_at_def)
    then show ?thesis using run Op_Tick by (auto simp: a intro: memo_tick)
  qed
qed


lemma cache_run_simulated:
  "simulates rt F n a s \<Longrightarrow> list_all (op_keyed rt) xs \<Longrightarrow> 0 \<le> n \<Longrightarrow> n + int (length xs) < 2 ^ 63 \<Longrightarrow>
     cache_run pick xs s = (rs, s') \<Longrightarrow> \<exists>b. memo_run F xs rs a b \<and> simulates rt F (n + int (length xs)) b s'"
proof (induction xs arbitrary: n a s rs)
  case (Cons x xs)
  obtain r s1 where x: "cache_exec pick x s = (r, s1)" by fastforce
  obtain rs' where xs: "cache_run pick xs s1 = (rs', s')" "rs = r # rs'"
    using Cons.prems(5) x by (auto split: prod.splits)
  obtain b where b: "memo_step F x r a b" "simulates rt F (n + 1) b s1"
    using cache_exec_simulated [OF Cons.prems(1) _ _ _ x] Cons.prems by auto
  from Cons.IH [OF b(2) _ _ _ xs(1)] Cons.prems
  obtain c where "memo_run F xs rs' b c" "simulates rt F (n + 1 + int (length xs)) c s'" by auto
  then have "memo_run F (x # xs) rs a c \<and> simulates rt F (n + int (length (x # xs))) c s'"
    using memo_next [OF b(1)] xs(2) by (simp add: algebra_simps)
  then show ?case by blast
qed (auto intro: memo_done)

section \<open>Properties\<close>

text \<open>
  C22. The cache refines a map with expiry. For every sequence of lookups, peeks, stores, cleanups and passing
  time on an empty table, whatever statements fail, which rows the lazy cleanups find and which row a
  deletion reports first: the replies are those of a map from keys to a response and its expiry, in
  which a lookup finds exactly the last response stored under its key while that has not expired; a failed
  operation leaves the map as it was, and without a failing statement only a negative limit and a lifetime out of range fail.
\<close>
theorem cache_refines_expiring_map:
  assumes "cc_rows s = []" and "list_all (op_keyed rt) xs" and "length xs < 2 ^ 63"
    and "cache_run pick xs s = (rs, s')"
  shows "\<exists>m. memo_run (\<not> faultless s) xs rs (Map.empty, cc_now s) (m, cc_now s') \<and>
    (\<forall>k t. cc_now s' \<le> t \<longrightarrow> row_at s' k t = memo_get m t k)"
proof -
  have "simulates rt (\<not> faultless s) 0 (Map.empty, cc_now s) s"
    using assms(1) by (simp add: simulates_def cache_inv_def memo_get_def row_at_def)
  moreover have "0 + int (length xs) < 2 ^ 63"
    using iffD2 [OF of_nat_less_iff assms(3)] by simp
  ultimately obtain b where "memo_run (\<not> faultless s) xs rs (Map.empty, cc_now s) b"
      "simulates rt (\<not> faultless s) (0 + int (length xs)) b s'"
    using cache_run_simulated [OF _ assms(2) _ _ assms(4)] by blast
  then show ?thesis by (cases b) (auto simp: simulates_def)
qed

theorem cache_refines_expiring_map_witness:
  "\<exists>rs s' m.
     cache_run hd [Op_Store 0 0 Cache_Interpret ''k'' JNull (JBool True) None, Op_Lookup 0 Cache_Interpret ''k'',
         Op_Tick (4 * 10 ^ 12), Op_Lookup 0 Cache_Interpret ''k'']
       \<lparr>cc_rows = [], cc_next_id = 1, cc_now = 0, cc_faults = [], cc_locks = [], cc_lazy_cleanup_last = None\<rparr> = (rs, s') \<and>
     rs = [Stored, Found (Some (JBool True)), Ticked, Found None] \<and>
     memo_run False [Op_Store 0 0 Cache_Interpret ''k'' JNull (JBool True) None, Op_Lookup 0 Cache_Interpret ''k'',
         Op_Tick (4 * 10 ^ 12), Op_Lookup 0 Cache_Interpret ''k''] rs (Map.empty, 0) (m, 4 * 10 ^ 12)"
proof -
  let ?xs = "[Op_Store 0 0 Cache_Interpret ''k'' JNull (JBool True) None, Op_Lookup 0 Cache_Interpret ''k'',
    Op_Tick (4 * 10 ^ 12), Op_Lookup 0 Cache_Interpret ''k'']"
  let ?s = "\<lparr>cc_rows = [], cc_next_id = 1, cc_now = 0, cc_faults = [], cc_locks = [], cc_lazy_cleanup_last = None\<rparr>"
  obtain rs s' where run: "cache_run hd ?xs ?s = (rs, s')" by fastforce
  have "rs = [Stored, Found (Some (JBool True)), Ticked, Found None] \<and> cc_now s' = 4 * 10 ^ 12"
    using run by (simp add: reply_of_def lookup_def store_def maybe_run_lazy_cleanup_def cleanup_expired_def
        expired_rows_def delete_expired_by_key_def touch_def unexpired_def upsert_def cache_statement_def
        and_then_def gets_def modify_def ignore_err_def ok_def or_panic_def add_seconds_def Let_def
        default_ttl_seconds_def is_i64_def cache_entry_def) (metis cache_db.select_convs(3))
  moreover have "list_all (op_keyed (\<lambda>_. Cache_Interpret)) ?xs" "length ?xs < 2 ^ 63" by simp_all
  ultimately show ?thesis
    using cache_refines_expiring_map [OF _ _ _ run, of "\<lambda>_. Cache_Interpret"] run
    by (auto simp: faultless_def)
qed

lemma wait_for_entry_enough:
  assumes "0 < (case poll_interval of Some d \<Rightarrow> d | None \<Rightarrow> 50 * 10 ^ 6)"
    and "(case timeout of Some t \<Rightarrow> t | None \<Rightarrow> 10 * 10 ^ 9) div
          (case poll_interval of Some d \<Rightarrow> d | None \<Rightarrow> 50 * 10 ^ 6) + 2 \<le> fuel"
  shows "\<exists>r s'. wait_for_entry fuel lag env now route key poll_interval timeout s = Some (r, s')"
proof -
  define d where "d = (case poll_interval of Some d \<Rightarrow> d | None \<Rightarrow> 50 * 10 ^ 6)"
  define t where "t = (case timeout of Some t \<Rightarrow> t | None \<Rightarrow> 10 * 10 ^ 9)"
  have loop: "\<exists>r s'. wait_polls (Suc fuel) k lag env d deadline route key now s = Some (r, s')"
    if "deadline \<le> now + fuel * d" for fuel k deadline now s
    using that
  proof (induction fuel arbitrary: k now s)
    case (Suc fuel)
    then have "deadline \<le> now + lag k + d + fuel * d" by simp
    from Suc.IH [OF this] show ?case
      by (subst wait_polls.simps) (auto simp del: wait_polls.simps split: prod.split sum.split option.split)
  qed (auto split: prod.split sum.split option.split)
  have "t < d * (t div d) + d"
    using dividend_less_times_div [of d t] assms(1) by (simp add: d_def)
  also have "\<dots> \<le> (fuel - 1) * d"
    using mult_right_mono [of "t div d + 1" "fuel - 1" d] assms(2)
    by (simp add: d_def t_def algebra_simps)
  finally show ?thesis
    using loop [of "now + t" now "fuel - 1" 0 s] assms(2)
    by (simp add: wait_for_entry_def d_def [symmetric] t_def [symmetric])
qed

text \<open>
  C26. Waiting for an entry ends: with a positive polling interval the loop returns within \<open>timeout / interval + 2\<close>
  looks, however long the looks take and whatever the other sessions do.
\<close>
theorem wait_for_entry_returns:
  assumes "0 < (case poll_interval of Some d \<Rightarrow> d | None \<Rightarrow> 50 * 10 ^ 6)"
    and "(case timeout of Some t \<Rightarrow> t | None \<Rightarrow> 10 * 10 ^ 9) div
          (case poll_interval of Some d \<Rightarrow> d | None \<Rightarrow> 50 * 10 ^ 6) + 2 \<le> fuel"
  shows "\<exists>r s'. wait_for_entry fuel lag env now route key poll_interval timeout s = Some (r, s')"
  using assms by (rule wait_for_entry_enough)

theorem wait_for_entry_returns_witness:
  "\<exists>r s'. wait_for_entry 202 (\<lambda>_. 3) (\<lambda>_ s. s) 7 Cache_Respond ''k'' None None
     \<lparr>cc_rows = [], cc_next_id = 1, cc_now = 0, cc_faults = [], cc_locks = [], cc_lazy_cleanup_last = None\<rparr> = Some (r, s')"
  by (rule wait_for_entry_returns) simp_all

text \<open>
  A lock that is released on another session of the pool than the one that took it is not released: the
  release reports failure and every third session is turned away.
\<close>
theorem lock_released_elsewhere_is_kept:
  assumes "faultless s" and "\<forall>(t, j) \<in> set (cc_locks s). j \<noteq> build_lock_id h route key"
    and "a \<noteq> b" and "c \<noteq> a"
  shows "\<exists>s1 s2 s3. try_acquire_lock h a route key s = (Inr True, s1) \<and>
    release_lock h b route key s1 = (Inr False, s2) \<and> try_acquire_lock h c route key s2 = (Inr False, s3)"
  using assms faultless_tl [of s]
    faultless_tl [of "s\<lparr>cc_faults := tl (cc_faults s), cc_locks := (a, build_lock_id h route key) # cc_locks s\<rparr>"]
  by (fastforce simp: try_acquire_lock_def release_lock_def cache_statement_faultless Let_def list_ex_iff)

theorem lock_released_elsewhere_is_kept_witness:
  "\<exists>s1 s2 s3. try_acquire_lock (\<lambda>_. 5) 1 Cache_Respond ''k''
       \<lparr>cc_rows = [], cc_next_id = 1, cc_now = 0, cc_faults = [], cc_locks = [(2, 6)], cc_lazy_cleanup_last = None\<rparr> = (Inr True, s1) \<and>
    release_lock (\<lambda>_. 5) 2 Cache_Respond ''k'' s1 = (Inr False, s2) \<and>
    try_acquire_lock (\<lambda>_. 5) 3 Cache_Respond ''k'' s2 = (Inr False, s3)"
  by (rule lock_released_elsewhere_is_kept) (auto simp: faultless_def build_lock_id_def Let_def)

end
