(* ===== verification/Ledger.thy ===== *)
theory Ledger
  imports Rate_Limit Json
begin

text \<open>
  The ledger of model calls, \<open>src/src/governance/ledger.rs\<close>, and the price catalogue,
  \<open>src/src/governance/price_catalog.rs\<close>: an insertion into \<open>llm_request_ledger\<close> under the constraints of the
  table, and the estimate of a cost from the active price. The arithmetic of \<open>rust_decimal\<close> is the
  parameter \<open>A\<close>; its operations may panic.
\<close>

section \<open>The ledger\<close>

datatype CacheStatus = Hit | Miss | Bypass

definition cache_status_str :: "CacheStatus \<Rightarrow> string" where
  "cache_status_str c = (case c of Hit \<Rightarrow> ''hit'' | Miss \<Rightarrow> ''miss'' | Bypass \<Rightarrow> ''bypass'')"

record LedgerRecordInput =
  lr_request_id :: string
  lr_generation_id :: string
  lr_route :: string
  lr_request_type :: string
  lr_provider :: string
  lr_primary_provider :: string
  lr_model :: string
  lr_requested_model :: string
  lr_latency_ms :: "decimal option"
  lr_retry_count :: int
  lr_cache_status :: CacheStatus
  lr_final_status :: string
  lr_error_class :: "string option"
  lr_error_code :: "string option"
  lr_fallback_used :: bool
  lr_fallback_reason :: "string option"
  lr_attempted_providers :: "string list"
  lr_upstream_request_id :: "string option"
  lr_provider_response_id :: "string option"
  lr_provider_model_version :: "string option"
  lr_finish_reason :: "string option"
  lr_candidate_index :: "int option"
  lr_input_tokens :: "int option"
  lr_output_tokens :: "int option"
  lr_total_tokens :: "int option"
  lr_estimated_cost_usd :: "decimal option"
  lr_cache_key :: "string option"
  lr_metadata :: json
  lr_completed_at :: "datetime option"

text \<open>A row: its columns are those of the input, with the identifier and the time of the insertion.\<close>

record LedgerEntry = LedgerRecordInput +
  le_id :: int
  le_created_at :: datetime

record PriceEntry =
  pe_id :: int
  pe_provider :: string
  pe_model :: string
  pe_input_cost_per_unit_usd :: "decimal option"
  pe_output_cost_per_unit_usd :: "decimal option"
  pe_effective_from :: datetime
  pe_is_active :: bool
  pe_created_at :: datetime
  pe_updated_at :: datetime

record ledger_db =
  lg_rows :: "LedgerEntry list"
  lg_prices :: "PriceEntry list"
  lg_next_id :: int
  lg_now :: datetime
  lg_faults :: "sqlx_error option list"

definition ledger_statement :: "(ledger_db \<Rightarrow> (sqlx_error + 'a) \<times> ledger_db) \<Rightarrow> (ledger_db, sqlx_error, 'a) act" where
  "ledger_statement f s =
     (let s' = s\<lparr>lg_faults := tl (lg_faults s)\<rparr>
      in case lg_faults s of
           Some e # _ \<Rightarrow> (Inl (Error e), s')
         | _ \<Rightarrow> (case f s' of (Inl e, _) \<Rightarrow> (Inl (Error e), s') | (Inr a, t) \<Rightarrow> (Inr a, t)))"

text \<open>
  The columns of \<open>llm_request_ledger\<close>: \<open>NUMERIC(12, 2)\<close> and \<open>NUMERIC(20, 8)\<close> round.
\<close>

definition numeric2 :: "decimal \<Rightarrow> decimal" where
  "numeric2 d = sgn d * ((\<bar>d\<bar> + 5 * 10 ^ 25) div 10 ^ 26) * 10 ^ 26"

definition count_ok :: "int option \<Rightarrow> bool" where
  "count_ok x \<longleftrightarrow> pred_option (\<lambda>n. 0 \<le> n \<and> is_i64 n) x"

definition ledger_row_ok :: "LedgerRecordInput \<Rightarrow> bool" where
  "ledger_row_ok r \<longleftrightarrow>
     fits 255 (lr_request_id r) \<and> fits 100 (lr_generation_id r) \<and>
     lr_route r \<in> {''interpret'', ''respond''} \<and> fits 100 (lr_request_type r) \<and>
     fits 100 (lr_provider r) \<and> fits 100 (lr_primary_provider r) \<and> fits 200 (lr_model r) \<and>
     fits 200 (lr_requested_model r) \<and> pred_option (\<lambda>d. \<bar>numeric2 d\<bar> < 10 ^ 38) (lr_latency_ms r) \<and>
     0 \<le> lr_retry_count r \<and> fits 32 (lr_final_status r) \<and>
     pred_option (fits 255) (lr_error_class r) \<and> pred_option (fits 100) (lr_error_code r) \<and>
     pred_option (fits 100) (lr_fallback_reason r) \<and> pred_option (fits 255) (lr_upstream_request_id r) \<and>
     pred_option (fits 255) (lr_provider_response_id r) \<and> pred_option (fits 200) (lr_provider_model_version r) \<and>
     pred_option (fits 100) (lr_finish_reason r) \<and>
     count_ok (lr_input_tokens r) \<and> count_ok (lr_output_tokens r) \<and> count_ok (lr_total_tokens r) \<and>
     pred_option (\<lambda>d. 0 \<le> numeric8 d \<and> numeric8 d < 10 ^ 40) (lr_estimated_cost_usd r) \<and>
     pred_option (fits 64) (lr_cache_key r) \<and> is_obj (lr_metadata r)"

definition ledger_columns :: "LedgerRecordInput \<Rightarrow> LedgerRecordInput" where
  "ledger_columns r =
     r\<lparr>lr_request_id := clip 255 (lr_request_id r), lr_generation_id := clip 100 (lr_generation_id r),
       lr_request_type := clip 100 (lr_request_type r), lr_provider := clip 100 (lr_provider r),
       lr_primary_provider := clip 100 (lr_primary_provider r), lr_model := clip 200 (lr_model r),
       lr_requested_model := clip 200 (lr_requested_model r),
       lr_latency_ms := map_option numeric2 (lr_latency_ms r),
       lr_final_status := clip 32 (lr_final_status r),
       lr_error_class := map_option (clip 255) (lr_error_class r),
       lr_error_code := map_option (clip 100) (lr_error_code r),
       lr_fallback_reason := map_option (clip 100) (lr_fallback_reason r),
       lr_upstream_request_id := map_option (clip 255) (lr_upstream_request_id r),
       lr_provider_response_id := map_option (clip 255) (lr_provider_response_id r),
       lr_provider_model_version := map_option (clip 200) (lr_provider_model_version r),
       lr_finish_reason := map_option (clip 100) (lr_finish_reason r),
       lr_estimated_cost_usd := map_option numeric8 (lr_estimated_cost_usd r),
       lr_cache_key := map_option (clip 64) (lr_cache_key r)\<rparr>"

definition ledger_row :: "LedgerRecordInput \<Rightarrow> int \<Rightarrow> datetime \<Rightarrow> LedgerEntry" where
  "ledger_row c i now = LedgerRecordInput.extend c \<lparr>le_id = i, le_created_at = now\<rparr>"

definition record_entry :: "LedgerRecordInput \<Rightarrow> (ledger_db, sqlx_error, LedgerEntry) act" where
  "record_entry input =
     ledger_statement (\<lambda>s.
       let row = ledger_row (ledger_columns input) (lg_next_id s) (lg_now s)
       in if \<not> ledger_row_ok input then (Inl CheckViolation, s)
          else if \<exists>r \<in> set (lg_rows s). lr_request_id r = lr_request_id row then (Inl UniqueViolation, s)
          else (Inr row, s\<lparr>lg_rows := lg_rows s @ [row], lg_next_id := lg_next_id s + 1\<rparr>))"

definition record_completed ::
  "datetime \<Rightarrow> string \<Rightarrow> string \<Rightarrow> string \<Rightarrow> string \<Rightarrow> string \<Rightarrow> string \<Rightarrow> string \<Rightarrow> string \<Rightarrow> decimal option \<Rightarrow>
     int \<Rightarrow> CacheStatus \<Rightarrow> int option \<Rightarrow> int option \<Rightarrow> int option \<Rightarrow> decimal option \<Rightarrow> bool \<Rightarrow> string option \<Rightarrow>
     string list \<Rightarrow> string option \<Rightarrow> json \<Rightarrow> (ledger_db, sqlx_error, LedgerEntry) act" where
  "record_completed now request_id generation_id route request_type provider primary_provider model requested_model
      latency_ms retry_count cache_status input_tokens output_tokens total_tokens estimated_cost_usd
      fallback_used fallback_reason attempted_providers cache_key metadata =
     record_entry
       \<lparr>lr_request_id = request_id, lr_generation_id = generation_id, lr_route = route,
        lr_request_type = request_type, lr_provider = provider, lr_primary_provider = primary_provider,
        lr_model = model, lr_requested_model = requested_model, lr_latency_ms = latency_ms,
        lr_retry_count = retry_count, lr_cache_status = cache_status, lr_final_status = ''completed'',
        lr_error_class = None, lr_error_code = None, lr_fallback_used = fallback_used,
        lr_fallback_reason = fallback_reason, lr_attempted_providers = attempted_providers,
        lr_upstream_request_id = None, lr_provider_response_id = None, lr_provider_model_version = None,
        lr_finish_reason = None, lr_candidate_index = None, lr_input_tokens = input_tokens,
        lr_output_tokens = output_tokens, lr_total_tokens = total_tokens,
        lr_estimated_cost_usd = estimated_cost_usd, lr_cache_key = cache_key, lr_metadata = metadata,
        lr_completed_at = Some now\<rparr>"

definition record_failure ::
  "datetime \<Rightarrow> string \<Rightarrow> string \<Rightarrow> string \<Rightarrow> string \<Rightarrow> string \<Rightarrow> string \<Rightarrow> string \<Rightarrow> string \<Rightarrow> CacheStatus \<Rightarrow>
     string option \<Rightarrow> string option \<Rightarrow> bool \<Rightarrow> string option \<Rightarrow> string list \<Rightarrow> json \<Rightarrow>
     (ledger_db, sqlx_error, LedgerEntry) act" where
  "record_failure now request_id generation_id route request_type provider primary_provider model requested_model
      cache_status error_class error_code fallback_used fallback_reason attempted_providers metadata =
     record_entry
       \<lparr>lr_request_id = request_id, lr_generation_id = generation_id, lr_route = route,
        lr_request_type = request_type, lr_provider = provider, lr_primary_provider = primary_provider,
        lr_model = model, lr_requested_model = requested_model, lr_latency_ms = None,
        lr_retry_count = 0, lr_cache_status = cache_status, lr_final_status = ''failed'',
        lr_error_class = error_class, lr_error_code = error_code, lr_fallback_used = fallback_used,
        lr_fallback_reason = fallback_reason, lr_attempted_providers = attempted_providers,
        lr_upstream_request_id = None, lr_provider_response_id = None, lr_provider_model_version = None,
        lr_finish_reason = None, lr_candidate_index = None, lr_input_tokens = None,
        lr_output_tokens = None, lr_total_tokens = None,
        lr_estimated_cost_usd = None, lr_cache_key = None, lr_metadata = metadata,
        lr_completed_at = Some now\<rparr>"

section \<open>Prices\<close>

record CostEstimate =
  co_input_cost_usd :: decimal
  co_output_cost_usd :: decimal
  co_total_cost_usd :: decimal

record decimal_arith =
  da_mul :: "decimal \<Rightarrow> decimal \<Rightarrow> decimal option"
  da_div :: "decimal \<Rightarrow> decimal \<Rightarrow> decimal option"
  da_add :: "decimal \<Rightarrow> decimal \<Rightarrow> decimal option"

definition find_active_price :: "string \<Rightarrow> string \<Rightarrow> (ledger_db, sqlx_error, PriceEntry option) act" where
  "find_active_price provider model =
     ledger_statement (\<lambda>s.
       let candidates = filter (\<lambda>p. pe_provider p = provider \<and> pe_model p = model \<and> pe_is_active p \<and>
             pe_effective_from p \<le> lg_now s) (lg_prices s)
       in (Inr (case sort_key (\<lambda>p. - pe_effective_from p) candidates of [] \<Rightarrow> None | p # _ \<Rightarrow> Some p), s))"

text \<open>\<open>Decimal::new(n, e)\<close> is \<open>n * 10 ^ -e\<close>.\<close>

definition decimal_new :: "int \<Rightarrow> nat \<Rightarrow> decimal" where
  "decimal_new n e = n * 10 ^ (28 - e)"

definition token_cost :: "decimal_arith \<Rightarrow> decimal \<Rightarrow> int \<Rightarrow> decimal option" where
  "token_cost A rate tokens =
     (if 0 < tokens
      then Option.bind (da_mul A rate (decimal_new tokens 0)) (\<lambda>x. da_div A x (decimal_new 1000000 0))
      else Some 0)"

definition estimate_cost_inner :: "decimal_arith \<Rightarrow> PriceEntry option \<Rightarrow> int \<Rightarrow> int \<Rightarrow> CostEstimate option" where
  "estimate_cost_inner A price_entry input_tokens output_tokens =
     (let rates = (case price_entry of
            Some entry \<Rightarrow>
              (case pe_input_cost_per_unit_usd entry of Some r \<Rightarrow> r | None \<Rightarrow> decimal_new 10 2,
               case pe_output_cost_per_unit_usd entry of Some r \<Rightarrow> r | None \<Rightarrow> decimal_new 40 2)
          | None \<Rightarrow> (decimal_new 10 2, decimal_new 40 2))
      in Option.bind (token_cost A (fst rates) input_tokens) (\<lambda>input_cost.
         Option.bind (token_cost A (snd rates) output_tokens) (\<lambda>output_cost.
         Option.bind (da_add A input_cost output_cost) (\<lambda>total_cost.
           Some \<lparr>co_input_cost_usd = input_cost, co_output_cost_usd = output_cost, co_total_cost_usd = total_cost\<rparr>))))"

definition estimate_cost ::
  "decimal_arith \<Rightarrow> string \<Rightarrow> string \<Rightarrow> int \<Rightarrow> int \<Rightarrow> (ledger_db, 'e, CostEstimate) act" where
  "estimate_cost A provider model input_tokens output_tokens =
     and_then (try_err (find_active_price provider model)) (\<lambda>entry.
       or_panic (estimate_cost_inner A (case entry of Inl _ \<Rightarrow> None | Inr e \<Rightarrow> e) input_tokens output_tokens))"

section \<open>What the ledger keeps\<close>

definition ledger_ids_ok :: "ledger_db \<Rightarrow> bool" where
  "ledger_ids_ok s \<longleftrightarrow> distinct (map lr_request_id (lg_rows s)) \<and> (\<forall>r \<in> set (lg_rows s). le_id r < lg_next_id s)"

lemma wp_ledger_statementI:
  assumes "\<And>e. R (Error e) (s\<lparr>lg_faults := tl (lg_faults s)\<rparr>)"
    and "\<And>a t. f (s\<lparr>lg_faults := tl (lg_faults s)\<rparr>) = (Inr a, t) \<Longrightarrow> Q a t"
  shows "wp (ledger_statement f) Q R s"
  using assms
  by (cases "lg_faults s")
     (auto simp: wp_def ledger_statement_def Let_def split: option.splits prod.splits sum.splits)

text \<open>A row is appended, or nothing is changed; a text that is too long for its column is such a reason.\<close>

lemma ledger_row_simps [simp]:
  "lr_request_id (ledger_row c i now) = lr_request_id c" "le_id (ledger_row c i now) = i"
  "LedgerRecordInput.truncate (ledger_row c i now) = c"
  by (cases c; simp add: ledger_row_def LedgerRecordInput.extend_def LedgerRecordInput.truncate_def)+

definition appended :: "LedgerRecordInput \<Rightarrow> ledger_db \<Rightarrow> ledger_db \<Rightarrow> bool" where
  "appended input s s' \<longleftrightarrow>
     ledger_row_ok input \<and> (\<exists>row. lg_rows s' = lg_rows s @ [row] \<and> LedgerRecordInput.truncate row = ledger_columns input) \<and>
     lg_prices s' = lg_prices s \<and> (ledger_ids_ok s \<longrightarrow> ledger_ids_ok s')"

definition unrecorded :: "ledger_db \<Rightarrow> ledger_db \<Rightarrow> bool" where
  "unrecorded s s' \<longleftrightarrow>
     lg_rows s' = lg_rows s \<and> lg_prices s' = lg_prices s \<and> (ledger_ids_ok s \<longrightarrow> ledger_ids_ok s')"

lemma wp_record_entry:
  "wp (record_entry input) (\<lambda>row. appended input s) (\<lambda>x s'. unrecorded s s' \<and> x \<noteq> Panic) s"
  unfolding record_entry_def
proof (rule wp_ledger_statementI, goal_cases)
  case (2 a t)
  then show ?case
    by (auto simp: Let_def appended_def ledger_ids_ok_def less_imp_le image_iff eq_commute split: if_splits)
qed (simp add: unrecorded_def ledger_ids_ok_def)

lemma record_entry_rejected:
  "record_entry input s = (r, s') \<Longrightarrow> \<not> ledger_row_ok input \<Longrightarrow> (\<exists>x. r = Inl x) \<and> lg_rows s' = lg_rows s"
  using wpD_ok [OF wp_record_entry, of input s _ s'] wpD_err [OF wp_record_entry, of input s _ s']
  by (cases r) (auto simp: appended_def unrecorded_def)

lemma ledger_row_ok_texts:
  "ledger_row_ok r \<Longrightarrow> pred_option (fits 100) (lr_error_code r)"
  "ledger_row_ok r \<Longrightarrow> pred_option (fits 100) (lr_fallback_reason r)"
  by (simp_all add: ledger_row_ok_def)

lemma too_long_text: "is_ascii s \<Longrightarrow> n < length s \<Longrightarrow> last s \<noteq> CHR '' '' \<Longrightarrow> \<not> fits n s"
proof
  assume s: "is_ascii s" "n < length s" "last s \<noteq> CHR '' ''" and "fits n s"
  then have "list_all (\<lambda>u. u = '' '') (map (\<lambda>c. [c]) (drop n s))"
    by (simp add: fits_def chars_ascii drop_map)
  moreover have "last s \<in> set (drop n s)"
    using s(2) last_in_set [of "drop n s"] by (simp add: last_drop)
  ultimately show False using s(3) by (auto simp: list_all_iff)
qed

section \<open>Exact costs\<close>

text \<open>
  A value of \<open>rust_decimal\<close> is a mantissa of 96 bits at a scale of at most 28. The operations are exact
  when the exact result is such a value.
\<close>

definition representable :: "decimal \<Rightarrow> bool" where
  "representable d \<longleftrightarrow> (\<exists>k \<le> (28 :: nat). 10 ^ k dvd d \<and> \<bar>d\<bar> < 2 ^ 96 * 10 ^ k)"

definition exact_arith :: "decimal_arith \<Rightarrow> bool" where
  "exact_arith A \<longleftrightarrow>
     (\<forall>a b c. representable a \<longrightarrow> representable b \<longrightarrow> representable c \<longrightarrow>
        (a * b = c * 10 ^ 28 \<longrightarrow> da_mul A a b = Some c) \<and>
        (b \<noteq> 0 \<longrightarrow> a * 10 ^ 28 = c * b \<longrightarrow> da_div A a b = Some c) \<and>
        (a + b = c \<longrightarrow> da_add A a b = Some c))"

definition rate_or :: "decimal \<Rightarrow> decimal option \<Rightarrow> decimal" where
  "rate_or d x = (case x of Some r \<Rightarrow> r | None \<Rightarrow> d)"

definition input_rate :: "PriceEntry option \<Rightarrow> decimal" where
  "input_rate e = rate_or (decimal_new 10 2) (Option.bind e pe_input_cost_per_unit_usd)"

definition output_rate :: "PriceEntry option \<Rightarrow> decimal" where
  "output_rate e = rate_or (decimal_new 40 2) (Option.bind e pe_output_cost_per_unit_usd)"

text \<open>A rate of the catalogue, with eight decimal places, below a hundred million dollars.\<close>

definition catalogue_rate :: "decimal \<Rightarrow> bool" where
  "catalogue_rate r \<longleftrightarrow> 10 ^ 20 dvd r \<and> 0 \<le> r \<and> r < 10 ^ 36"

lemma representableI: "k \<le> 28 \<Longrightarrow> d = m * 10 ^ k \<Longrightarrow> \<bar>m\<bar> < 2 ^ 96 \<Longrightarrow> representable d"
  by (auto simp: representable_def abs_mult intro!: exI [of _ k])

lemma cost_exact:
  assumes A: "exact_arith A" and r: "catalogue_rate r" and n: "0 \<le> n" "n < 2 ^ 32"
  shows "\<exists>c m. c * 10 ^ 6 = r * n \<and> c = m * 10 ^ 14 \<and> 0 \<le> m \<and> m < 10 ^ 27 \<and>
    token_cost A r n = Some c"
proof (cases "0 < n")
  case True
  obtain m where m: "r = m * 10 ^ 20" "0 \<le> m" "m < 10 ^ 16"
    using r by (auto simp: catalogue_rate_def dvd_def mult.commute)
  have le: "m * n < 10 ^ 27"
  proof -
    have "m * n \<le> 10 ^ 16 * n" using m n by (intro mult_right_mono) auto
    also have "\<dots> < 10 ^ 16 * 2 ^ 32" using n by simp
    finally show ?thesis by simp
  qed
  have "representable r" "representable (decimal_new n 0)" "representable (decimal_new 1000000 0)"
    "representable (m * n * 10 ^ 20)" "representable (m * n * 10 ^ 14)"
    using m n le by (auto simp: decimal_new_def intro: representableI [of 20 _ m] representableI [of 28 _ n]
        representableI [of 28 _ 1000000] representableI [of 20 _ "m * n"] representableI [of 14 _ "m * n"])
  then have "da_mul A r (decimal_new n 0) = Some (m * n * 10 ^ 20)"
    "da_div A (m * n * 10 ^ 20) (decimal_new 1000000 0) = Some (m * n * 10 ^ 14)"
    using A by (auto simp: exact_arith_def decimal_new_def m(1))
  then show ?thesis
    using True m le by (intro exI [of _ "m * n * 10 ^ 14"] exI [of _ "m * n"]) (simp add: token_cost_def)
qed (use n in \<open>auto simp: token_cost_def\<close>)


definition int_arith :: decimal_arith where
  "int_arith = \<lparr>da_mul = (\<lambda>a b. Some (a * b div 10 ^ 28)), da_div = (\<lambda>a b. Some (a * 10 ^ 28 div b)), da_add = (\<lambda>a b. Some (a + b))\<rparr>"

lemma exact_int_arith: "exact_arith int_arith"
  by (auto simp: exact_arith_def int_arith_def)


text \<open>
  A failure whose message is longer than the column for the error code is not recorded: the insertion
  fails and the ledger is as it was.
\<close>
theorem long_failure_unrecorded:
  assumes "is_ascii e" and "100 < length e" and "last e \<noteq> CHR '' ''"
    and "record_failure now request_id generation_id route request_type provider primary_provider model
      requested_model cache_status error_class (Some e) fallback_used fallback_reason attempted metadata s = (r, s')"
  shows "(\<exists>x. r = Inl x) \<and> lg_rows s' = lg_rows s"
proof -
  have "\<not> fits 100 e" using too_long_text assms(1-3) by blast
  then show ?thesis
    by (intro record_entry_rejected [OF assms(4) [unfolded record_failure_def]])
       (auto dest!: ledger_row_ok_texts(1))
qed

theorem long_failure_unrecorded_witness:
  "\<exists>x s'. record_failure 0 ''r'' ''g'' ''interpret'' ''t'' ''p'' ''p'' ''m'' ''m'' Miss None
     (Some (replicate 101 CHR ''e'')) False None [] (JObj [])
     \<lparr>lg_rows = [], lg_prices = [], lg_next_id = 1, lg_now = 0, lg_faults = []\<rparr> = (Inl x, s') \<and> lg_rows s' = []"
proof -
  obtain r s' where run: "record_failure 0 ''r'' ''g'' ''interpret'' ''t'' ''p'' ''p'' ''m'' ''m'' Miss None
     (Some (replicate 101 CHR ''e'')) False None [] (JObj [])
     \<lparr>lg_rows = [], lg_prices = [], lg_next_id = 1, lg_now = 0, lg_faults = []\<rparr> = (r, s')" by fastforce
  from long_failure_unrecorded [OF _ _ _ run] show ?thesis
    using run by (auto simp: is_ascii_def list_all_iff byte_def)
qed

end
