(* ===== verification/Serde.thy ===== *)
theory Serde
  imports Interp_Repair
begin

text \<open>
  What the contracts share of \<open>serde\<close>: further scalar decoders, members that are left out when there is
  no value, and the laws by which decoding undoes encoding.
\<close>

definition dec_u32 :: "json \<Rightarrow> int option" where
  "dec_u32 v = (case v of JInt n \<Rightarrow> if 0 \<le> n \<and> n < 2 ^ 32 then Some n else None | _ \<Rightarrow> None)"

text \<open>\<open>skip_serializing_if = "Option::is_none"\<close> leaves a member out.\<close>

definition skip_none :: "string \<Rightarrow> ('a \<Rightarrow> json) \<Rightarrow> 'a option \<Rightarrow> members" where
  "skip_none k f x = (case x of None \<Rightarrow> [] | Some a \<Rightarrow> [(k, f a)])"

section \<open>Decoding what was encoded\<close>

named_theorems serde_simps "decoders on encoded values"

lemma map_of_skip_none [serde_simps]:
  "map_of (skip_none k f x) = (case x of None \<Rightarrow> Map.empty | Some a \<Rightarrow> [k \<mapsto> f a])"
  by (auto simp: skip_none_def split: option.split)

lemma those_map_decode [serde_simps]:
  "(\<And>x. x \<in> set xs \<Longrightarrow> dec (enc x) = Some x) \<Longrightarrow> those (map dec (map enc xs)) = Some xs"
  by (induction xs) auto

lemma dec_list_encoded:
  "(\<And>x. x \<in> set xs \<Longrightarrow> dec (enc x) = Some x) \<Longrightarrow> dec_list dec (JArr (map enc xs)) = Some xs"
  using those_map_decode [of xs dec enc] by (simp add: dec_list_def as_array_def)

lemma dec_strings [serde_simps]: "dec_list as_str (JArr (map JStr xs)) = Some xs"
  by (rule dec_list_encoded) (simp add: as_str_def)

lemma nullable_simps [serde_simps]:
  "nullable dec JNull = Some None" "nullable as_str (JStr s) = Some (Some s)"
  "nullable as_str (jstr_opt x) = Some x"
  by (simp_all add: nullable_def jstr_opt_def as_str_def split: option.split)

lemmas [serde_simps] = struct_fields_def required_def defaulted_def as_str_def as_bool_def

end
