(* ===== verification/Provider_Client.thy ===== *)
theory Provider_Client
  imports Router Plan_Mode Taxonomy Serde
begin

text \<open>
  The types of a completion, \<open>src/src/providers/mod.rs\<close>, and the two provider clients,
  \<open>src/src/providers/openrouter.rs\<close> and \<open>src/src/providers/fallback.rs\<close>: the preparation of a request, the
  attempts to send it, and the reading of a reply. The transport is the parameter \<open>http\<close>, the reply to the
  n-th request sent; the parser of JSON is part of the codec \<open>C\<close> and \<open>err\<close> is the text of its error.
\<close>

section \<open>Types\<close>

record ChatMessage =
  cm_role :: string
  cm_content :: string

record CompletionRequest =
  cr_model :: string
  cr_models :: "string list option"
  cr_messages :: "ChatMessage list"
  cr_response_format :: "string option"
  cr_max_tokens :: "int option"
  cr_temperature :: "f64 option"

record Usage =
  us_prompt_tokens :: "int option"
  us_completion_tokens :: "int option"
  us_total_tokens :: "int option"

record Choice =
  ch_message :: ChatMessage
  ch_finish_reason :: "string option"
  ch_index :: int

record CompletionResponse =
  cp_choices :: "Choice list"
  cp_usage :: "Usage option"
  cp_model :: "string option"

definition new_request :: "string \<Rightarrow> ChatMessage list \<Rightarrow> CompletionRequest" where
  "new_request model messages =
     \<lparr>cr_model = model, cr_models = None, cr_messages = messages, cr_response_format = None,
      cr_max_tokens = None, cr_temperature = None\<rparr>"

definition with_json_mode :: "CompletionRequest \<Rightarrow> CompletionRequest" where
  "with_json_mode r = r\<lparr>cr_response_format := Some ''json_object''\<rparr>"

definition json_mode_request :: "string \<Rightarrow> string \<Rightarrow> string \<Rightarrow> CompletionRequest" where
  "json_mode_request model system_prompt user_prompt =
     with_json_mode (new_request model
       [\<lparr>cm_role = ''system'', cm_content = system_prompt\<rparr>, \<lparr>cm_role = ''user'', cm_content = user_prompt\<rparr>])"

definition first_choice_content :: "CompletionResponse \<Rightarrow> string option" where
  "first_choice_content r = (case cp_choices r of [] \<Rightarrow> None | c # _ \<Rightarrow> Some (cm_content (ch_message c)))"

definition first_finish_reason :: "CompletionResponse \<Rightarrow> string option" where
  "first_finish_reason r = (case cp_choices r of [] \<Rightarrow> None | c # _ \<Rightarrow> ch_finish_reason c)"

section \<open>Decoding a completion\<close>

definition dec_chat_message :: "json \<Rightarrow> ChatMessage option" where
  "dec_chat_message v = do {
     fs \<leftarrow> struct_fields [''role'', ''content''] v;
     r \<leftarrow> required as_str ''role'' fs;
     c \<leftarrow> required as_str ''content'' fs;
     Some \<lparr>cm_role = r, cm_content = c\<rparr> }"

definition dec_usage :: "json \<Rightarrow> Usage option" where
  "dec_usage v = do {
     fs \<leftarrow> struct_fields [''prompt_tokens'', ''completion_tokens'', ''total_tokens''] v;
     p \<leftarrow> optional v dec_u32 ''prompt_tokens'' fs;
     c \<leftarrow> optional v dec_u32 ''completion_tokens'' fs;
     t \<leftarrow> optional v dec_u32 ''total_tokens'' fs;
     Some \<lparr>us_prompt_tokens = p, us_completion_tokens = c, us_total_tokens = t\<rparr> }"

definition dec_choice :: "json \<Rightarrow> Choice option" where
  "dec_choice v = do {
     fs \<leftarrow> struct_fields [''message'', ''finish_reason'', ''index''] v;
     m \<leftarrow> required dec_chat_message ''message'' fs;
     f \<leftarrow> optional v as_str ''finish_reason'' fs;
     i \<leftarrow> defaulted 0 dec_u32 ''index'' fs;
     Some \<lparr>ch_message = m, ch_finish_reason = f, ch_index = i\<rparr> }"

definition dec_completion :: "json \<Rightarrow> CompletionResponse option" where
  "dec_completion v = do {
     fs \<leftarrow> struct_fields [''choices'', ''usage'', ''model''] v;
     c \<leftarrow> defaulted [] (dec_list dec_choice) ''choices'' fs;
     u \<leftarrow> defaulted None (nullable dec_usage) ''usage'' fs;
     m \<leftarrow> optional v as_str ''model'' fs;
     Some \<lparr>cp_choices = c, cp_usage = u, cp_model = m\<rparr> }"

section \<open>Content of other replies\<close>

text \<open>\<open>trimmed[start..=end]\<close> for the first opening and the last closing brace.\<close>

definition brace_slice :: "string \<Rightarrow> string option" where
  "brace_slice s =
     (if CHR ''{'' \<in> set s \<and> CHR ''}'' \<in> set s then
        (let start = length (takeWhile (\<lambda>c. c \<noteq> CHR ''{'') s);
             end_pos = length s - 1 - length (takeWhile (\<lambda>c. c \<noteq> CHR ''}'') (rev s))
         in if start < end_pos then Some (drop start (take (Suc end_pos) s)) else None)
      else None)"

definition clean_markdown_json :: "string \<Rightarrow> string" where
  "clean_markdown_json raw =
     (let trimmed = trim raw
      in case brace_slice trimmed of Some s \<Rightarrow> s | None \<Rightarrow> strip_fences trimmed)"

definition first_choice :: "json \<Rightarrow> json option" where
  "first_choice raw =
     Option.bind (Option.bind (jget ''choices'' raw) as_array) (\<lambda>xs. case xs of [] \<Rightarrow> None | x # _ \<Rightarrow> Some x)"

definition nonempty_str :: "json \<Rightarrow> string option" where
  "nonempty_str v = (case as_str v of Some s \<Rightarrow> if s = [] then None else Some s | None \<Rightarrow> None)"

definition message_text :: "json \<Rightarrow> string option" where
  "message_text message =
     (case Option.bind (jget ''reasoning_content'' message) nonempty_str of
        Some t \<Rightarrow> Some t
      | None \<Rightarrow>
          (case as_object message of
             Some m \<Rightarrow>
               Option.bind (find (\<lambda>(k, v). nonempty_str v \<noteq> None \<and> k \<noteq> ''role'') m) (\<lambda>(k, v). nonempty_str v)
           | None \<Rightarrow> None))"

definition content_parts :: "json list \<Rightarrow> string list" where
  "content_parts xs =
     List.map_filter (\<lambda>item.
       case as_str item of
         Some t \<Rightarrow> if t = [] then None else Some t
       | None \<Rightarrow> Option.bind (jget ''text'' item) nonempty_str) xs"

definition top_level_text :: "json \<Rightarrow> string option" where
  "top_level_text raw =
     Option.bind (as_object raw) (\<lambda>m.
       Option.bind (find (\<lambda>(k, v). k \<notin> {''model'', ''id'', ''object''} \<and> nonempty_str v \<noteq> None) m)
         (\<lambda>(k, v). nonempty_str v))"

definition extract_content :: "json \<Rightarrow> string option" where
  "extract_content raw =
     (let message = Option.bind (first_choice raw) (jget ''message'');
          standard = Option.bind (Option.bind message (jget ''content'')) nonempty_str;
          other = Option.bind message message_text;
          output_text = Option.bind (jget ''output_text'' raw) nonempty_str;
          parts = (case Option.bind (jget ''content'' raw) as_array of
                     Some xs \<Rightarrow> if content_parts xs = [] then None else Some (join [CHR 0x0A] (content_parts xs))
                   | None \<Rightarrow> None);
          choice_text = Option.bind (Option.bind (first_choice raw) (jget ''text'')) nonempty_str
      in map_option clean_markdown_json
           (or_else standard (or_else other (or_else output_text (or_else parts (or_else choice_text (top_level_text raw)))))))"

section \<open>Sending\<close>

datatype http_reply = Send_Failed string | Replied nat "string + string"

datatype attempt = Done CompletionResponse | Give_Up ProviderError | Try_Again ProviderError

definition lenient_response :: "json \<Rightarrow> CompletionResponse option" where
  "lenient_response raw =
     map_option (\<lambda>content.
       \<lparr>cp_choices = [\<lparr>ch_message = \<lparr>cm_role = ''assistant'', cm_content = content\<rparr>,
                       ch_finish_reason = Some ''stop'', ch_index = 0\<rparr>],
        cp_usage = Option.bind (jget ''usage'' raw) dec_usage,
        cp_model = Option.bind (jget ''model'' raw) as_str\<rparr>) (extract_content raw)"

definition read_reply :: "codec \<Rightarrow> (string \<Rightarrow> string) \<Rightarrow> http_reply \<Rightarrow> attempt" where
  "read_reply C err reply =
     (case reply of
        Send_Failed e \<Rightarrow> Try_Again (Http e)
      | Replied status body \<Rightarrow>
          if \<not> (200 \<le> status \<and> status < 300) then
            (let e = Api status (case body of Inl _ \<Rightarrow> [] | Inr t \<Rightarrow> t)
             in if status < 500 \<and> status \<noteq> 429 then Give_Up e else Try_Again e)
          else
            (case body of
               Inl e \<Rightarrow> Try_Again (Deserialization (''failed to read response body: '' @ e))
             | Inr body_text \<Rightarrow>
                 (case Option.bind (cd_parse C body_text) dec_completion of
                    Some completion \<Rightarrow> Done completion
                  | None \<Rightarrow>
                      (case Option.bind (cd_parse C body_text) lenient_response of
                         Some r \<Rightarrow> Done r
                       | None \<Rightarrow> Try_Again (Deserialization (''error decoding response body: '' @ err body_text))))))"

text \<open>
  The loop of \<open>complete_with_retry\<close> from one attempt on, which the two clients share: the outcome, the
  number of requests sent and the delays in milliseconds.
\<close>

function send_attempts ::
  "u32 \<Rightarrow> u64 \<Rightarrow> (nat \<Rightarrow> attempt) \<Rightarrow> nat \<Rightarrow> nat \<Rightarrow> ProviderError option \<Rightarrow> string \<Rightarrow>
     (ProviderError + CompletionResponse) \<times> nat \<times> u64 list" where
  "send_attempts retry_attempts backoff send k attempt last_error reason =
     (if max 1 (unat retry_attempts) < attempt
      then (Inl (case last_error of Some e \<Rightarrow> e | None \<Rightarrow> AllExhausted retry_attempts reason), k, [])
      else case send k of
             Done response \<Rightarrow> (Inr response, k + 1, [])
           | Give_Up e \<Rightarrow> (Inl e, k + 1, [])
           | Try_Again e \<Rightarrow>
               (case send_attempts retry_attempts backoff send (k + 1) (attempt + 1) (Some e) reason of
                  (result, k', delays) \<Rightarrow>
                    (result, k',
                     (if attempt < max 1 (unat retry_attempts) then [backoff * shl_u64 1 (attempt - 1)] else []) @ delays)))"
  by pat_completeness auto
termination
  by (relation "measure (\<lambda>(n, b, s, k, attempt, e, r). max 1 (unat n) + 1 - attempt)") auto

declare send_attempts.simps [simp del]

section \<open>The OpenRouter client\<close>

record OpenRouterConfig =
  oc_api_key :: string
  oc_model :: string
  oc_base_url :: string
  oc_timeout_seconds :: u64
  oc_retry_attempts :: u32
  oc_retry_backoff_ms :: u64
  oc_fallback_models :: "string list"

definition openrouter_config :: "string \<Rightarrow> string \<Rightarrow> string \<Rightarrow> string \<Rightarrow> OpenRouterConfig" where
  "openrouter_config api_key model base_url fallback_models =
     \<lparr>oc_api_key = api_key, oc_model = model, oc_base_url = base_url, oc_timeout_seconds = 90,
      oc_retry_attempts = 1, oc_retry_backoff_ms = 500,
      oc_fallback_models = filter (\<lambda>s. s \<noteq> []) (map trim (split_char (CHR '','') fallback_models))\<rparr>"

definition completions_url :: "string \<Rightarrow> string" where
  "completions_url base_url = trim_end_matches ''/'' base_url @ ''/chat/completions''"

definition OPENROUTER_MAX_MODELS :: nat where
  "OPENROUTER_MAX_MODELS = 3"

fun add_fallback_models :: "string list \<Rightarrow> string list \<Rightarrow> string list" where
  "add_fallback_models models [] = models"
| "add_fallback_models models (f # fs) =
     (let models' = (if f \<in> set models then models else models @ [f])
      in if OPENROUTER_MAX_MODELS \<le> length models' then models' else add_fallback_models models' fs)"

definition prepare_request :: "OpenRouterConfig \<Rightarrow> CompletionRequest \<Rightarrow> CompletionRequest" where
  "prepare_request cfg request =
     (let r = (if cr_model request = [] then request\<lparr>cr_model := oc_model cfg\<rparr> else request)
      in if cr_models r = None \<and> oc_fallback_models cfg \<noteq> []
         then r\<lparr>cr_models := Some (add_fallback_models [cr_model r] (oc_fallback_models cfg))\<rparr>
         else r)"

text \<open>One call of \<open>complete\<close>: \<open>http r k\<close> is the reply to the \<open>k\<close>-th sending of the request \<open>r\<close>.\<close>

definition openrouter_send ::
  "codec \<Rightarrow> (string \<Rightarrow> string) \<Rightarrow> (CompletionRequest \<Rightarrow> nat \<Rightarrow> http_reply) \<Rightarrow> OpenRouterConfig \<Rightarrow> CompletionRequest \<Rightarrow> nat \<Rightarrow> attempt" where
  "openrouter_send C err http cfg request n = read_reply C err (http (prepare_request cfg request) n)"

definition openrouter_complete ::
  "codec \<Rightarrow> (string \<Rightarrow> string) \<Rightarrow> (CompletionRequest \<Rightarrow> nat \<Rightarrow> http_reply) \<Rightarrow> OpenRouterConfig \<Rightarrow> CompletionRequest \<Rightarrow> nat \<Rightarrow>
     (ProviderError + CompletionResponse) \<times> nat \<times> u64 list" where
  "openrouter_complete C err http cfg request k =
     send_attempts (oc_retry_attempts cfg) (oc_retry_backoff_ms cfg)
       (openrouter_send C err http cfg request) k 1 None
       ''openrouter: all retry attempts exhausted''"

section \<open>The adapter client\<close>

record FallbackProviderConfig =
  fc_base_url :: string
  fc_hmac_secret :: string
  fc_timeout_seconds :: u64
  fc_retry_attempts :: u32
  fc_retry_backoff_ms :: u64

definition fallback_config :: "string \<Rightarrow> string \<Rightarrow> FallbackProviderConfig option" where
  "fallback_config fallback_url hmac_secret =
     (let url = trim fallback_url
      in if url = [] then None
         else Some \<lparr>fc_base_url = url, fc_hmac_secret = hmac_secret, fc_timeout_seconds = 90,
                    fc_retry_attempts = 2, fc_retry_backoff_ms = 500\<rparr>)"

definition fallback_complete ::
  "codec \<Rightarrow> (string \<Rightarrow> string) \<Rightarrow> (CompletionRequest \<Rightarrow> nat \<Rightarrow> http_reply) \<Rightarrow> FallbackProviderConfig \<Rightarrow> CompletionRequest \<Rightarrow> nat \<Rightarrow>
     (ProviderError + CompletionResponse) \<times> nat \<times> u64 list" where
  "fallback_complete C err http cfg request k =
     send_attempts (fc_retry_attempts cfg) (fc_retry_backoff_ms cfg)
       (\<lambda>n. read_reply C err (http request n)) k 1 None
       ''fallback-adapter: all retry attempts exhausted''"

section \<open>Signed requests\<close>

record SignedRequest =
  sr_request_id :: string
  sr_generation_id :: string
  sr_timestamp :: string
  sr_signature_algorithm :: string
  sr_signature :: string

definition sign_request :: "(string \<Rightarrow> string \<Rightarrow> string) \<Rightarrow> string \<Rightarrow> string \<Rightarrow> string \<Rightarrow> string" where
  "sign_request hmac_hex secret timestamp payload = hmac_hex secret (timestamp @ ''.'' @ payload)"

definition build_signed ::
  "(string \<Rightarrow> string \<Rightarrow> string) \<Rightarrow> string \<Rightarrow> string \<Rightarrow> datetime \<Rightarrow> string \<Rightarrow> string \<Rightarrow> SignedRequest" where
  "build_signed hmac_hex secret request_id now generation_id payload =
     (let timestamp = show_int (now div 10 ^ 9)
      in \<lparr>sr_request_id = request_id, sr_generation_id = generation_id, sr_timestamp = timestamp,
          sr_signature_algorithm = ''hmac-sha256'',
          sr_signature = sign_request hmac_hex secret timestamp payload\<rparr>)"

section \<open>What the clients do\<close>

definition retried :: "(nat \<Rightarrow> attempt) \<Rightarrow> nat \<Rightarrow> nat \<Rightarrow> bool" where
  "retried send k n \<longleftrightarrow> (\<forall>i < n. \<exists>e. send (k + i) = Try_Again e)"

definition attempt_result :: "attempt \<Rightarrow> ProviderError + CompletionResponse" where
  "attempt_result a = (case a of Done r \<Rightarrow> Inr r | Give_Up e \<Rightarrow> Inl e | Try_Again e \<Rightarrow> Inl e)"

definition is_retry :: "attempt \<Rightarrow> bool" where
  "is_retry a \<longleftrightarrow> (case a of Try_Again _ \<Rightarrow> True | _ \<Rightarrow> False)"

text \<open>The requests after which an attempt is decisive, or the last one is reached.\<close>

lemma send_attempts_result:
  assumes "retried send k n" and "attempt + n \<le> max 1 (unat tries)"
    and "\<not> is_retry (send (k + n)) \<or> attempt + n = max 1 (unat tries)"
  shows "\<exists>delays. send_attempts tries b send k attempt last_error reason = (attempt_result (send (k + n)), k + n + 1, delays) \<and>
    length delays = n"
  using assms
proof (induction n arbitrary: k attempt last_error)
  case 0
  obtain M where M: "max 1 (unat tries) = M" by simp
  note step = send_attempts.simps [of tries b send, unfolded M]
  show ?case
  proof (cases "send k")
    case (Try_Again e)
    then have "attempt = M" using 0 M by (auto simp: is_retry_def)
    then show ?thesis using Try_Again by (simp add: step [of k] step [of "Suc k"] attempt_result_def)
  qed (use 0 M in \<open>simp_all add: step [of k] attempt_result_def\<close>)
next
  case (Suc n)
  obtain e where e: "send k = Try_Again e" using Suc.prems(1) by (auto simp: retried_def)
  have "retried send (k + 1) n"
    unfolding retried_def
  proof (intro allI impI)
    fix i assume "i < n"
    then show "\<exists>e. send (k + 1 + i) = Try_Again e"
      using Suc.prems(1) spec [of "\<lambda>i. i < Suc n \<longrightarrow> (\<exists>e. send (k + i) = Try_Again e)" "Suc i"]
      by (simp add: retried_def)
  qed
  then obtain delays where "send_attempts tries b send (k + 1) (attempt + 1) (Some e) reason =
      (attempt_result (send (k + 1 + n)), k + 1 + n + 1, delays)" "length delays = n"
    using Suc.IH [of "k + 1" "attempt + 1" "Some e"] Suc.prems(2,3) by auto
  then show ?case
    using e Suc.prems(2) by (subst send_attempts.simps) auto
qed

definition failover_list :: "string list \<Rightarrow> string list \<Rightarrow> string list \<Rightarrow> bool" where
  "failover_list ms fs r \<longleftrightarrow>
     distinct r \<and> length r \<le> 3 \<and> take (length ms) r = ms \<and> set r \<subseteq> set ms \<union> set fs \<and>
     (set fs \<subseteq> set r \<or> length r = 3)"

lemma add_fallback_models_spec:
  "distinct ms \<Longrightarrow> length ms < 3 \<Longrightarrow> failover_list ms fs (add_fallback_models ms fs)"
proof (induction fs arbitrary: ms)
  case (Cons f fs)
  let ?ms = "if f \<in> set ms then ms else ms @ [f]"
  show ?case
  proof (cases "3 \<le> length ?ms")
    case True
    then show ?thesis
      using Cons.prems by (auto simp: failover_list_def OPENROUTER_MAX_MODELS_def Let_def split: if_splits)
  next
    case False
    define r where "r = add_fallback_models ?ms fs"
    have IH: "failover_list ?ms fs r"
      unfolding r_def using False Cons.prems by (intro Cons.IH) auto
    have "take (length ms) r = take (length ms) (take (length ?ms) r)" by simp
    also have "\<dots> = ms" using IH by (auto simp: failover_list_def)
    finally have "take (length ms) r = ms" .
    moreover have "set ?ms \<subseteq> set r"
      using IH set_take_subset [of "length ?ms" r] by (simp add: failover_list_def)
    moreover have "add_fallback_models ms (f # fs) = r"
      using False by (simp add: OPENROUTER_MAX_MODELS_def Let_def r_def)
    ultimately show ?thesis using IH by (auto simp: failover_list_def split: if_splits)
  qed
qed (simp add: failover_list_def)

text \<open>
  C33. A client returns the first decisive reply: with \<open>n\<close> retryable replies before it, fewer than the number
  of attempts, it sends \<open>n + 1\<close> requests and sleeps \<open>n\<close> times; if every attempt is retryable it returns the error of the last.
\<close>
theorem openrouter_first_decisive_reply:
  assumes "retried (openrouter_send C err http cfg request) k n" and "n < max 1 (unat (oc_retry_attempts cfg))"
    and "\<not> is_retry (openrouter_send C err http cfg request (k + n)) \<or> n + 1 = max 1 (unat (oc_retry_attempts cfg))"
  shows "\<exists>delays. openrouter_complete C err http cfg request k =
    (attempt_result (openrouter_send C err http cfg request (k + n)), k + n + 1, delays) \<and> length delays = n"
  unfolding openrouter_complete_def using assms by (intro send_attempts_result) auto

definition no_codec :: codec where
  "no_codec = \<lparr>cd_parse = (\<lambda>_. None), cd_regex = undefined, cd_len = length\<rparr>"

theorem openrouter_first_decisive_reply_witness:
  "\<exists>delays. openrouter_complete no_codec (\<lambda>_. [])
     (\<lambda>_ n. if n = 0 then Replied 503 (Inr ''busy'') else Replied 401 (Inr ''no''))
     ((openrouter_config ''key'' ''m'' ''u'' ''a, b'')\<lparr>oc_retry_attempts := 3\<rparr>) (new_request [] []) 0 =
     (Inl (Api 401 ''no''), Suc 1, delays) \<and> length delays = 1"
  using openrouter_first_decisive_reply [of no_codec "\<lambda>_. []"
      "\<lambda>_ n. if n = 0 then Replied 503 (Inr ''busy'') else Replied 401 (Inr ''no'')"
      "(openrouter_config ''key'' ''m'' ''u'' ''a, b'')\<lparr>oc_retry_attempts := 3\<rparr>" "new_request [] []" 0 1]
  by (simp add: retried_def is_retry_def openrouter_send_def read_reply_def attempt_result_def Let_def)

text \<open>
  The models sent for failover are at most three, without repetition, the requested model first, the others
  from the configured list; every configured model is among them unless three were reached.
\<close>
theorem failover_models:
  assumes "cr_models request = None" and "oc_fallback_models cfg \<noteq> []"
  shows "\<exists>ms. cr_models (prepare_request cfg request) = Some (cr_model (prepare_request cfg request) # ms) \<and>
    distinct (cr_model (prepare_request cfg request) # ms) \<and> length ms \<le> 2 \<and> set ms \<subseteq> set (oc_fallback_models cfg) \<and>
    (set (oc_fallback_models cfg) \<subseteq> set (cr_model (prepare_request cfg request) # ms) \<or> length ms = 2)"
proof -
  let ?r = "prepare_request cfg request"
  define r where "r = add_fallback_models [cr_model ?r] (oc_fallback_models cfg)"
  have "cr_models ?r = Some r" using assms by (simp add: prepare_request_def Let_def r_def)
  moreover have "failover_list [cr_model ?r] (oc_fallback_models cfg) r"
    unfolding r_def by (rule add_fallback_models_spec) simp_all
  ultimately show ?thesis by (cases r) (auto simp: failover_list_def)
qed

theorem failover_models_witness:
  "\<exists>ms. cr_models (prepare_request (openrouter_config ''k'' ''m'' ''u'' ''a'') (new_request [] [])) = Some (''m'' # ms) \<and>
     distinct (''m'' # ms) \<and> length ms \<le> 2 \<and> set ms \<subseteq> {''a''}"
proof -
  have c: "oc_fallback_models (openrouter_config ''k'' ''m'' ''u'' ''a'') = [''a'']" by code_simp
  have "cr_model (prepare_request (openrouter_config ''k'' ''m'' ''u'' ''a'') (new_request [] [])) = ''m''" by code_simp
  with failover_models [of "new_request [] []" "openrouter_config ''k'' ''m'' ''u'' ''a''"] c
  show ?thesis by (auto simp: new_request_def)
qed

end
