(* ===== verification/Llm_Service.thy ===== *)
theory Llm_Service
  imports Cache Ledger Provider_Client
begin

text \<open>
  What the three services over the model have in common, from \<open>src/src/llm/interpret.rs\<close>,
  \<open>src/src/llm/draft.rs\<close> and \<open>src/src/llm/respond.rs\<close>: the check of the limits, the look into the cache,
  the lock of a key and the wait for another session, the call of the provider and what is recorded of it.
  The three files repeat these steps with their own decoders and results; the steps are written once here,
  with the parts that differ as arguments.
\<close>

section \<open>State\<close>

text \<open>
  The tables, the failures in a row the router has counted, and the calls the providers have seen.
\<close>

record llm_state =
  ll_cache :: cache_db
  ll_gov :: gov_db
  ll_ledger :: ledger_db
  ll_failures :: u32
  ll_calls :: provider_calls

text \<open>
  What does not change from request to request: the functions of other crates, the providers and the
  settings of the router, the row a deletion returns first, the hash of a lock, the subjects of the
  taxonomy with the sort the ranking uses, and the texts of contract and database errors.
\<close>

record llm_world =
  lw_ext :: externals
  lw_codec :: codec
  lw_pretty :: "json \<Rightarrow> string"
  lw_arith :: decimal_arith
  lw_pick :: "int list \<Rightarrow> int"
  lw_lock_hash :: "string \<Rightarrow> int"
  lw_primary :: "CompletionRequest \<Rightarrow> CompletionResponse provider"
  lw_fallback :: "(CompletionRequest \<Rightarrow> CompletionResponse provider) option"
  lw_retry :: RetryConfig
  lw_threshold :: u32
  lw_contract_text :: "ContractValidationError \<Rightarrow> string"
  lw_sorter :: "(CandidateScore \<Rightarrow> CandidateScore \<Rightarrow> ordering) \<Rightarrow> CandidateScore list \<Rightarrow> CandidateScore list option"
  lw_tools :: text_tools
  lw_upper :: "string \<Rightarrow> string"
  lw_subjects :: "json list"

text \<open>
  What one request meets: its identifier, the clocks where the code reads them, the sessions of the pool its
  two lock statements run on, and what other sessions do to the cache between the looks of a wait.
\<close>

record llm_moment =
  lm_request_id :: string
  lm_preflight_now :: datetime
  lm_lookup_instant :: int
  lm_hit_millis :: int
  lm_wait_millis :: int
  lm_call_millis :: int
  lm_store_instant :: int
  lm_store_now :: datetime
  lm_ledger_now :: datetime
  lm_usage_now :: datetime
  lm_fallback_now :: datetime
  lm_lock_session :: nat
  lm_unlock_session :: nat
  lm_wait_start :: nat
  lm_wait_lag :: "nat \<Rightarrow> nat"
  lm_wait_others :: "nat \<Rightarrow> cache_db \<Rightarrow> cache_db"

text \<open>The error of a service; the three enumerations have the same cases.\<close>

datatype llm_error =
    RateLimited string string
  | Provider ProviderError
  | Cache_error sqlx_error
  | Governance sqlx_error
  | Cached_payload_corrupt json

abbreviation on_cache :: "(cache_db, 'e, 'a) act \<Rightarrow> (llm_state, 'e, 'a) act" where
  "on_cache \<equiv> zoom ll_cache (\<lambda>t s. s\<lparr>ll_cache := t\<rparr>)"

abbreviation on_gov :: "(gov_db, 'e, 'a) act \<Rightarrow> (llm_state, 'e, 'a) act" where
  "on_gov \<equiv> zoom ll_gov (\<lambda>t s. s\<lparr>ll_gov := t\<rparr>)"

abbreviation on_ledger :: "(ledger_db, 'e, 'a) act \<Rightarrow> (llm_state, 'e, 'a) act" where
  "on_ledger \<equiv> zoom ll_ledger (\<lambda>t s. s\<lparr>ll_ledger := t\<rparr>)"

definition PROVIDER :: string where
  "PROVIDER = ''openrouter''"

definition latency :: "int \<Rightarrow> decimal" where
  "latency millis = decimal_new (wrap_i64 millis) 3"

section \<open>The provider\<close>

definition router_of :: "llm_world \<Rightarrow> llm_state \<Rightarrow> CompletionRequest \<Rightarrow> CompletionResponse ProviderRouter" where
  "router_of W s request =
     \<lparr>rt_primary = lw_primary W request, rt_fallback = map_option (\<lambda>f. f request) (lw_fallback W),
      rt_retry_config = lw_retry W, rt_consecutive_failures = ll_failures s, rt_threshold = lw_threshold W\<rparr>"

definition call_provider ::
  "llm_world \<Rightarrow> CompletionRequest \<Rightarrow> (llm_state, 'e, ProviderError + CompletionResponse) act" where
  "call_provider W request s =
     (case complete (router_of W s request) (ll_calls s) of
        (reply, r, calls, _) \<Rightarrow> (Inr reply, s\<lparr>ll_failures := rt_consecutive_failures r, ll_calls := calls\<rparr>))"

definition completion_text :: "CompletionResponse \<Rightarrow> string" where
  "completion_text response = (case first_choice_content response of Some c \<Rightarrow> c | None \<Rightarrow> [])"

definition usage_tokens :: "(Usage \<Rightarrow> int option) \<Rightarrow> CompletionResponse \<Rightarrow> int option" where
  "usage_tokens field response =
     map_option (\<lambda>u. case field u of Some n \<Rightarrow> n | None \<Rightarrow> 0) (cp_usage response)"

definition or_zero :: "int option \<Rightarrow> int" where
  "or_zero x = (case x of Some n \<Rightarrow> n | None \<Rightarrow> 0)"

definition served_by :: "string \<Rightarrow> CompletionResponse \<Rightarrow> string" where
  "served_by otherwise response = (case cp_model response of Some m \<Rightarrow> m | None \<Rightarrow> otherwise)"

definition contract_code :: "ContractValidationError \<Rightarrow> string" where
  "contract_code e =
     (case e of Empty_Completion _ \<Rightarrow> ''empty_completion'' | _ \<Rightarrow> ''provider_response_contract_invalid'')"

section \<open>Recording\<close>

text \<open>The row of a cache hit.\<close>

definition record_hit ::
  "llm_moment \<Rightarrow> string \<Rightarrow> string \<Rightarrow> string \<Rightarrow> string \<Rightarrow> string \<Rightarrow> decimal \<Rightarrow> (string \<times> json) list \<Rightarrow>
     (llm_state, 'e, unit) act" where
  "record_hit M route request_type model generation_id cache_key latency_ms metadata =
     ignore_err (on_ledger (record_completed (lm_ledger_now M) (lm_request_id M) generation_id route request_type
       PROVIDER PROVIDER model model (Some latency_ms) 0 Hit None None None (Some 0) False None [PROVIDER]
       (Some cache_key) (JObj metadata)))"

text \<open>
  After a reply: the payload is cached unless it is a fallback, the call is entered into the ledger with its
  cost, and the usage is counted under every policy that applies.
\<close>

definition record_reply ::
  "llm_world \<Rightarrow> llm_moment \<Rightarrow> CacheRoute \<Rightarrow> string \<Rightarrow> string \<Rightarrow> string \<Rightarrow> string \<Rightarrow> string \<Rightarrow> string \<Rightarrow> decimal \<Rightarrow> bool \<Rightarrow>
     string option \<Rightarrow> json \<Rightarrow> CompletionResponse \<Rightarrow> (llm_state, 'e, unit) act" where
  "record_reply W M cache_route route request_type source model generation_id cache_key latency_ms should_cache
      fallback_reason payload response =
     (let fallback_used = (fallback_reason \<noteq> None);
          token_count = usage_tokens us_total_tokens response;
          input_tokens = usage_tokens us_prompt_tokens response;
          output_tokens = usage_tokens us_completion_tokens response
      in and_then
           (if should_cache \<and> \<not> fallback_used
            then ignore_err (on_cache (store (lw_pick W) (lm_store_instant M) (lm_store_now M) cache_route cache_key
                   (JObj []) payload None))
            else ok ()) (\<lambda>_.
         and_then (on_ledger (estimate_cost (lw_arith W) PROVIDER model (or_zero input_tokens) (or_zero output_tokens))) (\<lambda>cost.
         and_then (ignore_err (on_ledger (record_completed (lm_ledger_now M) (lm_request_id M) generation_id route
             request_type (served_by PROVIDER response) PROVIDER (served_by model response) model (Some latency_ms) 0
             (if fallback_used then Bypass else Miss) input_tokens output_tokens token_count
             (Some (co_total_cost_usd cost)) fallback_used fallback_reason [PROVIDER] (Some cache_key)
             (JObj [(''source'', JStr source), (''cache_hit'', JBool False), (''fallback_used'', JBool fallback_used)])))) (\<lambda>_.
         ignore_err (on_gov (record_governance_usage route PROVIDER model input_tokens output_tokens token_count
           (co_total_cost_usd cost) (lm_request_id M) generation_id (lm_usage_now M)))))))"

text \<open>After the providers have failed.\<close>

definition record_provider_failure ::
  "llm_moment \<Rightarrow> string \<Rightarrow> string \<Rightarrow> string \<Rightarrow> string \<Rightarrow> string \<Rightarrow> string \<Rightarrow> ProviderError \<Rightarrow> (llm_state, 'e, unit) act" where
  "record_provider_failure M route request_type source error_class model generation_id e =
     ignore_err (on_ledger (record_failure (lm_ledger_now M) (lm_request_id M) generation_id route request_type
       PROVIDER PROVIDER model model Miss (Some error_class) (Some (show_provider_error e)) False None [PROVIDER]
       (JObj [(''source'', JStr source), (''error'', JStr (show_provider_error e))])))"

definition provider_headers :: "string \<Rightarrow> string \<Rightarrow> bool \<Rightarrow> bool \<Rightarrow> (string \<rightharpoonup> string)" where
  "provider_headers provider model cache_hit fallback_used =
     [''x-klass-provider'' \<mapsto> provider, ''x-klass-model'' \<mapsto> model,
      ''x-klass-cache-status'' \<mapsto> (if cache_hit then ''hit'' else ''miss''),
      ''x-klass-fallback-used'' \<mapsto> (if fallback_used then ''true'' else ''false'')]"

section \<open>The steps of a request\<close>

text \<open>
  The wait for the entry of another session with the default interval and timeout, 50 milliseconds and 10
  seconds: 202 looks are enough (\<open>wait_entry_returns\<close>).
\<close>

definition wait_entry :: "llm_moment \<Rightarrow> CacheRoute \<Rightarrow> string \<Rightarrow> (cache_db, sqlx_error, CacheEntry option) act" where
  "wait_entry M cache_route cache_key s =
     (case wait_for_entry 202 (lm_wait_lag M) (lm_wait_others M) (lm_wait_start M) cache_route cache_key None None s of
        Some r \<Rightarrow> r
      | None \<Rightarrow> (Inl Panic, s))"

text \<open>
  From the limits to the result: \<open>hit\<close> and \<open>waited\<close> make the result from an entry, \<open>execute b\<close> calls the
  provider and caches if \<open>b\<close>. The lock is released after \<open>execute\<close> returns, with an error too, but not
  when it panics.
\<close>

definition release_after ::
  "llm_world \<Rightarrow> llm_moment \<Rightarrow> CacheRoute \<Rightarrow> string \<Rightarrow> bool \<Rightarrow> (llm_state, llm_error, 'r) act \<Rightarrow> (llm_state, llm_error, 'r) act" where
  "release_after W M cache_route cache_key lock_acquired m =
     and_then (try_err m) (\<lambda>result.
     and_then (if lock_acquired
               then ignore_err (on_cache (release_lock (lw_lock_hash W) (lm_unlock_session M) cache_route cache_key))
               else ok ()) (\<lambda>_.
       case result of Inl e \<Rightarrow> raise e | Inr r \<Rightarrow> ok r))"

definition serve_miss ::
  "llm_world \<Rightarrow> llm_moment \<Rightarrow> CacheRoute \<Rightarrow> string \<Rightarrow> (CacheEntry \<Rightarrow> (llm_state, llm_error, 'r) act) \<Rightarrow>
     (llm_state, llm_error, 'r) act \<Rightarrow> (llm_state, llm_error, 'r) act" where
  "serve_miss W M cache_route cache_key waited execute =
     and_then (map_err Cache_error (on_cache
         (try_acquire_lock (lw_lock_hash W) (lm_lock_session M) cache_route cache_key))) (\<lambda>lock_acquired.
     and_then (if lock_acquired then ok None
               else map_err Cache_error (on_cache (wait_entry M cache_route cache_key))) (\<lambda>other.
       case other of
         Some entry \<Rightarrow> waited entry
       | None \<Rightarrow> release_after W M cache_route cache_key lock_acquired execute))"

definition serve ::
  "llm_world \<Rightarrow> llm_moment \<Rightarrow> CacheRoute \<Rightarrow> string \<Rightarrow> int \<Rightarrow> int \<Rightarrow> string \<Rightarrow> string \<Rightarrow> string \<Rightarrow> bool \<Rightarrow>
     (CacheEntry \<Rightarrow> (llm_state, llm_error, 'r) act) \<Rightarrow> (CacheEntry \<Rightarrow> (llm_state, llm_error, 'r) act) \<Rightarrow>
     (bool \<Rightarrow> (llm_state, llm_error, 'r) act) \<Rightarrow> (llm_state, llm_error, 'r) act" where
  "serve W M cache_route route projected_input projected_output model generation_id cache_key bypass_cache hit waited execute =
     and_then (on_ledger (estimate_cost (lw_arith W) PROVIDER model projected_input projected_output)) (\<lambda>projected_cost.
     and_then (map_err Governance (on_gov (preflight_check (lm_preflight_now M) route PROVIDER model
         (Some (co_total_cost_usd projected_cost)) (lm_request_id M) generation_id))) (\<lambda>decision.
       case pd_action decision of
         Deny \<Rightarrow> raise (RateLimited (lm_request_id M) generation_id)
       | Degrade \<Rightarrow> execute False
       | Allow \<Rightarrow>
           and_then (if bypass_cache then ok None
                     else map_err Cache_error (on_cache (lookup (lw_pick W) (lm_lookup_instant M) cache_route cache_key))) (\<lambda>cached.
           case cached of
             Some entry \<Rightarrow> hit entry
           | None \<Rightarrow> serve_miss W M cache_route cache_key waited (execute (\<not> bypass_cache)))))"

definition read_cached :: "(json \<Rightarrow> 'p option) \<Rightarrow> CacheEntry \<Rightarrow> (llm_state, llm_error, 'p) act" where
  "read_cached decode entry =
     ok_or (Cached_payload_corrupt (ce_response_payload entry)) (decode (ce_response_payload entry))"

section \<open>Laws\<close>

lemma wp_call_provider:
  "(\<And>reply f c. Q reply (s\<lparr>ll_failures := f, ll_calls := c\<rparr>)) \<Longrightarrow> wp (call_provider W request) Q R s"
  by (auto simp: wp_def call_provider_def split: prod.splits)

lemma wp_true: "wp m (\<lambda>_ _. True) (\<lambda>_ _. True) s"
  by (auto simp: wp_def split: prod.splits sum.splits)

lemma wait_entry_returns:
  "wait_for_entry 202 lag others start route key None None s \<noteq> None"
  using wait_for_entry_enough [of None None 202 lag others start route key s] by auto

text \<open>
  The responses in the cache, each as its key says: only a store adds one, and every other statement keeps
  what is there.
\<close>

definition cached_ok :: "(string \<Rightarrow> json \<Rightarrow> bool) \<Rightarrow> cache_db \<Rightarrow> bool" where
  "cached_ok G s \<longleftrightarrow> (\<forall>(k, r) \<in> set (cc_rows s). G k (cw_response_payload r))"

abbreviation entry_ok :: "(string \<Rightarrow> json \<Rightarrow> bool) \<Rightarrow> string \<Rightarrow> CacheEntry option \<Rightarrow> bool" where
  "entry_ok G key e \<equiv> pred_option (\<lambda>c. G key (ce_response_payload c)) e"

lemma cached_ok_fields [simp]:
  "cached_ok G (s\<lparr>cc_faults := fs\<rparr>) = cached_ok G s" "cached_ok G (s\<lparr>cc_locks := ls\<rparr>) = cached_ok G s"
  "cached_ok G (s\<lparr>cc_lazy_cleanup_last := l\<rparr>) = cached_ok G s" "cached_ok G (s\<lparr>cc_next_id := i\<rparr>) = cached_ok G s"
  by (simp_all add: cached_ok_def)

lemma cached_ok_filter: "cached_ok G s \<Longrightarrow> cached_ok G (s\<lparr>cc_rows := filter P (cc_rows s)\<rparr>)"
  by (auto simp: cached_ok_def)

lemma cached_ok_update:
  "cached_ok G s \<Longrightarrow> G key (cw_response_payload r) \<Longrightarrow> cached_ok G (s\<lparr>cc_rows := AList.update key r (cc_rows s)\<rparr>)"
proof -
  have "set (AList.update key r xs) \<subseteq> insert (key, r) (set xs)" for xs :: "(string \<times> CacheRow) list"
    by (induction xs) auto
  then show "cached_ok G s \<Longrightarrow> G key (cw_response_payload r) \<Longrightarrow> ?thesis"
    by (fastforce simp: cached_ok_def)
qed

lemma cached_ok_row: "cached_ok G s \<Longrightarrow> unexpired key route s = Some r \<Longrightarrow> G key (cw_response_payload r)"
  by (auto simp: cached_ok_def unexpired_def split: option.splits if_splits dest!: map_of_SomeD)

lemma wp_cached_statement:
  assumes "cached_ok G s"
    and "\<And>t a u. cached_ok G t \<Longrightarrow> f t = (Inr a, u) \<Longrightarrow> cached_ok G u \<and> P a"
  shows "wp (cache_statement f) (\<lambda>a t. cached_ok G t \<and> P a) (\<lambda>x t. cached_ok G t) s"
  using assms(1) assms(2) [of "s\<lparr>cc_faults := tl (cc_faults s)\<rparr>"]
  by (intro wp_cache_statementI) auto

lemma wp_cached_mono:
  assumes "wp m (\<lambda>a t. cached_ok G t \<and> P a) (\<lambda>x t. cached_ok G t) s"
    and "\<And>a t. cached_ok G t \<Longrightarrow> P a \<Longrightarrow> Q a t" and "\<And>x t. cached_ok G t \<Longrightarrow> R x t"
  shows "wp m Q R s"
  using assms by (auto elim: wp_mono)

lemma wp_cached_cleanup:
  assumes "cached_ok G s"
  shows "wp (maybe_run_lazy_cleanup pick inst route) (\<lambda>_. cached_ok G) (\<lambda>x. cached_ok G) s"
proof -
  have clean: "wp (cleanup_expired pick route 100) (\<lambda>a t. cached_ok G t \<and> True) (\<lambda>x t. cached_ok G t) t"
    if "cached_ok G t" for t
    unfolding cleanup_expired_def wp_simps
    by (rule wp_cached_mono [OF wp_cached_statement [OF that, where P = "\<lambda>_. True"]])
       (auto simp: Let_def cached_ok_filter)
  show ?thesis
    using assms
    by (auto simp: maybe_run_lazy_cleanup_def wp_simps Let_def intro!: wp_mono [OF clean] split: exn.split)
qed

lemma wp_cached_lookup:
  assumes "cached_ok G s"
  shows "wp (lookup pick inst route key) (\<lambda>e t. cached_ok G t \<and> entry_ok G key e) (\<lambda>x t. cached_ok G t) s"
proof -
  have touch: "wp (touch key route) (\<lambda>e t. cached_ok G t \<and> entry_ok G key e) (\<lambda>x t. cached_ok G t) t" if "cached_ok G t" for t
    unfolding touch_def
    by (rule wp_cached_statement [OF that])
       (auto simp: Let_def cache_entry_def intro!: cached_ok_update dest: cached_ok_row split: option.splits if_splits)
  have delete: "wp (delete_expired_by_key key) (\<lambda>e t. cached_ok G t \<and> True) (\<lambda>x t. cached_ok G t) t" if "cached_ok G t" for t
    unfolding delete_expired_by_key_def
    by (rule wp_cached_statement [OF that, where P = "\<lambda>_. True"]) (auto simp: cached_ok_filter)
  show ?thesis
    unfolding lookup_def wp_simps
    by (rule wp_mono [OF wp_cached_cleanup [OF assms]]) (auto intro: wp_cached_mono [OF delete] touch)
qed

lemma wp_cached_store:
  assumes "cached_ok G s" and "G key v"
  shows "wp (store pick inst now route key req v ttl) (\<lambda>_. cached_ok G) (\<lambda>x. cached_ok G) s"
proof -
  have upsert: "wp (upsert key route req v e) (\<lambda>_ t. cached_ok G t \<and> True) (\<lambda>x t. cached_ok G t) t" if "cached_ok G t" for t e
    unfolding upsert_def
    by (rule wp_cached_statement [OF that, where P = "\<lambda>_. True"])
       (auto simp: Let_def assms(2) intro!: cached_ok_update split: option.splits)
  show ?thesis
    unfolding store_def wp_simps Let_def
    by (rule wp_mono [OF wp_cached_cleanup [OF assms(1)]])
       (auto split: option.split intro: wp_cached_mono [OF upsert])
qed

lemma wp_cached_locks:
  assumes "cached_ok G s"
  shows "wp (try_acquire_lock h sess route key) (\<lambda>_ t. cached_ok G t \<and> True) (\<lambda>x t. cached_ok G t) s"
    "wp (release_lock h sess route key) (\<lambda>_ t. cached_ok G t \<and> True) (\<lambda>x t. cached_ok G t) s"
  unfolding try_acquire_lock_def release_lock_def Let_def
  by (rule wp_cached_statement [OF assms, where P = "\<lambda>_. True"]; auto split: if_splits)+

lemma cached_wait_polls:
  assumes "\<And>k t. cached_ok G t \<Longrightarrow> cached_ok G (others k t)" and "cached_ok G s"
    and "wait_polls fuel k lag others interval deadline route key now s = Some (r, t)"
  shows "cached_ok G t \<and> (\<forall>e. r = Inr e \<longrightarrow> entry_ok G key e) \<and> r \<noteq> Inl Panic"
  using assms(2,3)
proof (induction fuel arbitrary: k now s)
  case (Suc fuel)
  have peek: "wp (peek route key) (\<lambda>e t. cached_ok G t \<and> entry_ok G key e) (\<lambda>x t. cached_ok G t) s"
    unfolding peek_def
    by (rule wp_cached_statement [OF Suc.prems(1)])
       (auto simp: cache_entry_def option.pred_map comp_def option.pred_set dest: cached_ok_row)
  have "fst (peek route key s) \<noteq> Inl Panic"
    by (auto simp: peek_def cache_statement_def Let_def split: list.split option.split)
  moreover have "cached_ok G t \<and> (\<forall>e. r = Inr e \<longrightarrow> entry_ok G key e) \<and> r \<noteq> Inl Panic"
    if "peek route key s = (Inr None, u)"
      "wait_polls fuel (Suc k) lag others interval deadline route key (now + lag k + interval) (others k u) = Some (r, t)" for u
    using Suc.IH [OF _ that(2)] assms(1) [of u] peek that(1) by (auto simp: wp_def)
  ultimately show ?case
    using Suc.prems(2) peek by (auto simp: wp_def split: prod.splits sum.splits option.splits if_splits)
qed simp

lemma wp_cached_wait:
  assumes "\<And>k t. cached_ok G t \<Longrightarrow> cached_ok G (lm_wait_others M k t)" and "cached_ok G s"
  shows "wp (wait_entry M route key) (\<lambda>e t. cached_ok G t \<and> entry_ok G key e) (\<lambda>x t. cached_ok G t) s"
proof -
  obtain r t where run: "wait_for_entry 202 (lm_wait_lag M) (lm_wait_others M) (lm_wait_start M) route key None None s = Some (r, t)"
    using wait_entry_returns [of "lm_wait_lag M" "lm_wait_others M" "lm_wait_start M" route key s] by auto
  from cached_wait_polls [OF assms run [unfolded wait_for_entry_def Let_def]] run show ?thesis
    by (auto simp: wp_def wait_entry_def split: sum.split)
qed

definition corrupt :: "llm_error exn \<Rightarrow> bool" where
  "corrupt x \<longleftrightarrow> (\<exists>v. x = Error (Cached_payload_corrupt v))"

lemma not_corrupt [simp]:
  "\<not> corrupt Panic" "\<not> corrupt (Error (RateLimited r g))" "\<not> corrupt (Error (Provider p))"
  "\<not> corrupt (map_exn Governance x)" "\<not> corrupt (map_exn Cache_error x)"
  by (cases x; simp add: corrupt_def)+

text \<open>
  The contract of an action on the services' state that keeps the cache in order and reads nothing that
  does not decode.
\<close>

definition orderly :: "(string \<Rightarrow> json \<Rightarrow> bool) \<Rightarrow> (llm_state, llm_error, 'a) act \<Rightarrow> bool" where
  "orderly G m \<longleftrightarrow> (\<forall>s. cached_ok G (ll_cache s) \<longrightarrow>
     wp m (\<lambda>_ t. cached_ok G (ll_cache t)) (\<lambda>x t. cached_ok G (ll_cache t) \<and> \<not> corrupt x) s)"

lemma orderly_wp:
  "orderly G m \<Longrightarrow> cached_ok G (ll_cache s) \<Longrightarrow>
     wp m (\<lambda>_ t. cached_ok G (ll_cache t)) (\<lambda>x t. cached_ok G (ll_cache t) \<and> \<not> corrupt x) s"
  by (simp add: orderly_def)

lemma orderly_and_then: "orderly G m \<Longrightarrow> (\<And>a. orderly G (f a)) \<Longrightarrow> orderly G (and_then m f)"
  unfolding orderly_def wp_and_then by (blast intro: wp_mono)

lemma orderly_basic:
  "orderly G (ok a)" "orderly G (or_panic x)" "orderly G (ignore_err (on_ledger m))" "orderly G (ignore_err (on_gov n))"
  "orderly G (call_provider W request)" "orderly G (raise (Provider e))"
  by (auto simp: orderly_def wp_simps split: option.split exn.split intro!: wp_any wp_call_provider)

lemma orderly_on_ledger: "(\<And>s e t. m s \<noteq> (Inl (Error e), t)) \<Longrightarrow> orderly G (on_ledger m)"
  by (auto simp: orderly_def corrupt_def wp_def zoom_def split: prod.split sum.split exn.split)

lemma estimate_cost_infallible: "estimate_cost A provider model i out s \<noteq> (Inl (Error e), t)"
  by (auto simp: estimate_cost_def and_then_def try_err_def or_panic_def panic_def ok_def
      split: prod.splits sum.splits exn.splits option.splits)

lemma orderly_store: "G key v \<Longrightarrow> orderly G (ignore_err (on_cache (store pick inst now route key req v ttl)))"
  by (auto simp: orderly_def wp_simps intro!: wp_mono [OF wp_cached_store] split: exn.split)

lemmas orderly_rules = orderly_and_then orderly_basic orderly_on_ledger [OF estimate_cost_infallible] orderly_store

lemma orderly_record_reply:
  "(should_cache \<and> reason = None \<Longrightarrow> G key payload) \<Longrightarrow>
     orderly G (record_reply W M cache_route route request_type source model gen key lat should_cache reason payload response)"
  unfolding record_reply_def Let_def by (auto intro!: orderly_rules)

lemma orderly_record_hit: "orderly G (record_hit M route request_type model gen key lat metadata)"
  unfolding record_hit_def by (rule orderly_rules)

lemma orderly_record_provider_failure:
  "orderly G (record_provider_failure M route request_type source error_class model gen e)"
  unfolding record_provider_failure_def by (rule orderly_rules)

lemma orderly_read_cached: "decode (ce_response_payload e) \<noteq> None \<Longrightarrow> orderly G (read_cached decode e)"
  by (auto simp: read_cached_def orderly_def wp_simps)

lemma orderly_release_after: "orderly G m \<Longrightarrow> orderly G (release_after W M cache_route key locked m)"
  unfolding orderly_def release_after_def wp_and_then wp_try_err
proof (intro allI impI, goal_cases)
  case (1 s)
  then have "wp m (\<lambda>_ t. cached_ok G (ll_cache t)) (\<lambda>x t. cached_ok G (ll_cache t) \<and> \<not> corrupt x) s" by simp
  then show ?case
    by (rule wp_mono)
      (auto simp: wp_simps split: exn.split intro!: wp_cached_mono [OF wp_cached_locks(2)])
qed

lemma orderly_serve_miss:
  assumes others: "\<And>k t. cached_ok G t \<Longrightarrow> cached_ok G (lm_wait_others M k t)"
    and waited: "\<And>e. G key (ce_response_payload e) \<Longrightarrow> orderly G (waited e)" and execute: "orderly G execute"
  shows "orderly G (serve_miss W M cache_route key waited execute)"
  unfolding orderly_def serve_miss_def wp_and_then wp_map_err wp_zoom
proof (intro allI impI, goal_cases)
  case (1 s)
  then show ?case
    by (auto simp: wp_simps option.pred_set split: option.split
        intro!: wp_cached_mono [OF wp_cached_locks(1)] wp_cached_mono [OF wp_cached_wait [OF others]]
          orderly_wp [OF waited] orderly_wp [OF orderly_release_after [OF execute]])
qed

lemma orderly_serve:
  assumes others: "\<And>k t. cached_ok G t \<Longrightarrow> cached_ok G (lm_wait_others M k t)"
    and hit: "\<And>e. G key (ce_response_payload e) \<Longrightarrow> orderly G (hit e)"
    and waited: "\<And>e. G key (ce_response_payload e) \<Longrightarrow> orderly G (waited e)"
    and execute: "\<And>b. orderly G (execute b)"
  shows "orderly G (serve W M cache_route route i out model gen key bypass hit waited execute)"
proof -
  note miss = orderly_serve_miss [OF others waited execute]
  have rest: "orderly G (and_then (if bypass then ok None
      else map_err Cache_error (on_cache (lookup pick inst cache_route key))) (\<lambda>cached.
         case cached of Some entry \<Rightarrow> hit entry
         | None \<Rightarrow> serve_miss W M cache_route key waited (execute b)))" for pick inst b
    unfolding orderly_def wp_and_then
    by (auto simp: wp_simps option.pred_set split: option.split
        intro!: wp_cached_mono [OF wp_cached_lookup] orderly_wp [OF miss] orderly_wp [OF hit])
  have limited: "orderly G (raise (RateLimited r g))" "orderly G (map_err Governance (on_gov m))" for r g and m :: "(gov_db, sqlx_error, 'z) act"
    by (auto simp: orderly_def wp_simps intro!: wp_any)
  show ?thesis
    unfolding serve_def
    by (intro orderly_and_then [OF orderly_on_ledger [OF estimate_cost_infallible]] orderly_and_then [OF limited(2)])
      (split ExhaustionAction.split, intro conjI impI limited(1) execute rest)
qed

section \<open>Requests that are turned away\<close>

definition limited :: "llm_error exn \<Rightarrow> bool" where
  "limited x \<longleftrightarrow> (\<exists>r g. x = Error (RateLimited r g))"

definition never_limited :: "(llm_state, llm_error, 'a) act \<Rightarrow> bool" where
  "never_limited m \<longleftrightarrow> (\<forall>s. wp m (\<lambda>_ _. True) (\<lambda>x _. \<not> limited x) s)"

lemma never_limited_and_then:
  "never_limited m \<Longrightarrow> (\<And>a. never_limited (f a)) \<Longrightarrow> never_limited (and_then m f)"
  unfolding never_limited_def wp_and_then by (blast intro: wp_mono)

lemma not_limited [simp]:
  "\<not> limited Panic" "\<not> limited (Error (Provider e))" "\<not> limited (Error (Cached_payload_corrupt v))"
  "\<not> limited (map_exn Governance x)" "\<not> limited (map_exn Cache_error x)"
  by (cases x; simp add: limited_def)+

lemma never_limited_wp: "never_limited m \<Longrightarrow> wp m (\<lambda>_ _. True) (\<lambda>x t. limited x \<longrightarrow> P x t) s"
  unfolding never_limited_def by (erule allE, erule wp_mono) auto

lemma never_limited_basic:
  "never_limited (ok a)" "never_limited (or_panic x)" "never_limited (ignore_err m)" "never_limited (raise (Provider e))"
  "never_limited (call_provider W request)" "never_limited (map_err Cache_error n)" "never_limited (read_cached decode c)"
  by (auto simp: never_limited_def read_cached_def wp_simps split: option.split exn.split intro!: wp_any wp_call_provider)

lemma never_limited_on_ledger: "(\<And>s e t. m s \<noteq> (Inl (Error e), t)) \<Longrightarrow> never_limited (on_ledger m)"
  by (auto simp: never_limited_def limited_def wp_def zoom_def split: prod.split sum.split exn.split)

lemmas never_limited_rules =
  never_limited_and_then never_limited_basic never_limited_on_ledger [OF estimate_cost_infallible]

lemma never_limited_recording:
  "never_limited (record_reply W M cache_route route request_type source model gen key lat should_cache reason payload response)"
  "never_limited (record_hit M route request_type model gen key lat metadata)"
  "never_limited (record_provider_failure M route request_type source error_class model gen e)"
  unfolding record_reply_def record_hit_def record_provider_failure_def Let_def
  by (auto intro!: never_limited_rules)

lemma never_limited_serve_miss:
  assumes "\<And>e. never_limited (waited e)" and "never_limited execute"
  shows "never_limited (serve_miss W M cache_route key waited execute)"
proof -
  have "never_limited (release_after W M cache_route key locked execute)" for locked
    unfolding never_limited_def release_after_def wp_and_then wp_try_err
  proof (rule allI, goal_cases)
    case (1 s)
    show ?case
      by (rule wp_mono [OF never_limited_wp [OF assms(2), where P = "\<lambda>_ _. False"]])
        (auto simp: wp_simps split: exn.split intro!: wp_any)
  qed
  then show ?thesis
    unfolding serve_miss_def
    by (intro never_limited_and_then never_limited_basic)
      (auto intro: never_limited_basic assms(1) split: option.split)
qed

text \<open>
  A request the limits turn away leaves the cache, the ledger and the providers alone, and nothing else is
  reported as limited.
\<close>

definition untouched :: "llm_state \<Rightarrow> llm_state \<Rightarrow> bool" where
  "untouched s t \<longleftrightarrow>
     ll_cache t = ll_cache s \<and> ll_calls t = ll_calls s \<and> ll_failures t = ll_failures s \<and>
     lg_rows (ll_ledger t) = lg_rows (ll_ledger s)"

lemma wp_estimate_cost:
  "wp (estimate_cost A provider model i out) (\<lambda>_ t. lg_rows t = lg_rows s) (\<lambda>x t. x = Panic \<and> lg_rows t = lg_rows s) s"
  unfolding estimate_cost_def find_active_price_def wp_and_then wp_try_err
  by (rule wp_ledger_statementI) (auto simp: Let_def wp_simps split: option.split)

lemma wp_serve_limited:
  assumes "\<And>e. never_limited (hit e)" "\<And>e. never_limited (waited e)" "\<And>b. never_limited (execute b)"
  shows "wp (serve W M cache_route route i out model gen key bypass hit waited execute) (\<lambda>_ _. True)
     (\<lambda>x t. limited x \<longrightarrow> x = Error (RateLimited (lm_request_id M) gen) \<and> untouched s t) s"
proof -
  have rest: "never_limited (and_then (if bypass then ok None
      else map_err Cache_error (on_cache (lookup pick inst cache_route key))) (\<lambda>cached.
         case cached of Some entry \<Rightarrow> hit entry
         | None \<Rightarrow> serve_miss W M cache_route key waited (execute b)))" for pick inst b
    by (intro never_limited_and_then) (auto intro: never_limited_rules never_limited_serve_miss assms split: option.split)
  show ?thesis
    unfolding serve_def wp_and_then wp_zoom wp_map_err
  proof (rule wp_mono [OF wp_estimate_cost], goal_cases)
    case (1 cost l)
    show ?case
    proof (rule wp_any, goal_cases)
      case (1 d g)
      with \<open>lg_rows l = _\<close> show ?case
        by (cases "pd_action d")
          (simp_all only: ExhaustionAction.case never_limited_wp [OF rest] never_limited_wp [OF assms(3)],
           simp add: wp_simps untouched_def)
    qed simp
  qed simp
qed

lemma serve_hit:
  assumes "(estimate_cost (lw_arith W) PROVIDER model i out :: (ledger_db, llm_error, CostEstimate) act) (ll_ledger s) = (Inr cost, l)"
    and "preflight_check (lm_preflight_now M) route PROVIDER model (Some (co_total_cost_usd cost)) (lm_request_id M) gen (ll_gov s) = (Inr d, g)"
    and "pd_action d = Allow"
    and "lookup (lw_pick W) (lm_lookup_instant M) cache_route key (ll_cache s) = (Inr (Some e), c)"
  shows "serve W M cache_route route i out model gen key False hit waited execute s =
    hit e (s\<lparr>ll_ledger := l, ll_gov := g, ll_cache := c\<rparr>)"
  using assms by (simp add: serve_def and_then_def map_err_def zoom_def)

lemma serve_bypass:
  assumes "(estimate_cost (lw_arith W) PROVIDER model i out :: (ledger_db, llm_error, CostEstimate) act) (ll_ledger s) = (Inr cost, l)"
    and "preflight_check (lm_preflight_now M) route PROVIDER model (Some (co_total_cost_usd cost)) (lm_request_id M) gen (ll_gov s) = (Inr d, g)"
    and "pd_action d = Allow"
  shows "serve W M cache_route route i out model gen key True hit waited execute s =
    serve_miss W M cache_route key waited (execute False) (s\<lparr>ll_ledger := l, ll_gov := g\<rparr>)"
  using assms by (simp add: serve_def and_then_def map_err_def zoom_def ok_def)

lemma serve_denied:
  assumes "(estimate_cost (lw_arith W) PROVIDER model i out :: (ledger_db, llm_error, CostEstimate) act) (ll_ledger s) = (Inr cost, l)"
    and "preflight_check (lm_preflight_now M) route PROVIDER model (Some (co_total_cost_usd cost)) (lm_request_id M) gen (ll_gov s) = (Inr d, g)"
    and "pd_action d = Deny"
  shows "serve W M cache_route route i out model gen key bypass hit waited execute s =
    (Inl (Error (RateLimited (lm_request_id M) gen)), s\<lparr>ll_ledger := l, ll_gov := g\<rparr>)"
  using assms by (simp add: serve_def and_then_def map_err_def zoom_def raise_def)

section \<open>What the cache holds of a contract\<close>

text \<open>
  The interface between a service and the cache: whatever the service stores, its decoder reads.
\<close>

locale cached_contract =
  fixes decode :: "json \<Rightarrow> 'p option" and stored :: "json \<Rightarrow> bool"
  assumes stored_decodes: "stored v \<Longrightarrow> decode v \<noteq> None"
begin

lemma orderly_cached:
  assumes "G key = stored" and "\<And>p. orderly G (f p)" and "G key (ce_response_payload e)"
  shows "orderly G (and_then (read_cached decode e) f)"
  using assms stored_decodes by (intro orderly_and_then orderly_read_cached) auto

lemma orderly_reply:
  assumes "G key = stored" and "should_cache \<and> reason = None \<Longrightarrow> stored payload"
  shows "orderly G (record_reply W M cache_route route request_type source model gen key lat should_cache
    reason payload response)"
  using assms by (intro orderly_record_reply) auto

end

end
