(* ===== verification/Interp_Encode.thy ===== *)
theory Interp_Encode
  imports Serde Plan_Mode
begin

text \<open>
  How an interpretation is written to the cache and to its generation: the encoding that \<open>serde\<close> derives
  for the types of \<open>src/src/contracts/prompt_interpretation.rs\<close>, and what is read back.
\<close>

section \<open>Encoding\<close>

definition enc_teacher_intent :: "TeacherIntent \<Rightarrow> json" where
  "enc_teacher_intent t =
     JObj [(''type'', JStr (ti_type t)), (''goal'', JStr (ti_goal t)),
           (''preferred_delivery_mode'', JStr (ti_preferred_delivery_mode t)),
           (''requires_clarification'', JBool (ti_requires_clarification t))]"

definition enc_strings :: "string list \<Rightarrow> json" where
  "enc_strings xs = JArr (map JStr xs)"

definition enc_constraints :: "InterpretationConstraints \<Rightarrow> json" where
  "enc_constraints c =
     JObj ([(''preferred_output_type'', JStr (ic_preferred_output_type c))] @
           skip_none ''max_duration_minutes'' JInt (ic_max_duration_minutes c) @
           [(''must_include'', enc_strings (ic_must_include c)), (''avoid'', enc_strings (ic_avoid c))] @
           skip_none ''tone'' JStr (ic_tone c))"

definition enc_candidate :: "OutputCandidate \<Rightarrow> json" where
  "enc_candidate c = JObj [(''type'', JStr (oc_type c)), (''score'', json_f64 (oc_score c)), (''reason'', JStr (oc_reason c))]"

definition enc_section :: "BlueprintSection \<Rightarrow> json" where
  "enc_section s =
     JObj [(''title'', JStr (bs_title s)), (''purpose'', JStr (bs_purpose s)), (''bullets'', enc_strings (bs_bullets s)),
           (''estimated_length'', JStr (bs_estimated_length s))]"

definition enc_blueprint :: "DocumentBlueprint \<Rightarrow> json" where
  "enc_blueprint b =
     JObj [(''title'', JStr (db_title b)), (''summary'', JStr (db_summary b)),
           (''sections'', JArr (map enc_section (db_sections b)))]"

definition enc_subject_context :: "SubjectContext \<Rightarrow> json" where
  "enc_subject_context c =
     JObj ((''subject_name'', JStr (sc_subject_name c)) # skip_none ''subject_slug'' JStr (sc_subject_slug c))"

definition enc_sub_subject_context :: "SubSubjectContext \<Rightarrow> json" where
  "enc_sub_subject_context c =
     JObj ((''sub_subject_name'', JStr (ssc_sub_subject_name c)) #
           skip_none ''sub_subject_slug'' JStr (ssc_sub_subject_slug c))"

definition enc_audience :: "TargetAudience \<Rightarrow> json" where
  "enc_audience a =
     JObj ((''label'', JStr (ta_label a)) # skip_none ''level'' JStr (ta_level a) @
           skip_none ''age_range'' JStr (ta_age_range a))"

definition enc_media :: "RequestedMediaCharacteristics \<Rightarrow> json" where
  "enc_media m =
     JObj (skip_none ''tone'' JStr (rm_tone m) @ [(''format_preferences'', enc_strings (rm_format_preferences m))] @
           skip_none ''visual_density'' JStr (rm_visual_density m))"

definition enc_asset :: "Asset \<Rightarrow> json" where
  "enc_asset a =
     JObj [(''type'', JStr (as_type a)), (''description'', JStr (as_description a)), (''required'', JBool (as_required a))]"

definition enc_assessment :: "AssessmentBlock \<Rightarrow> json" where
  "enc_assessment b =
     JObj [(''title'', JStr (ab_title b)), (''type'', JStr (ab_type b)), (''instructions'', JStr (ab_instructions b))]"

definition enc_confidence :: "Confidence \<Rightarrow> json" where
  "enc_confidence c =
     JObj ([(''score'', json_f64 (cf_score c)), (''label'', JStr (cf_label c))] @
           skip_none ''rationale'' JStr (cf_rationale c))"

definition enc_integrity :: "ContentIntegrity \<Rightarrow> json" where
  "enc_integrity g =
     JObj ([(''integrity_score'', json_f64 (cg_integrity_score g)), (''violations'', JArr (cg_violations g)),
            (''classification_source'', JStr (cg_classification_source g))] @
           skip_none ''meta_repairs'' id (cg_meta_repairs g))"

definition enc_plan_mode :: "PlanMode \<Rightarrow> json" where
  "enc_plan_mode p =
     JObj ((''active'', JBool (pm_active p)) # skip_none ''reason'' JStr (pm_reason p) @
           skip_none ''detected_content_type'' JStr (pm_detected_content_type p) @
           skip_none ''content_type_confidence'' json_f64 (pm_content_type_confidence p))"

definition enc_interpreted :: "InterpretedFields \<Rightarrow> json" where
  "enc_interpreted f =
     JObj (skip_none ''target_audience'' JStr (if_target_audience f) @ skip_none ''output_type'' JStr (if_output_type f) @
           skip_none ''subject'' JStr (if_subject f) @ skip_none ''topic'' JStr (if_topic f) @
           skip_none ''learning_objectives'' enc_strings (if_learning_objectives f) @
           skip_none ''page_count'' JStr (if_page_count f) @
           skip_none ''difficulty_level'' JStr (if_difficulty_level f) @
           skip_none ''include_activities'' JBool (if_include_activities f) @
           skip_none ''slide_count'' JStr (if_slide_count f) @ skip_none ''question_count'' JInt (if_question_count f) @
           skip_none ''meeting_duration'' JStr (if_meeting_duration f) @
           skip_none ''teaching_method'' JStr (if_teaching_method f) @
           skip_none ''assessment_method'' JStr (if_assessment_method f) @
           skip_none ''visual_density'' JStr (if_visual_density f) @
           skip_none ''speaker_notes'' JStr (if_speaker_notes f) @ skip_none ''question_type'' JStr (if_question_type f))"

definition enc_missing :: "MissingField \<Rightarrow> json" where
  "enc_missing m =
     JObj [(''field_id'', JStr (mf_field_id m)), (''field_label'', JStr (mf_field_label m)),
           (''priority'', JStr (mf_priority m)), (''question'', JStr (mf_question m)),
           (''suggestions'', JArr (mf_suggestions m)), (''input_type'', JStr (mf_input_type m))]"

definition enc_fallback :: "InterpretationFallback \<Rightarrow> json" where
  "enc_fallback f =
     JObj ((''triggered'', JBool (fb_triggered f)) # skip_none ''reason_code'' JStr (fb_reason_code f) @
           skip_none ''action'' JStr (fb_action f))"

definition enc_payload :: "InterpretationPayload \<Rightarrow> json" where
  "enc_payload p =
     JObj ([(''schema_version'', JStr (ip_schema_version p)), (''teacher_prompt'', JStr (ip_teacher_prompt p)),
            (''language'', JStr (ip_language p)), (''teacher_intent'', enc_teacher_intent (ip_teacher_intent p)),
            (''learning_objectives'', enc_strings (ip_learning_objectives p)),
            (''constraints'', enc_constraints (ip_constraints p)),
            (''output_type_candidates'', JArr (map enc_candidate (ip_output_type_candidates p))),
            (''resolved_output_type_reasoning'', JStr (ip_resolved_output_type_reasoning p)),
            (''document_blueprint'', enc_blueprint (ip_document_blueprint p))] @
           skip_none ''subject_context'' enc_subject_context (ip_subject_context p) @
           skip_none ''sub_subject_context'' enc_sub_subject_context (ip_sub_subject_context p) @
           skip_none ''target_audience'' enc_audience (ip_target_audience p) @
           [(''requested_media_characteristics'', enc_media (ip_requested_media_characteristics p)),
            (''assets'', JArr (map enc_asset (ip_assets p))),
            (''assessment_or_activity_blocks'', JArr (map enc_assessment (ip_assessment_or_activity_blocks p))),
            (''teacher_delivery_summary'', JStr (ip_teacher_delivery_summary p)),
            (''confidence'', enc_confidence (ip_confidence p)), (''fallback'', enc_fallback (ip_fallback p))] @
           skip_none ''content_integrity'' enc_integrity (ip_content_integrity p) @
           skip_none ''meta_repairs'' id (ip_meta_repairs p) @
           [(''plan_mode'', enc_plan_mode (ip_plan_mode p))] @
           skip_none ''interpreted_fields'' enc_interpreted (ip_interpreted_fields p) @
           [(''missing_fields'', JArr (map enc_missing (ip_missing_fields p)))])"

section \<open>What is read back\<close>

text \<open>
  A score that is not finite is written as \<open>null\<close> and read as the default; an interpreted text is trimmed,
  and dropped if blank. All else is read as it was.
\<close>

definition recode_f64 :: "f64 \<Rightarrow> f64" where
  "recode_f64 x = deserialize_f64_lenient (json_f64 x)"

definition recode_text :: "string option \<Rightarrow> string option" where
  "recode_text x = Option.bind x (\<lambda>s. if trim s = [] then None else Some (trim s))"

definition recode_value :: "json option \<Rightarrow> json option" where
  "recode_value x = Option.bind x (\<lambda>v. if v = JNull then None else Some v)"

definition recode_interpreted :: "InterpretedFields \<Rightarrow> InterpretedFields" where
  "recode_interpreted f =
     f\<lparr>if_target_audience := recode_text (if_target_audience f), if_output_type := recode_text (if_output_type f),
       if_subject := recode_text (if_subject f), if_topic := recode_text (if_topic f),
       if_page_count := recode_text (if_page_count f), if_difficulty_level := recode_text (if_difficulty_level f),
       if_slide_count := recode_text (if_slide_count f), if_meeting_duration := recode_text (if_meeting_duration f),
       if_teaching_method := recode_text (if_teaching_method f),
       if_assessment_method := recode_text (if_assessment_method f),
       if_visual_density := recode_text (if_visual_density f), if_speaker_notes := recode_text (if_speaker_notes f),
       if_question_type := recode_text (if_question_type f)\<rparr>"

definition recode_plan_mode :: "PlanMode \<Rightarrow> PlanMode" where
  "recode_plan_mode p =
     p\<lparr>pm_content_type_confidence := Option.bind (pm_content_type_confidence p) (deserialize_optional_f64 \<circ> json_f64)\<rparr>"

definition recode_payload :: "InterpretationPayload \<Rightarrow> InterpretationPayload" where
  "recode_payload p =
     p\<lparr>ip_output_type_candidates := map (\<lambda>c. c\<lparr>oc_score := recode_f64 (oc_score c)\<rparr>) (ip_output_type_candidates p),
       ip_confidence := (ip_confidence p)\<lparr>cf_score := recode_f64 (cf_score (ip_confidence p))\<rparr>,
       ip_content_integrity := map_option (\<lambda>g. g\<lparr>cg_integrity_score := recode_f64 (cg_integrity_score g),
         cg_meta_repairs := recode_value (cg_meta_repairs g)\<rparr>) (ip_content_integrity p),
       ip_meta_repairs := recode_value (ip_meta_repairs p), ip_plan_mode := recode_plan_mode (ip_plan_mode p),
       ip_interpreted_fields := map_option recode_interpreted (ip_interpreted_fields p)\<rparr>"

definition is_i32 :: "int \<Rightarrow> bool" where
  "is_i32 n \<longleftrightarrow> - (2 ^ 31) \<le> n \<and> n < 2 ^ 31"

text \<open>The two fields of type \<open>i32\<close> are in their range.\<close>

definition i32_fields :: "InterpretationPayload \<Rightarrow> bool" where
  "i32_fields p \<longleftrightarrow>
     pred_option is_i32 (ic_max_duration_minutes (ip_constraints p)) \<and>
     pred_option (\<lambda>f. pred_option is_i32 (if_question_count f)) (ip_interpreted_fields p)"

section \<open>Laws\<close>

lemma enc_strings_simps [serde_simps]:
  "dec_list as_str (enc_strings xs) = Some xs" "enc_strings xs \<noteq> JNull"
  by (simp_all add: enc_strings_def dec_strings)

lemma lenient_simps [serde_simps]:
  "deserialize_bool_lenient E (JBool b) = b" "deserialize_bool_lenient_option E (JBool b) = Some b"
  "deserialize_f64_lenient (json_f64 x) = recode_f64 x"
  "deserialize_optional_string_lenient E (JStr s) = (if trim s = [] then None else Some (trim s))"
  by (simp_all add: deserialize_bool_lenient_def deserialize_bool_lenient_option_def recode_f64_def
      deserialize_optional_string_lenient_def)

lemma dec_enc_simple [serde_simps]:
  "dec_teacher_intent E (enc_teacher_intent t) = Some t"
  "dec_candidate (enc_candidate c) = Some (c\<lparr>oc_score := recode_f64 (oc_score c)\<rparr>)"
  "dec_section (enc_section s) = Some s"
  "dec_asset E (enc_asset a) = Some a"
  "dec_assessment (enc_assessment b) = Some b"
  "dec_missing (enc_missing m) = Some m"
  by (simp_all add: dec_teacher_intent_def enc_teacher_intent_def dec_candidate_def enc_candidate_def
      dec_section_def enc_section_def dec_asset_def enc_asset_def dec_assessment_def enc_assessment_def
      dec_missing_def enc_missing_def serde_simps as_array_def)

lemma dec_enc_blueprint [serde_simps]: "dec_blueprint (enc_blueprint b) = Some b"
  by (simp add: dec_blueprint_def enc_blueprint_def serde_simps dec_list_encoded [of _ dec_section enc_section])

lemma dec_enc_contexts [serde_simps]:
  "dec_subject_context (enc_subject_context c) = Some c"
  "dec_sub_subject_context (enc_sub_subject_context d) = Some d"
  "dec_audience (enc_audience a) = Some a"
  "dec_media (enc_media m) = Some m"
  "dec_fallback (enc_fallback f) = Some f"
  by (auto simp: dec_subject_context_def enc_subject_context_def dec_sub_subject_context_def
      enc_sub_subject_context_def dec_audience_def enc_audience_def dec_media_def enc_media_def
      dec_fallback_def enc_fallback_def serde_simps split: option.split)

lemma enc_contexts_not_null [serde_simps]:
  "enc_subject_context c \<noteq> JNull" "enc_sub_subject_context d \<noteq> JNull" "enc_audience a \<noteq> JNull"
  "enc_integrity g \<noteq> JNull" "enc_interpreted f \<noteq> JNull"
  by (simp_all add: enc_subject_context_def enc_sub_subject_context_def enc_audience_def enc_integrity_def
      enc_interpreted_def)

lemma dec_enc_confidence [serde_simps]:
  "dec_confidence (enc_confidence c) = Some (c\<lparr>cf_score := recode_f64 (cf_score c)\<rparr>)"
  by (auto simp: dec_confidence_def enc_confidence_def serde_simps split: option.split)

lemma dec_enc_integrity [serde_simps]:
  "dec_integrity (enc_integrity g) =
     Some (g\<lparr>cg_integrity_score := recode_f64 (cg_integrity_score g), cg_meta_repairs := recode_value (cg_meta_repairs g)\<rparr>)"
  by (auto simp: dec_integrity_def enc_integrity_def serde_simps as_array_def nullable_def recode_value_def split: option.split)

lemma dec_enc_plan_mode [serde_simps]: "dec_plan_mode E (enc_plan_mode p) = Some (recode_plan_mode p)"
  by (auto simp: dec_plan_mode_def enc_plan_mode_def serde_simps recode_plan_mode_def split: option.split)

lemma dec_enc_constraints:
  "pred_option is_i32 (ic_max_duration_minutes c) \<Longrightarrow> dec_constraints (enc_constraints c) = Some c"
  by (auto simp: dec_constraints_def enc_constraints_def serde_simps deserialize_optional_i32_def as_i64_def
      is_i64_def is_i32_def wrap_i32_def split: option.split)

text \<open>The members of an encoded record are those that were not left out.\<close>

lemma map_of_skip:
  "map_of (skip_none k f x) k = map_option f x" "j \<noteq> k \<Longrightarrow> map_of (skip_none k f x) j = None"
  "j \<noteq> k \<Longrightarrow> map_of (skip_none k f x @ ys) j = map_of ys j"
  "map_of ys k = None \<Longrightarrow> map_of (skip_none k f x @ ys) k = map_option f x"
  by (auto simp: skip_none_def split: option.split)

lemma lenient_option [serde_simps]:
  "Option.bind (map_option JStr x) (deserialize_optional_string_lenient E) = recode_text x"
  "Option.bind (map_option JBool b) (deserialize_bool_lenient_option E) = b"
  by (cases x; simp add: recode_text_def lenient_simps) (cases b; simp add: lenient_simps)

lemma dec_enc_interpreted:
  assumes "pred_option is_i32 (if_question_count f)"
  shows "dec_interpreted E (enc_interpreted f) = Some (recode_interpreted f)"
proof -
  let ?m = "map_of (case enc_interpreted f of JObj m \<Rightarrow> m | _ \<Rightarrow> [])"
  have m: "struct_fields interpreted_names (enc_interpreted f) = Some ?m"
    by (simp add: enc_interpreted_def struct_fields_def)
  have fs: "?m ''target_audience'' = map_option JStr (if_target_audience f)"
    "?m ''output_type'' = map_option JStr (if_output_type f)" "?m ''subject'' = map_option JStr (if_subject f)"
    "?m ''topic'' = map_option JStr (if_topic f)"
    "?m ''learning_objectives'' = map_option enc_strings (if_learning_objectives f)"
    "?m ''page_count'' = map_option JStr (if_page_count f)"
    "?m ''difficulty_level'' = map_option JStr (if_difficulty_level f)"
    "?m ''include_activities'' = map_option JBool (if_include_activities f)"
    "?m ''slide_count'' = map_option JStr (if_slide_count f)"
    "?m ''question_count'' = map_option JInt (if_question_count f)"
    "?m ''meeting_duration'' = map_option JStr (if_meeting_duration f)"
    "?m ''teaching_method'' = map_option JStr (if_teaching_method f)"
    "?m ''assessment_method'' = map_option JStr (if_assessment_method f)"
    "?m ''visual_density'' = map_option JStr (if_visual_density f)"
    "?m ''speaker_notes'' = map_option JStr (if_speaker_notes f)"
    "?m ''question_type'' = map_option JStr (if_question_type f)"
    by (simp_all add: enc_interpreted_def map_of_skip del: map_of_append)
  have "defaulted None (nullable (dec_list as_str)) ''learning_objectives'' ?m = Some (if_learning_objectives f)"
    by (cases "if_learning_objectives f") (simp_all add: defaulted_def fs nullable_def enc_strings_simps)
  moreover have "defaulted None (nullable dec_i32) ''question_count'' ?m = Some (if_question_count f)"
    using assms by (cases "if_question_count f") (simp_all add: defaulted_def fs nullable_def dec_i32_def is_i32_def)
  ultimately show ?thesis
    by (simp add: dec_interpreted_def m Let_def fs lenient_option recode_interpreted_def del: map_of.simps)
qed


lemma dec_list_recoded:
  "(\<And>x. dec (enc x) = Some (g x)) \<Longrightarrow> dec_list dec (JArr (map enc xs)) = Some (map g xs)"
  by (induction xs) (auto simp: dec_list_def as_array_def)

lemma dec_enc_lists [serde_simps]:
  "dec_list dec_candidate (JArr (map enc_candidate cs)) = Some (map (\<lambda>c. c\<lparr>oc_score := recode_f64 (oc_score c)\<rparr>) cs)"
  "dec_list (dec_asset E) (JArr (map enc_asset as)) = Some as"
  "dec_list dec_assessment (JArr (map enc_assessment bs)) = Some bs"
  "dec_list dec_missing (JArr (map enc_missing ms)) = Some ms"
  by (simp_all add: dec_list_recoded [of dec_candidate enc_candidate] dec_list_encoded dec_enc_simple)

lemma dec_enc_payload:
  assumes "i32_fields p"
  shows "dec_payload E (enc_payload p) = Some (recode_payload p)"
proof -
  let ?m = "map_of (case enc_payload p of JObj m \<Rightarrow> m | _ \<Rightarrow> [])"
  have m: "struct_fields payload_names (enc_payload p) = Some ?m"
    by (simp add: enc_payload_def struct_fields_def)
  have fs: "?m ''schema_version'' = Some (JStr (ip_schema_version p))"
    "?m ''teacher_prompt'' = Some (JStr (ip_teacher_prompt p))" "?m ''language'' = Some (JStr (ip_language p))"
    "?m ''teacher_intent'' = Some (enc_teacher_intent (ip_teacher_intent p))"
    "?m ''learning_objectives'' = Some (enc_strings (ip_learning_objectives p))"
    "?m ''constraints'' = Some (enc_constraints (ip_constraints p))"
    "?m ''output_type_candidates'' = Some (JArr (map enc_candidate (ip_output_type_candidates p)))"
    "?m ''resolved_output_type_reasoning'' = Some (JStr (ip_resolved_output_type_reasoning p))"
    "?m ''document_blueprint'' = Some (enc_blueprint (ip_document_blueprint p))"
    "?m ''subject_context'' = map_option enc_subject_context (ip_subject_context p)"
    "?m ''sub_subject_context'' = map_option enc_sub_subject_context (ip_sub_subject_context p)"
    "?m ''target_audience'' = map_option enc_audience (ip_target_audience p)"
    "?m ''requested_media_characteristics'' = Some (enc_media (ip_requested_media_characteristics p))"
    "?m ''assets'' = Some (JArr (map enc_asset (ip_assets p)))"
    "?m ''assessment_or_activity_blocks'' = Some (JArr (map enc_assessment (ip_assessment_or_activity_blocks p)))"
    "?m ''teacher_delivery_summary'' = Some (JStr (ip_teacher_delivery_summary p))"
    "?m ''confidence'' = Some (enc_confidence (ip_confidence p))"
    "?m ''fallback'' = Some (enc_fallback (ip_fallback p))"
    "?m ''content_integrity'' = map_option enc_integrity (ip_content_integrity p)"
    "?m ''meta_repairs'' = map_option id (ip_meta_repairs p)" "?m ''_meta_repairs'' = None"
    "?m ''plan_mode'' = Some (enc_plan_mode (ip_plan_mode p))"
    "?m ''interpreted_fields'' = map_option enc_interpreted (ip_interpreted_fields p)"
    "?m ''missing_fields'' = Some (JArr (map enc_missing (ip_missing_fields p)))"
    by (simp_all add: enc_payload_def map_of_skip del: map_of_append)
  have "defaulted None (nullable dec_subject_context) ''subject_context'' ?m = Some (ip_subject_context p)"
    "defaulted None (nullable dec_sub_subject_context) ''sub_subject_context'' ?m = Some (ip_sub_subject_context p)"
    "defaulted None (nullable dec_audience) ''target_audience'' ?m = Some (ip_target_audience p)"
    by (auto simp: defaulted_def fs nullable_def dec_enc_contexts enc_contexts_not_null split: option.split)
  moreover have "defaulted None (nullable dec_integrity) ''content_integrity'' ?m = Some (ip_content_integrity (recode_payload p))"
    by (auto simp: defaulted_def fs nullable_def dec_enc_integrity enc_contexts_not_null recode_payload_def split: option.split)
  moreover have "meta_repairs_field ?m = Some (ip_meta_repairs (recode_payload p))"
    by (auto simp: meta_repairs_field_def defaulted_def fs nullable_def recode_payload_def recode_value_def split: option.split)
  moreover have "defaulted None (nullable (dec_interpreted E)) ''interpreted_fields'' ?m = Some (ip_interpreted_fields (recode_payload p))"
    using assms by (auto simp: defaulted_def fs nullable_def dec_enc_interpreted enc_contexts_not_null recode_payload_def
        i32_fields_def split: option.split)
  moreover have "dec_constraints (enc_constraints (ip_constraints p)) = Some (ip_constraints p)"
    using assms by (intro dec_enc_constraints) (simp add: i32_fields_def)
  ultimately show ?thesis
    unfolding dec_payload_def m
    by (simp add: required_def defaulted_def fs as_str_def dec_enc_simple dec_enc_blueprint dec_enc_contexts dec_enc_confidence
        dec_enc_plan_mode dec_enc_lists enc_strings_simps) (simp add: recode_payload_def)
qed

text \<open>
  An interpretation that is stored can be read: every payload decodes from what it is encoded to, and
  differs from it only in scores that are not finite, in blanks around interpreted texts and in explicit nulls.
\<close>
theorem payload_read_back:
  assumes "i32_fields p"
  shows "dec_payload E (enc_payload p) = Some (recode_payload p)"
  using assms by (rule dec_enc_payload)

theorem payload_read_back_witness:
  "dec_payload sample_externals (enc_payload (fallback sample_externals ''Buat soal'' ''pdf'')) =
     Some (recode_payload (fallback sample_externals ''Buat soal'' ''pdf''))"
  by (rule payload_read_back) (simp add: i32_fields_def fallback_def Let_def)

text \<open>Whatever is decoded has its fields in range.\<close>

lemma duration_in_range: "deserialize_optional_i32 v = Some n \<Longrightarrow> is_i32 n"
  by (auto simp: deserialize_optional_i32_def parse_i32_def is_i32_def wrap_i32_def Option.bind_eq_Some_conv
      split: json.splits if_splits)

lemma dec_constraints_i32: "dec_constraints v = Some c \<Longrightarrow> pred_option is_i32 (ic_max_duration_minutes c)"
  by (clarsimp simp: dec_constraints_def Option.bind_eq_Some_conv)
    (auto simp: defaulted_def option.pred_set split: option.splits dest: duration_in_range)

lemma dec_interpreted_i32: "dec_interpreted E v = Some f \<Longrightarrow> pred_option is_i32 (if_question_count f)"
  by (clarsimp simp: dec_interpreted_def Option.bind_eq_Some_conv)
    (auto simp: defaulted_def nullable_def dec_i32_def is_i32_def option.pred_set
      split: option.splits if_splits json.splits)

lemma dec_payload_i32:
  assumes "dec_payload E v = Some p"
  shows "i32_fields p"
proof -
  obtain fs where "required dec_constraints ''constraints'' fs = Some (ip_constraints p)"
      "defaulted None (nullable (dec_interpreted E)) ''interpreted_fields'' fs = Some (ip_interpreted_fields p)"
    using assms by (clarsimp simp: dec_payload_def Option.bind_eq_Some_conv)
  then show ?thesis
    by (auto simp: i32_fields_def required_def defaulted_def nullable_def Option.bind_eq_Some_conv option.pred_set
        split: option.splits if_splits dest: dec_constraints_i32 dec_interpreted_i32)
qed

end
