(* ===== verification/Interpret_Service.thy ===== *)
theory Interpret_Service
  imports Llm_Service Interp_Encode
begin

text \<open>
  The interpretation service, \<open>src/src/llm/interpret.rs\<close>: from the teacher's prompt to a validated
  interpretation, completed with what the taxonomy infers from the prompt.
\<close>

section \<open>Types\<close>

record NamedContext =
  nc_id :: int
  nc_name :: string
  nc_slug :: "string option"

record InterpretInput =
  ii_generation_id :: string
  ii_teacher_prompt :: string
  ii_preferred_output_type :: string
  ii_subject_context :: "NamedContext option"
  ii_sub_subject_context :: "NamedContext option"
  ii_model :: "string option"
  ii_instruction :: "string option"

record InterpretResult =
  ir_request_id :: string
  ir_generation_id :: string
  ir_interpretation_payload :: InterpretationPayload
  ir_interpretation_audit_payload :: json
  ir_llm_provider :: string
  ir_llm_model :: string
  ir_cache_hit :: bool
  ir_fallback_used :: bool
  ir_response_headers :: "string \<rightharpoonup> string"
  ir_latency_ms :: "decimal option"

text \<open>The model and the instruction a service uses when a request names none.\<close>

record llm_defaults =
  ld_model :: string
  ld_instruction :: string

definition INTERPRET_ROUTE :: string where
  "INTERPRET_ROUTE = ''interpret''"

definition INTERPRET_REQUEST_TYPE :: string where
  "INTERPRET_REQUEST_TYPE = ''media_prompt_interpretation''"

section \<open>What the taxonomy adds\<close>

definition taxonomy_infer :: "llm_world \<Rightarrow> string \<Rightarrow> TaxonomyInferenceResult option option" where
  "taxonomy_infer W prompt = infer (lw_sorter W) (lw_ext W) (lw_tools W) (lw_upper W) (lw_subjects W) prompt"

definition try_into_subject :: "TaxonomyInferenceResult \<Rightarrow> (string \<times> string) option" where
  "try_into_subject r =
     (let name = bm_subject_name (tr_best_match r)
      in if name = [] then None else Some (name, bm_subject_slug (tr_best_match r)))"

definition try_into_sub_subject :: "TaxonomyInferenceResult \<Rightarrow> (string \<times> string) option" where
  "try_into_sub_subject r =
     Option.bind (bm_sub_subject_name (tr_best_match r)) (\<lambda>name.
       if name = [] then None
       else map_option (\<lambda>slug. (name, slug)) (bm_sub_subject_slug (tr_best_match r)))"

definition merge_inference :: "InterpretInput \<Rightarrow> TaxonomyInferenceResult \<Rightarrow> InterpretationPayload \<Rightarrow> InterpretationPayload" where
  "merge_inference input inference payload =
     (let p1 = (if ii_subject_context input = None \<and> ip_subject_context payload = None
                then case try_into_subject inference of
                       Some (name, slug) \<Rightarrow> payload\<lparr>ip_subject_context := Some \<lparr>sc_subject_name = name, sc_subject_slug = Some slug\<rparr>\<rparr>
                     | None \<Rightarrow> payload
                else payload);
          p2 = (if ii_sub_subject_context input = None \<and> ip_sub_subject_context p1 = None
                then case try_into_sub_subject inference of
                       Some (name, slug) \<Rightarrow>
                         p1\<lparr>ip_sub_subject_context := Some \<lparr>ssc_sub_subject_name = name, ssc_sub_subject_slug = Some slug\<rparr>\<rparr>
                     | None \<Rightarrow> p1
                else p1)
      in if ip_target_audience p2 = None
         then case bm_jenjang (tr_best_match inference) of
                Some label \<Rightarrow>
                  p2\<lparr>ip_target_audience := Some \<lparr>ta_label = label,
                      ta_level = map_option show_int (bm_kelas (tr_best_match inference)), ta_age_range = None\<rparr>\<rparr>
              | None \<Rightarrow> p2
         else p2)"

text \<open>\<open>None\<close> is the panic of an inconsistent order in the ranking.\<close>

definition enrich_with_taxonomy ::
  "llm_world \<Rightarrow> InterpretationPayload \<Rightarrow> InterpretInput \<Rightarrow> InterpretationPayload option" where
  "enrich_with_taxonomy W payload input =
     (if ii_subject_context input \<noteq> None \<and> ii_sub_subject_context input \<noteq> None then Some payload
      else map_option (\<lambda>inference. case inference of None \<Rightarrow> payload | Some r \<Rightarrow> merge_inference input r payload)
             (taxonomy_infer W (ii_teacher_prompt input)))"

section \<open>The result\<close>

definition named_context :: "NamedContext \<Rightarrow> json" where
  "named_context c = JObj [(''id'', JInt (nc_id c)), (''name'', JStr (nc_name c)), (''slug'', jstr_opt (nc_slug c))]"

definition enc_usage :: "Usage \<Rightarrow> json" where
  "enc_usage u =
     JObj [(''prompt_tokens'', jint_opt (us_prompt_tokens u)), (''completion_tokens'', jint_opt (us_completion_tokens u)),
           (''total_tokens'', jint_opt (us_total_tokens u))]"

definition enc_best_match :: "BestMatch \<Rightarrow> json" where
  "enc_best_match b =
     JObj [(''jenjang'', jstr_opt (bm_jenjang b)), (''kelas'', jint_opt (bm_kelas b)), (''semester'', jint_opt (bm_semester b)),
           (''bab'', jint_opt (bm_bab b)), (''subject_name'', JStr (bm_subject_name b)),
           (''subject_slug'', JStr (bm_subject_slug b)), (''subject_id'', jint_opt (bm_subject_id b)),
           (''sub_subject_name'', jstr_opt (bm_sub_subject_name b)), (''sub_subject_slug'', jstr_opt (bm_sub_subject_slug b)),
           (''sub_subject_id'', jint_opt (bm_sub_subject_id b)), (''description'', JStr (bm_description b)),
           (''content_structure'', JStr (bm_content_structure b)), (''structure_items'', enc_strings (bm_structure_items b)),
           (''matched_signals'', enc_strings (bm_matched_signals b))]"

definition enc_candidate_summary :: "CandidateSummary \<Rightarrow> json" where
  "enc_candidate_summary c =
     JObj [(''subject_name'', JStr (cm_subject_name c)), (''subject_slug'', JStr (cm_subject_slug c)),
           (''sub_subject_name'', JStr (cm_sub_subject_name c)), (''sub_subject_slug'', JStr (cm_sub_subject_slug c)),
           (''jenjang'', jstr_opt (cm_jenjang c)), (''kelas'', jint_opt (cm_kelas c)),
           (''score'', json_f64 (cm_score c)), (''label'', JStr (cm_label c))]"

definition enc_inference :: "TaxonomyInferenceResult \<Rightarrow> json" where
  "enc_inference r =
     JObj [(''schema_version'', JStr (tr_schema_version r)), (''source'', JStr (tr_source r)),
           (''prompt_context'',
            JObj (skip_none ''jenjang'' JStr (px_jenjang (tr_prompt_context r)) @
                  skip_none ''kelas'' JInt (px_kelas (tr_prompt_context r)) @
                  skip_none ''semester'' JInt (px_semester (tr_prompt_context r)) @
                  skip_none ''bab'' JInt (px_bab (tr_prompt_context r)))),
           (''confidence'',
            JObj [(''score'', json_f64 (Taxonomy.cf_score (tr_confidence r))), (''label'', JStr (Taxonomy.cf_label (tr_confidence r))),
                  (''sub_subject_attached'', JBool (cf_sub_subject_attached (tr_confidence r)))]),
           (''best_match'', enc_best_match (tr_best_match r)),
           (''candidate_matches'', JArr (map enc_candidate_summary (tr_candidate_matches r)))]"

definition build_audit_payload ::
  "llm_world \<Rightarrow> string \<Rightarrow> string \<Rightarrow> InterpretInput \<Rightarrow> string \<Rightarrow> CompletionResponse \<Rightarrow> InterpretationPayload \<Rightarrow> bool \<Rightarrow>
     json option \<Rightarrow> json option" where
  "build_audit_payload W provider model input raw_completion response payload fallback_used fallback_error =
     map_option (\<lambda>taxonomy_inference.
       JObj [(''llm_provider'', JStr provider), (''llm_model'', JStr (served_by model response)),
             (''request_payload'',
              JObj [(''teacher_prompt'', JStr (ii_teacher_prompt input)),
                    (''preferred_output_type'', JStr (ii_preferred_output_type input)),
                    (''subject_context'', jopt (map_option named_context (ii_subject_context input))),
                    (''sub_subject_context'', jopt (map_option named_context (ii_sub_subject_context input)))]),
             (''request_meta'',
              JObj [(''route'', JStr INTERPRET_ROUTE), (''request_type'', JStr INTERPRET_REQUEST_TYPE),
                    (''model'', JStr model), (''provider'', JStr provider),
                    (''instruction_schema'', JStr INTERPRET_REQUEST_TYPE)]),
             (''response'',
              JObj [(''raw_completion'', JStr raw_completion), (''provider_model'', jstr_opt (cp_model response)),
                    (''usage'', jopt (map_option enc_usage (cp_usage response))),
                    (''finish_reason'', jstr_opt (first_finish_reason response))]),
             (''taxonomy_inference'', jopt (map_option enc_inference taxonomy_inference)),
             (''normalized_payload'', enc_payload payload),
             (''used_fallback'', JBool fallback_used),
             (''fallback_error'', jopt fallback_error)])
       (taxonomy_infer W (ii_teacher_prompt input))"

definition build_result ::
  "llm_world \<Rightarrow> string \<Rightarrow> string \<Rightarrow> InterpretationPayload \<Rightarrow> string \<Rightarrow> string \<Rightarrow> bool \<Rightarrow> bool \<Rightarrow> decimal \<Rightarrow>
     InterpretResult option" where
  "build_result W generation_id request_id payload llm_provider llm_model cache_hit fallback_used latency_ms =
     map_option (\<lambda>audit.
       \<lparr>ir_request_id = request_id, ir_generation_id = generation_id, ir_interpretation_payload = payload,
        ir_interpretation_audit_payload = audit, ir_llm_provider = llm_provider, ir_llm_model = llm_model,
        ir_cache_hit = cache_hit, ir_fallback_used = fallback_used,
        ir_response_headers = provider_headers llm_provider llm_model cache_hit fallback_used,
        ir_latency_ms = Some latency_ms\<rparr>)
       (build_audit_payload W llm_provider llm_model
          \<lparr>ii_generation_id = generation_id, ii_teacher_prompt = ip_teacher_prompt payload,
           ii_preferred_output_type = ic_preferred_output_type (ip_constraints payload),
           ii_subject_context = None, ii_sub_subject_context = None, ii_model = Some llm_model,
           ii_instruction = None\<rparr>
          [] \<lparr>cp_choices = [], cp_usage = None, cp_model = Some llm_model\<rparr> payload fallback_used None)"

section \<open>The request\<close>

definition interpret_model :: "llm_defaults \<Rightarrow> InterpretInput \<Rightarrow> string" where
  "interpret_model D input = unwrap_or (ld_model D) (ii_model input)"

definition interpret_instruction :: "llm_defaults \<Rightarrow> InterpretInput \<Rightarrow> string" where
  "interpret_instruction D input = unwrap_or (ld_instruction D) (ii_instruction input)"

definition interpret_cache_key :: "llm_world \<Rightarrow> llm_defaults \<Rightarrow> InterpretInput \<Rightarrow> string" where
  "interpret_cache_key W D input =
     build_cache_key (lw_ext W) Cache_Interpret PROVIDER (interpret_model D input) INTERPRET_REQUEST_TYPE
       (interpret_instruction D input)
       (JObj [(''teacher_prompt'', JStr (ii_teacher_prompt input)),
              (''preferred_output_type'', JStr (ii_preferred_output_type input)),
              (''subject_context'', jopt (map_option named_context (ii_subject_context input))),
              (''sub_subject_context'', jopt (map_option named_context (ii_sub_subject_context input)))])"

definition name_and_slug :: "NamedContext \<Rightarrow> json" where
  "name_and_slug c = JObj [(''name'', JStr (nc_name c)), (''slug'', jstr_opt (nc_slug c))]"

definition interpret_message :: "llm_world \<Rightarrow> InterpretInput \<Rightarrow> string" where
  "interpret_message W input =
     (let teacher_prompt = trim (ii_teacher_prompt input);
          subject_hint = (case ii_subject_context input of
            Some c \<Rightarrow> '' (subject: '' @ nc_name c @ '')'' | None \<Rightarrow> []);
          sub_subject_hint = (case ii_sub_subject_context input of
            Some c \<Rightarrow> '' (sub_subject: '' @ nc_name c @ '')'' | None \<Rightarrow> []);
          user_payload = JObj
            [(''teacher_prompt'', JStr teacher_prompt),
             (''preferred_output_type'', JStr (ii_preferred_output_type input)),
             (''subject_context'', jopt (map_option name_and_slug (ii_subject_context input))),
             (''sub_subject_context'', jopt (map_option name_and_slug (ii_sub_subject_context input)))]
      in teacher_prompt @ subject_hint @ sub_subject_hint @ [CHR 0x0A, CHR 0x0A] @ lw_pretty W user_payload)"

text \<open>
  The payload of a completion: validated and completed, or else the fallback with the reason.
\<close>

definition interpreted_payload ::
  "llm_world \<Rightarrow> InterpretInput \<Rightarrow> string \<Rightarrow> (InterpretationPayload \<times> ContractValidationError option) option" where
  "interpreted_payload W input raw_completion =
     (case decode_and_validate (lw_ext W) (lw_codec W) raw_completion of
        Inr p \<Rightarrow> map_option (\<lambda>q. (q, None)) (enrich_with_taxonomy W p input)
      | Inl e \<Rightarrow> Some (fallback (lw_ext W) (ii_teacher_prompt input) (ii_preferred_output_type input), Some e))"

definition interpret_execute_provider ::
  "llm_world \<Rightarrow> llm_moment \<Rightarrow> InterpretInput \<Rightarrow> string \<Rightarrow> string \<Rightarrow> string \<Rightarrow> bool \<Rightarrow>
     (llm_state, llm_error, InterpretResult) act" where
  "interpret_execute_provider W M input model instruction cache_key should_cache =
     and_then (call_provider W (json_mode_request model instruction (interpret_message W input))) (\<lambda>provider_result.
       let latency_ms = latency (lm_call_millis M)
       in case provider_result of
            Inr response \<Rightarrow>
              and_then (or_panic (interpreted_payload W input (completion_text response))) (\<lambda>(payload, fallback_error).
              and_then (record_reply W M Cache_Interpret INTERPRET_ROUTE INTERPRET_REQUEST_TYPE ''interpretation_service''
                  model (ii_generation_id input) cache_key latency_ms should_cache
                  (map_option contract_code fallback_error) (enc_payload payload) response) (\<lambda>_.
                or_panic (build_result W (ii_generation_id input) (lm_request_id M) payload (served_by PROVIDER response)
                  (served_by model response) False (fallback_error \<noteq> None) latency_ms)))
          | Inl e \<Rightarrow>
              and_then (record_provider_failure M INTERPRET_ROUTE INTERPRET_REQUEST_TYPE ''interpretation_service''
                  ''klass_gateway::providers::ProviderError'' model (ii_generation_id input) e) (\<lambda>_.
                raise (Provider e)))"

text \<open>From an entry, with the plan mode derived afresh.\<close>

definition interpret_cached ::
  "llm_world \<Rightarrow> llm_moment \<Rightarrow> InterpretInput \<Rightarrow> string \<Rightarrow> string \<Rightarrow> int \<Rightarrow> (string \<times> json) list \<Rightarrow> CacheEntry \<Rightarrow>
     (llm_state, llm_error, InterpretResult) act" where
  "interpret_cached W M input model cache_key millis metadata entry =
     and_then (read_cached (dec_payload (lw_ext W)) entry) (\<lambda>cached.
       let payload = regenerate_plan_mode_from_interpretation (lw_ext W) cached;
           latency_ms = latency millis
       in and_then (record_hit M INTERPRET_ROUTE INTERPRET_REQUEST_TYPE model (ii_generation_id input) cache_key
              latency_ms ([(''source'', JStr ''interpretation_service''), (''cache_hit'', JBool True)] @ metadata)) (\<lambda>_.
            or_panic (build_result W (ii_generation_id input) (lm_request_id M) payload PROVIDER model True False latency_ms)))"

definition interpret_service ::
  "llm_world \<Rightarrow> llm_defaults \<Rightarrow> llm_moment \<Rightarrow> InterpretInput \<Rightarrow> (llm_state, llm_error, InterpretResult) act" where
  "interpret_service W D M input =
     (let model = interpret_model D input;
          cache_key = interpret_cache_key W D input
      in serve W M Cache_Interpret INTERPRET_ROUTE 500 2000 model (ii_generation_id input) cache_key False
           (interpret_cached W M input model cache_key (lm_hit_millis M)
              [(''cache_source'', JStr ''interpretation_cache''), (''plan_mode_regenerated'', JBool True)])
           (interpret_cached W M input model cache_key (lm_wait_millis M)
              [(''cache_source'', JStr ''interpretation_cache_inflight_wait'')])
           (interpret_execute_provider W M input model (interpret_instruction D input) cache_key))"

section \<open>What is cached\<close>

definition validated_interpretation :: "llm_world \<Rightarrow> json \<Rightarrow> bool" where
  "validated_interpretation W v \<longleftrightarrow>
     (\<exists>raw input p q. decode_and_validate (lw_ext W) (lw_codec W) raw = Inr p \<and>
        enrich_with_taxonomy W p input = Some q \<and> v = enc_payload q)"

lemma merge_inference_keeps:
  "ip_constraints (merge_inference input r p) = ip_constraints p"
  "ip_interpreted_fields (merge_inference input r p) = ip_interpreted_fields p"
  "ip_confidence (merge_inference input r p) = ip_confidence p"
  by (auto simp: merge_inference_def Let_def split: option.split)

lemma enrich_keeps_i32: "enrich_with_taxonomy W p input = Some q \<Longrightarrow> i32_fields p \<Longrightarrow> i32_fields q"
  by (auto simp: enrich_with_taxonomy_def i32_fields_def merge_inference_keeps split: if_splits option.splits)

lemma decode_and_validate_i32: "decode_and_validate E C raw = Inr p \<Longrightarrow> i32_fields p"
  by (auto simp: decode_and_validate_def Option.bind_eq_Some_conv split: if_splits option.splits intro: dec_payload_i32)

interpretation interpretations: cached_contract "dec_payload (lw_ext W)" "validated_interpretation W" for W
  by unfold_locales
     (auto simp: validated_interpretation_def dest!: decode_and_validate_i32 intro: dec_enc_payload [OF enrich_keeps_i32])

lemma orderly_interpret_service:
  assumes "G (interpret_cache_key W D input) = validated_interpretation W"
    and "\<And>k t. cached_ok G t \<Longrightarrow> cached_ok G (lm_wait_others M k t)"
  shows "orderly G (interpret_service W D M input)"
proof -
  have cached: "orderly G (interpret_cached W M input model (interpret_cache_key W D input) ms metadata e)"
    if "G (interpret_cache_key W D input) (ce_response_payload e)" for ms metadata e model
    unfolding interpret_cached_def Let_def
    by (rule interpretations.orderly_cached [where G = G, OF assms(1) _ that]) (intro orderly_rules orderly_record_hit)
  have stored: "validated_interpretation W (enc_payload p)"
    if "interpreted_payload W input raw = Some (p, None)" for raw p
    using that by (auto simp: interpreted_payload_def validated_interpretation_def split: sum.splits)
  have payload: "orderly G (and_then (or_panic (interpreted_payload W input raw)) f)"
    if "\<And>p e. (e = None \<Longrightarrow> validated_interpretation W (enc_payload p)) \<Longrightarrow> orderly G (f (p, e))" for raw f
    using that stored [of raw]
    by (cases "interpreted_payload W input raw") (auto simp: orderly_def or_panic_def wp_simps)
  have "orderly G (interpret_execute_provider W M input model instruction (interpret_cache_key W D input) b)"
    for model instruction b
    unfolding interpret_execute_provider_def Let_def
    by (intro orderly_and_then orderly_rules(6))
       (auto split: sum.split intro!: payload interpretations.orderly_reply [where G = G, OF assms(1)] orderly_rules
          orderly_record_provider_failure)
  then show ?thesis
    unfolding interpret_service_def Let_def by (intro orderly_serve cached assms(2))
qed

lemma interpret_service_limited:
  "wp (interpret_service W D M input) (\<lambda>_ _. True)
     (\<lambda>x t. limited x \<longrightarrow> x = Error (RateLimited (lm_request_id M) (ii_generation_id input)) \<and> untouched s t) s"
  unfolding interpret_service_def Let_def
proof (rule wp_serve_limited, goal_cases)
  case (3 b)
  show ?case
    unfolding interpret_execute_provider_def Let_def
    by (intro never_limited_and_then never_limited_basic)
       (auto split: sum.split intro!: never_limited_rules never_limited_recording)
qed (auto simp: interpret_cached_def Let_def intro!: never_limited_rules never_limited_recording)

end
