(* ===== verification/Content_Draft.thy ===== *)
theory Content_Draft
  imports Serde
begin

text \<open>
  The contract of a content draft, \<open>src/src/contracts/content_draft.rs\<close>: its types with their decoding and
  encoding, the repair of a completion, validation and the draft that is used instead. The parser and
  the printer of JSON and the measure of a length are parameters, as for the interpretation contract.
\<close>

definition SCHEMA_VERSION_CD :: string where
  "SCHEMA_VERSION_CD = ''media_content_draft.v1''"

section \<open>Lenient strings\<close>

text \<open>\<open>get(k1).or_else(|| get(k2)) ..\<close>: the first of the keys that is present decides.\<close>

definition first_member :: "string list \<Rightarrow> members \<Rightarrow> json option" where
  "first_member ks m = (case List.map_filter (map_of m) ks of [] \<Rightarrow> None | v # _ \<Rightarrow> Some v)"

definition BULLET :: string where
  "BULLET = CHR 0x0A # ''- ''"

definition deserialize_string_lenient :: "externals \<Rightarrow> json \<Rightarrow> string" where
  "deserialize_string_lenient E val =
     (case val of
        JStr s \<Rightarrow> s
      | JBool b \<Rightarrow> if b then ''true'' else ''false''
      | JNull \<Rightarrow> []
      | JObj m \<Rightarrow>
          (case Option.bind (first_member [''text'', ''content'', ''label'', ''name'', ''value''] m) as_str of
             Some s \<Rightarrow> s
           | None \<Rightarrow>
               (case Option.bind (map_of m ''items'') as_array of
                  Some items \<Rightarrow> join BULLET (List.map_filter (string_or_number E) items)
                | None \<Rightarrow> x_json_to_string E val))
      | JArr arr \<Rightarrow> join BULLET (List.map_filter (string_or_number E) arr)
      | _ \<Rightarrow> x_json_to_string E val)"

section \<open>Types\<close>

record BodyBlock =
  bb_type :: string
  bb_content :: string

record ContentSection =
  cs_title :: string
  cs_purpose :: string
  cs_body_blocks :: "BodyBlock list"
  cs_emphasis :: string

record DraftFallback =
  df_triggered :: bool
  df_reason_code :: "string option"
  df_action :: "string option"

definition draft_fallback_default :: DraftFallback where
  "draft_fallback_default = \<lparr>df_triggered = False, df_reason_code = None, df_action = None\<rparr>"

record PptxSlideContentItem =
  si_heading :: string
  si_body :: string

record PptxSlide =
  ps_slide_number :: int
  ps_layout_type :: string
  ps_title :: string
  ps_subtitle :: "string option"
  ps_content :: "PptxSlideContentItem list"

record ContentDraftPayload =
  dp_schema_version :: string
  dp_title :: string
  dp_summary :: string
  dp_learning_objectives :: "string list"
  dp_sections :: "ContentSection list"
  dp_teacher_delivery_summary :: string
  dp_fallback :: DraftFallback
  dp_slides :: "PptxSlide list option"
  dp_presentation_title :: "string option"
  dp_theme_suggestion :: "string option"

section \<open>Decoding\<close>

abbreviation dec_text :: "externals \<Rightarrow> json \<Rightarrow> string option" where
  "dec_text E \<equiv> Some \<circ> deserialize_string_lenient E"

definition dec_body_block :: "externals \<Rightarrow> json \<Rightarrow> BodyBlock option" where
  "dec_body_block E v = do {
     fs \<leftarrow> struct_fields [''type'', ''content''] v;
     t \<leftarrow> required as_str ''type'' fs;
     c \<leftarrow> required (dec_text E) ''content'' fs;
     Some \<lparr>bb_type = t, bb_content = c\<rparr> }"

definition dec_content_section :: "externals \<Rightarrow> json \<Rightarrow> ContentSection option" where
  "dec_content_section E v = do {
     fs \<leftarrow> struct_fields [''title'', ''purpose'', ''body_blocks'', ''emphasis''] v;
     t \<leftarrow> required (dec_text E) ''title'' fs;
     p \<leftarrow> required (dec_text E) ''purpose'' fs;
     b \<leftarrow> required (dec_list (dec_body_block E)) ''body_blocks'' fs;
     e \<leftarrow> required (dec_text E) ''emphasis'' fs;
     Some \<lparr>cs_title = t, cs_purpose = p, cs_body_blocks = b, cs_emphasis = e\<rparr> }"

definition dec_draft_fallback :: "json \<Rightarrow> DraftFallback option" where
  "dec_draft_fallback v = do {
     fs \<leftarrow> struct_fields [''triggered'', ''reason_code'', ''action''] v;
     t \<leftarrow> defaulted False as_bool ''triggered'' fs;
     r \<leftarrow> defaulted None (nullable as_str) ''reason_code'' fs;
     a \<leftarrow> defaulted None (nullable as_str) ''action'' fs;
     Some \<lparr>df_triggered = t, df_reason_code = r, df_action = a\<rparr> }"

definition dec_slide_item :: "json \<Rightarrow> PptxSlideContentItem option" where
  "dec_slide_item v = do {
     fs \<leftarrow> struct_fields [''heading'', ''body''] v;
     h \<leftarrow> defaulted [] as_str ''heading'' fs;
     b \<leftarrow> defaulted [] as_str ''body'' fs;
     Some \<lparr>si_heading = h, si_body = b\<rparr> }"

definition dec_slide :: "externals \<Rightarrow> json \<Rightarrow> PptxSlide option" where
  "dec_slide E v = do {
     fs \<leftarrow> struct_fields [''slide_number'', ''layout_type'', ''title'', ''subtitle'', ''content''] v;
     n \<leftarrow> required dec_u32 ''slide_number'' fs;
     l \<leftarrow> required as_str ''layout_type'' fs;
     t \<leftarrow> required (dec_text E) ''title'' fs;
     s \<leftarrow> defaulted None (nullable as_str) ''subtitle'' fs;
     c \<leftarrow> defaulted [] (dec_list dec_slide_item) ''content'' fs;
     Some \<lparr>ps_slide_number = n, ps_layout_type = l, ps_title = t, ps_subtitle = s, ps_content = c\<rparr> }"

definition DRAFT_FIELDS :: "string list" where
  "DRAFT_FIELDS =
     [''schema_version'', ''title'', ''summary'', ''learning_objectives'', ''sections'',
      ''teacher_delivery_summary'', ''fallback'', ''slides'', ''presentation_title'', ''theme_suggestion'']"

definition dec_draft :: "externals \<Rightarrow> json \<Rightarrow> ContentDraftPayload option" where
  "dec_draft E v = do {
     fs \<leftarrow> struct_fields DRAFT_FIELDS v;
     sv \<leftarrow> required (dec_text E) ''schema_version'' fs;
     t \<leftarrow> required (dec_text E) ''title'' fs;
     su \<leftarrow> required (dec_text E) ''summary'' fs;
     lo \<leftarrow> defaulted [] (dec_list as_str) ''learning_objectives'' fs;
     ss \<leftarrow> defaulted [] (dec_list (dec_content_section E)) ''sections'' fs;
     td \<leftarrow> required (dec_text E) ''teacher_delivery_summary'' fs;
     fb \<leftarrow> defaulted draft_fallback_default dec_draft_fallback ''fallback'' fs;
     sl \<leftarrow> defaulted None (nullable (dec_list (dec_slide E))) ''slides'' fs;
     pt \<leftarrow> defaulted None (nullable as_str) ''presentation_title'' fs;
     th \<leftarrow> defaulted None (nullable as_str) ''theme_suggestion'' fs;
     Some \<lparr>dp_schema_version = sv, dp_title = t, dp_summary = su, dp_learning_objectives = lo, dp_sections = ss,
           dp_teacher_delivery_summary = td, dp_fallback = fb, dp_slides = sl, dp_presentation_title = pt,
           dp_theme_suggestion = th\<rparr> }"

section \<open>Encoding\<close>

definition enc_body_block :: "BodyBlock \<Rightarrow> json" where
  "enc_body_block b = JObj [(''type'', JStr (bb_type b)), (''content'', JStr (bb_content b))]"

definition enc_content_section :: "ContentSection \<Rightarrow> json" where
  "enc_content_section s =
     JObj [(''title'', JStr (cs_title s)), (''purpose'', JStr (cs_purpose s)),
           (''body_blocks'', JArr (map enc_body_block (cs_body_blocks s))), (''emphasis'', JStr (cs_emphasis s))]"

definition enc_draft_fallback :: "DraftFallback \<Rightarrow> json" where
  "enc_draft_fallback f =
     JObj ((''triggered'', JBool (df_triggered f)) #
           skip_none ''reason_code'' JStr (df_reason_code f) @ skip_none ''action'' JStr (df_action f))"

definition enc_slide_item :: "PptxSlideContentItem \<Rightarrow> json" where
  "enc_slide_item i = JObj [(''heading'', JStr (si_heading i)), (''body'', JStr (si_body i))]"

definition enc_slide :: "PptxSlide \<Rightarrow> json" where
  "enc_slide s =
     JObj [(''slide_number'', JInt (ps_slide_number s)), (''layout_type'', JStr (ps_layout_type s)),
           (''title'', JStr (ps_title s)), (''subtitle'', jstr_opt (ps_subtitle s)),
           (''content'', JArr (map enc_slide_item (ps_content s)))]"

definition enc_draft :: "ContentDraftPayload \<Rightarrow> json" where
  "enc_draft p =
     JObj ([(''schema_version'', JStr (dp_schema_version p)), (''title'', JStr (dp_title p)),
            (''summary'', JStr (dp_summary p)), (''learning_objectives'', JArr (map JStr (dp_learning_objectives p))),
            (''sections'', JArr (map enc_content_section (dp_sections p))),
            (''teacher_delivery_summary'', JStr (dp_teacher_delivery_summary p)),
            (''fallback'', enc_draft_fallback (dp_fallback p))] @
           skip_none ''slides'' (JArr \<circ> map enc_slide) (dp_slides p) @
           skip_none ''presentation_title'' JStr (dp_presentation_title p) @
           skip_none ''theme_suggestion'' JStr (dp_theme_suggestion p))"

section \<open>Validation\<close>

definition valid_section :: "(string \<Rightarrow> nat) \<Rightarrow> ContentSection \<Rightarrow> bool" where
  "valid_section len s \<longleftrightarrow>
     in_length len 200 (cs_title s) \<and> in_length len 500 (cs_purpose s) \<and> cs_body_blocks s \<noteq> [] \<and>
     list_all (\<lambda>b. in_length len 1000 (bb_content b)) (cs_body_blocks s)"

definition valid_draft :: "(string \<Rightarrow> nat) \<Rightarrow> ContentDraftPayload \<Rightarrow> bool" where
  "valid_draft len p \<longleftrightarrow>
     1 \<le> len (dp_schema_version p) \<and> in_length len 200 (dp_title p) \<and> in_length len 1000 (dp_summary p) \<and>
     list_all (valid_section len) (dp_sections p) \<and> in_length len 1000 (dp_teacher_delivery_summary p)"

section \<open>Repair\<close>

definition draft_block_type :: "externals \<Rightarrow> string \<Rightarrow> string" where
  "draft_block_type E raw =
     (let r = to_lowercase (x_lower E) raw
      in if r \<in> {''paragraph'', ''text'', ''p''} then ''paragraph''
         else if r \<in> {''bullet'', ''bullets'', ''list'', ''ul''} then ''bullet''
         else if r \<in> {''checklist'', ''check'', ''checkbox''} then ''checklist''
         else if r \<in> {''note'', ''callout'', ''info''} then ''note''
         else ''paragraph'')"

text \<open>\<open>get(k).and_then(|v| v.as_str()).filter(|s| !s.is_empty()).unwrap_or(d)\<close>.\<close>

definition text_or :: "string \<Rightarrow> string \<Rightarrow> members \<Rightarrow> string" where
  "text_or k d m = (case Option.bind (map_of m k) as_str of Some s \<Rightarrow> if s = [] then d else s | None \<Rightarrow> d)"

definition bulleted :: "string \<Rightarrow> string option" where
  "bulleted joined = (if joined = [] then None else Some (''- '' @ joined))"

definition block_content :: "externals \<Rightarrow> json option \<Rightarrow> string option" where
  "block_content E content =
     (case content of
        Some (JStr s) \<Rightarrow> if s = [] then None else Some s
      | Some (JObj m) \<Rightarrow>
          (case Option.bind (first_member [''text'', ''content'', ''value'', ''description''] m) as_str of
             Some s \<Rightarrow> Some s
           | None \<Rightarrow>
               (case Option.bind (map_of m ''items'') as_array of
                  Some items \<Rightarrow> bulleted (join BULLET (List.map_filter as_str items))
                | None \<Rightarrow>
                    (let s = x_json_to_string E (JObj m)
                     in if s = [] \<or> s = ''{}'' then None else Some s)))
      | Some (JArr arr) \<Rightarrow> bulleted (join BULLET (List.map_filter as_str arr))
      | Some (JInt n) \<Rightarrow> Some (x_json_to_string E (JInt n))
      | Some (JFloat w) \<Rightarrow> Some (x_json_to_string E (JFloat w))
      | _ \<Rightarrow> None)"

definition repair_block :: "externals \<Rightarrow> json \<Rightarrow> json option" where
  "repair_block E block =
     map_option (\<lambda>content.
       JObj [(''type'', JStr (draft_block_type E
                (case Option.bind (jget ''type'' block) as_str of Some s \<Rightarrow> s | None \<Rightarrow> ''paragraph''))),
             (''content'', JStr (truncate_str content 1000))]) (block_content E (jget ''content'' block))"

definition repair_draft_section :: "externals \<Rightarrow> json \<Rightarrow> json" where
  "repair_draft_section E s =
     (case as_object s of
        None \<Rightarrow> s
      | Some m \<Rightarrow>
          let title = text_or ''title'' ''Untitled Section'' m;
              purpose = text_or ''purpose'' ''Section content'' m;
              emphasis = (case Option.bind (map_of m ''emphasis'') as_str of Some e \<Rightarrow> e | None \<Rightarrow> ''medium'');
              blocks = (case Option.bind (map_of m ''body_blocks'') as_array of
                          Some arr \<Rightarrow> List.map_filter (repair_block E) arr | None \<Rightarrow> []);
              body_blocks = (if blocks = []
                then [JObj [(''type'', JStr ''paragraph''), (''content'', JStr purpose)]] else blocks)
          in JObj [(''title'', JStr (truncate_str title 200)), (''purpose'', JStr (truncate_str purpose 500)),
                   (''body_blocks'', JArr body_blocks), (''emphasis'', JStr emphasis)])"

definition default_draft_section :: "string \<Rightarrow> json" where
  "default_draft_section title =
     JObj [(''title'', JStr ''Requested Content''), (''purpose'', JStr ''Deliver the requested learning material.''),
           (''body_blocks'', JArr [JObj [(''type'', JStr ''paragraph''), (''content'', JStr title)]]),
           (''emphasis'', JStr ''medium'')]"

definition has_items :: "string \<Rightarrow> members \<Rightarrow> bool" where
  "has_items k m = (case Option.bind (map_of m k) as_array of Some arr \<Rightarrow> arr \<noteq> [] | None \<Rightarrow> False)"

definition repair_draft_sections :: "externals \<Rightarrow> members \<Rightarrow> members" where
  "repair_draft_sections E m =
     (if \<not> has_items ''sections'' m \<and> \<not> has_items ''slides'' m then
        AList.update ''sections'' (JArr [default_draft_section
          (case Option.bind (map_of m ''title'') as_str of Some t \<Rightarrow> t | None \<Rightarrow> ''Content'')]) m
      else if \<not> has_items ''sections'' m then AList.update ''sections'' (JArr []) m
      else (case Option.bind (map_of m ''sections'') as_array of
              Some arr \<Rightarrow> AList.update ''sections'' (JArr (map (repair_draft_section E) arr)) m
            | None \<Rightarrow> m))"

definition repair_objective :: "externals \<Rightarrow> json \<Rightarrow> json" where
  "repair_objective E item =
     (case item of
        JStr _ \<Rightarrow> item
      | JObj m \<Rightarrow>
          (case Option.bind (first_member [''objective'', ''text'', ''content'', ''description'', ''title''] m) as_str of
             Some s \<Rightarrow> JStr s
           | None \<Rightarrow> JStr (x_json_to_string E item))
      | _ \<Rightarrow> JStr (x_json_to_string E item))"

definition repair_draft_objectives :: "externals \<Rightarrow> members \<Rightarrow> members" where
  "repair_draft_objectives E m =
     (case map_of m ''learning_objectives'' of
        None \<Rightarrow> AList.update ''learning_objectives'' (JArr []) m
      | Some JNull \<Rightarrow> AList.update ''learning_objectives'' (JArr []) m
      | Some (JArr arr) \<Rightarrow> AList.update ''learning_objectives'' (JArr (map (repair_objective E) arr)) m
      | Some _ \<Rightarrow> m)"

definition repair_draft_object :: "externals \<Rightarrow> members \<Rightarrow> members" where
  "repair_draft_object E m0 =
     (let m1 = (case map_of m0 ''schema_version'' of
                  None \<Rightarrow> AList.update ''schema_version'' (JStr SCHEMA_VERSION_CD) m0
                | Some v \<Rightarrow> if v = JNull \<or> v = JStr [] then AList.update ''schema_version'' (JStr SCHEMA_VERSION_CD) m0 else m0);
          title_str = text_or ''title'' ''Untitled Draft'' m1;
          summary_str = text_or ''summary'' title_str m1;
          delivery_str = text_or ''teacher_delivery_summary'' title_str m1;
          m2 = AList.update ''teacher_delivery_summary'' (JStr (truncate_str delivery_str 1000))
                 (AList.update ''summary'' (JStr (truncate_str summary_str 1000))
                   (AList.update ''title'' (JStr (truncate_str title_str 200)) m1))
      in repair_draft_objectives E (repair_draft_sections E m2))"

definition repair_draft_json :: "externals \<Rightarrow> codec \<Rightarrow> string \<Rightarrow> string" where
  "repair_draft_json E C raw =
     (let cleaned = extract_object raw
      in case cd_parse C cleaned of
           None \<Rightarrow> cleaned
         | Some (JObj m) \<Rightarrow> x_json_to_string E (JObj (repair_draft_object E m))
         | Some _ \<Rightarrow> raw)"

definition decode_and_validate_draft ::
  "externals \<Rightarrow> codec \<Rightarrow> string \<Rightarrow> ContractValidationError + ContentDraftPayload" where
  "decode_and_validate_draft E C raw_json =
     (if trim raw_json = [] then Inl (Empty_Completion raw_json)
      else
        (case Option.bind (cd_parse C (repair_draft_json E C (trim raw_json))) (dec_draft E) of
           None \<Rightarrow> Inl (Contract_Undecodable raw_json)
         | Some payload \<Rightarrow>
             if valid_draft (cd_len C) payload then Inr payload else Inl (Contract_Invalid raw_json)))"

definition fallback_from_interpretation :: "string \<Rightarrow> string \<Rightarrow> string \<Rightarrow> ContentDraftPayload" where
  "fallback_from_interpretation title summary teacher_delivery_summary =
     \<lparr>dp_schema_version = SCHEMA_VERSION_CD, dp_title = truncate_str title 200,
      dp_summary = truncate_str summary 1000, dp_learning_objectives = [],
      dp_sections = [\<lparr>cs_title = ''Requested Content'', cs_purpose = ''Deliver the requested learning material.'',
        cs_body_blocks = [\<lparr>bb_type = ''paragraph'', bb_content = truncate_str summary 1000\<rparr>],
        cs_emphasis = ''medium''\<rparr>],
      dp_teacher_delivery_summary = truncate_str teacher_delivery_summary 1000,
      dp_fallback = \<lparr>df_triggered = True, df_reason_code = Some ''provider_response_contract_invalid'',
        df_action = Some ''fallback_from_interpretation''\<rparr>,
      dp_slides = None, dp_presentation_title = None, dp_theme_suggestion = None\<rparr>"

section \<open>Laws\<close>

lemma deserialize_string_lenient_str [serde_simps]: "deserialize_string_lenient E (JStr s) = s"
  by (simp add: deserialize_string_lenient_def)

lemma dec_enc_body_block [serde_simps]: "dec_body_block E (enc_body_block b) = Some b"
  by (simp add: dec_body_block_def enc_body_block_def serde_simps)

lemma dec_enc_content_section [serde_simps]: "dec_content_section E (enc_content_section s) = Some s"
  by (simp add: dec_content_section_def enc_content_section_def serde_simps
      dec_list_encoded [of _ "dec_body_block E" enc_body_block])

lemma dec_enc_draft_fallback [serde_simps]: "dec_draft_fallback (enc_draft_fallback f) = Some f"
  by (cases f) (auto simp: dec_draft_fallback_def enc_draft_fallback_def serde_simps split: option.split)

lemma dec_enc_slide_item [serde_simps]: "dec_slide_item (enc_slide_item i) = Some i"
  by (simp add: dec_slide_item_def enc_slide_item_def serde_simps)

definition slide_ok :: "PptxSlide \<Rightarrow> bool" where
  "slide_ok s \<longleftrightarrow> 0 \<le> ps_slide_number s \<and> ps_slide_number s < 2 ^ 32"

lemma dec_enc_slide: "slide_ok s \<Longrightarrow> dec_slide E (enc_slide s) = Some s"
  by (simp add: dec_slide_def enc_slide_def serde_simps dec_u32_def slide_ok_def
      dec_list_encoded [of _ dec_slide_item enc_slide_item])

lemma dec_slide_ok: "dec_slide E v = Some s \<Longrightarrow> slide_ok s"
  by (auto simp: dec_slide_def slide_ok_def required_def dec_u32_def split: bind_splits json.splits if_splits)

definition draft_ok :: "ContentDraftPayload \<Rightarrow> bool" where
  "draft_ok p \<longleftrightarrow> (case dp_slides p of None \<Rightarrow> True | Some ss \<Rightarrow> list_all slide_ok ss)"

lemma those_set: "those (map dec vs) = Some xs \<Longrightarrow> x \<in> set xs \<Longrightarrow> \<exists>v. dec v = Some x"
  by (induction vs arbitrary: xs) (auto split: option.splits)

lemma dec_draft_ok:
  assumes "dec_draft E v = Some p"
  shows "draft_ok p"
proof -
  obtain fs where "defaulted None (nullable (dec_list (dec_slide E))) ''slides'' fs = Some (dp_slides p)"
    using assms by (clarsimp simp: dec_draft_def Option.bind_eq_Some_conv)
  then have "\<exists>vs. those (map (dec_slide E) vs) = Some ss" if "dp_slides p = Some ss" for ss
    using that by (auto simp: defaulted_def nullable_def dec_list_def Option.bind_eq_Some_conv split: option.splits if_splits)
  then show ?thesis
    by (fastforce simp: draft_ok_def list_all_iff split: option.split dest: those_set intro: dec_slide_ok)
qed

lemma dec_enc_draft:
  assumes "dec_draft E v = Some p"
  shows "dec_draft E (enc_draft p) = Some p"
proof -
  have "list_all slide_ok ss" if "dp_slides p = Some ss" for ss
    using dec_draft_ok [OF assms] that by (simp add: draft_ok_def)
  then have "dec_list (dec_slide E) (JArr (map enc_slide ss)) = Some ss" if "dp_slides p = Some ss" for ss
    using that by (intro dec_list_encoded) (auto simp: list_all_iff intro: dec_enc_slide)
  then show ?thesis
    by (cases p) (auto simp: dec_draft_def enc_draft_def serde_simps nullable_def
        dec_list_encoded [of _ "dec_content_section E" enc_content_section] split: option.split)
qed

text \<open>
  A decoded draft survives the cache: what is encoded decodes to the same draft.
\<close>
theorem draft_roundtrip:
  assumes "dec_draft E v = Some p"
  shows "dec_draft E (enc_draft p) = Some p"
  using assms by (rule dec_enc_draft)

theorem draft_roundtrip_witness:
  "dec_draft sample_externals (enc_draft (fallback_from_interpretation ''t'' ''s'' ''d'')) =
     Some (fallback_from_interpretation ''t'' ''s'' ''d'')"
  by (rule draft_roundtrip [of _ "enc_draft (fallback_from_interpretation ''t'' ''s'' ''d'')"])
     (simp add: dec_draft_def enc_draft_def fallback_from_interpretation_def serde_simps dec_list_def as_array_def)

section \<open>A completion with only a title\<close>

definition title_only :: "string \<Rightarrow> members" where
  "title_only t = [(''title'', JStr t)]"

definition title_only_draft :: "string \<Rightarrow> ContentDraftPayload" where
  "title_only_draft t =
     \<lparr>dp_schema_version = SCHEMA_VERSION_CD, dp_title = truncate_str t 200, dp_summary = truncate_str t 1000,
      dp_learning_objectives = [],
      dp_sections = [\<lparr>cs_title = ''Requested Content'', cs_purpose = ''Deliver the requested learning material.'',
        cs_body_blocks = [\<lparr>bb_type = ''paragraph'', bb_content = truncate_str t 200\<rparr>], cs_emphasis = ''medium''\<rparr>],
      dp_teacher_delivery_summary = truncate_str t 1000, dp_fallback = draft_fallback_default,
      dp_slides = None, dp_presentation_title = None, dp_theme_suggestion = None\<rparr>"

lemma dec_title_only:
  assumes "t \<noteq> []"
  shows "dec_draft E (JObj (repair_draft_object E (title_only t))) = Some (title_only_draft t)"
proof -
  have "map_of (repair_draft_object E (title_only t)) =
      [''schema_version'' \<mapsto> JStr SCHEMA_VERSION_CD, ''title'' \<mapsto> JStr (truncate_str t 200),
       ''summary'' \<mapsto> JStr (truncate_str t 1000), ''teacher_delivery_summary'' \<mapsto> JStr (truncate_str t 1000),
       ''sections'' \<mapsto> JArr [default_draft_section (truncate_str t 200)], ''learning_objectives'' \<mapsto> JArr []]"
    using assms
    by (auto simp: repair_draft_object_def title_only_def Let_def text_or_def repair_draft_sections_def has_items_def
        repair_draft_objectives_def update_conv' as_str_def fun_eq_iff)
  moreover have "dec_content_section E (default_draft_section s) =
      Some \<lparr>cs_title = ''Requested Content'', cs_purpose = ''Deliver the requested learning material.'',
        cs_body_blocks = [\<lparr>bb_type = ''paragraph'', bb_content = s\<rparr>], cs_emphasis = ''medium''\<rparr>" for s
    by (simp add: dec_content_section_def default_draft_section_def dec_body_block_def serde_simps dec_list_def as_array_def)
  ultimately show ?thesis
    by (simp add: dec_draft_def serde_simps dec_list_def as_array_def title_only_draft_def)
qed

text \<open>
  A completion that holds nothing but a title is repaired, decoded and accepted if and only if the title has
  at most 200 characters without the blanks around it, and it then is a draft with one section. A longer
  title is cut to 203 characters, which the validation refuses. The title is ASCII and not blank; the JSON
  parser reads the completion, and reads back what is printed.
\<close>
theorem title_only_completion:
  assumes len: "ascii_measure (cd_len C)" and ascii: "is_ascii t" and blank: "trim t \<noteq> []"
    and raw: "trim raw \<noteq> []" "cd_parse C (extract_object (trim raw)) = Some (JObj (title_only t))"
    and reparse: "cd_parse C (x_json_to_string E (JObj (repair_draft_object E (title_only t)))) =
      Some (JObj (repair_draft_object E (title_only t)))"
  shows "decode_and_validate_draft E C raw =
    (if length (trim t) \<le> 200 then Inr (title_only_draft t) else Inl (Contract_Invalid raw))"
proof -
  have "t \<noteq> []" using blank by (auto simp: trim_def trim_chars_def)
  have lits: "cd_len C ''Requested Content'' = 17" "cd_len C ''Deliver the requested learning material.'' = 40"
      "cd_len C SCHEMA_VERSION_CD = 22"
    by (simp_all add: ascii_measureD [OF len] is_ascii_def byte_def SCHEMA_VERSION_CD_def)
  have "valid_draft (cd_len C) (title_only_draft t) \<longleftrightarrow> length (trim t) \<le> 200"
    using blank by (auto simp: valid_draft_def valid_section_def title_only_draft_def in_length_def lits
        len_truncate_str [OF len ascii] Suc_le_eq)
  then show ?thesis
    using raw reparse dec_title_only [OF \<open>t \<noteq> []\<close>, of E]
    by (simp add: decode_and_validate_draft_def repair_draft_json_def Let_def)
qed

definition title_codec :: codec where
  "title_codec = no_counts (\<lambda>s. if s = ''{p}'' then Some (JObj (title_only ''Pecahan''))
     else Some (JObj (repair_draft_object sample_externals (title_only ''Pecahan''))))"

theorem title_only_completion_witness:
  "decode_and_validate_draft sample_externals title_codec ''{p}'' = Inr (title_only_draft ''Pecahan'')"
proof -
  have t: "trim ''Pecahan'' = ''Pecahan''"
    by (simp add: trim_def trim_chars_def is_whitespace_def whitespace_codes_def byte_def is_cont_def)
  have p: "x_json_to_string sample_externals v \<noteq> ''{p}''" for v by (simp add: sample_externals_def)
  have "decode_and_validate_draft sample_externals title_codec ''{p}'' =
      (if length (trim ''Pecahan'') \<le> 200 then Inr (title_only_draft ''Pecahan'') else Inl (Contract_Invalid ''{p}''))"
    by (rule title_only_completion)
       (simp_all add: title_codec_def no_counts_def ascii_measure_def extract_braces t p is_ascii_def byte_def)
  then show ?thesis by (simp add: t)
qed

end
