(* ===== verification/Draft_Service.thy ===== *)
theory Draft_Service
  imports Interpret_Service Content_Draft
begin

text \<open>
  The drafting service, \<open>src/src/llm/draft.rs\<close>: from a validated interpretation to the content of the
  document. It shares the route \<open>respond\<close>, with its limits and its part of the cache, with the delivery
  service.
\<close>

section \<open>Types\<close>

record DraftTaxonomyHint =
  dh_schema_version :: string
  dh_source :: string
  dh_subject_name :: "string option"
  dh_subject_slug :: "string option"
  dh_sub_subject_name :: "string option"
  dh_sub_subject_slug :: "string option"
  dh_jenjang :: "string option"
  dh_kelas :: "int option"
  dh_semester :: "int option"
  dh_bab :: "int option"
  dh_description :: "string option"
  dh_structure :: "string option"
  dh_matched_signals :: "string list"

record DraftInput =
  di_generation_id :: string
  di_interpretation :: InterpretationPayload
  di_resolved_output_type :: string
  di_taxonomy_hint :: "DraftTaxonomyHint option"
  di_model :: "string option"
  di_instruction :: "string option"
  di_bypass_cache :: bool

record DraftResult =
  dr_request_id :: string
  dr_generation_id :: string
  dr_draft_payload :: ContentDraftPayload
  dr_source :: string
  dr_adapter_metadata :: json
  dr_fallback_error :: "string option"
  dr_response_headers :: "string \<rightharpoonup> string"
  dr_latency_ms :: "decimal option"

text \<open>The defaults, with the instruction for presentations.\<close>

record draft_defaults = llm_defaults +
  ld_pptx_instruction :: string

definition DRAFT_ROUTE :: string where
  "DRAFT_ROUTE = ''respond''"

definition DRAFT_REQUEST_TYPE :: string where
  "DRAFT_REQUEST_TYPE = ''media_content_draft''"

section \<open>The request\<close>

definition draft_model :: "draft_defaults \<Rightarrow> DraftInput \<Rightarrow> string" where
  "draft_model D input = unwrap_or (ld_model D) (di_model input)"

definition draft_instruction :: "draft_defaults \<Rightarrow> DraftInput \<Rightarrow> string" where
  "draft_instruction D input =
     (case di_instruction input of
        Some i \<Rightarrow> i
      | None \<Rightarrow> if di_resolved_output_type input = ''pptx'' then ld_pptx_instruction D else ld_instruction D)"

definition draft_cache_key :: "llm_world \<Rightarrow> draft_defaults \<Rightarrow> DraftInput \<Rightarrow> string" where
  "draft_cache_key W D input =
     (let p = di_interpretation input
      in build_cache_key (lw_ext W) Cache_Respond PROVIDER (draft_model D input) DRAFT_REQUEST_TYPE
           (draft_instruction D input)
           (JObj [(''resolved_output_type'', JStr (di_resolved_output_type input)),
                  (''interpretation_title'', JStr (db_title (ip_document_blueprint p))),
                  (''interpretation_summary'', JStr (db_summary (ip_document_blueprint p))),
                  (''teacher_prompt'', JStr (ip_teacher_prompt p)),
                  (''subject_context'', jopt (map_option (\<lambda>c.
                     JObj [(''name'', JStr (sc_subject_name c)), (''slug'', jstr_opt (sc_subject_slug c))]) (ip_subject_context p))),
                  (''sub_subject_context'', jopt (map_option (\<lambda>c.
                     JObj [(''name'', JStr (ssc_sub_subject_name c)), (''slug'', jstr_opt (ssc_sub_subject_slug c))])
                       (ip_sub_subject_context p)))]))"

definition draft_hint :: "DraftTaxonomyHint \<Rightarrow> json" where
  "draft_hint h =
     JObj [(''subject_name'', jstr_opt (dh_subject_name h)), (''sub_subject_name'', jstr_opt (dh_sub_subject_name h)),
           (''jenjang'', jstr_opt (dh_jenjang h)), (''kelas'', jint_opt (dh_kelas h)),
           (''structure'', jstr_opt (dh_structure h)), (''matched_signals'', enc_strings (dh_matched_signals h))]"

definition draft_user_payload :: "DraftInput \<Rightarrow> json" where
  "draft_user_payload input =
     (let p = di_interpretation input; c = ip_constraints p
      in JObj
        [(''teacher_prompt'', JStr (ip_teacher_prompt p)), (''output_type'', JStr (di_resolved_output_type input)),
         (''title'', JStr (db_title (ip_document_blueprint p))), (''summary'', JStr (db_summary (ip_document_blueprint p))),
         (''learning_objectives'', enc_strings (ip_learning_objectives p)),
         (''sections'', JArr (map (\<lambda>s.
            JObj [(''title'', JStr (bs_title s)), (''purpose'', JStr (bs_purpose s)), (''bullets'', enc_strings (bs_bullets s)),
                  (''estimated_length'', JStr (bs_estimated_length s))]) (db_sections (ip_document_blueprint p)))),
         (''language'', JStr (ip_language p)), (''teacher_intent_goal'', JStr (ti_goal (ip_teacher_intent p))),
         (''target_page_count'', jstr_opt (Option.bind (ip_interpreted_fields p) if_page_count)),
         (''target_slide_count'', jstr_opt (Option.bind (ip_interpreted_fields p) if_slide_count)),
         (''constraints'',
          JObj [(''preferred_output_type'', JStr (ic_preferred_output_type c)), (''must_include'', enc_strings (ic_must_include c)),
                (''avoid'', enc_strings (ic_avoid c)), (''tone'', jstr_opt (ic_tone c))]),
         (''taxonomy_hint'', jopt (map_option draft_hint (di_taxonomy_hint input)))])"

text \<open>The draft of a completion, or else the fallback with the text of the reason.\<close>

definition drafted_payload :: "llm_world \<Rightarrow> DraftInput \<Rightarrow> string \<Rightarrow> ContentDraftPayload \<times> string option" where
  "drafted_payload W input raw_completion =
     (case decode_and_validate_draft (lw_ext W) (lw_codec W) raw_completion of
        Inr p \<Rightarrow> (p, None)
      | Inl e \<Rightarrow>
          (let p = di_interpretation input
           in (fallback_from_interpretation (db_title (ip_document_blueprint p)) (db_summary (ip_document_blueprint p))
                 (ip_teacher_delivery_summary p), Some (lw_contract_text W e))))"

definition draft_execute_provider ::
  "llm_world \<Rightarrow> llm_moment \<Rightarrow> DraftInput \<Rightarrow> string \<Rightarrow> string \<Rightarrow> string \<Rightarrow> bool \<Rightarrow> (llm_state, llm_error, DraftResult) act" where
  "draft_execute_provider W M input model instruction cache_key should_cache =
     and_then (call_provider W (json_mode_request model instruction (lw_pretty W (draft_user_payload input)))) (\<lambda>provider_result.
       let latency_ms = latency (lm_call_millis M)
       in case provider_result of
            Inr response \<Rightarrow>
              (let (payload, fallback_error) = drafted_payload W input (completion_text response);
                   llm_provider = served_by PROVIDER response; llm_model = served_by model response
               in and_then (record_reply W M Cache_Respond DRAFT_ROUTE DRAFT_REQUEST_TYPE ''draft_service''
                      model (di_generation_id input) cache_key latency_ms should_cache fallback_error
                      (enc_draft payload) response) (\<lambda>_.
                    ok \<lparr>dr_request_id = lm_request_id M, dr_generation_id = di_generation_id input,
                        dr_draft_payload = payload,
                        dr_source = (if fallback_error \<noteq> None then ''fallback'' else ''provider''),
                        dr_adapter_metadata = JObj
                          [(''provider'', JStr llm_provider), (''model'', JStr llm_model),
                           (''usage'', jopt (map_option enc_usage (cp_usage response)))],
                        dr_fallback_error = fallback_error,
                        dr_response_headers = provider_headers llm_provider llm_model False (fallback_error \<noteq> None),
                        dr_latency_ms = Some latency_ms\<rparr>))
          | Inl e \<Rightarrow>
              and_then (record_provider_failure M DRAFT_ROUTE DRAFT_REQUEST_TYPE ''draft_service'' ''ProviderError''
                  model (di_generation_id input) e) (\<lambda>_.
                raise (Provider e)))"

definition draft_cached ::
  "llm_world \<Rightarrow> llm_moment \<Rightarrow> DraftInput \<Rightarrow> string \<Rightarrow> string \<Rightarrow> int \<Rightarrow> string \<Rightarrow> CacheEntry \<Rightarrow>
     (llm_state, llm_error, DraftResult) act" where
  "draft_cached W M input model cache_key millis cache_source entry =
     and_then (read_cached (dec_draft (lw_ext W)) entry) (\<lambda>payload.
       let latency_ms = latency millis
       in and_then (record_hit M DRAFT_ROUTE DRAFT_REQUEST_TYPE model (di_generation_id input) cache_key latency_ms
              [(''source'', JStr ''draft_service''), (''cache_hit'', JBool True), (''cache_source'', JStr cache_source)]) (\<lambda>_.
            ok \<lparr>dr_request_id = lm_request_id M, dr_generation_id = di_generation_id input, dr_draft_payload = payload,
                dr_source = ''cache'',
                dr_adapter_metadata = JObj [(''provider'', JStr PROVIDER), (''model'', JStr model), (''cache_hit'', JBool True)],
                dr_fallback_error = None, dr_response_headers = provider_headers PROVIDER model True False,
                dr_latency_ms = Some latency_ms\<rparr>))"

definition draft_service ::
  "llm_world \<Rightarrow> draft_defaults \<Rightarrow> llm_moment \<Rightarrow> DraftInput \<Rightarrow> (llm_state, llm_error, DraftResult) act" where
  "draft_service W D M input =
     (let model = draft_model D input;
          cache_key = draft_cache_key W D input
      in serve W M Cache_Respond DRAFT_ROUTE 500 3000 model (di_generation_id input) cache_key (di_bypass_cache input)
           (draft_cached W M input model cache_key (lm_hit_millis M) ''content_draft_cache'')
           (draft_cached W M input model cache_key (lm_wait_millis M) ''content_draft_cache_inflight_wait'')
           (draft_execute_provider W M input model (draft_instruction D input) cache_key))"

section \<open>What is cached\<close>

definition validated_draft :: "llm_world \<Rightarrow> json \<Rightarrow> bool" where
  "validated_draft W v \<longleftrightarrow> (\<exists>raw p. decode_and_validate_draft (lw_ext W) (lw_codec W) raw = Inr p \<and> v = enc_draft p)"

lemma decode_and_validate_draft_decoded:
  "decode_and_validate_draft E C raw = Inr p \<Longrightarrow> \<exists>v. dec_draft E v = Some p"
  by (auto simp: decode_and_validate_draft_def Option.bind_eq_Some_conv Let_def split: if_splits option.splits)

interpretation drafts: cached_contract "dec_draft (lw_ext W)" "validated_draft W" for W
  by unfold_locales (auto simp: validated_draft_def dest!: decode_and_validate_draft_decoded intro: dec_enc_draft)

lemma orderly_draft_service:
  assumes "G (draft_cache_key W D input) = validated_draft W"
    and "\<And>k t. cached_ok G t \<Longrightarrow> cached_ok G (lm_wait_others M k t)"
  shows "orderly G (draft_service W D M input)"
proof -
  have cached: "orderly G (draft_cached W M input model (draft_cache_key W D input) ms src e)"
    if "G (draft_cache_key W D input) (ce_response_payload e)" for ms src e model
    unfolding draft_cached_def Let_def
    by (rule drafts.orderly_cached [where G = G, OF assms(1) _ that]) (intro orderly_rules orderly_record_hit)
  have stored: "drafted_payload W input raw = (p, None) \<Longrightarrow> validated_draft W (enc_draft p)" for raw p
    by (auto simp: drafted_payload_def validated_draft_def Let_def split: sum.splits)
  have "orderly G (draft_execute_provider W M input model instruction (draft_cache_key W D input) b)"
    for model instruction b
    unfolding draft_execute_provider_def Let_def
    by (intro orderly_and_then orderly_rules(6))
       (auto split: sum.split prod.split intro!: drafts.orderly_reply [where G = G, OF assms(1)] orderly_rules
          orderly_record_provider_failure dest: stored)
  then show ?thesis
    unfolding draft_service_def Let_def by (intro orderly_serve cached assms(2))
qed

lemma draft_service_limited:
  "wp (draft_service W D M input) (\<lambda>_ _. True)
     (\<lambda>x t. limited x \<longrightarrow> x = Error (RateLimited (lm_request_id M) (di_generation_id input)) \<and> untouched s t) s"
  unfolding draft_service_def Let_def
proof (rule wp_serve_limited, goal_cases)
  case (3 b)
  show ?case
    unfolding draft_execute_provider_def Let_def
    by (intro never_limited_and_then never_limited_basic)
       (auto split: sum.split prod.split intro!: never_limited_rules never_limited_recording)
qed (auto simp: draft_cached_def Let_def intro!: never_limited_rules never_limited_recording)

end
