(* ===== verification/Delivery.thy ===== *)
theory Delivery
  imports Serde
begin

text \<open>
  The contract of a delivery response, \<open>src/src/contracts/delivery.rs\<close>: types, decoding, encoding,
  validation, and the response that is used instead of an invalid one.
\<close>

definition SCHEMA_VERSION_DR :: string where
  "SCHEMA_VERSION_DR = ''media_delivery_response.v1''"

section \<open>Types\<close>

record DeliveryArtifact =
  da_output_type :: string
  da_title :: string
  da_file_url :: string
  da_thumbnail_url :: "string option"
  da_mime_type :: string
  da_filename :: "string option"

record TopicNode =
  tn_id :: string
  tn_title :: string

record ContentNode =
  cn_id :: string
  cn_title :: string
  cn_type :: "string option"
  cn_media_url :: "string option"

record RecommendedProjectNode =
  rn_id :: string
  rn_title :: string
  rn_project_file_url :: "string option"

record Publication =
  pb_topic :: "TopicNode option"
  pb_content :: "ContentNode option"
  pb_recommended_project :: "RecommendedProjectNode option"

record ResponseMeta =
  mt_generated_at :: string
  mt_llm_used :: bool
  mt_provider :: "string option"
  mt_model :: "string option"

record DeliveryFallback =
  vf_triggered :: bool
  vf_reason_code :: "string option"
  vf_action :: "string option"

definition delivery_fallback_default :: DeliveryFallback where
  "delivery_fallback_default = \<lparr>vf_triggered = False, vf_reason_code = None, vf_action = None\<rparr>"

record DeliveryResponsePayload =
  dv_schema_version :: string
  dv_title :: string
  dv_preview_summary :: string
  dv_teacher_message :: string
  dv_recommended_next_steps :: "string list"
  dv_classroom_tips :: "string list"
  dv_artifact :: DeliveryArtifact
  dv_publication :: Publication
  dv_response_meta :: ResponseMeta
  dv_fallback :: DeliveryFallback

section \<open>Decoding\<close>

definition dec_artifact :: "json \<Rightarrow> DeliveryArtifact option" where
  "dec_artifact v = do {
     fs \<leftarrow> struct_fields [''output_type'', ''title'', ''file_url'', ''thumbnail_url'', ''mime_type'', ''filename''] v;
     o' \<leftarrow> required as_str ''output_type'' fs;
     t \<leftarrow> required as_str ''title'' fs;
     u \<leftarrow> required as_str ''file_url'' fs;
     th \<leftarrow> defaulted None (nullable as_str) ''thumbnail_url'' fs;
     m \<leftarrow> required as_str ''mime_type'' fs;
     f \<leftarrow> defaulted None (nullable as_str) ''filename'' fs;
     Some \<lparr>da_output_type = o', da_title = t, da_file_url = u, da_thumbnail_url = th, da_mime_type = m, da_filename = f\<rparr> }"

definition dec_topic_node :: "json \<Rightarrow> TopicNode option" where
  "dec_topic_node v = do {
     fs \<leftarrow> struct_fields [''id'', ''title''] v;
     i \<leftarrow> required as_str ''id'' fs;
     t \<leftarrow> required as_str ''title'' fs;
     Some \<lparr>tn_id = i, tn_title = t\<rparr> }"

definition dec_content_node :: "json \<Rightarrow> ContentNode option" where
  "dec_content_node v = do {
     fs \<leftarrow> struct_fields [''id'', ''title'', ''type'', ''media_url''] v;
     i \<leftarrow> required as_str ''id'' fs;
     t \<leftarrow> required as_str ''title'' fs;
     ty \<leftarrow> defaulted None (nullable as_str) ''type'' fs;
     m \<leftarrow> defaulted None (nullable as_str) ''media_url'' fs;
     Some \<lparr>cn_id = i, cn_title = t, cn_type = ty, cn_media_url = m\<rparr> }"

definition dec_project_node :: "json \<Rightarrow> RecommendedProjectNode option" where
  "dec_project_node v = do {
     fs \<leftarrow> struct_fields [''id'', ''title'', ''project_file_url''] v;
     i \<leftarrow> required as_str ''id'' fs;
     t \<leftarrow> required as_str ''title'' fs;
     p \<leftarrow> defaulted None (nullable as_str) ''project_file_url'' fs;
     Some \<lparr>rn_id = i, rn_title = t, rn_project_file_url = p\<rparr> }"

definition dec_publication :: "json \<Rightarrow> Publication option" where
  "dec_publication v = do {
     fs \<leftarrow> struct_fields [''topic'', ''content'', ''recommended_project''] v;
     t \<leftarrow> defaulted None (nullable dec_topic_node) ''topic'' fs;
     c \<leftarrow> defaulted None (nullable dec_content_node) ''content'' fs;
     r \<leftarrow> defaulted None (nullable dec_project_node) ''recommended_project'' fs;
     Some \<lparr>pb_topic = t, pb_content = c, pb_recommended_project = r\<rparr> }"

definition dec_response_meta :: "json \<Rightarrow> ResponseMeta option" where
  "dec_response_meta v = do {
     fs \<leftarrow> struct_fields [''generated_at'', ''llm_used'', ''provider'', ''model''] v;
     g \<leftarrow> required as_str ''generated_at'' fs;
     l \<leftarrow> required as_bool ''llm_used'' fs;
     p \<leftarrow> defaulted None (nullable as_str) ''provider'' fs;
     m \<leftarrow> defaulted None (nullable as_str) ''model'' fs;
     Some \<lparr>mt_generated_at = g, mt_llm_used = l, mt_provider = p, mt_model = m\<rparr> }"

definition dec_delivery_fallback :: "json \<Rightarrow> DeliveryFallback option" where
  "dec_delivery_fallback v = do {
     fs \<leftarrow> struct_fields [''triggered'', ''reason_code'', ''action''] v;
     t \<leftarrow> defaulted False as_bool ''triggered'' fs;
     r \<leftarrow> defaulted None (nullable as_str) ''reason_code'' fs;
     a \<leftarrow> defaulted None (nullable as_str) ''action'' fs;
     Some \<lparr>vf_triggered = t, vf_reason_code = r, vf_action = a\<rparr> }"

definition DELIVERY_FIELDS :: "string list" where
  "DELIVERY_FIELDS =
     [''schema_version'', ''title'', ''preview_summary'', ''teacher_message'', ''recommended_next_steps'',
      ''classroom_tips'', ''artifact'', ''publication'', ''response_meta'', ''fallback'']"

definition dec_delivery :: "json \<Rightarrow> DeliveryResponsePayload option" where
  "dec_delivery v = do {
     fs \<leftarrow> struct_fields DELIVERY_FIELDS v;
     sv \<leftarrow> required as_str ''schema_version'' fs;
     t \<leftarrow> required as_str ''title'' fs;
     ps \<leftarrow> required as_str ''preview_summary'' fs;
     tm \<leftarrow> required as_str ''teacher_message'' fs;
     ns \<leftarrow> defaulted [] (dec_list as_str) ''recommended_next_steps'' fs;
     ct \<leftarrow> defaulted [] (dec_list as_str) ''classroom_tips'' fs;
     a \<leftarrow> required dec_artifact ''artifact'' fs;
     p \<leftarrow> required dec_publication ''publication'' fs;
     r \<leftarrow> required dec_response_meta ''response_meta'' fs;
     f \<leftarrow> defaulted delivery_fallback_default dec_delivery_fallback ''fallback'' fs;
     Some \<lparr>dv_schema_version = sv, dv_title = t, dv_preview_summary = ps, dv_teacher_message = tm,
           dv_recommended_next_steps = ns, dv_classroom_tips = ct, dv_artifact = a, dv_publication = p,
           dv_response_meta = r, dv_fallback = f\<rparr> }"

section \<open>Encoding\<close>

definition enc_artifact :: "DeliveryArtifact \<Rightarrow> json" where
  "enc_artifact a =
     JObj ([(''output_type'', JStr (da_output_type a)), (''title'', JStr (da_title a)),
            (''file_url'', JStr (da_file_url a))] @ skip_none ''thumbnail_url'' JStr (da_thumbnail_url a) @
           [(''mime_type'', JStr (da_mime_type a))] @ skip_none ''filename'' JStr (da_filename a))"

definition enc_topic_node :: "TopicNode \<Rightarrow> json" where
  "enc_topic_node n = JObj [(''id'', JStr (tn_id n)), (''title'', JStr (tn_title n))]"

definition enc_content_node :: "ContentNode \<Rightarrow> json" where
  "enc_content_node n =
     JObj ([(''id'', JStr (cn_id n)), (''title'', JStr (cn_title n))] @
           skip_none ''type'' JStr (cn_type n) @ skip_none ''media_url'' JStr (cn_media_url n))"

definition enc_project_node :: "RecommendedProjectNode \<Rightarrow> json" where
  "enc_project_node n =
     JObj ([(''id'', JStr (rn_id n)), (''title'', JStr (rn_title n))] @
           skip_none ''project_file_url'' JStr (rn_project_file_url n))"

definition enc_publication :: "Publication \<Rightarrow> json" where
  "enc_publication p =
     JObj (skip_none ''topic'' enc_topic_node (pb_topic p) @ skip_none ''content'' enc_content_node (pb_content p) @
           skip_none ''recommended_project'' enc_project_node (pb_recommended_project p))"

definition enc_response_meta :: "ResponseMeta \<Rightarrow> json" where
  "enc_response_meta m =
     JObj ([(''generated_at'', JStr (mt_generated_at m)), (''llm_used'', JBool (mt_llm_used m))] @
           skip_none ''provider'' JStr (mt_provider m) @ skip_none ''model'' JStr (mt_model m))"

definition enc_delivery_fallback :: "DeliveryFallback \<Rightarrow> json" where
  "enc_delivery_fallback f =
     JObj ((''triggered'', JBool (vf_triggered f)) #
           skip_none ''reason_code'' JStr (vf_reason_code f) @ skip_none ''action'' JStr (vf_action f))"

definition enc_delivery :: "DeliveryResponsePayload \<Rightarrow> json" where
  "enc_delivery p =
     JObj [(''schema_version'', JStr (dv_schema_version p)), (''title'', JStr (dv_title p)),
           (''preview_summary'', JStr (dv_preview_summary p)), (''teacher_message'', JStr (dv_teacher_message p)),
           (''recommended_next_steps'', JArr (map JStr (dv_recommended_next_steps p))),
           (''classroom_tips'', JArr (map JStr (dv_classroom_tips p))), (''artifact'', enc_artifact (dv_artifact p)),
           (''publication'', enc_publication (dv_publication p)),
           (''response_meta'', enc_response_meta (dv_response_meta p)),
           (''fallback'', enc_delivery_fallback (dv_fallback p))]"

section \<open>Operations\<close>

text \<open>The nodes of a publication are skipped by the validation, as its attributes say.\<close>

definition valid_delivery :: "(string \<Rightarrow> nat) \<Rightarrow> DeliveryResponsePayload \<Rightarrow> bool" where
  "valid_delivery len p \<longleftrightarrow>
     1 \<le> len (dv_schema_version p) \<and> in_length len 200 (dv_title p) \<and> in_length len 1000 (dv_preview_summary p) \<and>
     in_length len 2000 (dv_teacher_message p) \<and>
     in_length len 100 (da_output_type (dv_artifact p)) \<and> in_length len 200 (da_title (dv_artifact p)) \<and>
     in_length len 2048 (da_file_url (dv_artifact p)) \<and> in_length len 255 (da_mime_type (dv_artifact p)) \<and>
     in_length len 100 (mt_generated_at (dv_response_meta p))"

definition decode_and_validate_delivery ::
  "codec \<Rightarrow> string \<Rightarrow> ContractValidationError + DeliveryResponsePayload" where
  "decode_and_validate_delivery C raw_json =
     (if trim raw_json = [] then Inl (Empty_Completion raw_json)
      else
        (case Option.bind (cd_parse C (trim raw_json)) dec_delivery of
           None \<Rightarrow> Inl (Contract_Undecodable raw_json)
         | Some payload \<Rightarrow>
             if valid_delivery (cd_len C) payload then Inr payload else Inl (Contract_Invalid raw_json)))"

text \<open>The slice is by bytes; it panics inside a code point.\<close>

definition truncate_bytes :: "string \<Rightarrow> nat \<Rightarrow> string option" where
  "truncate_bytes value max_len =
     (let trimmed = trim value
      in if length trimmed \<le> max_len then Some trimmed
         else map_option (\<lambda>s. s @ ''...'') (slice_to trimmed (max_len - 3)))"

definition delivery_fallback ::
  "string \<Rightarrow> string \<Rightarrow> string \<Rightarrow> string \<Rightarrow> string \<Rightarrow> string \<Rightarrow> DeliveryResponsePayload option" where
  "delivery_fallback now title preview_summary output_type file_url mime_type =
     Option.bind (truncate_bytes title 200) (\<lambda>t.
     Option.bind (truncate_bytes preview_summary 1000) (\<lambda>s.
     Option.bind (truncate_bytes mime_type 255) (\<lambda>m.
       Some \<lparr>dv_schema_version = SCHEMA_VERSION_DR, dv_title = t, dv_preview_summary = s,
             dv_teacher_message = ''Your '' @ output_type @
               '' has been generated. You can download it from the provided link.'',
             dv_recommended_next_steps = [], dv_classroom_tips = [],
             dv_artifact = \<lparr>da_output_type = output_type, da_title = t, da_file_url = file_url,
               da_thumbnail_url = None, da_mime_type = m, da_filename = None\<rparr>,
             dv_publication = \<lparr>pb_topic = None, pb_content = None, pb_recommended_project = None\<rparr>,
             dv_response_meta = \<lparr>mt_generated_at = now, mt_llm_used = False, mt_provider = None, mt_model = None\<rparr>,
             dv_fallback = \<lparr>vf_triggered = True, vf_reason_code = Some ''provider_response_contract_invalid'',
               vf_action = Some ''fallback_from_delivery''\<rparr>\<rparr>)))"

section \<open>Laws\<close>

lemma dec_enc_nodes [serde_simps]:
  "dec_topic_node (enc_topic_node a) = Some a" "dec_content_node (enc_content_node b) = Some b"
  "dec_project_node (enc_project_node c) = Some c"
  by (auto simp: dec_topic_node_def enc_topic_node_def dec_content_node_def enc_content_node_def
      dec_project_node_def enc_project_node_def serde_simps split: option.split)

lemma enc_node_not_null [serde_simps]:
  "enc_topic_node a \<noteq> JNull" "enc_content_node b \<noteq> JNull" "enc_project_node c \<noteq> JNull"
  by (simp_all add: enc_topic_node_def enc_content_node_def enc_project_node_def)

lemma dec_enc_artifact [serde_simps]: "dec_artifact (enc_artifact a) = Some a"
  by (cases a) (auto simp: dec_artifact_def enc_artifact_def serde_simps split: option.split)

lemma dec_enc_publication [serde_simps]: "dec_publication (enc_publication p) = Some p"
  by (cases p) (auto simp: dec_publication_def enc_publication_def serde_simps nullable_def split: option.split)

lemma dec_enc_response_meta [serde_simps]: "dec_response_meta (enc_response_meta m) = Some m"
  by (cases m) (auto simp: dec_response_meta_def enc_response_meta_def serde_simps split: option.split)

lemma dec_enc_delivery_fallback [serde_simps]: "dec_delivery_fallback (enc_delivery_fallback f) = Some f"
  by (cases f) (auto simp: dec_delivery_fallback_def enc_delivery_fallback_def serde_simps split: option.split)

lemma dec_enc_delivery: "dec_delivery (enc_delivery p) = Some p"
  by (simp add: dec_delivery_def enc_delivery_def serde_simps)

text \<open>
  Decoding undoes encoding, for every delivery response: what the cache and the table of generations hold is read back as it was.
\<close>
theorem delivery_roundtrip: "dec_delivery (enc_delivery p) = Some p"
  by (rule dec_enc_delivery)

text \<open>
  The response that replaces an invalid one satisfies the contract itself, for ASCII texts that are not blank, an output type and a URL within
  the limits of the contract and a moment of at most 100 characters, however long title, summary and MIME type are.
\<close>
theorem delivery_fallback_valid:
  assumes len: "ascii_measure len" and ascii: "list_all is_ascii [title, summary, output_type, url, mime, now]"
    and blank: "trim title \<noteq> []" "trim summary \<noteq> []" "trim mime \<noteq> []"
    and lens: "1 \<le> length output_type" "length output_type \<le> 100" "1 \<le> length url" "length url \<le> 2048"
      "1 \<le> length now" "length now \<le> 100"
  shows "\<exists>p. delivery_fallback now title summary output_type url mime = Some p \<and> valid_delivery len p"
proof -
  have cut: "\<exists>r. truncate_bytes s n = Some r \<and> is_ascii r \<and> 1 \<le> length r \<and> length r \<le> n"
    if "is_ascii s" "trim s \<noteq> []" "3 < n" for s n
  proof (cases "length (trim s) \<le> n")
    case True
    then show ?thesis using that is_ascii_trim [of s] by (cases "trim s") (auto simp: truncate_bytes_def Let_def)
  next
    case False
    have a: "is_ascii (trim s)" using that(1) by (rule is_ascii_trim)
    then have "slice_to (trim s) (n - 3) = Some (take (n - 3) (trim s))"
      using False by (auto simp: slice_to_def is_char_boundary_def is_ascii_not_cont nth_mem)
    then show ?thesis
      using False that a by (auto simp: truncate_bytes_def Let_def is_ascii_def list_all_iff byte_def dest: in_set_takeD)
  qed
  obtain t s m where tsm: "truncate_bytes title 200 = Some t" "is_ascii t" "1 \<le> length t" "length t \<le> 200"
      "truncate_bytes summary 1000 = Some s" "is_ascii s" "1 \<le> length s" "length s \<le> 1000"
      "truncate_bytes mime 255 = Some m" "is_ascii m" "1 \<le> length m" "length m \<le> 255"
    using cut [of title 200] cut [of summary 1000] cut [of mime 255] ascii blank by auto
  have "is_ascii (''Your '' @ output_type @ '' has been generated. You can download it from the provided link.'')"
    using ascii by (simp add: is_ascii_def byte_def)
  then show ?thesis
    using tsm ascii lens
    by (simp add: delivery_fallback_def valid_delivery_def in_length_def ascii_measureD [OF len] SCHEMA_VERSION_DR_def)
       (simp add: ascii_measureD [OF len] is_ascii_def byte_def)
qed

theorem delivery_fallback_valid_witness:
  "\<exists>p. delivery_fallback ''2026'' ''t'' ''s'' ''pdf'' ''u'' ''m'' = Some p \<and> valid_delivery length p"
  by (rule delivery_fallback_valid)
     (simp_all add: ascii_measure_def is_ascii_def byte_def trim_def trim_chars_def is_whitespace_def whitespace_codes_def is_cont_def)

text \<open>
  A title that is too long is cut at a byte: it panics if the 198th byte continues a code point.
\<close>
theorem delivery_fallback_panics:
  assumes "200 < length (trim title)" and "is_cont (trim title ! 197)"
  shows "delivery_fallback now title summary output_type url mime = None"
  using assms by (simp add: delivery_fallback_def truncate_bytes_def Let_def slice_to_def is_char_boundary_def)

definition accented :: string where
  "accented = concat (replicate 101 [CHR 0xC3, CHR 0xA9])"

theorem delivery_fallback_panics_witness:
  "delivery_fallback ''2026'' accented ''s'' ''pdf'' ''u'' ''m'' = None"
proof -
  have "trim accented = accented" by code_simp
  moreover have "200 < length accented" "is_cont (accented ! 197)" by code_simp+
  ultimately show ?thesis using delivery_fallback_panics [of accented] by simp
qed

end
