(* ===== verification/Respond_Service.thy ===== *)
theory Respond_Service
  imports Interpret_Service Delivery
begin

text \<open>
  The delivery service, \<open>src/src/llm/respond.rs\<close>: the message that goes with a published artifact.
\<close>

section \<open>Types\<close>

record RespondArtifact =
  ra_output_type :: string
  ra_file_url :: string
  ra_mime_type :: string
  ra_thumbnail_url :: "string option"
  ra_filename :: "string option"

record EntityNode =
  en_id :: string
  en_title :: string

record RespondPublication =
  rp_topic :: "EntityNode option"
  rp_content :: "EntityNode option"
  rp_recommended_project :: "EntityNode option"

record RespondInput =
  ri_generation_id :: string
  ri_title :: string
  ri_preview_summary :: string
  ri_artifact :: RespondArtifact
  ri_publication :: RespondPublication
  ri_model :: "string option"
  ri_instruction :: "string option"

record RespondResult =
  rs_request_id :: string
  rs_generation_id :: string
  rs_delivery_payload :: DeliveryResponsePayload
  rs_source :: string
  rs_llm_provider :: "string option"
  rs_llm_model :: "string option"
  rs_llm_used :: bool
  rs_fallback_used :: bool
  rs_response_headers :: "string \<rightharpoonup> string"
  rs_latency_ms :: "decimal option"

definition RESPOND_ROUTE :: string where
  "RESPOND_ROUTE = ''respond''"

definition RESPOND_REQUEST_TYPE :: string where
  "RESPOND_REQUEST_TYPE = ''media_delivery_response''"

section \<open>The request\<close>

definition entity_node :: "EntityNode option \<Rightarrow> json" where
  "entity_node n = jopt (map_option (\<lambda>t. JObj [(''id'', JStr (en_id t)), (''title'', JStr (en_title t))]) n)"

definition respond_model :: "llm_defaults \<Rightarrow> RespondInput \<Rightarrow> string" where
  "respond_model D input = unwrap_or (ld_model D) (ri_model input)"

definition respond_instruction :: "llm_defaults \<Rightarrow> RespondInput \<Rightarrow> string" where
  "respond_instruction D input = unwrap_or (ld_instruction D) (ri_instruction input)"

definition respond_cache_key :: "llm_world \<Rightarrow> llm_defaults \<Rightarrow> RespondInput \<Rightarrow> string" where
  "respond_cache_key W D input =
     build_cache_key (lw_ext W) Cache_Respond PROVIDER (respond_model D input) RESPOND_REQUEST_TYPE
       (respond_instruction D input)
       (JObj [(''title'', JStr (ri_title input)), (''preview_summary'', JStr (ri_preview_summary input)),
              (''artifact'',
               JObj [(''output_type'', JStr (ra_output_type (ri_artifact input))),
                     (''file_url'', JStr (ra_file_url (ri_artifact input))),
                     (''mime_type'', JStr (ra_mime_type (ri_artifact input)))]),
              (''topic'', entity_node (rp_topic (ri_publication input))),
              (''content'', entity_node (rp_content (ri_publication input)))])"

definition respond_user_payload :: "RespondInput \<Rightarrow> json" where
  "respond_user_payload input =
     (let a = ri_artifact input; p = ri_publication input
      in JObj
        [(''title'', JStr (ri_title input)), (''preview_summary'', JStr (ri_preview_summary input)),
         (''artifact'',
          JObj [(''output_type'', JStr (ra_output_type a)), (''title'', JStr (ri_title input)),
                (''file_url'', JStr (ra_file_url a)), (''thumbnail_url'', jstr_opt (ra_thumbnail_url a)),
                (''mime_type'', JStr (ra_mime_type a)), (''filename'', jstr_opt (ra_filename a))]),
         (''publication'',
          JObj [(''topic'', entity_node (rp_topic p)), (''content'', entity_node (rp_content p)),
                (''recommended_project'', entity_node (rp_recommended_project p))])])"

text \<open>
  The response of a completion, or else the fallback with the text of the reason; the fallback panics where
  it cuts a title, a summary or a MIME type inside a code point.
\<close>

definition composed_payload ::
  "llm_world \<Rightarrow> llm_moment \<Rightarrow> RespondInput \<Rightarrow> string \<Rightarrow> (DeliveryResponsePayload \<times> string option) option" where
  "composed_payload W M input raw_completion =
     (case decode_and_validate_delivery (lw_codec W) raw_completion of
        Inr p \<Rightarrow> Some (p, None)
      | Inl e \<Rightarrow>
          map_option (\<lambda>fb. (fb, Some (lw_contract_text W e)))
            (delivery_fallback (x_to_rfc3339 (lw_ext W) (lm_fallback_now M)) (ri_title input) (ri_preview_summary input)
               (ra_output_type (ri_artifact input)) (ra_file_url (ri_artifact input)) (ra_mime_type (ri_artifact input))))"

text \<open>The latency is read before the provider is called.\<close>

definition respond_execute_provider ::
  "llm_world \<Rightarrow> llm_moment \<Rightarrow> RespondInput \<Rightarrow> string \<Rightarrow> string \<Rightarrow> string \<Rightarrow> bool \<Rightarrow> (llm_state, llm_error, RespondResult) act" where
  "respond_execute_provider W M input model instruction cache_key should_cache =
     (let latency_ms = latency (lm_call_millis M)
      in and_then (call_provider W (json_mode_request model instruction (lw_pretty W (respond_user_payload input)))) (\<lambda>provider_result.
         case provider_result of
            Inr response \<Rightarrow>
              and_then (or_panic (composed_payload W M input (completion_text response))) (\<lambda>(payload, fallback_error).
              and_then (record_reply W M Cache_Respond RESPOND_ROUTE RESPOND_REQUEST_TYPE ''respond_service''
                  model (ri_generation_id input) cache_key latency_ms should_cache fallback_error
                  (enc_delivery payload) response) (\<lambda>_.
                let llm_provider = served_by PROVIDER response; llm_model = served_by model response;
                    fallback_used = (fallback_error \<noteq> None)
                in ok \<lparr>rs_request_id = lm_request_id M, rs_generation_id = ri_generation_id input,
                       rs_delivery_payload = payload,
                       rs_source = (if fallback_used then ''fallback'' else ''provider''),
                       rs_llm_provider = Some llm_provider, rs_llm_model = Some llm_model,
                       rs_llm_used = (\<not> fallback_used), rs_fallback_used = fallback_used,
                       rs_response_headers = provider_headers llm_provider llm_model False fallback_used,
                       rs_latency_ms = Some latency_ms\<rparr>))
          | Inl e \<Rightarrow>
              and_then (record_provider_failure M RESPOND_ROUTE RESPOND_REQUEST_TYPE ''respond_service'' ''ProviderError''
                  model (ri_generation_id input) e) (\<lambda>_.
                raise (Provider e))))"

definition respond_cached ::
  "llm_world \<Rightarrow> llm_moment \<Rightarrow> RespondInput \<Rightarrow> string \<Rightarrow> string \<Rightarrow> int \<Rightarrow> string \<Rightarrow> CacheEntry \<Rightarrow>
     (llm_state, llm_error, RespondResult) act" where
  "respond_cached W M input model cache_key millis cache_source entry =
     and_then (read_cached dec_delivery entry) (\<lambda>payload.
       let latency_ms = latency millis
       in and_then (record_hit M RESPOND_ROUTE RESPOND_REQUEST_TYPE model (ri_generation_id input) cache_key latency_ms
              [(''source'', JStr ''respond_service''), (''cache_hit'', JBool True), (''cache_source'', JStr cache_source)]) (\<lambda>_.
            ok \<lparr>rs_request_id = lm_request_id M, rs_generation_id = ri_generation_id input, rs_delivery_payload = payload,
                rs_source = ''cache'', rs_llm_provider = mt_provider (dv_response_meta payload),
                rs_llm_model = mt_model (dv_response_meta payload),
                rs_llm_used = mt_llm_used (dv_response_meta payload),
                rs_fallback_used = vf_triggered (dv_fallback payload),
                rs_response_headers = provider_headers PROVIDER model True False,
                rs_latency_ms = Some latency_ms\<rparr>))"

definition respond_service ::
  "llm_world \<Rightarrow> llm_defaults \<Rightarrow> llm_moment \<Rightarrow> RespondInput \<Rightarrow> (llm_state, llm_error, RespondResult) act" where
  "respond_service W D M input =
     (let model = respond_model D input;
          cache_key = respond_cache_key W D input
      in serve W M Cache_Respond RESPOND_ROUTE 300 1000 model (ri_generation_id input) cache_key False
           (respond_cached W M input model cache_key (lm_hit_millis M) ''delivery_cache'')
           (respond_cached W M input model cache_key (lm_wait_millis M) ''delivery_cache_inflight_wait'')
           (respond_execute_provider W M input model (respond_instruction D input) cache_key))"

section \<open>What is cached\<close>

definition validated_delivery :: "llm_world \<Rightarrow> json \<Rightarrow> bool" where
  "validated_delivery W v \<longleftrightarrow> (\<exists>raw p. decode_and_validate_delivery (lw_codec W) raw = Inr p \<and> v = enc_delivery p)"

interpretation deliveries: cached_contract dec_delivery "validated_delivery W" for W
  by unfold_locales (auto simp: validated_delivery_def dec_enc_delivery)

lemma orderly_respond_service:
  assumes "G (respond_cache_key W D input) = validated_delivery W"
    and "\<And>k t. cached_ok G t \<Longrightarrow> cached_ok G (lm_wait_others M k t)"
  shows "orderly G (respond_service W D M input)"
proof -
  have cached: "orderly G (respond_cached W M input model (respond_cache_key W D input) ms src e)"
    if "G (respond_cache_key W D input) (ce_response_payload e)" for ms src e model
    unfolding respond_cached_def Let_def
    by (rule deliveries.orderly_cached [where G = G, OF assms(1) _ that]) (intro orderly_rules orderly_record_hit)
  have stored: "validated_delivery W (enc_delivery p)" if "composed_payload W M input raw = Some (p, None)" for raw p
    using that by (auto simp: composed_payload_def validated_delivery_def split: sum.splits)
  have payload: "orderly G (and_then (or_panic (composed_payload W M input raw)) f)"
    if "\<And>p e. (e = None \<Longrightarrow> validated_delivery W (enc_delivery p)) \<Longrightarrow> orderly G (f (p, e))" for raw f
    using that stored [of raw]
    by (cases "composed_payload W M input raw") (auto simp: orderly_def or_panic_def wp_simps)
  have "orderly G (respond_execute_provider W M input model instruction (respond_cache_key W D input) b)"
    for model instruction b
    unfolding respond_execute_provider_def Let_def
    by (intro orderly_and_then orderly_rules(6))
       (auto split: sum.split intro!: payload deliveries.orderly_reply [where G = G, OF assms(1)] orderly_rules
          orderly_record_provider_failure)
  then show ?thesis
    unfolding respond_service_def Let_def by (intro orderly_serve cached assms(2))
qed

lemma respond_service_limited:
  "wp (respond_service W D M input) (\<lambda>_ _. True)
     (\<lambda>x t. limited x \<longrightarrow> x = Error (RateLimited (lm_request_id M) (ri_generation_id input)) \<and> untouched s t) s"
  unfolding respond_service_def Let_def
proof (rule wp_serve_limited, goal_cases)
  case (3 b)
  show ?case
    unfolding respond_execute_provider_def Let_def
    by (intro never_limited_and_then never_limited_basic)
       (auto split: sum.split prod.split intro!: never_limited_rules never_limited_recording)
qed (auto simp: respond_cached_def Let_def intro!: never_limited_rules never_limited_recording)

end
