(* ===== verification/Llm_Run.thy ===== *)
theory Llm_Run
  imports Draft_Service Respond_Service
begin

text \<open>
  The three services on one state, in any order and with other sessions in between: what they have in
  common, what ends up in the cache, and when a provider is called.
\<close>

section \<open>Steps\<close>

text \<open>
  A key belongs to one type of request, as the type is a part of what the key is a hash of.
\<close>

definition validated :: "llm_world \<Rightarrow> (string \<Rightarrow> string) \<Rightarrow> string \<Rightarrow> json \<Rightarrow> bool" where
  "validated W kind key =
     (if kind key = INTERPRET_REQUEST_TYPE then validated_interpretation W
      else if kind key = DRAFT_REQUEST_TYPE then validated_draft W
      else validated_delivery W)"

definition others_validated :: "llm_world \<Rightarrow> (string \<Rightarrow> string) \<Rightarrow> llm_moment \<Rightarrow> bool" where
  "others_validated W kind M \<longleftrightarrow>
     (\<forall>k t. cached_ok (validated W kind) t \<longrightarrow> cached_ok (validated W kind) (lm_wait_others M k t))"

definition failure_of :: "llm_error exn + 'a \<Rightarrow> llm_error exn option" where
  "failure_of r = (case r of Inl x \<Rightarrow> Some x | Inr _ \<Rightarrow> None)"

text \<open>
  One step: a request of one of the services, which fails with \<open>x\<close> or not, or anything that adds no response
  to the cache, such as the passing of time.
\<close>

inductive llm_step ::
  "llm_world \<Rightarrow> llm_defaults \<Rightarrow> draft_defaults \<Rightarrow> llm_defaults \<Rightarrow> (string \<Rightarrow> string) \<Rightarrow> llm_error exn option \<Rightarrow>
     llm_state \<Rightarrow> llm_state \<Rightarrow> bool"
  for W DI DD DR kind where
  interpret_step: "interpret_service W DI M i s = (r, s') \<Longrightarrow> kind (interpret_cache_key W DI i) = INTERPRET_REQUEST_TYPE \<Longrightarrow>
    others_validated W kind M \<Longrightarrow> llm_step W DI DD DR kind (failure_of r) s s'"
| draft_step: "draft_service W DD M d s = (r', s') \<Longrightarrow> kind (draft_cache_key W DD d) = DRAFT_REQUEST_TYPE \<Longrightarrow>
    others_validated W kind M \<Longrightarrow> llm_step W DI DD DR kind (failure_of r') s s'"
| respond_step: "respond_service W DR M e s = (r'', s') \<Longrightarrow> kind (respond_cache_key W DR e) = RESPOND_REQUEST_TYPE \<Longrightarrow>
    others_validated W kind M \<Longrightarrow> llm_step W DI DD DR kind (failure_of r'') s s'"
| other_step: "set (cc_rows (ll_cache s')) \<subseteq> set (cc_rows (ll_cache s)) \<Longrightarrow> llm_step W DI DD DR kind None s s'"

inductive llm_reachable ::
  "llm_world \<Rightarrow> llm_defaults \<Rightarrow> draft_defaults \<Rightarrow> llm_defaults \<Rightarrow> (string \<Rightarrow> string) \<Rightarrow> llm_state \<Rightarrow> bool"
  for W DI DD DR kind where
  llm_start: "cc_rows (ll_cache s) = [] \<Longrightarrow> llm_reachable W DI DD DR kind s"
| llm_next: "llm_reachable W DI DD DR kind s \<Longrightarrow> llm_step W DI DD DR kind x s s' \<Longrightarrow> llm_reachable W DI DD DR kind s'"

lemma request_types_distinct:
  "DRAFT_REQUEST_TYPE \<noteq> INTERPRET_REQUEST_TYPE" "RESPOND_REQUEST_TYPE \<noteq> INTERPRET_REQUEST_TYPE"
  "RESPOND_REQUEST_TYPE \<noteq> DRAFT_REQUEST_TYPE"
  by (simp_all add: DRAFT_REQUEST_TYPE_def INTERPRET_REQUEST_TYPE_def RESPOND_REQUEST_TYPE_def)

lemma orderly_run:
  assumes "orderly G m" and "cached_ok G (ll_cache s)" and "m s = (r, s')"
  shows "cached_ok G (ll_cache s') \<and> (\<forall>x. failure_of r = Some x \<longrightarrow> \<not> corrupt x)"
  using orderly_wp [OF assms(1,2)] assms(3) by (auto simp: wp_def failure_of_def split: sum.splits)

lemma llm_step_orderly:
  assumes "llm_step W DI DD DR kind f s s'" and "cached_ok (validated W kind) (ll_cache s)"
  shows "cached_ok (validated W kind) (ll_cache s') \<and> (\<forall>x. f = Some x \<longrightarrow> \<not> corrupt x)"
  using assms
proof cases
  case (interpret_step M i r)
  have "orderly (validated W kind) (interpret_service W DI M i)"
    using interpret_step(3,4) by (intro orderly_interpret_service) (auto simp: validated_def [abs_def] others_validated_def)
  from orderly_run [OF this assms(2) interpret_step(2)] interpret_step(1) show ?thesis by simp
next
  case (draft_step M d r)
  have "orderly (validated W kind) (draft_service W DD M d)"
    using draft_step(3,4) by (intro orderly_draft_service) (auto simp: validated_def [abs_def] others_validated_def request_types_distinct)
  from orderly_run [OF this assms(2) draft_step(2)] draft_step(1) show ?thesis by simp
next
  case (respond_step M e r)
  have "orderly (validated W kind) (respond_service W DR M e)"
    using respond_step(3,4) by (intro orderly_respond_service) (auto simp: validated_def [abs_def] others_validated_def request_types_distinct)
  from orderly_run [OF this assms(2) respond_step(2)] respond_step(1) show ?thesis by simp
next
  case other_step
  then show ?thesis using assms(2) by (auto simp: cached_ok_def)
qed

lemma reachable_validated:
  "llm_reachable W DI DD DR kind s \<Longrightarrow> cached_ok (validated W kind) (ll_cache s)"
proof (induction rule: llm_reachable.induct)
  case (llm_start s)
  then show ?case by (simp add: cached_ok_def)
qed (blast dest: llm_step_orderly)

section \<open>The services one by one\<close>

definition sample_defaults :: llm_defaults where
  "sample_defaults = \<lparr>ld_model = ''m'', ld_instruction = ''i''\<rparr>"

definition sample_draft_defaults :: draft_defaults where
  "sample_draft_defaults = \<lparr>ld_model = ''m'', ld_instruction = ''i'', ld_pptx_instruction = ''s''\<rparr>"

text \<open>A provider that is out of order, an empty taxonomy, and a database without rows.\<close>

definition sample_world :: llm_world where
  "sample_world =
     \<lparr>lw_ext = sample_externals, lw_codec = sample_codec, lw_pretty = (\<lambda>v. ''{}''),
      lw_arith = \<lparr>da_mul = (\<lambda>a b. Some (a * b div 10 ^ 28)), da_div = (\<lambda>a b. Some (a * 10 ^ 28 div b)),
                  da_add = (\<lambda>a b. Some (a + b))\<rparr>,
      lw_pick = hd, lw_lock_hash = (\<lambda>k. 7), lw_primary = (\<lambda>r n. Inl (Api 500 ''down'')), lw_fallback = None,
      lw_retry = default_retry_config, lw_threshold = 5, lw_contract_text = (\<lambda>e. ''invalid''),
      lw_sorter = (\<lambda>c xs. Some xs), lw_tools = plain_tools, lw_upper = (\<lambda>s. s), lw_subjects = []\<rparr>"

definition sample_moment :: llm_moment where
  "sample_moment =
     \<lparr>lm_request_id = ''r1'', lm_preflight_now = 5, lm_lookup_instant = 0, lm_hit_millis = 3, lm_wait_millis = 4,
      lm_call_millis = 9, lm_store_instant = 1, lm_store_now = 6, lm_ledger_now = 7, lm_usage_now = 8,
      lm_fallback_now = 8, lm_lock_session = 0, lm_unlock_session = 0, lm_wait_start = 0,
      lm_wait_lag = (\<lambda>_. 1), lm_wait_others = (\<lambda>_ s. s)\<rparr>"

definition empty_cache :: cache_db where
  "empty_cache = \<lparr>cc_rows = [], cc_next_id = 1, cc_now = 0, cc_faults = [], cc_locks = [], cc_lazy_cleanup_last = None\<rparr>"

definition sample_llm_state :: llm_state where
  "sample_llm_state =
     \<lparr>ll_cache = empty_cache,
      ll_gov = \<lparr>gv_policies = [], gv_buckets = [], gv_next_id = 1, gv_now = 0, gv_faults = []\<rparr>,
      ll_ledger = \<lparr>lg_rows = [], lg_prices = [], lg_next_id = 1, lg_now = 0, lg_faults = []\<rparr>,
      ll_failures = 0, ll_calls = \<lparr>primary_calls = 0, fallback_calls = 0\<rparr>\<rparr>"

definition sample_interpret_input :: InterpretInput where
  "sample_interpret_input =
     \<lparr>ii_generation_id = ''g1'', ii_teacher_prompt = ''Buat soal'', ii_preferred_output_type = ''pdf'',
      ii_subject_context = None, ii_sub_subject_context = None, ii_model = None, ii_instruction = None\<rparr>"

text \<open>
  C7. Whatever the services are asked in whatever order, and whatever other sessions, faults and panics come in between,
  every response in the cache is a completion that passed the validation of its contract, never a fallback, and
  no request fails because a cached response does not decode.
\<close>
theorem only_validated_replies_cached:
  assumes "llm_reachable W DI DD DR kind s"
  shows "(\<forall>(k, r) \<in> set (cc_rows (ll_cache s)). validated W kind k (cw_response_payload r)) \<and>
    (\<forall>f s'. llm_step W DI DD DR kind f s s' \<longrightarrow> (\<forall>v. f \<noteq> Some (Error (Cached_payload_corrupt v))))"
proof (intro conjI allI impI notI)
  show "\<forall>(k, r) \<in> set (cc_rows (ll_cache s)). validated W kind k (cw_response_payload r)"
    using reachable_validated [OF assms] by (simp add: cached_ok_def)
next
  fix f s' v
  assume "llm_step W DI DD DR kind f s s'" and "f = Some (Error (Cached_payload_corrupt v))"
  then show False
    using llm_step_orderly [OF _ reachable_validated [OF assms]] by (fastforce simp: corrupt_def)
qed

theorem only_validated_replies_cached_witness:
  "\<exists>r s'. interpret_service sample_world sample_defaults sample_moment sample_interpret_input sample_llm_state = (r, s') \<and>
     list_all (\<lambda>(k, row). validated sample_world (\<lambda>_. INTERPRET_REQUEST_TYPE) k (cw_response_payload row)) (cc_rows (ll_cache s'))"
proof -
  obtain r s' where run: "interpret_service sample_world sample_defaults sample_moment sample_interpret_input sample_llm_state = (r, s')"
    by force
  let ?R = "llm_reachable sample_world sample_defaults sample_draft_defaults sample_defaults (\<lambda>_. INTERPRET_REQUEST_TYPE)"
  have "?R sample_llm_state"
    by (rule llm_start) (simp add: sample_llm_state_def empty_cache_def)
  then have "?R s'"
    by (rule llm_next) (rule interpret_step [OF run], simp_all add: others_validated_def sample_moment_def)
  from only_validated_replies_cached [OF this] run show ?thesis by (auto simp: list_all_iff)
qed


definition limited_state :: llm_state where
  "limited_state = sample_llm_state\<lparr>ll_gov := sample_gov\<lparr>gv_policies := [sample_policy\<lparr>rp_max_requests := Some 0\<rparr>]\<rparr>\<rparr>"

lemma sample_simps:
  "lm_request_id sample_moment = ''r1''" "lm_preflight_now sample_moment = 5"
  "ii_generation_id sample_interpret_input = ''g1''" "interpret_model sample_defaults sample_interpret_input = ''m''"
  by (simp_all add: sample_moment_def sample_interpret_input_def interpret_model_def sample_defaults_def unwrap_or_def)

lemma sample_estimate:
  "\<exists>cost l. (estimate_cost (lw_arith sample_world) PROVIDER model i out :: (ledger_db, llm_error, CostEstimate) act)
     (ll_ledger sample_llm_state) = (Inr cost, l) \<and> lg_rows l = []"
  by (simp add: estimate_cost_def and_then_def try_err_def find_active_price_def ledger_statement_def Let_def
      sample_llm_state_def sample_world_def estimate_cost_inner_def token_cost_def or_panic_def ok_def)

lemma sample_denied:
  "\<exists>g. preflight_check 5 ''interpret'' PROVIDER ''m'' (Some cost) ''r1'' ''g1'' (ll_gov limited_state) =
     (Inr \<lparr>pd_allowed = False, pd_action = Deny\<rparr>, g)"
  by (simp add: limited_state_def preflight_check_def and_then_def find_applicable_def statement_def Let_def
      sample_gov_def sample_policy_def applies_def increment_def zero_mutation_def bucket_ok_def bucket_counts_def
      numeric8_def is_i64_def record_denial_def ok_def exhausted_decision_def wrap_i64_def coalesce_def
      window_key_def ignore_err_def)

lemma limited_state_turned_away:
  "\<exists>t. interpret_service sample_world sample_defaults sample_moment sample_interpret_input limited_state =
     (Inl (Error (RateLimited ''r1'' ''g1'')), t)"
proof -
  obtain cost l where e: "(estimate_cost (lw_arith sample_world) PROVIDER ''m'' 500 2000 :: (ledger_db, llm_error, CostEstimate) act)
     (ll_ledger limited_state) = (Inr cost, l)"
    using sample_estimate [of "''m''" 500 2000] by (auto simp: limited_state_def)
  obtain g where "preflight_check 5 ''interpret'' PROVIDER ''m'' (Some (co_total_cost_usd cost)) ''r1'' ''g1'' (ll_gov limited_state) =
     (Inr \<lparr>pd_allowed = False, pd_action = Deny\<rparr>, g)"
    using sample_denied by blast
  then show ?thesis
    unfolding interpret_service_def INTERPRET_ROUTE_def Let_def sample_simps
    by (subst serve_denied [OF e]) (simp add: sample_simps)+
qed


lemma wp_record_hit:
  "wp (record_hit M route request_type model gen key lat metadata)
     (\<lambda>_ t. ll_calls t = ll_calls s \<and> ll_failures t = ll_failures s \<and> ll_cache t = ll_cache s \<and> ll_gov t = ll_gov s)
     (\<lambda>_ _. False) s"
  unfolding record_hit_def record_completed_def wp_ignore_err wp_zoom
  by (rule wp_mono [OF wp_record_entry]) (auto split: exn.split)

lemma wp_total: "wp m Q (\<lambda>_ _. False) s \<Longrightarrow> \<exists>a t. m s = (Inr a, t) \<and> Q a t"
  by (auto simp: wp_def split: prod.splits sum.splits)

lemma prompt_kept [simp]:
  "ip_teacher_prompt (regenerate_plan_mode_from_interpretation E p) = ip_teacher_prompt p"
  "ip_teacher_prompt (recode_payload p) = ip_teacher_prompt p"
  by (simp_all add: regenerate_plan_mode_from_interpretation_def recode_payload_def Let_def)

lemma interpretation_from_cache:
  assumes inv: "cache_inv rt n (ll_cache s)" "rt (interpret_cache_key W D i) = Cache_Interpret" "n < 2 ^ 63 - 1"
      "faultless (ll_cache s)"
    and row: "row_at (ll_cache s) (interpret_cache_key W D i) (cc_now (ll_cache s)) = Some (enc_payload p)" "i32_fields p"
    and cost: "(estimate_cost (lw_arith W) PROVIDER (interpret_model D i) 500 2000 :: (ledger_db, llm_error, CostEstimate) act)
      (ll_ledger s) = (Inr c, l)"
    and allowed: "preflight_check (lm_preflight_now M) INTERPRET_ROUTE PROVIDER (interpret_model D i)
      (Some (co_total_cost_usd c)) (lm_request_id M) (ii_generation_id i) (ll_gov s) = (Inr d, g)" "pd_action d = Allow"
    and ranked: "taxonomy_infer W (ip_teacher_prompt p) \<noteq> None"
  shows "\<exists>r t. interpret_service W D M i s = (Inr r, t) \<and> ir_cache_hit r \<and> \<not> ir_fallback_used r \<and>
    ir_interpretation_payload r = regenerate_plan_mode_from_interpretation (lw_ext W) (recode_payload p) \<and>
    ll_calls t = ll_calls s \<and> ll_failures t = ll_failures s"
proof -
  let ?key = "interpret_cache_key W D i"
  obtain e u where look: "lookup (lw_pick W) (lm_lookup_instant M) Cache_Interpret ?key (ll_cache s) = (Inr (Some e), u)"
      and e: "ce_response_payload e = enc_payload p"
    using wp_lookup [OF inv(1,2,3), of "lw_pick W" "lm_lookup_instant M"] inv(4) row(1)
    by (auto simp: wp_def split: prod.splits sum.splits)
  let ?t = "s\<lparr>ll_ledger := l, ll_gov := g, ll_cache := u\<rparr>"
  have "wp (interpret_cached W M i (interpret_model D i) ?key ms metadata e)
     (\<lambda>r t. ir_cache_hit r \<and> \<not> ir_fallback_used r \<and>
        ir_interpretation_payload r = regenerate_plan_mode_from_interpretation (lw_ext W) (recode_payload p) \<and>
        ll_calls t = ll_calls s \<and> ll_failures t = ll_failures s) (\<lambda>_ _. False) ?t" for ms metadata
    unfolding interpret_cached_def read_cached_def Let_def wp_and_then
    using ranked
    by (auto simp: e dec_enc_payload [OF row(2)] wp_simps build_result_def build_audit_payload_def
        intro!: wp_mono [OF wp_record_hit])
  then show ?thesis
    unfolding interpret_service_def Let_def
    by (subst serve_hit [OF cost allowed look]) (blast dest: wp_total)
qed


text \<open>
  A row that was stored a moment ago.
\<close>

definition stored_row :: CacheRow where
  "stored_row =
     \<lparr>cw_id = 1, cw_route = ''interpret'', cw_request_payload = JObj [],
      cw_response_payload = enc_payload (fallback sample_externals ''Buat soal'' ''pdf''),
      cw_created_at = 0, cw_expires_at = 3600 * 10 ^ 9, cw_hit_count = 0, cw_last_hit_at = None\<rparr>"

definition warm_state :: llm_state where
  "warm_state = sample_llm_state\<lparr>ll_cache := empty_cache\<lparr>cc_rows :=
     [(interpret_cache_key sample_world sample_defaults sample_interpret_input, stored_row)], cc_next_id := 2\<rparr>\<rparr>"

lemma warm_facts:
  obtains c l p where
    "cache_inv (\<lambda>_. Cache_Interpret) 0 (ll_cache warm_state)" "faultless (ll_cache warm_state)"
    "row_at (ll_cache warm_state) (interpret_cache_key sample_world sample_defaults sample_interpret_input)
       (cc_now (ll_cache warm_state)) = Some (enc_payload p)" "i32_fields p"
    "(estimate_cost (lw_arith sample_world) PROVIDER (interpret_model sample_defaults sample_interpret_input) 500 2000
       :: (ledger_db, llm_error, CostEstimate) act) (ll_ledger warm_state) = (Inr c, l)"
    "preflight_check (lm_preflight_now sample_moment) INTERPRET_ROUTE PROVIDER (interpret_model sample_defaults sample_interpret_input)
      (Some (co_total_cost_usd c)) (lm_request_id sample_moment) (ii_generation_id sample_interpret_input) (ll_gov warm_state) =
      (Inr allow_decision, ll_gov warm_state)"
    "pd_action allow_decision = Allow" "taxonomy_infer sample_world (ip_teacher_prompt p) \<noteq> None"
proof -
  obtain c l where cost: "(estimate_cost (lw_arith sample_world) PROVIDER (interpret_model sample_defaults sample_interpret_input) 500 2000
     :: (ledger_db, llm_error, CostEstimate) act) (ll_ledger warm_state) = (Inr c, l)"
    using sample_estimate [of "interpret_model sample_defaults sample_interpret_input" 500 2000] by (auto simp: warm_state_def)
  have allowed: "preflight_check (lm_preflight_now sample_moment) INTERPRET_ROUTE PROVIDER (interpret_model sample_defaults sample_interpret_input)
      (Some (co_total_cost_usd c)) (lm_request_id sample_moment) (ii_generation_id sample_interpret_input) (ll_gov warm_state) =
      (Inr allow_decision, ll_gov warm_state)"
    by (simp add: preflight_check_def find_applicable_def statement_def and_then_def ok_def Let_def warm_state_def sample_llm_state_def)
  let ?p = "fallback sample_externals ''Buat soal'' ''pdf''" and ?key = "interpret_cache_key sample_world sample_defaults sample_interpret_input"
  have "cache_inv (\<lambda>_. Cache_Interpret) 0 (ll_cache warm_state)" "faultless (ll_cache warm_state)"
    "row_at (ll_cache warm_state) ?key (cc_now (ll_cache warm_state)) = Some (enc_payload ?p)"
    by (simp_all add: warm_state_def empty_cache_def cache_inv_def faultless_def row_at_def stored_row_def cache_route_str_def)
  moreover have "i32_fields ?p" by (simp add: i32_fields_def fallback_def Let_def)
  moreover have "taxonomy_infer sample_world (ip_teacher_prompt ?p) \<noteq> None"
    by (simp add: taxonomy_infer_def infer_def sample_world_def Let_def)
  moreover have "pd_action allow_decision = Allow" by (simp add: allow_decision_def)
  ultimately show ?thesis using that [of ?p c l] cost allowed by blast
qed



section \<open>Limits\<close>

text \<open>
  Between the check and the record of the usage nothing touches the tables of the limits: \<open>quiet\<close> actions
  leave them, \<open>kept\<close> actions lead from a state in which the request is below its limits to one within them.
\<close>

definition quiet :: "(llm_state, 'e, 'a) act \<Rightarrow> bool" where
  "quiet m \<longleftrightarrow> (\<forall>s. wp m (\<lambda>_ t. ll_gov t = ll_gov s) (\<lambda>_ t. ll_gov t = ll_gov s) s)"

definition ready :: "string \<Rightarrow> string \<Rightarrow> datetime \<Rightarrow> gov_db \<Rightarrow> bool" where
  "ready route model now g \<longleftrightarrow> policies_ok (gv_policies g) \<and> within_limits g \<and>
     (\<forall>p \<in> set (gv_policies g). applies route PROVIDER model p \<longrightarrow> below g p now)"

definition limits_kept :: "gov_db \<Rightarrow> bool" where
  "limits_kept g \<longleftrightarrow> policies_ok (gv_policies g) \<and> within_limits g"

definition kept :: "string \<Rightarrow> string \<Rightarrow> datetime \<Rightarrow> (llm_state, 'e, 'a) act \<Rightarrow> bool" where
  "kept route model now m \<longleftrightarrow> (\<forall>s. ready route model now (ll_gov s) \<longrightarrow>
     wp m (\<lambda>_ t. limits_kept (ll_gov t)) (\<lambda>_ t. limits_kept (ll_gov t)) s)"

lemma ready_kept: "ready route model now g \<Longrightarrow> limits_kept g"
  by (simp add: ready_def limits_kept_def)

lemma quiet_wp:
  "quiet m \<Longrightarrow> (\<And>a t. ll_gov t = ll_gov s \<Longrightarrow> Q a t) \<Longrightarrow> (\<And>x t. ll_gov t = ll_gov s \<Longrightarrow> R x t) \<Longrightarrow> wp m Q R s"
  unfolding quiet_def by (erule allE, erule wp_mono) auto

lemma kept_wp:
  "kept route model now m \<Longrightarrow> ready route model now (ll_gov s) \<Longrightarrow> (\<And>a t. limits_kept (ll_gov t) \<Longrightarrow> Q a t) \<Longrightarrow>
     (\<And>x t. limits_kept (ll_gov t) \<Longrightarrow> R x t) \<Longrightarrow> wp m Q R s"
  unfolding kept_def by (erule allE, erule impE, assumption, erule wp_mono) auto

lemma quiet_and_then: "quiet m \<Longrightarrow> (\<And>a. quiet (f a)) \<Longrightarrow> quiet (and_then m f)"
  unfolding quiet_def [of "and_then m f"] wp_and_then by (auto intro!: quiet_wp [of m] intro: quiet_wp)

lemma kept_and_then:
  assumes "quiet m" and "\<And>a. kept route model now (f a)"
  shows "kept route model now (and_then m f)"
  unfolding kept_def wp_and_then
proof (intro allI impI, goal_cases)
  case (1 s)
  show ?case by (rule quiet_wp [OF assms(1)]) (use 1 in \<open>auto intro: kept_wp [OF assms(2)] simp: ready_kept\<close>)
qed

lemma kept_then_quiet:
  assumes "kept route model now m" and "\<And>a. quiet (f a)"
  shows "kept route model now (and_then m f)"
  unfolding kept_def wp_and_then
proof (intro allI impI, goal_cases)
  case (1 s)
  show ?case by (rule kept_wp [OF assms(1) 1]) (auto intro: quiet_wp [OF assms(2)])
qed

lemma quiet_kept: "quiet m \<Longrightarrow> kept route model now m"
  unfolding kept_def by (auto intro!: quiet_wp simp: ready_kept)

lemma quiet_basic:
  "quiet (ok a)" "quiet (raise e)" "quiet (or_panic x)" "quiet (ok_or e y)" "quiet (on_cache m)" "quiet (on_ledger n)"
  "quiet (call_provider W request)"
  by (auto simp: quiet_def wp_simps split: option.split intro!: wp_any wp_call_provider)

lemma quiet_wrapped: "quiet m \<Longrightarrow> quiet (ignore_err m)" "quiet m \<Longrightarrow> quiet (map_err g m)" "quiet m \<Longrightarrow> quiet (try_err m)"
  by (auto simp: quiet_def [of "ignore_err m"] quiet_def [of "map_err g m"] quiet_def [of "try_err m"] wp_simps
      split: exn.split intro!: quiet_wp [of m])

lemma kept_wrapped: "kept route model now m \<Longrightarrow> kept route model now (try_err m)"
  by (auto simp: kept_def [of _ _ _ "try_err m"] wp_simps split: exn.split intro!: kept_wp [of _ _ _ m])

lemmas quiet_rules = quiet_and_then quiet_basic quiet_wrapped

lemma kept_usage:
  "kept route model now (ignore_err (on_gov (record_governance_usage route PROVIDER model i out t cost rid gid now)))"
  unfolding kept_def wp_ignore_err wp_zoom
proof (intro allI impI, goal_cases)
  case (1 s)
  let ?g = "ll_gov s"
  from 1 have dist: "distinct (map rp_id (gv_policies ?g))" by (simp add: ready_def policies_ok_def)
  show ?case
  proof (rule wp_mono [OF wp_record_governance_usage [OF dist]], goal_cases)
    case (1 a v)
    have "counts v (rp_id p, ws) \<le> m" if p: "p \<in> set (gv_policies ?g)" "rp_max_requests p = Some m" for p m ws
    proof (cases "counts v (rp_id p, ws) = counts ?g (rp_id p, ws)")
      case True
      then show ?thesis using \<open>ready route model now ?g\<close> p by (simp add: ready_def within_limits_def)
    next
      case False
      then obtain q where q: "q \<in> set (gv_policies ?g)" "applies route PROVIDER model q"
          "(rp_id p, ws) = window_key q now" "counts v (rp_id p, ws) = counts ?g (rp_id p, ws) + 1"
          "is_i64 (counts v (rp_id p, ws))"
        using 1 by metis
      then have "p = q"
        using \<open>ready route model now ?g\<close> p(1) by (auto simp: ready_def policies_ok_def window_key_def distinct_map inj_on_def)
      moreover have "below ?g q now" using \<open>ready route model now ?g\<close> q(1,2) by (auto simp: ready_def)
      ultimately show ?thesis using q p(2) by (simp add: below_def)
    qed
    then show ?case using 1 \<open>ready route model now ?g\<close> by (simp add: ready_def limits_kept_def within_limits_def)
  qed simp
qed

lemma kept_record_reply:
  "lm_usage_now M = now \<Longrightarrow> kept route model now (record_reply W M cache_route route request_type source model gen key lat
     should_cache reason payload response)"
  unfolding record_reply_def Let_def by (auto intro!: kept_and_then quiet_rules kept_usage)

lemma kept_serve_miss:
  assumes "\<And>e. quiet (waited e)" and "kept route model now execute"
  shows "kept route model now (serve_miss W M cache_route key waited execute)"
proof -
  have "kept route model now (release_after W M cache_route key locked execute)" for locked
    unfolding release_after_def
    by (rule kept_then_quiet [OF kept_wrapped [OF assms(2)]]) (auto intro!: quiet_rules split: sum.split)
  then show ?thesis
    unfolding serve_miss_def
    by (intro kept_and_then quiet_rules) (auto intro: quiet_rules quiet_kept assms(1) split: option.split)
qed

text \<open>A route whose exhausted requests are turned away keeps its limits.\<close>

lemma wp_serve_limits:
  assumes deny: "pd_action (exhausted_decision route) = Deny"
    and hit: "\<And>e. quiet (hit e)" and waited: "\<And>e. quiet (waited e)"
    and execute: "\<And>b. kept route model (lm_preflight_now M) (execute b)"
    and kept: "limits_kept (ll_gov s)"
  shows "wp (serve W M cache_route route i out model gen key bypass hit waited execute)
     (\<lambda>_ t. limits_kept (ll_gov t)) (\<lambda>_ t. limits_kept (ll_gov t)) s"
proof -
  let ?now = "lm_preflight_now M"
  have same_kept: "limits_kept u" if "same (ll_gov s) u" for u
    using that kept within_limits_same [OF that] by (simp add: limits_kept_def same_def)
  have rest: "kept route model ?now (and_then (if bypass then ok None
      else map_err Cache_error (on_cache (lookup pick inst cache_route key))) (\<lambda>cached.
         case cached of Some entry \<Rightarrow> hit entry
         | None \<Rightarrow> serve_miss W M cache_route key waited (execute b)))" for pick inst b
    by (intro kept_and_then) (auto intro: quiet_rules quiet_kept hit kept_serve_miss waited execute split: option.split)
  show ?thesis
    unfolding serve_def wp_and_then wp_map_err wp_zoom
  proof (rule wp_any, goal_cases)
    case (1 cost l)
    show ?case
    proof (rule wp_mono [OF wp_preflight_check], goal_cases)
      case (1 d u)
      then have u: "same (ll_gov s) u" "limits_kept u" using same_kept by auto
      show ?case
      proof (cases "pd_action d = Deny")
        case True
        then show ?thesis using u by (simp add: wp_simps)
      next
        case False
        then have "d = allow_decision" and "ready route model ?now u"
          using 1 deny u by (auto simp: ready_def limits_kept_def same_def below_same [OF u(1)])
        then show ?thesis
          using rest unfolding kept_def by (simp add: allow_decision_def)
      qed
    next
      case (2 x u)
      then show ?case using same_kept by simp
    qed
  next
    case (2 x l)
    then show ?case using kept by simp
  qed
qed



section \<open>Fallbacks in the ledger\<close>

abbreviation rows_of :: "llm_state \<Rightarrow> LedgerEntry list" where
  "rows_of s \<equiv> lg_rows (ll_ledger s)"

definition rows_still :: "(llm_state, 'e, 'a) act \<Rightarrow> bool" where
  "rows_still m \<longleftrightarrow> (\<forall>s. wp m (\<lambda>_ t. rows_of t = rows_of s) (\<lambda>_ _. True) s)"

lemma rows_still_and_then:
  assumes "rows_still m" and "\<And>a s. rows_of s = L \<Longrightarrow> wp (f a) (\<lambda>r t. Q r (rows_of t)) (\<lambda>_ _. True) s" and "rows_of s = L"
  shows "wp (and_then m f) (\<lambda>r t. Q r (rows_of t)) (\<lambda>_ _. True) s"
  unfolding wp_and_then
  by (rule wp_mono [OF spec [OF assms(1) [unfolded rows_still_def]]]) (use assms in auto)

lemma rows_still_basic:
  "rows_still (ok a)" "rows_still (or_panic x)" "rows_still (map_err g (on_gov m))" "rows_still (map_err g' (on_cache n))"
  "rows_still (ignore_err (on_cache n'))" "rows_still (ignore_err (on_gov m'))"
  "rows_still (call_provider W request)" "rows_still (on_ledger (estimate_cost A p m'' i out))"
  by (auto simp: rows_still_def wp_simps split: option.split exn.split
      intro!: wp_any wp_call_provider wp_mono [OF wp_estimate_cost])

lemma wp_serve_miss_rows:
  assumes waited: "\<And>e s. rows_of s = L \<Longrightarrow> wp (waited e) (\<lambda>r t. Q r (rows_of t)) (\<lambda>_ _. True) s"
    and execute: "\<And>s. rows_of s = L \<Longrightarrow> wp execute (\<lambda>r t. Q r (rows_of t)) (\<lambda>_ _. True) s"
    and s: "rows_of s = L"
  shows "wp (serve_miss W M cache_route key waited execute) (\<lambda>r t. Q r (rows_of t)) (\<lambda>_ _. True) s"
proof -
  have release: "wp (release_after W M cache_route key locked execute) (\<lambda>r t. Q r (rows_of t)) (\<lambda>_ _. True) u"
    if "rows_of u = L" for locked u
    unfolding release_after_def wp_and_then wp_try_err
    by (rule wp_mono [OF execute [OF that]]) (auto simp: wp_simps split: exn.split intro!: wp_any)
  have wait: "wp (and_then (if locked then ok None else map_err Cache_error (on_cache m)) (\<lambda>other.
       case other of Some e \<Rightarrow> waited e | None \<Rightarrow> release_after W M cache_route key locked execute))
     (\<lambda>r t. Q r (rows_of t)) (\<lambda>_ _. True) u" if "rows_of u = L" for locked u m
    by (rule rows_still_and_then [where L = L])
       (auto intro: rows_still_basic waited release that split: option.split)
  show ?thesis
    unfolding serve_miss_def by (rule rows_still_and_then [OF rows_still_basic(4) wait s])
qed

lemma wp_serve_rows:
  assumes hit: "\<And>e s. rows_of s = L \<Longrightarrow> wp (hit e) (\<lambda>r t. Q r (rows_of t)) (\<lambda>_ _. True) s"
    and waited: "\<And>e s. rows_of s = L \<Longrightarrow> wp (waited e) (\<lambda>r t. Q r (rows_of t)) (\<lambda>_ _. True) s"
    and execute: "\<And>b s. rows_of s = L \<Longrightarrow> wp (execute b) (\<lambda>r t. Q r (rows_of t)) (\<lambda>_ _. True) s"
    and s: "rows_of s = L"
  shows "wp (serve W M cache_route route i out model gen key bypass hit waited execute)
     (\<lambda>r t. Q r (rows_of t)) (\<lambda>_ _. True) s"
proof -
  have rest: "wp (and_then (if bypass then ok None else map_err Cache_error (on_cache m)) (\<lambda>cached.
       case cached of Some e \<Rightarrow> hit e | None \<Rightarrow> serve_miss W M cache_route key waited (execute b)))
     (\<lambda>r t. Q r (rows_of t)) (\<lambda>_ _. True) u" if "rows_of u = L" for u m b
    by (rule rows_still_and_then [where L = L])
       (auto intro: rows_still_basic hit wp_serve_miss_rows waited execute that split: option.split)
  have decided: "wp (case pd_action d of Deny \<Rightarrow> raise (RateLimited rid gen) | Degrade \<Rightarrow> execute False
     | Allow \<Rightarrow> and_then (if bypass then ok None else map_err Cache_error (on_cache m)) (\<lambda>cached.
         case cached of Some e \<Rightarrow> hit e | None \<Rightarrow> serve_miss W M cache_route key waited (execute (\<not> bypass))))
     (\<lambda>r t. Q r (rows_of t)) (\<lambda>_ _. True) u" if "rows_of u = L" for d rid u m
    using that by (cases "pd_action d") (simp_all only: ExhaustionAction.case rest execute, simp add: wp_simps)
  show ?thesis
    unfolding serve_def
    by (intro rows_still_and_then [OF rows_still_basic(8) _ s] rows_still_and_then [OF rows_still_basic(3) decided])
qed

lemma wp_record_reply_unrecorded:
  assumes "is_ascii e" and "100 < length e" and "last e \<noteq> CHR '' ''" and s: "rows_of s = L"
  shows "wp (record_reply W M cache_route route request_type source model gen key lat should_cache (Some e) payload response)
    (\<lambda>_ t. rows_of t = L) (\<lambda>_ _. True) s"
proof -
  have long: "\<not> fits 100 e" using too_long_text assms(1-3) by blast
  then have bad: "\<not> ledger_row_ok r" if "lr_fallback_reason r = Some e" for r :: LedgerRecordInput
    using that ledger_row_ok_texts(2) [of r] by auto
  have entry: "rows_still (ignore_err (on_ledger (record_completed now rid gen route rtype prov prim mdl req lat' n st i out t c fb
      (Some e) atts ck md)))" for now rid rtype prov prim mdl req lat' n st i out t c fb atts ck md
    unfolding rows_still_def record_completed_def wp_ignore_err wp_zoom
  proof (intro allI, rule wpI, goal_cases)
    case (1 u a u')
    from record_entry_rejected [OF 1 bad] show ?case by simp
  next
    case (2 u x u')
    from record_entry_rejected [OF 2 bad] show ?case by (simp split: exn.split)
  qed
  have usage: "wp (ignore_err (on_gov m)) (\<lambda>_ t. rows_of t = L) (\<lambda>_ _. True) u" if "rows_of u = L"
    for m :: "(gov_db, sqlx_error, unit) act" and u
    using rows_still_basic(6) [of m] that by (auto simp: rows_still_def)
  show ?thesis
    unfolding record_reply_def Let_def
    by simp (intro rows_still_and_then [where L = L and Q = "\<lambda>_ l. l = L", OF rows_still_basic(8)]
          rows_still_and_then [where L = L and Q = "\<lambda>_ l. l = L", OF entry] usage s)
qed

text \<open>
  A draft that falls back because its completion does not satisfy the contract is not entered into the ledger when the text of the
  reason, which goes into the column of the fallback reason, is longer than that column: the call is served and its cost never
  counted there.
\<close>
theorem long_draft_fallback_unrecorded:
  assumes "draft_service W D M d s = (Inr r, t)" and "dr_fallback_error r = Some e"
    and "is_ascii e" and "100 < length e" and "last e \<noteq> CHR '' ''"
  shows "lg_rows (ll_ledger t) = lg_rows (ll_ledger s)"
proof -
  let ?Q = "\<lambda>r l. dr_fallback_error r = Some e \<longrightarrow> l = rows_of s"
  have cached: "wp (draft_cached W M d model key ms src c) (\<lambda>r t. ?Q r (rows_of t)) (\<lambda>_ _. True) u" for model key ms src c u
    unfolding draft_cached_def read_cached_def Let_def wp_simps by (auto split: option.split intro!: wp_any)
  have execute: "wp (draft_execute_provider W M d model instruction key b) (\<lambda>r t. ?Q r (rows_of t)) (\<lambda>_ _. True) u"
    if "rows_of u = rows_of s" for model instruction key b u
    unfolding draft_execute_provider_def
  proof (rule rows_still_and_then [OF rows_still_basic(7) _ that], goal_cases)
    case (1 reply v)
    show ?case
    proof (cases reply)
      case (Inl x)
      then show ?thesis unfolding Inl sum.case Let_def wp_simps by (auto intro!: wp_any)
    next
      case (Inr response)
      obtain p f where pf: "drafted_payload W d (completion_text response) = (p, f)" by force
      show ?thesis
      proof (cases "f = Some e")
        case True
        show ?thesis
          unfolding Inr sum.case Let_def pf prod.case wp_and_then True
          by (rule wp_mono [OF wp_record_reply_unrecorded [OF assms(3,4,5) 1]]) (simp_all add: wp_simps)
      next
        case False
        then show ?thesis
          unfolding Inr sum.case Let_def pf prod.case wp_simps by (auto intro!: wp_any)
      qed
    qed
  qed
  have "wp (draft_service W D M d) (\<lambda>r t. ?Q r (rows_of t)) (\<lambda>_ _. True) s"
    unfolding draft_service_def Let_def by (rule wp_serve_rows [where L = "rows_of s"]) (auto intro: cached execute)
  then show ?thesis
    using assms(1,2) by (auto simp: wp_def)
qed

lemma wp_serve_bypass:
  assumes "(estimate_cost (lw_arith W) PROVIDER model i out :: (ledger_db, llm_error, CostEstimate) act) (ll_ledger s) = (Inr cost, l)"
    and "preflight_check (lm_preflight_now M) route PROVIDER model (Some (co_total_cost_usd cost)) (lm_request_id M) gen (ll_gov s) = (Inr d, g)"
    and "pd_action d = Allow"
  shows "wp (serve W M cache_route route i out model gen key True hit waited execute) Q R s =
    wp (serve_miss W M cache_route key waited (execute False)) Q R (s\<lparr>ll_ledger := l, ll_gov := g\<rparr>)"
  by (simp add: wp_def serve_bypass [OF assms])

text \<open>A provider that answers nothing, and a contract error with a long text.\<close>

definition silent_world :: llm_world where
  "silent_world = sample_world\<lparr>lw_primary := (\<lambda>r n. Inr \<lparr>cp_choices = [], cp_usage = None, cp_model = None\<rparr>),
     lw_contract_text := (\<lambda>e. replicate 101 CHR ''x'')\<rparr>"

definition sample_draft_input :: DraftInput where
  "sample_draft_input =
     \<lparr>di_generation_id = ''g1'', di_interpretation = fallback sample_externals ''Buat soal'' ''pdf'',
      di_resolved_output_type = ''pdf'', di_taxonomy_hint = None, di_model = None, di_instruction = None,
      di_bypass_cache = True\<rparr>"

lemma silent_reply:
  "call_provider silent_world request s =
     (Inr (Inr \<lparr>cp_choices = [], cp_usage = None, cp_model = None\<rparr>), s\<lparr>ll_failures := 0, ll_calls := \<lparr>primary_calls = 1, fallback_calls = 0\<rparr>\<rparr>)"
  if "ll_failures s = 0" "ll_calls s = \<lparr>primary_calls = 0, fallback_calls = 0\<rparr>"
  using that by (simp add: call_provider_def complete_def is_circuit_open_def router_of_def silent_world_def sample_world_def
      try_provider_with_retry_def default_retry_config_def try_attempts.simps)

lemma wp_silent_reply:
  "ll_failures s = 0 \<Longrightarrow> ll_calls s = \<lparr>primary_calls = 0, fallback_calls = 0\<rparr> \<Longrightarrow>
     wp (call_provider silent_world request) Q R s =
       Q (Inr \<lparr>cp_choices = [], cp_usage = None, cp_model = None\<rparr>)
         (s\<lparr>ll_failures := 0, ll_calls := \<lparr>primary_calls = 1, fallback_calls = 0\<rparr>\<rparr>)"
  by (simp add: wp_def silent_reply)

lemma drafted_silently:
  "drafted_payload silent_world d [] = (fallback_from_interpretation (db_title (ip_document_blueprint (di_interpretation d)))
     (db_summary (ip_document_blueprint (di_interpretation d))) (ip_teacher_delivery_summary (di_interpretation d)),
     Some (replicate 101 CHR ''x''))"
  by (simp add: drafted_payload_def decode_and_validate_draft_def trim_def trim_chars_def Let_def silent_world_def)

lemma silent_estimate:
  "wp (estimate_cost (lw_arith silent_world) PROVIDER model i out) (\<lambda>_ _. True) (\<lambda>_ _. False) s"
  unfolding estimate_cost_def find_active_price_def wp_and_then wp_try_err
  by (rule wp_ledger_statementI)
     (simp_all add: Let_def wp_simps estimate_cost_inner_def token_cost_def silent_world_def sample_world_def split: option.split prod.split)

lemma silent_record:
  "wp (record_reply silent_world M cache_route route request_type source model gen key lat False reason payload response)
     (\<lambda>_ _. True) (\<lambda>_ _. False) s" if "gv_policies (ll_gov s) = []"
  unfolding record_reply_def Let_def
  using that
  by (auto simp: wp_simps record_completed_def split: exn.split
      intro!: wp_mono [OF silent_estimate] wp_mono [OF wp_record_entry] wp_mono [OF wp_record_governance_usage])

lemma silent_draft:
  "wp (draft_execute_provider silent_world M d model instruction key False)
     (\<lambda>r _. dr_fallback_error r = Some (replicate 101 CHR ''x'') \<and> dr_source r = ''fallback'') (\<lambda>_ _. False) s"
  if "ll_failures s = 0" "ll_calls s = \<lparr>primary_calls = 0, fallback_calls = 0\<rparr>" "gv_policies (ll_gov s) = []"
  unfolding draft_execute_provider_def wp_and_then wp_silent_reply [OF that(1,2)] sum.case Let_def
  by (simp add: completion_text_def first_choice_content_def drafted_silently wp_simps)
     (rule wp_mono [OF silent_record]; simp add: that wp_simps)

theorem long_draft_fallback_unrecorded_witness:
  "\<exists>r t. draft_service silent_world sample_draft_defaults sample_moment sample_draft_input sample_llm_state = (Inr r, t) \<and>
     dr_source r = ''fallback'' \<and> lg_rows (ll_ledger t) = []"
proof -
  obtain r t where run: "draft_service silent_world sample_draft_defaults sample_moment sample_draft_input sample_llm_state = (Inr r, t)"
      and r: "dr_fallback_error r = Some (replicate 101 CHR ''x'')" "dr_source r = ''fallback''"
  proof -
    obtain cost l where cost: "(estimate_cost (lw_arith silent_world) PROVIDER (draft_model sample_draft_defaults sample_draft_input) 500 3000
       :: (ledger_db, llm_error, CostEstimate) act) (ll_ledger sample_llm_state) = (Inr cost, l)"
      using wp_total [OF silent_estimate] by blast
    have allowed: "preflight_check (lm_preflight_now sample_moment) DRAFT_ROUTE PROVIDER (draft_model sample_draft_defaults sample_draft_input)
        (Some (co_total_cost_usd cost)) (lm_request_id sample_moment) (di_generation_id sample_draft_input) (ll_gov sample_llm_state) =
        (Inr allow_decision, ll_gov sample_llm_state)"
      by (simp add: preflight_check_def find_applicable_def statement_def and_then_def ok_def Let_def sample_llm_state_def)
    have lock: "try_acquire_lock h sess route key empty_cache = (Inr True, empty_cache\<lparr>cc_locks := [(sess, build_lock_id h route key)]\<rparr>)"
      for h sess route key
      by (simp add: try_acquire_lock_def cache_statement_def empty_cache_def Let_def)
    have unlock: "wp (release_lock h sess route key) (\<lambda>_ _. True) (\<lambda>x _. x \<noteq> Panic) u" for h sess route key u
      unfolding release_lock_def Let_def by (rule wp_cache_statementI) auto
    have "wp (draft_service silent_world sample_draft_defaults sample_moment sample_draft_input)
       (\<lambda>r _. dr_fallback_error r = Some (replicate 101 CHR ''x'') \<and> dr_source r = ''fallback'') (\<lambda>_ _. False) sample_llm_state"
    proof -
      have bypass: "di_bypass_cache sample_draft_input = True" by (simp add: sample_draft_input_def)
      have allow: "pd_action allow_decision = Allow" by (simp add: allow_decision_def)
      have taken: "wp (try_acquire_lock h sess route key) (\<lambda>a _. a) (\<lambda>_ _. False) empty_cache" for h sess route key
        by (simp add: wp_def lock)
      show ?thesis
        unfolding draft_service_def Let_def bypass wp_serve_bypass [OF cost allowed allow] serve_miss_def release_after_def
          wp_and_then wp_map_err wp_zoom
        by (simp add: sample_llm_state_def, rule wp_mono [OF taken], simp_all add: wp_simps)
          (rule wp_mono [OF silent_draft]; simp add: wp_simps; (rule wp_mono [OF unlock])?; simp add: wp_simps split: exn.split)
    qed
    from wp_total [OF this] that show ?thesis by blast
  qed
  have "lg_rows (ll_ledger t) = lg_rows (ll_ledger sample_llm_state)"
    by (rule long_draft_fallback_unrecorded [OF run r(1)]) (simp_all add: is_ascii_def list_all_iff byte_def)
  then show ?thesis using run r by (simp add: sample_llm_state_def)
qed

end
