(* ===== verification/Step_Adapters.thy ===== *)
theory Step_Adapters
  imports Workflow Llm_Run
begin

text \<open>
  The adapters that run the services as steps of the workflow, \<open>src/src/llm/step_adapters.rs\<close>: they read
  the row of a generation, call a service and write its result back. The state is that of the workflow
  together with that of the services.
\<close>

section \<open>State\<close>

record step_state =
  st_db :: db
  st_llm :: llm_state

text \<open>
  The services with their defaults, the texts of errors, and the tables the adapters only read: a subject
  with its slug, and the titles of the entities of a publication.
\<close>

record step_world =
  sw_llm :: llm_world
  sw_interpret_defaults :: llm_defaults
  sw_draft_defaults :: draft_defaults
  sw_respond_defaults :: llm_defaults
  sw_sqlx_text :: "sqlx_error \<Rightarrow> string"
  sw_corrupt_text :: "json \<Rightarrow> string"
  sw_decode_text :: "json \<Rightarrow> string"
  sw_subjects :: "int \<rightharpoonup> string \<times> string option"
  sw_sub_subjects :: "int \<rightharpoonup> string \<times> string option"
  sw_topics :: "int \<rightharpoonup> string"
  sw_contents :: "int \<rightharpoonup> string"
  sw_projects :: "int \<rightharpoonup> string"
  sw_hash_order :: "string list"
  sw_resolved_at :: string

abbreviation sw_ext :: "step_world \<Rightarrow> externals" where
  "sw_ext S \<equiv> lw_ext (sw_llm S)"

abbreviation on_db :: "(db, 'e, 'a) act \<Rightarrow> (step_state, 'e, 'a) act" where
  "on_db \<equiv> zoom st_db (\<lambda>t s. s\<lparr>st_db := t\<rparr>)"

abbreviation on_llm :: "(llm_state, 'e, 'a) act \<Rightarrow> (step_state, 'e, 'a) act" where
  "on_llm \<equiv> zoom st_llm (\<lambda>t s. s\<lparr>st_llm := t\<rparr>)"

definition sqlx_step :: "(db, sqlx_error, 'a) act \<Rightarrow> (step_state, WorkflowError, 'a) act" where
  "sqlx_step m = on_db (map_err Wf_Database m)"

definition parse_generation_id :: "step_world \<Rightarrow> string \<Rightarrow> (step_state, WorkflowError, uuid) act" where
  "parse_generation_id S generation_id =
     ok_or (Wf_InvalidUuid (x_uuid_error (sw_ext S) generation_id)) (x_parse_uuid (sw_ext S) generation_id)"

text \<open>\<open>fetch_one\<close>: no row is an error.\<close>

definition fetch_generation :: "uuid \<Rightarrow> (generation \<Rightarrow> 'a) \<Rightarrow> (step_state, WorkflowError, 'a) act" where
  "fetch_generation i f =
     sqlx_step (db_select (\<lambda>t. case map_of t i of Some g \<Rightarrow> Inr (f g) | None \<Rightarrow> Inl RowNotFound))"

definition DASH :: string where
  "DASH = map char_of [32 :: nat, 226, 128, 148, 32]"

text \<open>How an adapter reports the failure of its service.\<close>

definition step_error :: "step_world \<Rightarrow> string \<Rightarrow> llm_error \<Rightarrow> WorkflowError" where
  "step_error S step e =
     (case e of
        RateLimited _ _ \<Rightarrow> StepProvider (step @ '': rate limited by governance'' @ DASH @ ''rate limited by governance policy'')
      | Provider pe \<Rightarrow> StepProvider (step @ '': provider error'' @ DASH @ show_provider_error pe)
      | Cache_error ce \<Rightarrow> StepProvider (step @ '': cache error'' @ DASH @ sw_sqlx_text S ce)
      | Governance ge \<Rightarrow> StepProvider (step @ '': governance error'' @ DASH @ sw_sqlx_text S ge)
      | Cached_payload_corrupt v \<Rightarrow> StepProvider (step @ '': contract error'' @ DASH @ sw_corrupt_text S v))"

section \<open>Interpretation\<close>

definition resolve_named_context ::
  "(int \<rightharpoonup> string \<times> string option) \<Rightarrow> int option \<Rightarrow> (step_state, WorkflowError, NamedContext option) act" where
  "resolve_named_context table subject_id =
     (case subject_id of
        Some sid \<Rightarrow>
          and_then (sqlx_step (db_select (\<lambda>_. Inr (table sid)))) (\<lambda>ctx.
            ok (map_option (\<lambda>(name, slug). \<lparr>nc_id = sid, nc_name = name, nc_slug = slug\<rparr>) ctx))
      | None \<Rightarrow> ok None)"

definition interpret_step_adapter ::
  "step_world \<Rightarrow> llm_moment \<Rightarrow> string \<Rightarrow> (step_state, WorkflowError, json) act" where
  "interpret_step_adapter S M generation_id =
     and_then (parse_generation_id S generation_id) (\<lambda>gen_uuid.
     and_then (fetch_generation gen_uuid (\<lambda>g.
         (mg_raw_prompt g, mg_preferred_output_type g, mg_subject_id g, mg_sub_subject_id g)))
       (\<lambda>(raw_prompt, preferred_output_type, subject_id, sub_subject_id).
     and_then (resolve_named_context (sw_subjects S) subject_id) (\<lambda>subject_context.
     and_then (resolve_named_context (sw_sub_subjects S) sub_subject_id) (\<lambda>sub_subject_context.
     and_then (on_llm (map_err (step_error S ''interpret'') (interpret_service (sw_llm S) (sw_interpret_defaults S) M
         \<lparr>ii_generation_id = generation_id, ii_teacher_prompt = raw_prompt,
          ii_preferred_output_type = preferred_output_type, ii_subject_context = subject_context,
          ii_sub_subject_context = sub_subject_context, ii_model = None, ii_instruction = None\<rparr>))) (\<lambda>result.
       let payload_value = enc_payload (ir_interpretation_payload result)
       in and_then (sqlx_step (db_update gen_uuid (\<lambda>now g.
              g\<lparr>mg_interpretation_payload := Some payload_value, mg_llm_provider := Some (ir_llm_provider result),
                mg_llm_model := Some (ir_llm_model result), mg_updated_at := now\<rparr>))) (\<lambda>_.
            ok payload_value))))))"

section \<open>Drafting\<close>

definition draft_step_adapter ::
  "step_world \<Rightarrow> llm_moment \<Rightarrow> string \<Rightarrow> (step_state, WorkflowError, json) act" where
  "draft_step_adapter S M generation_id =
     and_then (parse_generation_id S generation_id) (\<lambda>gen_uuid.
     and_then (fetch_generation gen_uuid (\<lambda>g. (mg_interpretation_payload g, mg_resolved_output_type g))) (\<lambda>(stored, resolved).
     and_then (ok_or (StepFailed ''draft''
         (''interpretation_payload is NULL'' @ DASH @ ''interpret step must run first'')) stored) (\<lambda>interpretation_value.
       let resolved_output_type = unwrap_or ''pdf'' resolved
       in and_then (ok_or (StepFailed ''draft''
              (''failed to deserialize interpretation_payload: '' @ sw_decode_text S interpretation_value))
            (dec_payload (sw_ext S) interpretation_value)) (\<lambda>interpretation.
          and_then (on_llm (map_err (step_error S ''draft'') (draft_service (sw_llm S) (sw_draft_defaults S) M
              \<lparr>di_generation_id = generation_id, di_interpretation = interpretation,
               di_resolved_output_type = resolved_output_type, di_taxonomy_hint = None, di_model = None,
               di_instruction = None, di_bypass_cache = True\<rparr>))) (\<lambda>result.
            let draft_value = enc_draft (dr_draft_payload result);
                draft_envelope = JObj
                  [(''payload'', draft_value), (''source'', JStr (dr_source result)),
                   (''adapter_metadata'', dr_adapter_metadata result)]
            in and_then (on_db (map_err (\<lambda>e. StepFailed ''draft''
                   (''failed to resolve decision with draft payload: '' @
                    (case e of MissingInterpretation m \<Rightarrow> m | Dec_Database d \<Rightarrow> sw_sqlx_text S d | Dec_InvalidUuid m \<Rightarrow> m)))
                 (resolve (sw_ext S) (sw_hash_order S) (sw_resolved_at S) generation_id interpretation_value
                    (Some resolved_output_type) (Some draft_envelope)))) (\<lambda>_.
               ok draft_value))))))"

section \<open>Composition\<close>

record compose_row =
  cq_title :: "string option"
  cq_resolved_output_type :: "string option"
  cq_file_url :: "string option"
  cq_mime_type :: "string option"
  cq_thumbnail_url :: "string option"
  cq_filename :: "string option"
  cq_summary :: "string option"
  cq_topic_id :: "int option"
  cq_content_id :: "int option"
  cq_recommended_project_id :: "int option"

text \<open>
  The columns of \<open>media_generations\<close> (\<open>src/migrations\<close>). A statement that names another column is an error of
  the database, whatever the rows are.
\<close>

definition GENERATION_COLUMNS :: "string list" where
  "GENERATION_COLUMNS =
     [''id'', ''generated_from_id'', ''is_regeneration'', ''teacher_id'', ''subject_id'', ''sub_subject_id'',
      ''topic_id'', ''content_id'', ''recommended_project_id'', ''raw_prompt'', ''request_fingerprint'',
      ''active_duplicate_key'', ''preferred_output_type'', ''resolved_output_type'', ''status'', ''llm_provider'',
      ''llm_model'', ''generator_provider'', ''generator_model'', ''interpretation_payload'',
      ''interpretation_audit_payload'', ''generation_spec_payload'', ''decision_payload'',
      ''orchestration_audit_payload'', ''delivery_payload'', ''generator_service_response'', ''storage_path'',
      ''file_url'', ''thumbnail_url'', ''mime_type'', ''error_code'', ''error_message'', ''generation_job_id'',
      ''generation_status'', ''s3_object_key'', ''presigned_download_url'', ''presigned_url_expires_at'',
      ''generation_error_code'', ''generation_error_message'', ''clarification_state'', ''clarified_at'',
      ''clarification_skipped'', ''created_at'', ''updated_at'']"

definition COMPOSE_COLUMNS :: "string list" where
  "COMPOSE_COLUMNS =
     [''interpretation_payload'', ''resolved_output_type'', ''file_url'', ''mime_type'', ''thumbnail_url'', ''filename'',
      ''topic_id'', ''content_id'', ''recommended_project_id'']"

text \<open>
  The row as the code would read it; \<open>topic_id\<close> and \<open>content_id\<close> are of type \<open>UUID\<close>, which does not decode as
  \<open>i64\<close> unless it is \<open>NULL\<close>.
\<close>

definition compose_row_of :: "externals \<Rightarrow> generation \<Rightarrow> sqlx_error + compose_row" where
  "compose_row_of E g =
     (let blueprint = Option.bind (mg_interpretation_payload g) (jget ''document_blueprint'')
      in if mg_topic_id g \<noteq> None then Inl (Database_error ''mismatched types: topic_id'')
         else if mg_content_id g \<noteq> None then Inl (Database_error ''mismatched types: content_id'')
         else Inr
           \<lparr>cq_title = Option.bind blueprint (arrow_text E ''title''), cq_resolved_output_type = mg_resolved_output_type g,
            cq_file_url = mg_file_url g, cq_mime_type = mg_mime_type g, cq_thumbnail_url = mg_thumbnail_url g,
            cq_filename = None, cq_summary = Option.bind blueprint (arrow_text E ''summary''),
            cq_topic_id = None, cq_content_id = None, cq_recommended_project_id = mg_recommended_project_id g\<rparr>)"

definition select_columns ::
  "string list \<Rightarrow> uuid \<Rightarrow> (generation \<Rightarrow> sqlx_error + 'a) \<Rightarrow> (step_state, WorkflowError, 'a) act" where
  "select_columns columns i f =
     sqlx_step (db_select (\<lambda>t.
       case find (\<lambda>c. c \<notin> set GENERATION_COLUMNS) columns of
         Some c \<Rightarrow> Inl (Database_error (''column '' @ c @ '' does not exist''))
       | None \<Rightarrow> (case map_of t i of Some g \<Rightarrow> f g | None \<Rightarrow> Inl RowNotFound)))"

definition resolve_entity :: "(int \<rightharpoonup> string) \<Rightarrow> int option \<Rightarrow> (step_state, WorkflowError, EntityNode option) act" where
  "resolve_entity table entity_id =
     (case entity_id of
        Some i \<Rightarrow>
          and_then (sqlx_step (db_select (\<lambda>_. Inr (table i)))) (\<lambda>t.
            ok (map_option (\<lambda>title. \<lparr>en_id = show_int i, en_title = title\<rparr>) t))
      | None \<Rightarrow> ok None)"

definition compose_from_row ::
  "step_world \<Rightarrow> llm_moment \<Rightarrow> string \<Rightarrow> uuid \<Rightarrow> compose_row \<Rightarrow> (step_state, WorkflowError, json) act" where
  "compose_from_row S M generation_id gen_uuid row =
     and_then (resolve_entity (sw_topics S) (cq_topic_id row)) (\<lambda>topic.
     and_then (resolve_entity (sw_contents S) (cq_content_id row)) (\<lambda>content.
     and_then (resolve_entity (sw_projects S) (cq_recommended_project_id row)) (\<lambda>recommended_project.
     and_then (on_llm (map_err (step_error S ''compose'') (respond_service (sw_llm S) (sw_respond_defaults S) M
         \<lparr>ri_generation_id = generation_id, ri_title = unwrap_or ''Untitled'' (cq_title row),
          ri_preview_summary = unwrap_or [] (cq_summary row),
          ri_artifact = \<lparr>ra_output_type = unwrap_or ''pdf'' (cq_resolved_output_type row),
            ra_file_url = unwrap_or [] (cq_file_url row), ra_mime_type = unwrap_or [] (cq_mime_type row),
            ra_thumbnail_url = cq_thumbnail_url row, ra_filename = cq_filename row\<rparr>,
          ri_publication = \<lparr>rp_topic = topic, rp_content = content, rp_recommended_project = recommended_project\<rparr>,
          ri_model = None, ri_instruction = None\<rparr>))) (\<lambda>result.
       let delivery_value = enc_delivery (rs_delivery_payload result)
       in and_then (sqlx_step (db_update gen_uuid (\<lambda>now g.
              g\<lparr>mg_delivery_payload := Some delivery_value, mg_updated_at := now\<rparr>))) (\<lambda>_.
            ok delivery_value)))))"

definition compose_step_adapter ::
  "step_world \<Rightarrow> llm_moment \<Rightarrow> string \<Rightarrow> (step_state, WorkflowError, json) act" where
  "compose_step_adapter S M generation_id =
     and_then (parse_generation_id S generation_id) (\<lambda>gen_uuid.
     and_then (select_columns COMPOSE_COLUMNS gen_uuid (compose_row_of (sw_ext S)))
       (compose_from_row S M generation_id gen_uuid))"

section \<open>The adapters as steps\<close>

text \<open>
  What the workflow sees of an adapter: an action on its database, the services being in the state \<open>u\<close> when it
  runs.
\<close>

definition as_step :: "llm_state \<Rightarrow> (step_state, WorkflowError, 'a) act \<Rightarrow> (db, WorkflowError, 'a) act" where
  "as_step u m s = (case m \<lparr>st_db = s, st_llm = u\<rparr> of (r, t) \<Rightarrow> (r, st_db t))"

definition adapter_steps ::
  "step_world \<Rightarrow> (string \<Rightarrow> llm_moment) \<Rightarrow> (string \<Rightarrow> llm_state) \<Rightarrow> workflow_steps \<Rightarrow> workflow_steps" where
  "adapter_steps S M u W =
     W\<lparr>w_interpret := (\<lambda>gid. as_step (u ''interpret'') (interpret_step_adapter S (M ''interpret'') gid)),
       w_draft := (\<lambda>gid. as_step (u ''draft'') (draft_step_adapter S (M ''draft'') gid)),
       w_compose := (\<lambda>gid. as_step (u ''compose'') (compose_step_adapter S (M ''compose'') gid))\<rparr>"

section \<open>What the workflow relies on\<close>

lemma keeps_on_db [keeps_intros]: "keeps P m \<Longrightarrow> keeps (\<lambda>s. P (st_db s)) (on_db m)"
  by (auto simp: keeps_def wp_simps elim: wp_mono)

lemma keeps_on_llm [keeps_intros]: "keeps (\<lambda>s. P (st_db s)) (on_llm m)"
  by (auto simp: keeps_def wp_simps intro!: wp_any)

lemma keeps_as_step: "keeps (\<lambda>s. P (st_db s)) m \<Longrightarrow> keeps P (as_step u m)"
  unfolding keeps_def
proof (intro allI impI, goal_cases)
  case (1 s)
  then have "wp m (\<lambda>_ t. P (st_db t)) (\<lambda>_ t. P (st_db t)) \<lparr>st_db = s, st_llm = u\<rparr>" by simp
  then show ?case by (auto simp: wp_def as_step_def split: prod.splits sum.splits)
qed

lemma keeps_sqlx_step: "keeps P m \<Longrightarrow> keeps (\<lambda>s. P (st_db s)) (sqlx_step m)"
  unfolding sqlx_step_def by (intro keeps_intros)

lemma keeps_adapters:
  "keeps (\<lambda>s. in_status i S (st_db s)) (interpret_step_adapter SW M gid)"
  "keeps (\<lambda>s. in_status i S (st_db s)) (draft_step_adapter SW M gid)"
  "keeps (\<lambda>s. in_status i S (st_db s)) (compose_step_adapter SW M gid)"
proof -
  have named: "keeps (\<lambda>s. in_status i S (st_db s)) (resolve_named_context table sid)"
    and entity: "keeps (\<lambda>s. in_status i S (st_db s)) (resolve_entity table' eid)" for table sid table' eid
    unfolding resolve_named_context_def resolve_entity_def
    by (auto split: option.split intro!: keeps_intros keeps_sqlx_step)
  show "keeps (\<lambda>s. in_status i S (st_db s)) (interpret_step_adapter SW M gid)"
    unfolding interpret_step_adapter_def parse_generation_id_def fetch_generation_def Let_def
    by (intro keeps_intros keeps_sqlx_step)
      (auto intro!: keeps_intros keeps_sqlx_step named split: prod.split)
  show "keeps (\<lambda>s. in_status i S (st_db s)) (draft_step_adapter SW M gid)"
    unfolding draft_step_adapter_def parse_generation_id_def fetch_generation_def Let_def resolve_def
    by (intro keeps_intros keeps_sqlx_step)
      (auto intro!: keeps_intros keeps_sqlx_step split: prod.split)
  show "keeps (\<lambda>s. in_status i S (st_db s)) (compose_step_adapter SW M gid)"
    unfolding compose_step_adapter_def compose_from_row_def parse_generation_id_def select_columns_def Let_def
    by (intro keeps_intros keeps_sqlx_step entity) auto
qed

lemma adapter_steps_keep:
  assumes "\<And>gid jid. keeps (in_status i S) (w_submit_job W gid jid)" and "\<And>gid. keeps (in_status i S) (w_publish W gid)"
  shows "steps_keep (in_status i S) (adapter_steps SW M u W)"
  using assms by (simp add: steps_keep_def adapter_steps_def keeps_as_step keeps_adapters)

section \<open>Interpretations that can be read\<close>

lemma i32_regenerated: "i32_fields p \<Longrightarrow> i32_fields (regenerate_plan_mode_from_interpretation E p)"
  by (cases "ip_interpreted_fields p")
     (auto simp: i32_fields_def regenerate_plan_mode_from_interpretation_def build_interpreted_fields_from_payload_def Let_def)

lemma i32_fallback: "i32_fields (fallback E prompt pref)"
  by (simp add: i32_fields_def fallback_def Let_def)

lemma i32_interpreted: "interpreted_payload W input raw = Some (p, e) \<Longrightarrow> i32_fields p"
  by (auto simp: interpreted_payload_def i32_fallback split: sum.splits
      dest: decode_and_validate_i32 intro: enrich_keeps_i32)

lemma result_payload: "build_result W gid rid p prov model hit fb lat = Some r \<Longrightarrow> ir_interpretation_payload r = p"
  by (auto simp: build_result_def)

lemma wp_interpret_i32:
  "wp (interpret_service W D M input) (\<lambda>r _. i32_fields (ir_interpretation_payload r)) (\<lambda>_ _. True) s"
proof -
  have cached: "wp (interpret_cached W M input model key ms metadata e) (\<lambda>r _. i32_fields (ir_interpretation_payload r)) (\<lambda>_ _. True) u"
    for model key ms metadata e u
    unfolding interpret_cached_def read_cached_def Let_def wp_simps
    by (auto split: option.split intro!: wp_any dest!: result_payload intro: i32_regenerated [OF dec_payload_i32])
  have execute: "wp (interpret_execute_provider W M input model instruction key b)
     (\<lambda>r _. i32_fields (ir_interpretation_payload r)) (\<lambda>_ _. True) u" for model instruction key b u
    unfolding interpret_execute_provider_def Let_def wp_simps
  proof (rule wp_any, goal_cases)
    case (1 reply t)
    show ?case
    proof (cases reply)
      case (Inl e)
      then show ?thesis unfolding Inl sum.case wp_simps by (auto intro!: wp_any)
    next
      case (Inr response)
      show ?thesis
      proof (cases "interpreted_payload W input (completion_text response)")
        case None
        then show ?thesis unfolding Inr by (simp add: wp_simps)
      next
        case (Some pe)
        obtain p f where pe: "pe = (p, f)" by force
        show ?thesis
          unfolding Inr sum.case wp_simps Some option.case pe prod.case
          by (rule wp_any) (use Some pe in \<open>auto split: option.split dest!: result_payload intro: i32_interpreted\<close>)
      qed
    qed
  qed simp
  show ?thesis
    unfolding interpret_service_def Let_def
    by (rule wp_serve_rows [where Q = "\<lambda>r _. i32_fields (ir_interpretation_payload r)" and L = "rows_of s"])
       (auto intro: cached execute)
qed

lemma wp_sqlx_select:
  "(\<And>a fs. f (gens (st_db s)) = Inr a \<Longrightarrow> Q a (s\<lparr>st_db := (st_db s)\<lparr>faults := fs\<rparr>\<rparr>)) \<Longrightarrow>
   (\<And>x t. R x t) \<Longrightarrow> wp (sqlx_step (db_select f)) Q R s"
  unfolding sqlx_step_def wp_zoom wp_map_err by (intro wp_db_select_I) auto

lemma wp_named_context:
  "wp (resolve_named_context table sid) (\<lambda>_ t. gens (st_db t) = gens (st_db s)) (\<lambda>_ _. True) s"
  by (auto simp: resolve_named_context_def wp_simps split: option.split intro!: wp_sqlx_select)

text \<open>
  C8. What the interpretation step writes the drafting step reads: after the step has succeeded, the row of its generation holds the
  interpretation that was returned, which decodes, and nothing of the row but that, the provider, the model and the time of the update
  is changed.
\<close>
theorem interpretation_is_handed_over:
  assumes "interpret_step_adapter S M gid s = (Inr v, t)"
  shows "\<exists>i p g provider model now. x_parse_uuid (sw_ext S) gid = Some i \<and> dec_payload (sw_ext S) v = Some p \<and>
    map_of (gens (st_db s)) i = Some g \<and>
    map_of (gens (st_db t)) i = Some (g\<lparr>mg_interpretation_payload := Some v, mg_llm_provider := Some provider,
      mg_llm_model := Some model, mg_updated_at := now\<rparr>)"
proof -
  let ?P = "\<lambda>i g v t. \<exists>p provider model now. dec_payload (sw_ext S) v = Some p \<and>
    map_of (gens (st_db t)) i = Some (g\<lparr>mg_interpretation_payload := Some v, mg_llm_provider := Some provider,
      mg_llm_model := Some model, mg_updated_at := now\<rparr>)"
  have stored: "wp (and_then (sqlx_step (db_update i (\<lambda>now g.
       g\<lparr>mg_interpretation_payload := Some (enc_payload p), mg_llm_provider := Some provider,
         mg_llm_model := Some model, mg_updated_at := now\<rparr>))) (\<lambda>_. ok (enc_payload p))) (?P i g) (\<lambda>_ _. True) u"
    if "i32_fields p" "gens (st_db u) = gens (st_db s)" "map_of (gens (st_db s)) i = Some g" for p provider model u g i
    unfolding sqlx_step_def wp_and_then wp_zoom wp_map_err
    by (intro wp_intros) (auto simp: wp_simps that dec_enc_payload [OF that(1)])
  have rest: "wp (and_then (resolve_named_context T sid) (\<lambda>sc. and_then (resolve_named_context T' sid') (\<lambda>sc'.
       and_then (on_llm (map_err f (interpret_service W D M (input sc sc')))) (\<lambda>result.
       and_then (sqlx_step (db_update i (\<lambda>now g.
         g\<lparr>mg_interpretation_payload := Some (enc_payload (ir_interpretation_payload result)),
           mg_llm_provider := Some (ir_llm_provider result), mg_llm_model := Some (ir_llm_model result),
           mg_updated_at := now\<rparr>))) (\<lambda>_. ok (enc_payload (ir_interpretation_payload result))))))) (?P i g) (\<lambda>_ _. True) u"
    if "gens (st_db u) = gens (st_db s)" "map_of (gens (st_db s)) i = Some g" for T T' sid sid' f W D input i g u
    unfolding wp_and_then [of "resolve_named_context _ _"] wp_and_then [of "on_llm _"] wp_zoom wp_map_err
    by (rule wp_mono [OF wp_named_context], rule wp_mono [OF wp_named_context], rule wp_mono [OF wp_interpret_i32])
       (rule stored, simp_all add: that)
  have "wp (interpret_step_adapter S M gid) (\<lambda>v t. \<exists>i g. x_parse_uuid (sw_ext S) gid = Some i \<and>
     map_of (gens (st_db s)) i = Some g \<and> ?P i g v t) (\<lambda>_ _. True) s"
  proof (cases "x_parse_uuid (sw_ext S) gid")
    case None
    then show ?thesis by (simp add: interpret_step_adapter_def parse_generation_id_def wp_simps)
  next
    case (Some i)
    show ?thesis
      unfolding interpret_step_adapter_def parse_generation_id_def fetch_generation_def Let_def wp_and_then [of "ok_or _ _"]
        wp_ok_or Some option.case wp_and_then [of "sqlx_step (db_select _)"]
    proof (rule wp_sqlx_select, goal_cases)
      case (1 row fs)
      then obtain g where g: "map_of (gens (st_db s)) i = Some g"
          and row: "row = (mg_raw_prompt g, mg_preferred_output_type g, mg_subject_id g, mg_sub_subject_id g)"
        by (auto split: option.splits)
      show ?case
        unfolding row prod.case by (rule wp_mono [OF rest [OF _ g]]) (use g in auto)
    qed simp
  qed
  then show ?thesis using assms by (fastforce simp: wp_def)
qed

text \<open>A generation of the prompt whose interpretation is in the cache.\<close>

definition sample_step_world :: step_world where
  "sample_step_world =
     \<lparr>sw_llm = sample_world, sw_interpret_defaults = sample_defaults, sw_draft_defaults = sample_draft_defaults,
      sw_respond_defaults = sample_defaults, sw_sqlx_text = (\<lambda>_. []), sw_corrupt_text = (\<lambda>_. []), sw_decode_text = (\<lambda>_. []),
      sw_subjects = Map.empty, sw_sub_subjects = Map.empty, sw_topics = Map.empty, sw_contents = Map.empty, sw_projects = Map.empty,
      sw_hash_order = ALLOWED_FORMATS, sw_resolved_at = []\<rparr>"

definition warm_row :: generation where
  "warm_row = sample_row
     \<lparr>mg_subject_id := None, mg_sub_subject_id := None, mg_raw_prompt := ''Buat soal'', mg_preferred_output_type := ''pdf''\<rparr>"

definition warm_step_state :: step_state where
  "warm_step_state = \<lparr>st_db = \<lparr>gens = [(1, warm_row)], db_now = 10, faults = []\<rparr>, st_llm = warm_state\<rparr>"

lemma interpret_step_returns:
  assumes "faults (st_db s) = []" and "x_parse_uuid (sw_ext S) gid = Some i" and "map_of (gens (st_db s)) i = Some g"
    and "mg_subject_id g = None" and "mg_sub_subject_id g = None"
    and "interpret_service (sw_llm S) (sw_interpret_defaults S) M
      \<lparr>ii_generation_id = gid, ii_teacher_prompt = mg_raw_prompt g, ii_preferred_output_type = mg_preferred_output_type g,
       ii_subject_context = None, ii_sub_subject_context = None, ii_model = None, ii_instruction = None\<rparr> (st_llm s) = (Inr r, u)"
  shows "wp (interpret_step_adapter S M gid) (\<lambda>_ _. True) (\<lambda>_ _. False) s"
proof -
  have served: "wp (interpret_service (sw_llm S) (sw_interpret_defaults S) M
      \<lparr>ii_generation_id = gid, ii_teacher_prompt = mg_raw_prompt g, ii_preferred_output_type = mg_preferred_output_type g,
       ii_subject_context = None, ii_sub_subject_context = None, ii_model = None, ii_instruction = None\<rparr>)
      (\<lambda>_ _. True) (\<lambda>_ _. False) (st_llm s)"
    by (simp add: wp_def assms(6))
  show ?thesis
    unfolding interpret_step_adapter_def parse_generation_id_def fetch_generation_def sqlx_step_def resolve_named_context_def Let_def
      assms(2)
    by (simp add: wp_simps assms(1-5)) (rule wp_mono [OF served]; simp add: wp_simps assms(1))
qed

lemma warm_interpretation: "\<exists>r t. interpret_service sample_world sample_defaults sample_moment sample_interpret_input warm_state = (Inr r, t)"
proof -
  from warm_facts obtain c l p where *:
    "cache_inv (\<lambda>_. Cache_Interpret) 0 (ll_cache warm_state)" "faultless (ll_cache warm_state)"
    "row_at (ll_cache warm_state) (interpret_cache_key sample_world sample_defaults sample_interpret_input)
       (cc_now (ll_cache warm_state)) = Some (enc_payload p)" "i32_fields p"
    "(estimate_cost (lw_arith sample_world) PROVIDER (interpret_model sample_defaults sample_interpret_input) 500 2000
       :: (ledger_db, llm_error, CostEstimate) act) (ll_ledger warm_state) = (Inr c, l)"
    "preflight_check (lm_preflight_now sample_moment) INTERPRET_ROUTE PROVIDER (interpret_model sample_defaults sample_interpret_input)
      (Some (co_total_cost_usd c)) (lm_request_id sample_moment) (ii_generation_id sample_interpret_input) (ll_gov warm_state) =
      (Inr allow_decision, ll_gov warm_state)"
    "pd_action allow_decision = Allow" "taxonomy_infer sample_world (ip_teacher_prompt p) \<noteq> None" .
  from interpretation_from_cache [where rt = "\<lambda>_. Cache_Interpret" and n = 0, OF *(1) refl _ *(2-8)]
  show ?thesis by auto
qed

theorem interpretation_is_handed_over_witness:
  "\<exists>v t. interpret_step_adapter sample_step_world sample_moment ''g1'' warm_step_state = (Inr v, t) \<and>
     (\<exists>p. dec_payload (sw_ext sample_step_world) v = Some p) \<and>
     (\<exists>g. map_of (gens (st_db t)) 1 = Some g \<and> mg_interpretation_payload g = Some v)"
proof -
  have uuid: "x_parse_uuid (lw_ext sample_world) ''g1'' = Some 1" by (simp add: sample_world_def)
  have input: "\<lparr>ii_generation_id = ''g1'', ii_teacher_prompt = ''Buat soal'', ii_preferred_output_type = ''pdf'',
      ii_subject_context = None, ii_sub_subject_context = None, ii_model = None, ii_instruction = None\<rparr> = sample_interpret_input"
    by (simp add: sample_interpret_input_def)
  obtain r u where run: "interpret_service sample_world sample_defaults sample_moment sample_interpret_input warm_state = (Inr r, u)"
    using warm_interpretation by blast
  have row: "mg_raw_prompt warm_row = ''Buat soal''" "mg_preferred_output_type warm_row = ''pdf''"
    "mg_subject_id warm_row = None" "mg_sub_subject_id warm_row = None"
    by (simp_all add: warm_row_def)
  have "wp (interpret_step_adapter sample_step_world sample_moment ''g1'') (\<lambda>_ _. True) (\<lambda>_ _. False) warm_step_state"
  proof (rule interpret_step_returns [where g = warm_row and i = 1 and r = r and u = u])
    have "st_llm warm_step_state = warm_state" "sw_llm sample_step_world = sample_world"
      "sw_interpret_defaults sample_step_world = sample_defaults"
      by (simp_all add: warm_step_state_def sample_step_world_def)
    then show "interpret_service (sw_llm sample_step_world) (sw_interpret_defaults sample_step_world) sample_moment
      \<lparr>ii_generation_id = ''g1'', ii_teacher_prompt = mg_raw_prompt warm_row, ii_preferred_output_type = mg_preferred_output_type warm_row,
       ii_subject_context = None, ii_sub_subject_context = None, ii_model = None, ii_instruction = None\<rparr> (st_llm warm_step_state) = (Inr r, u)"
      using run by (simp only: row input)
  qed (simp_all only: row, simp_all add: warm_step_state_def sample_step_world_def uuid)
  from wp_total [OF this] obtain v t where
    step: "interpret_step_adapter sample_step_world sample_moment ''g1'' warm_step_state = (Inr v, t)" by blast
  from interpretation_is_handed_over [OF this] obtain i p g provider model now where
    "x_parse_uuid (sw_ext sample_step_world) ''g1'' = Some i" "dec_payload (sw_ext sample_step_world) v = Some p"
    "map_of (gens (st_db t)) i = Some (g\<lparr>mg_interpretation_payload := Some v, mg_llm_provider := Some provider,
      mg_llm_model := Some model, mg_updated_at := now\<rparr>)" by blast
  moreover have "sw_ext sample_step_world = lw_ext sample_world" by (simp add: sample_step_world_def)
  ultimately show ?thesis using step uuid by fastforce
qed

text \<open>
  The composition step never succeeds: it selects a column the table does not have, so it fails before it calls its service, and
  changes no row.
\<close>
theorem composition_always_fails:
  "\<exists>x t. compose_step_adapter S M gid s = (Inl x, t) \<and> st_llm t = st_llm s \<and> gens (st_db t) = gens (st_db s)"
proof -
  have "wp (compose_step_adapter S M gid) (\<lambda>_ _. False) (\<lambda>_ t. st_llm t = st_llm s \<and> gens (st_db t) = gens (st_db s)) s"
    unfolding compose_step_adapter_def parse_generation_id_def select_columns_def sqlx_step_def COMPOSE_COLUMNS_def
      GENERATION_COLUMNS_def db_select_def
    by (auto simp: wp_simps split: option.split intro!: wp_db_call_I)
  then show ?thesis by (auto simp: wp_def split: prod.splits sum.splits)
qed



end
