(* ===== verification/Api_Response.thy ===== *)
theory Api_Response
  imports Generations_Repo Provider_Client
begin

text \<open>
  What the handlers return: the errors of \<open>src/src/error.rs\<close> with their responses, and the envelopes of
  \<open>src/src/api/rest/response.rs\<close>. A response is a status code and a body.
\<close>

datatype AppError =
    App_Validation string
  | App_NotFound string
  | Unauthorized string
  | Forbidden string
  | Conflict string
  | Internal string
  | App_Database string
  | App_Redis string
  | HttpClient string
  | Config string
  | Anyhow string
  | App_RateLimited nat "(string \<times> string) list" json

record response =
  rs_status :: nat
  rs_headers :: "(string \<times> string) list"
  rs_body :: json

definition error_response :: "nat \<Rightarrow> string \<Rightarrow> string \<Rightarrow> response" where
  "error_response status code message =
     \<lparr>rs_status = status, rs_headers = [],
      rs_body = JObj [(''success'', JBool False), (''error'', JObj [(''code'', JStr code), (''message'', JStr message)])]\<rparr>"

definition into_response :: "AppError \<Rightarrow> response" where
  "into_response e =
     (case e of
        App_RateLimited status headers body \<Rightarrow> \<lparr>rs_status = status, rs_headers = headers, rs_body = body\<rparr>
      | App_Validation msg \<Rightarrow> error_response 422 ''validation_failed'' msg
      | App_NotFound msg \<Rightarrow> error_response 404 ''not_found'' msg
      | Unauthorized msg \<Rightarrow> error_response 401 ''unauthorized'' msg
      | Forbidden msg \<Rightarrow> error_response 403 ''forbidden'' msg
      | Conflict msg \<Rightarrow> error_response 409 ''conflict'' msg
      | Internal msg \<Rightarrow> error_response 500 ''internal_error'' msg
      | App_Database msg \<Rightarrow> error_response 500 ''database_error'' msg
      | App_Redis msg \<Rightarrow> error_response 500 ''redis_error'' msg
      | HttpClient msg \<Rightarrow> error_response 502 ''http_client_error'' msg
      | Config msg \<Rightarrow> error_response 500 ''config_error'' msg
      | Anyhow msg \<Rightarrow> error_response 500 ''internal_error'' msg)"

definition ok_response :: "json \<Rightarrow> nat \<times> json" where
  "ok_response data = (200, JObj [(''success'', JBool True), (''data'', data)])"

definition created_response :: "json \<Rightarrow> nat \<times> json" where
  "created_response data = (201, JObj [(''success'', JBool True), (''data'', data)])"

definition with_message :: "nat \<Rightarrow> string \<Rightarrow> json \<Rightarrow> nat \<times> json" where
  "with_message status message data =
     (status, JObj [(''success'', JBool True), (''message'', JStr message), (''data'', data)])"

definition ok_with_message :: "string \<Rightarrow> json \<Rightarrow> nat \<times> json" where
  "ok_with_message = with_message 200"

definition created_with_message :: "string \<Rightarrow> json \<Rightarrow> nat \<times> json" where
  "created_with_message = with_message 201"

definition accepted_with_message :: "string \<Rightarrow> json \<Rightarrow> nat \<times> json" where
  "accepted_with_message = with_message 202"

text \<open>How \<open>anyhow\<close> shows an error of the repository.\<close>

definition show_repo_error :: "(sqlx_error \<Rightarrow> string) \<Rightarrow> repo_error \<Rightarrow> string" where
  "show_repo_error sqlx_text e =
     (case e of Failed_to msg d \<Rightarrow> msg @ '': '' @ sqlx_text d | Not_found \<Rightarrow> ''media generation not found'')"

end
