(* ===== verification/Object_Storage.thy ===== *)
theory Object_Storage
  imports Clarification Interp_Repair
begin

text \<open>
  The object storage, \<open>src/src/storage/r2.rs\<close>: categories of uploads, names of objects, and the calls of the
  S3 client. The service is a map from bucket and key to objects; a call fails as a schedule of faults says, and
  a call that fails may have had its effect. The random prefix and the clock of a file name are arguments, and so is the
  table of alphanumeric characters beyond ASCII.
\<close>

section \<open>Categories\<close>

record UploadCategory =
  uc_name :: string
  uc_path :: string
  uc_allowed_extensions :: "string list"
  uc_max_size_kb :: nat

definition UPLOAD_CATEGORIES :: "UploadCategory list" where
  "UPLOAD_CATEGORIES =
     [\<lparr>uc_name = ''avatars'', uc_path = ''avatars'', uc_allowed_extensions = [''jpg'', ''jpeg'', ''png'', ''webp''],
       uc_max_size_kb = 2048\<rparr>,
      \<lparr>uc_name = ''gallery'', uc_path = ''gallery'',
       uc_allowed_extensions = [''jpg'', ''jpeg'', ''png'', ''webp'', ''gif'', ''svg''], uc_max_size_kb = 5120\<rparr>,
      \<lparr>uc_name = ''materials'', uc_path = ''materials'',
       uc_allowed_extensions = [''pdf'', ''doc'', ''docx'', ''ppt'', ''pptx'', ''xls'', ''xlsx'', ''txt'', ''md''],
       uc_max_size_kb = 10240\<rparr>,
      \<lparr>uc_name = ''attachments'', uc_path = ''attachments'',
       uc_allowed_extensions = [''jpg'', ''jpeg'', ''png'', ''webp'', ''gif'', ''pdf'', ''doc'', ''docx'', ''zip''],
       uc_max_size_kb = 10240\<rparr>]"

definition get_category :: "string \<Rightarrow> UploadCategory option" where
  "get_category name = find (\<lambda>c. uc_name c = name) UPLOAD_CATEGORIES"

definition mime_to_extension :: "string \<Rightarrow> string option" where
  "mime_to_extension mime =
     map_of
       [(''image/jpeg'', ''jpg''), (''image/png'', ''png''), (''image/webp'', ''webp''), (''image/gif'', ''gif''),
        (''image/svg+xml'', ''svg''), (''application/pdf'', ''pdf''), (''application/msword'', ''doc''),
        (''application/vnd.openxmlformats-officedocument.wordprocessingml.document'', ''docx''),
        (''application/vnd.ms-powerpoint'', ''ppt''),
        (''application/vnd.openxmlformats-officedocument.presentationml.presentation'', ''pptx''),
        (''application/vnd.ms-excel'', ''xls''),
        (''application/vnd.openxmlformats-officedocument.spreadsheetml.sheet'', ''xlsx''),
        (''text/plain'', ''txt''), (''text/markdown'', ''md''), (''application/zip'', ''zip'')] mime"

section \<open>Names and addresses\<close>

text \<open>\<open>char::is_alphanumeric\<close> on one code point.\<close>

definition alphanumeric :: "(string \<Rightarrow> bool) \<Rightarrow> string \<Rightarrow> bool" where
  "alphanumeric ua u =
     (case u of
        [c] \<Rightarrow> is_digit c \<or> 65 \<le> byte c \<and> byte c \<le> 90 \<or> 97 \<le> byte c \<and> byte c \<le> 122
      | _ \<Rightarrow> ua u)"

definition sanitise_filename :: "(string \<Rightarrow> bool) \<Rightarrow> string \<Rightarrow> nat \<Rightarrow> string \<Rightarrow> string \<Rightarrow> string" where
  "sanitise_filename ua random timestamp stem extension =
     (let slug = trim (join '' '' (split_whitespace
            (concat (map (\<lambda>c. if alphanumeric ua c \<or> c = ''.'' then c else '' '') (chars stem)))));
          slug' = (if slug = [] then ''untitled'' else slug);
          ext = (if extension = [] then ''bin'' else extension)
      in random @ ''_'' @ show_nat timestamp @ ''_'' @ slug' @ ''.'' @ ext)"

record UploadResult =
  ur_path :: string
  ur_public_url :: string

definition generate_public_url :: "string \<Rightarrow> string \<Rightarrow> string" where
  "generate_public_url public_url_base path = trim_end_matches ''/'' public_url_base @ ''/'' @ path"

definition extract_object_key :: "string \<Rightarrow> string \<Rightarrow> string option" where
  "extract_object_key public_url public_url_base =
     (let base = trim_end_matches ''/'' public_url_base
      in if starts_with public_url base then Some (trim_start_matches ''/'' (drop (length base) public_url)) else None)"

section \<open>Calls\<close>

record StoredObject =
  so_body :: string
  so_content_type :: string

record object_store =
  os_objects :: "string \<times> string \<rightharpoonup> StoredObject"
  os_faults :: "(string \<times> bool) option list"

definition store_call :: "(object_store \<Rightarrow> 'a \<times> object_store) \<Rightarrow> (object_store, string, 'a) act" where
  "store_call f s =
     (let s' = s\<lparr>os_faults := tl (os_faults s)\<rparr>
      in case os_faults s of
           Some (e, applied) # _ \<Rightarrow> (Inl (Error e), if applied then snd (f s') else s')
         | _ \<Rightarrow> (case f s' of (a, t) \<Rightarrow> (Inr a, t)))"

definition APOS :: string where
  "APOS = [CHR 0x27]"

definition debug_strs :: "string list \<Rightarrow> string" where
  "debug_strs xs = ''['' @ join '', '' (map (\<lambda>x. [CHR 0x22] @ x @ [CHR 0x22]) xs) @ '']''"

text \<open>Presigning is local: the settings may be refused, and the signer may fail.\<close>

record presigner =
  ps_config_error :: "nat \<Rightarrow> string option"
  ps_sign :: "string \<Rightarrow> string \<Rightarrow> nat \<Rightarrow> string + string"

definition generate_presigned_url :: "presigner \<Rightarrow> string \<Rightarrow> string \<Rightarrow> nat \<Rightarrow> string + string" where
  "generate_presigned_url P bucket path expires_in =
     (case ps_config_error P expires_in of
        Some e \<Rightarrow> Inl (''failed to build presigning config: '' @ e)
      | None \<Rightarrow>
          (case ps_sign P bucket path expires_in of
             Inl e \<Rightarrow> Inl (''failed to generate presigned URL for '' @ APOS @ path @ APOS @ '': '' @ e)
           | Inr uri \<Rightarrow> Inr uri))"

definition upload ::
  "(string \<Rightarrow> bool) \<Rightarrow> string \<times> nat \<Rightarrow> string \<Rightarrow> string \<Rightarrow> string \<Rightarrow> string \<Rightarrow> string \<Rightarrow> (object_store, string, UploadResult) act" where
  "upload ua stamp bucket public_url_base category bytes content_type =
     and_then (ok_or (''unknown upload category '' @ APOS @ category @ APOS @ ''; valid: '' @
         debug_strs (map uc_name UPLOAD_CATEGORIES)) (get_category category)) (\<lambda>cat.
     let max_bytes = uc_max_size_kb cat * 1024
     in if max_bytes < length bytes
        then raise (''file too large for category '' @ APOS @ category @ APOS @ '': '' @ show_nat (length bytes) @ '' bytes (max '' @
          show_nat max_bytes @ '' bytes / '' @ show_nat (uc_max_size_kb cat) @ '' KB)'')
        else and_then (ok_or (''unsupported content type '' @ APOS @ content_type @ APOS @ '' for category '' @ APOS @ category @ APOS)
          (mime_to_extension content_type)) (\<lambda>ext.
            if ext \<notin> set (uc_allowed_extensions cat)
            then raise (''content type '' @ APOS @ content_type @ APOS @ '' ('' @ map char_of [226 :: nat, 134, 146] @ '' '' @ ext @
              '') not allowed in category '' @ APOS @ category @ APOS @ ''; allowed extensions: '' @ debug_strs (uc_allowed_extensions cat))
            else
              let filename = sanitise_filename ua (fst stamp) (snd stamp) ''file'' ext;
                  object_key = uc_path cat @ ''/'' @ filename
              in and_then (map_err (\<lambda>e. ''failed to upload '' @ APOS @ object_key @ APOS @ '' to R2: '' @ e)
                   (store_call (\<lambda>s. ((), s\<lparr>os_objects := (os_objects s)
                     ((bucket, object_key) \<mapsto> \<lparr>so_body = bytes, so_content_type = content_type\<rparr>)\<rparr>)))) (\<lambda>_.
                   ok \<lparr>ur_path = object_key, ur_public_url = generate_public_url public_url_base object_key\<rparr>)))"

text \<open>\<open>delete\<close> reports a failure as \<open>false\<close>.\<close>

definition delete_object :: "string \<Rightarrow> string \<Rightarrow> (object_store, string, bool) act" where
  "delete_object bucket path =
     and_then (try_err (store_call (\<lambda>s. ((), s\<lparr>os_objects := (os_objects s)((bucket, path) := None)\<rparr>)))) (\<lambda>r.
       ok (case r of Inr _ \<Rightarrow> True | Inl (_ :: string) \<Rightarrow> False))"

definition object_exists :: "string \<Rightarrow> string \<Rightarrow> (object_store, string, bool) act" where
  "object_exists bucket path =
     map_err (\<lambda>e. ''failed to check existence of '' @ APOS @ path @ APOS @ '': '' @ e)
       (store_call (\<lambda>s. (os_objects s (bucket, path) \<noteq> None, s)))"

section \<open>Laws\<close>

lemma wp_store_callI:
  assumes "\<And>e fs. R (Error e) (s\<lparr>os_faults := fs\<rparr>)"
    and "\<And>e fs. R (Error e) (snd (f (s\<lparr>os_faults := fs\<rparr>)))"
    and "\<And>fs. Q (fst (f (s\<lparr>os_faults := fs\<rparr>))) (snd (f (s\<lparr>os_faults := fs\<rparr>)))"
  shows "wp (store_call f) Q R s"
  using assms by (auto simp: wp_def store_call_def Let_def split: list.split option.split prod.split)
    (metis fst_conv snd_conv)+

lemma category_path: "get_category name = Some c \<Longrightarrow> \<exists>x xs. uc_path c = x # xs \<and> x \<noteq> CHR ''/''"
proof -
  have all: "list_all (\<lambda>c. case uc_path c of x # xs \<Rightarrow> x \<noteq> CHR ''/'' | [] \<Rightarrow> False) UPLOAD_CATEGORIES"
    by (simp add: UPLOAD_CATEGORIES_def)
  assume "get_category name = Some c"
  then have "c \<in> set UPLOAD_CATEGORIES"
    by (auto simp: get_category_def find_Some_iff)
  with all show ?thesis by (cases "uc_path c") (auto simp: list_all_iff)
qed

lemma trim_slash: "x \<noteq> CHR ''/'' \<Longrightarrow> trim_start_matches ''/'' (CHR ''/'' # x # r) = x # r"
  by (subst trim_start_matches.simps, simp, subst trim_start_matches.simps, simp)

lemma extract_generated:
  assumes "\<exists>x xs. p = x # xs \<and> x \<noteq> CHR ''/''"
  shows "extract_object_key (generate_public_url base (p @ q)) base = Some (p @ q)"
proof -
  from assms obtain x xs where p: "p = x # xs" "x \<noteq> CHR ''/''" by blast
  obtain l where l: "trim_end_matches ''/'' base = l" by simp
  show ?thesis
    unfolding extract_object_key_def generate_public_url_def l Let_def starts_with_def p(1)
    using trim_slash [OF p(2)] by simp
qed

definition accepted :: "UploadCategory \<Rightarrow> StoredObject \<Rightarrow> bool" where
  "accepted c b \<longleftrightarrow> length (so_body b) \<le> uc_max_size_kb c * 1024 \<and>
     (\<exists>ext. mime_to_extension (so_content_type b) = Some ext \<and> ext \<in> set (uc_allowed_extensions c))"

lemma wp_upload:
  "wp (upload ua stamp bucket base category bytes content_type)
     (\<lambda>u t. \<exists>c name. get_category category = Some c \<and> accepted c \<lparr>so_body = bytes, so_content_type = content_type\<rparr> \<and>
        ur_path u = uc_path c @ ''/'' @ name \<and> ur_public_url u = generate_public_url base (ur_path u) \<and>
        os_objects t = (os_objects s)((bucket, ur_path u) \<mapsto> \<lparr>so_body = bytes, so_content_type = content_type\<rparr>))
     (\<lambda>x t. x \<noteq> Panic \<and> (os_objects t = os_objects s \<or> (\<exists>c name. get_category category = Some c \<and>
        accepted c \<lparr>so_body = bytes, so_content_type = content_type\<rparr> \<and>
        os_objects t = (os_objects s)((bucket, uc_path c @ ''/'' @ name) \<mapsto> \<lparr>so_body = bytes, so_content_type = content_type\<rparr>)))) s"
  unfolding upload_def wp_and_then wp_ok_or
  by (split option.split, intro conjI allI impI)
    (auto simp: Let_def wp_simps accepted_def split: option.split intro!: wp_store_callI)

section \<open>Properties\<close>

text \<open>
  C31. Uploads respect their category and can be found again: what \<open>upload\<close> reports as stored is stored under a key in the
  directory of its category, with a type and a size the category accepts, nothing else in the storage is changed, and the key is
  what \<open>extract_object_key\<close> reads from the public address.
\<close>

theorem upload_roundtrip:
  assumes "upload ua stamp bucket base category bytes content_type s = (Inr u, t)"
  shows "\<exists>c name. get_category category = Some c \<and> ur_path u = uc_path c @ ''/'' @ name \<and>
    accepted c \<lparr>so_body = bytes, so_content_type = content_type\<rparr> \<and>
    os_objects t = (os_objects s)((bucket, ur_path u) \<mapsto> \<lparr>so_body = bytes, so_content_type = content_type\<rparr>) \<and>
    extract_object_key (ur_public_url u) base = Some (ur_path u)"
proof -
  obtain c name where c: "get_category category = Some c" "accepted c \<lparr>so_body = bytes, so_content_type = content_type\<rparr>"
      "ur_path u = uc_path c @ ''/'' @ name" "ur_public_url u = generate_public_url base (ur_path u)"
      "os_objects t = (os_objects s)((bucket, ur_path u) \<mapsto> \<lparr>so_body = bytes, so_content_type = content_type\<rparr>)"
    using wp_upload [of ua stamp bucket base category bytes content_type s] assms by (auto simp: wp_def)
  have "extract_object_key (generate_public_url base (ur_path u)) base = Some (ur_path u)"
    using c(3) extract_generated [OF category_path [OF c(1)]] by simp
  with c show ?thesis by auto
qed

theorem upload_roundtrip_witness:
  "\<exists>u t. upload (\<lambda>_. False) (''0a1b2c3d'', 7) ''b'' ''https://cdn/'' ''gallery'' ''x'' ''image/png''
       \<lparr>os_objects = Map.empty, os_faults = []\<rparr> = (Inr u, t) \<and> extract_object_key (ur_public_url u) ''https://cdn/'' = Some (ur_path u)"
proof -
  let ?s = "\<lparr>os_objects = Map.empty, os_faults = []\<rparr>"
  have "\<exists>u t. upload (\<lambda>_. False) (''0a1b2c3d'', 7) ''b'' ''https://cdn/'' ''gallery'' ''x'' ''image/png'' ?s = (Inr u, t)"
    by (simp add: upload_def get_category_def UPLOAD_CATEGORIES_def mime_to_extension_def store_call_def and_then_def ok_def
        map_err_def ok_or_def Let_def)
  then show ?thesis using upload_roundtrip by blast
qed

end
