(* ===== verification/Publication.thy ===== *)
theory Publication
  imports Object_Storage Workflow Provider_Client
begin

text \<open>
  The publication of a generated artifact, \<open>src/src/media_gen/publication.rs\<close>: one transaction over the tables of
  generations, topics, contents and recommended projects, around calls of the renderer and of the object storage,
  which the transaction does not undo.
\<close>

section \<open>Types\<close>

datatype PublicationError =
    Pub_NotFound string
  | MissingArtifact
  | Integrity string
  | Download string
  | Upload string
  | Pub_Database sqlx_error
  | Pub_InvalidUuid string

record topic_row =
  tp_title :: string
  tp_teacher_id :: string
  tp_sub_subject_id :: "int option"
  tp_thumbnail_url :: "string option"
  tp_is_published :: bool
  tp_order :: int
  tp_owner_user_id :: "int option"
  tp_ownership_status :: string
  tp_created_at :: datetime
  tp_updated_at :: datetime

record content_row =
  ct_topic_id :: uuid
  ct_type :: string
  ct_title :: "string option"
  ct_data :: "json option"
  ct_media_url :: "string option"
  ct_is_published :: bool
  ct_order :: int
  ct_created_at :: datetime
  ct_updated_at :: datetime

record project_row =
  pj_title :: string
  pj_description :: "string option"
  pj_thumbnail_url :: "string option"
  pj_project_file_url :: "string option"
  pj_ratio :: string
  pj_project_type :: "string option"
  pj_tags :: "json option"
  pj_modules :: "json option"
  pj_source_type :: string
  pj_source_reference :: "string option"
  pj_source_payload :: "json option"
  pj_display_priority :: int
  pj_is_active :: bool
  pj_starts_at :: "datetime option"
  pj_ends_at :: "datetime option"
  pj_created_by :: "int option"
  pj_updated_by :: "int option"
  pj_created_at :: datetime
  pj_updated_at :: datetime

text \<open>A sequence is not part of a transaction: the next id of a project is not rolled back.\<close>

record pub_db = db +
  pd_topics :: "(uuid \<times> topic_row) list"
  pd_contents :: "(uuid \<times> content_row) list"
  pd_projects :: "(int \<times> project_row) list"
  pd_next_project :: int

text \<open>The state of a publication: the database, the storage, and the paths to delete if it fails.\<close>

record pub_state =
  ps_db :: pub_db
  ps_store :: object_store
  ps_uploaded :: "string list"

record PublishResult =
  pr_topic_id :: "uuid option"
  pr_content_id :: "uuid option"
  pr_recommended_project_id :: "int option"

text \<open>
  The service, and what one publication finds: \<open>pw_http\<close> is the reply to a \<open>GET\<close> with a timeout in seconds, the
  \<open>k\<close>-th upload has the stamp \<open>pw_stamp k\<close>, and the identifiers are new ones.
\<close>

record pub_world =
  pw_ext :: externals
  pw_alnum :: "string \<Rightarrow> bool"
  pw_presigner :: presigner
  pw_http :: "string \<Rightarrow> nat \<Rightarrow> http_reply"
  pw_status_text :: "nat \<Rightarrow> string"
  pw_sqlx_text :: "sqlx_error \<Rightarrow> string"
  pw_thumbnailer :: "string \<Rightarrow> string \<Rightarrow> PublicationError + (string \<times> string)"
  pw_bucket :: string
  pw_transit_bucket :: string
  pw_public_url :: string
  pw_stamp :: "nat \<Rightarrow> string \<times> nat"
  pw_topic_id :: uuid
  pw_content_id :: uuid

definition show_publication_error :: "(sqlx_error \<Rightarrow> string) \<Rightarrow> PublicationError \<Rightarrow> string" where
  "show_publication_error sqlx_text e =
     (case e of
        Pub_NotFound g \<Rightarrow> ''generation not found: '' @ g
      | MissingArtifact \<Rightarrow> ''artifact not found in generator response''
      | Integrity m \<Rightarrow> ''integrity check failed: '' @ m
      | Download m \<Rightarrow> ''failed to download artifact: '' @ m
      | Upload m \<Rightarrow> ''R2 upload failed: '' @ m
      | Pub_Database d \<Rightarrow> ''database error: '' @ sqlx_text d
      | Pub_InvalidUuid m \<Rightarrow> ''invalid UUID: '' @ m)"

section \<open>Pure helpers\<close>

definition ARTIFACT_CATEGORY :: string where
  "ARTIFACT_CATEGORY = ''materials''"

definition thumbnail_accent :: "string \<Rightarrow> string" where
  "thumbnail_accent mime_type =
     (if contains mime_type ''pdf'' then ''#E74C3C''
      else if contains mime_type ''presentation'' then ''#F39C12''
      else ''#3498DB'')"

definition mime_label :: "string \<Rightarrow> string" where
  "mime_label mime_type =
     (if contains mime_type ''pdf'' then ''PDF Document''
      else if contains mime_type ''presentation'' then ''Presentation''
      else if contains mime_type ''word'' \<or> contains mime_type ''document'' then ''Document''
      else ''Media File'')"

definition attr :: "string \<Rightarrow> string \<Rightarrow> string" where
  "attr name value = name @ ''='' @ [CHR 0x22] @ value @ [CHR 0x22]"

definition svg_tag :: "string \<Rightarrow> (string \<times> string) list \<Rightarrow> string \<Rightarrow> string" where
  "svg_tag name attrs close = ''<'' @ join '' '' (name # map (\<lambda>(n, v). attr n v) attrs) @ close"

definition THUMBNAIL_WIDTH :: nat where
  "THUMBNAIL_WIDTH = 1280"

definition THUMBNAIL_HEIGHT :: nat where
  "THUMBNAIL_HEIGHT = 720"

text \<open>The default generator of thumbnails.\<close>

definition svg_fallback_generate :: "string \<Rightarrow> string \<Rightarrow> PublicationError + (string \<times> string)" where
  "svg_fallback_generate artifact mime_type =
     (let accent = thumbnail_accent mime_type;
          label = mime_label mime_type;
          w = show_nat THUMBNAIL_WIDTH; h = show_nat THUMBNAIL_HEIGHT;
          mid = show_nat (THUMBNAIL_WIDTH div 2);
          font = (\<lambda>y size rest. [(''x'', mid), (''y'', y), (''font-family'', ''Arial,sans-serif''), (''font-size'', size)] @ rest)
      in Inr (join [CHR 0x0A]
        [svg_tag ''svg'' [(''xmlns'', ''http://www.w3.org/2000/svg''), (''width'', w), (''height'', h),
           (''viewBox'', ''0 0 '' @ w @ '' '' @ h)] ''>'',
         ''  '' @ svg_tag ''rect'' [(''width'', w), (''height'', h), (''fill'', accent @ ''22''), (''rx'', ''24'')] ''/>'',
         ''  '' @ svg_tag ''rect'' [(''x'', ''60''), (''y'', ''60''), (''width'', show_nat (THUMBNAIL_WIDTH - 120)),
           (''height'', show_nat (THUMBNAIL_HEIGHT - 120)), (''rx'', ''16''), (''fill'', ''white''), (''stroke'', accent),
           (''stroke-width'', ''3'')] ''/>'',
         ''  '' @ svg_tag ''text'' (font ''320'' ''64'' [(''fill'', accent), (''text-anchor'', ''middle''), (''font-weight'', ''bold'')])
           ''>KLASS</text>'',
         ''  '' @ svg_tag ''text'' (font ''400'' ''36'' [(''fill'', ''#555''), (''text-anchor'', ''middle'')]) ''>Generated Media</text>'',
         ''  '' @ svg_tag ''text'' (font ''460'' ''28'' [(''fill'', ''#888''), (''text-anchor'', ''middle'')]) (''>'' @ label @ ''</text>''),
         ''</svg>''], ''image/svg+xml''))"

definition default_mime_for :: "string \<Rightarrow> string" where
  "default_mime_for output_type =
     (if output_type = ''pdf'' then ''application/pdf''
      else if output_type = ''pptx'' then ''application/vnd.openxmlformats-officedocument.presentationml.presentation''
      else if output_type = ''docx'' then ''application/vnd.openxmlformats-officedocument.wordprocessingml.document''
      else ''application/octet-stream'')"

definition content_type_from_output :: "string \<Rightarrow> string" where
  "content_type_from_output output_type = ''module''"

definition PDF_MAGIC :: string where
  "PDF_MAGIC = ''%PDF''"

definition OOXML_MAGIC :: string where
  "OOXML_MAGIC = ''PK'' @ map char_of [3 :: nat, 4]"

definition PDF_EOF_MARKER :: string where
  "PDF_EOF_MARKER = ''%%EOF''"

definition has_pdf_eof_marker :: "string \<Rightarrow> bool" where
  "has_pdf_eof_marker bytes = contains (drop (length bytes - 1024) bytes) PDF_EOF_MARKER"

definition validate_integrity :: "string \<Rightarrow> string \<Rightarrow> PublicationError + unit" where
  "validate_integrity bytes mime_type =
     (if bytes = [] then Inl (Integrity ''artifact is empty'')
      else if contains mime_type ''pdf'' then
        (if \<not> starts_with bytes PDF_MAGIC then Inl (Integrity ''PDF file missing %PDF header magic bytes'')
         else if \<not> has_pdf_eof_marker bytes then Inl (Integrity ''PDF file missing %%EOF trailer'')
         else Inr ())
      else if contains mime_type ''officedocument'' \<or> contains mime_type ''presentation'' \<or> contains mime_type ''word'' then
        (if \<not> starts_with bytes OOXML_MAGIC then Inl (Integrity (''OOXML file missing PK'' @
           [CHR 0x5C] @ ''x03'' @ [CHR 0x5C] @ ''x04 (ZIP) magic bytes''))
         else Inr ())
      else Inr ())"

definition build_delivery_payload ::
  "string \<Rightarrow> string option \<Rightarrow> string \<Rightarrow> string \<Rightarrow> string option \<Rightarrow> json" where
  "build_delivery_payload file_url thumbnail_url output_type mime_type preview_url =
     JObj
       [(''schema_version'', JStr ''media_delivery_response.v1''),
        (''response_meta'', JObj
          [(''provider'', JStr ''python-renderer''), (''model'', JStr ''hf-space-v3''), (''llm_used'', JBool False)]),
        (''fallback'', JObj [(''triggered'', JBool False), (''reason_code'', JNull), (''action'', JNull)]),
        (''artifact'', JObj
          [(''file_url'', JStr file_url), (''thumbnail_url'', jstr_opt thumbnail_url), (''output_type'', JStr output_type),
           (''mime_type'', JStr mime_type), (''preview_url'', jstr_opt preview_url)])]"

section \<open>The database\<close>

abbreviation on_pub :: "(pub_db, 'e, 'a) act \<Rightarrow> (pub_state, 'e, 'a) act" where
  "on_pub \<equiv> zoom ps_db (\<lambda>t s. s\<lparr>ps_db := t\<rparr>)"

abbreviation on_store :: "(object_store, 'e, 'a) act \<Rightarrow> (pub_state, 'e, 'a) act" where
  "on_store \<equiv> zoom ps_store (\<lambda>t s. s\<lparr>ps_store := t\<rparr>)"

definition pub_statement ::
  "('z db_scheme \<Rightarrow> (sqlx_error + 'a) \<times> 'z db_scheme) \<Rightarrow> ('z db_scheme, sqlx_error, 'a) act" where
  "pub_statement f s =
     (let s' = s\<lparr>faults := tl (faults s)\<rparr>
      in case faults s of
           Some e # _ \<Rightarrow> (Inl (Error e), s')
         | _ \<Rightarrow> (case f s' of (Inl e, t) \<Rightarrow> (Inl (Error e), t) | (Inr a, t) \<Rightarrow> (Inr a, t)))"

definition rolled_back :: "pub_state \<Rightarrow> pub_state \<Rightarrow> pub_state" where
  "rolled_back s t = t\<lparr>ps_db := (ps_db t)
     \<lparr>gens := gens (ps_db s), pd_topics := pd_topics (ps_db s), pd_contents := pd_contents (ps_db s),
      pd_projects := pd_projects (ps_db s)\<rparr>\<rparr>"

definition pub_transaction :: "(pub_state, PublicationError, 'a) act \<Rightarrow> (pub_state, PublicationError, 'a) act" where
  "pub_transaction body s =
     (let boundary = map_err Pub_Database (on_pub (pub_statement (\<lambda>t. (Inr (), t))))
      in case boundary s of
           (Inl x, s1) \<Rightarrow> (Inl x, s1)
         | (Inr _, s1) \<Rightarrow>
             (case body s1 of
                (Inl x, s2) \<Rightarrow> (Inl x, rolled_back s s2)
              | (Inr a, s2) \<Rightarrow>
                  (case boundary s2 of
                     (Inl x, s3) \<Rightarrow> (Inl x, rolled_back s s3)
                   | (Inr _, s3) \<Rightarrow> (Inr a, s3))))"

definition too_long :: "nat \<Rightarrow> sqlx_error" where
  "too_long n = Database_error (''value too long for type character varying('' @ show_nat n @ '')'')"

text \<open>\<open>ON CONFLICT DO NOTHING\<close> on the primary key.\<close>

definition insert_topic :: "uuid \<Rightarrow> string \<Rightarrow> int \<Rightarrow> (pub_db, sqlx_error, unit) act" where
  "insert_topic i title teacher_id =
     pub_statement (\<lambda>s.
       if \<not> fits 255 title then (Inl (too_long 255), s)
       else if i \<in> fst ` set (pd_topics s) then (Inr (), s)
       else (Inr (), s\<lparr>pd_topics := pd_topics s @ [(i,
         \<lparr>tp_title = clip 255 title, tp_teacher_id = show_int teacher_id, tp_sub_subject_id = None,
          tp_thumbnail_url = None, tp_is_published = True, tp_order = 0, tp_owner_user_id = Some teacher_id,
          tp_ownership_status = ''owned'', tp_created_at = db_now s, tp_updated_at = db_now s\<rparr>)]\<rparr>))"

definition insert_content :: "uuid \<Rightarrow> uuid \<Rightarrow> string \<Rightarrow> string \<Rightarrow> string \<Rightarrow> (pub_db, sqlx_error, unit) act" where
  "insert_content i topic_id content_type title media_url =
     pub_statement (\<lambda>s.
       if \<not> fits 255 title then (Inl (too_long 255), s)
       else if content_type \<notin> {''module'', ''quiz'', ''brief''} then (Inl CheckViolation, s)
       else if i \<in> fst ` set (pd_contents s) then (Inr (), s)
       else if topic_id \<notin> fst ` set (pd_topics s) then (Inl ForeignKeyViolation, s)
       else (Inr (), s\<lparr>pd_contents := pd_contents s @ [(i,
         \<lparr>ct_topic_id = topic_id, ct_type = content_type, ct_title = Some (clip 255 title), ct_data = None,
          ct_media_url = Some media_url, ct_is_published = True, ct_order = 0,
          ct_created_at = db_now s, ct_updated_at = db_now s\<rparr>)]\<rparr>))"

definition insert_project :: "string \<Rightarrow> string \<Rightarrow> string option \<Rightarrow> string \<Rightarrow> (pub_db, sqlx_error, int) act" where
  "insert_project title file_url thumbnail_url source_reference =
     pub_statement (\<lambda>s.
       let i = pd_next_project s; s' = s\<lparr>pd_next_project := i + 1\<rparr>
       in if \<not> fits 255 title \<or> \<not> fits 255 source_reference then (Inl (too_long 255), s')
          else if i \<in> fst ` set (pd_projects s) then (Inl UniqueViolation, s')
          else (Inr i, s'\<lparr>pd_projects := pd_projects s @ [(i,
            \<lparr>pj_title = clip 255 title, pj_description = None, pj_thumbnail_url = thumbnail_url,
             pj_project_file_url = Some file_url, pj_ratio = ''16:9'', pj_project_type = None, pj_tags = None,
             pj_modules = None, pj_source_type = ''ai_generated'', pj_source_reference = Some (clip 255 source_reference),
             pj_source_payload = None, pj_display_priority = 0, pj_is_active = True, pj_starts_at = Some (db_now s),
             pj_ends_at = None, pj_created_by = None, pj_updated_by = None,
             pj_created_at = db_now s, pj_updated_at = db_now s\<rparr>)]\<rparr>))"

section \<open>The pipeline\<close>

definition download_artifact :: "pub_world \<Rightarrow> string \<Rightarrow> PublicationError + string" where
  "download_artifact W url =
     (case pw_http W url 120 of
        Send_Failed e \<Rightarrow> Inl (Download e)
      | Replied status body \<Rightarrow>
          if \<not> (200 \<le> status \<and> status < 300)
          then Inl (Integrity (''artifact download failed: HTTP status '' @ pw_status_text W status))
          else (case body of Inl e \<Rightarrow> Inl (Download e) | Inr bytes \<Rightarrow> Inr bytes))"

definition download_thumbnail :: "pub_world \<Rightarrow> string \<Rightarrow> string + string" where
  "download_thumbnail W url =
     (case pw_http W url 30 of
        Send_Failed e \<Rightarrow> Inl e
      | Replied status body \<Rightarrow> if \<not> (200 \<le> status \<and> status < 300) then Inr [] else body)"

definition or_fail :: "'e + 'a \<Rightarrow> ('s, 'e, 'a) act" where
  "or_fail r = (case r of Inl e \<Rightarrow> raise e | Inr a \<Rightarrow> ok a)"

definition upload_as :: "pub_world \<Rightarrow> nat \<Rightarrow> string \<Rightarrow> string \<Rightarrow> string \<Rightarrow> (pub_state, PublicationError, UploadResult) act" where
  "upload_as W k category bytes content_type =
     on_store (map_err Upload (upload (pw_alnum W) (pw_stamp W k) (pw_bucket W) (pw_public_url W) category bytes content_type))"

definition renderer_thumbnail :: "json \<Rightarrow> string option" where
  "renderer_thumbnail response =
     (case Option.bind (case jget ''thumbnail_url'' response of Some v \<Rightarrow> Some v
                        | None \<Rightarrow> pointer [''response'', ''thumbnail_url''] response) as_str of
        Some s \<Rightarrow> if s = [] then None else Some s
      | None \<Rightarrow> None)"

definition resolve_thumbnail ::
  "pub_world \<Rightarrow> json \<Rightarrow> string \<Rightarrow> string \<Rightarrow> (pub_state, PublicationError, string option) act" where
  "resolve_thumbnail W response artifact_bytes mime_type =
     (let generated =
        and_then (or_fail (pw_thumbnailer W artifact_bytes mime_type)) (\<lambda>(thumb_bytes, thumb_mime).
        and_then (upload_as W 1 ''gallery'' thumb_bytes thumb_mime) (\<lambda>u. ok (Some (ur_public_url u))))
      in case renderer_thumbnail response of
           Some url \<Rightarrow>
             (case download_thumbnail W url of
                Inr bytes \<Rightarrow>
                  if bytes \<noteq> []
                  then and_then (upload_as W 0 ARTIFACT_CATEGORY bytes ''image/svg+xml'') (\<lambda>u. ok (Some (ur_public_url u)))
                  else generated
              | Inl _ \<Rightarrow> generated)
         | None \<Rightarrow> generated)"

definition artifact_url :: "pub_world \<Rightarrow> json \<Rightarrow> PublicationError + string" where
  "artifact_url W response =
     (case Option.bind (jget ''s3_object_key'' response) as_str of
        Some s3_key \<Rightarrow>
          (case generate_presigned_url (pw_presigner W) (pw_transit_bucket W) s3_key 3600 of
             Inl e \<Rightarrow> Inl (Upload (''failed to generate presigned URL: '' @ e))
           | Inr u \<Rightarrow> Inr u)
      | None \<Rightarrow>
          (case Option.bind
                  (case jget ''presigned_url'' response of Some v \<Rightarrow> Some v
                   | None \<Rightarrow> (case jget ''file_url'' response of Some v \<Rightarrow> Some v
                              | None \<Rightarrow> pointer [''response'', ''file_url''] response)) as_str of
             Some u \<Rightarrow> Inr u
           | None \<Rightarrow> Inl MissingArtifact))"

text \<open>The statements after the upload.\<close>

definition record_publication ::
  "pub_world \<Rightarrow> uuid \<Rightarrow> generation \<Rightarrow> json \<Rightarrow> string \<Rightarrow> string \<Rightarrow> UploadResult \<Rightarrow> string option \<Rightarrow>
     (pub_state, PublicationError, PublishResult) act" where
  "record_publication W gen_id g response output_type mime_type r2 thumbnail_url =
     (let topic_title = unwrap_or ''Generated Topic''
            (Option.bind (Option.bind (mg_interpretation_payload g) (pointer [''document_blueprint'', ''title''])) as_str);
          preview_url = Option.bind (pointer [''artifact_metadata'', ''preview_url''] response) as_str;
          delivery_payload = build_delivery_payload (ur_public_url r2) thumbnail_url output_type mime_type preview_url
      in map_err Pub_Database (on_pub (
           and_then (insert_topic (pw_topic_id W) topic_title (mg_teacher_id g)) (\<lambda>_.
           and_then (insert_content (pw_content_id W) (pw_topic_id W) (content_type_from_output output_type) topic_title
             (ur_public_url r2)) (\<lambda>_.
           and_then (insert_project topic_title (ur_public_url r2) thumbnail_url (x_uuid_str (pw_ext W) gen_id)) (\<lambda>project_id.
           and_then (db_update gen_id (\<lambda>now g.
               g\<lparr>mg_topic_id := Some (pw_topic_id W), mg_content_id := Some (pw_content_id W),
                 mg_recommended_project_id := Some project_id, mg_storage_path := Some (ur_path r2),
                 mg_file_url := Some (ur_public_url r2), mg_thumbnail_url := thumbnail_url,
                 mg_delivery_payload := Some delivery_payload, mg_resolved_output_type := Some output_type,
                 mg_updated_at := now\<rparr>)) (\<lambda>_.
             ok \<lparr>pr_topic_id = Some (pw_topic_id W), pr_content_id = Some (pw_content_id W),
                 pr_recommended_project_id = Some project_id\<rparr>)))))))"

definition publish_inner :: "pub_world \<Rightarrow> uuid \<Rightarrow> (pub_state, PublicationError, PublishResult) act" where
  "publish_inner W gen_id =
     pub_transaction (
       and_then (map_err Pub_Database (on_pub (db_select (\<lambda>t. Inr (map_of t gen_id))))) (\<lambda>row.
       and_then (ok_or (Pub_NotFound (x_uuid_str (pw_ext W) gen_id)) row) (\<lambda>g.
         if mg_status g = ''completed'' \<or> mg_status g = ''cancelled''
         then ok \<lparr>pr_topic_id = None, pr_content_id = None, pr_recommended_project_id = None\<rparr>
         else
           let output_type = unwrap_or ''pdf'' (mg_resolved_output_type g);
               mime_type = unwrap_or (default_mime_for output_type) (mg_mime_type g)
           in and_then (ok_or MissingArtifact (mg_generator_service_response g)) (\<lambda>response.
              and_then (or_fail (artifact_url W response)) (\<lambda>url.
              and_then (or_fail (download_artifact W url)) (\<lambda>bytes.
              and_then (or_fail (validate_integrity bytes mime_type)) (\<lambda>_.
              and_then (resolve_thumbnail W response bytes mime_type) (\<lambda>thumbnail_url.
              and_then (upload_as W 2 ARTIFACT_CATEGORY bytes mime_type) (\<lambda>r2.
              and_then (modify (\<lambda>s. s\<lparr>ps_uploaded := ps_uploaded s @ [ur_path r2]\<rparr>)) (\<lambda>_.
                record_publication W gen_id g response output_type mime_type r2 thumbnail_url))))))))))"

fun compensate_uploaded_files :: "pub_world \<Rightarrow> string list \<Rightarrow> (pub_state, 'e, unit) act" where
  "compensate_uploaded_files W [] = ok ()"
| "compensate_uploaded_files W (path # paths) =
     and_then (ignore_err (on_store (delete_object (pw_bucket W) path))) (\<lambda>_. compensate_uploaded_files W paths)"

text \<open>The vector of paths starts empty; the error of the publication is returned after the compensation.\<close>

definition publish :: "pub_world \<Rightarrow> string \<Rightarrow> (pub_state, PublicationError, PublishResult) act" where
  "publish W generation_id =
     and_then (ok_or (Pub_InvalidUuid (x_uuid_error (pw_ext W) generation_id)) (x_parse_uuid (pw_ext W) generation_id)) (\<lambda>gen_id.
     and_then (modify (\<lambda>s. s\<lparr>ps_uploaded := []\<rparr>)) (\<lambda>_.
     and_then (try_err (publish_inner W gen_id)) (\<lambda>result.
       case result of
         Inr r \<Rightarrow> ok r
       | Inl e \<Rightarrow> and_then (gets ps_uploaded) (\<lambda>paths.
                  and_then (compensate_uploaded_files W paths) (\<lambda>_. raise e)))))"

definition publish_step :: "pub_world \<Rightarrow> string \<Rightarrow> (pub_state, WorkflowError, json) act" where
  "publish_step W generation_id =
     and_then (map_err (\<lambda>e. StepProvider (''publication error: '' @ show_publication_error (pw_sqlx_text W) e)) (publish W generation_id)) (\<lambda>r.
       ok (JObj [(''topic_id'', jstr_opt (map_option (x_uuid_str (pw_ext W)) (pr_topic_id r))),
                 (''content_id'', jstr_opt (map_option (x_uuid_str (pw_ext W)) (pr_content_id r))),
                 (''recommended_project_id'', jint_opt (pr_recommended_project_id r))]))"

section \<open>Laws\<close>

definition same_tables :: "pub_state \<Rightarrow> pub_state \<Rightarrow> bool" where
  "same_tables s t \<longleftrightarrow> gens (ps_db t) = gens (ps_db s) \<and> pd_topics (ps_db t) = pd_topics (ps_db s) \<and>
     pd_contents (ps_db t) = pd_contents (ps_db s) \<and> pd_projects (ps_db t) = pd_projects (ps_db s)"

lemma same_tables_refl [simp]: "same_tables s s"
  by (simp add: same_tables_def)

lemma same_tables_other [simp]:
  "same_tables s (t\<lparr>ps_store := x\<rparr>) = same_tables s t" "same_tables s (t\<lparr>ps_uploaded := ps\<rparr>) = same_tables s t"
  "same_tables s (t\<lparr>ps_db := d\<lparr>faults := fs\<rparr>\<rparr>) = same_tables s (t\<lparr>ps_db := d\<rparr>)"
  "same_tables s (rolled_back s t)"
  by (simp_all add: same_tables_def rolled_back_def)

lemma wp_pub_statementI:
  assumes "\<And>e fs. R (Error e) (s\<lparr>faults := fs\<rparr>)"
    and "\<And>fs. case f (s\<lparr>faults := fs\<rparr>) of (Inl e, t) \<Rightarrow> R (Error e) t | (Inr a, t) \<Rightarrow> Q a t"
  shows "wp (pub_statement f) Q R s"
  using assms(1) assms(2) [of "tl (faults s)"]
  by (auto simp: wp_def pub_statement_def Let_def split: list.split option.split prod.splits sum.splits)

lemma wp_or_fail [wp_simps]: "wp (or_fail r) Q R s = (case r of Inl e \<Rightarrow> R (Error e) s | Inr a \<Rightarrow> Q a s)"
  by (simp add: or_fail_def wp_simps split: sum.split)

text \<open>A transaction that fails leaves the tables.\<close>

lemma wp_pub_transactionI:
  assumes body: "\<And>fs. wp body (\<lambda>a t. (\<forall>fs. Q a (t\<lparr>ps_db := (ps_db t)\<lparr>faults := fs\<rparr>\<rparr>)) \<and>
         (\<forall>e fs. R (Error e) (rolled_back s (t\<lparr>ps_db := (ps_db t)\<lparr>faults := fs\<rparr>\<rparr>))))
       (\<lambda>x t. R x (rolled_back s t)) (s\<lparr>ps_db := (ps_db s)\<lparr>faults := fs\<rparr>\<rparr>)"
    and start: "\<And>e fs. R (Error e) (s\<lparr>ps_db := (ps_db s)\<lparr>faults := fs\<rparr>\<rparr>)"
  shows "wp (pub_transaction body) Q R s"
proof -
  have boundary: "t' = t\<lparr>ps_db := (ps_db t)\<lparr>faults := tl (faults (ps_db t))\<rparr>\<rparr> \<and> (\<forall>x. r = Inl x \<longrightarrow> (\<exists>e. x = Error e))"
    if "map_err Pub_Database (on_pub (pub_statement (\<lambda>t. (Inr (), t)))) t = (r, t')" for t t' :: pub_state and r :: "PublicationError exn + unit"
    using that
    by (cases "faults (ps_db t)")
      (auto simp: map_err_def zoom_def pub_statement_def Let_def split: option.splits prod.splits sum.splits)
  show ?thesis
    unfolding wp_def pub_transaction_def Let_def
    using body [of "tl (faults (ps_db s))"] start
    by (auto simp: wp_def split: prod.splits sum.splits dest!: boundary)
qed


text \<open>What is left in the storage beyond what was there: thumbnails, and the artifacts that are to be deleted on failure.\<close>

definition leftovers :: "pub_world \<Rightarrow> object_store \<Rightarrow> string list \<Rightarrow> object_store \<Rightarrow> bool" where
  "leftovers W s paths t \<longleftrightarrow> os_faults t = [] \<and>
     (\<forall>k b. os_objects t k = Some b \<longrightarrow> os_objects s k = Some b \<or> prefix ''gallery/'' (snd k) \<or>
        fst k = pw_bucket W \<and> snd k \<in> set paths)"

lemma leftovers_put:
  "leftovers W s ps t \<Longrightarrow> prefix ''gallery/'' key \<or> bucket = pw_bucket W \<and> key \<in> set qs \<Longrightarrow> set ps \<subseteq> set qs \<Longrightarrow>
     leftovers W s qs (t\<lparr>os_objects := (os_objects t)((bucket, key) \<mapsto> b)\<rparr>)"
  by (auto simp: leftovers_def)

lemma faultless_call: "os_faults s = [] \<Longrightarrow> wp (store_call f) Q R s = Q (fst (f s)) (snd (f s))"
  by (cases s) (simp add: wp_def store_call_def Let_def split: prod.split)

text \<open>An upload without faults.\<close>

lemma wp_upload_faultless:
  assumes "os_faults s = []"
    and "\<And>c name u. get_category category = Some c \<Longrightarrow> accepted c \<lparr>so_body = bytes, so_content_type = content_type\<rparr> \<Longrightarrow>
       ur_path u = uc_path c @ ''/'' @ name \<Longrightarrow> ur_public_url u = generate_public_url base (ur_path u) \<Longrightarrow>
       Q u (s\<lparr>os_objects := (os_objects s)((bucket, ur_path u) \<mapsto> \<lparr>so_body = bytes, so_content_type = content_type\<rparr>)\<rparr>)"
    and "\<And>e. R (Error e) s"
  shows "wp (upload ua stamp bucket base category bytes content_type) Q R s"
  unfolding upload_def wp_and_then wp_ok_or
proof (split option.split, intro conjI allI impI, goal_cases)
  case (2 c)
  then show ?case
    using assms(2) [OF 2]
    by (auto simp: Let_def wp_simps accepted_def faultless_call assms(1,3) split: option.split)
qed (rule assms(3))

lemma wp_upload_as:
  assumes "os_faults (ps_store s) = []"
    and "\<And>c name u o'. get_category category = Some c \<Longrightarrow> accepted c \<lparr>so_body = bytes, so_content_type = content_type\<rparr> \<Longrightarrow>
       ur_path u = uc_path c @ ''/'' @ name \<Longrightarrow> ur_public_url u = generate_public_url (pw_public_url W) (ur_path u) \<Longrightarrow>
       o' = (ps_store s)\<lparr>os_objects := (os_objects (ps_store s))((pw_bucket W, ur_path u) \<mapsto> \<lparr>so_body = bytes, so_content_type = content_type\<rparr>)\<rparr> \<Longrightarrow>
       Q u (s\<lparr>ps_store := o'\<rparr>)"
    and "\<And>e. R (Error e) s"
  shows "wp (upload_as W k category bytes content_type) Q R s"
  unfolding upload_as_def wp_zoom wp_map_err
  by (rule wp_upload_faultless [OF assms(1)]) (auto intro: assms(2) simp: assms(3))

lemma gallery_path: "get_category ''gallery'' = Some c \<Longrightarrow> uc_path c = ''gallery''"
  by (auto simp: get_category_def UPLOAD_CATEGORIES_def)

lemma materials_accept:
  "get_category ARTIFACT_CATEGORY = Some c \<Longrightarrow>
     uc_path c = ''materials'' \<and> \<not> accepted c \<lparr>so_body = b, so_content_type = ''image/svg+xml''\<rparr>"
  by (auto simp: get_category_def UPLOAD_CATEGORIES_def ARTIFACT_CATEGORY_def accepted_def mime_to_extension_def)

lemma wp_resolve_thumbnail:
  assumes "leftovers W orig ps (ps_store s)" and "ps_uploaded s = ps"
  shows "wp (resolve_thumbnail W response bytes mime)
     (\<lambda>_ t. leftovers W orig ps (ps_store t) \<and> ps_db t = ps_db s \<and> ps_uploaded t = ps)
     (\<lambda>x t. leftovers W orig ps (ps_store t) \<and> ps_db t = ps_db s \<and> ps_uploaded t = ps \<and> x \<noteq> Panic) s"
proof -
  have nofault: "os_faults (ps_store s) = []" using assms(1) by (simp add: leftovers_def)
  let ?Q = "\<lambda>_ t. leftovers W orig ps (ps_store t) \<and> ps_db t = ps_db s \<and> ps_uploaded t = ps"
  let ?R = "\<lambda>x t. leftovers W orig ps (ps_store t) \<and> ps_db t = ps_db s \<and> ps_uploaded t = ps \<and> x \<noteq> Panic"
  have generated: "wp (and_then (or_fail r) (\<lambda>(thumb_bytes, thumb_mime).
      and_then (upload_as W 1 ''gallery'' thumb_bytes thumb_mime) (\<lambda>u. ok (Some (ur_public_url u))))) ?Q ?R s" for r
    by (auto simp: wp_simps assms split: sum.split intro!: wp_upload_as [OF nofault] leftovers_put [OF assms(1)] dest!: gallery_path)
  have own: "wp (and_then (upload_as W 0 ARTIFACT_CATEGORY b ''image/svg+xml'') (\<lambda>u. ok (Some (ur_public_url u)))) ?Q ?R s" for b
    by (auto simp: wp_simps assms intro!: wp_upload_as [OF nofault] dest!: materials_accept)
  show ?thesis
    unfolding resolve_thumbnail_def Let_def
    by (auto split: option.split sum.split intro: generated own simp del: One_nat_def)
qed


definition calm :: "('s, 'e, 'a) act \<Rightarrow> bool" where
  "calm m \<longleftrightarrow> (\<forall>s. wp m (\<lambda>_ _. True) (\<lambda>x _. x \<noteq> Panic) s)"

lemma calm_rules:
  "calm (ok a)" "calm (pub_statement f)" "calm (db_update i h)" "calm (db_select g)"
  unfolding calm_def db_update_def db_select_def
  by (auto simp: wp_ok split: sum.split prod.split intro!: wp_pub_statementI wp_db_call_I)

lemma calm_and_then: "calm m \<Longrightarrow> (\<And>a. calm (n a)) \<Longrightarrow> calm (and_then m n)"
  unfolding calm_def wp_and_then by (auto intro: wp_mono)

lemma calm_wp: "calm m \<Longrightarrow> (\<And>a t. Q a t) \<Longrightarrow> (\<And>x t. x \<noteq> Panic \<Longrightarrow> R x t) \<Longrightarrow> wp m Q R s"
  unfolding calm_def by (auto intro: wp_mono)

lemma map_exn_panic [simp]: "map_exn f x = Panic \<longleftrightarrow> x = Panic"
  by (cases x) auto

lemma record_publication_frame:
  "wp (record_publication W i g response output_type mime r2 thumb)
     (\<lambda>_ t. ps_store t = ps_store s \<and> ps_uploaded t = ps_uploaded s)
     (\<lambda>x t. ps_store t = ps_store s \<and> ps_uploaded t = ps_uploaded s \<and> x \<noteq> Panic) s"
  unfolding record_publication_def Let_def wp_map_err wp_zoom insert_topic_def insert_content_def insert_project_def
  by (rule calm_wp, intro calm_and_then calm_rules) auto

lemma wp_publish_inner:
  assumes "os_faults (ps_store s) = []" and "ps_uploaded s = []"
  shows "wp (publish_inner W i) (\<lambda>_ t. True)
     (\<lambda>x t. x \<noteq> Panic \<and> same_tables s t \<and> leftovers W (ps_store s) (ps_uploaded t) (ps_store t)) s"
proof -
  let ?L = "\<lambda>t. leftovers W (ps_store s) (ps_uploaded t) (ps_store t)"
  have artifact: "wp (and_then (upload_as W 2 ARTIFACT_CATEGORY bytes mime) (\<lambda>r2.
      and_then (modify (\<lambda>s. s\<lparr>ps_uploaded := ps_uploaded s @ [ur_path r2]\<rparr>)) (\<lambda>_.
        record_publication W i g response output_type mime r2 thumb)))
      (\<lambda>_ t. ?L t) (\<lambda>x t. x \<noteq> Panic \<and> ?L t) u"
    if u: "leftovers W (ps_store s) [] (ps_store u)" "ps_uploaded u = []" for bytes mime g response output_type thumb u
    unfolding wp_and_then wp_modify
  proof (rule wp_upload_as, goal_cases)
    case 1
    then show ?case using u(1) by (simp add: leftovers_def)
  next
    case (2 c name r2 o')
    have "leftovers W (ps_store s) [ur_path r2] o'"
      unfolding 2(5) using leftovers_put [OF u(1), of "ur_path r2" "pw_bucket W" "[ur_path r2]"] by simp
    then show ?case
      by (intro wp_mono [OF record_publication_frame]) (auto simp: u(2))
  next
    case (3 e)
    then show ?case using u by simp
  qed
  have start: "leftovers W (ps_store s) [] (ps_store s)"
    using assms(1) by (simp add: leftovers_def)
  show ?thesis
    unfolding publish_inner_def
  proof (rule wp_pub_transactionI, goal_cases)
    case (1 fs)
    let ?u = "s\<lparr>ps_db := (ps_db s)\<lparr>faults := fs\<rparr>\<rparr>"
    have "wp (and_then (resolve_thumbnail W response bytes mime) (\<lambda>thumb.
         and_then (upload_as W 2 ARTIFACT_CATEGORY bytes mime) (\<lambda>r2.
         and_then (modify (\<lambda>s. s\<lparr>ps_uploaded := ps_uploaded s @ [ur_path r2]\<rparr>)) (\<lambda>_.
           record_publication W i g response output_type mime r2 thumb))))
       (\<lambda>_ t. ?L t) (\<lambda>x t. x \<noteq> Panic \<and> ?L t) u"
      if "ps_store u = ps_store s" "ps_uploaded u = []" for response bytes mime g output_type u
      unfolding wp_and_then [of "resolve_thumbnail _ _ _ _"]
      by (rule wp_mono [OF wp_resolve_thumbnail [OF _ that(2), where W = W and orig = "ps_store s"]])
        (use start that in \<open>auto intro!: artifact\<close>)
    note rest = this
    have "wp (and_then (map_err Pub_Database (on_pub (db_select (\<lambda>t. Inr (map_of t i))))) (\<lambda>row.
       and_then (ok_or (Pub_NotFound (x_uuid_str (pw_ext W) i)) row) (\<lambda>g.
         if mg_status g = ''completed'' \<or> mg_status g = ''cancelled''
         then ok \<lparr>pr_topic_id = None, pr_content_id = None, pr_recommended_project_id = None\<rparr>
         else
           let output_type = unwrap_or ''pdf'' (mg_resolved_output_type g);
               mime_type = unwrap_or (default_mime_for output_type) (mg_mime_type g)
           in and_then (ok_or MissingArtifact (mg_generator_service_response g)) (\<lambda>response.
              and_then (or_fail (artifact_url W response)) (\<lambda>url.
              and_then (or_fail (download_artifact W url)) (\<lambda>bytes.
              and_then (or_fail (validate_integrity bytes mime_type)) (\<lambda>_.
              and_then (resolve_thumbnail W response bytes mime_type) (\<lambda>thumbnail_url.
              and_then (upload_as W 2 ARTIFACT_CATEGORY bytes mime_type) (\<lambda>r2.
              and_then (modify (\<lambda>s. s\<lparr>ps_uploaded := ps_uploaded s @ [ur_path r2]\<rparr>)) (\<lambda>_.
                record_publication W i g response output_type mime_type r2 thumbnail_url))))))))))
       (\<lambda>_ t. ?L t) (\<lambda>x t. x \<noteq> Panic \<and> ?L t) ?u"
      unfolding wp_and_then [of "map_err _ _"] wp_map_err wp_zoom
      by (rule wp_db_select_I)
        (auto simp: wp_and_then [of "ok_or _ _"] wp_and_then [of "or_fail _"] wp_ok_or wp_or_fail wp_ok Let_def assms(2) start
          split: option.split sum.split intro!: rest)
    then show ?case
      by (rule wp_mono) (auto simp: rolled_back_def same_tables_def)
  qed (use start assms(2) in \<open>auto simp: same_tables_def\<close>)
qed


lemma delete_leftovers:
  "leftovers W orig (path # paths) (ps_store s) \<Longrightarrow>
     wp (ignore_err (on_store (delete_object (pw_bucket W) path)))
       (\<lambda>_ t. leftovers W orig paths (ps_store t) \<and> ps_db t = ps_db s) (\<lambda>_ _. False) s"
  unfolding delete_object_def wp_ignore_err wp_zoom wp_and_then wp_try_err
  by (subst faultless_call) (auto simp: leftovers_def wp_simps)

lemma wp_compensate:
  "leftovers W orig paths (ps_store s) \<Longrightarrow>
     wp (compensate_uploaded_files W paths) (\<lambda>_ t. leftovers W orig [] (ps_store t) \<and> ps_db t = ps_db s) (\<lambda>_ _. False) s"
proof (induction paths arbitrary: s)
  case Nil
  then show ?case by (simp add: wp_simps)
next
  case (Cons path paths)
  show ?case
    unfolding compensate_uploaded_files.simps wp_and_then
    by (rule wp_mono [OF delete_leftovers [OF Cons.prems]]) (auto intro: wp_mono [OF Cons.IH])
qed

lemma compensate_keeps_tables:
  "ps_db s = d \<Longrightarrow> wp (compensate_uploaded_files W paths) (\<lambda>_ t. ps_db t = d) (\<lambda>_ t. ps_db t = d) s"
proof (induction paths arbitrary: s)
  case (Cons path paths)
  have "wp (ignore_err (on_store (delete_object (pw_bucket W) path))) (\<lambda>_ t. ps_db t = d) (\<lambda>_ t. ps_db t = d) s"
    unfolding wp_ignore_err wp_zoom by (rule wp_any) (auto simp: Cons.prems split: exn.split)
  then show ?case
    unfolding compensate_uploaded_files.simps wp_and_then by (rule wp_mono) (erule Cons.IH, assumption)
qed (simp add: wp_simps)

lemma publication_undone:
  assumes "publish W gid s = (Inl x, t)"
  shows "same_tables s t \<and> (os_faults (ps_store s) = [] \<longrightarrow>
    (\<forall>k b. os_objects (ps_store t) k = Some b \<longrightarrow> os_objects (ps_store s) k = Some b \<or> prefix ''gallery/'' (snd k)))"
proof -
  have tables: "wp (publish_inner W i) (\<lambda>_ _. True) (\<lambda>_ t. same_tables s t) u" if "same_tables s u" for i u
    unfolding publish_inner_def
    by (rule wp_pub_transactionI) (use that in \<open>auto simp: rolled_back_def same_tables_def wp_def split: prod.split sum.split\<close>)
  have kept: "wp (compensate_uploaded_files W paths) (\<lambda>_ t. same_tables s t) (\<lambda>_ t. same_tables s t) u"
    if "same_tables s u" for paths u
    by (rule wp_mono [OF compensate_keeps_tables [OF refl]]) (use that in \<open>auto simp: same_tables_def\<close>)
  have "wp (publish W gid) (\<lambda>_ _. True) (\<lambda>_ t. same_tables s t) s"
    unfolding publish_def wp_and_then wp_ok_or wp_modify wp_try_err
    by (auto simp: wp_simps split: option.split sum.split exn.split intro!: wp_mono [OF tables] wp_mono [OF kept])
  moreover have "wp (publish W gid) (\<lambda>_ _. True) (\<lambda>_ t. leftovers W (ps_store s) [] (ps_store t)) s"
    if nofault: "os_faults (ps_store s) = []"
  proof (cases "x_parse_uuid (pw_ext W) gid")
    case None
    then show ?thesis using nofault by (simp add: publish_def wp_simps leftovers_def)
  next
    case (Some i)
    let ?u = "s\<lparr>ps_uploaded := []\<rparr>"
    show ?thesis
      unfolding publish_def wp_and_then wp_ok_or wp_modify wp_try_err Some option.case
      by (rule wp_mono [OF wp_publish_inner [of ?u]])
        (auto simp: nofault wp_simps split: exn.split intro!: wp_mono [OF wp_compensate])
  qed
  ultimately show ?thesis
    using assms by (auto simp: wp_def leftovers_def)
qed

section \<open>Properties\<close>

text \<open>
  C3. A publication that fails leaves the tables as they were, whatever statements, downloads and calls of the storage fail; and if the
  storage itself is not at fault, the artifact it has uploaded is deleted again, so what it leaves behind is at most a thumbnail in the
  directory \<open>gallery\<close>, which nothing refers to.
\<close>

theorem failed_publication_is_undone:
  assumes "publish W gid s = (Inl x, t)"
  shows "same_tables s t \<and> (os_faults (ps_store s) = [] \<longrightarrow>
    (\<forall>k b. os_objects (ps_store t) k = Some b \<longrightarrow> os_objects (ps_store s) k = Some b \<or> prefix ''gallery/'' (snd k)))"
  by (rule publication_undone [OF assms])



definition published_row :: "pub_world \<Rightarrow> generation \<Rightarrow> json \<Rightarrow> UploadResult \<Rightarrow> string option \<Rightarrow> int \<Rightarrow> datetime \<Rightarrow> generation" where
  "published_row W g response u thumb pid now =
     (let output_type = unwrap_or ''pdf'' (mg_resolved_output_type g);
          mime = unwrap_or (default_mime_for output_type) (mg_mime_type g)
      in g\<lparr>mg_topic_id := Some (pw_topic_id W), mg_content_id := Some (pw_content_id W),
           mg_recommended_project_id := Some pid, mg_storage_path := Some (ur_path u), mg_file_url := Some (ur_public_url u),
           mg_thumbnail_url := thumb,
           mg_delivery_payload := Some (build_delivery_payload (ur_public_url u) thumb output_type mime
             (Option.bind (pointer [''artifact_metadata'', ''preview_url''] response) as_str)),
           mg_resolved_output_type := Some output_type, mg_updated_at := now\<rparr>)"

lemma wp_record_publication:
  assumes "pw_topic_id W \<notin> fst ` set (pd_topics (ps_db s))" and "pw_content_id W \<notin> fst ` set (pd_contents (ps_db s))"
    and "output_type = unwrap_or ''pdf'' (mg_resolved_output_type g)" and "mime = unwrap_or (default_mime_for output_type) (mg_mime_type g)"
    and "map_of (gens (ps_db s)) i = Some g"
  shows "wp (record_publication W i g response output_type mime u thumb)
     (\<lambda>r t. \<exists>pid now topic content project.
        r = \<lparr>pr_topic_id = Some (pw_topic_id W), pr_content_id = Some (pw_content_id W), pr_recommended_project_id = Some pid\<rparr> \<and>
        pd_topics (ps_db t) = pd_topics (ps_db s) @ [(pw_topic_id W, topic)] \<and>
        pd_contents (ps_db t) = pd_contents (ps_db s) @ [(pw_content_id W, content)] \<and> ct_topic_id content = pw_topic_id W \<and>
        pd_projects (ps_db t) = pd_projects (ps_db s) @ [(pid, project)] \<and>
        pj_source_reference project = Some (clip 255 (x_uuid_str (pw_ext W) i)) \<and> pj_source_type project = ''ai_generated'' \<and>
        map_of (gens (ps_db t)) i = Some (published_row W g response u thumb pid now) \<and>
        (\<forall>j. j \<noteq> i \<longrightarrow> map_of (gens (ps_db t)) j = map_of (gens (ps_db s)) j) \<and> ps_store t = ps_store s)
     (\<lambda>_ _. True) s"
  unfolding record_publication_def Let_def wp_map_err wp_zoom insert_topic_def insert_content_def insert_project_def wp_and_then db_update_def
  apply (rule wp_pub_statementI, simp)
  apply (simp add: assms(1) wp_simps)
  apply (intro impI)
  apply (rule wp_pub_statementI, simp)
  apply (simp add: assms(2) content_type_from_output_def)
  apply (rule wp_pub_statementI, simp)
  apply (simp add: Let_def)
  apply (intro impI conjI)
  apply (rule wp_db_call_I, simp)
  apply (simp add: wp_simps assms(5) published_row_def assms(3,4) Let_def)
  apply (rule exI [of _ "db_now (ps_db s)"], simp)
  done


definition published :: "pub_world \<Rightarrow> pub_state \<Rightarrow> pub_state \<Rightarrow> uuid \<Rightarrow> bool" where
  "published W s t i \<longleftrightarrow> (\<exists>g response url bytes u thumb pid now topic content project.
     map_of (gens (ps_db s)) i = Some g \<and> mg_status g \<notin> {''completed'', ''cancelled''} \<and>
     mg_generator_service_response g = Some response \<and> artifact_url W response = Inr url \<and> download_artifact W url = Inr bytes \<and>
     validate_integrity bytes (unwrap_or (default_mime_for (unwrap_or ''pdf'' (mg_resolved_output_type g))) (mg_mime_type g)) = Inr () \<and>
     map_option so_body (os_objects (ps_store t) (pw_bucket W, ur_path u)) = Some bytes \<and>
     ur_public_url u = generate_public_url (pw_public_url W) (ur_path u) \<and>
     map_of (gens (ps_db t)) i = Some (published_row W g response u thumb pid now) \<and>
     (\<forall>j. j = i \<or> map_of (gens (ps_db t)) j = map_of (gens (ps_db s)) j) \<and>
     pd_topics (ps_db t) = pd_topics (ps_db s) @ [(pw_topic_id W, topic)] \<and>
     pd_contents (ps_db t) = pd_contents (ps_db s) @ [(pw_content_id W, content)] \<and> ct_topic_id content = pw_topic_id W \<and>
     pd_projects (ps_db t) = pd_projects (ps_db s) @ [(pid, project)] \<and>
     pj_source_reference project = Some (clip 255 (x_uuid_str (pw_ext W) i)))"

lemma published_other [simp]:
  "published W s (t\<lparr>ps_db := (ps_db t)\<lparr>faults := fs\<rparr>\<rparr>) i = published W s t i"
  by (simp add: published_def)

lemma wp_upload_stored:
  "same_tables s v \<Longrightarrow> wp (upload_as W k c bytes m)
     (\<lambda>u v. same_tables s v \<and> map_option so_body (os_objects (ps_store v) (pw_bucket W, ur_path u)) = Some bytes \<and>
        ur_public_url u = generate_public_url (pw_public_url W) (ur_path u)) (\<lambda>_ _. True) v"
  unfolding upload_as_def wp_zoom wp_map_err by (rule wp_mono [OF wp_upload]) auto

lemma wp_thumbnail_tables:
  assumes "same_tables s v"
  shows "wp (resolve_thumbnail W response bytes mime) (\<lambda>_ v. same_tables s v) (\<lambda>_ _. True) v"
  unfolding resolve_thumbnail_def Let_def
  by (auto simp: wp_simps split: option.split sum.split intro!: wp_mono [OF wp_upload_stored [OF assms]])

lemma wp_record_published:
  assumes "same_tables s v" "map_of (gens (ps_db s)) i = Some g" "mg_status g \<notin> {''completed'', ''cancelled''}"
    "mg_generator_service_response g = Some response"
    "artifact_url W response = Inr url" "download_artifact W url = Inr bytes" "validate_integrity bytes mime = Inr ()"
    "output_type = unwrap_or ''pdf'' (mg_resolved_output_type g)" "mime = unwrap_or (default_mime_for output_type) (mg_mime_type g)"
    "map_option so_body (os_objects (ps_store v) (pw_bucket W, ur_path u)) = Some bytes"
    "ur_public_url u = generate_public_url (pw_public_url W) (ur_path u)"
    and fresh: "pw_topic_id W \<notin> fst ` set (pd_topics (ps_db s))" "pw_content_id W \<notin> fst ` set (pd_contents (ps_db s))"
  shows "wp (record_publication W i g response output_type mime u thumb) (\<lambda>_ t. published W s t i) (\<lambda>_ _. True) v"
proof (rule wp_mono [OF wp_record_publication], goal_cases)
  case (6 r t)
  then obtain pid now topic content project where
    "pd_topics (ps_db t) = pd_topics (ps_db v) @ [(pw_topic_id W, topic)]"
    "pd_contents (ps_db t) = pd_contents (ps_db v) @ [(pw_content_id W, content)]" "ct_topic_id content = pw_topic_id W"
    "pd_projects (ps_db t) = pd_projects (ps_db v) @ [(pid, project)]"
    "pj_source_reference project = Some (clip 255 (x_uuid_str (pw_ext W) i))"
    "map_of (gens (ps_db t)) i = Some (published_row W g response u thumb pid now)"
    "\<forall>j. j \<noteq> i \<longrightarrow> map_of (gens (ps_db t)) j = map_of (gens (ps_db v)) j" "ps_store t = ps_store v"
    by blast
  then show ?case
    unfolding published_def using assms(1-11) by (intro exI conjI) (auto simp: same_tables_def)
qed (use assms in \<open>auto simp: same_tables_def\<close>)

text \<open>
  C4. What a publication does when it succeeds: the row of an unfinished generation refers to a new topic, content and project and to the
  address of an object that holds exactly the bytes that were downloaded and passed the check of their format; the content belongs
  to the topic, the project names the generation as its source, and no other row of any table is changed.
\<close>

theorem publication_effect:
  assumes "publish W gid s = (Inr r, t)" and "pr_topic_id r \<noteq> None"
    and "pw_topic_id W \<notin> fst ` set (pd_topics (ps_db s))" and "pw_content_id W \<notin> fst ` set (pd_contents (ps_db s))"
  shows "\<exists>i. x_parse_uuid (pw_ext W) gid = Some i \<and> published W s t i"
proof -
  let ?Q = "\<lambda>i r t. pr_topic_id r = None \<or> published W s t i"
  have rest: "wp (and_then (resolve_thumbnail W response bytes mime) (\<lambda>thumb.
       and_then (upload_as W 2 ARTIFACT_CATEGORY bytes mime) (\<lambda>u.
       and_then (modify (\<lambda>s. s\<lparr>ps_uploaded := ps_uploaded s @ [ur_path u]\<rparr>)) (\<lambda>_.
         record_publication W i g response output_type mime u thumb)))) (?Q i) (\<lambda>_ _. True) v"
    if "same_tables s v" "map_of (gens (ps_db s)) i = Some g" "mg_status g \<notin> {''completed'', ''cancelled''}"
      "mg_generator_service_response g = Some response"
      "artifact_url W response = Inr url" "download_artifact W url = Inr bytes" "validate_integrity bytes mime = Inr ()"
      "output_type = unwrap_or ''pdf'' (mg_resolved_output_type g)" "mime = unwrap_or (default_mime_for output_type) (mg_mime_type g)"
    for i g response output_type mime url bytes v
    unfolding wp_and_then wp_modify
    by (rule wp_mono [OF wp_thumbnail_tables [OF that(1)]], rule wp_mono [OF wp_upload_stored], assumption,
        rule wp_mono [OF wp_record_published [OF _ that(2-9)]]) (use assms(3,4) in auto)
  have inner: "wp (publish_inner W i) (?Q i) (\<lambda>_ _. True) u" if "same_tables s u" for i u
    unfolding publish_inner_def
  proof (rule wp_pub_transactionI, goal_cases)
    case (1 fs)
    have "map_of (gens (ps_db u)) i = map_of (gens (ps_db s)) i" using that by (simp add: same_tables_def)
    then show ?case
      unfolding wp_and_then [of "map_err _ _"] wp_map_err wp_zoom
      by (intro wp_db_select_I)
        (auto simp: wp_and_then [of "ok_or _ _"] wp_and_then [of "or_fail _"] wp_ok_or wp_or_fail wp_ok Let_def
          split: option.split sum.split intro!: wp_mono [OF rest] simp: that)
  qed simp
  have "wp (publish W gid) (\<lambda>r t. \<exists>i. x_parse_uuid (pw_ext W) gid = Some i \<and> ?Q i r t) (\<lambda>_ _. True) s"
  proof (cases "x_parse_uuid (pw_ext W) gid")
    case (Some i)
    have "same_tables s (s\<lparr>ps_uploaded := []\<rparr>)" by simp
    then show ?thesis
      unfolding publish_def wp_and_then wp_ok_or wp_modify wp_try_err Some option.case
    proof (rule wp_mono [OF inner], goal_cases)
      case (2 x t)
      have undo: "wp (compensate_uploaded_files W paths) (\<lambda>_ _. True) (\<lambda>_ _. True) u" for paths u
        by (rule wp_any) simp_all
      from 2 show ?case by (cases x) (auto simp: wp_simps intro!: wp_mono [OF undo])
    qed (simp add: wp_ok)
  qed (simp add: publish_def wp_simps)
  then show ?thesis using assms(1,2) by (auto simp: wp_def)
qed

section \<open>A publication\<close>

text \<open>
  A generation whose artifact is a document of the old format: it passes no check of its format, and the thumbnail is stored
  before the artifact, whose type the category does not know.
\<close>

definition sample_pub_world :: pub_world where
  "sample_pub_world =
     \<lparr>pw_ext = sample_externals, pw_alnum = (\<lambda>_. False),
      pw_presigner = \<lparr>ps_config_error = (\<lambda>_. None), ps_sign = (\<lambda>b k n. Inr k)\<rparr>,
      pw_http = (\<lambda>url n. Replied 200 (Inr ''%PDF %%EOF'')), pw_status_text = (\<lambda>_. []), pw_sqlx_text = (\<lambda>_. []),
      pw_thumbnailer = (\<lambda>b m. Inr (''svg'', ''image/svg+xml'')), pw_bucket = ''b'', pw_transit_bucket = ''t'',
      pw_public_url = ''https://cdn'', pw_stamp = (\<lambda>k. (''0a1b2c3d'', k)), pw_topic_id = 7, pw_content_id = 8\<rparr>"

definition sample_ready :: "string option \<Rightarrow> json \<Rightarrow> generation" where
  "sample_ready mime response = sample_row
     \<lparr>mg_status := ''publishing'', mg_interpretation_payload := None, mg_resolved_output_type := Some ''pdf'',
      mg_generator_service_response := Some response, mg_mime_type := mime\<rparr>"

definition pub_state_with :: "generation \<Rightarrow> pub_state" where
  "pub_state_with g =
     \<lparr>ps_db = \<lparr>gens = [(1, g)], db_now = 10, faults = [], pd_topics = [], pd_contents = [], pd_projects = [], pd_next_project = 1\<rparr>,
      ps_store = \<lparr>os_objects = Map.empty, os_faults = []\<rparr>, ps_uploaded = []\<rparr>"

lemma sample_ready_simps [simp]:
  "mg_status (sample_ready m r) = ''publishing''" "mg_generator_service_response (sample_ready m r) = Some r"
  "mg_mime_type (sample_ready m r) = m" "mg_resolved_output_type (sample_ready m r) = Some ''pdf''"
  "mg_interpretation_payload (sample_ready m r) = None"
  by (simp_all add: sample_ready_def)

lemma pub_state_simps [simp]:
  "map_of (gens (ps_db (pub_state_with g))) 1 = Some g" "gens (ps_db (pub_state_with g)) = [(1, g)]" "faults (ps_db (pub_state_with g)) = []"
  "os_faults (ps_store (pub_state_with g)) = []" "os_objects (ps_store (pub_state_with g)) = Map.empty"
  "pd_topics (ps_db (pub_state_with g)) = []" "pd_contents (ps_db (pub_state_with g)) = []"
  by (simp_all add: pub_state_with_def)


lemma sample_world_simps [simp]:
  "artifact_url sample_pub_world (JObj [(''file_url'', JStr ''u'')]) = Inr ''u''"
  "download_artifact sample_pub_world u = Inr ''%PDF %%EOF''"
  "x_parse_uuid (pw_ext sample_pub_world) ''g1'' = Some 1"
  "renderer_thumbnail (JObj [(''file_url'', JStr ''u'')]) = None"
  "pw_topic_id sample_pub_world = 7" "pw_content_id sample_pub_world = 8"
  "pw_thumbnailer sample_pub_world bytes mime = Inr (''svg'', ''image/svg+xml'')"
  by (simp_all add: sample_pub_world_def artifact_url_def download_artifact_def renderer_thumbnail_def)

lemma sample_checks [simp]:
  "validate_integrity ''%PDF %%EOF'' ''application/pdf'' = Inr ()" "validate_integrity ''%PDF %%EOF'' ''text/x'' = Inr ()"
  by code_simp+

lemma accepted_upload:
  assumes "\<exists>c. get_category category = Some c \<and> accepted c \<lparr>so_body = bytes, so_content_type = content_type\<rparr>" and "os_faults (ps_store s) = []"
  obtains u o' where "upload_as W k category bytes content_type s = (Inr u, s\<lparr>ps_store := o'\<rparr>)" "os_faults o' = []"
    "os_objects o' \<noteq> Map.empty"
  using assms
  by (auto simp: upload_as_def upload_def accepted_def Let_def and_then_def ok_or_def map_err_def zoom_def store_call_def ok_def
      split: option.splits)

lemma sample_categories:
  "\<exists>c. get_category ''gallery'' = Some c \<and> accepted c \<lparr>so_body = ''svg'', so_content_type = ''image/svg+xml''\<rparr>"
  "\<exists>c. get_category ARTIFACT_CATEGORY = Some c \<and> accepted c \<lparr>so_body = ''%PDF %%EOF'', so_content_type = ''application/pdf''\<rparr>"
  by (simp_all add: ARTIFACT_CATEGORY_def get_category_def UPLOAD_CATEGORIES_def accepted_def mime_to_extension_def)

lemma sample_thumbnail:
  assumes "os_faults (ps_store s) = []"
  obtains x o' where "resolve_thumbnail sample_pub_world (JObj [(''file_url'', JStr ''u'')]) bytes mime s = (Inr x, s\<lparr>ps_store := o'\<rparr>)"
    "os_faults o' = []" "os_objects o' \<noteq> Map.empty"
proof -
  obtain u o' where "upload_as sample_pub_world 1 ''gallery'' ''svg'' ''image/svg+xml'' s = (Inr u, s\<lparr>ps_store := o'\<rparr>)" "os_faults o' = []"
      "os_objects o' \<noteq> Map.empty"
    by (rule accepted_upload [OF sample_categories(1) assms])
  then show ?thesis
    by (intro that) (simp_all add: resolve_thumbnail_def or_fail_def and_then_def ok_def del: One_nat_def)
qed

lemma published_sample:
  "\<exists>r t. publish sample_pub_world ''g1'' (pub_state_with (sample_ready (Some ''application/pdf'') (JObj [(''file_url'', JStr ''u'')]))) = (Inr r, t) \<and>
     pr_topic_id r = Some 7"
proof -
  let ?g = "sample_ready (Some ''application/pdf'') (JObj [(''file_url'', JStr ''u'')])"
  let ?s = "pub_state_with ?g"
  obtain x o' where thumb: "resolve_thumbnail sample_pub_world (JObj [(''file_url'', JStr ''u'')]) ''%PDF %%EOF'' ''application/pdf'' ?s =
      (Inr x, ?s\<lparr>ps_store := o'\<rparr>)" "os_faults o' = []"
    by (rule sample_thumbnail [of ?s "''%PDF %%EOF''" "''application/pdf''"]) simp
  obtain u o2 where up: "upload_as sample_pub_world 2 ARTIFACT_CATEGORY ''%PDF %%EOF'' ''application/pdf'' (?s\<lparr>ps_store := o'\<rparr>) =
      (Inr u, ?s\<lparr>ps_store := o2\<rparr>)" "os_faults o2 = []"
    by (rule accepted_upload [OF sample_categories(2), of "?s\<lparr>ps_store := o'\<rparr>" sample_pub_world 2]) (simp_all add: thumb(2))
  let ?v = "?s\<lparr>ps_store := o2, ps_uploaded := [ur_path u]\<rparr>"
  have inserts: "fits 255 ''Generated Topic''" "fits 255 (x_uuid_str (pw_ext sample_pub_world) 1)"
    by (code_simp, simp add: sample_pub_world_def, code_simp)
  have "\<exists>r t. record_publication sample_pub_world 1 ?g (JObj [(''file_url'', JStr ''u'')]) ''pdf'' ''application/pdf'' u x ?v = (Inr r, t) \<and>
      pr_topic_id r = Some 7 \<and> faults (ps_db t) = []"
    by (simp add: record_publication_def insert_topic_def insert_content_def insert_project_def pub_statement_def and_then_def map_err_def
      zoom_def db_update_def db_call_def ok_def Let_def inserts unwrap_or_def content_type_from_output_def pub_state_with_def)
  then obtain r t where rec: "record_publication sample_pub_world 1 ?g (JObj [(''file_url'', JStr ''u'')]) ''pdf'' ''application/pdf'' u x ?v = (Inr r, t)"
      "pr_topic_id r = Some 7" "faults (ps_db t) = []"
    by blast
  show ?thesis
    apply (simp add: publish_def publish_inner_def pub_transaction_def and_then_def ok_or_def modify_def try_err_def pub_statement_def
      map_err_def zoom_def ok_def Let_def db_select_def db_call_def or_fail_def unwrap_or_def thumb [unfolded pub_state_with_def, simplified]
      up [unfolded pub_state_with_def, simplified] rec [unfolded pub_state_with_def, simplified] pub_state_with_def)
    done
qed

theorem publication_effect_witness:
  "\<exists>t. published sample_pub_world (pub_state_with (sample_ready (Some ''application/pdf'') (JObj [(''file_url'', JStr ''u'')]))) t 1"
proof -
  obtain r t where run: "publish sample_pub_world ''g1'' (pub_state_with (sample_ready (Some ''application/pdf'') (JObj [(''file_url'', JStr ''u'')]))) =
      (Inr r, t)" "pr_topic_id r = Some 7"
    using published_sample by blast
  show ?thesis using publication_effect [OF run(1)] run(2) by auto
qed

lemma unpublished_sample:
  "\<exists>e t k b. publish sample_pub_world ''g1'' (pub_state_with (sample_ready (Some ''text/x'') (JObj [(''file_url'', JStr ''u'')]))) = (Inl e, t) \<and>
     os_objects (ps_store t) k = Some b"
proof -
  let ?g = "sample_ready (Some ''text/x'') (JObj [(''file_url'', JStr ''u'')])"
  let ?s = "pub_state_with ?g"
  obtain x o' where thumb: "resolve_thumbnail sample_pub_world (JObj [(''file_url'', JStr ''u'')]) ''%PDF %%EOF'' ''text/x'' ?s =
      (Inr x, ?s\<lparr>ps_store := o'\<rparr>)" "os_faults o' = []" "os_objects o' \<noteq> Map.empty"
    by (rule sample_thumbnail [of ?s "''%PDF %%EOF''" "''text/x''"]) simp
  obtain e where up: "upload_as sample_pub_world 2 ARTIFACT_CATEGORY ''%PDF %%EOF'' ''text/x'' v = (Inl (Error e), v)" for v
    by (auto simp: upload_as_def upload_def ARTIFACT_CATEGORY_def get_category_def UPLOAD_CATEGORIES_def mime_to_extension_def and_then_def
      ok_or_def ok_def raise_def map_err_def zoom_def Let_def)
  obtain k b where "os_objects o' k = Some b"
    using thumb(3) by fastforce
  then show ?thesis
    by (cases k) (auto simp: publish_def publish_inner_def pub_transaction_def and_then_def ok_or_def modify_def gets_def raise_def try_err_def
      pub_statement_def map_err_def zoom_def ok_def Let_def db_select_def db_call_def or_fail_def unwrap_or_def rolled_back_def
      thumb(1) [unfolded pub_state_with_def, simplified] up pub_state_with_def)
qed

theorem failed_publication_is_undone_witness:
  "\<exists>e t k b. publish sample_pub_world ''g1'' (pub_state_with (sample_ready (Some ''text/x'') (JObj [(''file_url'', JStr ''u'')]))) = (Inl e, t) \<and>
     os_objects (ps_store t) k = Some b \<and> prefix ''gallery/'' (snd k) \<and> pd_topics (ps_db t) = []"
proof -
  obtain e t k b where run: "publish sample_pub_world ''g1'' (pub_state_with (sample_ready (Some ''text/x'') (JObj [(''file_url'', JStr ''u'')]))) =
      (Inl e, t)" "os_objects (ps_store t) k = Some b"
    using unpublished_sample by blast
  have "prefix ''gallery/'' (snd k)" "pd_topics (ps_db t) = []"
    using failed_publication_is_undone [OF run(1)] run(2) by (cases k, fastforce, simp add: same_tables_def)
  with run show ?thesis by blast
qed

end
