(* ===== verification/Webhook.thy ===== *)
theory Webhook
  imports Api_Response Publication
begin

unbundle bit_operations_syntax

text \<open>
  The webhook of the renderer, \<open>src/src/api/rest/media_webhook.rs\<close>: the signature of the body, the payload, and the updates
  of the generation of its job. HMAC, the JSON parser, the format of dates and the clock are parameters.
\<close>

section \<open>Payload\<close>

record MediaWebhookPayload =
  mw_job_id :: uuid
  mw_generation_id :: uuid
  mw_status :: string
  mw_s3_object_key :: "string option"
  mw_presigned_url :: "string option"
  mw_file_url :: "string option"
  mw_expires_at :: "datetime option"
  mw_error_code :: "string option"
  mw_error_message :: "string option"
  mw_artifact_metadata :: "json option"

record webhook_world =
  ww_ext :: externals
  ww_codec :: codec
  ww_hmac_hex :: "string \<Rightarrow> string \<Rightarrow> string"
  ww_secret :: string
  ww_parse_naive :: "string \<Rightarrow> datetime option"
  ww_show_naive :: "datetime \<Rightarrow> string"
  ww_now :: datetime
  ww_json_error :: "string \<Rightarrow> string"
  ww_sqlx_text :: "sqlx_error \<Rightarrow> string"

definition dec_webhook :: "webhook_world \<Rightarrow> json \<Rightarrow> MediaWebhookPayload option" where
  "dec_webhook W v = do {
     fs \<leftarrow> struct_fields [''job_id'', ''generation_id'', ''status'', ''s3_object_key'', ''presigned_url'', ''file_url'',
       ''expires_at'', ''error_code'', ''error_message'', ''artifact_metadata''] v;
     j \<leftarrow> required (\<lambda>w. Option.bind (as_str w) (x_parse_uuid (ww_ext W))) ''job_id'' fs;
     g \<leftarrow> required (\<lambda>w. Option.bind (as_str w) (x_parse_uuid (ww_ext W))) ''generation_id'' fs;
     st \<leftarrow> required as_str ''status'' fs;
     k \<leftarrow> optional v as_str ''s3_object_key'' fs;
     p \<leftarrow> optional v as_str ''presigned_url'' fs;
     f \<leftarrow> optional v as_str ''file_url'' fs;
     x \<leftarrow> optional v (\<lambda>w. Option.bind (as_str w) (ww_parse_naive W)) ''expires_at'' fs;
     c \<leftarrow> optional v as_str ''error_code'' fs;
     m \<leftarrow> optional v as_str ''error_message'' fs;
     a \<leftarrow> optional v Some ''artifact_metadata'' fs;
     Some \<lparr>mw_job_id = j, mw_generation_id = g, mw_status = st, mw_s3_object_key = k, mw_presigned_url = p, mw_file_url = f,
           mw_expires_at = x, mw_error_code = c, mw_error_message = m, mw_artifact_metadata = a\<rparr> }"

definition enc_webhook :: "webhook_world \<Rightarrow> MediaWebhookPayload \<Rightarrow> json" where
  "enc_webhook W p =
     JObj
       [(''job_id'', JStr (x_uuid_str (ww_ext W) (mw_job_id p))),
        (''generation_id'', JStr (x_uuid_str (ww_ext W) (mw_generation_id p))),
        (''status'', JStr (mw_status p)), (''s3_object_key'', jstr_opt (mw_s3_object_key p)),
        (''presigned_url'', jstr_opt (mw_presigned_url p)), (''file_url'', jstr_opt (mw_file_url p)),
        (''expires_at'', jstr_opt (map_option (ww_show_naive W) (mw_expires_at p))),
        (''error_code'', jstr_opt (mw_error_code p)), (''error_message'', jstr_opt (mw_error_message p)),
        (''artifact_metadata'', jopt (mw_artifact_metadata p))]"

section \<open>Signature\<close>

definition byte_word :: "char \<Rightarrow> 8 word" where
  "byte_word c = of_nat (byte c)"

definition constant_time_eq :: "string \<Rightarrow> string \<Rightarrow> bool" where
  "constant_time_eq a b =
     (if length a \<noteq> length b then False
      else fold (\<lambda>(ca, cb) r. r OR (byte_word ca XOR byte_word cb)) (zip a b) 0 = 0)"

text \<open>\<open>HeaderValue::to_str\<close>: visible ASCII and tabs only.\<close>

definition header_text :: "string \<Rightarrow> string option" where
  "header_text v = (if list_all (\<lambda>c. 32 \<le> byte c \<and> byte c < 127 \<or> byte c = 9) v then Some v else None)"

section \<open>Handler\<close>

definition no_updates :: UpdatePayloadsPayload where
  "no_updates =
     \<lparr>up_interpretation_payload = None, up_interpretation_audit_payload = None, up_generation_spec_payload = None,
      up_decision_payload = None, up_orchestration_audit_payload = None, up_delivery_payload = None,
      up_generator_service_response = None, up_resolved_output_type = None, up_llm_provider = None,
      up_llm_model = None, up_generator_provider = None, up_generator_model = None, up_storage_path = None,
      up_file_url = None, up_thumbnail_url = None, up_mime_type = None, up_error_code = None,
      up_error_message = None\<rparr>"

definition repo_step :: "webhook_world \<Rightarrow> string \<Rightarrow> (db, repo_error, 'a) act \<Rightarrow> (db, AppError, 'a) act" where
  "repo_step W what m = map_err (\<lambda>e. Internal (what @ '': '' @ show_repo_error (ww_sqlx_text W) e)) m"

definition finished :: "generation \<Rightarrow> bool" where
  "finished g \<longleftrightarrow> mg_generation_status g = Some ''completed'' \<or> mg_generation_status g = Some ''failed''"

definition webhook_completed :: "webhook_world \<Rightarrow> uuid \<Rightarrow> MediaWebhookPayload \<Rightarrow> (db, AppError, unit) act" where
  "webhook_completed W i p =
     and_then
       (case mw_s3_object_key p of
          Some s3_key \<Rightarrow>
            and_then (repo_step W ''failed to update S3 metadata''
              (update_s3_metadata i s3_key (unwrap_or [] (mw_presigned_url p))
                (unwrap_or (ww_now W + 3600 * 10 ^ 9) (mw_expires_at p)))) (\<lambda>_. ok ())
        | None \<Rightarrow> ok ()) (\<lambda>_.
     and_then (repo_step W ''failed to update payload''
       (update_payloads i (no_updates\<lparr>up_generator_service_response := Some (enc_webhook W p)\<rparr>))) (\<lambda>_.
     and_then (repo_step W ''failed to update generation status''
       (update_generation_job_status i (Some (mw_job_id p)) ''completed'')) (\<lambda>_. ok ())))"

definition webhook_failed :: "webhook_world \<Rightarrow> uuid \<Rightarrow> MediaWebhookPayload \<Rightarrow> (db, AppError, unit) act" where
  "webhook_failed W i p =
     and_then (repo_step W ''failed to update generation error''
       (update_generation_error i (unwrap_or ''UNKNOWN_ERROR'' (mw_error_code p))
         (unwrap_or ''no error message provided'' (mw_error_message p)))) (\<lambda>_.
     and_then (repo_step W ''failed to update generation status''
       (update_generation_job_status i (Some (mw_job_id p)) ''failed'')) (\<lambda>_. ok ()))"

definition webhook_record :: "webhook_world \<Rightarrow> MediaWebhookPayload \<Rightarrow> (db, AppError, nat \<times> json) act" where
  "webhook_record W p =
     and_then (repo_step W ''failed to find generation by job_id'' (find_by_job_id (mw_job_id p))) (\<lambda>existing.
     and_then (ok_or (App_NotFound (''no generation found for job_id '' @ x_uuid_str (ww_ext W) (mw_job_id p))) existing) (\<lambda>(i, g).
       if finished g
       then ok (200, JObj [(''received'', JBool True), (''generation_id'', JStr (x_uuid_str (ww_ext W) i)),
                           (''message'', JStr ''duplicate callback ignored'')])
       else and_then
         (if mw_status p = ''completed'' then webhook_completed W i p
          else if mw_status p = ''failed'' then webhook_failed W i p
          else raise (App_Validation (''unsupported webhook status '' @ APOS @ mw_status p @ APOS @ '' '' @
            map char_of [226 :: nat, 128, 148] @ '' must be '' @ APOS @ ''completed'' @ APOS @ '' or '' @ APOS @ ''failed'' @ APOS)))
         (\<lambda>_. ok (200, JObj [(''received'', JBool True), (''generation_id'', JStr (x_uuid_str (ww_ext W) i)),
                             (''status'', JStr (mw_status p))]))))"

definition webhook_handler :: "webhook_world \<Rightarrow> string option \<Rightarrow> string \<Rightarrow> (db, AppError, nat \<times> json) act" where
  "webhook_handler W header body =
     and_then (ok_or (Unauthorized ''Missing X-Webhook-Signature header'') (Option.bind header header_text)) (\<lambda>signature.
       if \<not> constant_time_eq signature (ww_hmac_hex W (ww_secret W) body)
       then raise (Unauthorized (''Invalid X-Webhook-Signature '' @ map char_of [226 :: nat, 128, 148] @
         '' payload may have been tampered''))
       else and_then (ok_or (App_Validation (''invalid JSON payload: '' @ ww_json_error W body))
              (Option.bind (cd_parse (ww_codec W) body) (dec_webhook W))) (webhook_record W))"

section \<open>The comparison of signatures\<close>

lemma or_zero_iff: "(a :: 8 word) OR b = 0 \<longleftrightarrow> a = 0 \<and> b = 0"
  by (auto simp: bit_eq_iff bit_or_iff)

lemma xor_zero_iff: "(a :: 8 word) XOR b = 0 \<longleftrightarrow> a = b"
  by (auto simp: bit_eq_iff bit_xor_iff)

lemma byte_word_inject: "byte_word a = byte_word b \<longleftrightarrow> a = b"
proof -
  have small: "byte c < 2 ^ LENGTH(8)" for c
    using nat_of_char_less_256 [of c] by (simp add: byte_def)
  show ?thesis
    unfolding byte_word_def word_of_nat_eq_iff using small [of a] small [of b] by (simp add: take_bit_nat_eq_self byte_def)
qed

lemma difference_zero_iff:
  "length a = length b \<Longrightarrow>
     fold (\<lambda>(ca, cb) r. r OR (byte_word ca XOR byte_word cb)) (zip a b) r = 0 \<longleftrightarrow> r = 0 \<and> a = b"
  by (induction a b arbitrary: r rule: list_induct2) (auto simp: or_zero_iff xor_zero_iff byte_word_inject)

section \<open>What a callback changes\<close>

definition callback_row :: "webhook_world \<Rightarrow> MediaWebhookPayload \<Rightarrow> generation \<Rightarrow> generation \<Rightarrow> bool" where
  "callback_row W p g g' \<longleftrightarrow>
     mg_generation_status g' = Some (mw_status p) \<and> mg_generation_job_id g' = Some (mw_job_id p) \<and> mg_status g' = mg_status g \<and>
     (if mw_status p = ''completed''
      then mg_generator_service_response g' = Some (enc_webhook W p) \<and> mg_generation_error_code g' = mg_generation_error_code g \<and>
        (case mw_s3_object_key p of
           None \<Rightarrow> mg_s3_object_key g' = mg_s3_object_key g \<and> mg_presigned_download_url g' = mg_presigned_download_url g
         | Some key \<Rightarrow> mg_s3_object_key g' = Some key \<and> mg_presigned_download_url g' = Some (unwrap_or [] (mw_presigned_url p)))
      else mw_status p = ''failed'' \<and> mg_generator_service_response g' = mg_generator_service_response g \<and>
        mg_generation_error_code g' = Some (unwrap_or ''UNKNOWN_ERROR'' (mw_error_code p)))"

lemma find_where_of:
  assumes "distinct (map fst t)" and "find_where P t = Some (i, g)"
  shows "map_of t i = Some g \<and> P g"
proof -
  have "(i, g) \<in> set t" "P g"
    using assms(2) by (auto simp: find_where_def find_Some_iff in_set_conv_nth)
  with assms(1) show ?thesis by (auto intro: map_of_set)
qed

definition others_kept :: "uuid \<Rightarrow> db \<Rightarrow> db \<Rightarrow> bool" where
  "others_kept i s t \<longleftrightarrow> map fst (gens t) = map fst (gens s) \<and> (\<forall>j. j \<noteq> i \<longrightarrow> map_of (gens t) j = map_of (gens s) j)"

lemma wp_update_or_missing:
  assumes "others_kept i s v" and "map_of (gens v) i = Some g"
    and "\<And>now t. others_kept i s t \<Longrightarrow> map_of (gens t) i = Some ((f g)\<lparr>mg_updated_at := now\<rparr>) \<Longrightarrow> Q ((f g)\<lparr>mg_updated_at := now\<rparr>) t"
    and "\<And>e t. others_kept i s t \<Longrightarrow> R (Error e) t"
  shows "wp (update_or_missing msg i f) Q R v"
  unfolding update_or_missing_def
  by (intro wp_intros) (use assms in \<open>auto simp: others_kept_def wp_simps\<close>)

lemma wp_job_status:
  assumes "others_kept i s v" and "map_of (gens v) i = Some g"
    and "\<And>now t. others_kept i s t \<Longrightarrow>
       map_of (gens t) i = Some (g\<lparr>mg_generation_job_id := job, mg_generation_status := Some st, mg_updated_at := now\<rparr>) \<Longrightarrow>
       Q (g\<lparr>mg_generation_job_id := job, mg_generation_status := Some st, mg_updated_at := now\<rparr>) t"
    and "\<And>e t. others_kept i s t \<Longrightarrow> R (Error e) t"
  shows "wp (update_generation_job_status i job st) Q R v"
  unfolding update_generation_job_status_def wp_and_then wp_map_err
  by (rule wp_db_call_I) (use assms in \<open>auto simp: others_kept_def wp_simps Let_def\<close>)

lemma wp_webhook_failed:
  assumes "map_of (gens s) i = Some g" and "mw_status p = ''failed''"
  shows "wp (webhook_failed W i p) (\<lambda>_ t. others_kept i s t \<and> (\<exists>g'. map_of (gens t) i = Some g' \<and> callback_row W p g g'))
     (\<lambda>_. others_kept i s) s"
  unfolding webhook_failed_def repo_step_def update_generation_error_def wp_and_then wp_map_err
  by (rule wp_update_or_missing [of i s s g]; (rule wp_job_status)?)
    (use assms in \<open>auto simp: wp_ok callback_row_def others_kept_def\<close>)

lemma completed_payload: "payload_is_empty (no_updates\<lparr>up_generator_service_response := Some v\<rparr>) = False"
  by (simp add: payload_is_empty_def)

lemma completed_row:
  "mg_generator_service_response (payload_set (no_updates\<lparr>up_generator_service_response := Some v\<rparr>) g) = Some v"
  "mg_s3_object_key (payload_set u g) = mg_s3_object_key g" "mg_status (payload_set u g) = mg_status g"
  "mg_presigned_download_url (payload_set u g) = mg_presigned_download_url g"
  "mg_generation_error_code (payload_set u g) = mg_generation_error_code g"
  by (simp_all add: payload_set_def keep_def)

lemma wp_completed_rest:
  assumes "others_kept i s v" and "map_of (gens v) i = Some g'"
    and "\<And>t g2. others_kept i s t \<Longrightarrow> map_of (gens t) i = Some g2 \<Longrightarrow>
       mg_generation_status g2 = Some ''completed'' \<Longrightarrow> mg_generation_job_id g2 = Some (mw_job_id p) \<Longrightarrow>
       mg_generator_service_response g2 = Some (enc_webhook W p) \<Longrightarrow> mg_status g2 = mg_status g' \<Longrightarrow>
       mg_s3_object_key g2 = mg_s3_object_key g' \<Longrightarrow> mg_presigned_download_url g2 = mg_presigned_download_url g' \<Longrightarrow>
       mg_generation_error_code g2 = mg_generation_error_code g' \<Longrightarrow> Q () t"
    and "\<And>e t. others_kept i s t \<Longrightarrow> R (Error e) t"
  shows "wp (and_then (repo_step W a
       (update_payloads i (no_updates\<lparr>up_generator_service_response := Some (enc_webhook W p)\<rparr>))) (\<lambda>_.
     and_then (repo_step W b (update_generation_job_status i (Some (mw_job_id p)) ''completed'')) (\<lambda>_. ok ()))) Q R v"
  unfolding repo_step_def update_payloads_def completed_payload if_False wp_and_then wp_map_err
  by (rule wp_update_or_missing [OF assms(1,2)]; (rule wp_job_status)?)
    (use assms(3,4) in \<open>auto simp: wp_ok completed_row\<close>)

lemma wp_webhook_completed:
  assumes "map_of (gens s) i = Some g" and "mw_status p = ''completed''"
  shows "wp (webhook_completed W i p) (\<lambda>_ t. others_kept i s t \<and> (\<exists>g'. map_of (gens t) i = Some g' \<and> callback_row W p g g'))
     (\<lambda>_. others_kept i s) s"
proof -
  have refl: "others_kept i s s" by (simp add: others_kept_def)
  show ?thesis
  proof (cases "mw_s3_object_key p")
    case None
    show ?thesis
      unfolding webhook_completed_def None option.case wp_and_then [of "ok ()"] wp_ok
      by (rule wp_completed_rest [OF refl assms(1)]) (auto simp: callback_row_def assms(2) None)
  next
    case (Some key)
    show ?thesis
      unfolding webhook_completed_def Some option.case wp_and_then [of "and_then _ _"] wp_and_then [of "repo_step _ _ (update_s3_metadata _ _ _ _)"]
      unfolding repo_step_def [of W "''failed to update S3 metadata''"] update_s3_metadata_def wp_map_err wp_ok
      by (rule wp_update_or_missing [OF refl assms(1)]; (rule wp_completed_rest)?; assumption?)
        (auto simp: callback_row_def assms(2) Some)
  qed
qed

definition callback_recorded :: "webhook_world \<Rightarrow> MediaWebhookPayload \<Rightarrow> db \<Rightarrow> db \<Rightarrow> bool" where
  "callback_recorded W p s t \<longleftrightarrow>
     (\<exists>i g g'. map_of (gens s) i = Some g \<and> mg_generation_job_id g = Some (mw_job_id p) \<and> others_kept i s t \<and>
        map_of (gens t) i = Some g' \<and> (if finished g then g' = g else callback_row W p g g'))"

definition finished_kept :: "db \<Rightarrow> db \<Rightarrow> bool" where
  "finished_kept s t \<longleftrightarrow>
     (\<exists>i. others_kept i s t \<and> (\<forall>g. map_of (gens s) i = Some g \<and> finished g \<longrightarrow> map_of (gens t) i = Some g))"

lemma finished_kept_refl [simp]: "finished_kept s s" "finished_kept s (s\<lparr>faults := fs\<rparr>)"
  by (auto simp: finished_kept_def others_kept_def)

lemma recorded_finished: "callback_recorded W p s t \<Longrightarrow> finished_kept s t"
  by (auto simp: callback_recorded_def finished_kept_def split: if_splits)

lemma wp_webhook_record:
  assumes unique: "distinct (map fst (gens s))"
  shows "wp (webhook_record W p) (\<lambda>_. callback_recorded W p s) (\<lambda>_. finished_kept s) s"
  unfolding webhook_record_def repo_step_def [of W "''failed to find generation by job_id''"] find_by_job_id_def wp_and_then [of "map_err _ _"] wp_map_err
proof (rule wp_db_select_I, goal_cases)
  case (3 fs existing)
  show ?case
  proof (cases existing)
    case None
    then show ?thesis by (auto simp: wp_simps others_kept_def)
  next
    case (Some row)
    obtain i g where row: "row = (i, g)" by force
    have g: "map_of (gens s) i = Some g" "mg_generation_job_id g = Some (mw_job_id p)"
      using find_where_of [OF unique] 3 Some row by auto
    let ?v = "s\<lparr>faults := fs\<rparr>"
    have v: "map_of (gens ?v) i = Some g" using g(1) by simp
    have step: "others_kept i ?v = others_kept i s" by (simp add: others_kept_def fun_eq_iff)
    have "wp (if mw_status p = ''completed'' then webhook_completed W i p
          else if mw_status p = ''failed'' then webhook_failed W i p else raise e)
       (\<lambda>_ t. others_kept i s t \<and> (\<exists>g'. map_of (gens t) i = Some g' \<and> callback_row W p g g')) (\<lambda>_. others_kept i s) ?v" for e
      using wp_webhook_completed [OF v, of p W] wp_webhook_failed [OF v, of p W]
      by (auto simp: step wp_raise, simp add: others_kept_def)
    note run = this
    show ?thesis
    proof (cases "finished g")
      case True
      then show ?thesis
        using g by (auto simp: Some row wp_and_then wp_ok_or wp_ok callback_recorded_def others_kept_def)
    next
      case False
      have "callback_recorded W p s t"
        if "others_kept i s t \<and> (\<exists>g'. map_of (gens t) i = Some g' \<and> callback_row W p g g')" for t
        using that g False by (auto simp: callback_recorded_def)
      moreover have "finished_kept s t" if "others_kept i s t" for t
        using that g False by (auto simp: finished_kept_def)
      ultimately show ?thesis
        unfolding Some row wp_and_then [of "ok_or _ _"] wp_ok_or option.case prod.case if_not_P [OF False]
          wp_and_then [of "if _ then _ else _"] wp_ok
        by (rule wp_mono [OF run])
    qed
  qed
qed simp_all

lemma webhook_authentic:
  assumes "h \<noteq> Some (ww_hmac_hex W (ww_secret W) body)"
  shows "\<exists>m. webhook_handler W h body = raise (Unauthorized m)"
proof (cases "Option.bind h header_text")
  case None
  then show ?thesis by (auto simp: webhook_handler_def and_then_def ok_or_def raise_def)
next
  case (Some sig)
  then have "h = Some sig" by (auto simp: header_text_def bind_eq_Some_conv split: if_splits)
  with assms have "sig \<noteq> ww_hmac_hex W (ww_secret W) body" by auto
  then have "\<not> constant_time_eq sig (ww_hmac_hex W (ww_secret W) body)"
    by (auto simp: constant_time_eq_def difference_zero_iff)
  with Some have "webhook_handler W h body = raise (Unauthorized (''Invalid X-Webhook-Signature '' @ map char_of [226 :: nat, 128, 148] @
      '' payload may have been tampered''))"
    by (simp add: webhook_handler_def and_then_def ok_or_def ok_def raise_def fun_eq_iff)
  then show ?thesis by blast
qed

lemma wp_webhook_handler:
  assumes "distinct (map fst (gens s))"
  shows "wp (webhook_handler W h body)
     (\<lambda>_ t. h = Some (ww_hmac_hex W (ww_secret W) body) \<and>
        (\<exists>p. Option.bind (cd_parse (ww_codec W) body) (dec_webhook W) = Some p \<and> callback_recorded W p s t))
     (\<lambda>_. finished_kept s) s"
proof (cases "h = Some (ww_hmac_hex W (ww_secret W) body)")
  case False
  from webhook_authentic [OF this] obtain m where "webhook_handler W h body = raise (Unauthorized m)" by blast
  then show ?thesis by (simp add: wp_raise)
next
  case True
  show ?thesis
    unfolding webhook_handler_def wp_and_then wp_ok_or
    by (auto simp: True wp_raise wp_and_then wp_ok_or split: option.split intro: wp_mono [OF wp_webhook_record [OF assms]])
qed

section \<open>Properties\<close>

text \<open>
  The comparison of signatures is equality: it accepts a signature exactly when it is the same byte for byte.
\<close>

theorem constant_time_eq_correct: "constant_time_eq a b \<longleftrightarrow> a = b"
  by (auto simp: constant_time_eq_def difference_zero_iff)

text \<open>
  A callback without the signature of its own body is refused before anything is read: the answer is an error of authorization
  and the database, its pending faults included, is as it was.
\<close>

theorem forged_callback_is_refused:
  assumes "h \<noteq> Some (ww_hmac_hex W (ww_secret W) body)"
  shows "\<exists>m. webhook_handler W h body s = (Inl (Error (Unauthorized m)), s)"
  using webhook_authentic [OF assms] by (auto simp: raise_def)

text \<open>
  C14. A callback that is accepted carries the signature of its body, names the job of a row, and changes no other row; a row that was not
  finished then has the status of the callback, with the payload and the key of the object if that is \<open>completed\<close> and
  the code of the error if it is \<open>failed\<close>, and keeps the status of its lifecycle; a finished row is left as it was.
\<close>

theorem callback_effect:
  assumes "webhook_handler W h body s = (Inr r, t)" and "distinct (map fst (gens s))"
  shows "h = Some (ww_hmac_hex W (ww_secret W) body) \<and>
    (\<exists>p. Option.bind (cd_parse (ww_codec W) body) (dec_webhook W) = Some p \<and> callback_recorded W p s t)"
  using wp_webhook_handler [OF assms(2), of W h body] assms(1) by (simp add: wp_def)

text \<open>Callbacks one after the other, whatever they answer.\<close>

fun callbacks :: "(webhook_world \<times> string option \<times> string) list \<Rightarrow> db \<Rightarrow> db" where
  "callbacks [] s = s"
| "callbacks ((W, h, body) # cs) s = callbacks cs (snd (webhook_handler W h body s))"

lemma one_callback:
  assumes "distinct (map fst (gens s))" and "map_of (gens s) i = Some g" and "finished g"
  shows "distinct (map fst (gens (snd (webhook_handler W h body s)))) \<and> map_of (gens (snd (webhook_handler W h body s))) i = Some g"
proof -
  obtain r t where run: "webhook_handler W h body s = (r, t)" by force
  have "finished_kept s t"
    using wp_webhook_handler [OF assms(1), of W h body] run by (cases r) (auto simp: wp_def dest: recorded_finished)
  then obtain j where "others_kept j s t" "\<forall>g. map_of (gens s) j = Some g \<and> finished g \<longrightarrow> map_of (gens t) j = Some g"
    by (auto simp: finished_kept_def)
  then show ?thesis
    using assms by (cases "i = j") (auto simp: run others_kept_def)
qed

text \<open>
  C5. The first result of a job is the last: a row whose generation status is \<open>completed\<close> or \<open>failed\<close> is never changed by a callback again,
  whatever callbacks arrive in whatever order, repeated or contradictory, and whichever statements fail.
\<close>

theorem finished_generation_is_final:
  assumes "distinct (map fst (gens s))" and "map_of (gens s) i = Some g" and "finished g"
  shows "map_of (gens (callbacks cs s)) i = Some g"
  using assms
proof (induction cs arbitrary: s)
  case (Cons c cs)
  obtain W h body where "c = (W, h, body)" by (cases c)
  with Cons.IH [of "snd (webhook_handler W h body s)"] one_callback [OF Cons.prems, of W h body] Cons.prems(3)
  show ?case by simp
qed simp

text \<open>
  What the publication downloads for the response that a callback stored: the object of its key, else its presigned address;
  never its \<open>file_url\<close>, because a missing presigned address is stored as a null that hides the later fields.
\<close>

theorem stored_callback_address:
  "artifact_url V (enc_webhook W p) =
     (case mw_s3_object_key p of
        Some key \<Rightarrow> (case generate_presigned_url (pw_presigner V) (pw_transit_bucket V) key 3600 of
           Inl e \<Rightarrow> Inl (Upload (''failed to generate presigned URL: '' @ e)) | Inr u \<Rightarrow> Inr u)
      | None \<Rightarrow> (case mw_presigned_url p of Some u \<Rightarrow> Inr u | None \<Rightarrow> Inl MissingArtifact))"
  by (auto simp: artifact_url_def enc_webhook_def jstr_opt_def split: option.split)

section \<open>A callback\<close>

definition sample_webhook_world :: webhook_world where
  "sample_webhook_world =
     \<lparr>ww_ext = sample_externals,
      ww_codec = \<lparr>cd_parse = (\<lambda>s. Some (JObj
        [(''job_id'', JStr ''g2''), (''generation_id'', JStr ''g1''), (''status'', JStr s), (''file_url'', JStr ''u'')])),
        cd_regex = \<lparr>rx_group1 = (\<lambda>_ _. None), rx_is_match = (\<lambda>_ _. False)\<rparr>, cd_len = length\<rparr>,
      ww_hmac_hex = (\<lambda>k b. k @ b), ww_secret = ''k'', ww_parse_naive = (\<lambda>_. None), ww_show_naive = show_int, ww_now = 7,
      ww_json_error = (\<lambda>_. []), ww_sqlx_text = (\<lambda>_. [])\<rparr>"

definition sample_waiting :: db where
  "sample_waiting = \<lparr>gens = [(1, sample_row\<lparr>mg_generation_job_id := Some 2, mg_generation_status := Some ''processing''\<rparr>)],
     db_now = 5, faults = []\<rparr>"

theorem forged_callback_is_refused_witness:
  "\<exists>m. webhook_handler sample_webhook_world (Some ''kfailed'') ''completed'' sample_waiting =
     (Inl (Error (Unauthorized m)), sample_waiting)"
  by (rule forged_callback_is_refused) (simp add: sample_webhook_world_def)

lemma sample_callback:
  "case webhook_handler sample_webhook_world (Some ''kcompleted'') ''completed'' sample_waiting of (Inr _, t) \<Rightarrow> True | _ \<Rightarrow> False"
  by code_simp

theorem callback_effect_witness:
  "\<exists>r t g. webhook_handler sample_webhook_world (Some ''kcompleted'') ''completed'' sample_waiting = (Inr r, t) \<and>
     map_of (gens t) 1 = Some g \<and> finished g \<and> mg_status g = ''queued''"
proof -
  obtain r t where run: "webhook_handler sample_webhook_world (Some ''kcompleted'') ''completed'' sample_waiting = (Inr r, t)"
    using sample_callback by (auto split: prod.splits sum.splits)
  show ?thesis
    using callback_effect [OF run] run
    by (auto simp: callback_recorded_def sample_waiting_def finished_def callback_row_def split: if_splits)
qed

theorem finished_generation_is_final_witness:
  "map_of (gens (callbacks [(sample_webhook_world, Some ''kcompleted'', ''completed''), (sample_webhook_world, Some ''kfailed'', ''failed'')]
       (sample_waiting\<lparr>gens := [(1, sample_row\<lparr>mg_generation_job_id := Some 2, mg_generation_status := Some ''failed''\<rparr>)]\<rparr>))) 1 =
     Some (sample_row\<lparr>mg_generation_job_id := Some 2, mg_generation_status := Some ''failed''\<rparr>)"
  by (rule finished_generation_is_final) (simp_all add: finished_def)

end
