(* ===== verification/Renderer_Client.thy ===== *)
theory Renderer_Client
  imports Provider_Client Workflow Llm_Service
begin

text \<open>
  The client of the renderer, \<open>src/src/media_gen/python_client.rs\<close>: a signed request that submits the specification of a
  generation as a job. The state holds the database and the requests that were sent; HTTP, HMAC, the fresh request id and
  the clock are parameters.
\<close>

section \<open>Types\<close>

datatype PythonClientError =
    Py_NotFound string
  | MissingSpec string
  | Py_Http string
  | RendererError string string nat json
  | Py_Database sqlx_error
  | Py_InvalidUuid string

record PythonMediaGeneratorClient =
  pc_base_url :: string
  pc_webhook_base_url :: string
  pc_hmac_secret :: string

record renderer_request =
  rq_url :: string
  rq_headers :: "(string \<times> string) list"
  rq_body :: string

record renderer_world =
  rw_ext :: externals
  rw_codec :: codec
  rw_hmac_hex :: "string \<Rightarrow> string \<Rightarrow> string"
  rw_request_id :: string
  rw_now :: datetime
  rw_http :: "renderer_request \<Rightarrow> http_reply"
  rw_decode_text :: "string \<Rightarrow> string"
  rw_sqlx_text :: "sqlx_error \<Rightarrow> string"

record 'd submit_state =
  sb_db :: 'd
  sb_sent :: "renderer_request list"

definition JOBS_PATH :: string where
  "JOBS_PATH = ''/v1/jobs''"

definition WEBHOOK_PATH :: string where
  "WEBHOOK_PATH = ''/internal/media-generations/webhook''"

definition renderer_client :: "string \<Rightarrow> string \<Rightarrow> string \<Rightarrow> PythonMediaGeneratorClient" where
  "renderer_client media_gen_url webhook_base_url hmac_secret =
     (let raw_url = trim_end_matches ''/'' media_gen_url;
          base_url = (if ends_with raw_url JOBS_PATH
                      then trim_end_matches ''/'' (take (length raw_url - length JOBS_PATH) raw_url) else raw_url)
      in \<lparr>pc_base_url = base_url, pc_webhook_base_url = trim_end_matches ''/'' webhook_base_url, pc_hmac_secret = hmac_secret\<rparr>)"

definition show_python_error :: "(sqlx_error \<Rightarrow> string) \<Rightarrow> PythonClientError \<Rightarrow> string" where
  "show_python_error sqlx_text e =
     (case e of
        Py_NotFound g \<Rightarrow> ''generation not found: '' @ g
      | MissingSpec g \<Rightarrow> ''generation spec payload missing for '' @ g
      | Py_Http m \<Rightarrow> ''HTTP request failed: '' @ m
      | RendererError code message _ _ \<Rightarrow> ''Python renderer error ('' @ code @ ''): '' @ message
      | Py_Database d \<Rightarrow> ''database error: '' @ sqlx_text d
      | Py_InvalidUuid m \<Rightarrow> ''invalid UUID: '' @ m)"

section \<open>Requests and replies\<close>

definition build_job_request_body :: "string \<Rightarrow> string \<Rightarrow> json \<Rightarrow> string \<Rightarrow> json" where
  "build_job_request_body generation_id job_id generation_spec webhook_url =
     JObj [(''generation_id'', JStr generation_id), (''job_id'', JStr job_id), (''generation_spec'', generation_spec),
           (''webhook_url'', JStr webhook_url)]"

definition map_error_code :: "nat \<Rightarrow> json \<Rightarrow> string" where
  "map_error_code status body =
     (case Option.bind (pointer [''error'', ''laravel_error_code_hint''] body) nonempty_str of
        Some hint \<Rightarrow> hint
      | None \<Rightarrow>
          (case Option.bind (jget ''error_code'' body) nonempty_str of
             Some code \<Rightarrow> code
           | None \<Rightarrow> if status = 429 \<or> 500 \<le> status \<and> status \<le> 599 then ''PYTHON_SERVICE_UNAVAILABLE'' else ''ARTIFACT_INVALID''))"

definition extract_error_message :: "json \<Rightarrow> string" where
  "extract_error_message body =
     (case Option.bind (Option.bind (jget ''error'' body) (jget ''message'')) as_str of
        Some m \<Rightarrow> m
      | None \<Rightarrow>
          (case Option.bind (jget ''message'' body) as_str of
             Some m \<Rightarrow> m
           | None \<Rightarrow>
               (case Option.bind (jget ''error_message'' body) as_str of
                  Some m \<Rightarrow> m
                | None \<Rightarrow> ''Unknown error from Python renderer'')))"

definition renderer_reply :: "renderer_world \<Rightarrow> http_reply \<Rightarrow> PythonClientError + unit" where
  "renderer_reply W reply =
     (case reply of
        Send_Failed e \<Rightarrow> Inl (Py_Http e)
      | Replied status body \<Rightarrow>
          (case body of
             Inl e \<Rightarrow> Inl (Py_Http e)
           | Inr text \<Rightarrow>
               (case cd_parse (rw_codec W) text of
                  None \<Rightarrow> Inl (Py_Http (rw_decode_text W text))
                | Some body_value \<Rightarrow>
                    if status = 202 \<or> 200 \<le> status \<and> status < 300 then Inr ()
                    else Inl (RendererError (map_error_code status body_value) (extract_error_message body_value) status body_value))))"

section \<open>Submission\<close>

abbreviation on_sdb :: "('d, 'e, 'a) act \<Rightarrow> ('d submit_state, 'e, 'a) act" where
  "on_sdb \<equiv> zoom sb_db (\<lambda>t s. s\<lparr>sb_db := t\<rparr>)"

definition load_spec :: "renderer_world \<Rightarrow> uuid \<Rightarrow> ('z db_scheme submit_state, PythonClientError, json) act" where
  "load_spec W generation_id =
     and_then (map_err Py_Database (on_sdb (db_select (\<lambda>t. Inr (map_option mg_generation_spec_payload (map_of t generation_id)))))) (\<lambda>rec.
     and_then (ok_or (Py_NotFound (x_uuid_str (rw_ext W) generation_id)) rec) (\<lambda>spec.
       ok_or (MissingSpec (x_uuid_str (rw_ext W) generation_id)) spec))"

definition job_request :: "renderer_world \<Rightarrow> PythonMediaGeneratorClient \<Rightarrow> string \<Rightarrow> string \<Rightarrow> json \<Rightarrow> renderer_request" where
  "job_request W C generation_id job_id spec_value =
     (let webhook_url = pc_webhook_base_url C @ WEBHOOK_PATH;
          body = x_json_to_string (rw_ext W) (build_job_request_body generation_id job_id spec_value webhook_url);
          signed = build_signed (rw_hmac_hex W) (pc_hmac_secret C) (rw_request_id W) (rw_now W) generation_id body
      in \<lparr>rq_url = pc_base_url C @ JOBS_PATH,
          rq_headers =
            [(''Content-Type'', ''application/json''), (''X-Request-Id'', sr_request_id signed),
             (''X-Klass-Generation-Id'', sr_generation_id signed), (''X-Klass-Request-Timestamp'', sr_timestamp signed),
             (''X-Klass-Signature-Algorithm'', sr_signature_algorithm signed), (''X-Klass-Signature'', sr_signature signed)],
          rq_body = body\<rparr>)"

definition submit_job ::
  "renderer_world \<Rightarrow> PythonMediaGeneratorClient \<Rightarrow> string \<Rightarrow> string \<Rightarrow> ('z db_scheme submit_state, PythonClientError, unit) act" where
  "submit_job W C generation_id job_id =
     and_then (ok_or (Py_InvalidUuid (x_uuid_error (rw_ext W) generation_id)) (x_parse_uuid (rw_ext W) generation_id)) (\<lambda>gen_id.
     and_then (load_spec W gen_id) (\<lambda>spec_value.
       let request = job_request W C generation_id job_id spec_value
       in and_then (modify (\<lambda>s. s\<lparr>sb_sent := sb_sent s @ [request]\<rparr>)) (\<lambda>_.
            case renderer_reply W (rw_http W request) of Inl e \<Rightarrow> raise e | Inr _ \<Rightarrow> ok ())))"

definition submit_step ::
  "renderer_world \<Rightarrow> PythonMediaGeneratorClient \<Rightarrow> string \<Rightarrow> string \<Rightarrow> ('z db_scheme submit_state, WorkflowError, unit) act" where
  "submit_step W C generation_id job_id =
     map_err (\<lambda>e. StepProvider (show_python_error (rw_sqlx_text W) e)) (submit_job W C generation_id job_id)"

section \<open>What is submitted\<close>

lemma wp_load_spec:
  "wp (load_spec W i) (\<lambda>spec t. \<exists>g. map_of (gens (sb_db s)) i = Some g \<and> mg_generation_spec_payload g = Some spec \<and>
       gens (sb_db t) = gens (sb_db s) \<and> sb_sent t = sb_sent s)
     (\<lambda>x t. x \<noteq> Panic \<and> gens (sb_db t) = gens (sb_db s) \<and> sb_sent t = sb_sent s) s"
  unfolding load_spec_def wp_and_then wp_map_err wp_zoom
  by (intro wp_db_select_I) (auto simp: wp_simps split: option.split)


end
