(* ===== verification/Generation_Api.thy ===== *)
theory Generation_Api
  imports Webhook Renderer_Client Submission Job_Queue
begin

text \<open>
  The interface of the generations, \<open>src/src/api/rest/media_generations.rs\<close>, with the reads of the repository that follow the
  relations of a row (\<open>attach_relations\<close>). The state holds the tables, the commands sent to the stream and the requests
  sent to the renderer. The limit per user lives in Redis: whether it turns a request away is a parameter.
\<close>

section \<open>Relations\<close>

record SubjectSummary =
  su_id :: int
  su_name :: string
  su_slug :: string

record SubSubjectSummary =
  sy_id :: int
  sy_subject_id :: int
  sy_name :: string
  sy_slug :: string

record SubSubjectWithSubject =
  sw_sub_subject :: SubSubjectSummary
  sw_subject :: SubjectSummary

record TopicSummary =
  ts_id :: uuid
  ts_title :: string
  ts_sub_subject_id :: "int option"
  ts_thumbnail_url :: "string option"
  ts_is_published :: bool

record ContentSummary =
  cs_id :: uuid
  cs_topic_id :: uuid
  cs_content_type :: string
  cs_title :: "string option"
  cs_media_url :: "string option"
  cs_is_published :: bool

record RecommendedProjectSummary =
  rp_id' :: int
  rp_title :: string
  rp_thumbnail_url :: "string option"
  rp_project_file_url :: "string option"
  rp_source_type :: string
  rp_is_active :: bool

record MediaGenerationWithRelations =
  mr_generation :: "uuid \<times> generation"
  mr_subject :: "SubjectSummary option"
  mr_sub_subject :: "SubSubjectWithSubject option"
  mr_topic :: "TopicSummary option"
  mr_content :: "ContentSummary option"
  mr_recommended_project :: "RecommendedProjectSummary option"

record api_db = pub_db +
  ad_subjects :: "SubjectSummary list"
  ad_sub_subjects :: "SubSubjectSummary list"

text \<open>\<open>WHERE id = ANY(ids)\<close>, asked only when there are ids.\<close>

definition fetch_any ::
  "string \<Rightarrow> (api_db \<Rightarrow> 'r list) \<Rightarrow> ('r \<Rightarrow> 'i) \<Rightarrow> 'i list \<Rightarrow> (api_db, repo_error, 'r list) act" where
  "fetch_any what table key ids =
     (if ids = [] then ok []
      else map_err (Failed_to (''failed to fetch '' @ what))
        (pub_statement (\<lambda>s. (Inr (filter (\<lambda>r. key r \<in> set ids) (table s)), s))))"

definition fetch_subjects :: "int list \<Rightarrow> (api_db, repo_error, SubjectSummary list) act" where
  "fetch_subjects = fetch_any ''subjects'' ad_subjects su_id"

definition fetch_sub_subjects :: "int list \<Rightarrow> (api_db, repo_error, SubSubjectSummary list) act" where
  "fetch_sub_subjects = fetch_any ''sub_subjects'' ad_sub_subjects sy_id"

definition fetch_topics :: "uuid list \<Rightarrow> (api_db, repo_error, TopicSummary list) act" where
  "fetch_topics = fetch_any ''topics''
     (\<lambda>s. map (\<lambda>(i, t). \<lparr>ts_id = i, ts_title = tp_title t, ts_sub_subject_id = tp_sub_subject_id t,
        ts_thumbnail_url = tp_thumbnail_url t, ts_is_published = tp_is_published t\<rparr>) (pd_topics s)) ts_id"

definition fetch_contents :: "uuid list \<Rightarrow> (api_db, repo_error, ContentSummary list) act" where
  "fetch_contents = fetch_any ''contents''
     (\<lambda>s. map (\<lambda>(i, c). \<lparr>cs_id = i, cs_topic_id = ct_topic_id c, cs_content_type = ct_type c, cs_title = ct_title c,
        cs_media_url = ct_media_url c, cs_is_published = ct_is_published c\<rparr>) (pd_contents s)) cs_id"

definition fetch_recommended_projects :: "int list \<Rightarrow> (api_db, repo_error, RecommendedProjectSummary list) act" where
  "fetch_recommended_projects = fetch_any ''recommended projects''
     (\<lambda>s. map (\<lambda>(i, p). \<lparr>rp_id' = i, rp_title = pj_title p, rp_thumbnail_url = pj_thumbnail_url p,
        rp_project_file_url = pj_project_file_url p, rp_source_type = pj_source_type p, rp_is_active = pj_is_active p\<rparr>)
        (pd_projects s)) rp_id'"

text \<open>The last row of a key in a \<open>HashMap\<close> that is collected from a list.\<close>

definition lookup_by :: "('r \<Rightarrow> 'i) \<Rightarrow> 'r list \<Rightarrow> 'i \<Rightarrow> 'r option" where
  "lookup_by key rows i = find (\<lambda>r. key r = i) (rev rows)"

definition compose_relations ::
  "SubjectSummary list \<Rightarrow> SubSubjectSummary list \<Rightarrow> TopicSummary list \<Rightarrow> ContentSummary list \<Rightarrow>
     RecommendedProjectSummary list \<Rightarrow> uuid \<times> generation \<Rightarrow> MediaGenerationWithRelations" where
  "compose_relations subjects sub_subjects topics contents projects row =
     (let g = snd row
      in \<lparr>mr_generation = row,
          mr_subject = Option.bind (mg_subject_id g) (lookup_by su_id subjects),
          mr_sub_subject = Option.bind (mg_sub_subject_id g) (\<lambda>i. map_option (\<lambda>ss.
            \<lparr>sw_sub_subject = ss,
             sw_subject = unwrap_or \<lparr>su_id = 0, su_name = [], su_slug = []\<rparr> (lookup_by su_id subjects (sy_subject_id ss))\<rparr>)
            (lookup_by sy_id sub_subjects i)),
          mr_topic = Option.bind (mg_topic_id g) (lookup_by ts_id topics),
          mr_content = Option.bind (mg_content_id g) (lookup_by cs_id contents),
          mr_recommended_project = Option.bind (mg_recommended_project_id g) (lookup_by rp_id' projects)\<rparr>)"

text \<open>The five statements are all run before the first error is looked at.\<close>

definition settled :: "'e + 'a \<Rightarrow> ('s, 'e, 'a) act" where
  "settled r = (case r of Inl e \<Rightarrow> raise e | Inr a \<Rightarrow> ok a)"

definition attach_relations ::
  "(uuid \<times> generation) list \<Rightarrow> (api_db, repo_error, MediaGenerationWithRelations list) act" where
  "attach_relations generations =
     (if generations = [] then ok []
      else
        and_then (try_err (fetch_subjects (List.map_filter (mg_subject_id \<circ> snd) generations))) (\<lambda>subjects.
        and_then (try_err (fetch_sub_subjects (List.map_filter (mg_sub_subject_id \<circ> snd) generations))) (\<lambda>sub_subjects.
        and_then (try_err (fetch_topics (List.map_filter (mg_topic_id \<circ> snd) generations))) (\<lambda>topics.
        and_then (try_err (fetch_contents (List.map_filter (mg_content_id \<circ> snd) generations))) (\<lambda>contents.
        and_then (try_err (fetch_recommended_projects (List.map_filter (mg_recommended_project_id \<circ> snd) generations))) (\<lambda>projects.
        and_then (settled subjects) (\<lambda>subjects.
        and_then (settled sub_subjects) (\<lambda>sub_subjects.
        and_then (settled topics) (\<lambda>topics.
        and_then (settled contents) (\<lambda>contents.
        and_then (settled projects) (\<lambda>projects.
          ok (map (compose_relations subjects sub_subjects topics contents projects) generations))))))))))))"

text \<open>\<open>ORDER BY created_at DESC\<close>; rows of the same time come in the order of the table.\<close>

definition find_recent_for_teacher :: "int \<Rightarrow> int \<Rightarrow> (api_db, repo_error, MediaGenerationWithRelations list) act" where
  "find_recent_for_teacher teacher_id limit =
     and_then (map_err (Failed_to ''failed to fetch recent media generations'')
       (db_select (\<lambda>t. Inr (take (nat limit)
         (sort_key (\<lambda>(_, g). - mg_created_at g) (filter (\<lambda>(_, g). mg_teacher_id g = teacher_id) t))))))
       attach_relations"

definition find_by_id_for_teacher ::
  "externals \<Rightarrow> uuid \<Rightarrow> int \<Rightarrow> (api_db, repo_error, MediaGenerationWithRelations option) act" where
  "find_by_id_for_teacher E i teacher_id =
     and_then (map_err (Failed_to (''failed to fetch media generation '' @ x_uuid_str E i))
       (db_select (\<lambda>t. Inr (case map_of t i of Some g \<Rightarrow> if mg_teacher_id g = teacher_id then Some g else None | None \<Rightarrow> None))))
       (\<lambda>found. case found of
          None \<Rightarrow> ok None
        | Some g \<Rightarrow> and_then (attach_relations [(i, g)]) (\<lambda>rs. ok (case rs of [] \<Rightarrow> None | r # _ \<Rightarrow> Some r)))"

section \<open>Requests and resources\<close>

record Principal =
  pp_user_id :: int
  pp_role :: string

record CreateMediaGenerationRequest =
  rc_raw_prompt :: string
  rc_preferred_output_type :: "string option"
  rc_subject_id :: "int option"
  rc_sub_subject_id :: "int option"

record api_world =
  aw_ext :: externals
  aw_sqlx_text :: "sqlx_error \<Rightarrow> string"
  aw_submission_text :: "SubmissionError \<Rightarrow> string"
  aw_show_time :: "datetime \<Rightarrow> string"
  aw_now :: datetime
  aw_limited :: "string \<Rightarrow> int \<Rightarrow> (nat \<times> (string \<times> string) list \<times> json) option"
  aw_redis :: bool
  aw_presigner :: presigner
  aw_transit_bucket :: string
  aw_new_id :: uuid
  aw_job_id :: uuid
  aw_env1 :: "gen_table \<Rightarrow> gen_table"
  aw_env2 :: "gen_table \<Rightarrow> gen_table"
  aw_renderer :: renderer_world
  aw_client :: PythonMediaGeneratorClient

record api_state =
  ap_db :: api_db
  ap_queue :: "redis_cmd list"
  ap_queue_faults :: "string option list"
  ap_sent :: "renderer_request list"

abbreviation uuid_json :: "api_world \<Rightarrow> uuid \<Rightarrow> json" where
  "uuid_json W i \<equiv> JStr (x_uuid_str (aw_ext W) i)"

definition subject_resource :: "SubjectSummary \<Rightarrow> json" where
  "subject_resource s = JObj [(''id'', JInt (su_id s)), (''name'', JStr (su_name s)), (''slug'', JStr (su_slug s))]"

definition sub_subject_resource :: "SubSubjectWithSubject \<Rightarrow> json" where
  "sub_subject_resource ss =
     (let s = sw_sub_subject ss
      in JObj [(''id'', JInt (sy_id s)), (''subject_id'', JInt (sy_subject_id s)), (''name'', JStr (sy_name s)),
               (''slug'', JStr (sy_slug s)), (''subject'', subject_resource (sw_subject ss))])"

definition topic_resource :: "api_world \<Rightarrow> TopicSummary \<Rightarrow> json" where
  "topic_resource W t =
     JObj [(''id'', uuid_json W (ts_id t)), (''title'', JStr (ts_title t)), (''sub_subject_id'', jint_opt (ts_sub_subject_id t)),
           (''thumbnail_url'', jstr_opt (ts_thumbnail_url t)), (''is_published'', JBool (ts_is_published t))]"

definition content_resource :: "api_world \<Rightarrow> ContentSummary \<Rightarrow> json" where
  "content_resource W c =
     JObj [(''id'', uuid_json W (cs_id c)), (''topic_id'', uuid_json W (cs_topic_id c)), (''type'', JStr (cs_content_type c)),
           (''title'', jstr_opt (cs_title c)), (''media_url'', jstr_opt (cs_media_url c)), (''is_published'', JBool (cs_is_published c))]"

definition project_resource :: "RecommendedProjectSummary \<Rightarrow> json" where
  "project_resource r =
     JObj [(''id'', JInt (rp_id' r)), (''title'', JStr (rp_title r)), (''thumbnail_url'', jstr_opt (rp_thumbnail_url r)),
           (''project_file_url'', jstr_opt (rp_project_file_url r)), (''source_type'', JStr (rp_source_type r)),
           (''is_active'', JBool (rp_is_active r))]"

definition resource_of :: "api_world \<Rightarrow> uuid \<times> generation \<Rightarrow> json list \<Rightarrow> json" where
  "resource_of W row relations =
     (case row of (i, g) \<Rightarrow>
        JObj
          ([(''id'', uuid_json W i), (''status'', JStr (mg_status g)), (''raw_prompt'', JStr (mg_raw_prompt g)),
            (''preferred_output_type'', JStr (mg_preferred_output_type g)),
            (''resolved_output_type'', jstr_opt (mg_resolved_output_type g)), (''subject_id'', jint_opt (mg_subject_id g)),
            (''sub_subject_id'', jint_opt (mg_sub_subject_id g)),
            (''topic_id'', jopt (map_option (uuid_json W) (mg_topic_id g))),
            (''content_id'', jopt (map_option (uuid_json W) (mg_content_id g))),
            (''recommended_project_id'', jint_opt (mg_recommended_project_id g)),
            (''generated_from_id'', jopt (map_option (uuid_json W) (mg_generated_from_id g))),
            (''is_regeneration'', JBool (mg_is_regeneration g)), (''created_at'', JStr (aw_show_time W (mg_created_at g))),
            (''updated_at'', JStr (aw_show_time W (mg_updated_at g))), (''delivery_payload'', jopt (mg_delivery_payload g)),
            (''presigned_download_url'', jstr_opt (mg_presigned_download_url g)),
            (''error_code'', jstr_opt (mg_error_code g)), (''error_message'', jstr_opt (mg_error_message g))] @
           zip [''subject'', ''sub_subject'', ''topic'', ''content'', ''recommended_project''] relations))"

definition build_resource_from_gen :: "api_world \<Rightarrow> uuid \<times> generation \<Rightarrow> json" where
  "build_resource_from_gen W row = resource_of W row [JNull, JNull, JNull, JNull, JNull]"

definition build_resource :: "api_world \<Rightarrow> MediaGenerationWithRelations \<Rightarrow> json" where
  "build_resource W r =
     resource_of W (mr_generation r)
       [jopt (map_option subject_resource (mr_subject r)), jopt (map_option sub_subject_resource (mr_sub_subject r)),
        jopt (map_option (topic_resource W) (mr_topic r)), jopt (map_option (content_resource W) (mr_content r)),
        jopt (map_option project_resource (mr_recommended_project r))]"

section \<open>Handlers\<close>

abbreviation on_adb :: "(api_db, 'e, 'a) act \<Rightarrow> (api_state, 'e, 'a) act" where
  "on_adb \<equiv> zoom ap_db (\<lambda>t s. s\<lparr>ap_db := t\<rparr>)"

definition on_submit :: "(api_db submit_state, 'e, 'a) act \<Rightarrow> (api_state, 'e, 'a) act" where
  "on_submit = zoom (\<lambda>s. \<lparr>sb_db = ap_db s, sb_sent = ap_sent s\<rparr>) (\<lambda>t s. s\<lparr>ap_db := sb_db t, ap_sent := sb_sent t\<rparr>)"

definition internal :: "api_world \<Rightarrow> string \<Rightarrow> (api_db, repo_error, 'a) act \<Rightarrow> (api_state, AppError, 'a) act" where
  "internal W what m = on_adb (map_err (\<lambda>e. Internal (what @ show_repo_error (aw_sqlx_text W) e)) m)"

definition require_teacher :: "Principal \<Rightarrow> (api_state, AppError, unit) act" where
  "require_teacher p =
     (if pp_role p \<noteq> ''teacher''
      then raise (Forbidden (''requires role '' @ APOS @ ''teacher'' @ APOS @ '', user has '' @ APOS @ pp_role p @ APOS))
      else ok ())"

definition check_user_limit :: "api_world \<Rightarrow> string \<Rightarrow> int \<Rightarrow> (api_state, AppError, unit) act" where
  "check_user_limit W what user =
     (case aw_limited W what user of
        Some (status, headers, body) \<Rightarrow> raise (App_RateLimited status headers body)
      | None \<Rightarrow> ok ())"

text \<open>An error of the stream is only logged.\<close>

definition enqueue_job :: "api_world \<Rightarrow> uuid \<Rightarrow> uuid \<Rightarrow> (api_state, AppError, unit) act" where
  "enqueue_job W i job =
     (if aw_redis W
      then modify (\<lambda>s. case ap_queue_faults s of
             Some e # _ \<Rightarrow> s\<lparr>ap_queue_faults := tl (ap_queue_faults s)\<rparr>
           | _ \<Rightarrow> s\<lparr>ap_queue_faults := tl (ap_queue_faults s),
                    ap_queue := ap_queue s @ [enqueue (aw_ext W) (aw_now W) (x_uuid_str (aw_ext W) i) (x_uuid_str (aw_ext W) job) 1]\<rparr>)
      else ok ())"

definition created_json :: "api_world \<Rightarrow> uuid \<Rightarrow> uuid \<Rightarrow> string \<Rightarrow> json" where
  "created_json W i job status =
     JObj [(''generation_id'', uuid_json W i), (''job_id'', uuid_json W job), (''status'', JStr status),
           (''poll_url'', JStr (''/api/v1/media-generations/'' @ x_uuid_str (aw_ext W) i @ ''/job-status''))]"

definition create_generation ::
  "api_world \<Rightarrow> Principal \<Rightarrow> CreateMediaGenerationRequest \<Rightarrow> (api_state, AppError, nat \<times> json) act" where
  "create_generation W p payload =
     and_then (require_teacher p) (\<lambda>_.
     and_then (check_user_limit W ''media-generations:create'' (pp_user_id p)) (\<lambda>_.
     and_then (on_adb (map_err (\<lambda>e. Internal (''failed to create media generation: '' @ aw_submission_text W e))
       (create_or_reuse (aw_ext W) (aw_env1 W) (aw_env2 W) (aw_new_id W)
         \<lparr>ci_teacher_id = pp_user_id p, ci_raw_prompt = rc_raw_prompt payload,
          ci_preferred_output_type = rc_preferred_output_type payload, ci_subject_id = rc_subject_id payload,
          ci_sub_subject_id = rc_sub_subject_id payload,
          ci_provider_metadata = \<lparr>pm_llm_provider = None, pm_llm_model = None, pm_generator_provider = None, pm_generator_model = None\<rparr>\<rparr>)))
       (\<lambda>result.
         if cr_was_created result
         then
           and_then (internal W ''failed to set generation job status: ''
             (update_generation_job_status (cr_id result) (Some (aw_job_id W)) ''pending'')) (\<lambda>_.
           and_then (enqueue_job W (cr_id result) (aw_job_id W)) (\<lambda>_.
             ok (accepted_with_message ''Generasi media berhasil dibuat dan sedang diproses.''
               (created_json W (cr_id result) (aw_job_id W) ''pending''))))
         else
           and_then (internal W ''failed to fetch created generation: ''
             (find_by_id_for_teacher (aw_ext W) (cr_id result) (pp_user_id p))) (\<lambda>found.
           and_then (ok_or (Internal ''created generation not found'') found) (\<lambda>r.
             let g = snd (mr_generation r)
             in ok (accepted_with_message ''Generasi media berhasil dibuat.''
                  (created_json W (cr_id result) (unwrap_or (aw_job_id W) (mg_generation_job_id g)) (mg_status g))))))))"

definition index_generations :: "api_world \<Rightarrow> Principal \<Rightarrow> uuid option \<Rightarrow> (api_state, AppError, nat \<times> json) act" where
  "index_generations W p parent_id =
     and_then (require_teacher p) (\<lambda>_.
       case parent_id of
         Some i \<Rightarrow>
           and_then (internal W [] (find_chain i)) (\<lambda>(ancestors, children).
             ok (ok_response (JObj
               [(''ancestors'', JArr (map (build_resource_from_gen W) ancestors)),
                (''children'', JArr (map (build_resource_from_gen W) children))])))
       | None \<Rightarrow>
           and_then (internal W [] (find_recent_for_teacher (pp_user_id p) 20)) (\<lambda>generations.
             ok (ok_response (JObj [(''generations'', JArr (map (build_resource W) generations))]))))"

definition fetch_own :: "api_world \<Rightarrow> Principal \<Rightarrow> uuid \<Rightarrow> (api_state, AppError, MediaGenerationWithRelations) act" where
  "fetch_own W p i =
     and_then (internal W [] (find_by_id_for_teacher (aw_ext W) i (pp_user_id p)))
       (ok_or (App_NotFound ''media generation not found''))"

definition show_generation :: "api_world \<Rightarrow> Principal \<Rightarrow> uuid \<Rightarrow> (api_state, AppError, nat \<times> json) act" where
  "show_generation W p i =
     and_then (require_teacher p) (\<lambda>_.
     and_then (fetch_own W p i) (\<lambda>r.
       ok (ok_with_message ''Detail generasi media berhasil diambil.'' (build_resource W r))))"

definition PRESIGNED_URL_TTL_SECS :: nat where
  "PRESIGNED_URL_TTL_SECS = 3600"

text \<open>The address of a finished artifact and the time it expires.\<close>

definition download_url :: "api_world \<Rightarrow> generation \<Rightarrow> string option \<times> string option" where
  "download_url W g =
     (let stored = (mg_presigned_download_url g, map_option (aw_show_time W) (mg_presigned_url_expires_at g))
      in if mg_generation_status g = Some ''completed''
         then (case mg_s3_object_key g of
                 Some s3_key \<Rightarrow>
                   (case generate_presigned_url (aw_presigner W) (aw_transit_bucket W) s3_key PRESIGNED_URL_TTL_SECS of
                      Inr url \<Rightarrow> (Some url, Some (aw_show_time W (aw_now W + int PRESIGNED_URL_TTL_SECS * 10 ^ 9)))
                    | Inl _ \<Rightarrow> stored)
               | None \<Rightarrow> stored)
         else (None, None))"

definition job_status_json :: "api_world \<Rightarrow> uuid \<Rightarrow> generation \<Rightarrow> json" where
  "job_status_json W i g =
     JObj
       ([(''generation_id'', uuid_json W i)] @ skip_none ''job_id'' (uuid_json W) (mg_generation_job_id g) @
        [(''status'', JStr (unwrap_or (mg_status g) (mg_generation_status g)))] @
        skip_none ''presigned_download_url'' JStr (fst (download_url W g)) @
        skip_none ''presigned_url_expires_at'' JStr (snd (download_url W g)) @
        skip_none ''error_code'' JStr (mg_generation_error_code g) @
        skip_none ''error_message'' JStr (mg_generation_error_message g))"

definition job_status :: "api_world \<Rightarrow> Principal \<Rightarrow> uuid \<Rightarrow> (api_state, AppError, nat \<times> json) act" where
  "job_status W p i =
     and_then (require_teacher p) (\<lambda>_.
     and_then (fetch_own W p i) (\<lambda>r.
       ok (ok_response (job_status_json W (fst (mr_generation r)) (snd (mr_generation r))))))"

definition regenerate :: "api_world \<Rightarrow> Principal \<Rightarrow> uuid \<Rightarrow> string \<Rightarrow> (api_state, AppError, nat \<times> json) act" where
  "regenerate W p i additional_prompt =
     and_then (require_teacher p) (\<lambda>_.
     and_then (check_user_limit W ''media-generations:regenerate'' (pp_user_id p)) (\<lambda>_.
     and_then (fetch_own W p i) (\<lambda>parent.
       let status = mg_status (snd (mr_generation parent))
       in if \<not> is_terminal_status status
          then raise (App_Validation (''parent generation status '' @ APOS @ status @ APOS @ '' is not terminal '' @
            map char_of [226 :: nat, 128, 148] @ '' must be completed, failed, or cancelled''))
          else
            and_then (on_adb (map_err (\<lambda>e. Internal (''failed to create regeneration: '' @ aw_submission_text W e))
              (create_regeneration (aw_ext W) (aw_new_id W) (x_uuid_str (aw_ext W) i) additional_prompt))) (\<lambda>new_id.
            and_then (ignore_err (on_adb (update_generation_job_status new_id (Some (aw_job_id W)) ''pending''))) (\<lambda>_.
            and_then (ignore_err (on_submit (submit_job (aw_renderer W) (aw_client W) (x_uuid_str (aw_ext W) new_id)
              (x_uuid_str (aw_ext W) (aw_job_id W))))) (\<lambda>_.
            and_then (internal W ''failed to fetch regeneration: ''
              (find_by_id_for_teacher (aw_ext W) new_id (pp_user_id p))) (\<lambda>found.
            and_then (ok_or (Internal ''regeneration not found'') found) (\<lambda>r.
              ok (accepted_with_message ''Regenerasi media berhasil dibuat.'' (build_resource W r)))))))))) "

section \<open>Reads\<close>

text \<open>A read leaves the table of the generations, does not panic, and returns values of \<open>P\<close>.\<close>

definition reads :: "('a \<Rightarrow> bool) \<Rightarrow> ('z db_scheme, 'e, 'a) act \<Rightarrow> bool" where
  "reads P m \<longleftrightarrow> (\<forall>s. wp m (\<lambda>a t. gens t = gens s \<and> P a) (\<lambda>x t. gens t = gens s \<and> x \<noteq> Panic) s)"

lemma readsD: "reads P m \<Longrightarrow> wp m (\<lambda>a t. gens t = gens s \<and> P a) (\<lambda>x t. gens t = gens s \<and> x \<noteq> Panic) s"
  by (simp add: reads_def)

lemma reads_and_then:
  assumes "reads (\<lambda>_. True) m" and "\<And>a. reads P (n a)"
  shows "reads P (and_then m n)"
  unfolding reads_def wp_and_then
proof
  fix s
  show "wp m (\<lambda>a. wp (n a) (\<lambda>a t. gens t = gens s \<and> P a) (\<lambda>x t. gens t = gens s \<and> x \<noteq> Panic))
      (\<lambda>x t. gens t = gens s \<and> x \<noteq> Panic) s"
    by (rule wp_mono [OF readsD [OF assms(1)]]) (auto intro: wp_mono [OF readsD [OF assms(2)]])
qed

lemma reads_ok: "P a \<Longrightarrow> reads P (ok a)"
  by (simp add: reads_def wp_ok)

lemma reads_settled: "reads (\<lambda>_. True) (settled r)"
  by (simp add: reads_def wp_simps settled_def split: sum.split)

lemma reads_fetch: "reads (\<lambda>_. True) (fetch_any what table key ids)"
  unfolding reads_def by (auto simp: wp_simps fetch_any_def intro!: wp_pub_statementI)

lemma reads_try:
  assumes "reads (\<lambda>_. True) m"
  shows "reads (\<lambda>_. True) (try_err m)"
  unfolding reads_def wp_try_err
proof
  fix s
  show "wp m (\<lambda>a t. gens t = gens s \<and> True)
      (\<lambda>x. case x of Error e \<Rightarrow> (\<lambda>t. gens t = gens s \<and> True) | Panic \<Rightarrow> (\<lambda>t. gens t = gens s \<and> Panic \<noteq> Panic)) s"
    by (rule wp_mono [OF readsD [OF assms]]) (auto split: exn.split)
qed

lemma reads_attach: "reads (\<lambda>rs. map mr_generation rs = rows) (attach_relations rows)"
  unfolding attach_relations_def fetch_subjects_def fetch_sub_subjects_def fetch_topics_def fetch_contents_def fetch_recommended_projects_def
  by (auto intro!: reads_and_then reads_try reads_fetch reads_settled reads_ok simp: compose_relations_def Let_def comp_def)

lemma attach_one:
  "wp (attach_relations [row]) (\<lambda>rs t. gens t = gens s \<and> map mr_generation rs = [row]) (\<lambda>_ t. gens t = gens s) s"
  by (rule wp_mono [OF readsD [OF reads_attach]]) auto

lemma wp_find_own:
  "wp (find_by_id_for_teacher E i teacher)
     (\<lambda>found t. gens t = gens s \<and>
        (case found of None \<Rightarrow> True | Some r \<Rightarrow> \<exists>g. mr_generation r = (i, g) \<and> map_of (gens s) i = Some g \<and> mg_teacher_id g = teacher))
     (\<lambda>_ t. gens t = gens s) s"
  unfolding find_by_id_for_teacher_def wp_and_then wp_map_err
proof (rule wp_db_select_I, goal_cases)
  case (3 fs found)
  show ?case
  proof (cases found)
    case (Some g)
    with 3 have "map_of (gens s) i = Some g" "mg_teacher_id g = teacher" by (auto split: option.splits if_splits)
    then show ?thesis
      using attach_one [of "(i, g)" "s\<lparr>faults := fs\<rparr>"]
      by (auto simp: Some wp_and_then wp_ok elim!: wp_mono split: list.split)
  qed (simp add: wp_ok)
qed simp_all

section \<open>Writes\<close>

lemma wp_insert_returning_new:
  assumes "\<And>e fs. R (Error e) (s\<lparr>faults := fs\<rparr>)"
    and "\<And>fs. i \<notin> fst ` set (gens s) \<Longrightarrow> Q i (s\<lparr>faults := fs, gens := gens s @ [(i, row (db_now s))]\<rparr>)"
  shows "wp (insert_returning i row) Q R s"
  unfolding insert_returning_def
  by (rule wp_db_call_I) (use assms in \<open>auto simp: insert_row_def split: sum.split\<close>)

lemma map_of_snoc: "i \<notin> fst ` set t \<Longrightarrow> ([i \<mapsto> g] ++ map_of t) i = Some g"
  by (simp add: map_add_Some_iff map_of_eq_None_iff [THEN iffD2] split: option.split)

text \<open>The new row of a submission is queued; a row that is reused is not new.\<close>

lemma wp_create_new:
  "wp (create_or_reuse E env1 env2 new_id input)
     (\<lambda>r t. cr_was_created r \<longrightarrow> cr_id r = new_id \<and> (\<exists>g. map_of (gens t) new_id = Some g \<and> mg_status g = ''queued''))
     (\<lambda>_ _. True) s"
  unfolding create_or_reuse_def Let_def retry_lookup_def
  by (auto simp: wp_simps map_of_snoc intro!: wp_intros wp_insert_returning_new split: option.split sum.split)

lemma wp_regeneration_new:
  "wp (create_regeneration E new_id parent prompt)
     (\<lambda>i t. i = new_id \<and> (\<exists>g. map_of (gens t) new_id = Some g \<and> mg_status g = ''queued'' \<and> mg_generation_spec_payload g = None))
     (\<lambda>_ _. True) s"
  unfolding create_regeneration_def Let_def wp_and_then wp_ok_or wp_map_err
  by (auto split: option.split intro!: wp_db_select_I wp_db_call_I)
    (auto simp: wp_simps map_of_snoc insert_row_def new_generation_def split: option.split sum.split if_splits intro!: wp_db_call_I)

lemma wp_pending:
  assumes "map_of (gens v) i = Some g"
    and "\<And>a t now. map_of (gens t) i = Some (g\<lparr>mg_generation_job_id := job, mg_generation_status := Some st, mg_updated_at := now\<rparr>) \<Longrightarrow> Q a t"
    and "\<And>e t. map_of (gens t) i = Some g \<Longrightarrow> R (Error e) t"
  shows "wp (update_generation_job_status i job st) Q R v"
  unfolding update_generation_job_status_def wp_and_then wp_map_err
  by (rule wp_db_call_I) (use assms in \<open>auto simp: wp_simps Let_def\<close>)

definition enqueued :: "api_world \<Rightarrow> api_state \<Rightarrow> api_state \<Rightarrow> bool" where
  "enqueued W s t \<longleftrightarrow>
     (\<exists>g. map_of (gens (ap_db t)) (aw_new_id W) = Some g \<and> mg_status g = ''queued'' \<and>
        mg_generation_job_id g = Some (aw_job_id W) \<and> mg_generation_status g = Some ''pending'' \<and>
        (ap_queue t = ap_queue s \<or>
         ap_queue t = ap_queue s @
           [enqueue (aw_ext W) (aw_now W) (x_uuid_str (aw_ext W) (aw_new_id W)) (x_uuid_str (aw_ext W) (aw_job_id W)) 1]))"

lemma wp_create_generation:
  "wp (create_generation W p payload)
     (\<lambda>_ t. ap_sent t = ap_sent s \<and> (ap_queue t = ap_queue s \<or> enqueued W s t))
     (\<lambda>_ t. ap_sent t = ap_sent s \<and> ap_queue t = ap_queue s) s"
proof -
  let ?Q = "\<lambda>_ t. ap_sent t = ap_sent s \<and> (ap_queue t = ap_queue s \<or> enqueued W s t)"
  let ?R = "\<lambda>_ t. ap_sent t = ap_sent s \<and> ap_queue t = ap_queue s"
  have new: "wp (and_then (internal W what (update_generation_job_status (aw_new_id W) (Some (aw_job_id W)) ''pending'')) (\<lambda>_.
       and_then (enqueue_job W (aw_new_id W) (aw_job_id W)) (\<lambda>_. ok x))) ?Q ?R v"
    if "ap_sent v = ap_sent s" "ap_queue v = ap_queue s"
      "map_of (gens (ap_db v)) (aw_new_id W) = Some g" "mg_status g = ''queued''" for v what x g
    unfolding wp_and_then internal_def wp_map_err wp_zoom
    by (rule wp_pending [where i = "aw_new_id W"])
      (use that in \<open>auto simp: wp_simps enqueue_job_def enqueued_def split: list.split option.split\<close>)
  have old: "wp (and_then (internal W what (find_by_id_for_teacher E i user)) (\<lambda>found.
       and_then (ok_or e found) (\<lambda>r. ok (f r)))) ?Q ?R v"
    if "ap_sent v = ap_sent s" "ap_queue v = ap_queue s" for v what E i user e f
    unfolding wp_and_then internal_def wp_map_err wp_zoom
    by (rule wp_any) (use that in \<open>auto simp: wp_simps split: option.split\<close>)
  show ?thesis
    unfolding create_generation_def require_teacher_def check_user_limit_def
    apply (simp add: wp_and_then [of "if _ then _ else _"] wp_and_then [of "case _ of None \<Rightarrow> _ | Some _ \<Rightarrow> _"] wp_and_then [of "zoom _ _ _"]
      wp_raise wp_ok wp_if wp_map_err wp_zoom split: option.split)
    apply (intro impI conjI allI)
    apply (rule wp_mono [OF wp_create_new])
    apply (auto simp: Let_def intro!: new old)
    done
qed

text \<open>
  C15. Creating a generation hands at most one job over, to the stream and never to the renderer: whatever fails, the stream is as it was, or
  it has one more entry, for the first attempt of the new row, which is queued, pending, and carries the job of that entry.
\<close>

theorem creation_enqueues_once:
  "case create_generation W p payload s of
     (Inl _, t) \<Rightarrow> ap_sent t = ap_sent s \<and> ap_queue t = ap_queue s
   | (Inr _, t) \<Rightarrow> ap_sent t = ap_sent s \<and> pp_role p = ''teacher'' \<and> (ap_queue t = ap_queue s \<or> enqueued W s t)"
  using wp_create_generation [of W p payload s]
  by (cases "pp_role p = ''teacher''") (auto simp: wp_def create_generation_def require_teacher_def and_then_def raise_def split: prod.splits sum.splits)

text \<open>
  The details of a generation are shown to its own teacher only; its chain is shown to every teacher who knows its id: the
  answer to a request with a parent does not depend on who asks.
\<close>

theorem details_scoped_chain_shared:
  "(case show_generation W p i s of
      (Inl _, t) \<Rightarrow> gens (ap_db t) = gens (ap_db s)
    | (Inr _, t) \<Rightarrow> gens (ap_db t) = gens (ap_db s) \<and> pp_role p = ''teacher'' \<and>
        (\<exists>g. map_of (gens (ap_db s)) i = Some g \<and> mg_teacher_id g = pp_user_id p)) \<and>
   index_generations W p (Some i) s = index_generations W (p\<lparr>pp_user_id := other\<rparr>) (Some i) s"
proof -
  have "wp (show_generation W p i)
     (\<lambda>_ t. gens (ap_db t) = gens (ap_db s) \<and> pp_role p = ''teacher'' \<and>
        (\<exists>g. map_of (gens (ap_db s)) i = Some g \<and> mg_teacher_id g = pp_user_id p))
     (\<lambda>_ t. gens (ap_db t) = gens (ap_db s)) s"
    unfolding show_generation_def fetch_own_def internal_def require_teacher_def wp_and_then wp_if wp_zoom wp_map_err wp_ok wp_raise
    by (auto simp: wp_simps split: option.splits intro!: wp_mono [OF wp_find_own])
  then show ?thesis
    by (auto simp: wp_def index_generations_def require_teacher_def split: prod.splits sum.splits)
qed

lemma wp_no_spec:
  assumes "x_parse_uuid (rw_ext V) gid = Some i" and "map_of (gens (sb_db s)) i = Some g" and "mg_generation_spec_payload g = None"
  shows "wp (submit_job V C gid jid) (\<lambda>_ _. False) (\<lambda>_ t. sb_sent t = sb_sent s \<and> gens (sb_db t) = gens (sb_db s)) s"
  unfolding submit_job_def assms(1) wp_and_then wp_ok_or option.case
  by (rule wp_mono [OF wp_load_spec]) (use assms(2,3) in auto)

text \<open>
  C29. A regeneration is stored and then forgotten: it never sends a job to the renderer, because the new row has no specification yet and the
  error of the missing specification is only logged; and it never puts one into the stream that would compute the specification. On
  success the row stays queued with nothing that will process it.
\<close>

theorem regeneration_is_never_processed:
  assumes "x_parse_uuid (rw_ext (aw_renderer W)) (x_uuid_str (aw_ext W) (aw_new_id W)) = Some (aw_new_id W)"
  shows "case regenerate W p i prompt s of
     (Inl _, t) \<Rightarrow> ap_sent t = ap_sent s \<and> ap_queue t = ap_queue s
   | (Inr _, t) \<Rightarrow> ap_sent t = ap_sent s \<and> ap_queue t = ap_queue s \<and>
       (\<exists>g. map_of (gens (ap_db t)) (aw_new_id W) = Some g \<and> mg_status g = ''queued'' \<and> mg_generation_spec_payload g = None)"
proof -
  let ?row = "\<lambda>t. \<exists>g. map_of (gens t) (aw_new_id W) = Some g \<and> mg_status g = ''queued'' \<and> mg_generation_spec_payload g = None"
  let ?Q = "\<lambda>_ t. ap_sent t = ap_sent s \<and> ap_queue t = ap_queue s \<and> ?row (ap_db t)"
  let ?R = "\<lambda>_ t. ap_sent t = ap_sent s \<and> ap_queue t = ap_queue s"
  have last: "wp (and_then (internal W what (find_by_id_for_teacher E j user)) (\<lambda>found. and_then (ok_or e found) (\<lambda>r. ok (f r)))) ?Q ?R v"
    if "ap_sent v = ap_sent s" "ap_queue v = ap_queue s" "?row (ap_db v)" for v what E j user e f
    unfolding wp_and_then internal_def wp_map_err wp_zoom
    by (rule wp_mono [OF wp_find_own]) (use that in \<open>auto simp: wp_simps split: option.split\<close>)
  have submit: "wp (and_then (ignore_err (on_submit (submit_job (aw_renderer W) C (x_uuid_str (aw_ext W) (aw_new_id W)) jid))) (\<lambda>_.
      and_then (internal W what (find_by_id_for_teacher E j user)) (\<lambda>found. and_then (ok_or e found) (\<lambda>r. ok (f r))))) ?Q ?R v"
    if v: "ap_sent v = ap_sent s" "ap_queue v = ap_queue s" "?row (ap_db v)" for v C jid what E j user e f
  proof -
    from v(3) obtain g where g: "map_of (gens (ap_db v)) (aw_new_id W) = Some g" "mg_status g = ''queued''" "mg_generation_spec_payload g = None"
      by blast
    show ?thesis
      unfolding wp_and_then [of "ignore_err _"] wp_ignore_err on_submit_def wp_zoom
      by (rule wp_mono [OF wp_no_spec [OF assms, of "\<lparr>sb_db = ap_db v, sb_sent = ap_sent v\<rparr>" g]])
        (use v(1,2) g in \<open>auto split: exn.split intro!: last\<close>)
  qed
  have "wp (regenerate W p i prompt) ?Q ?R s"
    unfolding regenerate_def require_teacher_def check_user_limit_def fetch_own_def internal_def [of W "[]"]
    apply (simp add: wp_and_then [of "if _ then _ else _"] wp_and_then [of "case _ of None \<Rightarrow> _ | Some _ \<Rightarrow> _"] wp_and_then [of "zoom _ _ _"]
      wp_and_then [of "and_then _ _"] wp_and_then [of "ok_or _ _"] wp_ok_or Let_def
      wp_raise wp_ok wp_if wp_map_err wp_zoom split: option.split)
    apply (intro impI conjI allI)
    apply (rule wp_mono [OF wp_find_own])
    apply (auto simp: wp_raise wp_and_then [of "zoom _ _ _"] wp_zoom wp_map_err wp_and_then [of "ignore_err (zoom _ _ _)"] wp_ignore_err split: option.split)
    apply (rule wp_mono [OF wp_regeneration_new])
     apply (auto intro!: wp_pending submit)
    done
  then show ?thesis by (auto simp: wp_def split: prod.splits sum.splits)
qed

section \<open>A regeneration\<close>

definition sample_renderer_world :: renderer_world where
  "sample_renderer_world =
     \<lparr>rw_ext = sample_externals, rw_codec = ww_codec sample_webhook_world, rw_hmac_hex = (\<lambda>k b. k @ b), rw_request_id = ''r'', rw_now = 5,
      rw_http = (\<lambda>_. Replied 202 (Inr ''{}'')), rw_decode_text = (\<lambda>_. []), rw_sqlx_text = (\<lambda>_. [])\<rparr>"

definition sample_api_world :: api_world where
  "sample_api_world =
     \<lparr>aw_ext = sample_externals, aw_sqlx_text = (\<lambda>_. []), aw_submission_text = (\<lambda>_. []), aw_show_time = show_int, aw_now = 5,
      aw_limited = (\<lambda>_ _. None), aw_redis = True, aw_presigner = pw_presigner sample_pub_world, aw_transit_bucket = ''t'',
      aw_new_id = 2, aw_job_id = 3, aw_env1 = (\<lambda>t. t), aw_env2 = (\<lambda>t. t), aw_renderer = sample_renderer_world,
      aw_client = renderer_client ''http://renderer'' ''http://gateway'' ''k''\<rparr>"

definition sample_teacher :: Principal where
  "sample_teacher = \<lparr>pp_user_id = 7, pp_role = ''teacher''\<rparr>"

definition sample_api_state :: api_state where
  "sample_api_state =
     \<lparr>ap_db = \<lparr>gens = [(1, sample_row\<lparr>mg_status := ''completed'', mg_active_duplicate_key := None\<rparr>)], db_now = 5, faults = [], pd_topics = [],
        pd_contents = [], pd_projects = [], pd_next_project = 1, ad_subjects = [], ad_sub_subjects = []\<rparr>,
      ap_queue = [], ap_queue_faults = [], ap_sent = []\<rparr>"

lemma sample_regeneration:
  "case regenerate sample_api_world sample_teacher 1 ''more'' sample_api_state of (Inr _, _) \<Rightarrow> True | _ \<Rightarrow> False"
proof -
  have id: "x_uuid_str sample_externals 2 = ''g2''" "x_uuid_str sample_externals 1 = ''g1''" "x_parse_uuid sample_externals ''g2'' = Some 2"
    by (simp_all add: sample_externals_def)
  show ?thesis
    apply (simp add: regenerate_def require_teacher_def check_user_limit_def fetch_own_def internal_def find_by_id_for_teacher_def
      attach_relations_def fetch_subjects_def fetch_sub_subjects_def fetch_topics_def fetch_contents_def fetch_recommended_projects_def fetch_any_def
      settled_def compose_relations_def create_regeneration_def update_generation_job_status_def submit_job_def load_spec_def on_submit_def
      sample_api_world_def sample_teacher_def sample_api_state_def sample_renderer_world_def is_terminal_status_def insert_row_def
      and_then_def ok_or_def map_err_def zoom_def ignore_err_def try_err_def ok_def raise_def db_select_def db_call_def Let_def update_gen_def
      generation_status_ok_def sample_row_def new_generation_def sample_payload_def id List.map_filter_def)
    done
qed

theorem regeneration_is_never_processed_witness:
  "\<exists>r t g. regenerate sample_api_world sample_teacher 1 ''more'' sample_api_state = (Inr r, t) \<and> ap_sent t = [] \<and> ap_queue t = [] \<and>
     map_of (gens (ap_db t)) 2 = Some g \<and> mg_status g = ''queued''"
proof -
  obtain r t where run: "regenerate sample_api_world sample_teacher 1 ''more'' sample_api_state = (Inr r, t)"
    using sample_regeneration by (auto split: prod.splits sum.splits)
  have "x_parse_uuid (rw_ext (aw_renderer sample_api_world)) (x_uuid_str (aw_ext sample_api_world) (aw_new_id sample_api_world)) =
      Some (aw_new_id sample_api_world)"
    by (simp add: sample_api_world_def sample_renderer_world_def sample_externals_def)
  from regeneration_is_never_processed [OF this, where p = sample_teacher and i = 1 and prompt = "''more''" and s = sample_api_state] run
  show ?thesis by (auto simp: sample_api_state_def) (auto simp: sample_api_world_def)
qed

end
