(* ===== verification/Spec2Isabelle.thy ===== *)
theory Spec2Isabelle
  imports Router Rate_Limit Worker Plan_Mode Clarification Aggregation Taxonomy Cache
    Step_Adapters Generation_Api
begin

text \<open>
  Verification development of the klass backend gateway, a Rust service that turns the prompt of a teacher into a
  teaching document. The paths below are relative to \<open>src/src\<close> of the repository.

  \<^bold>\<open>The program.\<close> A request creates a row of the table \<open>media_generations\<close> and puts a job into a Redis stream
  (\<open>api/rest/media_generations.rs\<close>, \<open>orchestrator/submission.rs\<close>, \<open>queue/redis_streams.rs\<close>). A worker takes jobs from the
  stream (\<open>queue/worker.rs\<close>) and runs the workflow on them (\<open>orchestrator/workflow.rs\<close>), which moves the row along a
  matrix of statuses (\<open>orchestrator/lifecycle.rs\<close>, \<open>orchestrator/audit_trail.rs\<close>): it interprets the prompt and drafts the
  content with a language model (\<open>llm/interpret.rs\<close>, \<open>llm/draft.rs\<close>, through \<open>llm/step_adapters.rs\<close>), decides the output type and
  builds the specification of the document (\<open>orchestrator/decision.rs\<close>), submits it to a renderer
  (\<open>media_gen/python_client.rs\<close>), and, after the renderer has called back (\<open>api/rest/media_webhook.rs\<close>), publishes the artifact
  (\<open>media_gen/publication.rs\<close>, \<open>storage/r2.rs\<close>) and composes a message (\<open>llm/respond.rs\<close>). Calls of a model go through limits
  (\<open>governance/rate_limit.rs\<close>), a cache (\<open>cache/mod.rs\<close>), a router over two providers (\<open>providers/\<close>) and a ledger
  (\<open>governance/ledger.rs\<close>). Beside this pipeline, \<open>recommendation/\<close> builds the feed of the home page.

  \<^bold>\<open>Foundations.\<close> \<open>Prelude\<close>: an operation is a function \<open>('s, 'e, 'a) act\<close> from a state to a result and a state; a result is a value, an
  error, or a panic; \<open>and_then\<close> is \<open>?\<close>, \<open>zoom\<close> runs an operation on a part of a state, and \<open>wp\<close> is the weakest precondition with one
  postcondition for values and one for failures, whose equations are collected in \<open>wp_simps\<close> and whose rules under failing
  statements in \<open>wp_intros\<close>. \<open>Rust_Std\<close>: strings as UTF-8 bytes, wrapping integers. \<open>Json\<close>, \<open>Serde\<close>:
  \<open>serde_json::Value\<close>, and the decoders and encoders that \<open>serde\<close> derives, written out per struct. \<open>F64\<close>: binary64 with its rounding,
  exact. \<open>Slice_Sort\<close>: comparisons and \<open>sort_by\<close>. \<open>Breaker\<close>: the contract of a circuit breaker.

  \<^bold>\<open>Generations.\<close> \<open>Lifecycle\<close> holds the statuses and their matrix, \<open>Generations\<close> the row and the table with the statements over it,
  \<open>Generations_Repo\<close> the repository; \<open>Audit_Payload\<close>, \<open>Audit_Sanitize\<close> and \<open>Audit_Trail\<close> the operations that change a status and
  the JSON log they keep. Their lemmas: the matrix has no cycle and every status can still end; each operation keeps the keys of the
  table; every change of status is a step of the matrix, whatever fails; what may enter the log. \<open>Submission\<close>: the
  fingerprint of a request, its reuse and its regeneration, with another session committing in between.

  \<^bold>\<open>Workflow and worker.\<close> \<open>Ranking\<close>, \<open>Gen_Spec\<close>, \<open>Decision\<close>: candidates scored in \<open>f64\<close>, sorted, and the chosen one equal to a
  maximum; the specification and what of the draft survives in it. \<open>Workflow\<close>: \<open>process\<close> over arbitrary steps (the
  record \<open>workflow_steps\<close> are the three traits of the code). \<open>Job_Queue\<close>, \<open>Worker\<close>: entries of the stream, claims, retries,
  dead letters and the tasks the worker spawns. Their lemmas follow a run through every failure: the row only moves
  forward, a failing entry ends in the dead letters after its tries, every task is settled.

  \<^bold>\<open>Language model.\<close> \<open>Interp_Types\<close>, \<open>Interp_Repair\<close>, \<open>Interp_Encode\<close>, \<open>Plan_Mode\<close>, \<open>Standards\<close>, \<open>Clarification\<close>,
  \<open>Content_Draft\<close>, \<open>Delivery\<close>: the contracts, how a completion is repaired, decoded, validated and encoded again, and the questions
  that are asked back. \<open>Rate_Limit\<close>, \<open>Cache\<close>, \<open>Ledger\<close>, \<open>Router\<close>, \<open>Provider_Client\<close>: what stands around a call. \<open>Llm_Service\<close> is what the
  three services have in common; \<open>Interpret_Service\<close>, \<open>Draft_Service\<close> and \<open>Respond_Service\<close> are the services, \<open>Llm_Run\<close> any
  sequence of them on one state, \<open>Step_Adapters\<close> the services as steps of the workflow. The lemmas: limits hold over
  sequences of requests, only validated completions are cached, the cache is a map whose entries expire, a router opens after
  five failures, encodings decode to what they came from. \<open>Taxonomy\<close> infers a subject from a prompt.

  \<^bold>\<open>Artifacts.\<close> \<open>Renderer_Client\<close>: one signed request per submission. \<open>Webhook\<close>, with the errors and envelopes of \<open>Api_Response\<close>:
  what a callback records, and that a finished row is final. \<open>Object_Storage\<close>, \<open>Publication\<close>: the transaction around the uploads, what it
  leaves when it fails and what it stores when it succeeds. \<open>Generation_Api\<close>: the five handlers over all of this, with the
  reads of relations.

  \<^bold>\<open>Recommendations.\<close> \<open>Personalization\<close>, \<open>Aggregation\<close>: the feed of the home page from its sources, its order, and the distribution
  of sub-subjects against a reference definition.

  \<^bold>\<open>Interfaces.\<close> Each locale is a contract between components, interpreted where it is provided: \<open>ranked_machine\<close> (a machine whose steps climb
  a bounded rank; the lifecycle), \<open>status_keeper\<close> (what the workflow relies on of an operation that changes a status; the
  audit trail), \<open>counting_breaker\<close> (the worker and the router), \<open>slice_sort\<close> (the contract of \<open>sort_by\<close>: a stable sort for total
  preorders, and for other comparisons some permutation or a panic; an insertion sort), \<open>cached_contract\<close> (what the
  services rely on of a stored payload; the three contracts).

  \<^bold>\<open>Parameters.\<close> What is not under \<open>src/src\<close> is an argument: the records \<open>externals\<close> (UUIDs, dates, SHA-256, Unicode case), \<open>codec\<close> and
  \<open>regex\<close> (the JSON parser, regular expressions), HTTP, HMAC, the signer of addresses, the texts of the prompts and of
  error messages, decimal division, the order of a \<open>HashMap\<close>. The clock and fresh ids are arguments too; a record of usage takes one reading of
  the clock where the code takes several. A statement of the database fails where the list \<open>faults\<close> of the state says so, and the
  theorems hold for every list; a transaction that fails, at its commit too, leaves the tables. A call of the
  storage can fail with or without its effect. Requests run one after the other; where the code is written against concurrent sessions, their
  writes are arguments (\<open>env1\<close>, \<open>env2\<close> of a submission, \<open>env\<close> of a wait for the cache, the other sessions of \<open>Llm_Run\<close>).

  \<^bold>\<open>Loops and bounds.\<close> The walk to the ancestors of a row is bounded by 50 rows in the code. The wait for a cache entry takes
  fuel, and a theorem of \<open>Cache\<close> gives the fuel that suffices for any delay of the reads: the time-out over the interval, plus two; the services
  wait ten seconds in intervals of fifty milliseconds and are given 202. The worker and its retries are steps over given
  events, so their runs are finite lists. Counters are words or integers with the wrap-around of their type; decimals are
  integers in units of \<open>10 ^ -28\<close>; a \<open>varchar(n)\<close> refuses what does not fit.

  \<^bold>\<open>Not modelled.\<close> Redis but for the commands the queue sends and the replies it reads; authentication, the handlers outside
  the generations, the administration interface and the repositories over other single tables, which are statements with
  little logic; freelancer matching; the start of the process. Of the modelled parts: logging and metrics, the
  order of the members of an object that has passed through a \<open>jsonb\<close> column and duplicate members of an object, the
  bytes of third-party formats, and time-outs of HTTP other than as a failed call.
\<close>

end
